(* ===== verification/Go_Prelude.thy ===== *)
theory Go_Prelude
  imports Main "HOL-Library.Sublist" "HOL-Library.Char_ord" "HOL-Library.List_Lexorder"
    "HOL-Library.Product_Lexorder"
begin

text \<open>
  The vocabulary every component shares: Go strings as byte lists with the operations of the
  package \<^verbatim>\<open>strings\<close> the program calls, times and durations, pointers, and the lemma
  collections of the development.

  \<^item> A Go string is a sequence of bytes; here it is a \<^typ>\<open>string\<close>, whose characters are bytes,
    so \<open>length\<close> is Go's \<open>len\<close>.
  \<^item> A \<^verbatim>\<open>*T\<close> that is only compared with \<^verbatim>\<open>nil\<close> and read is a \<open>'t option\<close>.
  \<^item> A \<^verbatim>\<open>time.Time\<close> is an \<^typ>\<open>int\<close>: nanoseconds since Go's zero time, so \<open>IsZero\<close> is \<open>t = 0\<close>.
    A \<^verbatim>\<open>time.Duration\<close> is an \<^typ>\<open>int\<close> number of nanoseconds.
\<close>

named_theorems go_defs "definitions of small operations, unfolded on demand"
named_theorems go_steps "introduction rules that lift a step relation through effects"
named_theorems go_reads "effects that leave the database as it is"

type_synonym time = int
type_synonym duration = int

section \<open>White space and trimming\<close>

text \<open>
  \<^verbatim>\<open>strings.TrimSpace\<close> removes the code points with Unicode's White\_Space property from both
  ends. On bytes these are the six ASCII ones and the UTF-8 encodings of U+0085, U+00A0, U+1680,
  U+2000 to U+200A, U+2028, U+2029, U+202F, U+205F and U+3000.
\<close>

definition go_spaces :: "string list" where
  "go_spaces =
     [ [CHR 0x09], [CHR 0x0A], [CHR 0x0B], [CHR 0x0C], [CHR 0x0D], [CHR 0x20],
      [CHR 0xC2, CHR 0x85], [CHR 0xC2, CHR 0xA0], [CHR 0xE1, CHR 0x9A, CHR 0x80],
      [CHR 0xE2, CHR 0x80, CHR 0x80], [CHR 0xE2, CHR 0x80, CHR 0x81],
      [CHR 0xE2, CHR 0x80, CHR 0x82], [CHR 0xE2, CHR 0x80, CHR 0x83],
      [CHR 0xE2, CHR 0x80, CHR 0x84], [CHR 0xE2, CHR 0x80, CHR 0x85],
      [CHR 0xE2, CHR 0x80, CHR 0x86], [CHR 0xE2, CHR 0x80, CHR 0x87],
      [CHR 0xE2, CHR 0x80, CHR 0x88], [CHR 0xE2, CHR 0x80, CHR 0x89],
      [CHR 0xE2, CHR 0x80, CHR 0x8A], [CHR 0xE2, CHR 0x80, CHR 0xA8],
      [CHR 0xE2, CHR 0x80, CHR 0xA9], [CHR 0xE2, CHR 0x80, CHR 0xAF],
      [CHR 0xE2, CHR 0x81, CHR 0x9F], [CHR 0xE3, CHR 0x80, CHR 0x80]]"

definition space_prefix :: "string \<Rightarrow> nat" where
  "space_prefix s =
     (case find (\<lambda>p. take (length p) s = p) go_spaces of None \<Rightarrow> 0 | Some p \<Rightarrow> length p)"

definition space_suffix :: "string \<Rightarrow> nat" where
  "space_suffix s =
     (case find (\<lambda>p. length p \<le> length s \<and> drop (length s - length p) s = p) go_spaces of
        None \<Rightarrow> 0 | Some p \<Rightarrow> length p)"

lemma go_spaces_nonempty: "p \<in> set go_spaces \<Longrightarrow> p \<noteq> []"
  by (auto simp: go_spaces_def)

lemma space_prefix_Nil [simp]: "space_prefix [] = 0"
  by (auto simp: space_prefix_def find_Some_iff dest: nth_mem go_spaces_nonempty split: option.splits)

lemma space_suffix_Nil [simp]: "space_suffix [] = 0"
  by (auto simp: space_suffix_def find_Some_iff dest: nth_mem go_spaces_nonempty split: option.splits)

function trim_left :: "string \<Rightarrow> string" where
  "trim_left s = (if space_prefix s = 0 then s else trim_left (drop (space_prefix s) s))"
  by pat_completeness auto
termination
proof (relation "measure length")
  fix s assume "space_prefix s \<noteq> 0"
  then show "(drop (space_prefix s) s, s) \<in> measure length"
    by (cases s) auto
qed simp

function trim_right :: "string \<Rightarrow> string" where
  "trim_right s =
     (if space_suffix s = 0 then s else trim_right (take (length s - space_suffix s) s))"
  by pat_completeness auto
termination
proof (relation "measure length")
  fix s assume "space_suffix s \<noteq> 0"
  then show "(take (length s - space_suffix s) s, s) \<in> measure length"
    by (cases s) auto
qed simp

declare trim_left.simps [simp del] trim_right.simps [simp del]

definition TrimSpace :: "string \<Rightarrow> string" where
  "TrimSpace s = trim_right (trim_left s)"

lemma space_prefix_0_iff: "space_prefix s = 0 \<longleftrightarrow> (\<forall>p \<in> set go_spaces. \<not> prefix p s)"
proof -
  have "take (length p) s = p \<longleftrightarrow> prefix p s" for p
    by (metis prefix_def append_eq_conv_conj append_take_drop_id)
  then show ?thesis
    by (auto simp: space_prefix_def find_Some_iff find_None_iff go_spaces_nonempty
        dest: nth_mem split: option.splits)
qed

lemma trim_left_done: "space_prefix (trim_left s) = 0"
  by (induction s rule: trim_left.induct) (simp add: trim_left.simps)

lemma trim_right_done: "space_suffix (trim_right s) = 0"
  by (induction s rule: trim_right.induct) (simp add: trim_right.simps)

lemma trim_right_prefix: "prefix (trim_right s) s"
proof (induction s rule: trim_right.induct)
  case (1 s)
  show ?case
  proof (cases "space_suffix s = 0")
    case True
    then show ?thesis by (simp add: trim_right.simps)
  next
    case False
    with 1 have "prefix (trim_right s) (take (length s - space_suffix s) s)"
      by (simp add: trim_right.simps [of s])
    then show ?thesis using take_is_prefix prefix_order.order_trans by blast
  qed
qed

lemma trim_left_id: "space_prefix s = 0 \<Longrightarrow> trim_left s = s"
  by (simp add: trim_left.simps)

lemma trim_right_id: "space_suffix s = 0 \<Longrightarrow> trim_right s = s"
  by (simp add: trim_right.simps)

lemma TrimSpace_ends: "space_prefix (TrimSpace s) = 0 \<and> space_suffix (TrimSpace s) = 0"
proof -
  have "space_prefix (TrimSpace s) = 0"
    using trim_left_done [of s] trim_right_prefix [of "trim_left s"]
    unfolding space_prefix_0_iff TrimSpace_def by (meson prefix_order.order_trans)
  then show ?thesis by (simp add: TrimSpace_def trim_right_done)
qed

lemma TrimSpace_fixed: "space_prefix s = 0 \<Longrightarrow> space_suffix s = 0 \<Longrightarrow> TrimSpace s = s"
  by (simp add: TrimSpace_def trim_left_id trim_right_id)

lemma TrimSpace_idem [simp]: "TrimSpace (TrimSpace s) = TrimSpace s"
  using TrimSpace_ends [of s] by (simp add: TrimSpace_fixed)

lemma TrimSpace_Nil [simp]: "TrimSpace [] = []"
  by (simp add: TrimSpace_fixed)

lemma trim_left_suffix: "suffix (trim_left s) s"
proof (induction s rule: trim_left.induct)
  case (1 s)
  show ?case
  proof (cases "space_prefix s = 0")
    case True
    then show ?thesis by (simp add: trim_left.simps)
  next
    case False
    with 1 have "suffix (trim_left s) (drop (space_prefix s) s)"
      by (simp add: trim_left.simps [of s])
    then show ?thesis using suffix_drop suffix_order.order_trans by blast
  qed
qed

lemma TrimSpace_sublist: "sublist (TrimSpace s) s"
proof -
  have "sublist (trim_right (trim_left s)) (trim_left s)"
    by (rule prefix_imp_sublist [OF trim_right_prefix])
  also have "sublist (trim_left s) s"
    by (rule suffix_imp_sublist [OF trim_left_suffix])
  finally show ?thesis by (simp add: TrimSpace_def)
qed

lemma set_TrimSpace: "set (TrimSpace s) \<subseteq> set s"
  by (rule set_mono_sublist [OF TrimSpace_sublist])

lemma length_TrimSpace: "length (TrimSpace s) \<le> length s"
  by (rule sublist_length_le [OF TrimSpace_sublist])

text \<open>
  A character that begins or ends no space: a string whose first and last characters are such
  is left alone. The rule also evaluates trimming on literals.
\<close>

definition plain_char :: "char \<Rightarrow> bool" where
  "plain_char c \<longleftrightarrow> c \<notin> set (map hd go_spaces) \<and> c \<notin> set (map last go_spaces)"

lemma TrimSpace_plain:
  assumes "s \<noteq> []" and "plain_char (hd s)" and "plain_char (last s)"
  shows "TrimSpace s = s"
proof (rule TrimSpace_fixed)
  have "\<not> prefix p s" if "p \<in> set go_spaces" for p
  proof
    assume "prefix p s"
    then have "hd s = hd p" using go_spaces_nonempty [OF that] by (auto simp: prefix_def)
    with assms(2) that show False by (auto simp: plain_char_def)
  qed
  then show "space_prefix s = 0" unfolding space_prefix_0_iff by blast
  have "drop (length s - length p) s \<noteq> p" if "p \<in> set go_spaces" "length p \<le> length s" for p
  proof
    assume d: "drop (length s - length p) s = p"
    then have "last p = last s" using go_spaces_nonempty [OF that(1)] that(2)
      by (metis drop_eq_Nil last_drop not_le_imp_less)
    with assms(3) that(1) show False
      by (metis image_eqI list.set_map plain_char_def)
  qed
  then show "space_suffix s = 0"
    by (auto simp: space_suffix_def find_Some_iff dest: nth_mem split: option.splits)
qed

lemmas trim_eval = TrimSpace_plain plain_char_def go_spaces_def

text \<open>For evaluation: a text that starts and ends with visible ASCII is already trimmed.\<close>

fun visible_ascii :: "char \<Rightarrow> bool" where
  "visible_ascii (Char b0 b1 b2 b3 b4 b5 b6 b7) \<longleftrightarrow>
     \<not> b7 \<and> (b6 \<or> (b5 \<and> (b0 \<or> b1 \<or> b2 \<or> b3 \<or> b4)))"

lemma visible_plain: "visible_ascii c \<Longrightarrow> plain_char c"
  by (auto simp: plain_char_def go_spaces_def)

lemma TrimSpace_code [code]:
  "TrimSpace s =
     (case s of [] \<Rightarrow> []
      | c # _ \<Rightarrow> if visible_ascii c then if visible_ascii (last s) then s else trim_right (trim_left s)
               else trim_right (trim_left s))"
  using TrimSpace_plain [of s] visible_plain by (cases s) (simp, auto simp: TrimSpace_def)

section \<open>The other string operations\<close>

definition HasPrefix :: "string \<Rightarrow> string \<Rightarrow> bool" where
  "HasPrefix s p \<longleftrightarrow> take (length p) s = p"

definition TrimPrefix :: "string \<Rightarrow> string \<Rightarrow> string" where
  "TrimPrefix s p = (if HasPrefix s p then drop (length p) s else s)"

definition ContainsAny :: "string \<Rightarrow> string \<Rightarrow> bool" where
  "ContainsAny s chars \<longleftrightarrow> list_ex (\<lambda>c. c \<in> set chars) s"

text \<open>
  \<^verbatim>\<open>strings.Cut\<close> for a separator of one byte, and \<^verbatim>\<open>strings.LastIndex\<close> for a needle of one
  byte (\<open>None\<close> is Go's -1).
\<close>

fun Cut :: "string \<Rightarrow> char \<Rightarrow> (string \<times> string) option" where
  "Cut [] sep = None"
| "Cut (c # cs) sep =
     (if c = sep then Some ([], cs)
      else map_option (\<lambda>(before, after). (c # before, after)) (Cut cs sep))"

fun LastIndex :: "string \<Rightarrow> char \<Rightarrow> nat option" where
  "LastIndex [] needle = None"
| "LastIndex (c # cs) needle =
     (case LastIndex cs needle of
        Some i \<Rightarrow> Some (Suc i)
      | None \<Rightarrow> if c = needle then Some 0 else None)"

text \<open>\<^verbatim>\<open>strings.Join\<close>.\<close>

fun Join :: "string list \<Rightarrow> string \<Rightarrow> string" where
  "Join [] sep = []"
| "Join [s] sep = s"
| "Join (s # ss) sep = s @ sep @ Join ss sep"

text \<open>
  \<^verbatim>\<open>strings.ToLower\<close>: a string of ASCII bytes is mapped byte by byte; any other string goes
  through the Unicode tables, which are the parameter \<open>map_lower\<close>
  (\<^verbatim>\<open>strings.Map(unicode.ToLower, s)\<close>).
\<close>

definition ascii_lower :: "char \<Rightarrow> char" where
  "ascii_lower c =
     (if CHR ''A'' \<le> c \<and> c \<le> CHR ''Z'' then char_of (of_char c + (32 :: nat)) else c)"

definition ToLower :: "(string \<Rightarrow> string) \<Rightarrow> string \<Rightarrow> string" where
  "ToLower map_lower s =
     (if list_all (\<lambda>c. c < CHR 0x80) s then map ascii_lower s else map_lower s)"

lemma Cut_Some: "Cut s sep = Some (a, b) \<longleftrightarrow> s = a @ sep # b \<and> sep \<notin> set a"
  by (induction s arbitrary: a b)
    (auto simp: Cons_eq_append_conv split: if_splits, (metis list.set_intros(1))?)

lemma Cut_None: "Cut s sep = None \<longleftrightarrow> sep \<notin> set s"
  by (induction s) auto

section \<open>Lists and options\<close>

text \<open>The element a loop with an early return stops at, and the first row of a query.\<close>

definition first_row :: "'a list \<Rightarrow> 'a option" where
  "first_row xs = (case xs of [] \<Rightarrow> None | x # _ \<Rightarrow> Some x)"

definition limit_offset :: "int \<Rightarrow> int \<Rightarrow> 'a list \<Rightarrow> 'a list" where
  "limit_offset limit off xs = take (nat limit) (drop (nat off) xs)"

lemma first_row_Some: "first_row xs = Some x \<longleftrightarrow> (\<exists>ys. xs = x # ys)"
  by (auto simp: first_row_def split: list.splits)

lemma first_row_None [simp]: "first_row xs = None \<longleftrightarrow> xs = []"
  by (auto simp: first_row_def split: list.splits)

lemma first_row_in: "first_row xs = Some x \<Longrightarrow> x \<in> set xs"
  by (auto simp: first_row_Some)

lemma filter_key_unique:
  assumes "distinct (map k xs)" and "x \<in> set xs"
  shows "filter (\<lambda>y. k y = k x) xs = [x]"
  using assms
proof (induction xs)
  case (Cons a xs)
  then show ?case
    by (cases "a = x") (auto simp: filter_empty_conv image_iff)
qed simp

lemma filter_key_set:
  assumes "distinct (map k xs)"
  shows "x \<in> set xs \<and> k x = v \<longleftrightarrow> filter (\<lambda>y. k y = v) xs = [x]"
proof
  assume "x \<in> set xs \<and> k x = v"
  then show "filter (\<lambda>y. k y = v) xs = [x]" using filter_key_unique [OF assms] by auto
next
  assume "filter (\<lambda>y. k y = v) xs = [x]"
  then have "x \<in> set (filter (\<lambda>y. k y = v) xs)" by simp
  then show "x \<in> set xs \<and> k x = v" by simp
qed

text \<open>
  The first element for each key, in order: what a loop with a \<^verbatim>\<open>seen\<close> set keeps.
\<close>

fun first_by :: "('a \<Rightarrow> 'k) \<Rightarrow> 'k set \<Rightarrow> 'a list \<Rightarrow> 'a list" where
  "first_by k seen [] = []"
| "first_by k seen (x # xs) =
     (if k x \<in> seen then first_by k seen xs else x # first_by k (insert (k x) seen) xs)"

lemma first_by_keys: "k ` set (first_by k seen xs) = k ` set xs - seen"
  by (induction xs arbitrary: seen) auto

lemma first_by_distinct: "distinct (map k (first_by k seen xs))"
  by (induction xs arbitrary: seen) (auto simp: image_iff [symmetric] first_by_keys)

lemma first_by_subset: "set (first_by k seen xs) \<subseteq> set xs"
  by (induction xs arbitrary: seen) (simp_all, blast+)

lemma first_by_length: "length (first_by k seen xs) \<le> length xs"
  by (induction xs arbitrary: seen) (simp_all add: le_SucI)

lemma first_by_id: "distinct (map k xs) \<Longrightarrow> k ` set xs \<inter> seen = {} \<Longrightarrow> first_by k seen xs = xs"
  by (induction xs arbitrary: seen) auto

text \<open>Looking up by a key in a list updated in place.\<close>

lemma find_map_update:
  assumes "\<And>r. k (f r) = k r"
  shows "find (\<lambda>r. k r = i) (map (\<lambda>r. if P (k r) then f r else r) rows)
     = map_option (\<lambda>r. if P i then f r else r) (find (\<lambda>r. k r = i) rows)"
  by (induction rows) (auto simp: assms)

lemma map_key_update:
  assumes "\<And>r. k (f r) = k r"
  shows "map k (map (\<lambda>r. if P r then f r else r) rows) = map k rows"
  by (induction rows) (auto simp: assms)

lemma find_key_in: "r \<in> set rows \<Longrightarrow> \<exists>s. find (\<lambda>s. k s = k r) rows = Some s \<and> k s = k r"
  by (induction rows) auto

lemma find_key_Some: "find (\<lambda>s. k s = i) rows = Some r \<Longrightarrow> r \<in> set rows \<and> k r = i"
  by (auto simp: find_Some_iff)

end
