(* ===== verification/Archive.thy ===== *)
theory Archive
  imports Go_Prelude "HOL-Library.Word"
begin

text \<open>
  Unpacking an uploaded archive, \<^verbatim>\<open>internal/workspace/archive.go\<close>. The gzip and tar decoders of Go's library
  turn the bytes into the entries below (a header and the bytes that follow it); the code decides what
  each entry may write below the destination. Sizes are Go's \<^verbatim>\<open>int64\<close>, so \<open>64 word\<close>s whose sum
  wraps around. Paths are those of a Unix system, on which \<^verbatim>\<open>filepath.ToSlash\<close> and
  \<^verbatim>\<open>filepath.FromSlash\<close> change nothing.
\<close>

section \<open>Paths\<close>

fun split_slash :: "string \<Rightarrow> string list" where
  "split_slash [] = ['''']"
| "split_slash (c # cs) =
     (case split_slash cs of
        [] \<Rightarrow> [c # '''']
      | part # parts \<Rightarrow> if c = CHR ''/'' then [] # part # parts else (c # part) # parts)"

text \<open>
  \<^verbatim>\<open>filepath.Clean\<close>: empty elements and \<^verbatim>\<open>.\<close> vanish, an inner \<^verbatim>\<open>..\<close> removes the element before it, a
  leading one stays in a relative path and vanishes in a rooted one. The stack holds the elements
  kept so far, last first.
\<close>

definition clean_step :: "bool \<Rightarrow> string \<Rightarrow> string list \<Rightarrow> string list" where
  "clean_step rooted part stack =
     (if part = '''' \<or> part = ''.'' then stack
      else if part = ''..'' then
        (case stack of
           [] \<Rightarrow> if rooted then [] else [''..'']
         | part1 # rest \<Rightarrow> if part1 = ''..'' then ''..'' # stack else rest)
      else part # stack)"

definition clean_parts :: "bool \<Rightarrow> string \<Rightarrow> string list" where
  "clean_parts rooted path = rev (fold (clean_step rooted) (split_slash path) [])"

definition Clean :: "string \<Rightarrow> string" where
  "Clean path =
     (let rooted = HasPrefix path ''/''; out = Join (clean_parts rooted path) ''/'' in
      if rooted then ''/'' @ out else if out = '''' then ''.'' else out)"

text \<open>\<^verbatim>\<open>filepath.Join\<close> of two elements: empty ones are ignored.\<close>

definition Join2 :: "string \<Rightarrow> string \<Rightarrow> string" where
  "Join2 a b =
     (if a = '''' then (if b = '''' then '''' else Clean b)
      else if b = '''' then Clean a else Clean (a @ ''/'' @ b))"

definition Dir :: "string \<Rightarrow> string" where
  "Dir path =
     (case LastIndex path (CHR ''/'') of None \<Rightarrow> ''.'' | Some i \<Rightarrow> Clean (take (Suc i) path))"

text \<open>
  \<^verbatim>\<open>filepath.Rel\<close>: the elements after the common ones, behind as many \<^verbatim>\<open>..\<close> as the base has left; an
  error (\<open>None\<close>) when one path is rooted and the other is not, or the base goes on with \<^verbatim>\<open>..\<close>.
\<close>

fun strip_common :: "string list \<Rightarrow> string list \<Rightarrow> string list \<times> string list" where
  "strip_common (a # as) (b # bs) = (if a = b then strip_common as bs else (a # as, b # bs))"
| "strip_common as bs = (as, bs)"

definition Rel :: "string \<Rightarrow> string \<Rightarrow> string option" where
  "Rel base target =
     (let baseRooted = HasPrefix base ''/''; targetRooted = HasPrefix target ''/'' in
      if baseRooted \<noteq> targetRooted then None
      else case strip_common (clean_parts baseRooted base) (clean_parts targetRooted target) of
        (bs, ts) \<Rightarrow>
          if bs \<noteq> [] \<and> hd bs = ''..'' then None
          else if bs = [] \<and> ts = [] then Some ''.''
          else Some (Join (replicate (length bs) ''..'' @ ts) ''/''))"

definition safeArchivePath :: "string \<Rightarrow> string + string" where
  "safeArchivePath path =
     (if path = '''' then Inl ''unsafe archive path is empty''
      else if CHR 0x5C \<in> set path then Inl ''contains backslash''
      else if HasPrefix path ''/'' then Inl ''is absolute''
      else
        let clean = Clean path in
        if clean = ''.'' \<or> clean = ''..'' \<or> HasPrefix clean ''../'' then Inl ''uses path traversal''
        else if clean \<noteq> path then Inl ''is not clean''
        else Inr clean)"

definition insideDir :: "string \<Rightarrow> string \<Rightarrow> bool" where
  "insideDir root target =
     (case Rel root target of
        None \<Rightarrow> False
      | Some rel \<Rightarrow> rel \<noteq> ''..'' \<and> \<not> HasPrefix rel ''../'')"

section \<open>Files\<close>

datatype node = Directory | Regular string | Symlink

type_synonym files = "string \<Rightarrow> node option"

text \<open>
  \<^verbatim>\<open>os.MkdirAll\<close> creates the missing directories of a path, given here by its elements; it fails when
  something else is in the way.
\<close>

definition show_path :: "bool \<Rightarrow> string list \<Rightarrow> string" where
  "show_path rooted parts = (if rooted then ''/'' else '''') @ Join parts ''/''"

fun make_dirs :: "string list \<Rightarrow> files \<Rightarrow> (string + unit) \<times> files" where
  "make_dirs [] fs = (Inr (), fs)"
| "make_dirs (d # ds) fs =
     (case fs d of
        None \<Rightarrow> make_dirs ds (fs(d \<mapsto> Directory))
      | Some Directory \<Rightarrow> make_dirs ds fs
      | Some other \<Rightarrow> (Inl ''not a directory'', fs))"

definition parents :: "string \<Rightarrow> string list" where
  "parents path =
     (let rooted = HasPrefix path ''/''; parts = clean_parts rooted path in
      map (\<lambda>n. show_path rooted (take n parts)) [1..<Suc (length parts)])"

definition MkdirAll :: "string \<Rightarrow> files \<Rightarrow> (string + unit) \<times> files" where
  "MkdirAll path fs = make_dirs (parents path) fs"

section \<open>Entries\<close>

datatype typeflag = TypeDir | TypeReg | TypeSymlink | TypeLink | TypeOther

record header =
  Header_Name :: string
  Header_Typeflag :: typeflag
  Header_Size :: "64 word"
  Header_Body :: string

text \<open>
  \<^verbatim>\<open>writeRegularFile\<close>: \<^verbatim>\<open>io.CopyN\<close> copies \<open>size\<close> bytes, or all there are and then reports the end of
  the input.
\<close>

definition writeRegularFile :: "string \<Rightarrow> header \<Rightarrow> files \<Rightarrow> (string + unit) \<times> files" where
  "writeRegularFile target header fs =
     (case MkdirAll (Dir target) fs of
        (Inl err, fs1) \<Rightarrow> (Inl err, fs1)
      | (Inr _, fs1) \<Rightarrow>
          (case fs1 target of
             Some Symlink \<Rightarrow> (Inl ''targets a symlink'', fs1)
           | Some Directory \<Rightarrow> (Inl ''is a directory'', fs1)
           | _ \<Rightarrow>
               (let n = nat (sint (Header_Size header));
                    fs2 = fs1(target \<mapsto> Regular (take n (Header_Body header)))
                in if n \<le> length (Header_Body header) then (Inr (), fs2)
                   else (Inl ''unexpected EOF'', fs2))))"

fun TrimRight :: "string \<Rightarrow> char \<Rightarrow> string" where
  "TrimRight s c = rev (dropWhile (\<lambda>x. x = c) (rev s))"

definition extractEntry ::
  "string \<Rightarrow> 64 word \<Rightarrow> header \<Rightarrow> files \<times> 64 word \<Rightarrow> (string + unit) \<times> files \<times> 64 word" where
  "extractEntry dst maxBytes header st =
     (case st of (fs, totalSize) \<Rightarrow>
        (let rawName = (if Header_Typeflag header = TypeDir
                        then TrimRight (Header_Name header) (CHR ''/'') else Header_Name header) in
         case safeArchivePath rawName of
           Inl err \<Rightarrow> (Inl err, fs, totalSize)
         | Inr name \<Rightarrow>
             (let target = Join2 dst name in
              if \<not> insideDir dst target then (Inl ''escapes destination'', fs, totalSize)
              else case Header_Typeflag header of
                TypeDir \<Rightarrow> (case MkdirAll target fs of (r, fs1) \<Rightarrow> (r, fs1, totalSize))
              | TypeReg \<Rightarrow>
                  if sint (Header_Size header) < 0 then (Inl ''negative size'', fs, totalSize)
                  else if sint (totalSize + Header_Size header) > sint maxBytes
                  then (Inl ''archive exceeds max uncompressed size'', fs, totalSize)
                  else (case writeRegularFile target header fs of
                      (Inl err, fs1) \<Rightarrow> (Inl err, fs1, totalSize)
                    | (Inr _, fs1) \<Rightarrow> (Inr (), fs1, totalSize + Header_Size header))
              | TypeSymlink \<Rightarrow> (Inl ''is a symlink'', fs, totalSize)
              | TypeLink \<Rightarrow> (Inl ''is a hardlink'', fs, totalSize)
              | TypeOther \<Rightarrow> (Inl ''unsupported archive entry'', fs, totalSize))))"

text \<open>
  The archive as the decoders deliver it: the entries, then the end of the archive or a decoding
  error. The context is polled before every read.
\<close>

record archive =
  Archive_Entries :: "header list"
  Archive_Error :: "string option"

fun extractEntries ::
  "string \<Rightarrow> 64 word \<Rightarrow> (nat \<Rightarrow> string option) \<Rightarrow> string option \<Rightarrow> header list \<Rightarrow> nat
   \<Rightarrow> files \<times> 64 word \<Rightarrow> (string + unit) \<times> files" where
  "extractEntries dst maxBytes cancel failure hs entries st =
     (case cancel entries of
        Some err \<Rightarrow> (Inl err, fst st)
      | None \<Rightarrow>
          (case hs of
             [] \<Rightarrow>
               (case failure of
                  Some err \<Rightarrow> (Inl err, fst st)
                | None \<Rightarrow> if entries = 0 then (Inl ''archive is empty'', fst st) else (Inr (), fst st))
           | h # hs' \<Rightarrow>
               (case extractEntry dst maxBytes h st of
                  (Inl err, st1) \<Rightarrow> (Inl err, fst st1)
                | (Inr _, st1) \<Rightarrow>
                    extractEntries dst maxBytes cancel failure hs' (Suc entries) st1)))"

declare extractEntries.simps [simp del]

text \<open>\<open>archive\<close> is \<open>Inl\<close> when the gzip header cannot be read.\<close>

definition ExtractTarGzSafe ::
  "(nat \<Rightarrow> string option) \<Rightarrow> string + archive \<Rightarrow> string \<Rightarrow> 64 word \<Rightarrow> files \<Rightarrow> (string + unit) \<times> files" where
  "ExtractTarGzSafe cancel reader dst maxBytes fs =
     (if sint maxBytes \<le> 0 then (Inl ''max uncompressed size bytes must be positive'', fs)
      else if TrimSpace dst = '''' then (Inl ''destination directory is required'', fs)
      else case MkdirAll dst fs of
        (Inl err, fs1) \<Rightarrow> (Inl err, fs1)
      | (Inr _, fs1) \<Rightarrow>
          (case reader of
             Inl err \<Rightarrow> (Inl err, fs1)
           | Inr a \<Rightarrow> extractEntries dst maxBytes cancel (Archive_Error a) (Archive_Entries a) 0 (fs1, 0)))"

end
