(* ===== verification/Archive_Claims.thy ===== *)
theory Archive_Claims
  imports Archive
begin

text \<open>
  What unpacking may touch. Clean paths are determined by their elements (\<open>tidy\<close>), and the target of
  an accepted entry is the destination's elements followed by proper ones.
\<close>

section \<open>Clean paths and their elements\<close>

definition proper :: "string \<Rightarrow> bool" where
  "proper p \<longleftrightarrow> p \<noteq> '''' \<and> p \<noteq> ''.'' \<and> p \<noteq> ''..'' \<and> CHR ''/'' \<notin> set p"

definition tidy :: "bool \<Rightarrow> string list \<Rightarrow> bool" where
  "tidy rooted parts \<longleftrightarrow>
     (\<exists>n qs. parts = replicate n ''..'' @ qs \<and> list_all proper qs \<and> (rooted \<longrightarrow> n = 0))"

lemma split_slash_ne [simp]: "split_slash s \<noteq> []"
  by (induction s) (auto split: list.splits)

lemma split_slash_append: "split_slash (a @ CHR ''/'' # b) = split_slash a @ split_slash b"
proof (induction a)
  case Nil
  show ?case by (cases "split_slash b") auto
next
  case (Cons c a)
  then show ?case by (cases "split_slash a") auto
qed

lemma split_slash_single: "CHR ''/'' \<notin> set p \<Longrightarrow> split_slash p = [p]"
  by (induction p) auto

lemma Join_Cons: "Join (p # ps) sep = (if ps = [] then p else p @ sep @ Join ps sep)"
  by (cases ps) auto

lemma split_slash_Join:
  "parts \<noteq> [] \<Longrightarrow> \<forall>p \<in> set parts. CHR ''/'' \<notin> set p \<Longrightarrow> split_slash (Join parts ''/'') = parts"
  by (induction parts) (auto simp: Join_Cons split_slash_single split_slash_append)

lemma split_slash_parts: "p \<in> set (split_slash s) \<Longrightarrow> CHR ''/'' \<notin> set p"
proof (induction s arbitrary: p)
  case (Cons c s)
  then show ?case by (cases "split_slash s") (auto split: if_splits)
qed simp

lemma tidyI: "list_all proper qs \<Longrightarrow> rooted \<longrightarrow> n = 0 \<Longrightarrow> tidy rooted (replicate n ''..'' @ qs)"
  unfolding tidy_def by (intro exI conjI) (rule refl)

lemma tidyE:
  assumes "tidy rooted parts"
  obtains n qs where "parts = replicate n ''..'' @ qs" and "list_all proper qs" and "rooted \<longrightarrow> n = 0"
proof -
  from assms obtain n qs
    where "parts = replicate n ''..'' @ qs \<and> list_all proper qs \<and> (rooted \<longrightarrow> n = 0)"
    unfolding tidy_def by (elim exE)
  then show ?thesis using that [of n qs] by simp
qed

lemma tidy_no_slash: "tidy rooted parts \<Longrightarrow> p \<in> set parts \<Longrightarrow> CHR ''/'' \<notin> set p \<and> p \<noteq> ''''"
proof -
  assume "tidy rooted parts" and p: "p \<in> set parts"
  then obtain n qs where parts: "parts = replicate n ''..'' @ qs" and qs: "list_all proper qs"
    using tidyE by blast
  from p parts have "p = ''..'' \<or> p \<in> set qs" by (auto split: if_splits)
  then show ?thesis
  proof
    assume "p \<in> set qs"
    with qs have "proper p" by (simp add: list_all_iff)
    then show ?thesis by (simp add: proper_def)
  qed simp
qed

lemma tidy_Nil [simp]: "tidy rooted []"
  by (simp add: tidy_def)

lemma tidy_append: "tidy rooted parts \<Longrightarrow> list_all proper qs \<Longrightarrow> tidy rooted (parts @ qs)"
  by (erule tidyE) (simp add: tidyI)

lemma list_all_take: "list_all P xs \<Longrightarrow> list_all P (take n xs)"
  by (auto simp: list_all_iff dest: in_set_takeD)

lemma tidy_take: "tidy rooted parts \<Longrightarrow> tidy rooted (take n parts)"
  by (erule tidyE) (simp add: tidyI list_all_take)

lemma tidy_step:
  assumes "tidy rooted (rev stack)" and "CHR ''/'' \<notin> set part"
  shows "tidy rooted (rev (clean_step rooted part stack))"
proof -
  obtain n qs where stack: "rev stack = replicate n ''..'' @ qs" "list_all proper qs" "rooted \<longrightarrow> n = 0"
    using assms(1) by (rule tidyE)
  have split: "stack = rev qs @ replicate n ''..''"
    using arg_cong [OF stack(1), of rev] by simp
  show ?thesis
  proof (cases "part = ''..''")
    case False
    then show ?thesis
      using assms tidy_append [OF assms(1), of "[part]"] by (auto simp: clean_step_def proper_def)
  next
    case True
    show ?thesis
    proof (cases qs rule: rev_cases)
      case Nil
      then show ?thesis
        using True split stack(3) tidyI [of "[]" rooted "Suc n"]
        by (cases n) (auto simp: clean_step_def replicate_append_same intro: tidyI [of "[]" _ 1, simplified])
    next
      case (snoc qs' q)
      then show ?thesis
        using True split stack tidyI [of qs' rooted n] by (auto simp: clean_step_def proper_def)
    qed
  qed
qed

lemma tidy_clean: "tidy rooted (clean_parts rooted path)"
proof -
  have "tidy rooted (rev (fold (clean_step rooted) parts stack))"
    if "\<forall>p \<in> set parts. CHR ''/'' \<notin> set p" and "tidy rooted (rev stack)" for parts stack
    using that by (induction parts arbitrary: stack) (auto simp: tidy_step)
  then show ?thesis by (simp add: clean_parts_def split_slash_parts)
qed

lemma fold_proper: "list_all proper qs \<Longrightarrow> fold (clean_step rooted) qs stack = rev qs @ stack"
  by (induction qs arbitrary: stack) (auto simp: clean_step_def proper_def)

lemma fold_dots: "fold (clean_step False) (replicate n ''..'') (replicate m ''..'') = replicate (m + n) ''..''"
proof (induction n arbitrary: m)
  case (Suc n)
  have "clean_step False ''..'' (replicate m ''..'') = replicate (Suc m) ''..''"
    by (cases m) (auto simp: clean_step_def)
  with Suc [of "Suc m"] show ?case by simp
qed simp

lemma fold_tidy: "tidy rooted parts \<Longrightarrow> fold (clean_step rooted) parts [] = rev parts"
  using fold_dots [of _ 0] by (elim tidyE) (cases rooted; auto simp: fold_proper)

lemma Join_head:
  assumes "tidy rooted parts" shows "\<not> HasPrefix (Join parts ''/'') ''/''"
proof (cases parts)
  case (Cons p ps)
  then have "CHR ''/'' \<notin> set p" "p \<noteq> ''''" using assms tidy_no_slash [of rooted parts p] by auto
  then show ?thesis using Cons by (cases p) (auto simp: Join_Cons HasPrefix_def)
qed (simp add: HasPrefix_def)

lemma HasPrefix_show_path [simp]: "tidy rooted parts \<Longrightarrow> HasPrefix (show_path rooted parts) ''/'' = rooted"
  using Join_head [of rooted parts] by (auto simp: show_path_def HasPrefix_def)

lemma split_skip: "fold (clean_step rooted) (split_slash (CHR ''/'' # s)) stack
  = fold (clean_step rooted) (split_slash s) stack"
  by (cases "split_slash s") (auto simp: clean_step_def)

lemma clean_parts_show_path:
  assumes "tidy rooted parts" shows "clean_parts rooted (show_path rooted parts) = parts"
proof -
  have "fold (clean_step rooted) (split_slash (Join parts ''/'')) [] = rev parts"
  proof (cases "parts = []")
    case True
    then show ?thesis by (simp add: clean_step_def)
  next
    case False
    then show ?thesis
      using assms tidy_no_slash [OF assms] by (simp add: split_slash_Join fold_tidy)
  qed
  then show ?thesis
    by (cases rooted) (simp_all add: clean_parts_def show_path_def split_skip del: split_slash.simps)
qed

lemma clean_parts_append:
  "list_all proper qs \<Longrightarrow> qs \<noteq> [] \<Longrightarrow>
   clean_parts rooted (dir @ ''/'' @ Join qs ''/'') = clean_parts rooted dir @ qs"
  by (simp add: clean_parts_def split_slash_append split_slash_Join fold_proper proper_def list_all_iff)

section \<open>The path of an entry\<close>

lemma HasPrefixE: "HasPrefix s p \<Longrightarrow> s = p @ drop (length p) s"
  by (metis HasPrefix_def append_take_drop_id)

lemma proper_Join:
  assumes "list_all proper qs" and "qs \<noteq> []"
  shows "Join qs ''/'' \<noteq> ''..'' \<and> \<not> HasPrefix (Join qs ''/'') ''../''"
proof -
  have split: "split_slash (Join qs ''/'') = qs"
    using assms by (simp add: split_slash_Join list_all_iff proper_def)
  have "Join qs ''/'' \<noteq> ''..''"
  proof
    assume "Join qs ''/'' = ''..''"
    with split have "qs = [''..'']" by simp
    with assms show False by (simp add: proper_def)
  qed
  moreover have "\<not> HasPrefix (Join qs ''/'') ''../''"
  proof
    assume "HasPrefix (Join qs ''/'') ''../''"
    from HasPrefixE [OF this] have "Join qs ''/'' = ''..'' @ CHR ''/'' # drop 3 (Join qs ''/'')"
      by (simp add: numeral_3_eq_3)
    then have "qs = ''..'' # split_slash (drop 3 (Join qs ''/''))"
      using split split_slash_append [of "''..''" "drop 3 (Join qs ''/'')"] by simp
    then have "list_all proper (''..'' # split_slash (drop 3 (Join qs ''/'')))" using assms(1) by simp
    then show False by (simp add: proper_def)
  qed
  ultimately show ?thesis by simp
qed

lemma safeArchivePath_parts:
  assumes "safeArchivePath raw = Inr name"
  obtains qs where "name = raw" and "qs \<noteq> []" and "list_all proper qs" and "name = Join qs ''/''"
proof -
  define clean where "clean = Clean raw"
  from assms have "raw \<noteq> ''''" "\<not> HasPrefix raw ''/''" "clean = raw" "name = clean"
    "clean \<noteq> ''.''" "clean \<noteq> ''..''" "\<not> HasPrefix clean ''../''"
    by (simp_all add: safeArchivePath_def Let_def flip: clean_def split: if_splits)
  then have guards: "raw \<noteq> ''''" "\<not> HasPrefix raw ''/''" "Clean raw = raw" "name = raw"
    "raw \<noteq> ''.''" "raw \<noteq> ''..''" "\<not> HasPrefix raw ''../''"
    by (simp_all add: clean_def)
  define parts where "parts = clean_parts False raw"
  have join: "raw = Join parts ''/''" "parts \<noteq> []"
    using guards(2,3,5) unfolding parts_def Clean_def by (auto simp: Let_def split: if_splits)
  obtain n qs where parts: "parts = replicate n ''..'' @ qs" "list_all proper qs"
    using tidy_clean [of False raw] unfolding parts_def by (rule tidyE)
  have "n = 0"
  proof (cases n)
    case (Suc m)
    then have "raw = ''..'' \<or> HasPrefix raw ''../''"
      using join(1) parts(1) by (auto simp: Join_Cons HasPrefix_def)
    with guards show ?thesis by simp
  qed
  then show ?thesis using that [of qs] join parts guards(4) by simp
qed

text \<open>The elements of the destination, and of the target of an entry with elements \<open>qs\<close>.\<close>

definition dir_parts :: "string \<Rightarrow> string list" where
  "dir_parts dst = clean_parts (HasPrefix dst ''/'') dst"

definition inside :: "string \<Rightarrow> string list \<Rightarrow> string" where
  "inside dst qs = show_path (HasPrefix dst ''/'') (dir_parts dst @ qs)"

lemma HasPrefix_append: "dst \<noteq> '''' \<Longrightarrow> HasPrefix (dst @ s) ''/'' = HasPrefix dst ''/''"
  by (cases dst) (auto simp: HasPrefix_def)

lemma tidy_dir_parts: "list_all proper qs \<Longrightarrow> tidy (HasPrefix dst ''/'') (dir_parts dst @ qs)"
  by (simp add: dir_parts_def tidy_append tidy_clean)

lemma show_path_Nil: "show_path rooted parts = '''' \<longleftrightarrow> \<not> rooted \<and> Join parts ''/'' = ''''"
  by (auto simp: show_path_def)

lemma Join_Nil_iff: "\<forall>p \<in> set parts. p \<noteq> '''' \<Longrightarrow> Join parts ''/'' = '''' \<longleftrightarrow> parts = []"
  by (cases parts) (auto simp: Join_Cons)

lemma Clean_show:
  "Clean path = (if \<not> HasPrefix path ''/'' \<and> clean_parts False path = [] then ''.''
     else show_path (HasPrefix path ''/'') (clean_parts (HasPrefix path ''/'') path))"
proof -
  have "Join (clean_parts False path) ''/'' = '''' \<longleftrightarrow> clean_parts False path = []"
    by (rule Join_Nil_iff) (use tidy_no_slash [OF tidy_clean] in blast)
  then show ?thesis by (auto simp: Clean_def show_path_def Let_def)
qed

lemma Join2_inside:
  assumes "list_all proper qs" and "qs \<noteq> []" and "dst \<noteq> ''''"
  shows "Join2 dst (Join qs ''/'') = inside dst qs"
proof -
  have "Join qs ''/'' \<noteq> ''''" using assms by (auto simp: Join_Nil_iff proper_def list_all_iff)
  then have "Join2 dst (Join qs ''/'') = Clean (dst @ ''/'' @ Join qs ''/'')"
    using assms(3) by (simp add: Join2_def)
  also have "\<dots> = inside dst qs"
    using assms by (simp add: Clean_show clean_parts_append HasPrefix_append inside_def dir_parts_def
        del: append_Cons append_Nil)
  finally show ?thesis .
qed

lemma strip_common_append: "strip_common as (as @ bs) = ([], bs)"
  by (induction as) auto

text \<open>The second guard of the extraction never fires.\<close>

lemma insideDir_inside:
  assumes "list_all proper qs" and "qs \<noteq> []"
  shows "insideDir dst (inside dst qs)"
proof -
  note tidy = tidy_dir_parts [OF assms(1), of dst]
  have "Rel dst (inside dst qs) = Some (Join qs ''/'')"
    using assms(2) clean_parts_show_path [OF tidy] HasPrefix_show_path [OF tidy]
      strip_common_append [of "dir_parts dst" qs]
    by (simp add: Rel_def inside_def Let_def flip: dir_parts_def)
  then show ?thesis using proper_Join [OF assms] by (simp add: insideDir_def)
qed

section \<open>What an entry touches\<close>

text \<open>
  The effect allowed: a path below the destination may change in any way, a directory on the way to
  the destination may be created, everything else stays. No symbolic link appears.
\<close>

definition below :: "string \<Rightarrow> string \<Rightarrow> bool" where
  "below dst q \<longleftrightarrow> (\<exists>qs. qs \<noteq> [] \<and> list_all proper qs \<and> q = inside dst qs)"

definition no_links :: "files \<Rightarrow> bool" where
  "no_links fs \<longleftrightarrow> (\<forall>q. fs q \<noteq> Some Symlink)"

definition confined :: "string \<Rightarrow> files \<Rightarrow> files \<Rightarrow> bool" where
  "confined dst fs fs' \<longleftrightarrow>
     (\<forall>q. fs' q = fs q \<or> below dst q
        \<or> q \<in> set (parents dst) \<and> fs q = None \<and> fs' q = Some Directory)
     \<and> (no_links fs \<longrightarrow> no_links fs')"

lemma confined_refl [simp]: "confined dst fs fs"
  by (simp add: confined_def)

lemma confined_trans: "confined dst fs fs1 \<Longrightarrow> confined dst fs1 fs2 \<Longrightarrow> confined dst fs fs2"
  unfolding confined_def by (metis option.discI)

lemma make_dirs_effect:
  "make_dirs ds fs = (r, fs') \<Longrightarrow>
   \<forall>q. fs' q = fs q \<or> q \<in> set ds \<and> fs q = None \<and> fs' q = Some Directory"
proof (induction ds arbitrary: fs)
  case (Cons d ds)
  show ?case
  proof (cases "fs d")
    case None
    with Cons.prems have "make_dirs ds (fs(d \<mapsto> Directory)) = (r, fs')" by simp
    from Cons.IH [OF this] show ?thesis using None
      by (metis fun_upd_apply list.set_intros(1) list.set_intros(2) option.discI)
  next
    case (Some x)
    then show ?thesis using Cons by (cases x) auto
  qed
qed simp

lemma make_dirs_confined:
  assumes "make_dirs ds fs = (r, fs')" and "\<forall>q \<in> set ds. q \<in> set (parents dst) \<or> below dst q"
  shows "confined dst fs fs'"
  using make_dirs_effect [OF assms(1)] assms(2) unfolding confined_def no_links_def
  by (metis node.distinct(3) option.inject)

lemma parents_show_path:
  "tidy rooted parts \<Longrightarrow>
   parents (show_path rooted parts) = map (\<lambda>n. show_path rooted (take n parts)) [1..<Suc (length parts)]"
  by (simp add: parents_def Let_def clean_parts_show_path)

lemma parents_inside:
  assumes "list_all proper qs" and "q \<in> set (parents (inside dst qs))"
  shows "q \<in> set (parents dst) \<or> below dst q"
proof -
  from assms(2) obtain n where n: "1 \<le> n" "n \<le> length (dir_parts dst @ qs)"
    and q: "q = show_path (HasPrefix dst ''/'') (take n (dir_parts dst @ qs))"
    unfolding inside_def parents_show_path [OF tidy_dir_parts [OF assms(1)]] by auto
  show ?thesis
  proof (cases "n \<le> length (dir_parts dst)")
    case True
    then have "q = show_path (HasPrefix dst ''/'') (take n (dir_parts dst))" using q by simp
    moreover have "n \<in> set [1..<Suc (length (dir_parts dst))]" using n True by auto
    ultimately show ?thesis unfolding parents_def Let_def dir_parts_def [symmetric] by auto
  next
    case False
    then have "q = inside dst (take (n - length (dir_parts dst)) qs)"
      using q by (simp add: inside_def)
    moreover have "list_all proper (take (n - length (dir_parts dst)) qs)"
      using assms(1) by (rule list_all_take)
    moreover have "take (n - length (dir_parts dst)) qs \<noteq> []" using False n by auto
    ultimately show ?thesis unfolding below_def by blast
  qed
qed

lemma LastIndex_none: "c \<notin> set s \<Longrightarrow> LastIndex s c = None"
  by (induction s) auto

lemma LastIndex_last: "c \<notin> set q \<Longrightarrow> LastIndex (a @ c # q) c = Some (length a)"
  by (induction a) (simp_all add: LastIndex_none)

lemma Join_snoc: "Join (ps @ [p]) sep = (if ps = [] then p else Join ps sep @ sep @ p)"
  by (induction ps) (auto simp: Join_Cons)

lemma Dir_inside:
  assumes "list_all proper (qs @ [q])"
  shows "set (parents (Dir (inside dst (qs @ [q])))) \<subseteq> set (parents (inside dst qs))"
proof -
  let ?r = "HasPrefix dst ''/''" and ?ds = "dir_parts dst @ qs"
  have tidy: "tidy ?r ?ds" using assms by (simp add: tidy_dir_parts)
  have q: "CHR ''/'' \<notin> set q" using assms by (simp add: proper_def)
  have path: "inside dst (qs @ [q]) =
      (if ?ds = [] then (if ?r then ''/'' else '''') @ q else show_path ?r ?ds @ CHR ''/'' # q)"
    using Join_snoc [of ?ds q "''/''"] by (simp add: inside_def show_path_def)
  consider "?ds \<noteq> []" | "?ds = []" "?r" | "?ds = []" "\<not> ?r" by blast
  then show ?thesis
  proof cases
    case 1
    have path1: "inside dst (qs @ [q]) = show_path ?r ?ds @ CHR ''/'' # q"
      by (simp only: path 1 if_False simp_thms)
    have last: "LastIndex (inside dst (qs @ [q])) (CHR ''/'') = Some (length (show_path ?r ?ds))"
      unfolding path1 by (rule LastIndex_last [OF q])
    have "Dir (inside dst (qs @ [q])) = Clean (show_path ?r ?ds @ ''/'')"
      unfolding Dir_def last by (simp add: path1)
    moreover have "parents (Clean (show_path ?r ?ds @ ''/'')) = parents (show_path ?r ?ds)"
    proof -
      have ne: "show_path ?r ?ds \<noteq> ''''"
        using 1 tidy_no_slash [OF tidy] by (auto simp: show_path_Nil Join_Nil_iff)
      have "clean_parts ?r (show_path ?r ?ds @ ''/'') = clean_parts ?r (show_path ?r ?ds)"
        by (simp add: clean_parts_def split_slash_append clean_step_def)
      then have "Clean (show_path ?r ?ds @ ''/'') = show_path ?r ?ds"
        using 1 ne HasPrefix_show_path [OF tidy] clean_parts_show_path [OF tidy]
        by (auto simp: Clean_show HasPrefix_append)
      then show ?thesis by simp
    qed
    ultimately show ?thesis by (simp add: inside_def)
  next
    case 2
    have path2: "inside dst (qs @ [q]) = CHR ''/'' # q"
      by (simp only: path 2 if_True simp_thms append_Cons append_Nil)
    have "LastIndex (inside dst (qs @ [q])) (CHR ''/'') = Some 0"
      unfolding path2 using LastIndex_last [OF q, of "''''"] by (simp only: append_Nil list.size)
    then have "Dir (inside dst (qs @ [q])) = Clean ''/''"
      unfolding Dir_def by (simp add: path2)
    then show ?thesis by (simp add: parents_def Clean_def clean_parts_def clean_step_def HasPrefix_def)
  next
    case 3
    have "inside dst (qs @ [q]) = q" by (simp only: path 3 if_True if_False simp_thms append_Nil)
    then have "Dir (inside dst (qs @ [q])) = ''.''" using q by (simp add: Dir_def LastIndex_none)
    then show ?thesis by (simp add: parents_def clean_parts_def clean_step_def HasPrefix_def)
  qed
qed

lemma MkdirAll_confined:
  assumes "MkdirAll (inside dst qs) fs = (r, fs')" and "list_all proper qs"
  shows "confined dst fs fs'"
  using assms parents_inside [OF assms(2)] unfolding MkdirAll_def
  by (intro make_dirs_confined) auto

lemma writeRegularFile_confined:
  assumes "writeRegularFile (inside dst qs) header fs = (r, fs')" and "list_all proper qs" "qs \<noteq> []"
  shows "confined dst fs fs'"
proof -
  obtain init q where qs: "qs = init @ [q]" using assms(3) by (cases qs rule: rev_cases) auto
  obtain r1 fs1 where made: "MkdirAll (Dir (inside dst qs)) fs = (r1, fs1)" by fastforce
  have "set (parents (Dir (inside dst qs))) \<subseteq> set (parents (inside dst init))"
    using Dir_inside [of init q dst] assms(2) qs by simp
  moreover have "list_all proper init" using assms(2) qs by simp
  ultimately have first: "confined dst fs fs1"
    using made parents_inside unfolding MkdirAll_def by (blast intro: make_dirs_confined)
  have "confined dst fs1 (fs1(inside dst qs \<mapsto> Regular body))" for body
    using assms(2,3) unfolding confined_def no_links_def below_def by (auto split: if_splits)
  with assms(1) made have "confined dst fs1 fs'"
    by (auto simp: writeRegularFile_def Let_def split: sum.splits option.splits node.splits if_splits)
  with first show ?thesis by (rule confined_trans)
qed

lemma extractEntry_confined:
  assumes "extractEntry dst maxBytes header (fs, used) = (r, fs', used')" and "dst \<noteq> ''''"
  shows "confined dst fs fs'"
proof -
  define rawName where "rawName = (if Header_Typeflag header = TypeDir
    then TrimRight (Header_Name header) (CHR ''/'') else Header_Name header)"
  show ?thesis
  proof (cases "safeArchivePath rawName")
    case (Inl err)
    then show ?thesis using assms by (simp add: extractEntry_def Let_def flip: rawName_def)
  next
    case (Inr name)
    then obtain qs where qs: "qs \<noteq> []" "list_all proper qs" "name = Join qs ''/''"
      by (rule safeArchivePath_parts)
    have target: "Join2 dst name = inside dst qs" using Join2_inside [OF qs(2,1) assms(2)] qs(3) by simp
    have "confined dst fs fs1" if "MkdirAll (inside dst qs) fs = (r1, fs1)" for r1 fs1
      using MkdirAll_confined [OF that qs(2)] .
    moreover have "confined dst fs fs1"
      if "writeRegularFile (inside dst qs) header fs = (r1, fs1)" for r1 fs1
      using writeRegularFile_confined [OF that qs(2,1)] .
    ultimately show ?thesis
      using assms(1) Inr target insideDir_inside [OF qs(2,1), of dst]
      by (auto simp: extractEntry_def Let_def simp flip: rawName_def
          split: typeflag.splits if_splits prod.splits sum.splits)
  qed
qed

lemma extract_stop:
  "cancel entries = Some err \<Longrightarrow>
   extractEntries dst maxBytes cancel failure hs entries st = (Inl err, fst st)"
  by (simp add: extractEntries.simps [of _ _ _ _ hs])

lemma extract_Nil:
  "cancel entries = None \<Longrightarrow> extractEntries dst maxBytes cancel failure [] entries st =
   (case failure of
      Some err \<Rightarrow> (Inl err, fst st)
    | None \<Rightarrow> if entries = 0 then (Inl ''archive is empty'', fst st) else (Inr (), fst st))"
  by (simp add: extractEntries.simps [of _ _ _ _ "[]"])

lemma extract_Cons:
  "cancel entries = None \<Longrightarrow> extractEntry dst maxBytes h st = (x, st1) \<Longrightarrow>
   extractEntries dst maxBytes cancel failure (h # hs) entries st =
   (case x of
      Inl err \<Rightarrow> (Inl err, fst st1)
    | Inr _ \<Rightarrow> extractEntries dst maxBytes cancel failure hs (Suc entries) st1)"
  by (simp add: extractEntries.simps [of _ _ _ _ "h # hs"])

lemma extractEntries_confined:
  "extractEntries dst maxBytes cancel failure hs entries st = (r, fs') \<Longrightarrow> dst \<noteq> '''' \<Longrightarrow>
   confined dst (fst st) fs'"
proof (induction dst maxBytes cancel failure hs entries st rule: extractEntries.induct)
  case (1 dst maxBytes cancel failure hs entries st)
  show ?case
  proof (cases "cancel entries = None \<and> hs \<noteq> []")
    case False
    then show ?thesis using "1.prems"
      by (cases "cancel entries") (auto simp: extract_stop extract_Nil split: option.splits if_splits)
  next
    case True
    then obtain h hs' where hs: "hs = h # hs'" and go: "cancel entries = None" by (cases hs) auto
    obtain x fs1 n where one: "extractEntry dst maxBytes h st = (x, fs1, n)" by (metis prod_cases3)
    have first: "confined dst (fst st) fs1"
      using extractEntry_confined [of dst maxBytes h "fst st" "snd st" x fs1 n] one "1.prems" by simp
    show ?thesis
    proof (cases x)
      case (Inl err)
      then show ?thesis using "1.prems" hs first by (simp add: extract_Cons [of cancel entries, OF go one])
    next
      case (Inr u)
      then have "extractEntries dst maxBytes cancel failure hs' (Suc entries) (fs1, n) = (r, fs')"
        using "1.prems" hs by (simp add: extract_Cons [of cancel entries, OF go one])
      from "1.IH" [OF go hs one [symmetric] Inr this "1.prems"(2)] first show ?thesis
        using confined_trans by auto
    qed
  qed
qed

section \<open>The properties\<close>

text \<open>
  C33: Whatever the archive holds, unpacking it changes no path outside the destination: a path that
  is not below it (its elements followed by proper ones) keeps its node, except for missing
  directories on the way to the destination. Without symbolic links to begin with there are none
  afterwards.
\<close>

theorem archive_contained:
  assumes "ExtractTarGzSafe cancel reader dst maxBytes fs = (r, fs')" and "no_links fs"
  shows "no_links fs'
    \<and> (\<forall>q. fs' q = fs q \<or> below dst q
         \<or> q \<in> set (parents dst) \<and> fs q = None \<and> fs' q = Some Directory)"
proof -
  obtain r1 fs1 where made: "MkdirAll dst fs = (r1, fs1)" by fastforce
  have first: "confined dst fs fs1"
    using made unfolding MkdirAll_def by (auto intro: make_dirs_confined)
  have "confined dst fs fs'"
  proof (cases "sint maxBytes \<le> 0 \<or> TrimSpace dst = '''' \<or> r1 \<noteq> Inr () \<or> (\<exists>err. reader = Inl err)")
    case True
    then show ?thesis using assms(1) made first
      by (auto simp: ExtractTarGzSafe_def split: sum.splits if_splits)
  next
    case False
    then obtain a where "reader = Inr a" by (cases reader) auto
    with False assms(1) made
    have run: "extractEntries dst maxBytes cancel (Archive_Error a) (Archive_Entries a) 0 (fs1, 0)
        = (r, fs')" and "dst \<noteq> ''''"
      by (auto simp: ExtractTarGzSafe_def)
    with extractEntries_confined [OF run] first show ?thesis by (auto intro: confined_trans)
  qed
  with assms(2) show ?thesis by (simp add: confined_def)
qed

definition entry_size :: "header \<Rightarrow> int" where
  "entry_size h = (if Header_Typeflag h = TypeReg then sint (Header_Size h) else 0)"

lemma sint_plus:
  fixes a b :: "64 word"
  assumes "0 \<le> sint a" and "0 \<le> sint b" and "sint a + sint b < 2 ^ 63"
  shows "sint (a + b) = sint a + sint b"
  using assms by (simp add: sint_word_ariths signed_take_bit_int_eq_self)

lemma extractEntry_size:
  assumes "extractEntry dst maxBytes h (fs, used) = (Inr u, fs', used')"
  shows "0 \<le> entry_size h \<and> used' = (if Header_Typeflag h = TypeReg then used + Header_Size h else used)
    \<and> (Header_Typeflag h = TypeReg \<longrightarrow> sint used' \<le> sint maxBytes)"
  using assms
  by (auto simp: extractEntry_def entry_size_def Let_def split: sum.splits if_splits typeflag.splits prod.splits)

lemma extractEntries_size:
  assumes "extractEntries dst maxBytes cancel failure hs entries st = (Inr u, fs')"
    and "\<forall>h \<in> set hs. entry_size h < 2 ^ 63 - sint maxBytes"
    and "0 \<le> sint (snd st)" and "sint (snd st) \<le> sint maxBytes"
  shows "sint (snd st) + sum_list (map entry_size hs) \<le> sint maxBytes"
  using assms
proof (induction dst maxBytes cancel failure hs entries st rule: extractEntries.induct)
  case (1 dst maxBytes cancel failure hs entries st)
  from "1.prems"(1) have go: "cancel entries = None"
    by (cases "cancel entries") (auto simp: extract_stop)
  show ?case
  proof (cases hs)
    case Nil
    then show ?thesis using "1.prems" by simp
  next
    case (Cons h hs')
    obtain y fs1 used where run: "extractEntry dst maxBytes h st = (y, fs1, used)" by (metis prod_cases3)
    from "1.prems"(1) obtain x where one: "extractEntry dst maxBytes h st = (Inr x, fs1, used)"
      and rest: "extractEntries dst maxBytes cancel failure hs' (Suc entries) (fs1, used) = (Inr u, fs')"
      using Cons run by (auto simp: extract_Cons [of cancel entries, OF go run] split: sum.splits)
    have entry: "0 \<le> entry_size h
        \<and> used = (if Header_Typeflag h = TypeReg then snd st + Header_Size h else snd st)
        \<and> (Header_Typeflag h = TypeReg \<longrightarrow> sint used \<le> sint maxBytes)"
      by (rule extractEntry_size [of dst maxBytes h "fst st" "snd st" x fs1 used]) (simp add: one)
    have used: "sint used = sint (snd st) + entry_size h"
      using entry "1.prems"(2-4) Cons sint_plus [of "snd st" "Header_Size h"]
      by (auto simp: entry_size_def split: if_splits)
    have "sint used \<le> sint maxBytes"
      using entry "1.prems"(4) by (auto split: if_splits)
    then have "sint used + sum_list (map entry_size hs') \<le> sint maxBytes"
      using "1.IH" [OF go Cons one [symmetric] refl] rest "1.prems"(2,3) Cons used entry by auto
    then show ?thesis using Cons used by simp
  qed
qed

text \<open>
  The writes \<open>W\<close>, path and content, account for every regular file of \<open>fs'\<close> that was not there before
  with the same content.
\<close>

definition written_by :: "(string \<times> string) list \<Rightarrow> files \<Rightarrow> files \<Rightarrow> bool" where
  "written_by W fs fs' \<longleftrightarrow>
     (\<forall>q body. fs' q = Some (Regular body) \<longrightarrow> fs q = Some (Regular body) \<or> (q, body) \<in> set W)"

definition written_bytes :: "(string \<times> string) list \<Rightarrow> int" where
  "written_bytes W = sum_list (map (\<lambda>w. int (length (snd w))) W)"

lemma written_simps [simp]:
  "written_by W fs fs" "written_bytes [] = 0"
  "written_bytes ((q, body) # W) = int (length body) + written_bytes W"
  "written_bytes (W @ W') = written_bytes W + written_bytes W'"
  by (simp_all add: written_by_def written_bytes_def)

lemma written_by_trans: "written_by W fs fs1 \<Longrightarrow> written_by W' fs1 fs2 \<Longrightarrow> written_by (W @ W') fs fs2"
  by (auto simp: written_by_def)

lemma MkdirAll_written: "MkdirAll path fs = (r, fs') \<Longrightarrow> written_by [] fs fs'"
  unfolding MkdirAll_def written_by_def
  by (drule make_dirs_effect) (auto, metis node.distinct(1) option.inject)

text \<open>What a regular entry leaves in its file: as many bytes as its header says, or all there are.\<close>

definition content :: "header \<Rightarrow> string" where
  "content h = take (nat (sint (Header_Size h))) (Header_Body h)"

lemma writeRegularFile_written:
  assumes "writeRegularFile target h fs = (r, fs')"
  shows "written_by [(target, content h)] fs fs'"
proof -
  obtain x fs1 where made: "MkdirAll (Dir target) fs = (x, fs1)" by fastforce
  have first: "written_by [] fs fs1" by (rule MkdirAll_written [OF made])
  have "fs' = fs1 \<or> fs' = fs1(target \<mapsto> Regular (content h))"
    using assms made
    by (auto simp: writeRegularFile_def content_def Let_def split: sum.splits option.splits node.splits if_splits)
  with first show ?thesis by (auto simp: written_by_def split: if_splits)
qed

lemma extractEntry_written:
  assumes run: "extractEntry dst maxBytes h (fs, used) = (x, fs', used')"
    and small: "entry_size h < 2 ^ 63 - sint maxBytes" and used: "0 \<le> sint used" "sint used \<le> sint maxBytes"
  obtains W where "written_by W fs fs'" and "sint used + written_bytes W \<le> sint maxBytes"
    and "\<forall>w \<in> set W. Header_Typeflag h = TypeReg \<and> snd w = content h"
    and "x = Inr u \<Longrightarrow> sint used + written_bytes W \<le> sint used' \<and> sint used' \<le> sint maxBytes"
proof -
  consider (quiet) "written_by [] fs fs'" "x = Inr u \<Longrightarrow> used' = used"
    | (stored) target where "Header_Typeflag h = TypeReg" "0 \<le> sint (Header_Size h)"
        "sint (used + Header_Size h) \<le> sint maxBytes" "written_by [(target, content h)] fs fs'"
        "x = Inr u \<Longrightarrow> used' = used + Header_Size h"
  proof (cases "Header_Typeflag h = TypeReg \<and> 0 \<le> sint (Header_Size h)
      \<and> sint (used + Header_Size h) \<le> sint maxBytes")
    case True
    with run show ?thesis
      by (auto simp: extractEntry_def Let_def split: sum.splits if_splits prod.splits
          dest!: writeRegularFile_written intro: quiet stored)
  next
    case False
    with run show ?thesis
      by (intro quiet) (auto simp: extractEntry_def Let_def
          split: sum.splits if_splits typeflag.splits prod.splits dest!: MkdirAll_written)
  qed
  then show ?thesis
  proof cases
    case quiet
    show ?thesis by (rule that [OF quiet(1)]) (use quiet(2) used in auto)
  next
    case (stored target)
    have total: "sint (used + Header_Size h) = sint used + sint (Header_Size h)"
      using stored(1,2) small used by (intro sint_plus) (auto simp: entry_size_def)
    have "int (length (content h)) \<le> sint (Header_Size h)"
      using stored(2) by (simp add: content_def)
    then show ?thesis
      by (intro that [OF stored(4)]) (use stored total in auto)
  qed
qed

lemma extractEntries_written:
  assumes "extractEntries dst maxBytes cancel failure hs entries st = (r, fs')"
    and "\<forall>h \<in> set hs. entry_size h < 2 ^ 63 - sint maxBytes"
    and "0 \<le> sint (snd st)" and "sint (snd st) \<le> sint maxBytes"
  shows "\<exists>W. written_by W (fst st) fs' \<and> sint (snd st) + written_bytes W \<le> sint maxBytes
    \<and> (\<forall>w \<in> set W. \<exists>h \<in> set hs. Header_Typeflag h = TypeReg \<and> snd w = content h)"
  using assms
proof (induction dst maxBytes cancel failure hs entries st rule: extractEntries.induct)
  case (1 dst maxBytes cancel failure hs entries st)
  show ?case
  proof (cases "cancel entries = None \<and> hs \<noteq> []")
    case False
    then have "fs' = fst st" using "1.prems"(1)
      by (cases "cancel entries") (auto simp: extract_stop extract_Nil split: option.splits if_splits)
    then show ?thesis using "1.prems"(4) by (intro exI [of _ "[]"]) simp
  next
    case True
    then obtain h hs' where hs: "hs = h # hs'" and go: "cancel entries = None" by (cases hs) auto
    obtain x fs1 n where one: "extractEntry dst maxBytes h st = (x, fs1, n)" by (metis prod_cases3)
    from one have "extractEntry dst maxBytes h (fst st, snd st) = (x, fs1, n)" by simp
    then obtain W where W: "written_by W (fst st) fs1" "sint (snd st) + written_bytes W \<le> sint maxBytes"
        "\<forall>w \<in> set W. Header_Typeflag h = TypeReg \<and> snd w = content h"
      and go_on: "x = Inr () \<Longrightarrow> sint (snd st) + written_bytes W \<le> sint n \<and> sint n \<le> sint maxBytes"
      by (rule extractEntry_written [where u = "()"]) (use "1.prems" hs in simp_all)
    show ?thesis
    proof (cases x)
      case (Inl err)
      then have "fs' = fs1" using "1.prems"(1) hs by (simp add: extract_Cons [of cancel entries, OF go one])
      with W hs show ?thesis by (intro exI [of _ W]) auto
    next
      case (Inr u)
      then have rest: "extractEntries dst maxBytes cancel failure hs' (Suc entries) (fs1, n) = (r, fs')"
        using "1.prems"(1) hs by (simp add: extract_Cons [of cancel entries, OF go one])
      have "0 \<le> written_bytes W" unfolding written_bytes_def by (rule sum_list_nonneg) auto
      with go_on Inr "1.prems"(3) have n: "0 \<le> sint n" "sint n \<le> sint maxBytes"
        "sint (snd st) + written_bytes W \<le> sint n" by simp_all
      have "\<exists>W'. written_by W' fs1 fs' \<and> sint n + written_bytes W' \<le> sint maxBytes
          \<and> (\<forall>w \<in> set W'. \<exists>h \<in> set hs'. Header_Typeflag h = TypeReg \<and> snd w = content h)"
        using "1.IH" [OF go hs one [symmetric] Inr rest] "1.prems"(2) hs n by simp
      then obtain W' where W': "written_by W' fs1 fs'" "sint n + written_bytes W' \<le> sint maxBytes"
          "\<forall>w \<in> set W'. \<exists>h \<in> set hs'. Header_Typeflag h = TypeReg \<and> snd w = content h" by blast
      have "\<forall>w \<in> set (W @ W'). \<exists>h \<in> set hs. Header_Typeflag h = TypeReg \<and> snd w = content h"
        using W(3) W'(3) hs by auto
      then show ?thesis
        using written_by_trans [OF W(1) W'(1)] W'(2) n(3) by (intro exI [of _ "W @ W'"]) simp
    qed
  qed
qed

text \<open>
  C34: Unpacking an archive, also when it stops with an error, writes at most the limit: every regular file
  that is there afterwards either was there with the same content, or is one of a list of writes whose
  lengths add up to at most the limit, each the first bytes of a regular entry, as many as its header says;
  and after success the sizes the headers claim are within the limit too. This holds provided
  that no entry claims a size so close to \<open>2^63\<close> that adding it to a smaller total wraps around.
\<close>

theorem archive_within_limit:
  assumes "ExtractTarGzSafe cancel (Inr a) dst maxBytes fs = (r, fs')"
    and "\<forall>h \<in> set (Archive_Entries a). entry_size h < 2 ^ 63 - sint maxBytes"
  shows "(\<exists>W. sum_list (map (\<lambda>w. int (length (snd w))) W) \<le> max 0 (sint maxBytes)
      \<and> (\<forall>q body. fs' q = Some (Regular body) \<longrightarrow> fs q = Some (Regular body) \<or> (q, body) \<in> set W)
      \<and> (\<forall>w \<in> set W. \<exists>h \<in> set (Archive_Entries a). Header_Typeflag h = TypeReg
           \<and> snd w = take (nat (sint (Header_Size h))) (Header_Body h)))
    \<and> (\<forall>u. r = Inr u \<longrightarrow> sum_list (map entry_size (Archive_Entries a)) \<le> sint maxBytes)"
proof -
  obtain x fs1 where made: "MkdirAll dst fs = (x, fs1)" by fastforce
  have first: "written_by [] fs fs1" by (rule MkdirAll_written [OF made])
  show ?thesis
  proof (cases "sint maxBytes \<le> 0 \<or> TrimSpace dst = '''' \<or> (\<exists>e. x = Inl e)")
    case True
    with assms(1) made first have "written_by [] fs fs'" "\<exists>e. r = Inl e"
      by (auto simp: ExtractTarGzSafe_def split: if_splits)
    then show ?thesis by (intro conjI exI [of _ "[]"]) (auto simp: written_by_def)
  next
    case False
    then obtain v where "0 < sint maxBytes" "x = Inr v" by (cases x) auto
    with False assms(1) made
    have run: "extractEntries dst maxBytes cancel (Archive_Error a) (Archive_Entries a) 0 (fs1, 0) = (r, fs')"
      by (simp add: ExtractTarGzSafe_def)
    obtain W where W: "written_by W fs1 fs'" "written_bytes W \<le> sint maxBytes"
      "\<forall>w \<in> set W. \<exists>h \<in> set (Archive_Entries a). Header_Typeflag h = TypeReg \<and> snd w = content h"
      using extractEntries_written [OF run assms(2)] \<open>0 < sint maxBytes\<close> by auto
    have "sum_list (map entry_size (Archive_Entries a)) \<le> sint maxBytes" if "r = Inr u" for u
      using extractEntries_size [OF run [unfolded that] assms(2)] \<open>0 < sint maxBytes\<close> by simp
    then show ?thesis
      using written_by_trans [OF first W(1)] W(2,3) \<open>0 < sint maxBytes\<close>
      unfolding written_by_def written_bytes_def content_def by (intro conjI exI [of _ W]) auto
  qed
qed

text \<open>Two entries whose sizes add up to more than an \<^verbatim>\<open>int64\<close> holds.\<close>

definition one_byte :: header where
  "one_byte = \<lparr>Header_Name = ''a'', Header_Typeflag = TypeReg, Header_Size = 1, Header_Body = ''x''\<rparr>"

definition huge :: "string \<Rightarrow> header" where
  "huge body = \<lparr>Header_Name = ''b'', Header_Typeflag = TypeReg, Header_Size = 2 ^ 63 - 1,
     Header_Body = body\<rparr>"

lemma paths_value:
  "parents ''/w'' = [''/w'']" "parents ''/w/b'' = [''/w'', ''/w/b'']"
  "safeArchivePath ''a'' = Inr ''a''" "safeArchivePath ''b'' = Inr ''b''"
  "Join2 ''/w'' ''a'' = ''/w/a''" "Join2 ''/w'' ''b'' = ''/w/b''"
  "insideDir ''/w'' ''/w/a''" "insideDir ''/w'' ''/w/b''"
  "Dir ''/w/a'' = ''/w''" "Dir ''/w/b'' = ''/w''"
  "TrimSpace ''/w'' = ''/w''"
  by code_simp+

lemma sizes_value:
  "sint (1 :: 64 word) = 1" "sint (2 ^ 63 - 1 :: 64 word) = 2 ^ 63 - 1"
  "sint (1 + (2 ^ 63 - 1) :: 64 word) = - (2 ^ 63)"
  by code_simp+

text \<open>
  Without that proviso the limit does not hold, whatever it is: behind an entry of one byte, an
  entry that claims \<open>2^63 - 1\<close> bytes passes the check because the sum is negative, and all the bytes
  the archive goes on with are written, however many.
\<close>

theorem archive_limit_overflow:
  assumes "0 < sint maxBytes" and "length body < 2 ^ 63"
  shows "snd (ExtractTarGzSafe (\<lambda>_. None)
      (Inr \<lparr>Archive_Entries = [one_byte, huge body], Archive_Error = None\<rparr>) ''/w'' maxBytes Map.empty) ''/w/b''
    = Some (Regular body)"
proof -
  let ?fs1 = "[''/w'' \<mapsto> Directory]" and ?fs2 = "[''/w'' \<mapsto> Directory, ''/w/a'' \<mapsto> Regular ''x'']"
  have made: "MkdirAll ''/w'' Map.empty = (Inr (), ?fs1)" "MkdirAll ''/w'' ?fs1 = (Inr (), ?fs1)"
    "MkdirAll ''/w'' ?fs2 = (Inr (), ?fs2)"
    by (simp_all add: MkdirAll_def paths_value)
  have one: "extractEntry ''/w'' maxBytes one_byte (?fs1, 0) = (Inr (), ?fs2, 1)"
    using assms(1) by (simp add: extractEntry_def one_byte_def paths_value sizes_value
        writeRegularFile_def made)
  have "\<exists>x n. extractEntry ''/w'' maxBytes (huge body) (?fs2, 1)
      = (x, ?fs2(''/w/b'' \<mapsto> Regular body), n)"
    using assms by (cases "9223372036854775807 \<le> length body")
      (simp_all add: extractEntry_def huge_def paths_value sizes_value writeRegularFile_def made Let_def)
  then obtain x n where two: "extractEntry ''/w'' maxBytes (huge body) (?fs2, 1)
      = (x, ?fs2(''/w/b'' \<mapsto> Regular body), n)" by blast
  show ?thesis
    using assms(1) by (simp add: ExtractTarGzSafe_def paths_value made extract_Cons [where cancel = "\<lambda>_. None", OF refl one]
        extract_Cons [where cancel = "\<lambda>_. None", OF refl two] extract_Nil split: sum.splits)
qed

section \<open>Applied to concrete archives\<close>

definition traversal :: header where
  "traversal = \<lparr>Header_Name = ''../b'', Header_Typeflag = TypeReg, Header_Size = 1, Header_Body = ''x''\<rparr>"

definition traversal_run :: "(string + unit) \<times> files" where
  "traversal_run = ExtractTarGzSafe (\<lambda>_. None)
     (Inr \<lparr>Archive_Entries = [one_byte, traversal], Archive_Error = None\<rparr>) ''/w'' 10
     [''/b'' \<mapsto> Regular ''old'']"

lemma below_w: "below ''/w'' q \<Longrightarrow> HasPrefix q ''/w/''"
proof -
  have "dir_parts ''/w'' = [''w'']" "HasPrefix ''/w'' ''/''" by code_simp+
  then show "below ''/w'' q \<Longrightarrow> HasPrefix q ''/w/''"
    by (auto simp: below_def inside_def show_path_def Join_Cons HasPrefix_def)
qed

theorem archive_contained_witness:
  "no_links (snd traversal_run) \<and> snd traversal_run ''/b'' = Some (Regular ''old'')"
proof -
  have away: "\<not> below ''/w'' ''/b''" by (auto dest: below_w simp: HasPrefix_def)
  have links: "no_links [''/b'' \<mapsto> Regular ''old'']" by (simp add: no_links_def)
  have run: "ExtractTarGzSafe (\<lambda>_. None)
     (Inr \<lparr>Archive_Entries = [one_byte, traversal], Archive_Error = None\<rparr>) ''/w'' 10
     [''/b'' \<mapsto> Regular ''old''] = (fst traversal_run, snd traversal_run)"
    by (simp add: traversal_run_def)
  from archive_contained [OF run links] have all: "\<forall>q. snd traversal_run q = [''/b'' \<mapsto> Regular ''old''] q
      \<or> below ''/w'' q \<or> q \<in> set (parents ''/w'') \<and> [''/b'' \<mapsto> Regular ''old''] q = None
         \<and> snd traversal_run q = Some Directory" and "no_links (snd traversal_run)"
    by (rule conjunct2, rule conjunct1)
  with all [rule_format, of "''/b''"] away show ?thesis by simp
qed

definition small_archive :: archive where
  "small_archive = \<lparr>Archive_Entries = [one_byte, one_byte\<lparr>Header_Name := ''d/b''\<rparr>], Archive_Error = None\<rparr>"

lemma small_archive_run: "fst (ExtractTarGzSafe (\<lambda>_. None) (Inr small_archive) ''/w'' 2 Map.empty) = Inr ()"
  by code_simp

theorem archive_within_limit_witness:
  "\<exists>W. sum_list (map (\<lambda>w. int (length (snd w))) W) \<le> 2
     \<and> (''/w/a'', ''x'') \<in> set W \<and> (''/w/d/b'', ''x'') \<in> set W"
proof -
  define fs where "fs = snd (ExtractTarGzSafe (\<lambda>_. None) (Inr small_archive) ''/w'' 2 Map.empty)"
  have run: "ExtractTarGzSafe (\<lambda>_. None) (Inr small_archive) ''/w'' 2 Map.empty = (Inr (), fs)"
    using small_archive_run by (simp add: prod_eq_iff fs_def)
  have "\<forall>h \<in> set (Archive_Entries small_archive). entry_size h < 2 ^ 63 - sint (2 :: 64 word)"
    by code_simp
  note limit = conjunct1 [OF archive_within_limit [OF run this]]
  have files: "fs ''/w/a'' = Some (Regular ''x'')" "fs ''/w/d/b'' = Some (Regular ''x'')"
    unfolding fs_def by code_simp+
  have two: "max 0 (sint (2 :: 64 word)) = 2" by code_simp
  from limit show ?thesis
    unfolding two using files by (elim exE conjE) (intro exI conjI, assumption, auto)
qed

theorem archive_limit_overflow_witness:
  "snd (ExtractTarGzSafe (\<lambda>_. None)
      (Inr \<lparr>Archive_Entries = [one_byte, huge ''0123456789''], Archive_Error = None\<rparr>) ''/w'' 1 Map.empty)
     ''/w/b'' = Some (Regular ''0123456789'')"
  by (rule archive_limit_overflow) simp_all

end
