(* ===== verification/Go_Effects.thy ===== *)
theory Go_Effects
  imports Go_Prelude
begin

text \<open>
  Go code with effects, written as functions from a state of the outside world to a result and
  the next state. A Go function \<^verbatim>\<open>func f(...) (T, error)\<close> is a \<open>('w, 'e, 't) go\<close>: \<open>Inl\<close> carries
  the error and \<open>Inr\<close> the value. \<open>bindE m f\<close> is the statement sequence
  \<^verbatim>\<open>x, err := m; if err != nil { return err }; f(x)\<close>.

  The calculus below shows what an effect can do to the world by showing it of its steps: for a
  reflexive and transitive relation \<open>R\<close> between worlds, \<open>steps R m\<close> says that \<open>m\<close> only moves along
  \<open>R\<close>. It covers invariants (\<open>R w w'\<close> is \<open>I w \<longrightarrow> I w'\<close>), frame conditions and append-only logs.
\<close>

type_synonym ('w, 'e, 'a) go = "'w \<Rightarrow> ('e + 'a) \<times> 'w"

definition ret :: "'a \<Rightarrow> ('w, 'e, 'a) go" where
  "ret x w = (Inr x, w)"

definition raise :: "'e \<Rightarrow> ('w, 'e, 'a) go" where
  "raise e w = (Inl e, w)"

definition bindE :: "('w, 'e, 'a) go \<Rightarrow> ('a \<Rightarrow> ('w, 'e, 'b) go) \<Rightarrow> ('w, 'e, 'b) go" where
  "bindE m f w = (case m w of (Inl e, w') \<Rightarrow> (Inl e, w') | (Inr x, w') \<Rightarrow> f x w')"

text \<open>\<open>catchE m h\<close> inspects the error, as \<^verbatim>\<open>if err != nil { return h(err) }\<close> does.\<close>

definition catchE :: "('w, 'e, 'a) go \<Rightarrow> ('e \<Rightarrow> ('w, 'e, 'a) go) \<Rightarrow> ('w, 'e, 'a) go" where
  "catchE m h w = (case m w of (Inl e, w') \<Rightarrow> h e w' | (Inr x, w') \<Rightarrow> (Inr x, w'))"

definition mapErr :: "('e \<Rightarrow> 'e) \<Rightarrow> ('w, 'e, 'a) go \<Rightarrow> ('w, 'e, 'a) go" where
  "mapErr g m = catchE m (\<lambda>e. raise (g e))"

definition attempt :: "('w, 'e, 'a) go \<Rightarrow> ('w, 'e, 'e + 'a) go" where
  "attempt m w = (case m w of (r, w') \<Rightarrow> (Inr r, w'))"

definition liftE :: "'e + 'a \<Rightarrow> ('w, 'e, 'a) go" where
  "liftE r w = (r, w)"

definition failIf :: "bool \<Rightarrow> 'e \<Rightarrow> ('w, 'e, unit) go" where
  "failIf c e = (if c then raise e else ret ())"

text \<open>
  A range loop whose body may return an error: \<open>forE\<close> runs the body for its effects,
  \<open>collectE\<close> appends one result per element.
\<close>

fun forE :: "'a list \<Rightarrow> ('a \<Rightarrow> ('w, 'e, unit) go) \<Rightarrow> ('w, 'e, unit) go" where
  "forE [] f = ret ()"
| "forE (x # xs) f = bindE (f x) (\<lambda>_. forE xs f)"

fun collectE :: "'a list \<Rightarrow> ('a \<Rightarrow> ('w, 'e, 'b) go) \<Rightarrow> ('w, 'e, 'b list) go" where
  "collectE [] f = ret []"
| "collectE (x # xs) f = bindE (f x) (\<lambda>y. bindE (collectE xs f) (\<lambda>ys. ret (y # ys)))"

text \<open>A loop that updates variables of the enclosing function, and may return an error.\<close>

fun foldE :: "('a \<Rightarrow> 's \<Rightarrow> ('w, 'e, 's) go) \<Rightarrow> 'a list \<Rightarrow> 's \<Rightarrow> ('w, 'e, 's) go" where
  "foldE f [] s = ret s"
| "foldE f (x # xs) s = bindE (f x s) (foldE f xs)"

lemma foldE_cong [fundef_cong]:
  "xs = ys \<Longrightarrow> (\<And>x. x \<in> set ys \<Longrightarrow> f x = g x) \<Longrightarrow> foldE f xs = foldE g ys"
  by (induction xs arbitrary: ys) (auto intro!: ext)

lemma forE_cong [fundef_cong]:
  "xs = ys \<Longrightarrow> (\<And>x. x \<in> set ys \<Longrightarrow> f x = g x) \<Longrightarrow> forE xs f = forE ys g"
  by (induction xs arbitrary: ys) auto

lemma bindE_assoc: "bindE (bindE m f) g = bindE m (\<lambda>x. bindE (f x) g)"
  by (rule ext) (auto simp: bindE_def split: prod.splits sum.splits)

lemma bindE_ret [simp]: "bindE (ret x) f = f x" "bindE m ret = m"
  by (rule ext, auto simp: bindE_def ret_def split: prod.splits sum.splits)+

lemma foldE_append: "foldE f (xs @ ys) = (\<lambda>s. bindE (foldE f xs s) (foldE f ys))"
  by (induction xs) (auto simp: bindE_assoc intro!: ext)

lemma foldE_concat: "foldE f (concat xss) = foldE (foldE f) xss"
  by (induction xss) (auto simp: foldE_append intro!: ext)

lemma foldE_map: "foldE f (map g xs) = foldE (\<lambda>x. f (g x)) xs"
  by (induction xs) (auto intro!: ext)

lemma bindE_Inr:
  "bindE m f w = (Inr y, w'') \<longleftrightarrow> (\<exists>x w'. m w = (Inr x, w') \<and> f x w' = (Inr y, w''))"
  by (auto simp: bindE_def split: prod.splits sum.splits)

lemma bindE_Inl:
  "bindE m f w = (Inl e, w'') \<longleftrightarrow>
     m w = (Inl e, w'') \<or> (\<exists>x w'. m w = (Inr x, w') \<and> f x w' = (Inl e, w''))"
  by (auto simp: bindE_def split: prod.splits sum.splits)

lemma bindE_run: "m w = (Inr x, w') \<Longrightarrow> bindE m f w = f x w'"
  by (simp add: bindE_def)

lemma bindE_stop: "m w = (Inl e, w') \<Longrightarrow> bindE m f w = (Inl e, w')"
  by (simp add: bindE_def)

lemma catchE_Inr:
  "catchE m h w = (Inr x, w'') \<longleftrightarrow>
     m w = (Inr x, w'') \<or> (\<exists>e w'. m w = (Inl e, w') \<and> h e w' = (Inr x, w''))"
  by (auto simp: catchE_def split: prod.splits sum.splits)

lemma mapErr_Inr [simp]: "mapErr g m w = (Inr x, w') \<longleftrightarrow> m w = (Inr x, w')"
  by (auto simp: mapErr_def catchE_Inr raise_def)

lemma mapErr_Inl: "mapErr g m w = (Inl e, w') \<longleftrightarrow> (\<exists>d. m w = (Inl d, w') \<and> e = g d)"
  by (auto simp: mapErr_def catchE_def raise_def split: prod.splits sum.splits)

lemma snd_mapErr [simp]: "snd (mapErr g m w) = snd (m w)"
  by (auto simp: mapErr_def catchE_def raise_def split: prod.splits sum.splits)

lemma ret_simps [simp]: "ret x w = (r, w') \<longleftrightarrow> r = Inr x \<and> w' = w"
  by (auto simp: ret_def)

lemma raise_simps [simp]: "raise e w = (r, w') \<longleftrightarrow> r = Inl e \<and> w' = w"
  by (auto simp: raise_def)

lemma liftE_simps [simp]: "liftE r w = (r', w') \<longleftrightarrow> r' = r \<and> w' = w"
  by (auto simp: liftE_def)

lemma failIf_Inr [simp]: "failIf c e w = (Inr u, w') \<longleftrightarrow> \<not> c \<and> w' = w"
  by (auto simp: failIf_def)

lemma failIf_Inl [simp]: "failIf c e w = (Inl d, w') \<longleftrightarrow> c \<and> d = e \<and> w' = w"
  by (auto simp: failIf_def)

lemma attempt_simps: "attempt m w = (r, w') \<longleftrightarrow> (\<exists>x. r = Inr x \<and> m w = (x, w'))"
  by (auto simp: attempt_def split: prod.splits)

lemmas go_eval = bindE_def catchE_def mapErr_def attempt_def liftE_def failIf_def ret_def raise_def

lemmas go_Inr = bindE_Inr mapErr_Inr ret_simps raise_simps liftE_simps failIf_Inr

section \<open>Stepping along a relation\<close>

definition steps :: "('w \<Rightarrow> 'w \<Rightarrow> bool) \<Rightarrow> ('w, 'e, 'a) go \<Rightarrow> bool" where
  "steps R m \<longleftrightarrow> (\<forall>w. R w (snd (m w)))"

lemma stepsI: "(\<And>w. R w (snd (m w))) \<Longrightarrow> steps R m"
  by (simp add: steps_def)

lemma stepsD: "steps R m \<Longrightarrow> m w = (r, w') \<Longrightarrow> R w w'"
  by (metis steps_def snd_conv)

lemma steps_mono: "steps R m \<Longrightarrow> (\<And>w w'. R w w' \<Longrightarrow> Q w w') \<Longrightarrow> steps Q m"
  by (simp add: steps_def)

locale effect_preorder =
  fixes R :: "'w \<Rightarrow> 'w \<Rightarrow> bool"
  assumes step_refl: "R w w"
    and step_trans: "R u v \<Longrightarrow> R v w \<Longrightarrow> R u w"
begin

lemma steps_ret: "steps R (ret x)"
  by (simp add: steps_def ret_def step_refl)

lemma steps_raise: "steps R (raise e)"
  by (simp add: steps_def raise_def step_refl)

lemma steps_liftE: "steps R (liftE r)"
  by (simp add: steps_def liftE_def step_refl)

lemma steps_failIf: "steps R (failIf c e)"
  by (simp add: failIf_def steps_ret steps_raise)

lemma steps_bindE: "steps R m \<Longrightarrow> (\<And>x. steps R (f x)) \<Longrightarrow> steps R (bindE m f)"
  unfolding steps_def bindE_def
  by (auto split: prod.splits sum.splits intro: step_trans) (metis snd_conv step_trans)+

lemma steps_catchE: "steps R m \<Longrightarrow> (\<And>e. steps R (h e)) \<Longrightarrow> steps R (catchE m h)"
  unfolding steps_def catchE_def
  by (auto split: prod.splits sum.splits intro: step_trans) (metis snd_conv step_trans)+

lemma steps_mapErr: "steps R m \<Longrightarrow> steps R (mapErr g m)"
  by (simp add: mapErr_def steps_catchE steps_raise)

lemma steps_attempt: "steps R m \<Longrightarrow> steps R (attempt m)"
  by (auto simp: steps_def attempt_def split: prod.splits) (metis snd_conv)

lemma steps_forE: "(\<And>x. x \<in> set xs \<Longrightarrow> steps R (f x)) \<Longrightarrow> steps R (forE xs f)"
  by (induction xs) (auto intro: steps_ret steps_bindE)

lemma steps_collectE: "(\<And>x. x \<in> set xs \<Longrightarrow> steps R (f x)) \<Longrightarrow> steps R (collectE xs f)"
  by (induction xs) (auto intro: steps_ret steps_bindE)

lemma steps_foldE: "(\<And>x s. x \<in> set xs \<Longrightarrow> steps R (f x s)) \<Longrightarrow> steps R (foldE f xs s)"
  by (induction xs arbitrary: s) (auto intro: steps_ret steps_bindE)

lemma steps_if: "(c \<Longrightarrow> steps R m) \<Longrightarrow> (\<not> c \<Longrightarrow> steps R n) \<Longrightarrow> steps R (if c then m else n)"
  by simp

lemma steps_option:
  "steps R m \<Longrightarrow> (\<And>x. steps R (f x)) \<Longrightarrow> steps R (case x of None \<Rightarrow> m | Some x \<Rightarrow> f x)"
  by (cases x) auto

lemma steps_sum:
  "(\<And>e. steps R (g e)) \<Longrightarrow> (\<And>x. steps R (f x)) \<Longrightarrow> steps R (case x of Inl e \<Rightarrow> g e | Inr x \<Rightarrow> f x)"
  by (cases x) auto

lemma steps_prod: "(\<And>a b. steps R (f a b)) \<Longrightarrow> steps R (case x of (a, b) \<Rightarrow> f a b)"
  by (cases x) auto

lemma steps_let: "(\<And>x. steps R (f x)) \<Longrightarrow> steps R (let x = v in f x)"
  by simp

lemmas steps_rules = steps_ret steps_raise steps_liftE steps_failIf steps_bindE steps_catchE
  steps_mapErr steps_attempt steps_forE steps_collectE steps_foldE steps_if steps_option steps_sum steps_prod
  steps_let

end

text \<open>The two loops keep their order and length.\<close>

lemma collectE_length: "collectE xs f w = (Inr ys, w') \<Longrightarrow> length ys = length xs"
  by (induction xs arbitrary: w ys) (auto simp: bindE_Inr)

lemma collectE_all2:
  assumes "collectE xs f w = (Inr ys, w')"
    and "\<And>x y w w'. x \<in> set xs \<Longrightarrow> f x w = (Inr y, w') \<Longrightarrow> P x y"
  shows "list_all2 P xs ys"
  using assms
  by (induction xs arbitrary: w ys) (auto simp: bindE_Inr)

end
