(* ===== verification/Domain_Model.thy ===== *)
theory Domain_Model
  imports Go_Effects
begin

text \<open>
  The package \<^verbatim>\<open>internal/domain\<close>: the error values, identifiers, names, the string-backed enums
  with their parsers, and the entities with their validation. Names follow the source; a struct
  field \<^verbatim>\<open>F\<close> of a struct \<^verbatim>\<open>T\<close> is \<open>T_F\<close>.

  An enum \<^verbatim>\<open>type T string\<close> is a \<^theory_text>\<open>datatype\<close> with one constructor per constant, \<open>T_String\<close> is its
  \<^verbatim>\<open>String()\<close> and \<open>NewT\<close> its parser. The round trip between the two is what lets the repository
  layer store the text and scan it back.
\<close>

section \<open>Errors\<close>

datatype domain_error =
    ErrInvalidModuleName | ErrInvalidVersion | ErrInvalidModuleVersionState
  | ErrInvalidArtifactKind | ErrInvalidBreakingStatus | ErrInvalidGitLabBaseURL
  | ErrInvalidGitLabProjectID | ErrInvalidGitLabProjectPath | ErrInvalidRuntimeServiceName
  | ErrInvalidRuntimeEnvironment | ErrInvalidRuntimeGitCommit | ErrInvalidRuntimeBuildVersion
  | ErrInvalidRuntimeDriftStatus | ErrInvalidGovernanceSubjectType | ErrInvalidGovernanceSubject
  | ErrInvalidModuleOwnerRole | ErrInvalidApprovalRequestStatus
  | ErrInvalidApprovalRequirementType | ErrInvalidApprovalRequirementStatus
  | ErrInvalidApprovalDecision | ErrInvalidApprovalActor | ErrInvalidGovernanceAuditEventType
  | ErrApprovalDecisionCommentTooLong | ErrDuplicate | ErrNotFound

datatype governance_error =
    GovErrInvalidModuleName | GovErrModuleNotFound | GovErrInvalidSubjectType
  | GovErrInvalidSubject | GovErrInvalidModuleOwnerRole | GovErrInvalidModuleOwnerID
  | GovErrModuleOwnerNotFound | GovErrModuleOwnerAlreadyExists | GovErrInvalidBreakingReportID
  | GovErrBreakingReportNotFound | GovErrApprovalRequestNotFound | GovErrInvalidRequirementID
  | GovErrApprovalRequirementNotFound | GovErrInvalidApprovalActor
  | GovErrApprovalDecisionCommentTooLong | GovErrApprovalRequestConflict
  | GovErrApprovalRequirementConflict | GovErrApprovalActorForbidden
  | GovErrGovernanceActorOverrideForbidden

datatype registry_error =
    RegErrInvalidModuleName | RegErrInvalidVersion | RegErrModuleNotFound
  | RegErrModuleGitLabProjectNotFound | RegErrModuleAlreadyExists
  | RegErrModuleVersionAlreadyExists | RegErrInvalidActor | RegErrInvalidGitLabBaseURL
  | RegErrInvalidGitLabProjectID | RegErrInvalidGitLabProjectPath
  | RegErrGitLabProjectAlreadyLinked | RegErrArtifactTooLarge | RegErrInvalidOrExpiredToken
  | RegErrStorageFailure | RegErrArtifactRequired | RegErrBufConfigNotFound
  | RegErrBufBuildFailed | RegErrBufLintFailed | RegErrBufBreakingFailed
  | RegErrDescriptorExtractionFailed | RegErrUnsafeArchive | RegErrBufWorkflowUnavailable
  | RegErrBufBreakingUnavailable | RegErrInvalidAgainst | RegErrBaselineVersionNotFound
  | RegErrBaselineBufImageMissing | RegErrInvalidTargetRef | RegErrBreakingReportNotFound

datatype runtime_error = RtErrInvalidModuleVersionReference | RtErrRuntimeModulesRequired

text \<open>The sentinels of the packages \<^verbatim>\<open>identity\<close>, \<^verbatim>\<open>authorization\<close>, \<^verbatim>\<open>edition\<close> and \<^verbatim>\<open>audit\<close>.\<close>

datatype access_error =
  AuthnErrUnauthenticated | AuthzErrUnauthenticated | ErrForbidden | ErrCapabilityNotAvailable
| ErrPayloadTooLarge

text \<open>
  What PostgreSQL reports: the SQLSTATE classes the adapter tells apart, and any other code.
\<close>

datatype pg_error =
  UniqueViolation | CheckViolation string | ForeignKeyViolation | InvalidTextRepresentation
| NoRows

datatype goerr =
    Domain domain_error | Governance governance_error | Registry registry_error
  | Runtime runtime_error | Access access_error | Pg pg_error | Infra string
  | Joined goerr goerr

text \<open>\<^verbatim>\<open>errors.Is\<close>: sentinels are compared by identity, \<^verbatim>\<open>errors.Join\<close> is searched.\<close>

fun errors_Is :: "goerr \<Rightarrow> goerr \<Rightarrow> bool" where
  "errors_Is (Joined a b) target = (Joined a b = target \<or> errors_Is a target \<or> errors_Is b target)"
| "errors_Is e target = (e = target)"

lemma errors_Is_refl [simp]: "errors_Is e e"
  by (cases e) auto

section \<open>Identifiers\<close>

type_synonym ModuleID = string
type_synonym ModuleVersionID = string
type_synonym ArtifactID = string
type_synonym APITokenID = string
type_synonym BreakingReportID = string
type_synonym BreakingChangeID = string
type_synonym ModuleDependencyID = string
type_synonym UnresolvedProtoDependencyID = string
type_synonym RuntimeServiceID = string
type_synonym RuntimeDeploymentID = string
type_synonym RuntimeModuleUsageID = string
type_synonym ModuleOwnerID = string
type_synonym ApprovalRequestID = string
type_synonym ApprovalRequirementID = string
type_synonym ApprovalDecisionID = string
type_synonym GovernanceAuditEventID = string

text \<open>All identifier constructors of \<^verbatim>\<open>ids.go\<close> trim their argument.\<close>

definition NewID :: "string \<Rightarrow> string" where
  "NewID value = TrimSpace value"

lemma NewID_idem [simp]: "NewID (NewID s) = NewID s"
  by (simp add: NewID_def)

section \<open>Names and versions\<close>

type_synonym ModuleName = string
type_synonym Version = string
type_synonym RuntimeServiceName = string
type_synonym RuntimeEnvironment = string

text \<open>
  The loops \<^verbatim>\<open>for _, ch := range name\<close> test code points. A byte of 0x80 or above belongs to a code
  point that no branch admits (or to the replacement character), so testing bytes is the same.
\<close>

definition module_name_char :: "char \<Rightarrow> bool" where
  "module_name_char ch \<longleftrightarrow>
     CHR ''a'' \<le> ch \<and> ch \<le> CHR ''z'' \<or> CHR ''0'' \<le> ch \<and> ch \<le> CHR ''9''
     \<or> ch = CHR ''-'' \<or> ch = CHR ''_''"

definition NewModuleName :: "string \<Rightarrow> goerr + ModuleName" where
  "NewModuleName value =
     (let name = TrimSpace value
      in if name = '''' then Inl (Domain ErrInvalidModuleName)
         else if list_all module_name_char name then Inr name
         else Inl (Domain ErrInvalidModuleName))"

definition NewVersion :: "string \<Rightarrow> goerr + Version" where
  "NewVersion value =
     (let version = TrimSpace value
      in if version = '''' then Inl (Domain ErrInvalidVersion) else Inr version)"

definition MaxRuntimeServiceNameLength :: nat where "MaxRuntimeServiceNameLength = 128"
definition MaxRuntimeEnvironmentLength :: nat where "MaxRuntimeEnvironmentLength = 64"
definition MaxRuntimeGitCommitLength :: nat where "MaxRuntimeGitCommitLength = 128"
definition MaxRuntimeBuildVersionLength :: nat where "MaxRuntimeBuildVersionLength = 128"

definition isRuntimeNameChar :: "char \<Rightarrow> bool" where
  "isRuntimeNameChar ch \<longleftrightarrow>
     CHR ''a'' \<le> ch \<and> ch \<le> CHR ''z'' \<or> CHR ''A'' \<le> ch \<and> ch \<le> CHR ''Z''
     \<or> CHR ''0'' \<le> ch \<and> ch \<le> CHR ''9''
     \<or> ch = CHR ''-'' \<or> ch = CHR ''_'' \<or> ch = CHR ''/'' \<or> ch = CHR ''.''"

definition NewRuntimeServiceName :: "string \<Rightarrow> goerr + RuntimeServiceName" where
  "NewRuntimeServiceName value =
     (let name = TrimSpace value
      in if name = '''' \<or> length name > MaxRuntimeServiceNameLength
         then Inl (Domain ErrInvalidRuntimeServiceName)
         else if list_all isRuntimeNameChar name then Inr name
         else Inl (Domain ErrInvalidRuntimeServiceName))"

definition NewRuntimeEnvironment :: "string \<Rightarrow> goerr + RuntimeEnvironment" where
  "NewRuntimeEnvironment value =
     (let environment = TrimSpace value
      in if environment = '''' \<or> length environment > MaxRuntimeEnvironmentLength
         then Inl (Domain ErrInvalidRuntimeEnvironment)
         else if list_all isRuntimeNameChar environment then Inr environment
         else Inl (Domain ErrInvalidRuntimeEnvironment))"

definition ValidateRuntimeGitCommit :: "string \<Rightarrow> goerr + unit" where
  "ValidateRuntimeGitCommit value =
     (let commit = TrimSpace value
      in if commit = '''' \<or> length commit > MaxRuntimeGitCommitLength
            \<or> ContainsAny commit [CHR '' '', CHR 0x09, CHR 0x0A, CHR 0x0D]
         then Inl (Domain ErrInvalidRuntimeGitCommit) else Inr ())"

definition ValidateRuntimeBuildVersion :: "string \<Rightarrow> goerr + unit" where
  "ValidateRuntimeBuildVersion value =
     (let version = TrimSpace value
      in if version = '''' \<or> length version > MaxRuntimeBuildVersionLength
            \<or> ContainsAny version [CHR 0x09, CHR 0x0A, CHR 0x0D]
         then Inl (Domain ErrInvalidRuntimeBuildVersion) else Inr ())"

lemma NewModuleName_Inr:
  "NewModuleName v = Inr n \<longleftrightarrow> n = TrimSpace v \<and> n \<noteq> '''' \<and> list_all module_name_char n"
  by (auto simp: NewModuleName_def Let_def)

lemma NewVersion_Inr: "NewVersion v = Inr n \<longleftrightarrow> n = TrimSpace v \<and> n \<noteq> ''''"
  by (auto simp: NewVersion_def Let_def)

lemma NewModuleName_again: "NewModuleName v = Inr n \<Longrightarrow> NewModuleName n = Inr n"
  by (auto simp: NewModuleName_Inr)

lemma NewVersion_again: "NewVersion v = Inr n \<Longrightarrow> NewVersion n = Inr n"
  by (auto simp: NewVersion_Inr)

lemma NewRuntimeServiceName_Inr:
  "NewRuntimeServiceName v = Inr n \<longleftrightarrow>
     n = TrimSpace v \<and> n \<noteq> '''' \<and> length n \<le> MaxRuntimeServiceNameLength
     \<and> list_all isRuntimeNameChar n"
  by (auto simp: NewRuntimeServiceName_def Let_def)

lemma NewRuntimeEnvironment_Inr:
  "NewRuntimeEnvironment v = Inr n \<longleftrightarrow>
     n = TrimSpace v \<and> n \<noteq> '''' \<and> length n \<le> MaxRuntimeEnvironmentLength
     \<and> list_all isRuntimeNameChar n"
  by (auto simp: NewRuntimeEnvironment_def Let_def)

section \<open>Enums\<close>

text \<open>
  The list of an enum is its \<^verbatim>\<open>Xs()\<close> function, in the order of the source; the parser searches
  the trimmed value in it, as \<^verbatim>\<open>IsValid\<close> does. The status of a module version is the one enum
  whose parser does not trim.
\<close>

datatype GovernanceSubjectType =
    GovernanceSubjectTypeUser
  | GovernanceSubjectTypeTeam

fun GovernanceSubjectType_String :: "GovernanceSubjectType \<Rightarrow> string" where
  "GovernanceSubjectType_String GovernanceSubjectTypeUser = ''user''"
| "GovernanceSubjectType_String GovernanceSubjectTypeTeam = ''team''"

definition GovernanceSubjectTypes :: "GovernanceSubjectType list" where
  "GovernanceSubjectTypes =
     [GovernanceSubjectTypeUser,
      GovernanceSubjectTypeTeam]"

definition NewGovernanceSubjectType :: "string \<Rightarrow> goerr + GovernanceSubjectType" where
  "NewGovernanceSubjectType value =
     (case find (\<lambda>x. GovernanceSubjectType_String x = TrimSpace value) GovernanceSubjectTypes of
        Some x \<Rightarrow> Inr x | None \<Rightarrow> Inl (Domain ErrInvalidGovernanceSubjectType))"

datatype ModuleOwnerRole =
    ModuleOwnerRoleOwner
  | ModuleOwnerRoleMaintainer

fun ModuleOwnerRole_String :: "ModuleOwnerRole \<Rightarrow> string" where
  "ModuleOwnerRole_String ModuleOwnerRoleOwner = ''owner''"
| "ModuleOwnerRole_String ModuleOwnerRoleMaintainer = ''maintainer''"

definition ModuleOwnerRoles :: "ModuleOwnerRole list" where
  "ModuleOwnerRoles =
     [ModuleOwnerRoleOwner,
      ModuleOwnerRoleMaintainer]"

definition NewModuleOwnerRole :: "string \<Rightarrow> goerr + ModuleOwnerRole" where
  "NewModuleOwnerRole value =
     (case find (\<lambda>x. ModuleOwnerRole_String x = TrimSpace value) ModuleOwnerRoles of
        Some x \<Rightarrow> Inr x | None \<Rightarrow> Inl (Domain ErrInvalidModuleOwnerRole))"

datatype ApprovalRequestStatus =
    ApprovalRequestStatusPending
  | ApprovalRequestStatusApproved
  | ApprovalRequestStatusRejected
  | ApprovalRequestStatusCancelled
  | ApprovalRequestStatusNotRequired

fun ApprovalRequestStatus_String :: "ApprovalRequestStatus \<Rightarrow> string" where
  "ApprovalRequestStatus_String ApprovalRequestStatusPending = ''pending''"
| "ApprovalRequestStatus_String ApprovalRequestStatusApproved = ''approved''"
| "ApprovalRequestStatus_String ApprovalRequestStatusRejected = ''rejected''"
| "ApprovalRequestStatus_String ApprovalRequestStatusCancelled = ''cancelled''"
| "ApprovalRequestStatus_String ApprovalRequestStatusNotRequired = ''not_required''"

definition ApprovalRequestStatuses :: "ApprovalRequestStatus list" where
  "ApprovalRequestStatuses =
     [ApprovalRequestStatusPending,
      ApprovalRequestStatusApproved,
      ApprovalRequestStatusRejected,
      ApprovalRequestStatusCancelled,
      ApprovalRequestStatusNotRequired]"

definition NewApprovalRequestStatus :: "string \<Rightarrow> goerr + ApprovalRequestStatus" where
  "NewApprovalRequestStatus value =
     (case find (\<lambda>x. ApprovalRequestStatus_String x = TrimSpace value) ApprovalRequestStatuses of
        Some x \<Rightarrow> Inr x | None \<Rightarrow> Inl (Domain ErrInvalidApprovalRequestStatus))"

datatype ApprovalRequirementType =
    ApprovalRequirementTypeModuleOwnerApproval
  | ApprovalRequirementTypeAffectedConsumerApproval

fun ApprovalRequirementType_String :: "ApprovalRequirementType \<Rightarrow> string" where
  "ApprovalRequirementType_String ApprovalRequirementTypeModuleOwnerApproval = ''module_owner_approval''"
| "ApprovalRequirementType_String ApprovalRequirementTypeAffectedConsumerApproval = ''affected_consumer_approval''"

definition ApprovalRequirementTypes :: "ApprovalRequirementType list" where
  "ApprovalRequirementTypes =
     [ApprovalRequirementTypeModuleOwnerApproval,
      ApprovalRequirementTypeAffectedConsumerApproval]"

definition NewApprovalRequirementType :: "string \<Rightarrow> goerr + ApprovalRequirementType" where
  "NewApprovalRequirementType value =
     (case find (\<lambda>x. ApprovalRequirementType_String x = TrimSpace value) ApprovalRequirementTypes of
        Some x \<Rightarrow> Inr x | None \<Rightarrow> Inl (Domain ErrInvalidApprovalRequirementType))"

datatype ApprovalRequirementStatus =
    ApprovalRequirementStatusPending
  | ApprovalRequirementStatusApproved
  | ApprovalRequirementStatusRejected
  | ApprovalRequirementStatusNotRequired

fun ApprovalRequirementStatus_String :: "ApprovalRequirementStatus \<Rightarrow> string" where
  "ApprovalRequirementStatus_String ApprovalRequirementStatusPending = ''pending''"
| "ApprovalRequirementStatus_String ApprovalRequirementStatusApproved = ''approved''"
| "ApprovalRequirementStatus_String ApprovalRequirementStatusRejected = ''rejected''"
| "ApprovalRequirementStatus_String ApprovalRequirementStatusNotRequired = ''not_required''"

definition ApprovalRequirementStatuses :: "ApprovalRequirementStatus list" where
  "ApprovalRequirementStatuses =
     [ApprovalRequirementStatusPending,
      ApprovalRequirementStatusApproved,
      ApprovalRequirementStatusRejected,
      ApprovalRequirementStatusNotRequired]"

definition NewApprovalRequirementStatus :: "string \<Rightarrow> goerr + ApprovalRequirementStatus" where
  "NewApprovalRequirementStatus value =
     (case find (\<lambda>x. ApprovalRequirementStatus_String x = TrimSpace value) ApprovalRequirementStatuses of
        Some x \<Rightarrow> Inr x | None \<Rightarrow> Inl (Domain ErrInvalidApprovalRequirementStatus))"

datatype ApprovalDecisionValue =
    ApprovalDecisionValueApproved
  | ApprovalDecisionValueRejected

fun ApprovalDecisionValue_String :: "ApprovalDecisionValue \<Rightarrow> string" where
  "ApprovalDecisionValue_String ApprovalDecisionValueApproved = ''approved''"
| "ApprovalDecisionValue_String ApprovalDecisionValueRejected = ''rejected''"

definition ApprovalDecisionValues :: "ApprovalDecisionValue list" where
  "ApprovalDecisionValues =
     [ApprovalDecisionValueApproved,
      ApprovalDecisionValueRejected]"

definition NewApprovalDecisionValue :: "string \<Rightarrow> goerr + ApprovalDecisionValue" where
  "NewApprovalDecisionValue value =
     (case find (\<lambda>x. ApprovalDecisionValue_String x = TrimSpace value) ApprovalDecisionValues of
        Some x \<Rightarrow> Inr x | None \<Rightarrow> Inl (Domain ErrInvalidApprovalDecision))"

datatype GovernanceAuditEventType =
    GovernanceAuditEventTypeModuleOwnerAdded
  | GovernanceAuditEventTypeModuleOwnerRemoved
  | GovernanceAuditEventTypeApprovalRequestCreated
  | GovernanceAuditEventTypeApprovalDecisionRecorded
  | GovernanceAuditEventTypeApprovalRequestStatusChanged
  | GovernanceAuditEventTypePolicyEvaluated

fun GovernanceAuditEventType_String :: "GovernanceAuditEventType \<Rightarrow> string" where
  "GovernanceAuditEventType_String GovernanceAuditEventTypeModuleOwnerAdded = ''module_owner_added''"
| "GovernanceAuditEventType_String GovernanceAuditEventTypeModuleOwnerRemoved = ''module_owner_removed''"
| "GovernanceAuditEventType_String GovernanceAuditEventTypeApprovalRequestCreated = ''approval_request_created''"
| "GovernanceAuditEventType_String GovernanceAuditEventTypeApprovalDecisionRecorded = ''approval_decision_recorded''"
| "GovernanceAuditEventType_String GovernanceAuditEventTypeApprovalRequestStatusChanged = ''approval_request_status_changed''"
| "GovernanceAuditEventType_String GovernanceAuditEventTypePolicyEvaluated = ''policy_evaluated''"

definition GovernanceAuditEventTypes :: "GovernanceAuditEventType list" where
  "GovernanceAuditEventTypes =
     [GovernanceAuditEventTypeModuleOwnerAdded,
      GovernanceAuditEventTypeModuleOwnerRemoved,
      GovernanceAuditEventTypeApprovalRequestCreated,
      GovernanceAuditEventTypeApprovalDecisionRecorded,
      GovernanceAuditEventTypeApprovalRequestStatusChanged,
      GovernanceAuditEventTypePolicyEvaluated]"

definition NewGovernanceAuditEventType :: "string \<Rightarrow> goerr + GovernanceAuditEventType" where
  "NewGovernanceAuditEventType value =
     (case find (\<lambda>x. GovernanceAuditEventType_String x = TrimSpace value) GovernanceAuditEventTypes of
        Some x \<Rightarrow> Inr x | None \<Rightarrow> Inl (Domain ErrInvalidGovernanceAuditEventType))"

datatype BreakingReportStatus =
    BreakingReportStatusPassed
  | BreakingReportStatusBreaking
  | BreakingReportStatusFailed

fun BreakingReportStatus_String :: "BreakingReportStatus \<Rightarrow> string" where
  "BreakingReportStatus_String BreakingReportStatusPassed = ''passed''"
| "BreakingReportStatus_String BreakingReportStatusBreaking = ''breaking''"
| "BreakingReportStatus_String BreakingReportStatusFailed = ''failed''"

definition BreakingReportStatuses :: "BreakingReportStatus list" where
  "BreakingReportStatuses =
     [BreakingReportStatusPassed,
      BreakingReportStatusBreaking,
      BreakingReportStatusFailed]"

definition NewBreakingReportStatus :: "string \<Rightarrow> goerr + BreakingReportStatus" where
  "NewBreakingReportStatus value =
     (case find (\<lambda>x. BreakingReportStatus_String x = TrimSpace value) BreakingReportStatuses of
        Some x \<Rightarrow> Inr x | None \<Rightarrow> Inl (Domain ErrInvalidBreakingStatus))"

datatype ArtifactKind =
    ArtifactKindSourceArchive
  | ArtifactKindBufImage

fun ArtifactKind_String :: "ArtifactKind \<Rightarrow> string" where
  "ArtifactKind_String ArtifactKindSourceArchive = ''source_archive''"
| "ArtifactKind_String ArtifactKindBufImage = ''buf_image''"

definition ArtifactKinds :: "ArtifactKind list" where
  "ArtifactKinds =
     [ArtifactKindSourceArchive,
      ArtifactKindBufImage]"

definition NewArtifactKind :: "string \<Rightarrow> goerr + ArtifactKind" where
  "NewArtifactKind value =
     (case find (\<lambda>x. ArtifactKind_String x = TrimSpace value) ArtifactKinds of
        Some x \<Rightarrow> Inr x | None \<Rightarrow> Inl (Domain ErrInvalidArtifactKind))"

datatype ModuleVersionStatus =
    ModuleVersionStatusDraft
  | ModuleVersionStatusPublished

fun ModuleVersionStatus_String :: "ModuleVersionStatus \<Rightarrow> string" where
  "ModuleVersionStatus_String ModuleVersionStatusDraft = ''draft''"
| "ModuleVersionStatus_String ModuleVersionStatusPublished = ''published''"

definition ModuleVersionStatuses :: "ModuleVersionStatus list" where
  "ModuleVersionStatuses =
     [ModuleVersionStatusDraft,
      ModuleVersionStatusPublished]"

definition NewModuleVersionStatus :: "string \<Rightarrow> goerr + ModuleVersionStatus" where
  "NewModuleVersionStatus value =
     (case find (\<lambda>x. ModuleVersionStatus_String x = value) ModuleVersionStatuses of
        Some x \<Rightarrow> Inr x | None \<Rightarrow> Inl (Domain ErrInvalidModuleVersionState))"

datatype RuntimeDriftStatus =
    RuntimeDriftStatusUpToDate
  | RuntimeDriftStatusBehindLatest
  | RuntimeDriftStatusUnknownVersion
  | RuntimeDriftStatusDeprecatedVersion

fun RuntimeDriftStatus_String :: "RuntimeDriftStatus \<Rightarrow> string" where
  "RuntimeDriftStatus_String RuntimeDriftStatusUpToDate = ''up_to_date''"
| "RuntimeDriftStatus_String RuntimeDriftStatusBehindLatest = ''behind_latest''"
| "RuntimeDriftStatus_String RuntimeDriftStatusUnknownVersion = ''unknown_version''"
| "RuntimeDriftStatus_String RuntimeDriftStatusDeprecatedVersion = ''deprecated_version''"

definition RuntimeDriftStatuses :: "RuntimeDriftStatus list" where
  "RuntimeDriftStatuses =
     [RuntimeDriftStatusUpToDate,
      RuntimeDriftStatusBehindLatest,
      RuntimeDriftStatusUnknownVersion,
      RuntimeDriftStatusDeprecatedVersion]"

definition NewRuntimeDriftStatus :: "string \<Rightarrow> goerr + RuntimeDriftStatus" where
  "NewRuntimeDriftStatus value =
     (case find (\<lambda>x. RuntimeDriftStatus_String x = TrimSpace value) RuntimeDriftStatuses of
        Some x \<Rightarrow> Inr x | None \<Rightarrow> Inl (Domain ErrInvalidRuntimeDriftStatus))"

datatype DependencySource =
    DependencySourceImport
  | DependencySourceTypeReference
  | DependencySourceMethodReference
  | DependencySourcePackageFallback

fun DependencySource_String :: "DependencySource \<Rightarrow> string" where
  "DependencySource_String DependencySourceImport = ''import''"
| "DependencySource_String DependencySourceTypeReference = ''type_reference''"
| "DependencySource_String DependencySourceMethodReference = ''method_reference''"
| "DependencySource_String DependencySourcePackageFallback = ''package_fallback''"

datatype DependencyResolutionReason =
    DependencyResolutionReasonImportPath
  | DependencyResolutionReasonSymbol
  | DependencyResolutionReasonPackageFallback

fun DependencyResolutionReason_String :: "DependencyResolutionReason \<Rightarrow> string" where
  "DependencyResolutionReason_String DependencyResolutionReasonImportPath = ''import_path''"
| "DependencyResolutionReason_String DependencyResolutionReasonSymbol = ''symbol''"
| "DependencyResolutionReason_String DependencyResolutionReasonPackageFallback = ''package_fallback''"

datatype UnresolvedDependencyReason =
    UnresolvedDependencyReasonProviderNotFound
  | UnresolvedDependencyReasonAmbiguousProvider

fun UnresolvedDependencyReason_String :: "UnresolvedDependencyReason \<Rightarrow> string" where
  "UnresolvedDependencyReason_String UnresolvedDependencyReasonProviderNotFound = ''provider_not_found''"
| "UnresolvedDependencyReason_String UnresolvedDependencyReasonAmbiguousProvider = ''ambiguous_provider''"

lemma NewGovernanceSubjectType_String [simp]: "NewGovernanceSubjectType (GovernanceSubjectType_String x) = Inr x"
  by (cases x) (simp_all add: NewGovernanceSubjectType_def GovernanceSubjectTypes_def trim_eval)

lemma GovernanceSubjectType_String_inj [simp]: "GovernanceSubjectType_String x = GovernanceSubjectType_String y \<longleftrightarrow> x = y"
  by (cases x; cases y) simp_all

lemma NewModuleOwnerRole_String [simp]: "NewModuleOwnerRole (ModuleOwnerRole_String x) = Inr x"
  by (cases x) (simp_all add: NewModuleOwnerRole_def ModuleOwnerRoles_def trim_eval)

lemma ModuleOwnerRole_String_inj [simp]: "ModuleOwnerRole_String x = ModuleOwnerRole_String y \<longleftrightarrow> x = y"
  by (cases x; cases y) simp_all

lemma NewApprovalRequestStatus_String [simp]: "NewApprovalRequestStatus (ApprovalRequestStatus_String x) = Inr x"
  by (cases x) (simp_all add: NewApprovalRequestStatus_def ApprovalRequestStatuses_def trim_eval)

lemma ApprovalRequestStatus_String_inj [simp]: "ApprovalRequestStatus_String x = ApprovalRequestStatus_String y \<longleftrightarrow> x = y"
  by (cases x; cases y) simp_all

lemma NewApprovalRequirementType_String [simp]: "NewApprovalRequirementType (ApprovalRequirementType_String x) = Inr x"
  by (cases x) (simp_all add: NewApprovalRequirementType_def ApprovalRequirementTypes_def trim_eval)

lemma ApprovalRequirementType_String_inj [simp]: "ApprovalRequirementType_String x = ApprovalRequirementType_String y \<longleftrightarrow> x = y"
  by (cases x; cases y) simp_all

lemma NewApprovalRequirementStatus_String [simp]: "NewApprovalRequirementStatus (ApprovalRequirementStatus_String x) = Inr x"
  by (cases x) (simp_all add: NewApprovalRequirementStatus_def ApprovalRequirementStatuses_def trim_eval)

lemma ApprovalRequirementStatus_String_inj [simp]: "ApprovalRequirementStatus_String x = ApprovalRequirementStatus_String y \<longleftrightarrow> x = y"
  by (cases x; cases y) simp_all

lemma NewApprovalDecisionValue_String [simp]: "NewApprovalDecisionValue (ApprovalDecisionValue_String x) = Inr x"
  by (cases x) (simp_all add: NewApprovalDecisionValue_def ApprovalDecisionValues_def trim_eval)

lemma ApprovalDecisionValue_String_inj [simp]: "ApprovalDecisionValue_String x = ApprovalDecisionValue_String y \<longleftrightarrow> x = y"
  by (cases x; cases y) simp_all

lemma NewGovernanceAuditEventType_String [simp]: "NewGovernanceAuditEventType (GovernanceAuditEventType_String x) = Inr x"
  by (cases x) (simp_all add: NewGovernanceAuditEventType_def GovernanceAuditEventTypes_def trim_eval)

lemma GovernanceAuditEventType_String_inj [simp]: "GovernanceAuditEventType_String x = GovernanceAuditEventType_String y \<longleftrightarrow> x = y"
  by (cases x; cases y) simp_all

lemma NewBreakingReportStatus_String [simp]: "NewBreakingReportStatus (BreakingReportStatus_String x) = Inr x"
  by (cases x) (simp_all add: NewBreakingReportStatus_def BreakingReportStatuses_def trim_eval)

lemma BreakingReportStatus_String_inj [simp]: "BreakingReportStatus_String x = BreakingReportStatus_String y \<longleftrightarrow> x = y"
  by (cases x; cases y) simp_all

lemma NewArtifactKind_String [simp]: "NewArtifactKind (ArtifactKind_String x) = Inr x"
  by (cases x) (simp_all add: NewArtifactKind_def ArtifactKinds_def trim_eval)

lemma ArtifactKind_String_inj [simp]: "ArtifactKind_String x = ArtifactKind_String y \<longleftrightarrow> x = y"
  by (cases x; cases y) simp_all

lemma NewModuleVersionStatus_String [simp]: "NewModuleVersionStatus (ModuleVersionStatus_String x) = Inr x"
  by (cases x) (simp_all add: NewModuleVersionStatus_def ModuleVersionStatuses_def)

lemma ModuleVersionStatus_String_inj [simp]: "ModuleVersionStatus_String x = ModuleVersionStatus_String y \<longleftrightarrow> x = y"
  by (cases x; cases y) simp_all

lemma NewRuntimeDriftStatus_String [simp]: "NewRuntimeDriftStatus (RuntimeDriftStatus_String x) = Inr x"
  by (cases x) (simp_all add: NewRuntimeDriftStatus_def RuntimeDriftStatuses_def trim_eval)

lemma RuntimeDriftStatus_String_inj [simp]: "RuntimeDriftStatus_String x = RuntimeDriftStatus_String y \<longleftrightarrow> x = y"
  by (cases x; cases y) simp_all

lemma DependencySource_String_inj [simp]: "DependencySource_String x = DependencySource_String y \<longleftrightarrow> x = y"
  by (cases x; cases y) simp_all

lemma DependencyResolutionReason_String_inj [simp]: "DependencyResolutionReason_String x = DependencyResolutionReason_String y \<longleftrightarrow> x = y"
  by (cases x; cases y) simp_all

lemma UnresolvedDependencyReason_String_inj [simp]: "UnresolvedDependencyReason_String x = UnresolvedDependencyReason_String y \<longleftrightarrow> x = y"
  by (cases x; cases y) simp_all


end
