(* ===== verification/Domain_Entities.thy ===== *)
theory Domain_Entities
  imports Domain_Model
begin

text \<open>
  The structs of \<^verbatim>\<open>internal/domain\<close> as records, their validation methods, and the summary of
  descriptor metadata with what it counts.
\<close>

section \<open>Registry entities\<close>

record Module =
  Module_ID :: ModuleID
  Module_Name :: ModuleName
  Module_Description :: string
  Module_RepositoryURL :: string
  Module_CreatedAt :: time
  Module_UpdatedAt :: time

record ModuleVersion =
  Version_ID :: ModuleVersionID
  Version_ModuleID :: ModuleID
  Version_Version :: Version
  Version_Status :: ModuleVersionStatus
  Version_Digest :: string
  Version_CreatedAt :: time
  Version_PublishedAt :: "time option"
  Version_DeprecatedAt :: "time option"
  Version_DeprecatedBy :: string
  Version_DeprecationReason :: string

definition IsDeprecated :: "ModuleVersion \<Rightarrow> bool" where
  "IsDeprecated version \<longleftrightarrow> Version_DeprecatedAt version \<noteq> None"

record APIToken =
  Token_ID :: APITokenID
  Token_Name :: string
  Token_TokenHash :: string
  Token_CreatedAt :: time
  Token_LastUsedAt :: "time option"
  Token_ExpiresAt :: "time option"

definition IsExpired :: "APIToken \<Rightarrow> time \<Rightarrow> bool" where
  "IsExpired token now =
     (case Token_ExpiresAt token of None \<Rightarrow> False | Some expires \<Rightarrow> \<not> expires > now)"

record BreakingReport =
  Report_ID :: BreakingReportID
  Report_ModuleID :: ModuleID
  Report_ModuleName :: ModuleName
  Report_BaseVersionID :: ModuleVersionID
  Report_BaseVersion :: Version
  Report_TargetRef :: string
  Report_Status :: BreakingReportStatus
  Report_ChangeCount :: int
  Report_RawOutput :: string
  Report_HumanSummary :: string
  Report_CreatedAt :: time

record BreakingChange =
  Change_ID :: BreakingChangeID
  Change_ReportID :: BreakingReportID
  Change_Category :: string
  Change_FilePath :: string
  Change_PackageName :: string
  Change_Symbol :: string
  Change_RuleID :: string
  Change_Message :: string
  Change_Severity :: string
  Change_CreatedAt :: time

section \<open>Governance entities\<close>

definition MaxApprovalDecisionCommentLength :: int where
  "MaxApprovalDecisionCommentLength = 2000"

record ModuleOwner =
  Owner_ID :: ModuleOwnerID
  Owner_ModuleID :: ModuleID
  Owner_ModuleName :: ModuleName
  Owner_SubjectType :: GovernanceSubjectType
  Owner_Subject :: string
  Owner_Role :: ModuleOwnerRole
  Owner_CreatedAt :: time
  Owner_UpdatedAt :: time

definition ModuleOwner_Validate :: "ModuleOwner \<Rightarrow> goerr + unit" where
  "ModuleOwner_Validate owner =
     (if Owner_SubjectType owner \<notin> set GovernanceSubjectTypes
      then Inl (Domain ErrInvalidGovernanceSubjectType)
      else if TrimSpace (Owner_Subject owner) = '''' then Inl (Domain ErrInvalidGovernanceSubject)
      else if Owner_Role owner \<notin> set ModuleOwnerRoles
      then Inl (Domain ErrInvalidModuleOwnerRole)
      else Inr ())"

record ApprovalRequirement =
  Requirement_ID :: ApprovalRequirementID
  Requirement_ApprovalRequestID :: ApprovalRequestID
  Requirement_RequirementType :: ApprovalRequirementType
  Requirement_TargetModuleID :: "ModuleID option"
  Requirement_TargetModuleName :: ModuleName
  Requirement_RequiredRole :: "ModuleOwnerRole option"
  Requirement_Status :: ApprovalRequirementStatus
  Requirement_Reason :: string
  Requirement_CreatedAt :: time
  Requirement_UpdatedAt :: time

text \<open>The required role is optional: a stored \<open>''''\<close> scans to Go's zero value, here \<open>None\<close>.\<close>

record ApprovalDecision =
  Decision_ID :: ApprovalDecisionID
  Decision_ApprovalRequestID :: ApprovalRequestID
  Decision_RequirementID :: ApprovalRequirementID
  Decision_Decision :: ApprovalDecisionValue
  Decision_DecidedBy :: string
  Decision_Comment :: string
  Decision_CreatedAt :: time

record ApprovalRequest =
  Request_ID :: ApprovalRequestID
  Request_ModuleID :: ModuleID
  Request_ModuleName :: ModuleName
  Request_BreakingReportID :: "BreakingReportID option"
  Request_TargetRef :: string
  Request_Status :: ApprovalRequestStatus
  Request_RequiredApprovals :: int
  Request_ReceivedApprovals :: int
  Request_Requirements :: "ApprovalRequirement list"
  Request_Decisions :: "ApprovalDecision list"
  Request_CreatedAt :: time
  Request_UpdatedAt :: time

definition ApprovalDecision_Validate :: "ApprovalDecision \<Rightarrow> goerr + unit" where
  "ApprovalDecision_Validate decision =
     (if Decision_Decision decision \<notin> set ApprovalDecisionValues
      then Inl (Domain ErrInvalidApprovalDecision)
      else if TrimSpace (Decision_DecidedBy decision) = ''''
      then Inl (Domain ErrInvalidApprovalActor)
      else if int (length (Decision_Comment decision)) > MaxApprovalDecisionCommentLength
      then Inl (Domain ErrApprovalDecisionCommentTooLong)
      else Inr ())"

lemma ModuleOwner_Validate_Inr:
  "ModuleOwner_Validate owner = Inr () \<longleftrightarrow> TrimSpace (Owner_Subject owner) \<noteq> ''''"
  by (cases "Owner_SubjectType owner"; cases "Owner_Role owner")
    (simp_all add: ModuleOwner_Validate_def GovernanceSubjectTypes_def ModuleOwnerRoles_def)

lemma ApprovalDecision_Validate_Inr:
  "ApprovalDecision_Validate d = Inr () \<longleftrightarrow>
     TrimSpace (Decision_DecidedBy d) \<noteq> ''''
     \<and> int (length (Decision_Comment d)) \<le> MaxApprovalDecisionCommentLength"
  by (cases "Decision_Decision d")
    (auto simp: ApprovalDecision_Validate_def ApprovalDecisionValues_def)

text \<open>
  A JSON value as \<^verbatim>\<open>encoding/json\<close> is given it: the payloads the program marshals are objects of
  strings, numbers, booleans and times.
\<close>

datatype json = JString string | JInt int | JBool bool | JTime time | JArray "json list"
  | JObject "(string \<times> json) list"

record GovernanceAuditEvent =
  Audit_ID :: GovernanceAuditEventID
  Audit_EventType :: GovernanceAuditEventType
  Audit_Actor :: string
  Audit_ModuleID :: "ModuleID option"
  Audit_ModuleName :: ModuleName
  Audit_ApprovalRequestID :: "ApprovalRequestID option"
  Audit_BreakingReportID :: "BreakingReportID option"
  Audit_PayloadJSON :: json
  Audit_CreatedAt :: time

section \<open>Dependency graph entities\<close>

record ModuleDependency =
  Dep_ID :: ModuleDependencyID
  Dep_ConsumerModuleID :: ModuleID
  Dep_ConsumerModuleName :: ModuleName
  Dep_ConsumerModuleVersionID :: ModuleVersionID
  Dep_ConsumerVersion :: Version
  Dep_ProviderModuleID :: ModuleID
  Dep_ProviderModuleName :: ModuleName
  Dep_ProviderModuleVersionID :: ModuleVersionID
  Dep_ProviderVersion :: Version
  Dep_Source :: DependencySource
  Dep_Reason :: DependencyResolutionReason
  Dep_ImportPath :: string
  Dep_ReferencedPackage :: string
  Dep_ReferencedSymbol :: string
  Dep_CreatedAt :: time

record UnresolvedProtoDependency =
  Unres_ID :: UnresolvedProtoDependencyID
  Unres_ModuleID :: ModuleID
  Unres_ModuleName :: ModuleName
  Unres_ModuleVersionID :: ModuleVersionID
  Unres_Version :: Version
  Unres_Source :: DependencySource
  Unres_ImportPath :: string
  Unres_ReferencedPackage :: string
  Unres_ReferencedSymbol :: string
  Unres_Reason :: UnresolvedDependencyReason
  Unres_CreatedAt :: time

record AffectedModule =
  Affected_ModuleName :: ModuleName
  Affected_LatestVersion :: Version
  Affected_DependencySources :: "DependencySource list"
  Affected_Reasons :: "DependencyResolutionReason list"

section \<open>Runtime inventory entities\<close>

record RuntimeService =
  Service_ID :: RuntimeServiceID
  Service_Name :: RuntimeServiceName
  Service_CreatedAt :: time
  Service_UpdatedAt :: time

record RuntimeDeployment =
  Deployment_ID :: RuntimeDeploymentID
  Deployment_ServiceID :: RuntimeServiceID
  Deployment_ServiceName :: RuntimeServiceName
  Deployment_Environment :: RuntimeEnvironment
  Deployment_GitCommit :: string
  Deployment_BuildVersion :: string
  Deployment_ReportedAt :: time
  Deployment_CreatedAt :: time

record RuntimeModuleUsage =
  Usage_ID :: RuntimeModuleUsageID
  Usage_DeploymentID :: RuntimeDeploymentID
  Usage_ModuleID :: "ModuleID option"
  Usage_ModuleName :: ModuleName
  Usage_ModuleVersionID :: "ModuleVersionID option"
  Usage_Version :: Version
  Usage_LatestVersion :: "Version option"
  Usage_DriftStatus :: RuntimeDriftStatus
  Usage_DriftReason :: string
  Usage_CreatedAt :: time

record RuntimeImpact =
  Impact_ServiceName :: RuntimeServiceName
  Impact_Environment :: RuntimeEnvironment
  Impact_UsedModule :: ModuleName
  Impact_UsedVersion :: Version
  Impact_GitCommit :: string
  Impact_BuildVersion :: string
  Impact_ReportedAt :: time
  Impact_ImpactStatus :: string
  Impact_Reason :: string
  Impact_DriftStatus :: RuntimeDriftStatus
  Impact_DriftReason :: string

section \<open>Descriptor metadata\<close>

record ProtoImport =
  Import_Path :: string
  Import_Public :: bool
  Import_Weak :: bool

record ProtoMethod =
  Method_Name :: string
  Method_InputType :: string
  Method_OutputType :: string
  Method_ClientStreaming :: bool
  Method_ServerStreaming :: bool

record ProtoService =
  PService_Name :: string
  PService_FullName :: string
  PService_Methods :: "ProtoMethod list"

record ProtoField =
  Field_Name :: string
  Field_Number :: int
  Field_Type :: string
  Field_TypeName :: string
  Field_Label :: string
  Field_JSONName :: string
  Field_OneofName :: string
  Field_IsRepeated :: bool
  Field_IsMap :: bool

record ProtoEnumValue =
  EnumValue_Name :: string
  EnumValue_Number :: int

record ProtoEnum =
  Enum_Name :: string
  Enum_FullName :: string
  Enum_Values :: "ProtoEnumValue list"

datatype ProtoMessage = ProtoMessage
  (Message_Name: string)
  (Message_FullName: string)
  (Message_Fields: "ProtoField list")
  (Message_Messages: "ProtoMessage list")
  (Message_Enums: "ProtoEnum list")

record ProtoFile =
  File_Path :: string
  File_PackageName :: string
  File_Syntax :: string
  File_Imports :: "ProtoImport list"
  File_Services :: "ProtoService list"
  File_Messages :: "ProtoMessage list"
  File_Enums :: "ProtoEnum list"

type_synonym DescriptorMetadata = "ProtoFile list"

record DescriptorMetadataSummary =
  Sum_FileCount :: nat
  Sum_PackageCount :: nat
  Sum_ImportCount :: nat
  Sum_ServiceCount :: nat
  Sum_MethodCount :: nat
  Sum_MessageCount :: nat
  Sum_FieldCount :: nat
  Sum_EnumCount :: nat
  Sum_EnumValueCount :: nat

definition zero_summary :: DescriptorMetadataSummary where
  "zero_summary = \<lparr>Sum_FileCount = 0, Sum_PackageCount = 0, Sum_ImportCount = 0,
     Sum_ServiceCount = 0, Sum_MethodCount = 0, Sum_MessageCount = 0, Sum_FieldCount = 0,
     Sum_EnumCount = 0, Sum_EnumValueCount = 0\<rparr>"

definition addEnumSummary ::
  "ProtoEnum \<Rightarrow> DescriptorMetadataSummary \<Rightarrow> DescriptorMetadataSummary" where
  "addEnumSummary enum summary =
     summary\<lparr>Sum_EnumCount := Sum_EnumCount summary + 1,
       Sum_EnumValueCount := Sum_EnumValueCount summary + length (Enum_Values enum)\<rparr>"

fun addMessageSummary ::
  "ProtoMessage \<Rightarrow> DescriptorMetadataSummary \<Rightarrow> DescriptorMetadataSummary" where
  "addMessageSummary (ProtoMessage name full flds messages enums) =
     (\<lambda>summary. fold addEnumSummary enums
       (fold addMessageSummary messages
         (summary\<lparr>Sum_MessageCount := Sum_MessageCount summary + 1,
            Sum_FieldCount := Sum_FieldCount summary + length flds\<rparr>)))"

definition addServiceSummary ::
  "ProtoService \<Rightarrow> DescriptorMetadataSummary \<Rightarrow> DescriptorMetadataSummary" where
  "addServiceSummary service summary =
     summary\<lparr>Sum_ServiceCount := Sum_ServiceCount summary + 1,
       Sum_MethodCount := Sum_MethodCount summary + length (PService_Methods service)\<rparr>"

definition addFileSummary ::
  "ProtoFile \<Rightarrow> DescriptorMetadataSummary \<times> string set \<Rightarrow> DescriptorMetadataSummary \<times> string set" where
  "addFileSummary file acc =
     (case acc of (summary, packages) \<Rightarrow>
        (let packages' = (if File_PackageName file \<noteq> '''' then insert (File_PackageName file) packages
                          else packages);
             s1 = summary\<lparr>Sum_FileCount := Sum_FileCount summary + 1,
                    Sum_ImportCount := Sum_ImportCount summary + length (File_Imports file)\<rparr>;
             s2 = fold addServiceSummary (File_Services file) s1;
             s3 = fold addMessageSummary (File_Messages file) s2;
             s4 = fold addEnumSummary (File_Enums file) s3
         in (s4, packages')))"

definition Summary :: "DescriptorMetadata \<Rightarrow> DescriptorMetadataSummary" where
  "Summary files =
     (case fold addFileSummary files (zero_summary, {}) of (summary, packages) \<Rightarrow>
        summary\<lparr>Sum_PackageCount := card packages\<rparr>)"

text \<open>What the traversal visits: a message and all messages nested in it, in pre-order.\<close>

fun message_tree :: "ProtoMessage \<Rightarrow> ProtoMessage list" where
  "message_tree (ProtoMessage name full flds messages enums) =
     ProtoMessage name full flds messages enums # concat (map message_tree messages)"

lemma addEnums_counts:
  "Sum_EnumCount (fold addEnumSummary enums s) = Sum_EnumCount s + length enums
   \<and> Sum_EnumValueCount (fold addEnumSummary enums s)
       = Sum_EnumValueCount s + (\<Sum>e\<leftarrow>enums. length (Enum_Values e))
   \<and> Sum_MessageCount (fold addEnumSummary enums s) = Sum_MessageCount s
   \<and> Sum_FieldCount (fold addEnumSummary enums s) = Sum_FieldCount s"
  by (induction enums arbitrary: s) (simp_all add: addEnumSummary_def)

text \<open>The contribution of one message, and of a list of messages, to the counters.\<close>

lemma addMessage_counts:
  "Sum_MessageCount (addMessageSummary m s) = Sum_MessageCount s + length (message_tree m)
   \<and> Sum_FieldCount (addMessageSummary m s)
       = Sum_FieldCount s + (\<Sum>x\<leftarrow>message_tree m. length (Message_Fields x))
   \<and> Sum_EnumCount (addMessageSummary m s)
       = Sum_EnumCount s + (\<Sum>x\<leftarrow>message_tree m. length (Message_Enums x))"
proof (induction m arbitrary: s)
  case (ProtoMessage name full flds messages enums)
  have nested: "Sum_MessageCount (fold addMessageSummary ms s)
        = Sum_MessageCount s + length (concat (map message_tree ms))
      \<and> Sum_FieldCount (fold addMessageSummary ms s)
        = Sum_FieldCount s + (\<Sum>x\<leftarrow>concat (map message_tree ms). length (Message_Fields x))
      \<and> Sum_EnumCount (fold addMessageSummary ms s)
        = Sum_EnumCount s + (\<Sum>x\<leftarrow>concat (map message_tree ms). length (Message_Enums x))"
    if "set ms \<subseteq> set messages" for ms s
    using that
  proof (induction ms arbitrary: s)
    case (Cons m ms)
    then have m: "m \<in> set messages" and ms: "set ms \<subseteq> set messages" by auto
    show ?case using ProtoMessage.IH [OF m] Cons.IH [OF ms] by simp
  qed simp
  show ?case using nested [OF order.refl] by (simp add: addEnums_counts)
qed

lemma addMessages_count:
  "Sum_MessageCount (fold addMessageSummary ms s)
     = Sum_MessageCount s + length (concat (map message_tree ms))"
  by (induction ms arbitrary: s) (simp_all add: addMessage_counts)

lemma addServices_keep: "Sum_MessageCount (fold addServiceSummary ss s) = Sum_MessageCount s"
  by (induction ss arbitrary: s) (simp_all add: addServiceSummary_def)

lemma Summary_fold:
  "Sum_MessageCount (fst (fold addFileSummary files (s, ps)))
     = Sum_MessageCount s + length (concat (map message_tree (concat (map File_Messages files))))
   \<and> snd (fold addFileSummary files (s, ps)) = ps \<union> (File_PackageName ` set files - {''''})"
  by (induction files arbitrary: s ps)
    (auto simp: addFileSummary_def Let_def addEnums_counts addMessages_count addServices_keep)

end
