(* ===== verification/Store.thy ===== *)
theory Store
  imports Domain_Entities
begin

text \<open>
  The world the services act on: the PostgreSQL tables of \<^verbatim>\<open>migrations/\<close> as lists of rows in
  insertion order, the clock, the random source, and the faults of the infrastructure. Columns
  keep the text PostgreSQL stores; the repositories scan it back into the domain's types.

  A statement is one atomic step. It may fail for a reason of the infrastructure (\<open>w_fault\<close>, indexed
  by the number of statements issued so far) or because PostgreSQL rejects it; either way it leaves
  the tables as they were. Code outside the repository is the record \<open>platform\<close>: PostgreSQL's reading
  of a uuid literal (\<open>None\<close> rejects it, the result is the canonical text), \<^verbatim>\<open>gen_random_uuid()\<close>, the
  Unicode tables behind \<^verbatim>\<open>strings.ToLower\<close> and the encoder \<^verbatim>\<open>encoding/json\<close>.
\<close>

section \<open>Tables\<close>

record module_row =
  mod_id :: string
  mod_name :: string
  mod_description :: string
  mod_repository_url :: string
  mod_created_at :: time
  mod_updated_at :: time

record version_row =
  ver_id :: string
  ver_module_id :: string
  ver_version :: string
  ver_digest :: string
  ver_status :: string
  ver_created_at :: time
  ver_deprecated_at :: "time option"
  ver_deprecated_by :: string
  ver_deprecation_reason :: string

record token_row =
  tok_id :: string
  tok_name :: string
  tok_token_hash :: string
  tok_created_at :: time
  tok_expires_at :: "time option"
  tok_last_used_at :: "time option"

record project_row =
  prj_id :: string
  prj_module_id :: string
  prj_gitlab_base_url :: string
  prj_gitlab_project_id :: int
  prj_gitlab_project_path :: string
  prj_created_at :: time
  prj_updated_at :: time

record report_row =
  rep_id :: string
  rep_module_id :: string
  rep_base_version_id :: string
  rep_target_ref :: string
  rep_status :: string
  rep_change_count :: int
  rep_raw_output :: string
  rep_human_summary :: string
  rep_created_at :: time

record change_row =
  chg_id :: string
  chg_report_id :: string
  chg_category :: string
  chg_file_path :: string
  chg_package_name :: string
  chg_symbol :: string
  chg_rule_id :: string
  chg_message :: string
  chg_severity :: string
  chg_created_at :: time

record dependency_row =
  dep_id :: string
  dep_consumer_module_id :: string
  dep_consumer_module_version_id :: string
  dep_provider_module_id :: string
  dep_provider_module_version_id :: string
  dep_source :: string
  dep_reason :: string
  dep_import_path :: string
  dep_referenced_package :: string
  dep_referenced_symbol :: string
  dep_created_at :: time

record unresolved_row =
  unr_id :: string
  unr_module_id :: string
  unr_module_version_id :: string
  unr_source :: string
  unr_import_path :: string
  unr_referenced_package :: string
  unr_referenced_symbol :: string
  unr_reason :: string
  unr_created_at :: time

record service_row =
  srv_id :: string
  srv_name :: string
  srv_created_at :: time
  srv_updated_at :: time

record deployment_row =
  dpl_id :: string
  dpl_service_id :: string
  dpl_environment :: string
  dpl_git_commit :: string
  dpl_build_version :: string
  dpl_reported_at :: time
  dpl_created_at :: time

record usage_row =
  usg_id :: string
  usg_deployment_id :: string
  usg_module_id :: "string option"
  usg_module_name :: string
  usg_module_version_id :: "string option"
  usg_version :: string
  usg_drift_status :: string
  usg_drift_reason :: string
  usg_created_at :: time

record owner_row =
  own_id :: string
  own_module_id :: string
  own_subject_type :: string
  own_subject :: string
  own_role :: string
  own_created_at :: time
  own_updated_at :: time

record request_row =
  req_id :: string
  req_module_id :: string
  req_breaking_report_id :: "string option"
  req_target_ref :: string
  req_status :: string
  req_required_approvals :: int
  req_received_approvals :: int
  req_created_at :: time
  req_updated_at :: time

record requirement_row =
  rqm_id :: string
  rqm_approval_request_id :: string
  rqm_requirement_type :: string
  rqm_target_module_id :: "string option"
  rqm_target_module_name :: string
  rqm_required_role :: string
  rqm_status :: string
  rqm_reason :: string
  rqm_created_at :: time
  rqm_updated_at :: time

record decision_row =
  dec_id :: string
  dec_approval_request_id :: string
  dec_requirement_id :: string
  dec_decision :: string
  dec_decided_by :: string
  dec_comment :: string
  dec_created_at :: time

record audit_row =
  aud_id :: string
  aud_event_type :: string
  aud_actor :: string
  aud_module_id :: "string option"
  aud_module_name :: string
  aud_approval_request_id :: "string option"
  aud_breaking_report_id :: "string option"
  aud_payload_json :: json
  aud_created_at :: time

record outbox_row =
  obx_id :: string
  obx_event_type :: string
  obx_aggregate_type :: string
  obx_aggregate_id :: string
  obx_dedup_key :: string
  obx_payload :: json
  obx_status :: string
  obx_attempts :: int
  obx_available_at :: time
  obx_created_at :: time
  obx_published_at :: "time option"
  obx_last_error :: string
  obx_claimed_at :: "time option"
  obx_claim_expires_at :: "time option"
  obx_updated_at :: time

record artifact_row =
  art_id :: string
  art_module_version_id :: string
  art_kind :: string
  art_storage_key :: string
  art_size_bytes :: int
  art_checksum_sha256 :: string
  art_created_at :: time

record config_row =
  cfg_id :: string
  cfg_module_version_id :: string
  cfg_buf_yaml_present :: bool
  cfg_buf_lock_present :: bool
  cfg_buf_yaml_digest :: string
  cfg_buf_lock_digest :: string
  cfg_module_paths :: "string list"
  cfg_deps :: "string list"
  cfg_lint_enabled :: bool
  cfg_breaking_config_present :: bool
  cfg_created_at :: time

text \<open>
  The tables of migration \<^verbatim>\<open>000002_buf_descriptor_metadata\<close> that hold descriptor metadata. The columns no
  query of the program reads are left out: \<^verbatim>\<open>created_at\<close>, and the primary keys of the rows no other
  table refers to.
\<close>

record file_row =
  fil_id :: string
  fil_module_version_id :: string
  fil_path :: string
  fil_package_name :: string
  fil_syntax :: string

record import_row =
  imp_proto_file_id :: string
  imp_import_path :: string
  imp_is_public :: bool
  imp_is_weak :: bool

record pservice_row =
  psv_id :: string
  psv_module_version_id :: string
  psv_proto_file_id :: string
  psv_package_name :: string
  psv_name :: string
  psv_full_name :: string

record method_row =
  mth_service_id :: string
  mth_name :: string
  mth_input_type :: string
  mth_output_type :: string
  mth_client_streaming :: bool
  mth_server_streaming :: bool

record message_row =
  msg_id :: string
  msg_module_version_id :: string
  msg_proto_file_id :: string
  msg_parent_message_id :: "string option"
  msg_package_name :: string
  msg_name :: string
  msg_full_name :: string

record field_row =
  fld_message_id :: string
  fld_field :: ProtoField

record enum_row =
  enm_id :: string
  enm_module_version_id :: string
  enm_proto_file_id :: string
  enm_package_name :: string
  enm_name :: string
  enm_full_name :: string

record enum_value_row =
  env_enum_id :: string
  env_name :: string
  env_number :: int

record proto_db =
  pdb_files :: "file_row list"
  pdb_imports :: "import_row list"
  pdb_services :: "pservice_row list"
  pdb_methods :: "method_row list"
  pdb_messages :: "message_row list"
  pdb_fields :: "field_row list"
  pdb_enums :: "enum_row list"
  pdb_enum_values :: "enum_value_row list"

definition empty_proto :: proto_db where
  "empty_proto = \<lparr>pdb_files = [], pdb_imports = [], pdb_services = [], pdb_methods = [],
     pdb_messages = [], pdb_fields = [], pdb_enums = [], pdb_enum_values = []\<rparr>"

record db =
  db_modules :: "module_row list"
  db_versions :: "version_row list"
  db_tokens :: "token_row list"
  db_projects :: "project_row list"
  db_reports :: "report_row list"
  db_changes :: "change_row list"
  db_dependencies :: "dependency_row list"
  db_unresolved :: "unresolved_row list"
  db_services :: "service_row list"
  db_deployments :: "deployment_row list"
  db_usages :: "usage_row list"
  db_owners :: "owner_row list"
  db_requests :: "request_row list"
  db_requirements :: "requirement_row list"
  db_decisions :: "decision_row list"
  db_audits :: "audit_row list"
  db_outbox :: "outbox_row list"
  db_artifacts :: "artifact_row list"
  db_configs :: "config_row list"
  db_proto :: proto_db
  db_generated :: nat

definition empty_db :: db where
  "empty_db = \<lparr>db_modules = [], db_versions = [], db_tokens = [], db_projects = [], db_reports = [],
     db_changes = [], db_dependencies = [], db_unresolved = [], db_services = [],
     db_deployments = [], db_usages = [], db_owners = [], db_requests = [], db_requirements = [],
     db_decisions = [], db_audits = [], db_outbox = [], db_artifacts = [], db_configs = [],
     db_proto = empty_proto, db_generated = 0\<rparr>"

section \<open>The world\<close>

record platform =
  p_uuid :: "string \<Rightarrow> string option"
  p_gen_uuid :: "nat \<Rightarrow> string"
  p_lower :: "string \<Rightarrow> string"
  p_json :: "json \<Rightarrow> string"

record world =
  w_platform :: platform
  w_db :: db
  w_tx :: bool
  w_calls :: nat
  w_fault :: "nat \<Rightarrow> string option"
  w_ticks :: nat
  w_clock :: "nat \<Rightarrow> time"
  w_draws :: nat
  w_random :: "nat \<Rightarrow> string option"
  w_polls :: nat
  w_cancel :: "nat \<Rightarrow> string option"
  w_objects :: "string \<Rightarrow> string option"

type_synonym 'a io = "(world, goerr, 'a) go"
type_synonym 'a sql = "(db, pg_error, 'a) go"

text \<open>
  What the code relies on of PostgreSQL's uuid type: the canonical text reads as itself and is
  neither empty nor surrounded by white space.
\<close>

definition uuid_laws :: "platform \<Rightarrow> bool" where
  "uuid_laws p \<longleftrightarrow>
     (\<forall>s u. p_uuid p s = Some u \<longrightarrow> p_uuid p u = Some u \<and> TrimSpace u = u \<and> u \<noteq> '''')"

lemma uuid_laws_canonical: "uuid_laws p \<Longrightarrow> p_uuid p s = Some u \<Longrightarrow> p_uuid p u = Some u"
  by (auto simp: uuid_laws_def)

lemma uuid_laws_trim: "uuid_laws p \<Longrightarrow> p_uuid p s = Some u \<Longrightarrow> NewID u = u"
  by (auto simp: uuid_laws_def NewID_def)

lemma uuid_laws_nonempty: "uuid_laws p \<Longrightarrow> p_uuid p s = Some u \<Longrightarrow> u \<noteq> ''''"
  by (auto simp: uuid_laws_def)

text \<open>The clock, the random source, and the cancellation of the request's context.\<close>

definition clock_now :: "time io" where
  "clock_now w = (Inr (w_clock w (w_ticks w)), w\<lparr>w_ticks := Suc (w_ticks w)\<rparr>)"

definition random_hex :: "string io" where
  "random_hex w =
     (case w_random w (w_draws w) of
        None \<Rightarrow> (Inl (Infra ''random source''), w\<lparr>w_draws := Suc (w_draws w)\<rparr>)
      | Some s \<Rightarrow> (Inr s, w\<lparr>w_draws := Suc (w_draws w)\<rparr>))"

definition ctx_check :: "unit io" where
  "ctx_check w =
     (case w_cancel w (w_polls w) of
        None \<Rightarrow> (Inr (), w\<lparr>w_polls := Suc (w_polls w)\<rparr>)
      | Some m \<Rightarrow> (Inl (Infra m), w\<lparr>w_polls := Suc (w_polls w)\<rparr>))"

section \<open>Statements\<close>

text \<open>\<^verbatim>\<open>mapCheckViolation\<close> and \<^verbatim>\<open>mapError\<close> of \<^verbatim>\<open>db.go\<close>.\<close>

definition mapCheckViolation :: "string \<Rightarrow> goerr option" where
  "mapCheckViolation constraintName =
     (if constraintName = ''module_owners_subject_type_check''
      then Some (Domain ErrInvalidGovernanceSubjectType)
      else if constraintName = ''module_owners_role_check''
      then Some (Domain ErrInvalidModuleOwnerRole)
      else if constraintName = ''approval_requests_status_check''
      then Some (Domain ErrInvalidApprovalRequestStatus)
      else if constraintName = ''approval_requirements_type_check''
      then Some (Domain ErrInvalidApprovalRequirementType)
      else if constraintName = ''approval_requirements_status_check''
      then Some (Domain ErrInvalidApprovalRequirementStatus)
      else if constraintName = ''approval_decisions_decision_check''
      then Some (Domain ErrInvalidApprovalDecision)
      else if constraintName = ''governance_audit_events_type_check''
      then Some (Domain ErrInvalidGovernanceAuditEventType)
      else None)"

fun mapError :: "goerr \<Rightarrow> goerr" where
  "mapError (Pg NoRows) = Domain ErrNotFound"
| "mapError (Pg UniqueViolation) = Domain ErrDuplicate"
| "mapError (Pg (CheckViolation constraintName)) =
     (case mapCheckViolation constraintName of
        Some mapped \<Rightarrow> mapped | None \<Rightarrow> Pg (CheckViolation constraintName))"
| "mapError err = err"

text \<open>
  \<open>stmt\<close> sends one statement through \<^verbatim>\<open>executor(ctx)\<close> and maps its error; the text of the statement
  is its effect on the tables. \<open>query\<close> is a statement that reads.
\<close>

definition stmt :: "(platform \<Rightarrow> 'a sql) \<Rightarrow> 'a io" where
  "stmt sql w =
     (let w1 = w\<lparr>w_calls := Suc (w_calls w)\<rparr>
      in case w_fault w (w_calls w) of
           Some m \<Rightarrow> (Inl (Infra m), w1)
         | None \<Rightarrow>
             (case sql (w_platform w) (w_db w) of
                (Inl e, d) \<Rightarrow> (Inl (mapError (Pg e)), w1)
              | (Inr x, d) \<Rightarrow> (Inr x, w1\<lparr>w_db := d\<rparr>)))"

definition select :: "(db \<Rightarrow> 'a) \<Rightarrow> 'a sql" where
  "select f d = (Inr (f d), d)"

text \<open>A \<^verbatim>\<open>$n\<close> parameter of a uuid column, and one that may be \<^verbatim>\<open>NULL\<close>.\<close>

definition uuid :: "platform \<Rightarrow> string \<Rightarrow> string sql" where
  "uuid p s = liftE (case p_uuid p s of None \<Rightarrow> Inl InvalidTextRepresentation | Some u \<Rightarrow> Inr u)"

definition nullable_uuid :: "platform \<Rightarrow> string option \<Rightarrow> string option sql" where
  "nullable_uuid p x =
     (case x of None \<Rightarrow> ret None | Some s \<Rightarrow> bindE (uuid p s) (\<lambda>u. ret (Some u)))"

text \<open>
  INSERT: a row that agrees with a stored one on a unique index, or that refers to a missing row,
  is rejected. UPDATE returns the number of rows it changed, DELETE the number it removed.
\<close>

definition insert_into ::
  "(db \<Rightarrow> 'r list) \<Rightarrow> (('r list \<Rightarrow> 'r list) \<Rightarrow> db \<Rightarrow> db) \<Rightarrow> ('r \<Rightarrow> 'r \<Rightarrow> bool) \<Rightarrow> (db \<Rightarrow> bool)
   \<Rightarrow> 'r \<Rightarrow> unit sql" where
  "insert_into get upd clash refs row d =
     (if list_ex (clash row) (get d) then (Inl UniqueViolation, d)
      else if \<not> refs d then (Inl ForeignKeyViolation, d)
      else (Inr (), upd (\<lambda>rows. rows @ [row]) d))"

definition update_where ::
  "(db \<Rightarrow> 'r list) \<Rightarrow> (('r list \<Rightarrow> 'r list) \<Rightarrow> db \<Rightarrow> db) \<Rightarrow> ('r \<Rightarrow> bool) \<Rightarrow> ('r \<Rightarrow> 'r) \<Rightarrow> nat sql" where
  "update_where get upd P f d =
     (Inr (length (filter P (get d))), upd (map (\<lambda>r. if P r then f r else r)) d)"

definition delete_where ::
  "(db \<Rightarrow> 'r list) \<Rightarrow> (('r list \<Rightarrow> 'r list) \<Rightarrow> db \<Rightarrow> db) \<Rightarrow> ('r \<Rightarrow> bool) \<Rightarrow> nat sql" where
  "delete_where get upd P d =
     (Inr (length (filter P (get d))), upd (filter (\<lambda>r. \<not> P r)) d)"

text \<open>A foreign key: some row of the referenced table has the id.\<close>

definition has_id :: "('r \<Rightarrow> string) \<Rightarrow> 'r list \<Rightarrow> string \<Rightarrow> bool" where
  "has_id k rows v \<longleftrightarrow> list_ex (\<lambda>r. k r = v) rows"

definition has_opt_id :: "('r \<Rightarrow> string) \<Rightarrow> 'r list \<Rightarrow> string option \<Rightarrow> bool" where
  "has_opt_id k rows v = (case v of None \<Rightarrow> True | Some u \<Rightarrow> has_id k rows u)"

text \<open>\<^verbatim>\<open>if tag.RowsAffected() == 0 { return domain.ErrNotFound }\<close>.\<close>

definition require_rows :: "nat io \<Rightarrow> unit io" where
  "require_rows m = bindE m (\<lambda>affected. failIf (affected = 0) (Domain ErrNotFound))"

text \<open>\<^verbatim>\<open>QueryRow(...).Scan\<close> of a query that may find no row, and the loop over \<^verbatim>\<open>rows.Next()\<close>.\<close>

definition query_row :: "(platform \<Rightarrow> 'r list sql) \<Rightarrow> ('r \<Rightarrow> goerr + 'a) \<Rightarrow> 'a io" where
  "query_row sql scan =
     bindE
       (stmt (\<lambda>p. bindE (sql p) (\<lambda>rows.
          liftE (case rows of [] \<Rightarrow> Inl NoRows | r # _ \<Rightarrow> Inr r))))
       (\<lambda>r. liftE (scan r))"

definition query_rows :: "(platform \<Rightarrow> 'r list sql) \<Rightarrow> ('r \<Rightarrow> goerr + 'a) \<Rightarrow> 'a list io" where
  "query_rows sql scan = bindE (stmt sql) (\<lambda>rows. collectE rows (\<lambda>r. liftE (scan r)))"

section \<open>Transactions\<close>

text \<open>
  \<^verbatim>\<open>DB.WithinTransaction\<close>: inside a transaction the function just runs. Otherwise \<^verbatim>\<open>Begin\<close>, the
  function and \<^verbatim>\<open>Commit\<close> are issued (\<open>control\<close>); an error of the function rolls back (and a failing rollback,
  which loses the connection and so the transaction, is joined to it), a failing commit also
  leaves the tables as they were before.
\<close>

definition control :: "unit io" where
  "control = stmt (\<lambda>p. ret ())"

definition WithinTransaction :: "'a io \<Rightarrow> 'a io" where
  "WithinTransaction fn w =
     (if w_tx w then fn w
      else
        (case control w of
           (Inl err, w0) \<Rightarrow> (Inl err, w0)
         | (Inr _, w0) \<Rightarrow>
             (case fn (w0\<lparr>w_tx := True\<rparr>) of
                (Inl err, w1) \<Rightarrow>
                  (let w2 = w1\<lparr>w_tx := False, w_db := w_db w\<rparr>
                   in case control w2 of
                        (Inl rollbackErr, w3) \<Rightarrow> (Inl (Joined err rollbackErr), w3)
                      | (Inr _, w3) \<Rightarrow> (Inl err, w3))
              | (Inr x, w1) \<Rightarrow>
                  (case control (w1\<lparr>w_tx := False\<rparr>) of
                     (Inl err, w2) \<Rightarrow> (Inl err, w2\<lparr>w_db := w_db w\<rparr>)
                   | (Inr _, w2) \<Rightarrow> (Inr x, w2)))))"

section \<open>What effects do to the world\<close>

lemma stmt_db: "snd (stmt sql w) = (snd (stmt sql w))\<lparr>w_db := w_db (snd (stmt sql w))\<rparr>"
  by simp

lemma stmt_Inr:
  "stmt sql w = (Inr x, w') \<longleftrightarrow>
     w_fault w (w_calls w) = None
     \<and> (\<exists>d. sql (w_platform w) (w_db w) = (Inr x, d)
          \<and> w' = w\<lparr>w_calls := Suc (w_calls w), w_db := d\<rparr>)"
  by (auto simp: stmt_def Let_def split: option.splits prod.splits sum.splits)

lemma stmt_Inl_db: "stmt sql w = (Inl e, w') \<Longrightarrow> w_db w' = w_db w"
  by (auto simp: stmt_def Let_def split: option.splits prod.splits sum.splits)

lemma stmt_ok:
  "w_fault w (w_calls w) = None \<Longrightarrow>
   stmt sql w =
     (case sql (w_platform w) (w_db w) of
        (Inl e, d) \<Rightarrow> (Inl (mapError (Pg e)), w\<lparr>w_calls := Suc (w_calls w)\<rparr>)
      | (Inr x, d) \<Rightarrow> (Inr x, w\<lparr>w_calls := Suc (w_calls w), w_db := d\<rparr>))"
  by (simp add: stmt_def Let_def)

lemma control_db: "control w = (r, w') \<Longrightarrow> w_db w' = w_db w"
  by (auto simp: control_def stmt_def Let_def ret_def split: option.splits)

lemma control_Inr:
  "control w = (Inr u, w') \<longleftrightarrow>
     w_fault w (w_calls w) = None \<and> w' = w\<lparr>w_calls := Suc (w_calls w)\<rparr>"
  by (auto simp: control_def stmt_Inr)

lemma select_run [simp]: "select f d = (r, d') \<longleftrightarrow> r = Inr (f d) \<and> d' = d"
  by (auto simp: select_def)

lemma uuid_Inr [simp]: "uuid p s d = (Inr u, d') \<longleftrightarrow> p_uuid p s = Some u \<and> d' = d"
  by (auto simp: uuid_def split: option.splits)

lemma nullable_uuid_Inr [simp]:
  "nullable_uuid p x d = (Inr y, d') \<longleftrightarrow>
     d' = d \<and> (case x of None \<Rightarrow> y = None | Some s \<Rightarrow> \<exists>u. p_uuid p s = Some u \<and> y = Some u)"
  by (cases x) (auto simp: nullable_uuid_def bindE_Inr)

lemma insert_into_Inr [simp]:
  "insert_into get upd clash refs row d = (Inr u, d') \<longleftrightarrow>
     \<not> list_ex (clash row) (get d) \<and> refs d \<and> d' = upd (\<lambda>rows. rows @ [row]) d"
  by (auto simp: insert_into_def)

lemma update_where_Inr [simp]:
  "update_where get upd P f d = (Inr n, d') \<longleftrightarrow>
     n = length (filter P (get d)) \<and> d' = upd (map (\<lambda>r. if P r then f r else r)) d"
  by (auto simp: update_where_def)

lemma delete_where_Inr [simp]:
  "delete_where get upd P d = (Inr n, d') \<longleftrightarrow>
     n = length (filter P (get d)) \<and> d' = upd (filter (\<lambda>r. \<not> P r)) d"
  by (auto simp: delete_where_def)

lemma require_rows_Inr:
  "require_rows m w = (Inr u, w') \<longleftrightarrow> (\<exists>n. n \<noteq> 0 \<and> m w = (Inr n, w'))"
  by (auto simp: require_rows_def bindE_Inr)

lemmas sql_Inr = bindE_Inr stmt_Inr select_run uuid_Inr nullable_uuid_Inr insert_into_Inr
  update_where_Inr delete_where_Inr require_rows_Inr

text \<open>Relations between tables, lifted to worlds; only statements touch the tables.\<close>

definition on_db :: "(db \<Rightarrow> db \<Rightarrow> bool) \<Rightarrow> world \<Rightarrow> world \<Rightarrow> bool" where
  "on_db Q w w' \<longleftrightarrow> Q (w_db w) (w_db w')"

lemma WithinTransaction_cases [consumes 1, case_names nested no_begin rollback no_commit commit]:
  assumes "WithinTransaction fn w = (r, w')"
  obtains (nested) "w_tx w" and "fn w = (r, w')"
    | (no_begin) e where "\<not> w_tx w" and "control w = (Inl e, w')" and "r = Inl e"
    | (rollback) w0 e w1 e' where "\<not> w_tx w" and "control w = (Inr (), w0)"
        and "fn (w0\<lparr>w_tx := True\<rparr>) = (Inl e, w1)" and "r = Inl e'" and "w_db w' = w_db w"
        and "e' = e \<or> (\<exists>rb. e' = Joined e rb)"
    | (no_commit) w0 x w1 e where "\<not> w_tx w" and "control w = (Inr (), w0)"
        and "fn (w0\<lparr>w_tx := True\<rparr>) = (Inr x, w1)" and "r = Inl e" and "w_db w' = w_db w"
    | (commit) w0 x w1 where "\<not> w_tx w" and "control w = (Inr (), w0)"
        and "fn (w0\<lparr>w_tx := True\<rparr>) = (Inr x, w1)" and "r = Inr x" and "w_db w' = w_db w1"
proof (cases "w_tx w")
  case True
  with assms nested show ?thesis by (simp add: WithinTransaction_def)
next
  case False
  obtain b w0 where b: "control w = (b, w0)" by fastforce
  show ?thesis
  proof (cases b)
    case (Inl e)
    with False b assms no_begin show ?thesis by (simp add: WithinTransaction_def)
  next
    case (Inr u)
    obtain f w1 where f: "fn (w0\<lparr>w_tx := True\<rparr>) = (f, w1)" by fastforce
    let ?w2 = "case f of Inl e \<Rightarrow> w1\<lparr>w_tx := False, w_db := w_db w\<rparr> | Inr x \<Rightarrow> w1\<lparr>w_tx := False\<rparr>"
    obtain c w3 where c: "control ?w2 = (c, w3)" by fastforce
    show ?thesis
      using assms False b Inr f c control_db [OF c] rollback no_commit commit
      by (cases f; cases c) (auto simp: WithinTransaction_def Let_def)
  qed
qed

locale db_preorder =
  fixes Q :: "db \<Rightarrow> db \<Rightarrow> bool"
  assumes db_refl: "Q d d"
    and db_trans: "Q d1 d2 \<Longrightarrow> Q d2 d3 \<Longrightarrow> Q d1 d3"

sublocale db_preorder \<subseteq> effect_preorder "on_db Q"
  by unfold_locales (auto simp: on_db_def intro: db_refl db_trans)

context db_preorder
begin

lemma steps_stmt:
  assumes "\<And>p d x d'. sql p d = (Inr x, d') \<Longrightarrow> Q d d'"
  shows "steps (on_db Q) (stmt sql)"
  using assms
  by (auto simp: steps_def on_db_def stmt_def Let_def db_refl
      split: option.splits prod.splits sum.splits)

lemma steps_clock: "steps (on_db Q) clock_now"
  by (simp add: steps_def on_db_def clock_now_def db_refl)

lemma steps_random: "steps (on_db Q) random_hex"
  by (simp add: steps_def on_db_def random_hex_def db_refl split: option.splits)

lemma steps_ctx: "steps (on_db Q) ctx_check"
  by (simp add: steps_def on_db_def ctx_check_def db_refl split: option.splits)

lemma steps_require: "steps (on_db Q) m \<Longrightarrow> steps (on_db Q) (require_rows m)"
  unfolding require_rows_def by (intro steps_bindE steps_failIf)

lemma steps_select: "steps (on_db Q) (stmt (\<lambda>p. select f))"
  by (rule steps_stmt) (auto simp: db_refl)

lemma steps_query_row:
  assumes "\<And>p d x d'. sql p d = (Inr x, d') \<Longrightarrow> d' = d"
  shows "steps (on_db Q) (query_row sql scan)"
proof -
  have "steps (on_db Q) (stmt (\<lambda>p. bindE (sql p) (\<lambda>rows.
          liftE (case rows of [] \<Rightarrow> Inl NoRows | r # _ \<Rightarrow> Inr r))))"
    by (rule steps_stmt) (auto simp: bindE_Inr db_refl dest!: assms)
  then show ?thesis unfolding query_row_def by (intro steps_bindE steps_liftE)
qed

lemma steps_query_rows:
  assumes "\<And>p d x d'. sql p d = (Inr x, d') \<Longrightarrow> d' = d"
  shows "steps (on_db Q) (query_rows sql scan)"
proof -
  have "steps (on_db Q) (stmt sql)"
    by (rule steps_stmt) (auto simp: db_refl dest!: assms)
  then show ?thesis unfolding query_rows_def by (intro steps_bindE steps_collectE steps_liftE)
qed

lemma steps_transaction:
  assumes "steps (on_db Q) fn"
  shows "steps (on_db Q) (WithinTransaction fn)"
proof (rule stepsI)
  fix w
  have body: "Q (w_db w') (w_db w'')" if "fn w' = (r, w'')" for w' w'' r
    using stepsD [OF assms that] by (simp add: on_db_def)
  obtain r w' where m: "WithinTransaction fn w = (r, w')" by fastforce
  have "Q (w_db w) (w_db w')"
    using m
    by (cases rule: WithinTransaction_cases) (auto simp: db_refl dest!: control_db dest: body)
  with m show "on_db Q w (snd (WithinTransaction fn w))" by (simp add: on_db_def)
qed

lemmas world_rules = steps_rules steps_clock steps_random steps_ctx steps_require steps_select
  steps_query_row steps_query_rows steps_transaction

end

text \<open>Three relations: the tables stay, an invariant is kept, a table only grows.\<close>

interpretation same_db: db_preorder "(=)"
  by unfold_locales auto

interpretation keeps: db_preorder "\<lambda>d d'. I d \<longrightarrow> I d'" for I
  by unfold_locales auto

interpretation grows: db_preorder "\<lambda>d d'. prefix (get d) (get d')" for get :: "db \<Rightarrow> 'r list"
  by unfold_locales (auto intro: prefix_order.order_trans)

definition reads_only :: "'a io \<Rightarrow> bool" where
  "reads_only m \<longleftrightarrow> steps (on_db (=)) m"

lemma reads_onlyD: "reads_only m \<Longrightarrow> m w = (r, w') \<Longrightarrow> w_db w' = w_db w"
  unfolding reads_only_def by (drule (1) stepsD) (simp add: on_db_def)

context db_preorder
begin

lemma steps_reads_only: "reads_only m \<Longrightarrow> steps (on_db Q) m"
  unfolding reads_only_def by (erule steps_mono) (simp add: on_db_def db_refl)

end

text \<open>
  A transaction is all or nothing: outside another transaction, an error leaves the tables as
  they were when it began.
\<close>

lemma WithinTransaction_error:
  assumes "WithinTransaction fn w = (Inl e, w')" and "\<not> w_tx w"
  shows "w_db w' = w_db w"
  using assms by (cases rule: WithinTransaction_cases) (auto dest: control_db)

lemma WithinTransaction_success:
  assumes "WithinTransaction fn w = (Inr x, w')" and "\<not> w_tx w"
  obtains w1 where "fn (w\<lparr>w_calls := Suc (w_calls w), w_tx := True\<rparr>) = (Inr x, w1)"
    and "w_db w' = w_db w1"
  using assms by (cases rule: WithinTransaction_cases) (auto simp: control_Inr)

lemma WithinTransaction_nested: "w_tx w \<Longrightarrow> WithinTransaction fn w = fn w"
  by (simp add: WithinTransaction_def)

text \<open>
  The environment (clock, random source, faults, platform) is never changed, and nothing but the
  calls of the object store changes its objects.
\<close>

definition same_env :: "world \<Rightarrow> world \<Rightarrow> bool" where
  "same_env w w' \<longleftrightarrow>
     w_platform w' = w_platform w \<and> w_fault w' = w_fault w \<and> w_clock w' = w_clock w
     \<and> w_random w' = w_random w \<and> w_cancel w' = w_cancel w \<and> w_tx w' = w_tx w
     \<and> w_objects w' = w_objects w"

interpretation env: effect_preorder same_env
  by unfold_locales (auto simp: same_env_def)

lemma env_stmt: "steps same_env (stmt sql)"
  by (auto simp: steps_def same_env_def stmt_def Let_def split: option.splits prod.splits sum.splits)

lemma env_clock: "steps same_env clock_now"
  by (simp add: steps_def same_env_def clock_now_def)

lemma env_random: "steps same_env random_hex"
  by (simp add: steps_def same_env_def random_hex_def split: option.splits)

lemma env_ctx: "steps same_env ctx_check"
  by (simp add: steps_def same_env_def ctx_check_def split: option.splits)

lemma env_query_row: "steps same_env (query_row sql scan)"
  unfolding query_row_def by (intro env.steps_bindE env.steps_liftE env_stmt)

lemma env_query_rows: "steps same_env (query_rows sql scan)"
  unfolding query_rows_def by (intro env.steps_bindE env.steps_collectE env.steps_liftE env_stmt)

lemma env_require: "steps same_env m \<Longrightarrow> steps same_env (require_rows m)"
  unfolding require_rows_def by (intro env.steps_bindE env.steps_failIf)

lemma env_control: "control w = (r, w') \<Longrightarrow> same_env w w'"
  unfolding control_def by (rule stepsD [OF env_stmt])

lemma env_transaction:
  assumes "steps same_env fn"
  shows "steps same_env (WithinTransaction fn)"
proof (rule stepsI)
  fix w
  have body: "same_env w' w''" if "fn w' = (r, w'')" for w' w'' r
    by (rule stepsD [OF assms that])
  obtain b w0 where b: "control w = (b, w0)" by fastforce
  obtain f w1 where f: "fn (w0\<lparr>w_tx := True\<rparr>) = (f, w1)" by fastforce
  have w0: "same_env w w0" by (rule env_control [OF b])
  have w1: "same_env (w0\<lparr>w_tx := True\<rparr>) w1" by (rule body [OF f])
  have reset: "same_env w (w1\<lparr>w_tx := False\<rparr>)" "same_env w (w1\<lparr>w_tx := False, w_db := w_db w\<rparr>)"
    if "\<not> w_tx w"
    using w0 w1 that by (simp_all add: same_env_def)
  have ctl: "same_env w w3" if "control w2 = (c, w3)" "same_env w w2" for w2 w3 c
    using env_control [OF that(1)] that(2) env.step_trans by blast
  show "same_env w (snd (WithinTransaction fn w))"
  proof (cases "w_tx w")
    case True
    then show ?thesis using body [of w] by (metis WithinTransaction_def prod.collapse)
  next
    case False
    note reset = reset [OF False]
    obtain c1 w2 where c1: "control (w1\<lparr>w_tx := False, w_db := w_db w\<rparr>) = (c1, w2)" by fastforce
    obtain c2 w3 where c2: "control (w1\<lparr>w_tx := False\<rparr>) = (c2, w3)" by fastforce
    have "same_env w w2" "same_env w w3" "same_env w (w3\<lparr>w_db := w_db w\<rparr>)"
      using ctl [OF c1 reset(2)] ctl [OF c2 reset(1)] by (simp_all add: same_env_def)
    then show ?thesis
      using False b f c1 c2 w0
      by (cases b; cases f; cases c1; cases c2) (simp_all add: WithinTransaction_def Let_def)
  qed
qed

lemmas env_rules = env.steps_rules env_stmt env_clock env_random env_ctx env_query_row
  env_query_rows env_require env_transaction

definition healthy :: "world \<Rightarrow> bool" where
  "healthy w \<longleftrightarrow> (\<forall>n. w_fault w n = None) \<and> (\<forall>n. w_cancel w n = None) \<and> (\<forall>n. w_random w n \<noteq> None)"

lemma healthy_env: "healthy w \<Longrightarrow> same_env w w' \<Longrightarrow> healthy w'"
  by (simp add: healthy_def same_env_def)

end
