(* ===== verification/Repo_Governance.thy ===== *)
theory Repo_Governance
  imports Store
begin

text \<open>
  The governance repositories, \<^verbatim>\<open>internal/repository/postgres/governance.go\<close>, over the tables of
  \<open>Store\<close>: module owners, approval requests with their requirements and decisions, and the audit
  log. The constraints are those of migration \<^verbatim>\<open>000007_governance\<close>. Each operation has the lemma
  that says what it does to the tables; together they carry the services' proofs.
\<close>

definition check_in :: "string \<Rightarrow> string list \<Rightarrow> string \<Rightarrow> unit sql" where
  "check_in constraintName allowed v = failIf (v \<notin> set allowed) (CheckViolation constraintName)"

lemma check_in_Inr [simp]: "check_in c vs v d = (Inr u, d') \<longleftrightarrow> v \<in> set vs \<and> d' = d"
  by (auto simp: check_in_def)

text \<open>\<^verbatim>\<open>JOIN modules m ON m.id = ...\<close>: a row with the name of its module.\<close>

definition join_modules :: "('r \<Rightarrow> string) \<Rightarrow> 'r list \<Rightarrow> db \<Rightarrow> ('r \<times> string) list" where
  "join_modules key rows d =
     concat (map (\<lambda>r. map (\<lambda>m. (r, mod_name m)) (filter (\<lambda>m. mod_id m = key r) (db_modules d))) rows)"

lemma join_modules_in:
  "(r, n) \<in> set (join_modules key rows d) \<longleftrightarrow>
     r \<in> set rows \<and> (\<exists>m \<in> set (db_modules d). mod_id m = key r \<and> mod_name m = n)"
  by (auto simp: join_modules_def)

lemma join_modules_Nil [simp]: "join_modules key [] d = []"
  by (simp add: join_modules_def)

section \<open>Scanning rows\<close>

definition bindR :: "'e + 'a \<Rightarrow> ('a \<Rightarrow> 'e + 'b) \<Rightarrow> 'e + 'b" where
  "bindR r f = (case r of Inl e \<Rightarrow> Inl e | Inr x \<Rightarrow> f x)"

lemma bindR_simps [simp]: "bindR (Inl e) f = Inl e" "bindR (Inr x) f = f x"
  by (simp_all add: bindR_def)

lemma bindR_Inr: "bindR r f = Inr y \<longleftrightarrow> (\<exists>x. r = Inr x \<and> f x = Inr y)"
  by (cases r) auto

definition scanModuleOwner :: "owner_row \<times> string \<Rightarrow> goerr + ModuleOwner" where
  "scanModuleOwner row =
     (case row of (r, moduleNameValue) \<Rightarrow>
        bindR (NewModuleName moduleNameValue) (\<lambda>moduleName.
        bindR (NewGovernanceSubjectType (own_subject_type r)) (\<lambda>subjectType.
        bindR (NewModuleOwnerRole (own_role r)) (\<lambda>role.
          Inr \<lparr>Owner_ID = NewID (own_id r), Owner_ModuleID = NewID (own_module_id r),
            Owner_ModuleName = moduleName, Owner_SubjectType = subjectType,
            Owner_Subject = own_subject r, Owner_Role = role,
            Owner_CreatedAt = own_created_at r, Owner_UpdatedAt = own_updated_at r\<rparr>))))"

definition scanApprovalRequest :: "request_row \<times> string \<Rightarrow> goerr + ApprovalRequest" where
  "scanApprovalRequest row =
     (case row of (r, moduleNameValue) \<Rightarrow>
        bindR (NewModuleName moduleNameValue) (\<lambda>moduleName.
        bindR (NewApprovalRequestStatus (req_status r)) (\<lambda>status.
          Inr \<lparr>Request_ID = NewID (req_id r), Request_ModuleID = NewID (req_module_id r),
            Request_ModuleName = moduleName,
            Request_BreakingReportID = map_option NewID (req_breaking_report_id r),
            Request_TargetRef = req_target_ref r, Request_Status = status,
            Request_RequiredApprovals = req_required_approvals r,
            Request_ReceivedApprovals = req_received_approvals r,
            Request_Requirements = [], Request_Decisions = [],
            Request_CreatedAt = req_created_at r, Request_UpdatedAt = req_updated_at r\<rparr>)))"

definition scanApprovalRequirement :: "requirement_row \<Rightarrow> goerr + ApprovalRequirement" where
  "scanApprovalRequirement r =
     bindR (NewApprovalRequirementType (rqm_requirement_type r)) (\<lambda>requirementType.
     bindR (NewApprovalRequirementStatus (rqm_status r)) (\<lambda>status.
     bindR (if rqm_target_module_name r \<noteq> '''' then NewModuleName (rqm_target_module_name r)
            else Inr '''') (\<lambda>moduleName.
     bindR (if rqm_required_role r \<noteq> ''''
            then map_sum id Some (NewModuleOwnerRole (rqm_required_role r))
            else Inr None) (\<lambda>role.
       Inr \<lparr>Requirement_ID = NewID (rqm_id r),
         Requirement_ApprovalRequestID = NewID (rqm_approval_request_id r),
         Requirement_RequirementType = requirementType,
         Requirement_TargetModuleID = map_option NewID (rqm_target_module_id r),
         Requirement_TargetModuleName = moduleName, Requirement_RequiredRole = role,
         Requirement_Status = status, Requirement_Reason = rqm_reason r,
         Requirement_CreatedAt = rqm_created_at r, Requirement_UpdatedAt = rqm_updated_at r\<rparr>))))"

definition scanApprovalDecision :: "decision_row \<Rightarrow> goerr + ApprovalDecision" where
  "scanApprovalDecision r =
     bindR (NewApprovalDecisionValue (dec_decision r)) (\<lambda>value.
       Inr \<lparr>Decision_ID = NewID (dec_id r),
         Decision_ApprovalRequestID = NewID (dec_approval_request_id r),
         Decision_RequirementID = NewID (dec_requirement_id r), Decision_Decision = value,
         Decision_DecidedBy = dec_decided_by r, Decision_Comment = dec_comment r,
         Decision_CreatedAt = dec_created_at r\<rparr>)"

text \<open>
  \<^verbatim>\<open>scanGovernanceAuditEvent\<close> converts the event type without the parser; the CHECK constraint of
  the column makes the parser succeed, so the model uses it and never takes its error branch for
  a stored row.
\<close>

definition scanGovernanceAuditEvent :: "audit_row \<Rightarrow> goerr + GovernanceAuditEvent" where
  "scanGovernanceAuditEvent r =
     bindR (if aud_module_name r \<noteq> '''' then NewModuleName (aud_module_name r) else Inr '''')
       (\<lambda>moduleName.
     bindR (NewGovernanceAuditEventType (aud_event_type r)) (\<lambda>eventType.
       Inr \<lparr>Audit_ID = NewID (aud_id r), Audit_EventType = eventType, Audit_Actor = aud_actor r,
         Audit_ModuleID = map_option NewID (aud_module_id r), Audit_ModuleName = moduleName,
         Audit_ApprovalRequestID = map_option NewID (aud_approval_request_id r),
         Audit_BreakingReportID = map_option NewID (aud_breaking_report_id r),
         Audit_PayloadJSON = aud_payload_json r, Audit_CreatedAt = aud_created_at r\<rparr>))"

section \<open>Module owners\<close>

definition owner_clash :: "owner_row \<Rightarrow> owner_row \<Rightarrow> bool" where
  "owner_clash r s \<longleftrightarrow>
     own_id r = own_id s
     \<or> (own_module_id r = own_module_id s \<and> own_subject_type r = own_subject_type s
        \<and> own_subject r = own_subject s \<and> own_role r = own_role s)"

definition row_of_owner :: "string \<Rightarrow> string \<Rightarrow> ModuleOwner \<Rightarrow> owner_row" where
  "row_of_owner oid mid owner =
     \<lparr>own_id = oid, own_module_id = mid,
      own_subject_type = GovernanceSubjectType_String (Owner_SubjectType owner),
      own_subject = Owner_Subject owner, own_role = ModuleOwnerRole_String (Owner_Role owner),
      own_created_at = Owner_CreatedAt owner, own_updated_at = Owner_UpdatedAt owner\<rparr>"

definition OwnerRepo_Add :: "ModuleOwner \<Rightarrow> unit io" where
  "OwnerRepo_Add owner =
     stmt (\<lambda>p.
       bindE (uuid p (Owner_ID owner)) (\<lambda>oid.
       bindE (uuid p (Owner_ModuleID owner)) (\<lambda>mid.
       bindE (check_in ''module_owners_subject_type_check'' [''user'', ''team'']
                (GovernanceSubjectType_String (Owner_SubjectType owner))) (\<lambda>_.
       bindE (check_in ''module_owners_role_check'' [''owner'', ''maintainer'']
                (ModuleOwnerRole_String (Owner_Role owner))) (\<lambda>_.
         insert_into db_owners db_owners_update owner_clash
           (\<lambda>d. has_id mod_id (db_modules d) mid)
           (row_of_owner oid mid owner))))))"

definition OwnerRepo_Remove :: "ModuleOwnerID \<Rightarrow> unit io" where
  "OwnerRepo_Remove ownerID =
     require_rows (stmt (\<lambda>p. bindE (uuid p ownerID) (\<lambda>u.
       delete_where db_owners db_owners_update (\<lambda>r. own_id r = u))))"

definition OwnerRepo_GetByID :: "ModuleOwnerID \<Rightarrow> ModuleOwner io" where
  "OwnerRepo_GetByID ownerID =
     mapErr mapError (query_row
       (\<lambda>p. bindE (uuid p ownerID) (\<lambda>u.
          select (\<lambda>d. join_modules own_module_id (filter (\<lambda>r. own_id r = u) (db_owners d)) d)))
       scanModuleOwner)"

definition OwnerRepo_ListByModule :: "ModuleID \<Rightarrow> ModuleOwner list io" where
  "OwnerRepo_ListByModule moduleID =
     query_rows
       (\<lambda>p. bindE (uuid p moduleID) (\<lambda>u.
          select (\<lambda>d. sort_key (\<lambda>(r, _). (own_role r, own_subject_type r, own_subject r))
            (join_modules own_module_id (filter (\<lambda>r. own_module_id r = u) (db_owners d)) d))))
       scanModuleOwner"

text \<open>
  \<^verbatim>\<open>HasRole\<close> stops at the first row whose role is allowed, so a row that does not parse is an error
  only before it.
\<close>

fun scan_roles :: "ModuleOwnerRole list \<Rightarrow> owner_row list \<Rightarrow> goerr + bool" where
  "scan_roles roles [] = Inr False"
| "scan_roles roles (r # rs) =
     bindR (NewModuleOwnerRole (own_role r)) (\<lambda>role.
       if role \<in> set roles then Inr True else scan_roles roles rs)"

definition OwnerRepo_HasRole ::
  "ModuleID \<Rightarrow> GovernanceSubjectType \<Rightarrow> string \<Rightarrow> ModuleOwnerRole list \<Rightarrow> bool io" where
  "OwnerRepo_HasRole moduleID subjectType subject roles =
     bindE
       (stmt (\<lambda>p. bindE (uuid p moduleID) (\<lambda>u.
          select (\<lambda>d. filter (\<lambda>r. own_module_id r = u
            \<and> own_subject_type r = GovernanceSubjectType_String subjectType
            \<and> own_subject r = subject) (db_owners d)))))
       (\<lambda>rows. liftE (scan_roles roles rows))"

section \<open>Approval requests\<close>

definition request_clash :: "request_row \<Rightarrow> request_row \<Rightarrow> bool" where
  "request_clash r s \<longleftrightarrow>
     req_id r = req_id s
     \<or> (req_breaking_report_id r \<noteq> None \<and> req_breaking_report_id r = req_breaking_report_id s)"

definition request_statuses :: "string list" where
  "request_statuses = [''pending'', ''approved'', ''rejected'', ''cancelled'', ''not_required'']"

definition requirement_statuses :: "string list" where
  "requirement_statuses = [''pending'', ''approved'', ''rejected'', ''not_required'']"

definition requirement_types :: "string list" where
  "requirement_types = [''module_owner_approval'', ''affected_consumer_approval'']"

definition row_of_requirement ::
  "string \<Rightarrow> string \<Rightarrow> string option \<Rightarrow> ApprovalRequirement \<Rightarrow> requirement_row" where
  "row_of_requirement rid aid tid requirement =
     \<lparr>rqm_id = rid, rqm_approval_request_id = aid,
      rqm_requirement_type =
        ApprovalRequirementType_String (Requirement_RequirementType requirement),
      rqm_target_module_id = tid,
      rqm_target_module_name = Requirement_TargetModuleName requirement,
      rqm_required_role =
        (case Requirement_RequiredRole requirement of
           None \<Rightarrow> '''' | Some role \<Rightarrow> ModuleOwnerRole_String role),
      rqm_status = ApprovalRequirementStatus_String (Requirement_Status requirement),
      rqm_reason = Requirement_Reason requirement,
      rqm_created_at = Requirement_CreatedAt requirement,
      rqm_updated_at = Requirement_UpdatedAt requirement\<rparr>"

definition createRequirement :: "ApprovalRequestID \<Rightarrow> ApprovalRequirement \<Rightarrow> unit io" where
  "createRequirement requestID requirement =
     (let approvalRequestID = (if Requirement_ApprovalRequestID requirement = '''' then requestID
                               else Requirement_ApprovalRequestID requirement)
      in stmt (\<lambda>p.
         bindE (uuid p (Requirement_ID requirement)) (\<lambda>rid.
         bindE (uuid p approvalRequestID) (\<lambda>aid.
         bindE (nullable_uuid p (Requirement_TargetModuleID requirement)) (\<lambda>tid.
         bindE (check_in ''approval_requirements_type_check'' requirement_types
                  (ApprovalRequirementType_String (Requirement_RequirementType requirement))) (\<lambda>_.
         bindE (check_in ''approval_requirements_status_check'' requirement_statuses
                  (ApprovalRequirementStatus_String (Requirement_Status requirement))) (\<lambda>_.
           insert_into db_requirements db_requirements_update (\<lambda>r s. rqm_id r = rqm_id s)
             (\<lambda>d. has_id req_id (db_requests d) aid \<and> has_opt_id mod_id (db_modules d) tid)
             (row_of_requirement rid aid tid requirement))))))))"

definition row_of_request ::
  "string \<Rightarrow> string \<Rightarrow> string option \<Rightarrow> ApprovalRequest \<Rightarrow> request_row" where
  "row_of_request rid mid bid request =
     \<lparr>req_id = rid, req_module_id = mid, req_breaking_report_id = bid,
      req_target_ref = Request_TargetRef request,
      req_status = ApprovalRequestStatus_String (Request_Status request),
      req_required_approvals = Request_RequiredApprovals request,
      req_received_approvals = Request_ReceivedApprovals request,
      req_created_at = Request_CreatedAt request, req_updated_at = Request_UpdatedAt request\<rparr>"

definition insertRequest :: "ApprovalRequest \<Rightarrow> unit io" where
  "insertRequest request =
     stmt (\<lambda>p.
       bindE (uuid p (Request_ID request)) (\<lambda>rid.
       bindE (uuid p (Request_ModuleID request)) (\<lambda>mid.
       bindE (nullable_uuid p (Request_BreakingReportID request)) (\<lambda>bid.
       bindE (check_in ''approval_requests_status_check'' request_statuses
                (ApprovalRequestStatus_String (Request_Status request))) (\<lambda>_.
         insert_into db_requests db_requests_update request_clash
           (\<lambda>d. has_id mod_id (db_modules d) mid \<and> has_opt_id rep_id (db_reports d) bid)
           (row_of_request rid mid bid request))))))"

definition ApprovalRepo_CreateRequest :: "ApprovalRequest \<Rightarrow> unit io" where
  "ApprovalRepo_CreateRequest request =
     WithinTransaction
       (bindE (insertRequest request) (\<lambda>_.
          forE (Request_Requirements request) (createRequirement (Request_ID request))))"

definition listRequirements :: "ApprovalRequestID \<Rightarrow> ApprovalRequirement list io" where
  "listRequirements requestID =
     query_rows
       (\<lambda>p. bindE (uuid p requestID) (\<lambda>u.
          select (\<lambda>d. sort_key (\<lambda>r. (rqm_created_at r, rqm_id r))
            (filter (\<lambda>r. rqm_approval_request_id r = u) (db_requirements d)))))
       scanApprovalRequirement"

definition listDecisions :: "ApprovalRequestID \<Rightarrow> ApprovalDecision list io" where
  "listDecisions requestID =
     query_rows
       (\<lambda>p. bindE (uuid p requestID) (\<lambda>u.
          select (\<lambda>d. sort_key (\<lambda>r. (dec_created_at r, dec_id r))
            (filter (\<lambda>r. dec_approval_request_id r = u) (db_decisions d)))))
       scanApprovalDecision"

definition populateRequest :: "ApprovalRequest \<Rightarrow> ApprovalRequest io" where
  "populateRequest request =
     bindE (listRequirements (Request_ID request)) (\<lambda>requirements.
     bindE (listDecisions (Request_ID request)) (\<lambda>decisions.
       ret (request\<lparr>Request_Requirements := requirements, Request_Decisions := decisions\<rparr>)))"

definition getRequest :: "(platform \<Rightarrow> request_row list sql) \<Rightarrow> ApprovalRequest io" where
  "getRequest sql =
     mapErr mapError (query_row
       (\<lambda>p. bindE (sql p) (\<lambda>rows. select (join_modules req_module_id rows)))
       scanApprovalRequest)"

definition ApprovalRepo_GetRequestByID :: "ApprovalRequestID \<Rightarrow> ApprovalRequest io" where
  "ApprovalRepo_GetRequestByID requestID =
     bindE
       (getRequest (\<lambda>p. bindE (uuid p requestID) (\<lambda>u.
          select (\<lambda>d. filter (\<lambda>r. req_id r = u) (db_requests d)))))
       populateRequest"

text \<open>\<^verbatim>\<open>LIMIT 1\<close> is what \<open>query_row\<close> does: it reads the first row of the join.\<close>

definition ApprovalRepo_GetRequestByBreakingReportID :: "BreakingReportID \<Rightarrow> ApprovalRequest io" where
  "ApprovalRepo_GetRequestByBreakingReportID reportID =
     bindE
       (getRequest (\<lambda>p. bindE (uuid p reportID) (\<lambda>u.
          select (\<lambda>d. sort_key (\<lambda>r. - req_created_at r)
            (filter (\<lambda>r. req_breaking_report_id r = Some u) (db_requests d))))))
       populateRequest"

definition ApprovalRepo_GetRequestByRequirementID ::
  "ApprovalRequirementID \<Rightarrow> ApprovalRequest io" where
  "ApprovalRepo_GetRequestByRequirementID requirementID =
     bindE
       (getRequest (\<lambda>p. bindE (uuid p requirementID) (\<lambda>u.
          select (\<lambda>d. filter (\<lambda>r. list_ex (\<lambda>q. rqm_id q = u \<and> rqm_approval_request_id q = req_id r)
            (db_requirements d)) (db_requests d)))))
       populateRequest"

definition row_of_decision ::
  "string \<Rightarrow> string \<Rightarrow> string \<Rightarrow> ApprovalDecision \<Rightarrow> decision_row" where
  "row_of_decision did aid rid decision =
     \<lparr>dec_id = did, dec_approval_request_id = aid, dec_requirement_id = rid,
      dec_decision = ApprovalDecisionValue_String (Decision_Decision decision),
      dec_decided_by = Decision_DecidedBy decision, dec_comment = Decision_Comment decision,
      dec_created_at = Decision_CreatedAt decision\<rparr>"

definition ApprovalRepo_AddDecision :: "ApprovalDecision \<Rightarrow> unit io" where
  "ApprovalRepo_AddDecision decision =
     stmt (\<lambda>p.
       bindE (uuid p (Decision_ID decision)) (\<lambda>did.
       bindE (uuid p (Decision_ApprovalRequestID decision)) (\<lambda>aid.
       bindE (uuid p (Decision_RequirementID decision)) (\<lambda>rid.
       bindE (check_in ''approval_decisions_decision_check'' [''approved'', ''rejected'']
                (ApprovalDecisionValue_String (Decision_Decision decision))) (\<lambda>_.
         insert_into db_decisions db_decisions_update
           (\<lambda>r s. dec_id r = dec_id s \<or> dec_requirement_id r = dec_requirement_id s)
           (\<lambda>d. has_id req_id (db_requests d) aid \<and> has_id rqm_id (db_requirements d) rid)
           (row_of_decision did aid rid decision))))))"

definition decided_requirement ::
  "ApprovalRequirementStatus \<Rightarrow> time \<Rightarrow> requirement_row \<Rightarrow> requirement_row" where
  "decided_requirement status updatedAt r =
     r\<lparr>rqm_status := ApprovalRequirementStatus_String status, rqm_updated_at := updatedAt\<rparr>"

definition ApprovalRepo_UpdateRequirementStatus ::
  "ApprovalRequirementID \<Rightarrow> ApprovalRequirementStatus \<Rightarrow> time \<Rightarrow> unit io" where
  "ApprovalRepo_UpdateRequirementStatus requirementID status updatedAt =
     require_rows (stmt (\<lambda>p.
       bindE (uuid p requirementID) (\<lambda>u.
       bindE (check_in ''approval_requirements_status_check'' requirement_statuses
                (ApprovalRequirementStatus_String status)) (\<lambda>_.
         update_where db_requirements db_requirements_update (\<lambda>r. rqm_id r = u)
           (decided_requirement status updatedAt)))))"

definition decided_request ::
  "ApprovalRequestStatus \<Rightarrow> int \<Rightarrow> int \<Rightarrow> time \<Rightarrow> request_row \<Rightarrow> request_row" where
  "decided_request status requiredApprovals receivedApprovals updatedAt r =
     r\<lparr>req_status := ApprovalRequestStatus_String status,
       req_required_approvals := requiredApprovals, req_received_approvals := receivedApprovals,
       req_updated_at := updatedAt\<rparr>"

definition ApprovalRepo_UpdateRequestStatus ::
  "ApprovalRequestID \<Rightarrow> ApprovalRequestStatus \<Rightarrow> int \<Rightarrow> int \<Rightarrow> time \<Rightarrow> unit io" where
  "ApprovalRepo_UpdateRequestStatus requestID status requiredApprovals receivedApprovals updatedAt =
     require_rows (stmt (\<lambda>p.
       bindE (uuid p requestID) (\<lambda>u.
       bindE (check_in ''approval_requests_status_check'' request_statuses
                (ApprovalRequestStatus_String status)) (\<lambda>_.
         update_where db_requests db_requests_update (\<lambda>r. req_id r = u)
           (decided_request status requiredApprovals receivedApprovals updatedAt)))))"

definition ApprovalRepo_ListRequestsByModule ::
  "ModuleID \<Rightarrow> int \<Rightarrow> int \<Rightarrow> ApprovalRequest list io" where
  "ApprovalRepo_ListRequestsByModule moduleID limit off =
     query_rows
       (\<lambda>p. bindE (uuid p moduleID) (\<lambda>u.
          select (\<lambda>d. limit_offset limit off (sort_key (\<lambda>(r, _). - req_created_at r)
            (join_modules req_module_id (filter (\<lambda>r. req_module_id r = u) (db_requests d)) d)))))
       scanApprovalRequest"

section \<open>The audit log\<close>

definition audit_types :: "string list" where
  "audit_types = [''module_owner_added'', ''module_owner_removed'', ''approval_request_created'',
     ''approval_decision_recorded'', ''approval_request_status_changed'', ''policy_evaluated'']"

definition row_of_audit ::
  "string \<Rightarrow> string option \<Rightarrow> string option \<Rightarrow> string option \<Rightarrow> GovernanceAuditEvent \<Rightarrow> audit_row" where
  "row_of_audit eid mid aid bid event =
     \<lparr>aud_id = eid, aud_event_type = GovernanceAuditEventType_String (Audit_EventType event),
      aud_actor = Audit_Actor event, aud_module_id = mid,
      aud_module_name = Audit_ModuleName event, aud_approval_request_id = aid,
      aud_breaking_report_id = bid, aud_payload_json = Audit_PayloadJSON event,
      aud_created_at = Audit_CreatedAt event\<rparr>"

definition AuditRepo_Append :: "GovernanceAuditEvent \<Rightarrow> unit io" where
  "AuditRepo_Append event =
     stmt (\<lambda>p.
       bindE (uuid p (Audit_ID event)) (\<lambda>eid.
       bindE (nullable_uuid p (Audit_ModuleID event)) (\<lambda>mid.
       bindE (nullable_uuid p (Audit_ApprovalRequestID event)) (\<lambda>aid.
       bindE (nullable_uuid p (Audit_BreakingReportID event)) (\<lambda>bid.
       bindE (check_in ''governance_audit_events_type_check'' audit_types
                (GovernanceAuditEventType_String (Audit_EventType event))) (\<lambda>_.
         insert_into db_audits db_audits_update (\<lambda>r s. aud_id r = aud_id s)
           (\<lambda>d. has_opt_id mod_id (db_modules d) mid \<and> has_opt_id req_id (db_requests d) aid
                \<and> has_opt_id rep_id (db_reports d) bid)
           (row_of_audit eid mid aid bid event)))))))"

definition auditList ::
  "(platform \<Rightarrow> (audit_row \<Rightarrow> bool) sql) \<Rightarrow> int \<Rightarrow> int \<Rightarrow> GovernanceAuditEvent list io" where
  "auditList cond limit off =
     query_rows
       (\<lambda>p. bindE (cond p) (\<lambda>P.
          select (\<lambda>d. limit_offset limit off
            (sort_key (\<lambda>r. (aud_created_at r, aud_id r)) (filter P (db_audits d))))))
       scanGovernanceAuditEvent"

definition AuditRepo_ListByApprovalRequest ::
  "ApprovalRequestID \<Rightarrow> int \<Rightarrow> int \<Rightarrow> GovernanceAuditEvent list io" where
  "AuditRepo_ListByApprovalRequest requestID =
     auditList (\<lambda>p. bindE (uuid p requestID) (\<lambda>u. ret (\<lambda>r. aud_approval_request_id r = Some u)))"

definition AuditRepo_ListByModule ::
  "ModuleID \<Rightarrow> int \<Rightarrow> int \<Rightarrow> GovernanceAuditEvent list io" where
  "AuditRepo_ListByModule moduleID =
     auditList (\<lambda>p. bindE (uuid p moduleID) (\<lambda>u. ret (\<lambda>r. aud_module_id r = Some u)))"

section \<open>What the operations do\<close>

text \<open>
  A write that succeeds, as an equation on the tables. The environment is the same before and after
  (\<open>env_rules\<close>), so only the tables are described.
\<close>

lemma row_of_simps [simp]:
  "own_id (row_of_owner oid mid owner) = oid"
  "own_module_id (row_of_owner oid mid owner) = mid"
  "own_subject_type (row_of_owner oid mid owner) = GovernanceSubjectType_String (Owner_SubjectType owner)"
  "own_subject (row_of_owner oid mid owner) = Owner_Subject owner"
  "own_role (row_of_owner oid mid owner) = ModuleOwnerRole_String (Owner_Role owner)"
  "req_id (row_of_request rid mid bid request) = rid"
  "req_breaking_report_id (row_of_request rid mid bid request) = bid"
  "req_status (row_of_request rid mid bid request)
     = ApprovalRequestStatus_String (Request_Status request)"
  "req_required_approvals (row_of_request rid mid bid request) = Request_RequiredApprovals request"
  "req_received_approvals (row_of_request rid mid bid request) = Request_ReceivedApprovals request"
  "rqm_id (row_of_requirement qid aid tid requirement) = qid"
  "rqm_approval_request_id (row_of_requirement qid aid tid requirement) = aid"
  "rqm_requirement_type (row_of_requirement qid aid tid requirement)
     = ApprovalRequirementType_String (Requirement_RequirementType requirement)"
  "rqm_status (row_of_requirement qid aid tid requirement)
     = ApprovalRequirementStatus_String (Requirement_Status requirement)"
  "dec_id (row_of_decision did aid qid decision) = did"
  "dec_approval_request_id (row_of_decision did aid qid decision) = aid"
  "dec_requirement_id (row_of_decision did aid qid decision) = qid"
  "dec_decision (row_of_decision did aid qid decision)
     = ApprovalDecisionValue_String (Decision_Decision decision)"
  by (simp_all add: row_of_owner_def row_of_request_def row_of_requirement_def row_of_decision_def)

lemma decided_simps [simp]:
  "rqm_id (decided_requirement status at r) = rqm_id r"
  "rqm_approval_request_id (decided_requirement status at r) = rqm_approval_request_id r"
  "rqm_requirement_type (decided_requirement status at r) = rqm_requirement_type r"
  "rqm_status (decided_requirement status at r) = ApprovalRequirementStatus_String status"
  "req_id (decided_request rstatus required received at q) = req_id q"
  "req_breaking_report_id (decided_request rstatus required received at q) = req_breaking_report_id q"
  "req_status (decided_request rstatus required received at q) = ApprovalRequestStatus_String rstatus"
  "req_required_approvals (decided_request rstatus required received at q) = required"
  "req_received_approvals (decided_request rstatus required received at q) = received"
  by (simp_all add: decided_requirement_def decided_request_def)

lemma OwnerRepo_Add_Inr:
  assumes "OwnerRepo_Add owner w = (Inr u, w')"
  obtains oid mid where "p_uuid (w_platform w) (Owner_ID owner) = Some oid"
    and "p_uuid (w_platform w) (Owner_ModuleID owner) = Some mid"
    and "\<forall>r \<in> set (db_owners (w_db w)). \<not> owner_clash (row_of_owner oid mid owner) r"
    and "has_id mod_id (db_modules (w_db w)) mid"
    and "w_db w' = db_owners_update (\<lambda>rows. rows @ [row_of_owner oid mid owner]) (w_db w)"
  using assms
  by (auto simp: OwnerRepo_Add_def stmt_Inr bindE_Inr list_ex_iff)

lemma OwnerRepo_Remove_Inr:
  assumes "OwnerRepo_Remove ownerID w = (Inr u, w')"
  obtains oid where "p_uuid (w_platform w) ownerID = Some oid"
    and "\<exists>r \<in> set (db_owners (w_db w)). own_id r = oid"
    and "w_db w' = db_owners_update (filter (\<lambda>r. own_id r \<noteq> oid)) (w_db w)"
  using assms
  by (auto simp: OwnerRepo_Remove_def require_rows_Inr stmt_Inr bindE_Inr filter_empty_conv)

lemma insertRequest_Inr:
  assumes "insertRequest request w = (Inr u, w')"
  obtains rid mid bid where "p_uuid (w_platform w) (Request_ID request) = Some rid"
    and "p_uuid (w_platform w) (Request_ModuleID request) = Some mid"
    and "case Request_BreakingReportID request of None \<Rightarrow> bid = None
         | Some s \<Rightarrow> \<exists>b. p_uuid (w_platform w) s = Some b \<and> bid = Some b"
    and "\<forall>r \<in> set (db_requests (w_db w)). \<not> request_clash (row_of_request rid mid bid request) r"
    and "w_db w' = db_requests_update (\<lambda>rows. rows @ [row_of_request rid mid bid request]) (w_db w)"
  using assms
  by (auto simp: insertRequest_def stmt_Inr bindE_Inr list_ex_iff)

lemma createRequirement_Inr:
  assumes "createRequirement requestID requirement w = (Inr u, w')"
    and "Requirement_ApprovalRequestID requirement = requestID"
  obtains rid aid tid where "p_uuid (w_platform w) (Requirement_ID requirement) = Some rid"
    and "p_uuid (w_platform w) requestID = Some aid"
    and "\<forall>r \<in> set (db_requirements (w_db w)). rqm_id r \<noteq> rid"
    and "\<exists>r \<in> set (db_requests (w_db w)). req_id r = aid"
    and "tid = Option.bind (Requirement_TargetModuleID requirement) (p_uuid (w_platform w))"
    and "w_db w' = db_requirements_update (\<lambda>rows. rows @ [row_of_requirement rid aid tid requirement]) (w_db w)"
proof -
  have [simp]: "(if Requirement_ApprovalRequestID requirement = [] then requestID
      else Requirement_ApprovalRequestID requirement) = requestID"
    using assms(2) by simp
  show ?thesis
    using assms(1) that
    by (cases "Requirement_TargetModuleID requirement")
      (fastforce simp: createRequirement_def stmt_Inr bindE_Inr list_ex_iff has_id_def)+
qed

lemma AddDecision_Inr:
  assumes "ApprovalRepo_AddDecision decision w = (Inr u, w')"
  obtains did aid rid where "p_uuid (w_platform w) (Decision_ID decision) = Some did"
    and "p_uuid (w_platform w) (Decision_ApprovalRequestID decision) = Some aid"
    and "p_uuid (w_platform w) (Decision_RequirementID decision) = Some rid"
    and "\<forall>r \<in> set (db_decisions (w_db w)). did \<noteq> dec_id r \<and> rid \<noteq> dec_requirement_id r"
    and "\<exists>r \<in> set (db_requirements (w_db w)). rqm_id r = rid"
    and "w_db w' = db_decisions_update (\<lambda>rows. rows @ [row_of_decision did aid rid decision]) (w_db w)"
  using assms that
  by (fastforce simp: ApprovalRepo_AddDecision_def stmt_Inr bindE_Inr list_ex_iff has_id_def)

lemma UpdateRequirementStatus_Inr:
  assumes "ApprovalRepo_UpdateRequirementStatus requirementID status updatedAt w = (Inr u, w')"
  obtains rid where "p_uuid (w_platform w) requirementID = Some rid"
    and "\<exists>r \<in> set (db_requirements (w_db w)). rqm_id r = rid"
    and "w_db w' = db_requirements_update
           (map (\<lambda>r. if rqm_id r = rid then decided_requirement status updatedAt r else r)) (w_db w)"
  using assms
  by (auto simp: ApprovalRepo_UpdateRequirementStatus_def require_rows_Inr stmt_Inr bindE_Inr
      filter_empty_conv)

lemma UpdateRequestStatus_Inr:
  assumes "ApprovalRepo_UpdateRequestStatus requestID status required received updatedAt w = (Inr u, w')"
  obtains aid where "p_uuid (w_platform w) requestID = Some aid"
    and "\<exists>r \<in> set (db_requests (w_db w)). req_id r = aid"
    and "w_db w' = db_requests_update
           (map (\<lambda>r. if req_id r = aid then decided_request status required received updatedAt r else r))
           (w_db w)"
  using assms
  by (auto simp: ApprovalRepo_UpdateRequestStatus_def require_rows_Inr stmt_Inr bindE_Inr
      filter_empty_conv)

lemma AuditRepo_Append_Inr:
  assumes "AuditRepo_Append event w = (Inr u, w')"
  obtains eid mid aid bid where "p_uuid (w_platform w) (Audit_ID event) = Some eid"
    and "case Audit_ApprovalRequestID event of None \<Rightarrow> aid = None
         | Some s \<Rightarrow> \<exists>b. p_uuid (w_platform w) s = Some b \<and> aid = Some b"
    and "w_db w' = db_audits_update (\<lambda>rows. rows @ [row_of_audit eid mid aid bid event]) (w_db w)"
  using assms
  by (auto simp: AuditRepo_Append_def stmt_Inr bindE_Inr)

section \<open>The constraints\<close>

text \<open>
  What the schema guarantees of the governance tables: primary keys, unique indexes, CHECK
  constraints, foreign keys between requests, requirements and decisions, and canonical uuids.
  Every operation on them keeps it, whatever its arguments.
\<close>

definition fits :: "(string \<Rightarrow> string option) \<Rightarrow> string \<Rightarrow> bool" where
  "fits U s \<longleftrightarrow> U s = Some s"

definition owners_ok :: "(string \<Rightarrow> string option) \<Rightarrow> db \<Rightarrow> bool" where
  "owners_ok U d \<longleftrightarrow>
     distinct (map own_id (db_owners d))
     \<and> distinct (map (\<lambda>r. (own_module_id r, own_subject_type r, own_subject r, own_role r)) (db_owners d))
     \<and> (\<forall>r \<in> set (db_owners d). fits U (own_id r) \<and> fits U (own_module_id r)
          \<and> own_subject_type r \<in> {''user'', ''team''} \<and> own_role r \<in> {''owner'', ''maintainer''})"

text \<open>The three approval tables, and what the schema says of them.\<close>

record ledger =
  led_requests :: "request_row list"
  led_requirements :: "requirement_row list"
  led_decisions :: "decision_row list"

definition ledger_of :: "db \<Rightarrow> ledger" where
  "ledger_of d = \<lparr>led_requests = db_requests d, led_requirements = db_requirements d,
     led_decisions = db_decisions d\<rparr>"

definition ledger_ok :: "(string \<Rightarrow> string option) \<Rightarrow> ledger \<Rightarrow> bool" where
  "ledger_ok U L \<longleftrightarrow>
     distinct (map req_id (led_requests L))
     \<and> distinct (filter (\<lambda>b. b \<noteq> None) (map req_breaking_report_id (led_requests L)))
     \<and> distinct (map rqm_id (led_requirements L))
     \<and> distinct (map dec_id (led_decisions L))
     \<and> distinct (map dec_requirement_id (led_decisions L))
     \<and> (\<forall>r \<in> set (led_requests L). fits U (req_id r) \<and> req_status r \<in> set request_statuses)
     \<and> (\<forall>r \<in> set (led_requirements L). fits U (rqm_id r) \<and> fits U (rqm_approval_request_id r)
          \<and> rqm_status r \<in> set requirement_statuses
          \<and> rqm_approval_request_id r \<in> req_id ` set (led_requests L))
     \<and> (\<forall>r \<in> set (led_decisions L). fits U (dec_requirement_id r)
          \<and> dec_decision r \<in> {''approved'', ''rejected''}
          \<and> dec_requirement_id r \<in> rqm_id ` set (led_requirements L))"

definition approvals_ok :: "(string \<Rightarrow> string option) \<Rightarrow> db \<Rightarrow> bool" where
  "approvals_ok U d \<longleftrightarrow> ledger_ok U (ledger_of d)"

end
