(* ===== verification/Repo_Registry.thy ===== *)
theory Repo_Registry
  imports Repo_Governance
begin

text \<open>
  The registry repositories of \<^verbatim>\<open>internal/repository/postgres\<close>: \<^verbatim>\<open>modules.go\<close>,
  \<^verbatim>\<open>module_versions.go\<close> and \<^verbatim>\<open>breaking_reports.go\<close>. Constraints are those of the migrations
  \<^verbatim>\<open>000001_registry\<close>, \<^verbatim>\<open>000003_breaking_reports\<close> and \<^verbatim>\<open>000009_module_version_deprecation\<close>.
\<close>

section \<open>Modules\<close>

definition scanModule :: "module_row \<Rightarrow> goerr + Module" where
  "scanModule r =
     bindR (NewModuleName (mod_name r)) (\<lambda>name.
       Inr \<lparr>Module_ID = NewID (mod_id r), Module_Name = name,
         Module_Description = mod_description r, Module_RepositoryURL = mod_repository_url r,
         Module_CreatedAt = mod_created_at r, Module_UpdatedAt = mod_updated_at r\<rparr>)"

definition module_clash :: "module_row \<Rightarrow> module_row \<Rightarrow> bool" where
  "module_clash r s \<longleftrightarrow> mod_id r = mod_id s \<or> mod_name r = mod_name s"

definition ModuleRepo_Create :: "Module \<Rightarrow> unit io" where
  "ModuleRepo_Create module =
     stmt (\<lambda>p. bindE (uuid p (Module_ID module)) (\<lambda>u.
       insert_into db_modules db_modules_update module_clash (\<lambda>d. True)
         \<lparr>mod_id = u, mod_name = Module_Name module, mod_description = Module_Description module,
           mod_repository_url = Module_RepositoryURL module,
           mod_created_at = Module_CreatedAt module, mod_updated_at = Module_UpdatedAt module\<rparr>))"

definition ModuleRepo_GetByID :: "ModuleID \<Rightarrow> Module io" where
  "ModuleRepo_GetByID moduleID =
     query_row
       (\<lambda>p. bindE (uuid p moduleID) (\<lambda>u.
          select (\<lambda>d. filter (\<lambda>r. mod_id r = u) (db_modules d))))
       scanModule"

definition ModuleRepo_GetByName :: "ModuleName \<Rightarrow> Module io" where
  "ModuleRepo_GetByName name =
     query_row (\<lambda>p. select (\<lambda>d. filter (\<lambda>r. mod_name r = name) (db_modules d))) scanModule"

definition ModuleRepo_List :: "int \<Rightarrow> int \<Rightarrow> Module list io" where
  "ModuleRepo_List limit off =
     query_rows
       (\<lambda>p. select (\<lambda>d. limit_offset limit off (sort_key mod_name (db_modules d))))
       scanModule"

section \<open>Module versions\<close>

definition scanModuleVersion :: "version_row \<Rightarrow> goerr + ModuleVersion" where
  "scanModuleVersion r =
     bindR (NewVersion (ver_version r)) (\<lambda>version.
     bindR (NewModuleVersionStatus (ver_status r)) (\<lambda>status.
       Inr \<lparr>Version_ID = NewID (ver_id r), Version_ModuleID = NewID (ver_module_id r),
         Version_Version = version, Version_Status = status, Version_Digest = ver_digest r,
         Version_CreatedAt = ver_created_at r, Version_PublishedAt = None,
         Version_DeprecatedAt = ver_deprecated_at r, Version_DeprecatedBy = ver_deprecated_by r,
         Version_DeprecationReason = ver_deprecation_reason r\<rparr>))"

definition version_clash :: "version_row \<Rightarrow> version_row \<Rightarrow> bool" where
  "version_clash r s \<longleftrightarrow>
     ver_id r = ver_id s \<or> (ver_module_id r = ver_module_id s \<and> ver_version r = ver_version s)"

definition VersionRepo_Create :: "ModuleVersion \<Rightarrow> unit io" where
  "VersionRepo_Create version =
     stmt (\<lambda>p. bindE (uuid p (Version_ID version)) (\<lambda>u. bindE (uuid p (Version_ModuleID version)) (\<lambda>mid.
       insert_into db_versions db_versions_update version_clash
         (\<lambda>d. has_id mod_id (db_modules d) mid)
         \<lparr>ver_id = u, ver_module_id = mid, ver_version = Version_Version version,
           ver_digest = Version_Digest version,
           ver_status = ModuleVersionStatus_String (Version_Status version),
           ver_created_at = Version_CreatedAt version,
           ver_deprecated_at = Version_DeprecatedAt version,
           ver_deprecated_by = Version_DeprecatedBy version,
           ver_deprecation_reason = Version_DeprecationReason version\<rparr>)))"

definition VersionRepo_UpdateDeprecation ::
  "ModuleVersionID \<Rightarrow> time option \<Rightarrow> string \<Rightarrow> string \<Rightarrow> unit io" where
  "VersionRepo_UpdateDeprecation versionID deprecatedAt deprecatedBy deprecationReason =
     require_rows (stmt (\<lambda>p. bindE (uuid p versionID) (\<lambda>u.
       update_where db_versions db_versions_update (\<lambda>r. ver_id r = u)
         (\<lambda>r. r\<lparr>ver_deprecated_at := deprecatedAt, ver_deprecated_by := deprecatedBy,
                 ver_deprecation_reason := deprecationReason\<rparr>))))"

text \<open>\<^verbatim>\<open>getOne\<close> with its clause as the function that selects the rows.\<close>

definition VersionRepo_getOne :: "(platform \<Rightarrow> version_row list sql) \<Rightarrow> ModuleVersion io" where
  "VersionRepo_getOne sql = mapErr mapError (query_row sql scanModuleVersion)"

definition VersionRepo_GetByID :: "ModuleVersionID \<Rightarrow> ModuleVersion io" where
  "VersionRepo_GetByID versionID =
     VersionRepo_getOne (\<lambda>p. bindE (uuid p versionID) (\<lambda>u.
       select (\<lambda>d. filter (\<lambda>r. ver_id r = u) (db_versions d))))"

definition VersionRepo_GetByModuleAndVersion :: "ModuleID \<Rightarrow> Version \<Rightarrow> ModuleVersion io" where
  "VersionRepo_GetByModuleAndVersion moduleID version =
     VersionRepo_getOne (\<lambda>p. bindE (uuid p moduleID) (\<lambda>u.
       select (\<lambda>d. filter (\<lambda>r. ver_module_id r = u \<and> ver_version r = version) (db_versions d))))"

definition VersionRepo_GetLatestByModule :: "ModuleID \<Rightarrow> ModuleVersion io" where
  "VersionRepo_GetLatestByModule moduleID =
     VersionRepo_getOne (\<lambda>p. bindE (uuid p moduleID) (\<lambda>u.
       select (\<lambda>d. take 1 (sort_key (\<lambda>r. - ver_created_at r)
         (filter (\<lambda>r. ver_module_id r = u) (db_versions d))))))"

definition VersionRepo_ListByModule :: "ModuleID \<Rightarrow> int \<Rightarrow> int \<Rightarrow> ModuleVersion list io" where
  "VersionRepo_ListByModule moduleID limit off =
     query_rows
       (\<lambda>p. bindE (uuid p moduleID) (\<lambda>u.
          select (\<lambda>d. limit_offset limit off (sort_key (\<lambda>r. - ver_created_at r)
            (filter (\<lambda>r. ver_module_id r = u) (db_versions d))))))
       scanModuleVersion"

section \<open>Breaking reports\<close>

definition report_statuses :: "string list" where
  "report_statuses = [''passed'', ''breaking'', ''failed'']"

definition scanBreakingReport :: "report_row \<times> string \<times> string \<Rightarrow> goerr + BreakingReport" where
  "scanBreakingReport row =
     (case row of (r, moduleNameValue, baseVersionValue) \<Rightarrow>
        bindR (NewModuleName moduleNameValue) (\<lambda>moduleName.
        bindR (NewVersion baseVersionValue) (\<lambda>baseVersion.
        bindR (NewBreakingReportStatus (rep_status r)) (\<lambda>status.
          Inr \<lparr>Report_ID = NewID (rep_id r), Report_ModuleID = NewID (rep_module_id r),
            Report_ModuleName = moduleName, Report_BaseVersionID = NewID (rep_base_version_id r),
            Report_BaseVersion = baseVersion, Report_TargetRef = rep_target_ref r,
            Report_Status = status, Report_ChangeCount = rep_change_count r,
            Report_RawOutput = rep_raw_output r, Report_HumanSummary = rep_human_summary r,
            Report_CreatedAt = rep_created_at r\<rparr>))))"

definition scanBreakingChange :: "change_row \<Rightarrow> goerr + BreakingChange" where
  "scanBreakingChange r =
     Inr \<lparr>Change_ID = NewID (chg_id r), Change_ReportID = NewID (chg_report_id r),
       Change_Category = chg_category r, Change_FilePath = chg_file_path r,
       Change_PackageName = chg_package_name r, Change_Symbol = chg_symbol r,
       Change_RuleID = chg_rule_id r, Change_Message = chg_message r,
       Change_Severity = chg_severity r, Change_CreatedAt = chg_created_at r\<rparr>"

text \<open>\<^verbatim>\<open>JOIN modules m ... JOIN module_versions mv ON mv.id = br.base_version_id\<close>.\<close>

definition join_report :: "report_row list \<Rightarrow> db \<Rightarrow> (report_row \<times> string \<times> string) list" where
  "join_report rows d =
     concat (map (\<lambda>(r, name).
       map (\<lambda>v. (r, name, ver_version v))
         (filter (\<lambda>v. ver_id v = rep_base_version_id r) (db_versions d)))
       (join_modules rep_module_id rows d))"

definition createChange :: "BreakingReportID \<Rightarrow> BreakingChange \<Rightarrow> unit io" where
  "createChange reportID change =
     stmt (\<lambda>p. bindE (uuid p (Change_ID change)) (\<lambda>u. bindE (uuid p reportID) (\<lambda>rid.
       insert_into db_changes db_changes_update (\<lambda>r s. chg_id r = chg_id s)
         (\<lambda>d. has_id rep_id (db_reports d) rid)
         \<lparr>chg_id = u, chg_report_id = rid, chg_category = Change_Category change,
           chg_file_path = Change_FilePath change, chg_package_name = Change_PackageName change,
           chg_symbol = Change_Symbol change, chg_rule_id = Change_RuleID change,
           chg_message = Change_Message change, chg_severity = Change_Severity change,
           chg_created_at = Change_CreatedAt change\<rparr>)))"

definition insertReport :: "BreakingReport \<Rightarrow> unit io" where
  "insertReport report =
     stmt (\<lambda>p.
       bindE (uuid p (Report_ID report)) (\<lambda>u.
       bindE (uuid p (Report_ModuleID report)) (\<lambda>mid.
       bindE (uuid p (Report_BaseVersionID report)) (\<lambda>vid.
       bindE (check_in ''breaking_reports_status_check'' report_statuses
                (BreakingReportStatus_String (Report_Status report))) (\<lambda>_.
         insert_into db_reports db_reports_update (\<lambda>r s. rep_id r = rep_id s)
           (\<lambda>d. has_id mod_id (db_modules d) mid \<and> has_id ver_id (db_versions d) vid)
           \<lparr>rep_id = u, rep_module_id = mid, rep_base_version_id = vid,
             rep_target_ref = Report_TargetRef report,
             rep_status = BreakingReportStatus_String (Report_Status report),
             rep_change_count = Report_ChangeCount report, rep_raw_output = Report_RawOutput report,
             rep_human_summary = Report_HumanSummary report,
             rep_created_at = Report_CreatedAt report\<rparr>)))))"

definition ReportRepo_Create :: "BreakingReport \<Rightarrow> BreakingChange list \<Rightarrow> unit io" where
  "ReportRepo_Create report changes =
     WithinTransaction
       (bindE (insertReport report) (\<lambda>_. forE changes (createChange (Report_ID report))))"

definition ReportRepo_ListChangesByReport ::
  "BreakingReportID \<Rightarrow> int \<Rightarrow> int \<Rightarrow> BreakingChange list io" where
  "ReportRepo_ListChangesByReport reportID limit off =
     query_rows
       (\<lambda>p. bindE (uuid p reportID) (\<lambda>u.
          select (\<lambda>d. limit_offset limit off (sort_key (\<lambda>r. (chg_created_at r, chg_id r))
            (filter (\<lambda>r. chg_report_id r = u) (db_changes d))))))
       scanBreakingChange"

definition ReportRepo_CountChangesByReport :: "BreakingReportID \<Rightarrow> nat io" where
  "ReportRepo_CountChangesByReport reportID =
     stmt (\<lambda>p. bindE (uuid p reportID) (\<lambda>u.
       select (\<lambda>d. length (filter (\<lambda>r. chg_report_id r = u) (db_changes d)))))"

definition ReportRepo_GetByID ::
  "BreakingReportID \<Rightarrow> (BreakingReport \<times> BreakingChange list) io" where
  "ReportRepo_GetByID reportID =
     bindE
       (mapErr mapError (query_row
          (\<lambda>p. bindE (uuid p reportID) (\<lambda>u.
             select (\<lambda>d. join_report (filter (\<lambda>r. rep_id r = u) (db_reports d)) d)))
          scanBreakingReport)) (\<lambda>report.
     bindE (ReportRepo_ListChangesByReport reportID 1000 0) (\<lambda>changes.
       ret (report, changes)))"

definition ReportRepo_ListByModule :: "ModuleID \<Rightarrow> int \<Rightarrow> int \<Rightarrow> BreakingReport list io" where
  "ReportRepo_ListByModule moduleID limit off =
     query_rows
       (\<lambda>p. bindE (uuid p moduleID) (\<lambda>u.
          select (\<lambda>d. limit_offset limit off (sort_key (\<lambda>(r, _). - rep_created_at r)
            (join_report (filter (\<lambda>r. rep_module_id r = u) (db_reports d)) d)))))
       scanBreakingReport"

end
