(* ===== verification/Repo_Dependencies.thy ===== *)
theory Repo_Dependencies
  imports Repo_Registry
begin

text \<open>
  The dependency graph's repository, \<^verbatim>\<open>internal/repository/postgres/dependency_graph.go\<close>: the edges of
  a consumer version, the references that could not be resolved, and the provider index the
  resolver works from. Constraints are those of migration \<^verbatim>\<open>000005_dependency_graph\<close>: an edge has two
  different modules and its key is unique.
\<close>

section \<open>Provider rows\<close>

record ProviderFile =
  PFile_Path :: string
  PFile_ModuleID :: ModuleID
  PFile_ModuleName :: ModuleName
  PFile_ModuleVersionID :: ModuleVersionID
  PFile_Version :: Version

record ProviderSymbol =
  PSym_FullName :: string
  PSym_PackageName :: string
  PSym_ModuleID :: ModuleID
  PSym_ModuleName :: ModuleName
  PSym_ModuleVersionID :: ModuleVersionID
  PSym_Version :: Version

section \<open>Scanning\<close>

text \<open>
  \<^verbatim>\<open>domain.DependencySource(value)\<close> converts without a check. Every stored text was written by
  \<^verbatim>\<open>createDependency\<close> as the \<^verbatim>\<open>String()\<close> of a constant, so looking the constant up again never takes the
  error branch (\<open>cast_source_String\<close>, \<open>cast_reason_String\<close>, \<open>cast_unresolved_String\<close>).
\<close>

definition cast_source :: "string \<Rightarrow> goerr + DependencySource" where
  "cast_source s =
     (case find (\<lambda>x. DependencySource_String x = s)
        [DependencySourceImport, DependencySourceTypeReference, DependencySourceMethodReference,
         DependencySourcePackageFallback] of
        Some x \<Rightarrow> Inr x | None \<Rightarrow> Inl (Infra ''dependency source''))"

definition cast_reason :: "string \<Rightarrow> goerr + DependencyResolutionReason" where
  "cast_reason s =
     (case find (\<lambda>x. DependencyResolutionReason_String x = s)
        [DependencyResolutionReasonImportPath, DependencyResolutionReasonSymbol,
         DependencyResolutionReasonPackageFallback] of
        Some x \<Rightarrow> Inr x | None \<Rightarrow> Inl (Infra ''dependency reason''))"

definition cast_unresolved :: "string \<Rightarrow> goerr + UnresolvedDependencyReason" where
  "cast_unresolved s =
     (case find (\<lambda>x. UnresolvedDependencyReason_String x = s)
        [UnresolvedDependencyReasonProviderNotFound, UnresolvedDependencyReasonAmbiguousProvider] of
        Some x \<Rightarrow> Inr x | None \<Rightarrow> Inl (Infra ''unresolved reason''))"

lemma cast_source_String [simp]: "cast_source (DependencySource_String x) = Inr x"
  by (cases x) (simp_all add: cast_source_def)

lemma cast_reason_String [simp]: "cast_reason (DependencyResolutionReason_String x) = Inr x"
  by (cases x) (simp_all add: cast_reason_def)

lemma cast_unresolved_String [simp]: "cast_unresolved (UnresolvedDependencyReason_String x) = Inr x"
  by (cases x) (simp_all add: cast_unresolved_def)

fun traverse :: "('a \<Rightarrow> 'e + 'b) \<Rightarrow> 'a list \<Rightarrow> 'e + 'b list" where
  "traverse f [] = Inr []"
| "traverse f (x # xs) = bindR (f x) (\<lambda>y. bindR (traverse f xs) (\<lambda>ys. Inr (y # ys)))"

lemma traverse_map: "(\<And>x. x \<in> set xs \<Longrightarrow> f (g x) = Inr (h x)) \<Longrightarrow> traverse f (map g xs) = Inr (map h xs)"
  by (induction xs) auto

type_synonym dependency_join =
  "dependency_row \<times> module_row \<times> version_row \<times> module_row \<times> version_row"

definition scanModuleDependency :: "dependency_join \<Rightarrow> goerr + ModuleDependency" where
  "scanModuleDependency row =
     (case row of (r, cm, cv, pm, pv) \<Rightarrow>
        bindR (NewModuleName (mod_name cm)) (\<lambda>consumerModuleName.
        bindR (NewVersion (ver_version cv)) (\<lambda>consumerVersion.
        bindR (NewModuleName (mod_name pm)) (\<lambda>providerModuleName.
        bindR (NewVersion (ver_version pv)) (\<lambda>providerVersion.
        bindR (cast_source (dep_source r)) (\<lambda>source.
        bindR (cast_reason (dep_reason r)) (\<lambda>reason.
          Inr \<lparr>Dep_ID = NewID (dep_id r),
            Dep_ConsumerModuleID = NewID (dep_consumer_module_id r),
            Dep_ConsumerModuleName = consumerModuleName,
            Dep_ConsumerModuleVersionID = NewID (dep_consumer_module_version_id r),
            Dep_ConsumerVersion = consumerVersion,
            Dep_ProviderModuleID = NewID (dep_provider_module_id r),
            Dep_ProviderModuleName = providerModuleName,
            Dep_ProviderModuleVersionID = NewID (dep_provider_module_version_id r),
            Dep_ProviderVersion = providerVersion, Dep_Source = source, Dep_Reason = reason,
            Dep_ImportPath = dep_import_path r,
            Dep_ReferencedPackage = dep_referenced_package r,
            Dep_ReferencedSymbol = dep_referenced_symbol r,
            Dep_CreatedAt = dep_created_at r\<rparr>)))))))"

definition scanUnresolvedProtoDependency ::
  "unresolved_row \<times> module_row \<times> version_row \<Rightarrow> goerr + UnresolvedProtoDependency" where
  "scanUnresolvedProtoDependency row =
     (case row of (r, m, v) \<Rightarrow>
        bindR (NewModuleName (mod_name m)) (\<lambda>moduleName.
        bindR (NewVersion (ver_version v)) (\<lambda>version.
        bindR (cast_source (unr_source r)) (\<lambda>source.
        bindR (cast_unresolved (unr_reason r)) (\<lambda>reason.
          Inr \<lparr>Unres_ID = NewID (unr_id r), Unres_ModuleID = NewID (unr_module_id r),
            Unres_ModuleName = moduleName,
            Unres_ModuleVersionID = NewID (unr_module_version_id r), Unres_Version = version,
            Unres_Source = source, Unres_ImportPath = unr_import_path r,
            Unres_ReferencedPackage = unr_referenced_package r,
            Unres_ReferencedSymbol = unr_referenced_symbol r, Unres_Reason = reason,
            Unres_CreatedAt = unr_created_at r\<rparr>)))))"

definition scanProviderFile ::
  "string \<times> module_row \<times> version_row \<Rightarrow> goerr + ProviderFile" where
  "scanProviderFile row =
     (case row of (path, m, v) \<Rightarrow>
        bindR (NewModuleName (mod_name m)) (\<lambda>moduleName.
        bindR (NewVersion (ver_version v)) (\<lambda>version.
          Inr \<lparr>PFile_Path = path, PFile_ModuleID = NewID (mod_id m),
            PFile_ModuleName = moduleName, PFile_ModuleVersionID = NewID (ver_id v),
            PFile_Version = version\<rparr>)))"

definition scanProviderSymbol ::
  "(string \<times> string) \<times> module_row \<times> version_row \<Rightarrow> goerr + ProviderSymbol" where
  "scanProviderSymbol row =
     (case row of ((fullName, packageName), m, v) \<Rightarrow>
        bindR (NewModuleName (mod_name m)) (\<lambda>moduleName.
        bindR (NewVersion (ver_version v)) (\<lambda>version.
          Inr \<lparr>PSym_FullName = fullName, PSym_PackageName = packageName,
            PSym_ModuleID = NewID (mod_id m), PSym_ModuleName = moduleName,
            PSym_ModuleVersionID = NewID (ver_id v), PSym_Version = version\<rparr>)))"

section \<open>Writing the edges of a version\<close>

definition timeOrNow :: "time \<Rightarrow> time io" where
  "timeOrNow t = (if t = 0 then clock_now else ret t)"

definition dependency_clash :: "dependency_row \<Rightarrow> dependency_row \<Rightarrow> bool" where
  "dependency_clash r s \<longleftrightarrow>
     dep_id r = dep_id s
     \<or> (dep_consumer_module_version_id r = dep_consumer_module_version_id s
        \<and> dep_provider_module_version_id r = dep_provider_module_version_id s
        \<and> dep_source r = dep_source s \<and> dep_import_path r = dep_import_path s
        \<and> dep_referenced_symbol r = dep_referenced_symbol s)"

definition row_of_dependency ::
  "string \<Rightarrow> string \<Rightarrow> string \<Rightarrow> string \<Rightarrow> string \<Rightarrow> ModuleDependency \<Rightarrow> time \<Rightarrow> dependency_row" where
  "row_of_dependency u cm cv pm pv dependency createdAt =
     \<lparr>dep_id = u, dep_consumer_module_id = cm, dep_consumer_module_version_id = cv,
      dep_provider_module_id = pm, dep_provider_module_version_id = pv,
      dep_source = DependencySource_String (Dep_Source dependency),
      dep_reason = DependencyResolutionReason_String (Dep_Reason dependency),
      dep_import_path = Dep_ImportPath dependency,
      dep_referenced_package = Dep_ReferencedPackage dependency,
      dep_referenced_symbol = Dep_ReferencedSymbol dependency, dep_created_at = createdAt\<rparr>"

definition createDependency :: "ModuleDependency \<Rightarrow> unit io" where
  "createDependency dependency =
     bindE (timeOrNow (Dep_CreatedAt dependency)) (\<lambda>createdAt.
       stmt (\<lambda>p.
         bindE (uuid p (Dep_ID dependency)) (\<lambda>u.
         bindE (uuid p (Dep_ConsumerModuleID dependency)) (\<lambda>cm.
         bindE (uuid p (Dep_ConsumerModuleVersionID dependency)) (\<lambda>cv.
         bindE (uuid p (Dep_ProviderModuleID dependency)) (\<lambda>pm.
         bindE (uuid p (Dep_ProviderModuleVersionID dependency)) (\<lambda>pv.
         bindE (failIf (cm = pm) (CheckViolation ''module_dependencies_no_self_edge'')) (\<lambda>_.
           insert_into db_dependencies db_dependencies_update dependency_clash
             (\<lambda>d. has_id mod_id (db_modules d) cm \<and> has_id ver_id (db_versions d) cv
                \<and> has_id mod_id (db_modules d) pm \<and> has_id ver_id (db_versions d) pv)
             (row_of_dependency u cm cv pm pv dependency createdAt)))))))))"

definition row_of_unresolved ::
  "string \<Rightarrow> string \<Rightarrow> string \<Rightarrow> UnresolvedProtoDependency \<Rightarrow> time \<Rightarrow> unresolved_row" where
  "row_of_unresolved u mid vid dependency createdAt =
     \<lparr>unr_id = u, unr_module_id = mid, unr_module_version_id = vid,
      unr_source = DependencySource_String (Unres_Source dependency),
      unr_import_path = Unres_ImportPath dependency,
      unr_referenced_package = Unres_ReferencedPackage dependency,
      unr_referenced_symbol = Unres_ReferencedSymbol dependency,
      unr_reason = UnresolvedDependencyReason_String (Unres_Reason dependency),
      unr_created_at = createdAt\<rparr>"

definition createUnresolvedDependency :: "UnresolvedProtoDependency \<Rightarrow> unit io" where
  "createUnresolvedDependency dependency =
     bindE (timeOrNow (Unres_CreatedAt dependency)) (\<lambda>createdAt.
       stmt (\<lambda>p.
         bindE (uuid p (Unres_ID dependency)) (\<lambda>u.
         bindE (uuid p (Unres_ModuleID dependency)) (\<lambda>mid.
         bindE (uuid p (Unres_ModuleVersionID dependency)) (\<lambda>vid.
           insert_into db_unresolved db_unresolved_update (\<lambda>r s. unr_id r = unr_id s)
             (\<lambda>d. has_id mod_id (db_modules d) mid \<and> has_id ver_id (db_versions d) vid)
             (row_of_unresolved u mid vid dependency createdAt))))))"

definition ReplaceByConsumerModuleVersion ::
  "ModuleVersionID \<Rightarrow> ModuleDependency list \<Rightarrow> UnresolvedProtoDependency list \<Rightarrow> unit io" where
  "ReplaceByConsumerModuleVersion consumerModuleVersionID dependencies unresolved =
     WithinTransaction
       (bindE (stmt (\<lambda>p. bindE (uuid p consumerModuleVersionID) (\<lambda>u.
          delete_where db_dependencies db_dependencies_update
            (\<lambda>r. dep_consumer_module_version_id r = u)))) (\<lambda>_.
        bindE (stmt (\<lambda>p. bindE (uuid p consumerModuleVersionID) (\<lambda>u.
          delete_where db_unresolved db_unresolved_update
            (\<lambda>r. unr_module_version_id r = u)))) (\<lambda>_.
        bindE (forE dependencies createDependency) (\<lambda>_.
          forE unresolved createUnresolvedDependency))))"

section \<open>Reading the graph\<close>

text \<open>
  The four joins of \<^verbatim>\<open>listDependencies\<close>; \<open>rows\<close> are the edges its WHERE clause selects. Orderings
  compare text byte by byte, and rows that compare equal stay in insertion order.
\<close>

definition by_id :: "('r \<Rightarrow> string) \<Rightarrow> 'r list \<Rightarrow> string \<Rightarrow> 'r list" where
  "by_id k rows v = filter (\<lambda>r. k r = v) rows"

definition join_dependencies :: "dependency_row list \<Rightarrow> db \<Rightarrow> dependency_join list" where
  "join_dependencies rows d =
     concat (map (\<lambda>r.
       concat (map (\<lambda>cm.
         concat (map (\<lambda>cv.
           concat (map (\<lambda>pm.
             map (\<lambda>pv. (r, cm, cv, pm, pv))
               (by_id ver_id (db_versions d) (dep_provider_module_version_id r)))
             (by_id mod_id (db_modules d) (dep_provider_module_id r))))
           (by_id ver_id (db_versions d) (dep_consumer_module_version_id r))))
         (by_id mod_id (db_modules d) (dep_consumer_module_id r)))) rows)"

definition listDependencies ::
  "string \<Rightarrow> (dependency_row \<Rightarrow> string) \<Rightarrow> (dependency_join \<Rightarrow> 'k :: linorder)
   \<Rightarrow> ModuleDependency list io" where
  "listDependencies arg column orderBy =
     query_rows
       (\<lambda>p. bindE (uuid p arg) (\<lambda>u.
          select (\<lambda>d. sort_key orderBy
            (join_dependencies (filter (\<lambda>r. column r = u) (db_dependencies d)) d))))
       scanModuleDependency"

definition ListUpstreamByModule :: "ModuleID \<Rightarrow> ModuleDependency list io" where
  "ListUpstreamByModule moduleID =
     listDependencies moduleID dep_consumer_module_id
       (\<lambda>(r, cm, cv, pm, pv). (- ver_created_at cv, mod_name pm, ver_version pv, dep_source r,
          dep_import_path r, dep_referenced_symbol r))"

definition ListUpstreamByModuleVersion :: "ModuleVersionID \<Rightarrow> ModuleDependency list io" where
  "ListUpstreamByModuleVersion moduleVersionID =
     listDependencies moduleVersionID dep_consumer_module_version_id
       (\<lambda>(r, cm, cv, pm, pv). (mod_name pm, ver_version pv, dep_source r, dep_import_path r,
          dep_referenced_symbol r))"

definition ListDownstreamByModule :: "ModuleID \<Rightarrow> ModuleDependency list io" where
  "ListDownstreamByModule moduleID =
     listDependencies moduleID dep_provider_module_id
       (\<lambda>(r, cm, cv, pm, pv). (mod_name cm, ver_version cv, dep_source r, dep_import_path r,
          dep_referenced_symbol r))"

definition listUnresolvedDependencies ::
  "string \<Rightarrow> (unresolved_row \<Rightarrow> string) \<Rightarrow> (unresolved_row \<times> module_row \<times> version_row \<Rightarrow> 'k :: linorder)
   \<Rightarrow> UnresolvedProtoDependency list io" where
  "listUnresolvedDependencies arg column orderBy =
     query_rows
       (\<lambda>p. bindE (uuid p arg) (\<lambda>u.
          select (\<lambda>d. sort_key orderBy
            (concat (map (\<lambda>r.
               concat (map (\<lambda>m.
                 map (\<lambda>v. (r, m, v)) (by_id ver_id (db_versions d) (unr_module_version_id r)))
                 (by_id mod_id (db_modules d) (unr_module_id r))))
               (filter (\<lambda>r. column r = u) (db_unresolved d)))))))
       scanUnresolvedProtoDependency"

definition ListUnresolvedByModule :: "ModuleID \<Rightarrow> UnresolvedProtoDependency list io" where
  "ListUnresolvedByModule moduleID =
     listUnresolvedDependencies moduleID unr_module_id
       (\<lambda>(r, m, v). (- ver_created_at v, unr_source r, unr_import_path r, unr_referenced_symbol r))"

definition ListUnresolvedByModuleVersion :: "ModuleVersionID \<Rightarrow> UnresolvedProtoDependency list io" where
  "ListUnresolvedByModuleVersion moduleVersionID =
     listUnresolvedDependencies moduleVersionID unr_module_version_id
       (\<lambda>(r, m, v). (unr_source r, unr_import_path r, unr_referenced_symbol r))"

text \<open>
  \<^verbatim>\<open>SELECT DISTINCT ON (module_id) ... WHERE status = 'published' ORDER BY module_id, created_at DESC\<close>.
\<close>

definition latest_published :: "db \<Rightarrow> version_row list" where
  "latest_published d =
     first_by ver_module_id {}
       (sort_key (\<lambda>v. (ver_module_id v, - ver_created_at v))
         (filter (\<lambda>v. ver_status v = ModuleVersionStatus_String ModuleVersionStatusPublished)
           (db_versions d)))"

definition ListLatestPublishedModuleVersions :: "ModuleVersion list io" where
  "ListLatestPublishedModuleVersions = query_rows (\<lambda>p. select latest_published) scanModuleVersion"

text \<open>
  The modules whose latest published version uses the provider, one group per module name and
  version, with the distinct sources and reasons in order.
\<close>

definition affected_joined :: "string \<Rightarrow> db \<Rightarrow> ((string \<times> string) \<times> dependency_row) list" where
  "affected_joined u d =
     concat (map (\<lambda>r.
       concat (map (\<lambda>v.
         map (\<lambda>m. ((mod_name m, ver_version v), r))
           (by_id mod_id (db_modules d) (dep_consumer_module_id r)))
         (by_id ver_id (latest_published d) (dep_consumer_module_version_id r))))
       (filter (\<lambda>r. dep_provider_module_id r = u) (db_dependencies d)))"

definition affected_group :: "string \<Rightarrow> db \<Rightarrow> string \<times> string \<Rightarrow> dependency_row list" where
  "affected_group u d key = map snd (filter (\<lambda>x. fst x = key) (affected_joined u d))"

definition affected_rows ::
  "string \<Rightarrow> db \<Rightarrow> (string \<times> string \<times> string list \<times> string list) list" where
  "affected_rows u d =
     map (\<lambda>key. (fst key, snd key,
            sorted_list_of_set (dep_source ` set (affected_group u d key)),
            sorted_list_of_set (dep_reason ` set (affected_group u d key) - {''''})))
       (sort_key fst (remdups (map fst (affected_joined u d))))"

definition scanAffectedModule ::
  "string \<times> string \<times> string list \<times> string list \<Rightarrow> goerr + AffectedModule" where
  "scanAffectedModule row =
     (case row of (moduleNameValue, versionValue, sourceValues, reasonValues) \<Rightarrow>
        bindR (NewModuleName moduleNameValue) (\<lambda>moduleName.
        bindR (NewVersion versionValue) (\<lambda>version.
        bindR (traverse cast_source sourceValues) (\<lambda>sources.
        bindR (traverse cast_reason reasonValues) (\<lambda>reasons.
          Inr \<lparr>Affected_ModuleName = moduleName, Affected_LatestVersion = version,
            Affected_DependencySources = sources, Affected_Reasons = reasons\<rparr>)))))"

definition ListAffectedModules :: "ModuleID \<Rightarrow> AffectedModule list io" where
  "ListAffectedModules providerModuleID =
     query_rows (\<lambda>p. bindE (uuid p providerModuleID) (\<lambda>u. select (affected_rows u)))
       scanAffectedModule"

section \<open>The provider index\<close>

text \<open>\<^verbatim>\<open>= ANY($1::uuid[])\<close>: every element is read as a uuid.\<close>

fun uuids :: "platform \<Rightarrow> string list \<Rightarrow> string list sql" where
  "uuids p [] = ret []"
| "uuids p (s # ss) = bindE (uuid p s) (\<lambda>u. bindE (uuids p ss) (\<lambda>us. ret (u # us)))"

definition with_module ::
  "('r \<Rightarrow> string) \<Rightarrow> ('r \<Rightarrow> 'a) \<Rightarrow> string list \<Rightarrow> 'r list \<Rightarrow> db \<Rightarrow> ('a \<times> module_row \<times> version_row) list" where
  "with_module key cols us rows d =
     concat (map (\<lambda>r.
       concat (map (\<lambda>v.
         map (\<lambda>m. (cols r, m, v)) (by_id mod_id (db_modules d) (ver_module_id v)))
         (by_id ver_id (db_versions d) (key r))))
       (filter (\<lambda>r. key r \<in> set us) rows))"

definition ListProviderFiles :: "ModuleVersionID list \<Rightarrow> ProviderFile list io" where
  "ListProviderFiles moduleVersionIDs =
     (if moduleVersionIDs = [] then ret []
      else query_rows
        (\<lambda>p. bindE (uuids p moduleVersionIDs) (\<lambda>us.
           select (\<lambda>d. sort_key (\<lambda>(path, m, v). (path, mod_name m))
             (with_module fil_module_version_id fil_path us (pdb_files (db_proto d)) d))))
        scanProviderFile)"

definition ListProviderSymbols :: "ModuleVersionID list \<Rightarrow> ProviderSymbol list io" where
  "ListProviderSymbols moduleVersionIDs =
     (if moduleVersionIDs = [] then ret []
      else query_rows
        (\<lambda>p. bindE (uuids p moduleVersionIDs) (\<lambda>us.
           select (\<lambda>d. sort_key (\<lambda>((fullName, packageName), m, v). (fullName, mod_name m))
             (with_module msg_module_version_id (\<lambda>r. (msg_full_name r, msg_package_name r)) us
                (pdb_messages (db_proto d)) d
              @ with_module enm_module_version_id (\<lambda>r. (enm_full_name r, enm_package_name r)) us
                (pdb_enums (db_proto d)) d
              @ with_module psv_module_version_id (\<lambda>r. (psv_full_name r, psv_package_name r)) us
                (pdb_services (db_proto d)) d))))
        scanProviderSymbol)"

end
