(* ===== verification/Repo_Metadata.thy ===== *)
theory Repo_Metadata
  imports Repo_Registry
begin

text \<open>
  The descriptor metadata of a module version, \<^verbatim>\<open>internal/repository/postgres/descriptor_metadata.go\<close>:
  \<^verbatim>\<open>Save\<close> flattens the files, services and (nested) messages into rows that refer to each other by
  generated ids, \<^verbatim>\<open>GetByModuleVersion\<close> reads them back and rebuilds the message tree from the parent
  ids. Constraints are those of migration \<^verbatim>\<open>000002_buf_descriptor_metadata\<close>.
\<close>

section \<open>Tables\<close>

abbreviation "db_files d \<equiv> pdb_files (db_proto d)"
abbreviation "db_imports d \<equiv> pdb_imports (db_proto d)"
abbreviation "db_pservices d \<equiv> pdb_services (db_proto d)"
abbreviation "db_methods d \<equiv> pdb_methods (db_proto d)"
abbreviation "db_messages d \<equiv> pdb_messages (db_proto d)"
abbreviation "db_fields d \<equiv> pdb_fields (db_proto d)"
abbreviation "db_enums d \<equiv> pdb_enums (db_proto d)"
abbreviation "db_enum_values d \<equiv> pdb_enum_values (db_proto d)"

abbreviation "db_files_update f \<equiv> db_proto_update (pdb_files_update f)"
abbreviation "db_imports_update f \<equiv> db_proto_update (pdb_imports_update f)"
abbreviation "db_pservices_update f \<equiv> db_proto_update (pdb_services_update f)"
abbreviation "db_methods_update f \<equiv> db_proto_update (pdb_methods_update f)"
abbreviation "db_messages_update f \<equiv> db_proto_update (pdb_messages_update f)"
abbreviation "db_fields_update f \<equiv> db_proto_update (pdb_fields_update f)"
abbreviation "db_enums_update f \<equiv> db_proto_update (pdb_enums_update f)"
abbreviation "db_enum_values_update f \<equiv> db_proto_update (pdb_enum_values_update f)"

text \<open>\<^verbatim>\<open>gen_random_uuid()\<close> inside a statement.\<close>

definition gen_id :: "platform \<Rightarrow> string sql" where
  "gen_id p d = (Inr (p_gen_uuid p (db_generated d)), d\<lparr>db_generated := Suc (db_generated d)\<rparr>)"

lemma gen_id_run [simp]:
  "gen_id p d = (r, d') \<longleftrightarrow>
     r = Inr (p_gen_uuid p (db_generated d)) \<and> d' = d\<lparr>db_generated := Suc (db_generated d)\<rparr>"
  by (auto simp: gen_id_def)

section \<open>Saving\<close>

definition createProtoFile :: "ModuleVersionID \<Rightarrow> ProtoFile \<Rightarrow> string io" where
  "createProtoFile moduleVersionID file =
     stmt (\<lambda>p. bindE (uuid p moduleVersionID) (\<lambda>v. bindE (gen_id p) (\<lambda>i.
       bindE (insert_into db_files db_files_update
           (\<lambda>r s. fil_id r = fil_id s
              \<or> (fil_module_version_id r = fil_module_version_id s \<and> fil_path r = fil_path s))
           (\<lambda>d. has_id ver_id (db_versions d) v)
           \<lparr>fil_id = i, fil_module_version_id = v, fil_path = File_Path file,
             fil_package_name = File_PackageName file, fil_syntax = File_Syntax file\<rparr>) (\<lambda>_.
         ret i))))"

definition createProtoImports :: "string \<Rightarrow> ProtoImport list \<Rightarrow> unit io" where
  "createProtoImports fileID imps =
     forE imps (\<lambda>protoImport.
       stmt (\<lambda>p. bindE (gen_id p) (\<lambda>_. bindE (uuid p fileID) (\<lambda>f.
         insert_into db_imports db_imports_update (\<lambda>r s. False) (\<lambda>d. has_id fil_id (db_files d) f)
           \<lparr>imp_proto_file_id = f, imp_import_path = Import_Path protoImport,
             imp_is_public = Import_Public protoImport, imp_is_weak = Import_Weak protoImport\<rparr>))))"

definition createProtoMethod :: "string \<Rightarrow> ProtoMethod \<Rightarrow> unit io" where
  "createProtoMethod serviceID method =
     stmt (\<lambda>p. bindE (gen_id p) (\<lambda>_. bindE (uuid p serviceID) (\<lambda>s.
       insert_into db_methods db_methods_update
         (\<lambda>r r'. mth_service_id r = mth_service_id r' \<and> mth_name r = mth_name r')
         (\<lambda>d. has_id psv_id (db_pservices d) s)
         \<lparr>mth_service_id = s, mth_name = Method_Name method,
           mth_input_type = Method_InputType method, mth_output_type = Method_OutputType method,
           mth_client_streaming = Method_ClientStreaming method,
           mth_server_streaming = Method_ServerStreaming method\<rparr>)))"

definition insertService :: "ModuleVersionID \<Rightarrow> string \<Rightarrow> string \<Rightarrow> ProtoService \<Rightarrow> string io" where
  "insertService moduleVersionID fileID packageName service =
     stmt (\<lambda>p. bindE (uuid p moduleVersionID) (\<lambda>v. bindE (uuid p fileID) (\<lambda>f.
       bindE (gen_id p) (\<lambda>i.
       bindE (insert_into db_pservices db_pservices_update
           (\<lambda>r s. psv_id r = psv_id s
              \<or> (psv_module_version_id r = psv_module_version_id s \<and> psv_full_name r = psv_full_name s))
           (\<lambda>d. has_id ver_id (db_versions d) v \<and> has_id fil_id (db_files d) f)
           \<lparr>psv_id = i, psv_module_version_id = v, psv_proto_file_id = f,
             psv_package_name = packageName, psv_name = PService_Name service,
             psv_full_name = PService_FullName service\<rparr>) (\<lambda>_. ret i)))))"

definition createProtoServices ::
  "ModuleVersionID \<Rightarrow> string \<Rightarrow> string \<Rightarrow> ProtoService list \<Rightarrow> unit io" where
  "createProtoServices moduleVersionID fileID packageName services =
     forE services (\<lambda>service.
       bindE (insertService moduleVersionID fileID packageName service) (\<lambda>serviceID.
         forE (PService_Methods service) (createProtoMethod serviceID)))"

definition createProtoEnumValue :: "string \<Rightarrow> ProtoEnumValue \<Rightarrow> unit io" where
  "createProtoEnumValue enumID value =
     stmt (\<lambda>p. bindE (gen_id p) (\<lambda>_. bindE (uuid p enumID) (\<lambda>e.
       insert_into db_enum_values db_enum_values_update
         (\<lambda>r s. env_enum_id r = env_enum_id s \<and> env_number r = env_number s)
         (\<lambda>d. has_id enm_id (db_enums d) e)
         \<lparr>env_enum_id = e, env_name = EnumValue_Name value, env_number = EnumValue_Number value\<rparr>)))"

definition insertEnum :: "ModuleVersionID \<Rightarrow> string \<Rightarrow> string \<Rightarrow> ProtoEnum \<Rightarrow> string io" where
  "insertEnum moduleVersionID fileID packageName enum =
     stmt (\<lambda>p. bindE (uuid p moduleVersionID) (\<lambda>v. bindE (uuid p fileID) (\<lambda>f.
       bindE (gen_id p) (\<lambda>i.
       bindE (insert_into db_enums db_enums_update
           (\<lambda>r s. enm_id r = enm_id s
              \<or> (enm_module_version_id r = enm_module_version_id s \<and> enm_full_name r = enm_full_name s))
           (\<lambda>d. has_id ver_id (db_versions d) v \<and> has_id fil_id (db_files d) f)
           \<lparr>enm_id = i, enm_module_version_id = v, enm_proto_file_id = f,
             enm_package_name = packageName, enm_name = Enum_Name enum,
             enm_full_name = Enum_FullName enum\<rparr>) (\<lambda>_. ret i)))))"

definition createProtoEnums ::
  "ModuleVersionID \<Rightarrow> string \<Rightarrow> string \<Rightarrow> ProtoEnum list \<Rightarrow> unit io" where
  "createProtoEnums moduleVersionID fileID packageName enums =
     forE enums (\<lambda>enum.
       bindE (insertEnum moduleVersionID fileID packageName enum) (\<lambda>enumID.
         forE (Enum_Values enum) (createProtoEnumValue enumID)))"

text \<open>\<^verbatim>\<open>NULLIF($3, '')::uuid\<close>: no parent is the empty text.\<close>

definition insertMessage ::
  "ModuleVersionID \<Rightarrow> string \<Rightarrow> string \<Rightarrow> string \<Rightarrow> string \<Rightarrow> string \<Rightarrow> string io" where
  "insertMessage moduleVersionID fileID parentID packageName name fullName =
     stmt (\<lambda>p. bindE (uuid p moduleVersionID) (\<lambda>v. bindE (uuid p fileID) (\<lambda>f.
       bindE (nullable_uuid p (if parentID = '''' then None else Some parentID)) (\<lambda>parent.
       bindE (gen_id p) (\<lambda>i.
       bindE (insert_into db_messages db_messages_update
           (\<lambda>r s. msg_id r = msg_id s
              \<or> (msg_module_version_id r = msg_module_version_id s \<and> msg_full_name r = msg_full_name s))
           (\<lambda>d. has_id ver_id (db_versions d) v \<and> has_id fil_id (db_files d) f
              \<and> has_opt_id msg_id (db_messages d) parent)
           \<lparr>msg_id = i, msg_module_version_id = v, msg_proto_file_id = f,
             msg_parent_message_id = parent, msg_package_name = packageName, msg_name = name,
             msg_full_name = fullName\<rparr>) (\<lambda>_. ret i))))))"

definition createProtoField :: "string \<Rightarrow> ProtoField \<Rightarrow> unit io" where
  "createProtoField messageID field =
     stmt (\<lambda>p. bindE (gen_id p) (\<lambda>_. bindE (uuid p messageID) (\<lambda>m.
       insert_into db_fields db_fields_update
         (\<lambda>r s. fld_message_id r = fld_message_id s
            \<and> Field_Number (fld_field r) = Field_Number (fld_field s))
         (\<lambda>d. has_id msg_id (db_messages d) m)
         \<lparr>fld_message_id = m, fld_field = field\<rparr>)))"

fun createProtoMessage ::
  "ModuleVersionID \<Rightarrow> string \<Rightarrow> string \<Rightarrow> string \<Rightarrow> ProtoMessage \<Rightarrow> unit io" where
  "createProtoMessage moduleVersionID fileID parentID packageName
     (ProtoMessage name full flds messages enums) =
     bindE (insertMessage moduleVersionID fileID parentID packageName name full) (\<lambda>messageID.
     bindE (forE flds (createProtoField messageID)) (\<lambda>_.
     bindE (forE messages (\<lambda>nested.
       createProtoMessage moduleVersionID fileID messageID packageName nested)) (\<lambda>_.
       createProtoEnums moduleVersionID fileID packageName enums)))"

text \<open>
  \<^verbatim>\<open>DELETE FROM proto_files\<close> cascades to everything that refers to the files. A nested message is a
  row of the same file as its parent, so the cascade over \<^verbatim>\<open>parent_message_id\<close> removes nothing more.
\<close>

definition delete_files :: "string \<Rightarrow> unit sql" where
  "delete_files v d =
     (let pd = db_proto d;
          files = fil_id ` set (filter (\<lambda>r. fil_module_version_id r = v) (pdb_files pd));
          services = psv_id ` set (filter (\<lambda>r. psv_proto_file_id r \<in> files) (pdb_services pd));
          messages = msg_id ` set (filter (\<lambda>r. msg_proto_file_id r \<in> files) (pdb_messages pd));
          enums = enm_id ` set (filter (\<lambda>r. enm_proto_file_id r \<in> files) (pdb_enums pd))
      in (Inr (), d\<lparr>db_proto :=
           \<lparr>pdb_files = filter (\<lambda>r. fil_module_version_id r \<noteq> v) (pdb_files pd),
            pdb_imports = filter (\<lambda>r. imp_proto_file_id r \<notin> files) (pdb_imports pd),
            pdb_services = filter (\<lambda>r. psv_proto_file_id r \<notin> files) (pdb_services pd),
            pdb_methods = filter (\<lambda>r. mth_service_id r \<notin> services) (pdb_methods pd),
            pdb_messages = filter (\<lambda>r. msg_proto_file_id r \<notin> files) (pdb_messages pd),
            pdb_fields = filter (\<lambda>r. fld_message_id r \<notin> messages) (pdb_fields pd),
            pdb_enums = filter (\<lambda>r. enm_proto_file_id r \<notin> files) (pdb_enums pd),
            pdb_enum_values = filter (\<lambda>r. env_enum_id r \<notin> enums) (pdb_enum_values pd)\<rparr>\<rparr>))"

definition saveFile :: "ModuleVersionID \<Rightarrow> ProtoFile \<Rightarrow> unit io" where
  "saveFile moduleVersionID file =
     bindE (createProtoFile moduleVersionID file) (\<lambda>fileID.
     bindE (createProtoImports fileID (File_Imports file)) (\<lambda>_.
     bindE (createProtoServices moduleVersionID fileID (File_PackageName file) (File_Services file)) (\<lambda>_.
     bindE (forE (File_Messages file)
              (createProtoMessage moduleVersionID fileID '''' (File_PackageName file))) (\<lambda>_.
       createProtoEnums moduleVersionID fileID (File_PackageName file) (File_Enums file)))))"

definition Metadata_Save :: "ModuleVersionID \<Rightarrow> DescriptorMetadata \<Rightarrow> unit io" where
  "Metadata_Save moduleVersionID metadata =
     WithinTransaction
       (bindE (stmt (\<lambda>p. bindE (uuid p moduleVersionID) delete_files)) (\<lambda>_.
        bindE clock_now (\<lambda>_. forE metadata (saveFile moduleVersionID))))"

section \<open>Loading\<close>

definition loadProtoFiles :: "ModuleVersionID \<Rightarrow> file_row list io" where
  "loadProtoFiles moduleVersionID =
     bindE (query_rows (\<lambda>p. bindE (uuid p moduleVersionID) (\<lambda>v.
        select (\<lambda>d. sort_key fil_path (filter (\<lambda>r. fil_module_version_id r = v) (db_files d)))))
        Inr) (\<lambda>files.
     bindE (failIf (files = []) (Domain ErrNotFound)) (\<lambda>_. ret files))"

definition loadProtoImports :: "string \<Rightarrow> ProtoImport list io" where
  "loadProtoImports fileID =
     query_rows (\<lambda>p. bindE (uuid p fileID) (\<lambda>f.
       select (\<lambda>d. sort_key imp_import_path (filter (\<lambda>r. imp_proto_file_id r = f) (db_imports d)))))
       (\<lambda>r. Inr \<lparr>Import_Path = imp_import_path r, Import_Public = imp_is_public r,
               Import_Weak = imp_is_weak r\<rparr>)"

definition loadProtoMethods :: "string \<Rightarrow> ProtoMethod list io" where
  "loadProtoMethods serviceID =
     query_rows (\<lambda>p. bindE (uuid p serviceID) (\<lambda>s.
       select (\<lambda>d. sort_key mth_name (filter (\<lambda>r. mth_service_id r = s) (db_methods d)))))
       (\<lambda>r. Inr \<lparr>Method_Name = mth_name r, Method_InputType = mth_input_type r,
               Method_OutputType = mth_output_type r,
               Method_ClientStreaming = mth_client_streaming r,
               Method_ServerStreaming = mth_server_streaming r\<rparr>)"

definition loadProtoServices :: "ModuleVersionID \<Rightarrow> string \<Rightarrow> ProtoService list io" where
  "loadProtoServices moduleVersionID fileID =
     bindE (query_rows (\<lambda>p. bindE (uuid p moduleVersionID) (\<lambda>v. bindE (uuid p fileID) (\<lambda>f.
        select (\<lambda>d. sort_key psv_full_name
          (filter (\<lambda>r. psv_module_version_id r = v \<and> psv_proto_file_id r = f) (db_pservices d))))))
        Inr) (\<lambda>rows.
     collectE rows (\<lambda>r.
       bindE (loadProtoMethods (psv_id r)) (\<lambda>methods.
         ret \<lparr>PService_Name = psv_name r, PService_FullName = psv_full_name r,
              PService_Methods = methods\<rparr>)))"

definition loadProtoFields :: "string \<Rightarrow> ProtoField list io" where
  "loadProtoFields messageID =
     query_rows (\<lambda>p. bindE (uuid p messageID) (\<lambda>m.
       select (\<lambda>d. sort_key (\<lambda>r. Field_Number (fld_field r))
         (filter (\<lambda>r. fld_message_id r = m) (db_fields d)))))
       (\<lambda>r. Inr (fld_field r))"

text \<open>
  A \<^verbatim>\<open>protoMessageRow\<close>: the message without its nested messages, with its id and its parent's (the
  empty text at the top level).
\<close>

record protoMessageRow =
  mrow_id :: string
  mrow_parentID :: string
  mrow_message :: ProtoMessage

fun with_messages :: "ProtoMessage \<Rightarrow> ProtoMessage list \<Rightarrow> ProtoMessage" where
  "with_messages (ProtoMessage name full flds messages enums) ms = ProtoMessage name full flds ms enums"

fun mapO :: "('a \<Rightarrow> 'b option) \<Rightarrow> 'a list \<Rightarrow> 'b list option" where
  "mapO f [] = Some []"
| "mapO f (x # xs) = Option.bind (f x) (\<lambda>y. Option.bind (mapO f xs) (\<lambda>ys. Some (y # ys)))"

lemma mapO_mono [partial_function_mono]:
  "(\<And>x. mono_option (\<lambda>f. F f x)) \<Longrightarrow> mono_option (\<lambda>f. mapO (F f) xs)"
  by (induction xs) (auto intro!: bind_mono option.const_mono)

lemma mapO_map: "(\<And>x. x \<in> set xs \<Longrightarrow> f x = Some (g x)) \<Longrightarrow> mapO f xs = Some (map g xs)"
  by (induction xs) auto

text \<open>
  \<^verbatim>\<open>buildMessageChildren\<close> recurses along the children map; that it ends depends on the rows, so it is a
  partial function, and \<open>None\<close> is a recursion without end.
\<close>

partial_function (option) buildMessageChildren ::
  "string \<Rightarrow> (string \<Rightarrow> protoMessageRow list) \<Rightarrow> ProtoMessage list option" where
  "buildMessageChildren parentID children =
     mapO (\<lambda>row. Option.bind (buildMessageChildren (mrow_id row) children) (\<lambda>messages.
             Some (with_messages (mrow_message row) messages)))
       (sort_key (\<lambda>row. Message_FullName (mrow_message row)) (children parentID))"

text \<open>For evaluation: one row at a time.\<close>

definition build_row :: "(string \<Rightarrow> protoMessageRow list) \<Rightarrow> protoMessageRow \<Rightarrow> ProtoMessage option" where
  "build_row children row =
     Option.bind (buildMessageChildren (mrow_id row) children) (\<lambda>messages.
       Some (with_messages (mrow_message row) messages))"

lemma buildMessageChildren_code [code]:
  "buildMessageChildren parentID children =
     mapO (build_row children)
       (sort_key (\<lambda>row. Message_FullName (mrow_message row)) (children parentID))"
  by (subst buildMessageChildren.simps) (simp add: build_row_def [abs_def])

definition group_children :: "protoMessageRow list \<Rightarrow> string \<Rightarrow> protoMessageRow list" where
  "group_children rows = fold (\<lambda>row m. m(mrow_parentID row := m (mrow_parentID row) @ [row])) rows (\<lambda>_. [])"

definition buildMessageTree :: "protoMessageRow list \<Rightarrow> ProtoMessage list option" where
  "buildMessageTree rows = buildMessageChildren '''' (group_children rows)"

text \<open>A recursion without end exhausts the goroutine's stack.\<close>

definition loadProtoMessages :: "ModuleVersionID \<Rightarrow> string \<Rightarrow> ProtoMessage list io" where
  "loadProtoMessages moduleVersionID fileID =
     bindE (query_rows (\<lambda>p. bindE (uuid p moduleVersionID) (\<lambda>v. bindE (uuid p fileID) (\<lambda>f.
        select (\<lambda>d. sort_key msg_full_name
          (filter (\<lambda>r. msg_module_version_id r = v \<and> msg_proto_file_id r = f) (db_messages d))))))
        Inr) (\<lambda>rows.
     bindE (collectE rows (\<lambda>r.
        bindE (loadProtoFields (msg_id r)) (\<lambda>flds.
          ret \<lparr>mrow_id = msg_id r,
               mrow_parentID = (case msg_parent_message_id r of None \<Rightarrow> '''' | Some u \<Rightarrow> u),
               mrow_message = ProtoMessage (msg_name r) (msg_full_name r) flds [] []\<rparr>))) (\<lambda>mrows.
     case buildMessageTree mrows of
       None \<Rightarrow> raise (Infra ''stack overflow'')
     | Some messages \<Rightarrow> ret messages))"

definition loadProtoEnumValues :: "string \<Rightarrow> ProtoEnumValue list io" where
  "loadProtoEnumValues enumID =
     query_rows (\<lambda>p. bindE (uuid p enumID) (\<lambda>e.
       select (\<lambda>d. sort_key env_number (filter (\<lambda>r. env_enum_id r = e) (db_enum_values d)))))
       (\<lambda>r. Inr \<lparr>EnumValue_Name = env_name r, EnumValue_Number = env_number r\<rparr>)"

text \<open>
  \<^verbatim>\<open>enumBelongsToMessage\<close> returns whether some message's name is a prefix of the enum's and appends the
  enum to the innermost such message; \<open>None\<close> is \<^verbatim>\<open>false\<close>, \<open>Some\<close> carries the updated messages.
\<close>

fun enumBelongsToMessage :: "ProtoMessage list \<Rightarrow> ProtoEnum \<Rightarrow> ProtoMessage list option" where
  "enumBelongsToMessage [] enum = None"
| "enumBelongsToMessage (ProtoMessage name full flds messages enums # ms) enum =
     (if HasPrefix (Enum_FullName enum) (full @ ''.'') then
        Some ((case enumBelongsToMessage messages enum of
                 Some messages' \<Rightarrow> ProtoMessage name full flds messages' enums
               | None \<Rightarrow> ProtoMessage name full flds messages (enums @ [enum])) # ms)
      else map_option ((#) (ProtoMessage name full flds messages enums)) (enumBelongsToMessage ms enum))"

definition loadProtoEnums ::
  "ModuleVersionID \<Rightarrow> string \<Rightarrow> ProtoMessage list \<Rightarrow> (ProtoEnum list \<times> ProtoMessage list) io" where
  "loadProtoEnums moduleVersionID fileID messages =
     bindE (query_rows (\<lambda>p. bindE (uuid p moduleVersionID) (\<lambda>v. bindE (uuid p fileID) (\<lambda>f.
        select (\<lambda>d. sort_key enm_full_name
          (filter (\<lambda>r. enm_module_version_id r = v \<and> enm_proto_file_id r = f) (db_enums d))))))
        Inr) (\<lambda>rows.
     foldE (\<lambda>r (fileEnums, messages).
        bindE (loadProtoEnumValues (enm_id r)) (\<lambda>values.
          let enum = \<lparr>Enum_Name = enm_name r, Enum_FullName = enm_full_name r, Enum_Values = values\<rparr>
          in case enumBelongsToMessage messages enum of
               None \<Rightarrow> ret (fileEnums @ [enum], messages)
             | Some messages' \<Rightarrow> ret (fileEnums, messages'))) rows ([], messages))"

definition loadFile :: "ModuleVersionID \<Rightarrow> file_row \<Rightarrow> ProtoFile io" where
  "loadFile moduleVersionID file =
     bindE (loadProtoImports (fil_id file)) (\<lambda>imps.
     bindE (loadProtoServices moduleVersionID (fil_id file)) (\<lambda>services.
     bindE (loadProtoMessages moduleVersionID (fil_id file)) (\<lambda>messages.
     bindE (loadProtoEnums moduleVersionID (fil_id file) messages) (\<lambda>(enums, messages).
       ret \<lparr>File_Path = fil_path file, File_PackageName = fil_package_name file,
            File_Syntax = fil_syntax file, File_Imports = imps, File_Services = services,
            File_Messages = messages, File_Enums = enums\<rparr>))))"

definition Metadata_GetByModuleVersion :: "ModuleVersionID \<Rightarrow> DescriptorMetadata io" where
  "Metadata_GetByModuleVersion moduleVersionID =
     bindE (loadProtoFiles moduleVersionID) (\<lambda>files. collectE files (loadFile moduleVersionID))"

definition Metadata_GetSummary :: "ModuleVersionID \<Rightarrow> DescriptorMetadataSummary io" where
  "Metadata_GetSummary moduleVersionID =
     stmt (\<lambda>p. bindE (uuid p moduleVersionID) (\<lambda>v. select (\<lambda>d.
       let files = filter (\<lambda>r. fil_module_version_id r = v) (db_files d);
           services = filter (\<lambda>r. psv_module_version_id r = v) (db_pservices d);
           messages = filter (\<lambda>r. msg_module_version_id r = v) (db_messages d);
           enums = filter (\<lambda>r. enm_module_version_id r = v) (db_enums d)
       in \<lparr>Sum_FileCount = length files,
           Sum_PackageCount = card (fil_package_name ` set files - {''''}),
           Sum_ImportCount = (\<Sum>i\<leftarrow>map fil_id files.
              length (filter (\<lambda>r. imp_proto_file_id r = i) (db_imports d))),
           Sum_ServiceCount = length services,
           Sum_MethodCount = (\<Sum>i\<leftarrow>map psv_id services.
              length (filter (\<lambda>r. mth_service_id r = i) (db_methods d))),
           Sum_MessageCount = length messages,
           Sum_FieldCount = (\<Sum>i\<leftarrow>map msg_id messages.
              length (filter (\<lambda>r. fld_message_id r = i) (db_fields d))),
           Sum_EnumCount = length enums,
           Sum_EnumValueCount = (\<Sum>i\<leftarrow>map enm_id enums.
              length (filter (\<lambda>r. env_enum_id r = i) (db_enum_values d)))\<rparr>)))"

section \<open>Rebuilding the tree ends\<close>

lemma group_children_filter: "group_children rows p = filter (\<lambda>row. mrow_parentID row = p) rows"
proof -
  have "fold (\<lambda>row m. m(mrow_parentID row := m (mrow_parentID row) @ [row])) rows m p
      = m p @ filter (\<lambda>row. mrow_parentID row = p) rows" for m
    by (induction rows arbitrary: m) auto
  then show ?thesis by (simp add: group_children_def)
qed

text \<open>How deep below the root an id lies.\<close>

inductive depth :: "protoMessageRow list \<Rightarrow> string \<Rightarrow> nat \<Rightarrow> bool" for rows where
  root: "depth rows '''' 0"
| child: "row \<in> set rows \<Longrightarrow> depth rows (mrow_parentID row) n \<Longrightarrow> depth rows (mrow_id row) (Suc n)"

inductive_cases depth_0E: "depth rows p 0"
inductive_cases depth_SucE: "depth rows p (Suc n)"

text \<open>The primary key of the rows, none of which is the root.\<close>

definition keyed :: "protoMessageRow list \<Rightarrow> bool" where
  "keyed rows \<longleftrightarrow> distinct (map mrow_id rows) \<and> '''' \<notin> mrow_id ` set rows"

lemma keyed_unique: "keyed rows \<Longrightarrow> r \<in> set rows \<Longrightarrow> s \<in> set rows \<Longrightarrow> mrow_id r = mrow_id s \<Longrightarrow> r = s"
  by (auto simp: keyed_def distinct_map dest: inj_onD)

lemma depth_unique:
  assumes keyed: "keyed rows" and "depth rows p m" and "depth rows p n"
  shows "m = n"
  using assms(2,3)
proof (induction arbitrary: n rule: depth.induct)
  case root
  then show ?case using keyed by (cases rule: depth.cases) (auto simp: keyed_def)
next
  case (child row k)
  from child.prems show ?case
  proof (cases rule: depth.cases)
    case root
    with keyed child.hyps(1) show ?thesis by (metis imageI keyed_def)
  next
    case (child row' n')
    with \<open>row \<in> set rows\<close> have "row' = row" using keyed_unique [OF keyed] by metis
    with child child.IH [of n'] show ?thesis by simp
  qed
qed

lemma depth_path: "depth rows p n \<Longrightarrow> k \<le> n \<Longrightarrow> \<exists>q. depth rows q k"
proof (induction rule: depth.induct)
  case (child row n)
  then show ?case by (cases "k = Suc n") (auto intro: depth.child)
qed (auto intro: depth.root)

lemma depth_bound:
  assumes keyed: "keyed rows" and "depth rows p n"
  shows "n \<le> length rows"
proof -
  have "\<exists>q. depth rows q (Suc k) \<and> q \<in> mrow_id ` set rows" if "k < n" for k
    using depth_path [OF assms(2), of "Suc k"] that by (fastforce elim!: depth_SucE intro: depth.child)
  then obtain f where f: "\<And>k. k < n \<Longrightarrow> depth rows (f k) (Suc k) \<and> f k \<in> mrow_id ` set rows"
    by metis
  then have "inj_on f {..<n}"
    by (metis (mono_tags, lifting) depth_unique [OF keyed] inj_onI lessThan_iff nat.inject)
  moreover have "f ` {..<n} \<subseteq> mrow_id ` set rows" using f by auto
  ultimately have "n \<le> card (mrow_id ` set rows)"
    by (metis card_inj_on_le card_lessThan finite_imageI finite_set)
  also have "\<dots> \<le> length rows"
    using card_image_le [of "set rows" mrow_id] card_length [of rows] by simp
  finally show ?thesis .
qed

lemma mapO_Some: "(\<And>x. x \<in> set xs \<Longrightarrow> \<exists>y. f x = Some y) \<Longrightarrow> \<exists>ys. mapO f xs = Some ys"
  by (induction xs) fastforce+

lemma buildMessageChildren_total:
  assumes keyed: "keyed rows" and "depth rows p n"
  shows "\<exists>ms. buildMessageChildren p (group_children rows) = Some ms"
  using assms(2)
proof (induction "Suc (length rows) - n" arbitrary: p n rule: less_induct)
  case less
  have "\<exists>m. Option.bind (buildMessageChildren (mrow_id row) (group_children rows))
      (\<lambda>messages. Some (with_messages (mrow_message row) messages)) = Some m"
    if "row \<in> set (group_children rows p)" for row
  proof -
    from that have "depth rows (mrow_id row) (Suc n)"
      using less.prems by (auto simp: group_children_filter intro: depth.child)
    with less.hyps [OF _ this] depth_bound [OF keyed less.prems] show ?thesis by fastforce
  qed
  then show ?case
    by (subst buildMessageChildren.simps) (auto intro!: mapO_Some)
qed

lemma buildMessageTree_total: "keyed rows \<Longrightarrow> \<exists>ms. buildMessageTree rows = Some ms"
  unfolding buildMessageTree_def by (rule buildMessageChildren_total [OF _ depth.root])

end
