(* ===== verification/Outbox_Store.thy ===== *)
theory Outbox_Store
  imports Store
begin

text \<open>
  The transactional outbox: the record type of \<^verbatim>\<open>internal/outbox\<close> and its PostgreSQL repository,
  \<^verbatim>\<open>internal/repository/postgres/outbox.go\<close>. \<^verbatim>\<open>ClaimPending\<close> is one statement; rows that another
  transaction holds locked do not occur because a statement is atomic here. Claimed records are
  returned in the order they are claimed, which \<^verbatim>\<open>UPDATE ... RETURNING\<close> leaves open.
\<close>

section \<open>Records\<close>

record Record =
  Rec_ID :: string
  Rec_AggregateType :: string
  Rec_AggregateID :: string
  Rec_EventType :: string
  Rec_DedupKey :: string
  Rec_Payload :: json
  Rec_Status :: string
  Rec_Attempts :: int
  Rec_AvailableAt :: time
  Rec_CreatedAt :: time
  Rec_ClaimedAt :: "time option"
  Rec_ClaimExpiresAt :: "time option"
  Rec_PublishedAt :: "time option"
  Rec_LastError :: string
  Rec_UpdatedAt :: time
  Rec_OccurredAt :: time

record Stats =
  Stats_Pending :: nat
  Stats_Processing :: nat
  Stats_Published :: nat
  Stats_Failed :: nat
  Stats_Dead :: nat

definition outboxStatusPending :: string where "outboxStatusPending = ''pending''"
definition outboxStatusProcessing :: string where "outboxStatusProcessing = ''processing''"
definition outboxStatusPublished :: string where "outboxStatusPublished = ''published''"
definition outboxStatusFailed :: string where "outboxStatusFailed = ''failed''"
definition outboxStatusDead :: string where "outboxStatusDead = ''dead''"
definition maxOutboxLastErrorBytes :: nat where "maxOutboxLastErrorBytes = 4096"

lemmas outbox_status_defs = outboxStatusPending_def outboxStatusProcessing_def
  outboxStatusPublished_def outboxStatusFailed_def outboxStatusDead_def

definition truncateOutboxError :: "string \<Rightarrow> string" where
  "truncateOutboxError message =
     (if length message \<le> maxOutboxLastErrorBytes then message
      else take maxOutboxLastErrorBytes message)"

definition scanOutboxRecord :: "outbox_row \<Rightarrow> Record" where
  "scanOutboxRecord r =
     \<lparr>Rec_ID = obx_id r, Rec_AggregateType = obx_aggregate_type r,
      Rec_AggregateID = obx_aggregate_id r, Rec_EventType = obx_event_type r,
      Rec_DedupKey = obx_dedup_key r, Rec_Payload = obx_payload r, Rec_Status = obx_status r,
      Rec_Attempts = obx_attempts r, Rec_AvailableAt = obx_available_at r,
      Rec_CreatedAt = obx_created_at r, Rec_ClaimedAt = obx_claimed_at r,
      Rec_ClaimExpiresAt = obx_claim_expires_at r, Rec_PublishedAt = obx_published_at r,
      Rec_LastError = obx_last_error r, Rec_UpdatedAt = obx_updated_at r,
      Rec_OccurredAt = obx_available_at r\<rparr>"

section \<open>The repository\<close>

definition outbox_clash :: "outbox_row \<Rightarrow> outbox_row \<Rightarrow> bool" where
  "outbox_clash r s \<longleftrightarrow> obx_id r = obx_id s \<or> obx_dedup_key r = obx_dedup_key s"

definition new_outbox_row :: "string \<Rightarrow> Record \<Rightarrow> time \<Rightarrow> outbox_row" where
  "new_outbox_row oid record occurredAt =
     \<lparr>obx_id = oid, obx_event_type = Rec_EventType record,
      obx_aggregate_type = Rec_AggregateType record, obx_aggregate_id = Rec_AggregateID record,
      obx_dedup_key = Rec_DedupKey record, obx_payload = Rec_Payload record,
      obx_status = outboxStatusPending, obx_attempts = 0, obx_available_at = occurredAt,
      obx_created_at = occurredAt, obx_published_at = None, obx_last_error = '''',
      obx_claimed_at = None, obx_claim_expires_at = None, obx_updated_at = occurredAt\<rparr>"

definition insertOutbox :: "platform \<Rightarrow> Record \<Rightarrow> time \<Rightarrow> unit sql" where
  "insertOutbox p record occurredAt d =
     insert_into db_outbox db_outbox_update outbox_clash (\<lambda>d. True)
       (new_outbox_row (p_gen_uuid p (db_generated d)) record occurredAt)
       (d\<lparr>db_generated := Suc (db_generated d)\<rparr>)"

definition Outbox_Create :: "Record \<Rightarrow> unit io" where
  "Outbox_Create record =
     bindE (if Rec_OccurredAt record = 0 then clock_now else ret (Rec_OccurredAt record))
       (\<lambda>occurredAt. stmt (\<lambda>p. insertOutbox p record occurredAt))"

definition claimable :: "time \<Rightarrow> outbox_row \<Rightarrow> bool" where
  "claimable now r \<longleftrightarrow>
     (obx_status r \<in> {outboxStatusPending, outboxStatusFailed} \<and> obx_available_at r \<le> now)
     \<or> (obx_status r = outboxStatusProcessing
        \<and> (case obx_claim_expires_at r of None \<Rightarrow> False | Some expires \<Rightarrow> expires \<le> now))"

definition claim_row :: "time \<Rightarrow> time \<Rightarrow> outbox_row \<Rightarrow> outbox_row" where
  "claim_row now claimExpiresAt r =
     r\<lparr>obx_status := outboxStatusProcessing, obx_claimed_at := Some now,
       obx_claim_expires_at := Some claimExpiresAt, obx_attempts := obx_attempts r + 1,
       obx_updated_at := now\<rparr>"

definition claim_batch :: "int \<Rightarrow> time \<Rightarrow> outbox_row list \<Rightarrow> outbox_row list" where
  "claim_batch batchSize now rows =
     take (nat batchSize)
       (sort_key (\<lambda>r. (obx_available_at r, obx_created_at r)) (filter (claimable now) rows))"

definition claimRows :: "int \<Rightarrow> time \<Rightarrow> time \<Rightarrow> outbox_row list sql" where
  "claimRows batchSize now claimExpiresAt d =
     (let batch = claim_batch batchSize now (db_outbox d);
          ids = map obx_id batch
      in (Inr (map (claim_row now claimExpiresAt) batch),
          db_outbox_update (map (\<lambda>r. if obx_id r \<in> set ids then claim_row now claimExpiresAt r else r)) d))"

definition Outbox_ClaimPending :: "int \<Rightarrow> duration \<Rightarrow> time \<Rightarrow> Record list io" where
  "Outbox_ClaimPending batchSize leaseDuration now =
     (if batchSize \<le> 0 then ret []
      else bindE (stmt (\<lambda>p. claimRows batchSize now (now + leaseDuration)))
             (\<lambda>rows. ret (map scanOutboxRecord rows)))"

definition ensureOutboxRecordExists :: "string \<Rightarrow> unit io" where
  "ensureOutboxRecordExists recordID =
     bindE (stmt (\<lambda>p. bindE (uuid p recordID) (\<lambda>u.
        select (\<lambda>d. list_ex (\<lambda>r. obx_id r = u) (db_outbox d)))))
       (\<lambda>present. failIf (\<not> present) (Domain ErrNotFound))"

definition publish_row :: "time \<Rightarrow> outbox_row \<Rightarrow> outbox_row" where
  "publish_row now r =
     r\<lparr>obx_status := outboxStatusPublished,
       obx_published_at := (case obx_published_at r of None \<Rightarrow> Some now | Some t \<Rightarrow> Some t),
       obx_claimed_at := None, obx_claim_expires_at := None, obx_updated_at := now\<rparr>"

definition Outbox_MarkPublished :: "string \<Rightarrow> time \<Rightarrow> unit io" where
  "Outbox_MarkPublished recordID now =
     bindE (stmt (\<lambda>p. bindE (uuid p recordID) (\<lambda>u.
        update_where db_outbox db_outbox_update (\<lambda>r. obx_id r = u) (publish_row now))))
       (\<lambda>_. ensureOutboxRecordExists recordID)"

definition fail_row :: "string \<Rightarrow> time \<Rightarrow> time \<Rightarrow> int \<Rightarrow> outbox_row \<Rightarrow> outbox_row" where
  "fail_row lastError nextAttemptAt now maxAttempts r =
     r\<lparr>obx_status := (if obx_attempts r \<ge> maxAttempts then outboxStatusDead else outboxStatusFailed),
       obx_last_error := lastError,
       obx_available_at := (if obx_attempts r \<ge> maxAttempts then obx_available_at r else nextAttemptAt),
       obx_claimed_at := None, obx_claim_expires_at := None, obx_updated_at := now\<rparr>"

definition Outbox_MarkFailed :: "string \<Rightarrow> string \<Rightarrow> time \<Rightarrow> time \<Rightarrow> int \<Rightarrow> unit io" where
  "Outbox_MarkFailed recordID errorMessage nextAttemptAt now maxAttempts =
     bindE (stmt (\<lambda>p. bindE (uuid p recordID) (\<lambda>u.
        update_where db_outbox db_outbox_update (\<lambda>r. obx_id r = u)
          (fail_row (truncateOutboxError errorMessage) nextAttemptAt now maxAttempts))))
       (\<lambda>_. ensureOutboxRecordExists recordID)"

definition count_status :: "string \<Rightarrow> outbox_row list \<Rightarrow> nat" where
  "count_status s rows = length (filter (\<lambda>r. obx_status r = s) rows)"

definition Outbox_Stats :: "Stats io" where
  "Outbox_Stats =
     stmt (\<lambda>p. select (\<lambda>d.
       \<lparr>Stats_Pending = count_status outboxStatusPending (db_outbox d),
        Stats_Processing = count_status outboxStatusProcessing (db_outbox d),
        Stats_Published = count_status outboxStatusPublished (db_outbox d),
        Stats_Failed = count_status outboxStatusFailed (db_outbox d),
        Stats_Dead = count_status outboxStatusDead (db_outbox d)\<rparr>))"

end
