(* ===== verification/Audit_Events.thy ===== *)
theory Audit_Events
  imports Repo_Governance Outbox_Store
begin

text \<open>
  What a state change leaves behind: the audit sink of \<^verbatim>\<open>internal/audit/audit.go\<close>, which stores into
  the governance audit log, and the outbox records of \<^verbatim>\<open>internal/integration/protoradarevents\<close>.
  \<^verbatim>\<open>json.Marshal\<close> of these payloads cannot fail; the JSON value itself stands for the payload and the
  platform's encoder only gives its size.
\<close>

section \<open>The audit sink\<close>

definition MaxPayloadBytes :: int where
  "MaxPayloadBytes = 16 * 1024"

definition OutcomeSuccess :: string where "OutcomeSuccess = ''success''"

record AuditResource =
  Resource_Type :: string
  Resource_ID :: string
  Resource_Name :: string

record AuditEvent =
  Event_ID :: string
  Event_Type :: string
  Event_Actor :: string
  Event_Action :: string
  Event_Outcome :: string
  Event_Resource :: AuditResource
  Event_RelatedResources :: "AuditResource list"
  Event_Payload :: json
  Event_OccurredAt :: time

definition get_platform :: "platform io" where
  "get_platform w = (Inr (w_platform w), w)"

definition applyResource :: "AuditResource \<Rightarrow> GovernanceAuditEvent \<Rightarrow> GovernanceAuditEvent" where
  "applyResource resource stored =
     (if Resource_Type resource = ''module'' then
        (let stored1 = (if Resource_ID resource \<noteq> ''''
                        then stored\<lparr>Audit_ModuleID := Some (NewID (Resource_ID resource))\<rparr> else stored)
         in if Resource_Name resource \<noteq> '''' then
              (case NewModuleName (Resource_Name resource) of
                 Inl err \<Rightarrow> stored1
               | Inr moduleName \<Rightarrow> stored1\<lparr>Audit_ModuleName := moduleName\<rparr>)
            else stored1)
      else if Resource_Type resource = ''approval_request'' then
        (if Resource_ID resource \<noteq> ''''
         then stored\<lparr>Audit_ApprovalRequestID := Some (NewID (Resource_ID resource))\<rparr> else stored)
      else if Resource_Type resource = ''breaking_report'' then
        (if Resource_ID resource \<noteq> ''''
         then stored\<lparr>Audit_BreakingReportID := Some (NewID (Resource_ID resource))\<rparr> else stored)
      else stored)"

definition storedEvent :: "AuditEvent \<Rightarrow> GovernanceAuditEventType \<Rightarrow> json \<Rightarrow> GovernanceAuditEvent" where
  "storedEvent event eventType payload =
     fold applyResource (Event_Resource event # Event_RelatedResources event)
       \<lparr>Audit_ID = NewID (Event_ID event), Audit_EventType = eventType,
        Audit_Actor = Event_Actor event, Audit_ModuleID = None, Audit_ModuleName = '''',
        Audit_ApprovalRequestID = None, Audit_BreakingReportID = None,
        Audit_PayloadJSON = payload, Audit_CreatedAt = Event_OccurredAt event\<rparr>"

definition AuditSink_Record :: "AuditEvent \<Rightarrow> unit io" where
  "AuditSink_Record event =
     bindE get_platform (\<lambda>p.
       let size = length (p_json p (Event_Payload event)) in
       bindE (failIf (int size > MaxPayloadBytes) (Access ErrPayloadTooLarge)) (\<lambda>_.
       bindE (liftE (NewGovernanceAuditEventType (Event_Type event))) (\<lambda>eventType.
         AuditRepo_Append (storedEvent event eventType
           (if size = 0 then JObject [] else Event_Payload event)))))"

section \<open>Outbox records\<close>

definition omitempty :: "string \<Rightarrow> string \<Rightarrow> (string \<times> json) list" where
  "omitempty name value = (if value = '''' then [] else [(name, JString value)])"

definition new_record ::
  "string \<Rightarrow> string \<Rightarrow> string \<Rightarrow> string \<Rightarrow> json \<Rightarrow> time \<Rightarrow> Record" where
  "new_record aggregateType aggregateID eventType dedupKey payload occurredAt =
     \<lparr>Rec_ID = '''', Rec_AggregateType = aggregateType, Rec_AggregateID = aggregateID,
      Rec_EventType = eventType, Rec_DedupKey = dedupKey, Rec_Payload = payload,
      Rec_Status = '''', Rec_Attempts = 0, Rec_AvailableAt = 0, Rec_CreatedAt = 0,
      Rec_ClaimedAt = None, Rec_ClaimExpiresAt = None, Rec_PublishedAt = None,
      Rec_LastError = '''', Rec_UpdatedAt = 0, Rec_OccurredAt = occurredAt\<rparr>"

definition breakingReportIDString :: "BreakingReportID option \<Rightarrow> string" where
  "breakingReportIDString reportID = (case reportID of None \<Rightarrow> '''' | Some s \<Rightarrow> s)"

definition or_time :: "time \<Rightarrow> time \<Rightarrow> time" where
  "or_time occurredAt fallback = (if occurredAt = 0 then fallback else occurredAt)"

definition NewApprovalDecisionRecorded ::
  "ApprovalDecision \<Rightarrow> ModuleID \<Rightarrow> ModuleName \<Rightarrow> BreakingReportID option \<Rightarrow> time \<Rightarrow> Record" where
  "NewApprovalDecisionRecorded decision moduleID moduleName reportID eventTime =
     (let occurredAt = or_time eventTime (Decision_CreatedAt decision) in
      new_record ''approval_request'' (Decision_ApprovalRequestID decision)
        ''protoradar.approval_decision.recorded''
        (''approval-decision:'' @ Decision_ID decision @ '':recorded'')
        (JObject
          ([(''approval_decision_id'', JString (Decision_ID decision)),
            (''approval_request_id'', JString (Decision_ApprovalRequestID decision)),
            (''requirement_id'', JString (Decision_RequirementID decision)),
            (''decision'', JString (ApprovalDecisionValue_String (Decision_Decision decision))),
            (''decided_by'', JString (Decision_DecidedBy decision))]
           @ omitempty ''module_id'' moduleID @ omitempty ''module_name'' moduleName
           @ omitempty ''breaking_report_id'' (breakingReportIDString reportID)
           @ [(''occurred_at'', JTime occurredAt)]))
        occurredAt)"

definition NewApprovalRequestCreated :: "ApprovalRequest \<Rightarrow> string \<Rightarrow> time \<Rightarrow> Record" where
  "NewApprovalRequestCreated request actor eventTime =
     (let occurredAt = or_time eventTime (Request_CreatedAt request) in
      new_record ''approval_request'' (Request_ID request) ''protoradar.approval_request.created''
        (''approval-request:'' @ Request_ID request @ '':created'')
        (JObject
          ([(''approval_request_id'', JString (Request_ID request)),
            (''module_id'', JString (Request_ModuleID request)),
            (''module_name'', JString (Request_ModuleName request))]
           @ omitempty ''breaking_report_id'' (breakingReportIDString (Request_BreakingReportID request))
           @ [(''target_ref'', JString (Request_TargetRef request)),
              (''status'', JString (ApprovalRequestStatus_String (Request_Status request))),
              (''required_approvals'', JInt (Request_RequiredApprovals request)),
              (''received_approvals'', JInt (Request_ReceivedApprovals request))]
           @ omitempty ''actor'' actor
           @ [(''occurred_at'', JTime occurredAt)]))
        occurredAt)"

definition owner_payload :: "ModuleOwner \<Rightarrow> string \<Rightarrow> time \<Rightarrow> json" where
  "owner_payload owner actor occurredAt =
     JObject
       ([(''owner_id'', JString (Owner_ID owner)), (''module_id'', JString (Owner_ModuleID owner)),
         (''module_name'', JString (Owner_ModuleName owner)),
         (''subject_type'', JString (GovernanceSubjectType_String (Owner_SubjectType owner))),
         (''subject'', JString (Owner_Subject owner)),
         (''role'', JString (ModuleOwnerRole_String (Owner_Role owner)))]
        @ omitempty ''actor'' actor @ [(''occurred_at'', JTime occurredAt)])"

definition NewModuleOwnerAdded :: "ModuleOwner \<Rightarrow> string \<Rightarrow> time \<Rightarrow> Record" where
  "NewModuleOwnerAdded owner actor eventTime =
     (let occurredAt = or_time eventTime (Owner_CreatedAt owner) in
      new_record ''module'' (Owner_ModuleID owner) ''protoradar.module_owner.added''
        (''module:'' @ Owner_ModuleID owner @ '':owner:'' @ Owner_ID owner @ '':added'')
        (owner_payload owner actor occurredAt) occurredAt)"

definition NewModuleOwnerRemoved :: "ModuleOwner \<Rightarrow> string \<Rightarrow> time \<Rightarrow> Record" where
  "NewModuleOwnerRemoved owner actor eventTime =
     (let occurredAt = or_time eventTime (Owner_UpdatedAt owner) in
      new_record ''module'' (Owner_ModuleID owner) ''protoradar.module_owner.removed''
        (''module:'' @ Owner_ModuleID owner @ '':owner:'' @ Owner_ID owner @ '':removed'')
        (owner_payload owner actor occurredAt) occurredAt)"

definition NewModuleCreated :: "Module \<Rightarrow> time \<Rightarrow> Record" where
  "NewModuleCreated module occurredAt =
     new_record ''module'' (Module_ID module) ''protoradar.module.created''
       (''module:'' @ Module_ID module @ '':created'')
       (JObject [(''module_id'', JString (Module_ID module)),
          (''module_name'', JString (Module_Name module)),
          (''repository_url'', JString (Module_RepositoryURL module)),
          (''occurred_at'', JTime occurredAt)])
       occurredAt"

definition NewBreakingReportCreated :: "BreakingReport \<Rightarrow> Record" where
  "NewBreakingReportCreated report =
     new_record ''module'' (Report_ModuleID report) ''protoradar.breaking_report.created''
       (''breaking-report:'' @ Report_ID report @ '':created'')
       (JObject [(''report_id'', JString (Report_ID report)),
          (''module_id'', JString (Report_ModuleID report)),
          (''module_name'', JString (Report_ModuleName report)),
          (''base_version_id'', JString (Report_BaseVersionID report)),
          (''base_version'', JString (Report_BaseVersion report)),
          (''target_ref'', JString (Report_TargetRef report)),
          (''status'', JString (BreakingReportStatus_String (Report_Status report))),
          (''change_count'', JInt (Report_ChangeCount report)),
          (''created_at'', JTime (Report_CreatedAt report))])
       (Report_CreatedAt report)"

definition NewModuleVersionDeprecated ::
  "Module \<Rightarrow> ModuleVersion \<Rightarrow> string \<Rightarrow> string \<Rightarrow> time \<Rightarrow> Record" where
  "NewModuleVersionDeprecated module version deprecatedBy deprecationReason occurredAt =
     new_record ''module'' (Module_ID module) ''protoradar.module_version.deprecated''
       (''module:'' @ Module_ID module @ '':version:'' @ Version_Version version @ '':deprecated'')
       (JObject [(''module_id'', JString (Module_ID module)),
          (''module_name'', JString (Module_Name module)),
          (''module_version_id'', JString (Version_ID version)),
          (''version'', JString (Version_Version version)),
          (''deprecated_by'', JString deprecatedBy),
          (''deprecation_reason'', JString deprecationReason),
          (''occurred_at'', JTime occurredAt)])
       occurredAt"

definition NewModuleDependenciesUpdated ::
  "Module \<Rightarrow> ModuleVersion \<Rightarrow> int \<Rightarrow> int \<Rightarrow> time \<Rightarrow> Record" where
  "NewModuleDependenciesUpdated module version dependencyCount unresolvedCount occurredAt =
     new_record ''module'' (Module_ID module) ''protoradar.module_dependencies.updated''
       (''module:'' @ Module_ID module @ '':version:'' @ Version_Version version @ '':dependencies-updated'')
       (JObject [(''module_id'', JString (Module_ID module)),
          (''module_name'', JString (Module_Name module)),
          (''module_version_id'', JString (Version_ID version)),
          (''version'', JString (Version_Version version)),
          (''dependency_count'', JInt dependencyCount),
          (''unresolved_dependency_count'', JInt unresolvedCount),
          (''occurred_at'', JTime occurredAt)])
       occurredAt"

section \<open>What they do to the tables\<close>

context db_preorder
begin

lemma steps_platform: "steps (on_db Q) get_platform"
  by (simp add: steps_def on_db_def get_platform_def db_refl)

lemma steps_audit:
  assumes "\<And>event. steps (on_db Q) (AuditRepo_Append event)"
  shows "steps (on_db Q) (AuditSink_Record event)"
  unfolding AuditSink_Record_def Let_def
  by (intro steps_bindE steps_platform steps_failIf steps_liftE assms)

lemma steps_outbox:
  assumes "\<And>p record at. steps (on_db Q) (stmt (\<lambda>p. insertOutbox p record at))"
  shows "steps (on_db Q) (Outbox_Create record)"
  unfolding Outbox_Create_def by (intro steps_bindE steps_if steps_clock steps_ret assms)

end

lemma env_platform: "steps same_env get_platform"
  by (simp add: steps_def same_env_def get_platform_def)

lemma get_platform_run [simp]: "get_platform w = (r, w') \<longleftrightarrow> r = Inr (w_platform w) \<and> w' = w"
  by (auto simp: get_platform_def)

text \<open>Success means one row more in the log, respectively in the outbox.\<close>

lemma AuditSink_Record_Inr:
  assumes "AuditSink_Record event w = (Inr u, w')"
  obtains row where "w_db w' = db_audits_update (\<lambda>rows. rows @ [row]) (w_db w)"
    and "aud_event_type row = TrimSpace (Event_Type event)"
    and "aud_actor row = Event_Actor event" and "aud_created_at row = Event_OccurredAt event"
    and "same_env w w'"
proof -
  have env: "same_env w w'"
    using assms unfolding AuditSink_Record_def Let_def AuditRepo_Append_def
    by (rule stepsD [rotated]) (intro env_rules env_platform)
  obtain eventType payload
    where type: "NewGovernanceAuditEventType (Event_Type event) = Inr eventType"
      and append: "AuditRepo_Append (storedEvent event eventType payload) w = (Inr u, w')"
    using assms by (auto simp: AuditSink_Record_def Let_def go_Inr split: if_splits) metis+
  have keep: "Audit_EventType (fold applyResource rs e) = Audit_EventType e
      \<and> Audit_Actor (fold applyResource rs e) = Audit_Actor e
      \<and> Audit_CreatedAt (fold applyResource rs e) = Audit_CreatedAt e" for rs e
    by (induction rs arbitrary: e) (simp_all add: applyResource_def Let_def split: sum.splits)
  have stored: "Audit_EventType (storedEvent event eventType payload) = eventType"
    "Audit_Actor (storedEvent event eventType payload) = Event_Actor event"
    "Audit_CreatedAt (storedEvent event eventType payload) = Event_OccurredAt event"
    by (simp_all only: storedEvent_def keep GovernanceAuditEvent.simps)
  have name: "GovernanceAuditEventType_String eventType = TrimSpace (Event_Type event)"
    using type by (auto simp: NewGovernanceAuditEventType_def find_Some_iff split: option.splits)
  show ?thesis
    using append
  proof (rule AuditRepo_Append_Inr)
    fix eid mid aid bid
    assume "w_db w' = db_audits_update
      (\<lambda>rows. rows @ [row_of_audit eid mid aid bid (storedEvent event eventType payload)]) (w_db w)"
    then show ?thesis
      using env name stored by (intro that) (auto simp: row_of_audit_def)
  qed
qed

lemma new_outbox_row_simps [simp]:
  "obx_id (new_outbox_row oid record at) = oid"
  "obx_dedup_key (new_outbox_row oid record at) = Rec_DedupKey record"
  "obx_event_type (new_outbox_row oid record at) = Rec_EventType record"
  "obx_payload (new_outbox_row oid record at) = Rec_Payload record"
  "obx_status (new_outbox_row oid record at) = ''pending''"
  by (simp_all add: new_outbox_row_def outboxStatusPending_def)

lemma Outbox_Create_Inr:
  assumes "Outbox_Create record w = (Inr u, w')"
  obtains oid at where "w_db w' = db_outbox_update (\<lambda>rows. rows @ [new_outbox_row oid record at])
      (db_generated_update Suc (w_db w))"
    and "Rec_OccurredAt record \<noteq> 0 \<Longrightarrow> at = Rec_OccurredAt record"
    and "\<forall>r \<in> set (db_outbox (w_db w)). obx_dedup_key r \<noteq> Rec_DedupKey record"
    and "same_env w w'"
proof -
  have env: "same_env w w'"
    using assms unfolding Outbox_Create_def
    by (rule stepsD [rotated]) (intro env_rules)
  obtain at w1 where at: "w_db w1 = w_db w" "Rec_OccurredAt record \<noteq> 0 \<Longrightarrow> at = Rec_OccurredAt record"
    and insert: "stmt (\<lambda>p. insertOutbox p record at) w1 = (Inr u, w')"
  proof (cases "Rec_OccurredAt record = 0")
    case True
    with assms that [of "w\<lparr>w_ticks := Suc (w_ticks w)\<rparr>" "w_clock w (w_ticks w)"] show ?thesis
      by (simp add: Outbox_Create_def bindE_Inr clock_now_def)
  next
    case False
    with assms that [of w "Rec_OccurredAt record"] show ?thesis
      by (simp add: Outbox_Create_def bindE_Inr)
  qed
  show ?thesis
    using insert at env
    by (intro that [of "p_gen_uuid (w_platform w1) (db_generated (w_db w))" at])
       (auto simp: stmt_Inr insertOutbox_def list_ex_iff outbox_clash_def)
qed

end
