(* ===== verification/Policy.thy ===== *)
theory Policy
  imports Domain_Entities
begin

text \<open>
  The approval policy, \<^verbatim>\<open>internal/usecase/governance/policy.go\<close> and \<^verbatim>\<open>types.go\<close>: which approvals a
  breaking report needs. \<open>EvaluatePolicy\<close> is pure; the result is built by the same two mutators as
  the source (\<open>addRequirement\<close>, \<open>addReason\<close>), with the set of seen keys passed along. The locale
  \<open>policy_evaluator\<close> is the contract the approval service relies on.
\<close>

section \<open>Results\<close>

datatype GovernancePolicyReason =
    GovernancePolicyReasonGovernanceDisabled | GovernancePolicyReasonNoBreakingChanges
  | GovernancePolicyReasonBreakingChanges | GovernancePolicyReasonModuleOwnerRequired
  | GovernancePolicyReasonAffectedConsumerRequired | GovernancePolicyReasonMissingModuleOwner
  | GovernancePolicyReasonProductionRuntimeConsumer

fun GovernancePolicyReason_String :: "GovernancePolicyReason \<Rightarrow> string" where
  "GovernancePolicyReason_String GovernancePolicyReasonGovernanceDisabled = ''governance_disabled''"
| "GovernancePolicyReason_String GovernancePolicyReasonNoBreakingChanges = ''no_breaking_changes''"
| "GovernancePolicyReason_String GovernancePolicyReasonBreakingChanges = ''breaking_changes''"
| "GovernancePolicyReason_String GovernancePolicyReasonModuleOwnerRequired =
     ''module_owner_required''"
| "GovernancePolicyReason_String GovernancePolicyReasonAffectedConsumerRequired =
     ''affected_consumer_required''"
| "GovernancePolicyReason_String GovernancePolicyReasonMissingModuleOwner =
     ''missing_module_owner''"
| "GovernancePolicyReason_String GovernancePolicyReasonProductionRuntimeConsumer =
     ''production_runtime_consumer''"

record GovernancePolicyWarning =
  Warning_RequirementType :: ApprovalRequirementType
  Warning_TargetModuleID :: "ModuleID option"
  Warning_TargetModuleName :: ModuleName
  Warning_Reason :: GovernancePolicyReason
  Warning_Message :: string

record GovernanceRequirementPlan =
  Plan_RequirementType :: ApprovalRequirementType
  Plan_TargetModuleID :: "ModuleID option"
  Plan_TargetModuleName :: ModuleName
  Plan_RequiredRole :: ModuleOwnerRole
  Plan_AllowedRoles :: "ModuleOwnerRole list"
  Plan_Status :: ApprovalRequirementStatus
  Plan_Reason :: GovernancePolicyReason
  Plan_ReasonText :: string
  Plan_Warnings :: "GovernancePolicyWarning list"

record GovernancePolicyResult =
  Result_ApprovalRequired :: bool
  Result_Status :: ApprovalRequestStatus
  Result_RequiredApprovals :: int
  Result_Requirements :: "GovernanceRequirementPlan list"
  Result_Reasons :: "GovernancePolicyReason list"
  Result_ReasonText :: string
  Result_Warnings :: "GovernancePolicyWarning list"

definition policyReasonNoBreakingChanges :: string where
  "policyReasonNoBreakingChanges = ''No breaking changes detected.''"
definition policyReasonGovernanceDisabled :: string where
  "policyReasonGovernanceDisabled = ''Governance is disabled.''"
definition policyReasonModuleOwnerApproval :: string where
  "policyReasonModuleOwnerApproval = ''Breaking changes require approval from module owner.''"
definition policyReasonAffectedConsumerApproval :: string where
  "policyReasonAffectedConsumerApproval =
     ''Production usage requires approval from affected consumer module owner.''"
definition policyWarningMissingOwners :: string where
  "policyWarningMissingOwners = ''No owners are configured for this module.''"

section \<open>Configuration and input\<close>

record PolicyConfig =
  Config_Enabled :: bool
  Config_ProductionEnvironments :: "string list"
  Config_AllowMaintainerApproval :: bool

definition DefaultPolicyConfig :: PolicyConfig where
  "DefaultPolicyConfig =
     \<lparr>Config_Enabled = True, Config_ProductionEnvironments = [''production'', ''prod''],
      Config_AllowMaintainerApproval = True\<rparr>"

definition normalizePolicyConfig :: "PolicyConfig \<Rightarrow> PolicyConfig" where
  "normalizePolicyConfig config =
     (if Config_ProductionEnvironments config = []
      then config\<lparr>Config_ProductionEnvironments :=
                     Config_ProductionEnvironments DefaultPolicyConfig\<rparr>
      else config)"

record PolicyAffectedModule =
  Policy_ModuleID :: "ModuleID option"
  Policy_ModuleName :: ModuleName
  Policy_Owners :: "ModuleOwner list"
  Policy_ProductionUsed :: bool

record EvaluatePolicyInput =
  Input_Report :: BreakingReport
  Input_ModuleOwners :: "ModuleOwner list"
  Input_AffectedModules :: "PolicyAffectedModule list"
  Input_RuntimeImpact :: "RuntimeImpact list"
  Input_Config :: PolicyConfig

section \<open>Evaluation\<close>

definition allowedPolicyRoles :: "PolicyConfig \<Rightarrow> ModuleOwnerRole list" where
  "allowedPolicyRoles config =
     [ModuleOwnerRoleOwner]
     @ (if Config_AllowMaintainerApproval config then [ModuleOwnerRoleMaintainer] else [])"

definition hasEligibleOwner :: "ModuleOwner list \<Rightarrow> PolicyConfig \<Rightarrow> bool" where
  "hasEligibleOwner owners config \<longleftrightarrow>
     list_ex (\<lambda>owner. Owner_Role owner = ModuleOwnerRoleOwner
       \<or> (Config_AllowMaintainerApproval config
          \<and> Owner_Role owner = ModuleOwnerRoleMaintainer)) owners"

definition requirementKey :: "GovernanceRequirementPlan \<Rightarrow> string" where
  "requirementKey plan =
     ApprovalRequirementType_String (Plan_RequirementType plan) @ '':'' @
     (case Plan_TargetModuleID plan of
        Some mid \<Rightarrow> if mid \<noteq> '''' then mid else Plan_TargetModuleName plan
      | None \<Rightarrow> Plan_TargetModuleName plan)"

definition addReason ::
  "GovernancePolicyReason \<Rightarrow> GovernancePolicyResult \<Rightarrow> GovernancePolicyResult" where
  "addReason reason result =
     (if list_ex (\<lambda>existing. existing = reason) (Result_Reasons result) then result
      else result\<lparr>Result_Reasons := Result_Reasons result @ [reason]\<rparr>)"

definition addRequirement ::
  "GovernanceRequirementPlan \<Rightarrow> ModuleOwner list \<Rightarrow> PolicyConfig
   \<Rightarrow> string set \<times> GovernancePolicyResult \<Rightarrow> string set \<times> GovernancePolicyResult" where
  "addRequirement plan owners config acc =
     (case acc of (seen, result) \<Rightarrow>
        (let key = requirementKey plan in
         if key \<in> seen then (seen, result)
         else
           (let seen' = insert key seen in
            if \<not> hasEligibleOwner owners config then
              (let warning = \<lparr>Warning_RequirementType = Plan_RequirementType plan,
                     Warning_TargetModuleID = Plan_TargetModuleID plan,
                     Warning_TargetModuleName = Plan_TargetModuleName plan,
                     Warning_Reason = GovernancePolicyReasonMissingModuleOwner,
                     Warning_Message = policyWarningMissingOwners\<rparr>;
                   plan' = plan\<lparr>Plan_Warnings := Plan_Warnings plan @ [warning]\<rparr>;
                   result' = addReason GovernancePolicyReasonMissingModuleOwner
                     (result\<lparr>Result_Warnings := Result_Warnings result @ [warning]\<rparr>)
               in (seen', result'\<lparr>Result_Requirements := Result_Requirements result' @ [plan']\<rparr>))
            else (seen', result\<lparr>Result_Requirements := Result_Requirements result @ [plan]\<rparr>))))"

text \<open>
  The set of modules used in production; \<open>map_lower\<close> is the Unicode part of \<^verbatim>\<open>strings.ToLower\<close>.
\<close>

definition productionRuntimeModules ::
  "(string \<Rightarrow> string) \<Rightarrow> RuntimeImpact list \<Rightarrow> string list \<Rightarrow> string set" where
  "productionRuntimeModules map_lower impact productionEnvironments =
     (let production = set (filter (\<lambda>e. e \<noteq> '''')
            (map (\<lambda>e. ToLower map_lower (TrimSpace e)) productionEnvironments))
      in set (map Impact_UsedModule
           (filter (\<lambda>item. ToLower map_lower (TrimSpace (Impact_Environment item)) \<in> production)
              impact)))"

definition moduleOwnerPlan :: "BreakingReport \<Rightarrow> PolicyConfig \<Rightarrow> GovernanceRequirementPlan" where
  "moduleOwnerPlan report config =
     \<lparr>Plan_RequirementType = ApprovalRequirementTypeModuleOwnerApproval,
      Plan_TargetModuleID = Some (Report_ModuleID report),
      Plan_TargetModuleName = Report_ModuleName report,
      Plan_RequiredRole = ModuleOwnerRoleOwner, Plan_AllowedRoles = allowedPolicyRoles config,
      Plan_Status = ApprovalRequirementStatusPending,
      Plan_Reason = GovernancePolicyReasonModuleOwnerRequired,
      Plan_ReasonText = policyReasonModuleOwnerApproval, Plan_Warnings = []\<rparr>"

definition affectedPlan ::
  "PolicyAffectedModule \<Rightarrow> PolicyConfig \<Rightarrow> GovernanceRequirementPlan" where
  "affectedPlan affected config =
     \<lparr>Plan_RequirementType = ApprovalRequirementTypeAffectedConsumerApproval,
      Plan_TargetModuleID = Policy_ModuleID affected,
      Plan_TargetModuleName = Policy_ModuleName affected,
      Plan_RequiredRole = ModuleOwnerRoleOwner, Plan_AllowedRoles = allowedPolicyRoles config,
      Plan_Status = ApprovalRequirementStatusPending,
      Plan_Reason = GovernancePolicyReasonProductionRuntimeConsumer,
      Plan_ReasonText = policyReasonAffectedConsumerApproval, Plan_Warnings = []\<rparr>"

definition addAffected ::
  "string set \<Rightarrow> PolicyConfig \<Rightarrow> PolicyAffectedModule
   \<Rightarrow> string set \<times> GovernancePolicyResult \<Rightarrow> string set \<times> GovernancePolicyResult" where
  "addAffected productionModules config affected acc =
     (if \<not> (Policy_ProductionUsed affected \<or> Policy_ModuleName affected \<in> productionModules)
      then acc
      else addRequirement (affectedPlan affected config) (Policy_Owners affected) config
             (fst acc, addReason GovernancePolicyReasonProductionRuntimeConsumer
                (addReason GovernancePolicyReasonAffectedConsumerRequired (snd acc))))"

definition not_required ::
  "GovernancePolicyReason \<Rightarrow> string \<Rightarrow> GovernancePolicyResult" where
  "not_required reason txt =
     \<lparr>Result_ApprovalRequired = False, Result_Status = ApprovalRequestStatusNotRequired,
      Result_RequiredApprovals = 0, Result_Requirements = [], Result_Reasons = [reason],
      Result_ReasonText = txt, Result_Warnings = []\<rparr>"

definition EvaluatePolicy ::
  "(string \<Rightarrow> string) \<Rightarrow> EvaluatePolicyInput \<Rightarrow> GovernancePolicyResult" where
  "EvaluatePolicy map_lower input =
     (let config = normalizePolicyConfig (Input_Config input);
          report = Input_Report input in
      if \<not> Config_Enabled config then
        not_required GovernancePolicyReasonGovernanceDisabled policyReasonGovernanceDisabled
      else if Report_Status report \<noteq> BreakingReportStatusBreaking then
        not_required GovernancePolicyReasonNoBreakingChanges policyReasonNoBreakingChanges
      else
        (let result = \<lparr>Result_ApprovalRequired = True, Result_Status = ApprovalRequestStatusPending,
               Result_RequiredApprovals = 0, Result_Requirements = [],
               Result_Reasons = [GovernancePolicyReasonBreakingChanges,
                 GovernancePolicyReasonModuleOwnerRequired],
               Result_ReasonText = policyReasonModuleOwnerApproval, Result_Warnings = []\<rparr>;
             acc = addRequirement (moduleOwnerPlan report config) (Input_ModuleOwners input) config
                     ({}, result);
             productionModules = productionRuntimeModules map_lower (Input_RuntimeImpact input)
               (Config_ProductionEnvironments config);
             result' = snd (fold (addAffected productionModules config)
               (Input_AffectedModules input) acc)
         in result'\<lparr>Result_RequiredApprovals := int (length (Result_Requirements result'))\<rparr>))"

section \<open>The policy against its reference\<close>

text \<open>
  The reference: the changed module's owners always approve, and so do the owners of every affected
  module in production use, once per requirement key and in order. The warnings are set aside by
  \<open>strip\<close>.
\<close>

definition strip :: "GovernanceRequirementPlan \<Rightarrow> GovernanceRequirementPlan" where
  "strip plan = plan\<lparr>Plan_Warnings := []\<rparr>"

definition in_production :: "string set \<Rightarrow> PolicyAffectedModule \<Rightarrow> bool" where
  "in_production productionModules affected \<longleftrightarrow>
     Policy_ProductionUsed affected \<or> Policy_ModuleName affected \<in> productionModules"

definition required_plans ::
  "(string \<Rightarrow> string) \<Rightarrow> EvaluatePolicyInput \<Rightarrow> GovernanceRequirementPlan list" where
  "required_plans map_lower input =
     (let config = normalizePolicyConfig (Input_Config input);
          used = in_production (productionRuntimeModules map_lower (Input_RuntimeImpact input)
            (Config_ProductionEnvironments config))
      in first_by requirementKey {}
           (moduleOwnerPlan (Input_Report input) config
            # map (\<lambda>affected. affectedPlan affected config) (filter used (Input_AffectedModules input))))"

lemma strip_simps [simp]:
  "requirementKey (strip p) = requirementKey p" "Plan_Status (strip p) = Plan_Status p"
  "strip (moduleOwnerPlan report config) = moduleOwnerPlan report config"
  "strip (affectedPlan affected config) = affectedPlan affected config"
  "strip (p\<lparr>Plan_Warnings := ws\<rparr>) = strip p"
  by (simp_all add: strip_def requirementKey_def moduleOwnerPlan_def affectedPlan_def
      split: option.splits)

lemma addReason_keeps [simp]:
  "Result_Requirements (addReason reason r) = Result_Requirements r"
  "Result_Warnings (addReason reason r) = Result_Warnings r"
  "Result_ApprovalRequired (addReason reason r) = Result_ApprovalRequired r"
  "Result_Status (addReason reason r) = Result_Status r"
  "set (Result_Reasons (addReason reason r)) = insert reason (set (Result_Reasons r))"
  by (auto simp: addReason_def list_ex_iff)

lemma addRequirement_plans:
  "fst (addRequirement plan owners config (seen, r)) = insert (requirementKey plan) seen"
  "map strip (Result_Requirements (snd (addRequirement plan owners config (seen, r)))) =
     map strip (Result_Requirements r) @ (if requirementKey plan \<in> seen then [] else [strip plan])"
  "Result_ApprovalRequired (snd (addRequirement plan owners config (seen, r)))
     = Result_ApprovalRequired r"
  "Result_Status (snd (addRequirement plan owners config (seen, r))) = Result_Status r"
  by (auto simp: addRequirement_def Let_def)

lemma addAffected_fold:
  "map strip (Result_Requirements (snd (fold (addAffected pm config) affected (seen, r)))) =
     map strip (Result_Requirements r)
     @ first_by requirementKey seen (map (\<lambda>a. affectedPlan a config) (filter (in_production pm) affected))
   \<and> Result_ApprovalRequired (snd (fold (addAffected pm config) affected (seen, r)))
     = Result_ApprovalRequired r
   \<and> Result_Status (snd (fold (addAffected pm config) affected (seen, r))) = Result_Status r"
proof (induction affected arbitrary: seen r)
  case (Cons a affected)
  obtain seen' r' where step: "addAffected pm config a (seen, r) = (seen', r')" by fastforce
  show ?case
  proof (cases "in_production pm a")
    case False
    with step have "seen' = seen" "r' = r" by (auto simp: addAffected_def in_production_def)
    with False step Cons.IH [of seen r] show ?thesis by simp
  next
    case True
    let ?r = "addReason GovernancePolicyReasonProductionRuntimeConsumer
                (addReason GovernancePolicyReasonAffectedConsumerRequired r)"
    have eq: "(seen', r') = addRequirement (affectedPlan a config) (Policy_Owners a) config (seen, ?r)"
      using True step by (auto simp: addAffected_def in_production_def)
    have "seen' = insert (requirementKey (affectedPlan a config)) seen"
      using addRequirement_plans(1) eq by (metis fst_conv)
    moreover have "map strip (Result_Requirements r') = map strip (Result_Requirements r)
        @ (if requirementKey (affectedPlan a config) \<in> seen then [] else [affectedPlan a config])"
      using addRequirement_plans(2) [of "affectedPlan a config" "Policy_Owners a" config seen ?r] eq
      by (metis addReason_keeps(1) snd_conv strip_simps(4))
    moreover have "Result_ApprovalRequired r' = Result_ApprovalRequired r"
        "Result_Status r' = Result_Status r"
      using addRequirement_plans(3,4) [of "affectedPlan a config" "Policy_Owners a" config seen ?r] eq
      by (metis addReason_keeps(3,4) snd_conv)+
    ultimately show ?thesis
      using True step Cons.IH [of seen' r'] by (auto simp: insert_absorb)
  qed
qed simp

lemma EvaluatePolicy_breaking:
  assumes "Config_Enabled (Input_Config input)"
    and "Report_Status (Input_Report input) = BreakingReportStatusBreaking"
  shows "map strip (Result_Requirements (EvaluatePolicy map_lower input)) = required_plans map_lower input
     \<and> Result_ApprovalRequired (EvaluatePolicy map_lower input)
     \<and> Result_Status (EvaluatePolicy map_lower input) = ApprovalRequestStatusPending"
proof -
  define config where "config = normalizePolicyConfig (Input_Config input)"
  define start where "start = \<lparr>Result_ApprovalRequired = True,
    Result_Status = ApprovalRequestStatusPending, Result_RequiredApprovals = 0,
    Result_Requirements = [], Result_Reasons = [GovernancePolicyReasonBreakingChanges,
      GovernancePolicyReasonModuleOwnerRequired],
    Result_ReasonText = policyReasonModuleOwnerApproval, Result_Warnings = []\<rparr>"
  define plan where "plan = moduleOwnerPlan (Input_Report input) config"
  obtain seen r where first: "addRequirement plan (Input_ModuleOwners input) config ({}, start) = (seen, r)"
    by fastforce
  have "seen = {requirementKey plan}" "map strip (Result_Requirements r) = [plan]"
    "Result_ApprovalRequired r" "Result_Status r = ApprovalRequestStatusPending"
    using addRequirement_plans [of plan "Input_ModuleOwners input" config "{}" start] first
    by (simp_all add: start_def plan_def)
  moreover have "Config_Enabled config"
    using assms(1) by (simp add: normalizePolicyConfig_def config_def)
  ultimately show ?thesis
    using assms(2) first
    by (simp add: EvaluatePolicy_def required_plans_def Let_def addAffected_fold
        flip: config_def start_def plan_def)
qed

lemma EvaluatePolicy_not_required:
  assumes "\<not> Config_Enabled (Input_Config input)
     \<or> Report_Status (Input_Report input) \<noteq> BreakingReportStatusBreaking"
  shows "\<not> Result_ApprovalRequired (EvaluatePolicy map_lower input)
     \<and> Result_Status (EvaluatePolicy map_lower input) = ApprovalRequestStatusNotRequired
     \<and> Result_Requirements (EvaluatePolicy map_lower input) = []"
  using assms by (auto simp: EvaluatePolicy_def Let_def not_required_def normalizePolicyConfig_def)

lemma EvaluatePolicy_RequiredApprovals:
  "Result_RequiredApprovals (EvaluatePolicy map_lower input)
     = int (length (Result_Requirements (EvaluatePolicy map_lower input)))"
  by (simp add: EvaluatePolicy_def Let_def not_required_def)

lemma required_plans_first:
  "\<exists>rest. required_plans map_lower input
     = moduleOwnerPlan (Input_Report input) (normalizePolicyConfig (Input_Config input)) # rest"
  by (simp add: required_plans_def Let_def)

lemma required_plans_pending:
  "p \<in> set (required_plans map_lower input) \<Longrightarrow> Plan_Status p = ApprovalRequirementStatusPending"
  using first_by_subset [of requirementKey] unfolding required_plans_def Let_def
  by (fastforce simp: moduleOwnerPlan_def affectedPlan_def)

lemma map_strip_key: "map (requirementKey \<circ> strip) ps = map requirementKey ps"
  by simp

lemma required_plans_distinct: "distinct (map requirementKey (required_plans map_lower input))"
  unfolding required_plans_def Let_def by (rule first_by_distinct)

section \<open>The contract of a policy evaluator\<close>

text \<open>
  What \<^verbatim>\<open>ApprovalService\<close> relies on of its \<^verbatim>\<open>PolicyEvaluator\<close>: approval is required exactly when
  there are requirements, all of them pending and with different keys, and the status says so.
\<close>

locale policy_evaluator =
  fixes evaluate :: "EvaluatePolicyInput \<Rightarrow> GovernancePolicyResult"
  assumes required_iff:
      "Result_ApprovalRequired (evaluate input) \<longleftrightarrow> Result_Requirements (evaluate input) \<noteq> []"
    and plans_pending:
      "p \<in> set (Result_Requirements (evaluate input)) \<Longrightarrow>
         Plan_Status p = ApprovalRequirementStatusPending"
    and plans_distinct: "distinct (map requirementKey (Result_Requirements (evaluate input)))"
    and status_agrees:
      "Result_Status (evaluate input) =
         (if Result_ApprovalRequired (evaluate input) then ApprovalRequestStatusPending
          else ApprovalRequestStatusNotRequired)"

lemma EvaluatePolicy_cases:
  "(\<not> Result_ApprovalRequired (EvaluatePolicy map_lower input)
     \<and> Result_Status (EvaluatePolicy map_lower input) = ApprovalRequestStatusNotRequired
     \<and> Result_Requirements (EvaluatePolicy map_lower input) = [])
   \<or> (map strip (Result_Requirements (EvaluatePolicy map_lower input)) = required_plans map_lower input
     \<and> Result_ApprovalRequired (EvaluatePolicy map_lower input)
     \<and> Result_Status (EvaluatePolicy map_lower input) = ApprovalRequestStatusPending)"
  using EvaluatePolicy_breaking EvaluatePolicy_not_required by blast

interpretation default_policy: policy_evaluator "EvaluatePolicy map_lower" for map_lower
proof
  fix input p
  let ?reqs = "Result_Requirements (EvaluatePolicy map_lower input)"
  obtain rest where plans: "required_plans map_lower input
      = moduleOwnerPlan (Input_Report input) (normalizePolicyConfig (Input_Config input)) # rest"
    using required_plans_first by blast
  show "Result_ApprovalRequired (EvaluatePolicy map_lower input) \<longleftrightarrow> ?reqs \<noteq> []"
    using EvaluatePolicy_cases [of map_lower input] plans by auto
  show "Plan_Status p = ApprovalRequirementStatusPending" if p: "p \<in> set ?reqs"
  proof -
    have "strip p \<in> set (required_plans map_lower input)"
      using EvaluatePolicy_cases [of map_lower input] p
      by (metis empty_iff empty_set image_eqI list.set_map)
    then show ?thesis using required_plans_pending by fastforce
  qed
  show "distinct (map requirementKey ?reqs)"
    using EvaluatePolicy_cases [of map_lower input] required_plans_distinct [of map_lower input]
      map_strip_key [of ?reqs]
    by (metis distinct.simps(1) list.map_comp list.simps(8))
  show "Result_Status (EvaluatePolicy map_lower input) =
      (if Result_ApprovalRequired (EvaluatePolicy map_lower input)
       then ApprovalRequestStatusPending else ApprovalRequestStatusNotRequired)"
    using EvaluatePolicy_cases [of map_lower input] by auto
qed

end
