(* ===== verification/Approval_Service.thy ===== *)
theory Approval_Service
  imports Audit_Events Policy Repo_Registry
begin

text \<open>
  The approval workflow, \<^verbatim>\<open>internal/usecase/governance/approval_service.go\<close>, over the PostgreSQL
  repositories: creating the approval request a breaking report needs, recording a decision on one
  of its requirements, and reading both back. Generated identifiers are hexadecimal text from the
  random source (\<^verbatim>\<open>generators.go\<close>).

  \<^verbatim>\<open>recordDecision\<close> is composed of its two halves, \<open>prepareDecision\<close> (reads and checks, outside a
  transaction) and \<open>commitDecision\<close> (the transaction), so that two requests can be interleaved
  between them, as they are when handled concurrently.
\<close>

section \<open>Configuration and inputs\<close>

record ApprovalService =
  svc_dependencies :: "(ModuleID \<Rightarrow> AffectedModule list io) option"
  svc_runtime ::
    "(BreakingReportID \<Rightarrow> ModuleVersionID \<Rightarrow> int \<Rightarrow> int \<Rightarrow> RuntimeImpact list io) option"
  svc_policy :: "EvaluatePolicyInput \<Rightarrow> GovernancePolicyResult"
  svc_policyConfig :: PolicyConfig

record ApprovalDecisionInput =
  In_RequestID :: string
  In_RequirementID :: string
  In_Actor :: string
  In_Comment :: string

record CreateInput =
  Create_BreakingReportID :: string
  Create_Actor :: string
  Create_TargetRef :: string

definition defaultApprovalListLimit :: int where
  "defaultApprovalListLimit = 100"

definition NewRandomID :: "string io" where
  "NewRandomID = bindE random_hex (\<lambda>value. ret (NewID value))"

definition effectiveActorSubject :: "string \<Rightarrow> goerr + string" where
  "effectiveActorSubject actor =
     (let subject = TrimSpace actor in
      if subject = '''' then Inl (Governance GovErrInvalidApprovalActor) else Inr subject)"

text \<open>\<^verbatim>\<open>if errors.Is(err, target) { return replacement }; return err\<close>.\<close>

definition replaceErr :: "goerr \<Rightarrow> goerr \<Rightarrow> 'a io \<Rightarrow> 'a io" where
  "replaceErr target replacement m =
     mapErr (\<lambda>err. if errors_Is err target then replacement else err) m"

text \<open>\<^verbatim>\<open>if err != nil && !errors.Is(err, domain.ErrNotFound) { return err }\<close>, with the zero value.\<close>

definition ignoreNotFound :: "'a list io \<Rightarrow> 'a list io" where
  "ignoreNotFound m =
     catchE m (\<lambda>err. if errors_Is err (Domain ErrNotFound) then ret [] else raise err)"

section \<open>The policy's context\<close>

record approvalPolicyContext =
  Ctx_Report :: BreakingReport
  Ctx_Module :: Module
  Ctx_ModuleOwners :: "ModuleOwner list"
  Ctx_AffectedModules :: "PolicyAffectedModule list"
  Ctx_RuntimeImpact :: "RuntimeImpact list"

definition affectedModules :: "ApprovalService \<Rightarrow> ModuleID \<Rightarrow> AffectedModule list io" where
  "affectedModules svc moduleID =
     (case svc_dependencies svc of
        None \<Rightarrow> ret []
      | Some listAffected \<Rightarrow> ignoreNotFound (listAffected moduleID))"

definition runtimeImpact :: "ApprovalService \<Rightarrow> BreakingReport \<Rightarrow> RuntimeImpact list io" where
  "runtimeImpact svc report =
     (case svc_runtime svc of
        None \<Rightarrow> ret []
      | Some listImpact \<Rightarrow>
          if Report_BaseVersionID report = '''' then ret []
          else ignoreNotFound (listImpact (Report_ID report) (Report_BaseVersionID report)
                 defaultApprovalListLimit 0))"

definition policyAffectedModule :: "AffectedModule \<Rightarrow> PolicyAffectedModule io" where
  "policyAffectedModule item =
     bindE (attempt (ModuleRepo_GetByName (Affected_ModuleName item))) (\<lambda>found.
       case found of
         Inl err \<Rightarrow>
           if errors_Is err (Domain ErrNotFound)
           then ret \<lparr>Policy_ModuleID = None, Policy_ModuleName = Affected_ModuleName item,
                      Policy_Owners = [], Policy_ProductionUsed = False\<rparr>
           else raise err
       | Inr module \<Rightarrow>
           bindE (ignoreNotFound (OwnerRepo_ListByModule (Module_ID module))) (\<lambda>owners.
             ret \<lparr>Policy_ModuleID = Some (Module_ID module), Policy_ModuleName = Module_Name module,
                   Policy_Owners = owners, Policy_ProductionUsed = False\<rparr>))"

definition policyAffectedModules :: "AffectedModule list \<Rightarrow> PolicyAffectedModule list io" where
  "policyAffectedModules affected = collectE affected policyAffectedModule"

definition approvalPolicyContextForReport ::
  "ApprovalService \<Rightarrow> BreakingReportID \<Rightarrow> approvalPolicyContext io" where
  "approvalPolicyContextForReport svc reportID =
     bindE (replaceErr (Domain ErrNotFound) (Governance GovErrBreakingReportNotFound)
              (ReportRepo_GetByID reportID)) (\<lambda>(report, changes).
     bindE (replaceErr (Domain ErrNotFound) (Governance GovErrModuleNotFound)
              (ModuleRepo_GetByID (Report_ModuleID report))) (\<lambda>module.
     bindE (ignoreNotFound (OwnerRepo_ListByModule (Module_ID module))) (\<lambda>moduleOwners.
     bindE (affectedModules svc (Report_ModuleID report)) (\<lambda>affected.
     bindE (runtimeImpact svc report) (\<lambda>impact.
     bindE (policyAffectedModules affected) (\<lambda>policyAffected.
       ret \<lparr>Ctx_Report = report, Ctx_Module = module, Ctx_ModuleOwners = moduleOwners,
             Ctx_AffectedModules = policyAffected, Ctx_RuntimeImpact = impact\<rparr>))))))"

section \<open>Audit\<close>

definition appendApprovalAudit ::
  "GovernanceAuditEventType \<Rightarrow> ApprovalRequest \<Rightarrow> string \<Rightarrow> json \<Rightarrow> time \<Rightarrow> unit io" where
  "appendApprovalAudit eventType request actor payload occurredAt =
     bindE NewRandomID (\<lambda>auditID.
       AuditSink_Record
         \<lparr>Event_ID = auditID, Event_Type = GovernanceAuditEventType_String eventType,
          Event_Actor = actor, Event_Action = GovernanceAuditEventType_String eventType,
          Event_Outcome = OutcomeSuccess,
          Event_Resource = \<lparr>Resource_Type = ''approval_request'', Resource_ID = Request_ID request,
            Resource_Name = ''''\<rparr>,
          Event_RelatedResources =
            \<lparr>Resource_Type = ''module'', Resource_ID = Request_ModuleID request,
             Resource_Name = Request_ModuleName request\<rparr>
            # (case Request_BreakingReportID request of
                 None \<Rightarrow> []
               | Some reportID \<Rightarrow> [\<lparr>Resource_Type = ''breaking_report'', Resource_ID = reportID,
                   Resource_Name = ''''\<rparr>]),
          Event_Payload = payload, Event_OccurredAt = occurredAt\<rparr>)"

definition policyReasons :: "GovernancePolicyReason list \<Rightarrow> string list" where
  "policyReasons reasons = map GovernancePolicyReason_String reasons"

definition appendApprovalRequestCreatedAudit ::
  "ApprovalRequest \<Rightarrow> string \<Rightarrow> GovernancePolicyResult \<Rightarrow> time \<Rightarrow> unit io" where
  "appendApprovalRequestCreatedAudit request actor policyResult occurredAt =
     appendApprovalAudit GovernanceAuditEventTypeApprovalRequestCreated request (TrimSpace actor)
       (JObject
         [(''policy_reasons'', JArray (map JString (policyReasons (Result_Reasons policyResult)))),
          (''requirement_count'', JInt (int (length (Request_Requirements request)))),
          (''approval_required'', JBool (Result_ApprovalRequired policyResult))])
       occurredAt"

definition appendDecisionAudit ::
  "ApprovalRequest \<Rightarrow> ApprovalDecision \<Rightarrow> string \<Rightarrow> time \<Rightarrow> unit io" where
  "appendDecisionAudit request decision actor occurredAt =
     appendApprovalAudit GovernanceAuditEventTypeApprovalDecisionRecorded request (TrimSpace actor)
       (JObject
         ([(''decision_id'', JString (Decision_ID decision)),
           (''requirement_id'', JString (Decision_RequirementID decision)),
           (''decision'', JString (ApprovalDecisionValue_String (Decision_Decision decision))),
           (''decided_by'', JString (Decision_DecidedBy decision))]
          @ omitempty ''comment'' (Decision_Comment decision)))
       occurredAt"

definition appendStatusChangedAudit ::
  "ApprovalRequest \<Rightarrow> ApprovalRequestStatus \<Rightarrow> string \<Rightarrow> time \<Rightarrow> unit io" where
  "appendStatusChangedAudit request status actor occurredAt =
     appendApprovalAudit GovernanceAuditEventTypeApprovalRequestStatusChanged request
       (TrimSpace actor)
       (JObject
         [(''from_status'', JString (ApprovalRequestStatus_String (Request_Status request))),
          (''to_status'', JString (ApprovalRequestStatus_String status))])
       occurredAt"

section \<open>Creating a request\<close>

definition requirementReason :: "GovernanceRequirementPlan \<Rightarrow> string" where
  "requirementReason plan =
     (if TrimSpace (Plan_ReasonText plan) \<noteq> '''' then
        (if Plan_Warnings plan = [] then Plan_ReasonText plan
         else Join (Plan_ReasonText plan # map Warning_Message (Plan_Warnings plan)) '' '')
      else GovernancePolicyReason_String (Plan_Reason plan))"

definition buildRequirement ::
  "ApprovalRequestID \<Rightarrow> time \<Rightarrow> GovernanceRequirementPlan \<Rightarrow> ApprovalRequirement io" where
  "buildRequirement requestID now plan =
     bindE NewRandomID (\<lambda>requirementID.
       ret \<lparr>Requirement_ID = requirementID, Requirement_ApprovalRequestID = requestID,
             Requirement_RequirementType = Plan_RequirementType plan,
             Requirement_TargetModuleID = Plan_TargetModuleID plan,
             Requirement_TargetModuleName = Plan_TargetModuleName plan,
             Requirement_RequiredRole = Some (Plan_RequiredRole plan),
             Requirement_Status = Plan_Status plan, Requirement_Reason = requirementReason plan,
             Requirement_CreatedAt = now, Requirement_UpdatedAt = now\<rparr>)"

definition buildApprovalRequestFromPolicyDecision ::
  "approvalPolicyContext \<Rightarrow> string \<Rightarrow> GovernancePolicyResult \<Rightarrow> time \<Rightarrow> ApprovalRequest io" where
  "buildApprovalRequestFromPolicyDecision ctx targetRefOverride policyResult now =
     bindE NewRandomID (\<lambda>requestID.
     bindE (collectE (Result_Requirements policyResult) (buildRequirement requestID now))
       (\<lambda>requirements.
          ret \<lparr>Request_ID = requestID, Request_ModuleID = Module_ID (Ctx_Module ctx),
                Request_ModuleName = Module_Name (Ctx_Module ctx),
                Request_BreakingReportID = Some (Report_ID (Ctx_Report ctx)),
                Request_TargetRef =
                  (if TrimSpace targetRefOverride = '''' then Report_TargetRef (Ctx_Report ctx)
                   else TrimSpace targetRefOverride),
                Request_Status =
                  (if Result_ApprovalRequired policyResult then ApprovalRequestStatusPending
                   else ApprovalRequestStatusNotRequired),
                Request_RequiredApprovals = int (length (Result_Requirements policyResult)),
                Request_ReceivedApprovals = 0, Request_Requirements = requirements,
                Request_Decisions = [], Request_CreatedAt = now, Request_UpdatedAt = now\<rparr>))"

definition createApprovalRequestWithAuditAndOutbox ::
  "ApprovalRequest \<Rightarrow> string \<Rightarrow> GovernancePolicyResult \<Rightarrow> time \<Rightarrow> unit io" where
  "createApprovalRequestWithAuditAndOutbox request actor policyResult occurredAt =
     WithinTransaction
       (bindE (replaceErr (Domain ErrDuplicate) (Governance GovErrApprovalRequestConflict)
                 (ApprovalRepo_CreateRequest request)) (\<lambda>_.
        bindE (appendApprovalRequestCreatedAudit request actor policyResult occurredAt) (\<lambda>_.
          Outbox_Create (NewApprovalRequestCreated request actor occurredAt))))"

definition createFresh ::
  "ApprovalService \<Rightarrow> BreakingReportID \<Rightarrow> string \<Rightarrow> string \<Rightarrow> ApprovalRequest io" where
  "createFresh svc reportID actor targetRef =
     bindE (approvalPolicyContextForReport svc reportID) (\<lambda>ctx.
       let policyResult = svc_policy svc
             \<lparr>Input_Report = Ctx_Report ctx, Input_ModuleOwners = Ctx_ModuleOwners ctx,
              Input_AffectedModules = Ctx_AffectedModules ctx,
              Input_RuntimeImpact = Ctx_RuntimeImpact ctx, Input_Config = svc_policyConfig svc\<rparr>
       in bindE clock_now (\<lambda>now.
          bindE (buildApprovalRequestFromPolicyDecision ctx targetRef policyResult now) (\<lambda>request.
            catchE
              (bindE (createApprovalRequestWithAuditAndOutbox request actor policyResult now)
                 (\<lambda>_. ret request))
              (\<lambda>err.
                 if errors_Is err (Governance GovErrApprovalRequestConflict)
                 then catchE (ApprovalRepo_GetRequestByBreakingReportID reportID) (\<lambda>_. raise err)
                 else raise err))))"

definition CreateApprovalRequestForBreakingReport ::
  "ApprovalService \<Rightarrow> CreateInput \<Rightarrow> ApprovalRequest io" where
  "CreateApprovalRequestForBreakingReport svc input =
     (let reportID = NewID (Create_BreakingReportID input) in
      bindE (failIf (reportID = '''') (Governance GovErrInvalidBreakingReportID)) (\<lambda>_.
      bindE (liftE (effectiveActorSubject (Create_Actor input))) (\<lambda>actor.
      bindE (attempt (ApprovalRepo_GetRequestByBreakingReportID reportID)) (\<lambda>existing.
        case existing of
          Inr request \<Rightarrow> ret request
        | Inl err \<Rightarrow>
            if \<not> errors_Is err (Domain ErrNotFound) then raise err
            else createFresh svc reportID actor (Create_TargetRef input)))))"

section \<open>Reading\<close>

definition GetApprovalStatusForBreakingReport :: "string \<Rightarrow> ApprovalRequest io" where
  "GetApprovalStatusForBreakingReport breakingReportID =
     (let reportID = NewID breakingReportID in
      bindE (failIf (reportID = '''') (Governance GovErrInvalidBreakingReportID)) (\<lambda>_.
      bindE (replaceErr (Domain ErrNotFound) (Governance GovErrBreakingReportNotFound)
               (ReportRepo_GetByID reportID)) (\<lambda>_.
        replaceErr (Domain ErrNotFound) (Governance GovErrApprovalRequestNotFound)
          (ApprovalRepo_GetRequestByBreakingReportID reportID))))"

definition ListApprovalRequestAudit :: "string \<Rightarrow> int \<Rightarrow> int \<Rightarrow> GovernanceAuditEvent list io" where
  "ListApprovalRequestAudit requestIDInput limit off =
     (let requestID = NewID requestIDInput in
      bindE (failIf (requestID = '''') (Governance GovErrApprovalRequestNotFound)) (\<lambda>_.
      bindE (replaceErr (Domain ErrNotFound) (Governance GovErrApprovalRequestNotFound)
               (ApprovalRepo_GetRequestByID requestID)) (\<lambda>_.
        AuditRepo_ListByApprovalRequest requestID
          (if limit \<le> 0 then defaultApprovalListLimit else limit) off)))"

section \<open>Recording a decision\<close>

definition hasDecisionForRequirement ::
  "ApprovalDecision list \<Rightarrow> ApprovalRequirementID \<Rightarrow> bool" where
  "hasDecisionForRequirement decisions requirementID \<longleftrightarrow>
     list_ex (\<lambda>decision. Decision_RequirementID decision = requirementID) decisions"

definition getRequestByRequirement ::
  "ApprovalRequirementID \<Rightarrow> (ApprovalRequest \<times> ApprovalRequirement) io" where
  "getRequestByRequirement requirementID =
     bindE (replaceErr (Domain ErrNotFound) (Governance GovErrApprovalRequirementNotFound)
              (ApprovalRepo_GetRequestByRequirementID requirementID)) (\<lambda>request.
       case find (\<lambda>requirement. Requirement_ID requirement = requirementID)
              (Request_Requirements request) of
         Some requirement \<Rightarrow> ret (request, requirement)
       | None \<Rightarrow> raise (Governance GovErrApprovalRequirementNotFound))"

fun hasRoleAs :: "GovernanceSubjectType list \<Rightarrow> ModuleID \<Rightarrow> string \<Rightarrow> ModuleOwnerRole list \<Rightarrow> bool io" where
  "hasRoleAs [] moduleID actor roles = ret False"
| "hasRoleAs (subjectType # subjectTypes) moduleID actor roles =
     bindE (attempt (OwnerRepo_HasRole moduleID subjectType actor roles)) (\<lambda>result.
       if result = Inr True then ret True else hasRoleAs subjectTypes moduleID actor roles)"

definition actorCanDecide :: "ApprovalService \<Rightarrow> ApprovalRequirement \<Rightarrow> string \<Rightarrow> bool io" where
  "actorCanDecide svc requirement actor =
     (case Requirement_TargetModuleID requirement of
        None \<Rightarrow> ret False
      | Some targetModuleID \<Rightarrow>
          if targetModuleID = '''' then ret False
          else hasRoleAs [GovernanceSubjectTypeUser, GovernanceSubjectTypeTeam] targetModuleID actor
                 (allowedPolicyRoles (svc_policyConfig svc)))"

definition allRequirementsApprovedAfter ::
  "ApprovalRequirement list \<Rightarrow> ApprovalRequirementID \<Rightarrow> bool" where
  "allRequirementsApprovedAfter requirements decidedID \<longleftrightarrow>
     list_all (\<lambda>requirement. Requirement_ID requirement = decidedID
       \<or> Requirement_Status requirement = ApprovalRequirementStatusApproved
       \<or> Requirement_Status requirement = ApprovalRequirementStatusNotRequired) requirements"

definition receivedApprovalsAfter ::
  "ApprovalRequirement list \<Rightarrow> ApprovalRequirementID \<Rightarrow> ApprovalRequirementStatus \<Rightarrow> int" where
  "receivedApprovalsAfter requirements decidedID decidedStatus =
     int (length (filter (\<lambda>requirement.
       (if Requirement_ID requirement = decidedID then decidedStatus
        else Requirement_Status requirement) = ApprovalRequirementStatusApproved) requirements))"

definition mapDecisionValidationError :: "goerr \<Rightarrow> goerr" where
  "mapDecisionValidationError err =
     (if errors_Is err (Domain ErrInvalidApprovalDecision)
      then Governance GovErrApprovalRequirementConflict
      else if errors_Is err (Domain ErrInvalidApprovalActor)
      then Governance GovErrInvalidApprovalActor
      else if errors_Is err (Domain ErrApprovalDecisionCommentTooLong)
      then Governance GovErrApprovalDecisionCommentTooLong
      else err)"

record PreparedDecision =
  Prep_Request :: ApprovalRequest
  Prep_Requirement :: ApprovalRequirement
  Prep_Decision :: ApprovalDecision
  Prep_RequirementStatus :: ApprovalRequirementStatus
  Prep_RequestStatus :: ApprovalRequestStatus
  Prep_Required :: int
  Prep_Received :: int
  Prep_Actor :: string
  Prep_Now :: time

definition decide ::
  "ApprovalRequest \<Rightarrow> ApprovalRequirement \<Rightarrow> ApprovalDecision \<Rightarrow> string \<Rightarrow> time \<Rightarrow> PreparedDecision" where
  "decide request requirement decision actor now =
     (let requirements = Request_Requirements request;
          rid = Requirement_ID requirement;
          rejected = (Decision_Decision decision = ApprovalDecisionValueRejected);
          requirementStatus = (if rejected then ApprovalRequirementStatusRejected
            else ApprovalRequirementStatusApproved)
      in \<lparr>Prep_Request = request, Prep_Requirement = requirement, Prep_Decision = decision,
          Prep_RequirementStatus = requirementStatus,
          Prep_RequestStatus =
            (if rejected then ApprovalRequestStatusRejected
             else if allRequirementsApprovedAfter requirements rid then ApprovalRequestStatusApproved
             else ApprovalRequestStatusPending),
          Prep_Required = int (length requirements),
          Prep_Received = receivedApprovalsAfter requirements rid requirementStatus,
          Prep_Actor = actor, Prep_Now = now\<rparr>)"

definition prepareDecision ::
  "ApprovalService \<Rightarrow> ApprovalDecisionInput \<Rightarrow> ApprovalDecisionValue \<Rightarrow> PreparedDecision io" where
  "prepareDecision svc input decisionValue =
     (let requirementID = NewID (In_RequirementID input);
          expectedRequestID = NewID (In_RequestID input) in
      bindE (failIf (requirementID = '''') (Governance GovErrInvalidRequirementID)) (\<lambda>_.
      bindE (liftE (effectiveActorSubject (In_Actor input))) (\<lambda>actor.
      bindE (failIf (int (length (In_Comment input)) > MaxApprovalDecisionCommentLength)
               (Governance GovErrApprovalDecisionCommentTooLong)) (\<lambda>_.
      bindE (getRequestByRequirement requirementID) (\<lambda>(request, requirement).
      bindE (failIf (expectedRequestID \<noteq> '''' \<and> Request_ID request \<noteq> expectedRequestID)
               (Governance GovErrApprovalRequestNotFound)) (\<lambda>_.
      bindE (failIf (hasDecisionForRequirement (Request_Decisions request) (Requirement_ID requirement))
               (Governance GovErrApprovalRequirementConflict)) (\<lambda>_.
      bindE (failIf (Request_Status request \<noteq> ApprovalRequestStatusPending)
               (Governance GovErrApprovalRequestConflict)) (\<lambda>_.
      bindE (failIf (Requirement_Status requirement \<noteq> ApprovalRequirementStatusPending)
               (Governance GovErrApprovalRequirementConflict)) (\<lambda>_.
      bindE (actorCanDecide svc requirement actor) (\<lambda>allowed.
      bindE (failIf (\<not> allowed) (Governance GovErrApprovalActorForbidden)) (\<lambda>_.
      bindE clock_now (\<lambda>now.
      bindE NewRandomID (\<lambda>decisionID.
        let decision = \<lparr>Decision_ID = decisionID, Decision_ApprovalRequestID = Request_ID request,
              Decision_RequirementID = Requirement_ID requirement, Decision_Decision = decisionValue,
              Decision_DecidedBy = actor, Decision_Comment = In_Comment input,
              Decision_CreatedAt = now\<rparr>
        in bindE (mapErr mapDecisionValidationError (liftE (ApprovalDecision_Validate decision)))
             (\<lambda>_. ret (decide request requirement decision actor now)))))))))))))))"

definition commitDecision :: "PreparedDecision \<Rightarrow> unit io" where
  "commitDecision prep =
     (let request = Prep_Request prep; requirement = Prep_Requirement prep;
          decision = Prep_Decision prep; now = Prep_Now prep; actor = Prep_Actor prep in
      WithinTransaction
        (bindE (replaceErr (Domain ErrDuplicate) (Governance GovErrApprovalRequirementConflict)
                  (ApprovalRepo_AddDecision decision)) (\<lambda>_.
         bindE (ApprovalRepo_UpdateRequirementStatus (Requirement_ID requirement)
                  (Prep_RequirementStatus prep) now) (\<lambda>_.
         bindE (ApprovalRepo_UpdateRequestStatus (Request_ID request) (Prep_RequestStatus prep)
                  (Prep_Required prep) (Prep_Received prep) now) (\<lambda>_.
         bindE (appendDecisionAudit request decision actor now) (\<lambda>_.
         bindE (if Request_Status request \<noteq> Prep_RequestStatus prep
                then appendStatusChangedAudit request (Prep_RequestStatus prep) actor now
                else ret ()) (\<lambda>_.
           Outbox_Create (NewApprovalDecisionRecorded decision (Request_ModuleID request)
             (Request_ModuleName request) (Request_BreakingReportID request) now))))))))"

definition recordDecision ::
  "ApprovalService \<Rightarrow> ApprovalDecisionInput \<Rightarrow> ApprovalDecisionValue \<Rightarrow> ApprovalRequest io" where
  "recordDecision svc input decisionValue =
     bindE (prepareDecision svc input decisionValue) (\<lambda>prep.
     bindE (commitDecision prep) (\<lambda>_.
       ApprovalRepo_GetRequestByID (Request_ID (Prep_Request prep))))"

definition ApproveRequirement :: "ApprovalService \<Rightarrow> ApprovalDecisionInput \<Rightarrow> ApprovalRequest io" where
  "ApproveRequirement svc input = recordDecision svc input ApprovalDecisionValueApproved"

definition RejectRequirement :: "ApprovalService \<Rightarrow> ApprovalDecisionInput \<Rightarrow> ApprovalRequest io" where
  "RejectRequirement svc input = recordDecision svc input ApprovalDecisionValueRejected"

end
