(* ===== verification/Approval_Effects.thy ===== *)
theory Approval_Effects
  imports Approval_Service "HOL-Library.Multiset"
begin

text \<open>
  What the approval workflow does to the tables: what a query returns, what the two transactions of
  \<open>Approval_Service\<close> write, and that everything else only reads.
\<close>

section \<open>Reading back\<close>

lemma first_row:
  "Inr x = (case rows of [] \<Rightarrow> Inl e | r # _ \<Rightarrow> Inr r) \<longleftrightarrow> (\<exists>rest. rows = x # rest)"
  by (cases rows) auto

lemma query_row_Inr:
  assumes "query_row sql scan w = (Inr x, w')"
  obtains row rest d where "sql (w_platform w) (w_db w) = (Inr (row # rest), d)"
    and "scan row = Inr x" and "same_env w w'"
proof -
  have "same_env w w'" by (rule stepsD [OF env_query_row assms])
  moreover obtain row rest d where "sql (w_platform w) (w_db w) = (Inr (row # rest), d)" "scan row = Inr x"
    using assms
    by (fastforce simp: query_row_def bindE_Inr stmt_Inr first_row)
  ultimately show ?thesis using that by blast
qed

lemma query_rows_Inr:
  assumes "query_rows sql scan w = (Inr xs, w')"
  obtains rows d where "sql (w_platform w) (w_db w) = (Inr rows, d)"
    and "list_all2 (\<lambda>r x. scan r = Inr x) rows xs" and "same_env w w'"
proof -
  have "same_env w w'" by (rule stepsD [OF env_query_rows assms])
  moreover obtain rows w1 d where "sql (w_platform w) (w_db w) = (Inr rows, d)"
    and all: "collectE rows (\<lambda>r. liftE (scan r)) w1 = (Inr xs, w')"
    using assms by (fastforce simp: query_rows_def bindE_Inr stmt_Inr)
  moreover have "list_all2 (\<lambda>r x. scan r = Inr x) rows xs"
    by (rule collectE_all2 [OF all]) simp
  ultimately show ?thesis using that by blast
qed

lemma query_row_reads:
  assumes "\<And>p d x d'. sql p d = (Inr x, d') \<Longrightarrow> d' = d"
  shows "reads_only (query_row sql scan)"
  unfolding reads_only_def using assms by (rule same_db.steps_query_row)

lemma query_rows_reads:
  assumes "\<And>p d x d'. sql p d = (Inr x, d') \<Longrightarrow> d' = d"
  shows "reads_only (query_rows sql scan)"
  unfolding reads_only_def using assms by (rule same_db.steps_query_rows)

lemma getRequest_reads:
  assumes "\<And>p d x d'. sql p d = (Inr x, d') \<Longrightarrow> d' = d"
  shows "reads_only (getRequest sql)"
  unfolding getRequest_def reads_only_def using assms
  by (intro same_db.steps_mapErr same_db.steps_query_row) (auto simp: bindE_Inr)

lemma populateRequest_reads: "reads_only (populateRequest request)"
  unfolding populateRequest_def listRequirements_def listDecisions_def reads_only_def
  by (intro same_db.world_rules) (auto simp: bindE_Inr)

lemma GetRequest_reads:
  "reads_only (ApprovalRepo_GetRequestByID requestID)"
  "reads_only (ApprovalRepo_GetRequestByBreakingReportID reportID)"
  "reads_only (ApprovalRepo_GetRequestByRequirementID requirementID)"
  unfolding ApprovalRepo_GetRequestByID_def ApprovalRepo_GetRequestByBreakingReportID_def
    ApprovalRepo_GetRequestByRequirementID_def
  by (unfold reads_only_def, intro same_db.steps_bindE
      getRequest_reads [unfolded reads_only_def] populateRequest_reads [unfolded reads_only_def];
      auto simp: bindE_Inr)+

section \<open>Committing a decision\<close>

text \<open>The tables after a decision: one row in, two rows updated, the log and the outbox extended.\<close>

definition decided_db ::
  "string \<Rightarrow> string \<Rightarrow> PreparedDecision \<Rightarrow> decision_row \<Rightarrow> audit_row list \<Rightarrow> outbox_row \<Rightarrow> db \<Rightarrow> db" where
  "decided_db aid rid prep row audits event d =
     db_outbox_update (\<lambda>rows. rows @ [event]) (db_generated_update Suc
       (db_audits_update (\<lambda>rows. rows @ audits)
         (db_requests_update (map (\<lambda>q. if req_id q = aid
             then decided_request (Prep_RequestStatus prep) (Prep_Required prep) (Prep_Received prep)
                    (Prep_Now prep) q else q))
           (db_requirements_update (map (\<lambda>r. if rqm_id r = rid
               then decided_requirement (Prep_RequirementStatus prep) (Prep_Now prep) r else r))
             (db_decisions_update (\<lambda>rows. rows @ [row]) d)))))"

lemma decided_db_simps [simp]:
  "db_decisions (decided_db aid rid prep row audits event d) = db_decisions d @ [row]"
  "db_audits (decided_db aid rid prep row audits event d) = db_audits d @ audits"
  "db_outbox (decided_db aid rid prep row audits event d) = db_outbox d @ [event]"
  "db_requirements (decided_db aid rid prep row audits event d) = map (\<lambda>r. if rqm_id r = rid
     then decided_requirement (Prep_RequirementStatus prep) (Prep_Now prep) r else r) (db_requirements d)"
  "db_requests (decided_db aid rid prep row audits event d) = map (\<lambda>q. if req_id q = aid
     then decided_request (Prep_RequestStatus prep) (Prep_Required prep) (Prep_Received prep)
            (Prep_Now prep) q else q) (db_requests d)"
  "db_owners (decided_db aid rid prep row audits event d) = db_owners d"
  "db_modules (decided_db aid rid prep row audits event d) = db_modules d"
  "db_versions (decided_db aid rid prep row audits event d) = db_versions d"
  "db_reports (decided_db aid rid prep row audits event d) = db_reports d"
  by (simp_all add: decided_db_def)

lemma approval_env:
  "steps same_env (ApprovalRepo_AddDecision decision)"
  "steps same_env (ApprovalRepo_UpdateRequirementStatus requirementID qstatus at)"
  "steps same_env (ApprovalRepo_UpdateRequestStatus requestID rstatus required received at)"
  "steps same_env (AuditSink_Record event)"
  "steps same_env (insertRequest request)"
  "steps same_env (createRequirement requestID requirement)"
  "steps same_env (Outbox_Create record)"
  unfolding ApprovalRepo_AddDecision_def ApprovalRepo_UpdateRequirementStatus_def
    ApprovalRepo_UpdateRequestStatus_def AuditSink_Record_def Let_def AuditRepo_Append_def
    insertRequest_def createRequirement_def Outbox_Create_def
  by (intro env_rules env_platform)+

text \<open>An audit event with a drawn identifier: one row, of the event's type, actor and time.\<close>

lemma audited_Inr:
  assumes "bindE NewRandomID (\<lambda>i. AuditSink_Record (event i)) w = (Inr u, w')"
    and event: "\<And>i. Event_Type (event i) = GovernanceAuditEventType_String eventType"
      "\<And>i. Event_Actor (event i) = actor" "\<And>i. Event_OccurredAt (event i) = at"
  obtains row where "w_db w' = db_audits_update (\<lambda>rows. rows @ [row]) (w_db w)"
    and "aud_event_type row = GovernanceAuditEventType_String eventType"
    and "aud_actor row = actor" and "aud_created_at row = at" and "same_env w w'"
proof -
  obtain ident w1 where draw: "random_hex w = (Inr ident, w1)"
    and sink: "AuditSink_Record (event (NewID ident)) w1 = (Inr u, w')"
    using assms(1) by (fastforce simp: NewRandomID_def bindE_Inr)
  have w1: "w_db w1 = w_db w" "same_env w w1"
    using draw stepsD [OF env_random draw] by (auto simp: random_hex_def split: option.splits)
  show ?thesis
    using sink
  proof (elim AuditSink_Record_Inr)
    fix row
    assume "w_db w' = db_audits_update (\<lambda>rows. rows @ [row]) (w_db w1)"
      "aud_event_type row = TrimSpace (Event_Type (event (NewID ident)))"
      "aud_actor row = Event_Actor (event (NewID ident))"
      "aud_created_at row = Event_OccurredAt (event (NewID ident))" "same_env w1 w'"
    moreover have "TrimSpace (GovernanceAuditEventType_String eventType)
        = GovernanceAuditEventType_String eventType"
      by (cases eventType) (simp_all add: trim_eval)
    ultimately show ?thesis
      using w1 event that env.step_trans by metis
  qed
qed

lemma appendApprovalAudit_Inr:
  assumes "appendApprovalAudit eventType request actor payload at w = (Inr u, w')"
  obtains row where "w_db w' = db_audits_update (\<lambda>rows. rows @ [row]) (w_db w)"
    and "aud_event_type row = GovernanceAuditEventType_String eventType"
    and "aud_actor row = actor" and "aud_created_at row = at" and "same_env w w'"
proof (rule audited_Inr [OF assms [unfolded appendApprovalAudit_def], of eventType actor at])
qed (simp, simp, simp, rule that)

lemma commitDecision_Inr:
  assumes commit: "commitDecision prep w = (Inr u, w')" and outside: "\<not> w_tx w"
    and coherent: "Decision_RequirementID (Prep_Decision prep) = Requirement_ID (Prep_Requirement prep)"
      "Decision_ApprovalRequestID (Prep_Decision prep) = Request_ID (Prep_Request prep)"
  obtains did aid rid audits event
  where "p_uuid (w_platform w) (Decision_ID (Prep_Decision prep)) = Some did"
    and "p_uuid (w_platform w) (Request_ID (Prep_Request prep)) = Some aid"
    and "p_uuid (w_platform w) (Requirement_ID (Prep_Requirement prep)) = Some rid"
    and "\<forall>r \<in> set (db_decisions (w_db w)). did \<noteq> dec_id r \<and> rid \<noteq> dec_requirement_id r"
    and "\<exists>r \<in> set (db_requirements (w_db w)). rqm_id r = rid"
    and "w_db w' = decided_db aid rid prep (row_of_decision did aid rid (Prep_Decision prep))
           audits event (w_db w)"
    and "map aud_event_type audits = ''approval_decision_recorded''
           # (if Request_Status (Prep_Request prep) \<noteq> Prep_RequestStatus prep
              then [''approval_request_status_changed''] else [])"
    and "\<forall>row \<in> set audits. aud_actor row = TrimSpace (Prep_Actor prep) \<and> aud_created_at row = Prep_Now prep"
    and "obx_event_type event = ''protoradar.approval_decision.recorded''"
    and "obx_dedup_key event
           = ''approval-decision:'' @ Decision_ID (Prep_Decision prep) @ '':recorded''"
    and "obx_status event = ''pending''"
proof -
  let ?req = "Prep_Request prep" and ?rqm = "Prep_Requirement prep" and ?dec = "Prep_Decision prep"
  let ?w0 = "w\<lparr>w_calls := Suc (w_calls w), w_tx := True\<rparr>"
  define emitted where "emitted = NewApprovalDecisionRecorded ?dec (Request_ModuleID ?req)
    (Request_ModuleName ?req) (Request_BreakingReportID ?req) (Prep_Now prep)"
  obtain w6 where w': "w_db w' = w_db w6" and
    body: "\<exists>u1 w1 u2 w2 u3 w3 u4 w4 u5 w5.
       ApprovalRepo_AddDecision ?dec ?w0 = (Inr u1, w1)
       \<and> ApprovalRepo_UpdateRequirementStatus (Requirement_ID ?rqm) (Prep_RequirementStatus prep)
            (Prep_Now prep) w1 = (Inr u2, w2)
       \<and> ApprovalRepo_UpdateRequestStatus (Request_ID ?req) (Prep_RequestStatus prep)
            (Prep_Required prep) (Prep_Received prep) (Prep_Now prep) w2 = (Inr u3, w3)
       \<and> appendDecisionAudit ?req ?dec (Prep_Actor prep) (Prep_Now prep) w3 = (Inr u4, w4)
       \<and> (if Request_Status ?req \<noteq> Prep_RequestStatus prep
          then appendStatusChangedAudit ?req (Prep_RequestStatus prep) (Prep_Actor prep) (Prep_Now prep)
          else ret ()) w4 = (Inr u5, w5)
       \<and> Outbox_Create emitted w5 = (Inr u, w6)"
    using commit outside unfolding commitDecision_def Let_def emitted_def
    by (elim WithinTransaction_success) (auto simp: go_Inr replaceErr_def)
  then obtain u1 w1 u2 w2 u3 w3 u4 w4 u5 w5
    where s1: "ApprovalRepo_AddDecision ?dec ?w0 = (Inr u1, w1)"
      and s2: "ApprovalRepo_UpdateRequirementStatus (Requirement_ID ?rqm) (Prep_RequirementStatus prep)
            (Prep_Now prep) w1 = (Inr u2, w2)"
      and s3: "ApprovalRepo_UpdateRequestStatus (Request_ID ?req) (Prep_RequestStatus prep)
            (Prep_Required prep) (Prep_Received prep) (Prep_Now prep) w2 = (Inr u3, w3)"
      and s4: "appendDecisionAudit ?req ?dec (Prep_Actor prep) (Prep_Now prep) w3 = (Inr u4, w4)"
      and s5: "(if Request_Status ?req \<noteq> Prep_RequestStatus prep
          then appendStatusChangedAudit ?req (Prep_RequestStatus prep) (Prep_Actor prep) (Prep_Now prep)
          else ret ()) w4 = (Inr u5, w5)"
      and s6: "Outbox_Create emitted w5 = (Inr u, w6)"
    by blast
  have platform: "w_platform w1 = w_platform w" "w_platform w2 = w_platform w"
    using stepsD [OF approval_env(1) s1] stepsD [OF approval_env(2) s2] by (simp_all add: same_env_def)
  obtain did aid rid where ids: "p_uuid (w_platform w) (Decision_ID ?dec) = Some did"
      "p_uuid (w_platform w) (Request_ID ?req) = Some aid"
      "p_uuid (w_platform w) (Requirement_ID ?rqm) = Some rid"
    and fresh: "\<forall>r \<in> set (db_decisions (w_db w)). did \<noteq> dec_id r \<and> rid \<noteq> dec_requirement_id r"
    and known: "\<exists>r \<in> set (db_requirements (w_db w)). rqm_id r = rid"
    and d1: "w_db w1 = db_decisions_update (\<lambda>rows. rows @ [row_of_decision did aid rid ?dec]) (w_db w)"
    using s1 coherent by (elim AddDecision_Inr) simp
  have d2: "w_db w2 = db_requirements_update (map (\<lambda>r. if rqm_id r = rid
       then decided_requirement (Prep_RequirementStatus prep) (Prep_Now prep) r else r)) (w_db w1)"
    using s2 ids platform by (elim UpdateRequirementStatus_Inr) simp
  have d3: "w_db w3 = db_requests_update (map (\<lambda>q. if req_id q = aid
       then decided_request (Prep_RequestStatus prep) (Prep_Required prep) (Prep_Received prep)
              (Prep_Now prep) q else q)) (w_db w2)"
    using s3 ids platform by (elim UpdateRequestStatus_Inr) simp
  obtain a1 where d4: "w_db w4 = db_audits_update (\<lambda>rows. rows @ [a1]) (w_db w3)"
    and a1: "aud_event_type a1 = ''approval_decision_recorded''"
      "aud_actor a1 = TrimSpace (Prep_Actor prep)" "aud_created_at a1 = Prep_Now prep"
    using s4 unfolding appendDecisionAudit_def by (elim appendApprovalAudit_Inr) simp
  obtain as where d5: "w_db w5 = db_audits_update (\<lambda>rows. rows @ as) (w_db w4)"
    and as: "map aud_event_type as = (if Request_Status ?req \<noteq> Prep_RequestStatus prep
       then [''approval_request_status_changed''] else [])"
      "\<forall>row \<in> set as. aud_actor row = TrimSpace (Prep_Actor prep) \<and> aud_created_at row = Prep_Now prep"
  proof (cases "Request_Status ?req = Prep_RequestStatus prep")
    case True
    then show ?thesis using s5 that [of "[]"] by simp
  next
    case False
    then show ?thesis
      using s5 that unfolding appendStatusChangedAudit_def
      by (auto elim!: appendApprovalAudit_Inr) 
  qed
  obtain oid at where d6: "w_db w6 = db_outbox_update (\<lambda>rows. rows @ [new_outbox_row oid emitted at])
      (db_generated_update Suc (w_db w5))"
    using s6 by (rule Outbox_Create_Inr)
  show ?thesis
  proof (rule that [of did aid rid "a1 # as" "new_outbox_row oid emitted at"])
    show "w_db w' = decided_db aid rid prep (row_of_decision did aid rid ?dec) (a1 # as)
        (new_outbox_row oid emitted at) (w_db w)"
      by (simp add: w' d1 d2 d3 d4 d5 d6 decided_db_def comp_def)
  qed (use ids fresh known a1 as in
      \<open>auto simp: emitted_def NewApprovalDecisionRecorded_def Let_def new_record_def\<close>)
qed

section \<open>What a loaded request says of the tables\<close>

definition requirements_of :: "requirement_row list \<Rightarrow> string \<Rightarrow> requirement_row list" where
  "requirements_of rows aid = filter (\<lambda>r. rqm_approval_request_id r = aid) rows"

definition standing :: "requirement_row \<Rightarrow> string \<times> string" where
  "standing r = (rqm_id r, rqm_status r)"

definition loaded :: "db \<Rightarrow> request_row \<Rightarrow> ApprovalRequest \<Rightarrow> bool" where
  "loaded d q request \<longleftrightarrow>
     q \<in> set (db_requests d) \<and> Request_ID request = req_id q
     \<and> Request_BreakingReportID request = map_option NewID (req_breaking_report_id q)
     \<and> ApprovalRequestStatus_String (Request_Status request) = req_status q
     \<and> mset (map (\<lambda>x. (Requirement_ID x, ApprovalRequirementStatus_String (Requirement_Status x)))
           (Request_Requirements request))
       = mset (map standing (requirements_of (db_requirements d) (req_id q)))
     \<and> (\<forall>x \<in> set (Request_Requirements request).
          \<exists>r \<in> set (requirements_of (db_requirements d) (req_id q)). scanApprovalRequirement r = Inr x)
     \<and> Decision_RequirementID ` set (Request_Decisions request)
       = dec_requirement_id ` {r \<in> set (db_decisions d). dec_approval_request_id r = req_id q}"

lemma trimmed_statuses:
  "s \<in> set request_statuses \<Longrightarrow> TrimSpace s = s" "s \<in> set requirement_statuses \<Longrightarrow> TrimSpace s = s"
  by (auto simp: request_statuses_def requirement_statuses_def trim_eval)

lemma parsed_statuses:
  "NewApprovalRequestStatus s = Inr st \<Longrightarrow> ApprovalRequestStatus_String st = TrimSpace s"
  "NewApprovalRequirementStatus s = Inr qst \<Longrightarrow> ApprovalRequirementStatus_String qst = TrimSpace s"
  by (auto simp: NewApprovalRequestStatus_def NewApprovalRequirementStatus_def find_Some_iff
      split: option.splits)

lemma fits_NewID: "uuid_laws p \<Longrightarrow> fits (p_uuid p) u \<Longrightarrow> NewID u = u"
  unfolding fits_def by (rule uuid_laws_trim)

lemma scanApprovalRequirement_Inr:
  assumes "scanApprovalRequirement r = Inr x"
  shows "Requirement_ID x = NewID (rqm_id r)"
    and "ApprovalRequirementStatus_String (Requirement_Status x) = TrimSpace (rqm_status r)"
    and "Requirement_TargetModuleID x = map_option NewID (rqm_target_module_id r)"
  using assms by (auto simp: scanApprovalRequirement_def bindR_Inr dest: parsed_statuses)

lemma listRequirements_Inr:
  assumes "listRequirements requestID w = (Inr xs, w')" and "p_uuid (w_platform w) requestID = Some u"
  shows "list_all2 (\<lambda>r x. scanApprovalRequirement r = Inr x)
      (sort_key (\<lambda>r. (rqm_created_at r, rqm_id r)) (requirements_of (db_requirements (w_db w)) u)) xs
    \<and> w_db w' = w_db w \<and> same_env w w'"
proof -
  have "w_db w' = w_db w"
    using assms(1) unfolding listRequirements_def
    by (rule reads_onlyD [OF query_rows_reads, rotated]) (auto simp: bindE_Inr)
  moreover have "query_rows (\<lambda>p. bindE (uuid p requestID) (\<lambda>u.
      select (\<lambda>d. sort_key (\<lambda>r. (rqm_created_at r, rqm_id r))
        (filter (\<lambda>r. rqm_approval_request_id r = u) (db_requirements d)))))
      scanApprovalRequirement w = (Inr xs, w')"
    using assms(1) by (simp add: listRequirements_def)
  ultimately show ?thesis
    using assms(2) by (elim query_rows_Inr) (auto simp: bindE_Inr requirements_of_def)
qed

lemma listDecisions_Inr:
  assumes "listDecisions requestID w = (Inr xs, w')" and "p_uuid (w_platform w) requestID = Some u"
  shows "list_all2 (\<lambda>r x. scanApprovalDecision r = Inr x)
      (sort_key (\<lambda>r. (dec_created_at r, dec_id r))
        (filter (\<lambda>r. dec_approval_request_id r = u) (db_decisions (w_db w)))) xs
    \<and> w_db w' = w_db w \<and> same_env w w'"
proof -
  have "w_db w' = w_db w"
    using assms(1) unfolding listDecisions_def
    by (rule reads_onlyD [OF query_rows_reads, rotated]) (auto simp: bindE_Inr)
  moreover have "query_rows (\<lambda>p. bindE (uuid p requestID) (\<lambda>u.
      select (\<lambda>d. sort_key (\<lambda>r. (dec_created_at r, dec_id r))
        (filter (\<lambda>r. dec_approval_request_id r = u) (db_decisions d)))))
      scanApprovalDecision w = (Inr xs, w')"
    using assms(1) by (simp add: listDecisions_def)
  ultimately show ?thesis
    using assms(2) by (elim query_rows_Inr) (auto simp: bindE_Inr)
qed

lemma approvals_okD:
  assumes "approvals_ok U d"
  shows "q \<in> set (db_requests d) \<Longrightarrow> fits U (req_id q) \<and> req_status q \<in> set request_statuses"
    and "r \<in> set (db_requirements d) \<Longrightarrow>
      fits U (rqm_id r) \<and> fits U (rqm_approval_request_id r) \<and> rqm_status r \<in> set requirement_statuses"
    and "e \<in> set (db_decisions d) \<Longrightarrow> fits U (dec_requirement_id e)"
  using assms by (auto simp: approvals_ok_def ledger_ok_def ledger_of_def)

lemma standing_mset:
  assumes "list_all2 (\<lambda>r x. scanApprovalRequirement r = Inr x) rows xs" and "uuid_laws p"
    and "\<forall>r \<in> set rows. fits (p_uuid p) (rqm_id r) \<and> rqm_status r \<in> set requirement_statuses"
  shows "map (\<lambda>x. (Requirement_ID x, ApprovalRequirementStatus_String (Requirement_Status x))) xs
    = map standing rows"
  using assms
  by (induction rule: list_all2_induct)
     (auto simp: standing_def trimmed_statuses fits_NewID dest: scanApprovalRequirement_Inr)

lemma decision_ids:
  assumes "list_all2 (\<lambda>r x. scanApprovalDecision r = Inr x) rows xs" and "uuid_laws p"
    and "\<forall>r \<in> set rows. fits (p_uuid p) (dec_requirement_id r)"
  shows "map Decision_RequirementID xs = map dec_requirement_id rows"
  using assms
  by (induction rule: list_all2_induct) (auto simp: scanApprovalDecision_def bindR_Inr fits_NewID)

lemma list_all2_ex: "list_all2 P xs ys \<Longrightarrow> \<forall>y \<in> set ys. \<exists>x \<in> set xs. P x y"
  by (induction rule: list_all2_induct) auto

lemma populateRequest_loaded:
  assumes populate: "populateRequest r0 w = (Inr request, w')"
    and scan: "scanApprovalRequest (q, n) = Inr r0"
    and laws: "uuid_laws (w_platform w)" and ok: "approvals_ok (p_uuid (w_platform w)) (w_db w)"
    and q: "q \<in> set (db_requests (w_db w))"
  shows "loaded (w_db w) q request"
proof -
  have id: "fits (p_uuid (w_platform w)) (req_id q)" "req_status q \<in> set request_statuses"
    using approvals_okD(1) [OF ok q] by auto
  have r0: "Request_ID r0 = req_id q"
    "ApprovalRequestStatus_String (Request_Status r0) = req_status q"
    "Request_BreakingReportID r0 = map_option NewID (req_breaking_report_id q)"
    using scan id laws
    by (auto simp: scanApprovalRequest_def bindR_Inr fits_NewID trimmed_statuses dest: parsed_statuses)
  obtain xs w1 es where l1: "listRequirements (req_id q) w = (Inr xs, w1)"
    and l2: "listDecisions (req_id q) w1 = (Inr es, w')"
    and request: "request = r0\<lparr>Request_Requirements := xs, Request_Decisions := es\<rparr>"
    using populate r0 by (auto simp: populateRequest_def bindE_Inr)
  have uid: "p_uuid (w_platform w) (req_id q) = Some (req_id q)"
    using id by (simp add: fits_def)
  have r1: "list_all2 (\<lambda>r x. scanApprovalRequirement r = Inr x) (sort_key (\<lambda>r. (rqm_created_at r, rqm_id r))
        (requirements_of (db_requirements (w_db w)) (req_id q))) xs"
    and same: "w_db w1 = w_db w" "w_platform w1 = w_platform w"
    using listRequirements_Inr [OF l1 uid] by (simp_all add: same_env_def)
  have r2: "list_all2 (\<lambda>r x. scanApprovalDecision r = Inr x) (sort_key (\<lambda>r. (dec_created_at r, dec_id r))
        (filter (\<lambda>r. dec_approval_request_id r = req_id q) (db_decisions (w_db w)))) es"
    using listDecisions_Inr [OF l2] uid same by simp
  have "mset (map (\<lambda>x. (Requirement_ID x, ApprovalRequirementStatus_String (Requirement_Status x))) xs)
      = mset (map standing (requirements_of (db_requirements (w_db w)) (req_id q)))"
    by (subst standing_mset [OF r1 laws])
       (use approvals_okD(2) [OF ok] in \<open>auto simp: requirements_of_def\<close>)
  moreover have "Decision_RequirementID ` set es
      = dec_requirement_id ` {r \<in> set (db_decisions (w_db w)). dec_approval_request_id r = req_id q}"
    using arg_cong [OF decision_ids [OF r2 laws], of set] approvals_okD(3) [OF ok] by simp
  moreover have "\<forall>x \<in> set xs. \<exists>r \<in> set (requirements_of (db_requirements (w_db w)) (req_id q)).
      scanApprovalRequirement r = Inr x"
    using list_all2_ex [OF r1] by simp
  ultimately show ?thesis
    using q r0 by (simp add: loaded_def request)
qed

lemma getRequest_Inr:
  assumes "getRequest sql w = (Inr r0, w')"
    and "\<And>p d x d'. sql p d = (Inr x, d') \<Longrightarrow> d' = d"
  obtains q n rows where "sql (w_platform w) (w_db w) = (Inr rows, w_db w)" and "q \<in> set rows"
    and "scanApprovalRequest (q, n) = Inr r0" and "w_db w' = w_db w" and "same_env w w'"
proof -
  have same: "w_db w' = w_db w" by (rule reads_onlyD [OF getRequest_reads assms(1)]) (rule assms(2))
  have "query_row (\<lambda>p. bindE (sql p) (\<lambda>rows. select (join_modules req_module_id rows)))
      scanApprovalRequest w = (Inr r0, w')"
    using assms(1) by (simp add: getRequest_def)
  then show ?thesis
  proof (rule query_row_Inr)
    fix row rest d
    assume sql: "bindE (sql (w_platform w)) (\<lambda>rows. select (join_modules req_module_id rows)) (w_db w)
        = (Inr (row # rest), d)"
      and scan: "scanApprovalRequest row = Inr r0" and env: "same_env w w'"
    obtain rows where rows: "sql (w_platform w) (w_db w) = (Inr rows, w_db w)"
      and join: "join_modules req_module_id rows (w_db w) = row # rest"
      using sql assms(2) [of "w_platform w" "w_db w"] by (fastforce simp: bindE_Inr)
    obtain q n where row: "row = (q, n)" by fastforce
    have "q \<in> set rows"
      using join_modules_in [of q n req_module_id rows "w_db w"] by (simp add: join row)
    then show ?thesis using that rows scan row same env by simp
  qed
qed

lemma GetRequestByID_loaded:
  assumes get: "ApprovalRepo_GetRequestByID requestID w = (Inr request, w')"
    and laws: "uuid_laws (w_platform w)" and ok: "approvals_ok (p_uuid (w_platform w)) (w_db w)"
  obtains q where "p_uuid (w_platform w) requestID = Some (req_id q)" and "loaded (w_db w) q request"
proof -
  obtain r0 w1 where g: "getRequest (\<lambda>p. bindE (uuid p requestID) (\<lambda>u.
        select (\<lambda>d. filter (\<lambda>r. req_id r = u) (db_requests d)))) w = (Inr r0, w1)"
    and p: "populateRequest r0 w1 = (Inr request, w')"
    using get by (auto simp: ApprovalRepo_GetRequestByID_def bindE_Inr)
  from g show ?thesis
  proof (rule getRequest_Inr)
    fix q n rows
    assume "bindE (uuid (w_platform w) requestID) (\<lambda>u. select (\<lambda>d. filter (\<lambda>r. req_id r = u) (db_requests d)))
        (w_db w) = (Inr rows, w_db w)" and "q \<in> set rows"
      and scan: "scanApprovalRequest (q, n) = Inr r0" and "w_db w1 = w_db w" and "same_env w w1"
    then have "p_uuid (w_platform w) requestID = Some (req_id q)" "q \<in> set (db_requests (w_db w))"
      "w_db w1 = w_db w" "w_platform w1 = w_platform w"
      by (auto simp: bindE_Inr same_env_def)
    then show ?thesis
      using populateRequest_loaded [OF p scan] laws ok that by simp
  qed (auto simp: bindE_Inr)
qed

lemma GetRequestByBreakingReportID_loaded:
  assumes get: "ApprovalRepo_GetRequestByBreakingReportID reportID w = (Inr request, w')"
    and laws: "uuid_laws (w_platform w)" and ok: "approvals_ok (p_uuid (w_platform w)) (w_db w)"
  obtains q u where "p_uuid (w_platform w) reportID = Some u" and "req_breaking_report_id q = Some u"
    and "loaded (w_db w) q request"
proof -
  obtain r0 w1 where g: "getRequest (\<lambda>p. bindE (uuid p reportID) (\<lambda>u.
        select (\<lambda>d. sort_key (\<lambda>r. - req_created_at r)
          (filter (\<lambda>r. req_breaking_report_id r = Some u) (db_requests d))))) w = (Inr r0, w1)"
    and p: "populateRequest r0 w1 = (Inr request, w')"
    using get by (auto simp: ApprovalRepo_GetRequestByBreakingReportID_def bindE_Inr)
  from g show ?thesis
  proof (rule getRequest_Inr)
    fix q n rows
    assume "bindE (uuid (w_platform w) reportID) (\<lambda>u. select (\<lambda>d. sort_key (\<lambda>r. - req_created_at r)
          (filter (\<lambda>r. req_breaking_report_id r = Some u) (db_requests d))))
        (w_db w) = (Inr rows, w_db w)" and "q \<in> set rows"
      and scan: "scanApprovalRequest (q, n) = Inr r0" and "w_db w1 = w_db w" and "same_env w w1"
    then have "\<exists>u. p_uuid (w_platform w) reportID = Some u \<and> req_breaking_report_id q = Some u"
      "q \<in> set (db_requests (w_db w))" "w_db w1 = w_db w" "w_platform w1 = w_platform w"
      by (auto simp: bindE_Inr same_env_def)
    then show ?thesis
      using populateRequest_loaded [OF p scan] laws ok that by auto
  qed (auto simp: bindE_Inr)
qed

lemma GetRequestByRequirementID_loaded:
  assumes get: "ApprovalRepo_GetRequestByRequirementID requirementID w = (Inr request, w')"
    and laws: "uuid_laws (w_platform w)" and ok: "approvals_ok (p_uuid (w_platform w)) (w_db w)"
  obtains q r where "p_uuid (w_platform w) requirementID = Some (rqm_id r)"
    and "r \<in> set (requirements_of (db_requirements (w_db w)) (req_id q))"
    and "loaded (w_db w) q request"
proof -
  obtain r0 w1 where g: "getRequest (\<lambda>p. bindE (uuid p requirementID) (\<lambda>u.
        select (\<lambda>d. filter (\<lambda>r. list_ex (\<lambda>q. rqm_id q = u \<and> rqm_approval_request_id q = req_id r)
          (db_requirements d)) (db_requests d)))) w = (Inr r0, w1)"
    and p: "populateRequest r0 w1 = (Inr request, w')"
    using get by (auto simp: ApprovalRepo_GetRequestByRequirementID_def bindE_Inr)
  from g show ?thesis
  proof (rule getRequest_Inr)
    fix q n rows
    assume "bindE (uuid (w_platform w) requirementID) (\<lambda>u.
        select (\<lambda>d. filter (\<lambda>r. list_ex (\<lambda>q. rqm_id q = u \<and> rqm_approval_request_id q = req_id r)
          (db_requirements d)) (db_requests d))) (w_db w) = (Inr rows, w_db w)" and "q \<in> set rows"
      and scan: "scanApprovalRequest (q, n) = Inr r0" and "w_db w1 = w_db w" and "same_env w w1"
    then have "\<exists>r. p_uuid (w_platform w) requirementID = Some (rqm_id r)
        \<and> r \<in> set (requirements_of (db_requirements (w_db w)) (req_id q))"
      "q \<in> set (db_requests (w_db w))" "w_db w1 = w_db w" "w_platform w1 = w_platform w"
      by (auto simp: bindE_Inr same_env_def list_ex_iff requirements_of_def)
    then show ?thesis
      using populateRequest_loaded [OF p scan] laws ok that by auto
  qed (auto simp: bindE_Inr)
qed

section \<open>Who may decide\<close>

definition may_decide :: "platform \<Rightarrow> owner_row list \<Rightarrow> ModuleOwnerRole list \<Rightarrow> ModuleID option \<Rightarrow> string \<Rightarrow> bool" where
  "may_decide p owners roles target actor \<longleftrightarrow>
     (\<exists>t u. target = Some t \<and> t \<noteq> '''' \<and> p_uuid p t = Some u
        \<and> (\<exists>own \<in> set owners. own_module_id own = u \<and> own_subject own = actor
             \<and> own_subject_type own \<in> {''user'', ''team''}
             \<and> (\<exists>role \<in> set roles. NewModuleOwnerRole (own_role own) = Inr role)))"

lemma scan_roles_True: "scan_roles roles rs = Inr True \<Longrightarrow>
    \<exists>own \<in> set rs. \<exists>role \<in> set roles. NewModuleOwnerRole (own_role own) = Inr role"
  by (induction rs) (auto simp: bindR_Inr split: if_splits)

lemma HasRole_True:
  assumes "OwnerRepo_HasRole moduleID subjectType subject roles w = (Inr True, w')"
  shows "\<exists>u. p_uuid (w_platform w) moduleID = Some u \<and> (\<exists>own \<in> set (db_owners (w_db w)).
    own_module_id own = u \<and> own_subject own = subject
    \<and> own_subject_type own = GovernanceSubjectType_String subjectType
    \<and> (\<exists>role \<in> set roles. NewModuleOwnerRole (own_role own) = Inr role))"
  using assms by (auto simp: OwnerRepo_HasRole_def bindE_Inr stmt_Inr dest!: scan_roles_True [OF sym]) blast

lemma HasRole_reads: "reads_only (OwnerRepo_HasRole moduleID subjectType subject roles)"
  unfolding OwnerRepo_HasRole_def reads_only_def
  by (intro same_db.world_rules same_db.steps_stmt) (auto simp: bindE_Inr)

lemma HasRole_env: "steps same_env (OwnerRepo_HasRole moduleID subjectType subject roles)"
  unfolding OwnerRepo_HasRole_def by (intro env_rules)

lemma hasRoleAs_reads: "reads_only (hasRoleAs types moduleID actor roles)"
  unfolding reads_only_def
  by (induction types) (auto intro!: same_db.world_rules HasRole_reads [unfolded reads_only_def])

lemma hasRoleAs_env: "steps same_env (hasRoleAs types moduleID actor roles)"
  by (induction types) (auto intro!: env_rules HasRole_env)

lemma hasRoleAs_True:
  assumes "hasRoleAs types moduleID actor roles w = (Inr True, w')"
  shows "\<exists>u. p_uuid (w_platform w) moduleID = Some u \<and> (\<exists>own \<in> set (db_owners (w_db w)).
    own_module_id own = u \<and> own_subject own = actor
    \<and> own_subject_type own \<in> GovernanceSubjectType_String ` set types
    \<and> (\<exists>role \<in> set roles. NewModuleOwnerRole (own_role own) = Inr role))"
  using assms
proof (induction types arbitrary: w)
  case (Cons t types)
  obtain x w1 where first: "OwnerRepo_HasRole moduleID t actor roles w = (x, w1)"
    and rest: "(if x = Inr True then ret True else hasRoleAs types moduleID actor roles) w1 = (Inr True, w')"
    using Cons.prems by (auto simp: bindE_Inr attempt_simps)
  have same: "w_db w1 = w_db w" "w_platform w1 = w_platform w"
    using reads_onlyD [OF HasRole_reads first] stepsD [OF HasRole_env first] by (simp_all add: same_env_def)
  show ?case
  proof (cases "x = Inr True")
    case True
    with first show ?thesis using HasRole_True [of moduleID t actor roles w w1] by fastforce
  next
    case False
    with rest show ?thesis using Cons.IH [of w1] same by fastforce
  qed
qed simp

lemma actorCanDecide_True:
  assumes "actorCanDecide svc requirement actor w = (Inr True, w')"
  shows "may_decide (w_platform w) (db_owners (w_db w)) (allowedPolicyRoles (svc_policyConfig svc))
    (Requirement_TargetModuleID requirement) actor"
  using assms hasRoleAs_True [of "[GovernanceSubjectTypeUser, GovernanceSubjectTypeTeam]"]
  by (fastforce simp: actorCanDecide_def may_decide_def split: option.splits if_splits)

lemma actorCanDecide_reads: "reads_only (actorCanDecide svc requirement actor)"
  unfolding actorCanDecide_def reads_only_def
  by (intro same_db.world_rules hasRoleAs_reads [unfolded reads_only_def])

lemma actorCanDecide_env: "steps same_env (actorCanDecide svc requirement actor)"
  unfolding actorCanDecide_def by (intro env_rules hasRoleAs_env)

section \<open>Preparing a decision\<close>

lemma getRequestByRequirement_reads: "reads_only (getRequestByRequirement requirementID)"
  unfolding getRequestByRequirement_def reads_only_def replaceErr_def
  by (intro same_db.world_rules GetRequest_reads(3) [unfolded reads_only_def])

lemma getRequestByRequirement_Inr:
  assumes "getRequestByRequirement requirementID w = (Inr (request, requirement), w')"
  shows "requirement \<in> set (Request_Requirements request) \<and> Requirement_ID requirement = requirementID
    \<and> ApprovalRepo_GetRequestByRequirementID requirementID w = (Inr request, w')"
proof -
  obtain x w1 where get: "ApprovalRepo_GetRequestByRequirementID requirementID w = (Inr x, w1)"
    and choose: "(case find (\<lambda>y. Requirement_ID y = requirementID) (Request_Requirements x) of
        Some y \<Rightarrow> ret (x, y) | None \<Rightarrow> raise (Governance GovErrApprovalRequirementNotFound)) w1
      = (Inr (request, requirement), w')"
    using assms by (auto simp: getRequestByRequirement_def replaceErr_def bindE_Inr)
  then show ?thesis
    by (cases "find (\<lambda>y. Requirement_ID y = requirementID) (Request_Requirements x)")
       (auto simp: find_Some_iff)
qed

text \<open>A guard, a pure step and an effect, read off a successful run.\<close>

lemma guard_Inr: "bindE (failIf c e) f w = (Inr y, w') \<longleftrightarrow> \<not> c \<and> f () w = (Inr y, w')"
  by (auto simp: bindE_Inr)

lemma lift_Inr: "bindE (liftE r) f w = (Inr y, w') \<longleftrightarrow> (\<exists>x. r = Inr x \<and> f x w = (Inr y, w'))"
  unfolding bindE_Inr by (metis liftE_def prod.inject)

lemma bindE_InrE:
  assumes "bindE m f w = (Inr y, w')"
  obtains x w1 where "m w = (Inr x, w1)" and "f x w1 = (Inr y, w')"
  using assms by (auto simp: bindE_Inr)

lemma bindE_pairE:
  assumes "bindE m (\<lambda>(a, b). f a b) w = (Inr y, w')"
  obtains a b w1 where "m w = (Inr (a, b), w1)" and "f a b w1 = (Inr y, w')"
  using assms by (auto simp: bindE_Inr)

lemma clock_reads: "reads_only clock_now" and random_reads: "reads_only random_hex"
  by (simp_all add: reads_only_def same_db.steps_clock same_db.steps_random)

text \<open>What preparing a decision has checked of the tables it read.\<close>

definition decidable ::
  "ApprovalService \<Rightarrow> ApprovalDecisionInput \<Rightarrow> platform \<Rightarrow> db \<Rightarrow> request_row \<Rightarrow> requirement_row
   \<Rightarrow> ApprovalRequest \<Rightarrow> ApprovalRequirement \<Rightarrow> bool" where
  "decidable svc input p d q r request requirement \<longleftrightarrow>
     loaded d q request \<and> requirement \<in> set (Request_Requirements request)
     \<and> r \<in> set (requirements_of (db_requirements d) (req_id q))
     \<and> scanApprovalRequirement r = Inr requirement \<and> Requirement_ID requirement = rqm_id r
     \<and> NewID (In_RequirementID input) = rqm_id r
     \<and> (NewID (In_RequestID input) = '''' \<or> NewID (In_RequestID input) = req_id q)
     \<and> req_status q = ''pending'' \<and> rqm_status r = ''pending''
     \<and> (\<forall>e \<in> set (db_decisions d).
          \<not> (dec_approval_request_id e = req_id q \<and> dec_requirement_id e = rqm_id r))
     \<and> may_decide p (db_owners d) (allowedPolicyRoles (svc_policyConfig svc))
          (Requirement_TargetModuleID requirement) (TrimSpace (In_Actor input))
     \<and> int (length (In_Comment input)) \<le> MaxApprovalDecisionCommentLength"

lemma prepareDecision_reads: "reads_only (prepareDecision svc input value)"
  unfolding prepareDecision_def reads_only_def Let_def NewRandomID_def
  by (intro same_db.world_rules getRequestByRequirement_reads [unfolded reads_only_def]
      actorCanDecide_reads [unfolded reads_only_def])

lemma GetRequest_env: "steps same_env (ApprovalRepo_GetRequestByRequirementID requirementID)"
  unfolding ApprovalRepo_GetRequestByRequirementID_def getRequest_def populateRequest_def
    listRequirements_def listDecisions_def
  by (intro env_rules)

lemma prepareDecision_env: "steps same_env (prepareDecision svc input value)"
  unfolding prepareDecision_def Let_def NewRandomID_def getRequestByRequirement_def replaceErr_def
  by (intro env_rules GetRequest_env actorCanDecide_env)

lemma mem_msetD: "mset xs = mset ys \<Longrightarrow> x \<in> set xs \<Longrightarrow> x \<in> set ys"
  by (metis set_mset_mset)

lemma prepareDecision_Inr:
  assumes prepare: "prepareDecision svc input value w = (Inr prep, w')"
    and laws: "uuid_laws (w_platform w)" and ok: "approvals_ok (p_uuid (w_platform w)) (w_db w)"
  obtains q r request requirement did now
  where "decidable svc input (w_platform w) (w_db w) q r request requirement"
    and "prep = decide request requirement
           \<lparr>Decision_ID = did, Decision_ApprovalRequestID = req_id q, Decision_RequirementID = rqm_id r,
            Decision_Decision = value, Decision_DecidedBy = TrimSpace (In_Actor input),
            Decision_Comment = In_Comment input, Decision_CreatedAt = now\<rparr>
           (TrimSpace (In_Actor input)) now"
proof -
  let ?rid = "NewID (In_RequirementID input)"
  obtain request requirement actor did now w1 w2
    where get: "getRequestByRequirement ?rid w = (Inr (request, requirement), w1)"
      and actor: "effectiveActorSubject (In_Actor input) = Inr actor"
      and comment: "int (length (In_Comment input)) \<le> MaxApprovalDecisionCommentLength"
      and expected: "NewID (In_RequestID input) = '''' \<or> Request_ID request = NewID (In_RequestID input)"
      and undecided: "\<not> hasDecisionForRequirement (Request_Decisions request) (Requirement_ID requirement)"
      and pending: "Request_Status request = ApprovalRequestStatusPending"
        "Requirement_Status requirement = ApprovalRequirementStatusPending"
      and allowed: "actorCanDecide svc requirement actor w1 = (Inr True, w2)"
      and prep: "prep = decide request requirement
           \<lparr>Decision_ID = did, Decision_ApprovalRequestID = Request_ID request,
            Decision_RequirementID = Requirement_ID requirement,
            Decision_Decision = value, Decision_DecidedBy = actor,
            Decision_Comment = In_Comment input, Decision_CreatedAt = now\<rparr> actor now"
    using prepare unfolding prepareDecision_def Let_def guard_Inr lift_Inr
    apply (elim conjE exE)
    apply (erule bindE_pairE)
    apply (simp only: guard_Inr)
    apply (elim conjE bindE_InrE)
    apply (auto simp: guard_Inr)
    done
  have actor_eq: "actor = TrimSpace (In_Actor input)"
    using actor by (auto simp: effectiveActorSubject_def Let_def split: if_splits)
  note got = getRequestByRequirement_Inr [OF get]
  have w1: "w_db w1 = w_db w" "w_platform w1 = w_platform w"
    using reads_onlyD [OF getRequestByRequirement_reads get]
      stepsD [OF GetRequest_env conjunct2 [OF conjunct2 [OF got]]] by (simp_all add: same_env_def)
  obtain q r where uid: "p_uuid (w_platform w) ?rid = Some (rqm_id r)"
    and r: "r \<in> set (requirements_of (db_requirements (w_db w)) (req_id q))"
    and load: "loaded (w_db w) q request"
    using got laws ok by (blast elim: GetRequestByRequirementID_loaded)
  obtain r' where r': "r' \<in> set (requirements_of (db_requirements (w_db w)) (req_id q))"
    and scanned: "scanApprovalRequirement r' = Inr requirement"
    using load got by (auto simp: loaded_def)
  have r'_row: "fits (p_uuid (w_platform w)) (rqm_id r')" "rqm_status r' \<in> set requirement_statuses"
    using approvals_okD(2) [OF ok] r' by (auto simp: requirements_of_def)
  have r'_is: "rqm_id r' = ?rid" "rqm_status r' = ''pending''"
    using scanApprovalRequirement_Inr [OF scanned] got fits_NewID [OF laws r'_row(1)]
      trimmed_statuses(2) [OF r'_row(2)] pending by auto
  have "?rid \<notin> Decision_RequirementID ` set (Request_Decisions request)"
    using undecided got by (auto simp: hasDecisionForRequirement_def list_ex_iff)
  then have "\<forall>e \<in> set (db_decisions (w_db w)).
      \<not> (dec_approval_request_id e = req_id q \<and> dec_requirement_id e = ?rid)"
    using load by (force simp: loaded_def)
  moreover have "req_status q = ''pending''"
    using load pending by (auto simp: loaded_def)
  ultimately have "decidable svc input (w_platform w) (w_db w) q r' request requirement"
    using load got r' r'_is scanned comment expected actorCanDecide_True [OF allowed] w1 actor_eq
    by (auto simp: decidable_def loaded_def)
  then show ?thesis
    using that [of q r' request requirement did now] prep load got r'_is actor_eq
    by (simp add: loaded_def)
qed

section \<open>Creating a request\<close>

text \<open>The tables after a request is opened.\<close>

definition opened_db ::
  "request_row \<Rightarrow> requirement_row list \<Rightarrow> audit_row \<Rightarrow> outbox_row \<Rightarrow> db \<Rightarrow> db" where
  "opened_db row rows audit event d =
     db_outbox_update (\<lambda>es. es @ [event]) (db_generated_update Suc
       (db_audits_update (\<lambda>as. as @ [audit])
         (db_requirements_update (\<lambda>rs. rs @ rows) (db_requests_update (\<lambda>qs. qs @ [row]) d))))"

lemma opened_db_simps [simp]:
  "db_requests (opened_db row rows audit event d) = db_requests d @ [row]"
  "db_requirements (opened_db row rows audit event d) = db_requirements d @ rows"
  "db_decisions (opened_db row rows audit event d) = db_decisions d"
  "db_audits (opened_db row rows audit event d) = db_audits d @ [audit]"
  "db_outbox (opened_db row rows audit event d) = db_outbox d @ [event]"
  "db_owners (opened_db row rows audit event d) = db_owners d"
  "db_modules (opened_db row rows audit event d) = db_modules d"
  "db_versions (opened_db row rows audit event d) = db_versions d"
  "db_reports (opened_db row rows audit event d) = db_reports d"
  by (simp_all add: opened_db_def)

definition requirement_row_for :: "platform \<Rightarrow> string \<Rightarrow> ApprovalRequirement \<Rightarrow> requirement_row \<Rightarrow> bool" where
  "requirement_row_for p aid x r \<longleftrightarrow>
     (\<exists>qid tid. p_uuid p (Requirement_ID x) = Some qid \<and> tid = Option.bind (Requirement_TargetModuleID x) (p_uuid p)
        \<and> r = row_of_requirement qid aid tid x)"

lemma createRequirements_Inr:
  assumes "forE xs (createRequirement requestID) w = (Inr u, w')"
    and "\<forall>x \<in> set xs. Requirement_ApprovalRequestID x = requestID"
    and "p_uuid (w_platform w) requestID = Some aid"
  shows "\<exists>rows. list_all2 (requirement_row_for (w_platform w) aid) xs rows
    \<and> w_db w' = db_requirements_update (\<lambda>rs. rs @ rows) (w_db w) \<and> same_env w w'
    \<and> (distinct (map rqm_id (db_requirements (w_db w)))
         \<longrightarrow> distinct (map rqm_id (db_requirements (w_db w) @ rows)))"
  using assms
proof (induction xs arbitrary: w)
  case Nil
  then show ?case by (auto simp: same_env_def intro!: exI [of _ "[]"])
next
  case (Cons x xs)
  obtain u1 w1 where first: "createRequirement requestID x w = (Inr u1, w1)"
    and rest: "forE xs (createRequirement requestID) w1 = (Inr u, w')"
    using Cons.prems(1) by (auto simp: bindE_Inr)
  have env: "same_env w w1" by (rule stepsD [OF approval_env(6) first])
  have link: "Requirement_ApprovalRequestID x = requestID" using Cons.prems by simp
  obtain rid tid where rid: "p_uuid (w_platform w) (Requirement_ID x) = Some rid"
      "\<forall>r \<in> set (db_requirements (w_db w)). rqm_id r \<noteq> rid"
      "tid = Option.bind (Requirement_TargetModuleID x) (p_uuid (w_platform w))"
    and d1: "w_db w1 = db_requirements_update (\<lambda>rs. rs @ [row_of_requirement rid aid tid x]) (w_db w)"
  proof (rule createRequirement_Inr [OF first link])
    fix rid aid' tid
    assume "p_uuid (w_platform w) requestID = Some aid'"
      and "p_uuid (w_platform w) (Requirement_ID x) = Some rid"
        "\<forall>r \<in> set (db_requirements (w_db w)). rqm_id r \<noteq> rid"
        "tid = Option.bind (Requirement_TargetModuleID x) (p_uuid (w_platform w))"
        "w_db w1 = db_requirements_update (\<lambda>rs. rs @ [row_of_requirement rid aid' tid x]) (w_db w)"
    moreover from this Cons.prems(3) have "aid' = aid" by simp
    ultimately show thesis using that by blast
  qed
  obtain rows where rows: "list_all2 (requirement_row_for (w_platform w1) aid) xs rows"
      "w_db w' = db_requirements_update (\<lambda>rs. rs @ rows) (w_db w1)" "same_env w1 w'"
      "distinct (map rqm_id (db_requirements (w_db w1)))
         \<longrightarrow> distinct (map rqm_id (db_requirements (w_db w1) @ rows))"
    using Cons.IH [OF rest] Cons.prems env by (auto simp: same_env_def)
  let ?rows = "row_of_requirement rid aid tid x # rows"
  have "list_all2 (requirement_row_for (w_platform w) aid) (x # xs) ?rows"
    using rows(1) rid env by (auto simp: requirement_row_for_def same_env_def)
  moreover have "w_db w' = db_requirements_update (\<lambda>rs. rs @ ?rows) (w_db w)"
    using rows(2) d1 by (simp add: comp_def)
  moreover have "distinct (map rqm_id (db_requirements (w_db w)))
      \<longrightarrow> distinct (map rqm_id (db_requirements (w_db w) @ ?rows))"
    using rows(4) rid(2) d1 by auto
  ultimately show ?case using env rows(3) env.step_trans by blast
qed

lemma createRequest_Inr:
  assumes create: "createApprovalRequestWithAuditAndOutbox request actor result now w = (Inr u, w')"
    and outside: "\<not> w_tx w"
    and links: "\<forall>x \<in> set (Request_Requirements request). Requirement_ApprovalRequestID x = Request_ID request"
  obtains row rid mid bid rows audit event
  where "p_uuid (w_platform w) (Request_ID request) = Some rid"
    and "row = row_of_request rid mid bid request"
    and "case Request_BreakingReportID request of None \<Rightarrow> bid = None
         | Some s \<Rightarrow> \<exists>b. p_uuid (w_platform w) s = Some b \<and> bid = Some b"
    and "\<forall>r \<in> set (db_requests (w_db w)). \<not> request_clash row r"
    and "list_all2 (requirement_row_for (w_platform w) rid) (Request_Requirements request) rows"
    and "distinct (map rqm_id (db_requirements (w_db w)))
         \<longrightarrow> distinct (map rqm_id (db_requirements (w_db w) @ rows))"
    and "w_db w' = opened_db row rows audit event (w_db w)"
    and "aud_event_type audit = ''approval_request_created''"
    and "obx_event_type event = ''protoradar.approval_request.created''"
    and "obx_status event = ''pending''"
proof -
  let ?w0 = "w\<lparr>w_calls := Suc (w_calls w), w_tx := True\<rparr>"
  define emitted where "emitted = NewApprovalRequestCreated request actor now"
  obtain w4 where w': "w_db w' = w_db w4" and
    body: "\<exists>u1 w1 u2 w2 u3 w3. insertRequest request ?w0 = (Inr u1, w1)
       \<and> forE (Request_Requirements request) (createRequirement (Request_ID request)) w1 = (Inr u2, w2)
       \<and> appendApprovalRequestCreatedAudit request actor result now w2 = (Inr u3, w3)
       \<and> Outbox_Create emitted w3 = (Inr u, w4)"
    using create outside
    unfolding createApprovalRequestWithAuditAndOutbox_def ApprovalRepo_CreateRequest_def emitted_def
    by (elim WithinTransaction_success) (auto simp: go_Inr replaceErr_def WithinTransaction_nested)
  then obtain u1 w1 u2 w2 u3 w3 where s1: "insertRequest request ?w0 = (Inr u1, w1)"
    and s2: "forE (Request_Requirements request) (createRequirement (Request_ID request)) w1 = (Inr u2, w2)"
    and s3: "appendApprovalRequestCreatedAudit request actor result now w2 = (Inr u3, w3)"
    and s4: "Outbox_Create emitted w3 = (Inr u, w4)"
    by blast
  have p1: "w_platform w1 = w_platform w"
    using stepsD [OF approval_env(5) s1] by (simp add: same_env_def)
  obtain rid mid bid where rid: "p_uuid (w_platform w) (Request_ID request) = Some rid"
    and bid: "case Request_BreakingReportID request of None \<Rightarrow> bid = None
         | Some s \<Rightarrow> \<exists>b. p_uuid (w_platform w) s = Some b \<and> bid = Some b"
    and fresh: "\<forall>r \<in> set (db_requests (w_db w)). \<not> request_clash (row_of_request rid mid bid request) r"
    and d1: "w_db w1 = db_requests_update (\<lambda>qs. qs @ [row_of_request rid mid bid request]) (w_db w)"
  proof -
    have "p_uuid (w_platform ?w0) = p_uuid (w_platform w)" "w_db ?w0 = w_db w" by simp_all
    with s1 show ?thesis by (elim insertRequest_Inr) (rule that; simp only:)
  qed
  obtain rows where rows: "list_all2 (requirement_row_for (w_platform w) rid) (Request_Requirements request) rows"
    and d2: "w_db w2 = db_requirements_update (\<lambda>rs. rs @ rows) (w_db w1)"
    and distinct: "distinct (map rqm_id (db_requirements (w_db w)))
         \<longrightarrow> distinct (map rqm_id (db_requirements (w_db w) @ rows))"
    using createRequirements_Inr [OF s2 links] rid p1 d1 by auto
  obtain audit where d3: "w_db w3 = db_audits_update (\<lambda>as. as @ [audit]) (w_db w2)"
    and audit: "aud_event_type audit = ''approval_request_created''"
    using s3 unfolding appendApprovalRequestCreatedAudit_def by (elim appendApprovalAudit_Inr) simp
  obtain oid at where d4: "w_db w4 = db_outbox_update (\<lambda>es. es @ [new_outbox_row oid emitted at])
      (db_generated_update Suc (w_db w3))"
    using s4 by (rule Outbox_Create_Inr)
  have "w_db w' = opened_db (row_of_request rid mid bid request) rows audit
      (new_outbox_row oid emitted at) (w_db w)"
    by (simp add: w' d1 d2 d3 d4 opened_db_def comp_def)
  then show ?thesis
    using that [OF rid refl bid fresh rows distinct _ audit]
    by (simp add: emitted_def NewApprovalRequestCreated_def Let_def new_record_def)
qed

lemma list_all2_mapD: "list_all2 (\<lambda>x y. f x = g y) xs ys \<Longrightarrow> map f xs = map g ys"
  by (induction rule: list_all2_induct) auto

lemma build_Inr:
  assumes build: "buildApprovalRequestFromPolicyDecision ctx ref result now w = (Inr request, w')"
  shows "Request_BreakingReportID request = Some (Report_ID (Ctx_Report ctx))
    \<and> Request_ModuleID request = Module_ID (Ctx_Module ctx)
    \<and> Request_Status request = (if Result_ApprovalRequired result then ApprovalRequestStatusPending
        else ApprovalRequestStatusNotRequired)
    \<and> Request_RequiredApprovals request = int (length (Result_Requirements result))
    \<and> Request_ReceivedApprovals request = 0 \<and> Request_Decisions request = []
    \<and> (\<forall>x \<in> set (Request_Requirements request). Requirement_ApprovalRequestID x = Request_ID request)
    \<and> map (\<lambda>x. (Requirement_RequirementType x, Requirement_TargetModuleID x,
          Requirement_TargetModuleName x, Requirement_Status x)) (Request_Requirements request)
      = map (\<lambda>p. (Plan_RequirementType p, Plan_TargetModuleID p, Plan_TargetModuleName p, Plan_Status p))
          (Result_Requirements result)
    \<and> w_db w' = w_db w \<and> same_env w w'"
proof -
  have reads: "reads_only (buildApprovalRequestFromPolicyDecision ctx ref result now)"
    unfolding reads_only_def buildApprovalRequestFromPolicyDecision_def buildRequirement_def NewRandomID_def
    by (intro same_db.world_rules)
  have env: "steps same_env (buildApprovalRequestFromPolicyDecision ctx ref result now)"
    unfolding buildApprovalRequestFromPolicyDecision_def buildRequirement_def NewRandomID_def
    by (intro env_rules)
  obtain rid w1 xs where collect: "collectE (Result_Requirements result) (buildRequirement rid now) w1 = (Inr xs, w')"
    and request: "Request_BreakingReportID request = Some (Report_ID (Ctx_Report ctx))
      \<and> Request_ModuleID request = Module_ID (Ctx_Module ctx)
      \<and> Request_Status request = (if Result_ApprovalRequired result then ApprovalRequestStatusPending
          else ApprovalRequestStatusNotRequired)
      \<and> Request_RequiredApprovals request = int (length (Result_Requirements result))
      \<and> Request_ReceivedApprovals request = 0 \<and> Request_Decisions request = []
      \<and> Request_ID request = rid \<and> Request_Requirements request = xs"
    using build by (auto simp: buildApprovalRequestFromPolicyDecision_def bindE_Inr)
  have "list_all2 (\<lambda>p x. (Plan_RequirementType p, Plan_TargetModuleID p, Plan_TargetModuleName p,
      Plan_Status p, rid) = (Requirement_RequirementType x, Requirement_TargetModuleID x,
        Requirement_TargetModuleName x, Requirement_Status x, Requirement_ApprovalRequestID x))
      (Result_Requirements result) xs"
    by (rule collectE_all2 [OF collect]) (auto simp: buildRequirement_def bindE_Inr)
  then have plans: "map (\<lambda>p. (Plan_RequirementType p, Plan_TargetModuleID p, Plan_TargetModuleName p,
      Plan_Status p, rid)) (Result_Requirements result) = map (\<lambda>x. (Requirement_RequirementType x,
        Requirement_TargetModuleID x, Requirement_TargetModuleName x, Requirement_Status x,
        Requirement_ApprovalRequestID x)) xs"
    by (rule list_all2_mapD)
  have links: "map (\<lambda>_. rid) (Result_Requirements result) = map Requirement_ApprovalRequestID xs"
    using arg_cong [OF plans, of "map (\<lambda>(a, b, c, d, e). e)"] by (simp add: comp_def)
  have "Requirement_ApprovalRequestID x = rid" if "x \<in> set xs" for x
  proof -
    have "Requirement_ApprovalRequestID x \<in> set (map (\<lambda>_. rid) (Result_Requirements result))"
      unfolding links using that by simp
    then show ?thesis by auto
  qed
  then have "\<forall>x \<in> set xs. Requirement_ApprovalRequestID x = rid" by blast
  moreover have "map (\<lambda>x. (Requirement_RequirementType x, Requirement_TargetModuleID x,
          Requirement_TargetModuleName x, Requirement_Status x)) xs
      = map (\<lambda>p. (Plan_RequirementType p, Plan_TargetModuleID p, Plan_TargetModuleName p, Plan_Status p))
          (Result_Requirements result)"
    using arg_cong [OF plans, of "map (\<lambda>(a, b, c, d, e). (a, b, c, d))"] by (simp add: comp_def)
  moreover note reads_onlyD [OF reads build] stepsD [OF env build]
  ultimately show ?thesis
    using request by (elim conjE, intro conjI) (simp_all only:)
qed

definition collaborators_read :: "ApprovalService \<Rightarrow> bool" where
  "collaborators_read svc \<longleftrightarrow>
     (\<forall>listAffected. svc_dependencies svc = Some listAffected
        \<longrightarrow> (\<forall>m. reads_only (listAffected m) \<and> steps same_env (listAffected m)))
     \<and> (\<forall>listImpact. svc_runtime svc = Some listImpact
        \<longrightarrow> (\<forall>r v n k. reads_only (listImpact r v n k) \<and> steps same_env (listImpact r v n k)))"

lemma collaborators_readD:
  assumes "collaborators_read svc"
  shows "reads_only (affectedModules svc m)" "steps same_env (affectedModules svc m)"
    "reads_only (runtimeImpact svc report)" "steps same_env (runtimeImpact svc report)"
  using assms
  by (auto simp: collaborators_read_def affectedModules_def runtimeImpact_def ignoreNotFound_def
      reads_only_def split: option.split
      intro!: same_db.steps_catchE same_db.steps_raise same_db.steps_ret env.steps_catchE
        env.steps_raise env.steps_ret)

lemma registry_reads:
  "reads_only (ModuleRepo_GetByName name)" "reads_only (ModuleRepo_GetByID moduleID)"
  "reads_only (OwnerRepo_ListByModule moduleID)" "reads_only (ReportRepo_GetByID reportID)"
  unfolding ModuleRepo_GetByName_def ModuleRepo_GetByID_def OwnerRepo_ListByModule_def
    ReportRepo_GetByID_def ReportRepo_ListChangesByReport_def reads_only_def
  by (intro same_db.world_rules; auto simp: bindE_Inr)+

lemma registry_env:
  "steps same_env (ModuleRepo_GetByName name)" "steps same_env (ModuleRepo_GetByID moduleID)"
  "steps same_env (OwnerRepo_ListByModule moduleID)" "steps same_env (ReportRepo_GetByID reportID)"
  unfolding ModuleRepo_GetByName_def ModuleRepo_GetByID_def OwnerRepo_ListByModule_def
    ReportRepo_GetByID_def ReportRepo_ListChangesByReport_def
  by (intro env_rules)+

lemma context_reads:
  assumes "collaborators_read svc"
  shows "reads_only (approvalPolicyContextForReport svc reportID)"
  unfolding approvalPolicyContextForReport_def policyAffectedModules_def policyAffectedModule_def
    replaceErr_def ignoreNotFound_def reads_only_def
  by (intro same_db.world_rules registry_reads [unfolded reads_only_def]
      collaborators_readD [OF assms, unfolded reads_only_def])

lemma context_env:
  assumes "collaborators_read svc"
  shows "steps same_env (approvalPolicyContextForReport svc reportID)"
  unfolding approvalPolicyContextForReport_def policyAffectedModules_def policyAffectedModule_def
    replaceErr_def ignoreNotFound_def
  by (intro env_rules registry_env collaborators_readD [OF assms])

text \<open>Opening a request for a policy result, as a relation between tables.\<close>

definition opens ::
  "platform \<Rightarrow> BreakingReportID \<Rightarrow> GovernancePolicyResult \<Rightarrow> ApprovalRequest \<Rightarrow> db \<Rightarrow> db \<Rightarrow> bool" where
  "opens p reportID result request d d' \<longleftrightarrow>
     (\<exists>row rid mid bid rows audit event.
        p_uuid p (Request_ID request) = Some rid
        \<and> row = row_of_request rid mid (Some bid) request
        \<and> Request_BreakingReportID request = Some reportID \<and> p_uuid p reportID = Some bid
        \<and> (\<forall>r \<in> set (db_requests d). \<not> request_clash row r)
        \<and> list_all2 (requirement_row_for p rid) (Request_Requirements request) rows
        \<and> (distinct (map rqm_id (db_requirements d)) \<longrightarrow> distinct (map rqm_id (db_requirements d @ rows)))
        \<and> d' = opened_db row rows audit event d
        \<and> aud_event_type audit = ''approval_request_created''
        \<and> obx_event_type event = ''protoradar.approval_request.created''
        \<and> Request_Status request = (if Result_ApprovalRequired result then ApprovalRequestStatusPending
            else ApprovalRequestStatusNotRequired)
        \<and> Request_RequiredApprovals request = int (length (Result_Requirements result))
        \<and> Request_ReceivedApprovals request = 0
        \<and> map (\<lambda>x. (Requirement_RequirementType x, Requirement_TargetModuleID x,
              Requirement_TargetModuleName x, Requirement_Status x)) (Request_Requirements request)
          = map (\<lambda>p. (Plan_RequirementType p, Plan_TargetModuleID p, Plan_TargetModuleName p,
              Plan_Status p)) (Result_Requirements result))"

lemma createRequest_opens:
  assumes build: "buildApprovalRequestFromPolicyDecision ctx ref result now w = (Inr request, w1)"
    and create: "createApprovalRequestWithAuditAndOutbox request actor result now w1 = (Inr u, w')"
    and outside: "\<not> w_tx w"
  shows "opens (w_platform w) (Report_ID (Ctx_Report ctx)) result request (w_db w) (w_db w')"
proof -
  note built = build_Inr [OF build]
  have w1: "\<not> w_tx w1" "w_db w1 = w_db w" "w_platform w1 = w_platform w"
    using built outside by (auto simp: same_env_def)
  have links: "\<forall>x \<in> set (Request_Requirements request). Requirement_ApprovalRequestID x = Request_ID request"
    using built by blast
  show ?thesis
  proof (rule createRequest_Inr [OF create w1(1) links])
    fix row rid mid bid rows audit event
    assume facts: "p_uuid (w_platform w1) (Request_ID request) = Some rid"
      "row = row_of_request rid mid bid request"
      "case Request_BreakingReportID request of None \<Rightarrow> bid = None
         | Some s \<Rightarrow> \<exists>b. p_uuid (w_platform w1) s = Some b \<and> bid = Some b"
      "\<forall>r \<in> set (db_requests (w_db w1)). \<not> request_clash row r"
      "list_all2 (requirement_row_for (w_platform w1) rid) (Request_Requirements request) rows"
      "distinct (map rqm_id (db_requirements (w_db w1)))
         \<longrightarrow> distinct (map rqm_id (db_requirements (w_db w1) @ rows))"
      "w_db w' = opened_db row rows audit event (w_db w1)"
      "aud_event_type audit = ''approval_request_created''"
      "obx_event_type event = ''protoradar.approval_request.created''"
    have report: "Request_BreakingReportID request = Some (Report_ID (Ctx_Report ctx))"
      using built by blast
    obtain b where b: "bid = Some b" "p_uuid (w_platform w1) (Report_ID (Ctx_Report ctx)) = Some b"
      using facts(3) report by auto
    have row: "row = row_of_request rid mid (Some b) request" using facts(2) b(1) by simp
    show ?thesis
      unfolding opens_def
      using facts(1,4-9) [unfolded w1(2,3)] row b(2) [unfolded w1(3)] report built
      by (intro exI [of _ row] exI [of _ rid] exI [of _ mid] exI [of _ b] exI [of _ rows]
          exI [of _ audit] exI [of _ event]) blast
  qed
qed

lemma createRequest_error:
  assumes "createApprovalRequestWithAuditAndOutbox request actor result now w = (Inl e, w')" and "\<not> w_tx w"
  shows "w_db w' = w_db w"
  using assms unfolding createApprovalRequestWithAuditAndOutbox_def by (rule WithinTransaction_error)

lemma createRequest_env: "steps same_env (createApprovalRequestWithAuditAndOutbox request actor result now)"
  unfolding createApprovalRequestWithAuditAndOutbox_def replaceErr_def ApprovalRepo_CreateRequest_def
    appendApprovalRequestCreatedAudit_def appendApprovalAudit_def NewRandomID_def
  by (intro env_rules approval_env)

definition policyResultFor :: "ApprovalService \<Rightarrow> approvalPolicyContext \<Rightarrow> GovernancePolicyResult" where
  "policyResultFor svc ctx =
     svc_policy svc \<lparr>Input_Report = Ctx_Report ctx, Input_ModuleOwners = Ctx_ModuleOwners ctx,
       Input_AffectedModules = Ctx_AffectedModules ctx, Input_RuntimeImpact = Ctx_RuntimeImpact ctx,
       Input_Config = svc_policyConfig svc\<rparr>"

lemma clock_now_run: "clock_now w = (r, w') \<Longrightarrow> w_db w' = w_db w \<and> same_env w w'"
  by (auto simp: clock_now_def same_env_def)

text \<open>Either nothing was written, or the returned request was opened for the policy's result.\<close>

lemma createFresh_effect:
  assumes run: "createFresh svc reportID actor ref w = (r, w')" and outside: "\<not> w_tx w"
    and svc: "collaborators_read svc"
  shows "(w_db w' = w_db w
      \<and> (\<forall>request. r = Inr request \<longrightarrow> (\<exists>w4. w_db w4 = w_db w \<and> same_env w w4
           \<and> ApprovalRepo_GetRequestByBreakingReportID reportID w4 = (Inr request, w'))))
    \<or> (\<exists>request ctx w0 w1. r = Inr request \<and> w_db w0 = w_db w \<and> same_env w w0
         \<and> approvalPolicyContextForReport svc reportID w0 = (Inr ctx, w1)
         \<and> opens (w_platform w) (Report_ID (Ctx_Report ctx)) (policyResultFor svc ctx) request
             (w_db w) (w_db w'))"
proof -
  obtain x w1 where c: "approvalPolicyContextForReport svc reportID w = (x, w1)" by fastforce
  have w1: "w_db w1 = w_db w" "same_env w w1"
    using reads_onlyD [OF context_reads [OF svc] c] stepsD [OF context_env [OF svc] c] by simp_all
  show ?thesis
  proof (cases x)
    case (Inl e)
    with run c w1 show ?thesis by (auto simp: createFresh_def bindE_def)
  next
    case (Inr ctx)
    let ?now = "w_clock w1 (w_ticks w1)"
    let ?w2 = "w1\<lparr>w_ticks := Suc (w_ticks w1)\<rparr>"
    let ?result = "policyResultFor svc ctx"
    have w2: "w_db ?w2 = w_db w" "same_env w ?w2" "\<not> w_tx ?w2" "w_platform ?w2 = w_platform w"
      using w1 outside by (simp_all add: same_env_def)
    obtain y w3 where b: "buildApprovalRequestFromPolicyDecision ctx ref ?result ?now ?w2 = (y, w3)"
      by fastforce
    have tail: "createFresh svc reportID actor ref w =
        bindE (buildApprovalRequestFromPolicyDecision ctx ref ?result ?now) (\<lambda>request.
          catchE (bindE (createApprovalRequestWithAuditAndOutbox request actor ?result ?now)
                 (\<lambda>_. ret request))
            (\<lambda>err. if errors_Is err (Governance GovErrApprovalRequestConflict)
                 then catchE (ApprovalRepo_GetRequestByBreakingReportID reportID) (\<lambda>_. raise err)
                 else raise err)) ?w2"
      using c Inr by (simp add: createFresh_def bindE_def [of "approvalPolicyContextForReport svc reportID"]
          bindE_def [of clock_now] clock_now_def policyResultFor_def Let_def)
    show ?thesis
    proof (cases y)
      case (Inl e)
      have "reads_only (buildApprovalRequestFromPolicyDecision ctx ref ?result ?now)"
        unfolding reads_only_def buildApprovalRequestFromPolicyDecision_def buildRequirement_def
          NewRandomID_def by (intro same_db.world_rules)
      from reads_onlyD [OF this b] Inl run b w2 show ?thesis
        unfolding tail by (auto simp: bindE_def)
    next
      case (Inr request)
      note build = b [unfolded Inr]
      have w3: "w_db w3 = w_db w" "\<not> w_tx w3"
        using build_Inr [OF build] w2 by (auto simp: same_env_def)
      obtain z w4 where t: "createApprovalRequestWithAuditAndOutbox request actor ?result ?now w3 = (z, w4)"
        by fastforce
      show ?thesis
      proof (cases z)
        case (Inr u)
        have "opens (w_platform w) (Report_ID (Ctx_Report ctx)) ?result request (w_db w) (w_db w4)"
          using createRequest_opens [OF build t [unfolded Inr] w2(3)] w2 by simp
        moreover have "r = Inr request" "w' = w4"
          using run build t Inr unfolding tail by (simp_all add: bindE_def catchE_def ret_def)
        ultimately show ?thesis using c \<open>x = Inr ctx\<close> env.step_refl by blast
      next
        case (Inl e)
        have w4: "w_db w4 = w_db w"
          using createRequest_error [OF t [unfolded Inl] w3(2)] w3 by simp
        have "steps (on_db (=)) (if errors_Is e (Governance GovErrApprovalRequestConflict)
            then catchE (ApprovalRepo_GetRequestByBreakingReportID reportID) (\<lambda>_. raise e) else raise e)"
          by (intro same_db.world_rules GetRequest_reads [unfolded reads_only_def])
        note reads = stepsD [OF this, of w4 r w']
        have e: "(if errors_Is e (Governance GovErrApprovalRequestConflict)
            then catchE (ApprovalRepo_GetRequestByBreakingReportID reportID) (\<lambda>_. raise e) else raise e) w4
          = (r, w')"
          using run build t Inl unfolding tail by (simp add: bindE_def catchE_def)
        have "same_env w w4"
          using stepsD [OF createRequest_env t] build_Inr [OF build] w2(2) env.step_trans by blast
        with reads [OF e] e w4 show ?thesis
          by (auto simp: on_db_def catchE_Inr split: if_splits)
      qed
    qed
  qed
qed

end
