(* ===== verification/Atomicity.thy ===== *)
theory Atomicity
  imports Store
begin

text \<open>
  Operations that answer with an error and leave the tables as they were. The use cases read and
  check first and then run one transaction; \<open>atomic\<close> is what that shape guarantees, and it is closed
  under reading first (\<open>still\<close>) and computing afterwards.
\<close>

definition still :: "world \<Rightarrow> world \<Rightarrow> bool" where
  "still w w' \<longleftrightarrow> w_db w' = w_db w \<and> same_env w w'"

interpretation still: effect_preorder still
  by unfold_locales (auto simp: still_def intro: env.step_refl env.step_trans)

lemma stillI: "reads_only m \<Longrightarrow> steps same_env m \<Longrightarrow> steps still m"
  by (auto simp: reads_only_def steps_def still_def on_db_def)

lemma stillD: "steps still m \<Longrightarrow> m w = (r, w') \<Longrightarrow> w_db w' = w_db w \<and> same_env w w'"
  by (drule (1) stepsD) (simp add: still_def)

lemma still_clock: "steps still clock_now"
  by (rule stillI) (auto simp: reads_only_def intro: same_db.steps_clock env_clock)

lemma still_random: "steps still random_hex"
  by (rule stillI) (auto simp: reads_only_def intro: same_db.steps_random env_random)

lemma still_ctx: "steps still ctx_check"
  by (rule stillI) (auto simp: reads_only_def intro: same_db.steps_ctx env_ctx)

lemma still_stmt:
  assumes "\<And>p d x d'. sql p d = (Inr x, d') \<Longrightarrow> d' = d"
  shows "steps still (stmt sql)"
  using assms by (intro stillI env_stmt) (auto simp: reads_only_def intro!: same_db.steps_stmt)

lemma still_query_row:
  assumes "\<And>p d x d'. sql p d = (Inr x, d') \<Longrightarrow> d' = d"
  shows "steps still (query_row sql scan)"
  using assms
  by (intro stillI env_query_row) (auto simp: reads_only_def intro!: same_db.steps_query_row)

lemma still_query_rows:
  assumes "\<And>p d x d'. sql p d = (Inr x, d') \<Longrightarrow> d' = d"
  shows "steps still (query_rows sql scan)"
  using assms
  by (intro stillI env_query_rows) (auto simp: reads_only_def intro!: same_db.steps_query_rows)

lemmas still_rules = still.steps_rules still_clock still_random still_ctx still_query_row
  still_query_rows

section \<open>All or nothing\<close>

definition atomic :: "'a io \<Rightarrow> bool" where
  "atomic m \<longleftrightarrow> (\<forall>w e w'. m w = (Inl e, w') \<longrightarrow> \<not> w_tx w \<longrightarrow> w_db w' = w_db w)"

lemma atomicD: "atomic m \<Longrightarrow> m w = (Inl e, w') \<Longrightarrow> \<not> w_tx w \<Longrightarrow> w_db w' = w_db w"
  by (simp add: atomic_def)

lemma atomic_still: "steps still m \<Longrightarrow> atomic m"
  by (auto simp: atomic_def dest: stillD)

lemma atomic_transaction: "atomic (WithinTransaction fn)"
  by (auto simp: atomic_def dest: WithinTransaction_error)

lemma atomic_after:
  assumes m: "steps still m" and f: "\<And>x. atomic (f x)"
  shows "atomic (bindE m f)"
proof (subst atomic_def, intro allI impI)
  fix w e w'
  assume run: "bindE m f w = (Inl e, w')" and outside: "\<not> w_tx w"
  from run consider "m w = (Inl e, w')" | x w1 where "m w = (Inr x, w1)" "f x w1 = (Inl e, w')"
    by (auto simp: bindE_Inl)
  then show "w_db w' = w_db w"
  proof cases
    case 1
    then show ?thesis using stillD [OF m] by blast
  next
    case 2
    then have w1: "w_db w1 = w_db w" "\<not> w_tx w1"
      using stillD [OF m 2(1)] outside by (simp_all add: same_env_def)
    then show ?thesis using atomicD [OF f 2(2)] by simp
  qed
qed

lemma atomic_ret: "atomic m \<Longrightarrow> atomic (bindE m (\<lambda>x. ret (g x)))"
  by (auto simp: atomic_def bindE_Inl)

lemma atomic_mapErr: "atomic m \<Longrightarrow> atomic (mapErr g m)"
  by (auto simp: atomic_def mapErr_Inl)

lemma atomic_if: "(c \<Longrightarrow> atomic m) \<Longrightarrow> (\<not> c \<Longrightarrow> atomic n) \<Longrightarrow> atomic (if c then m else n)"
  by simp

text \<open>A single statement that fails writes nothing either.\<close>

lemma atomic_stmt: "atomic (stmt sql)"
  by (auto simp: atomic_def dest: stmt_Inl_db)

lemma atomic_stmt_check: "atomic (require_rows (stmt sql))"
  if "\<And>p d d'. sql p d = (Inr 0, d') \<Longrightarrow> d' = d"
  using that
  by (auto simp: atomic_def require_rows_def bindE_Inl stmt_Inr dest: stmt_Inl_db split: if_splits)

lemmas atomic_rules = atomic_transaction atomic_after atomic_ret atomic_mapErr atomic_if

end
