(* ===== verification/Dependency_Resolver.thy ===== *)
theory Dependency_Resolver
  imports Repo_Dependencies Repo_Metadata Approval_Effects Atomicity
begin

text \<open>
  The resolver of the dependency graph, \<^verbatim>\<open>internal/usecase/dependencygraph/service.go\<close>: from the
  descriptor metadata of one version and an index of what the other modules' latest versions
  provide, it computes the edges of the version and the references nobody provides, and stores them
  with an outbox event. The variables its closures share (\<^verbatim>\<open>dependencies\<close>, \<^verbatim>\<open>unresolved\<close>, \<^verbatim>\<open>seen\<close>) are
  the record \<open>resolver\<close>.
\<close>

section \<open>Names\<close>

definition IsWellKnownProtoImport :: "string \<Rightarrow> bool" where
  "IsWellKnownProtoImport path \<longleftrightarrow> HasPrefix (TrimSpace path) ''google/protobuf/''"

definition IsWellKnownProtoSymbol :: "string \<Rightarrow> bool" where
  "IsWellKnownProtoSymbol symbol \<longleftrightarrow>
     HasPrefix (TrimPrefix (TrimSpace symbol) ''.'') ''google.protobuf.''"

definition normalizeSymbol :: "string \<Rightarrow> string" where
  "normalizeSymbol symbol = TrimPrefix (TrimSpace symbol) ''.''"

definition packageFromSymbol :: "string \<Rightarrow> string" where
  "packageFromSymbol symbol =
     (let s = normalizeSymbol symbol in
      case LastIndex s (CHR ''.'') of
        None \<Rightarrow> ''''
      | Some index \<Rightarrow> if index = 0 then '''' else take index s)"

definition dependencyKey ::
  "ModuleVersionID \<Rightarrow> ModuleVersionID \<Rightarrow> DependencySource \<Rightarrow> string \<Rightarrow> string \<Rightarrow> string" where
  "dependencyKey consumerVersionID providerVersionID source importPath referencedSymbol =
     consumerVersionID @ [CHR 0x00] @ providerVersionID @ [CHR 0x00] @ DependencySource_String source
       @ [CHR 0x00] @ importPath @ [CHR 0x00] @ referencedSymbol"

section \<open>Providers\<close>

record providerRef =
  Provider_ModuleID :: ModuleID
  Provider_ModuleName :: ModuleName
  Provider_ModuleVersionID :: ModuleVersionID
  Provider_Version :: Version

definition providerFromFile :: "ProviderFile \<Rightarrow> providerRef" where
  "providerFromFile file =
     \<lparr>Provider_ModuleID = PFile_ModuleID file, Provider_ModuleName = PFile_ModuleName file,
      Provider_ModuleVersionID = PFile_ModuleVersionID file, Provider_Version = PFile_Version file\<rparr>"

definition providerFromSymbol :: "ProviderSymbol \<Rightarrow> providerRef" where
  "providerFromSymbol symbol =
     \<lparr>Provider_ModuleID = PSym_ModuleID symbol, Provider_ModuleName = PSym_ModuleName symbol,
      Provider_ModuleVersionID = PSym_ModuleVersionID symbol, Provider_Version = PSym_Version symbol\<rparr>"

record providerIndex =
  index_files :: "string \<Rightarrow> ProviderFile list"
  index_symbols :: "string \<Rightarrow> ProviderSymbol list"
  index_selfFiles :: "string set"
  index_selfSymbols :: "string set"

definition append_at :: "string \<Rightarrow> 'a \<Rightarrow> (string \<Rightarrow> 'a list) \<Rightarrow> (string \<Rightarrow> 'a list)" where
  "append_at key x m = m(key := m key @ [x])"

definition buildProviderIndex :: "ModuleID \<Rightarrow> providerIndex io" where
  "buildProviderIndex consumerModuleID =
     bindE ListLatestPublishedModuleVersions (\<lambda>latest.
       let ids = map Version_ID (filter (\<lambda>version. Version_ModuleID version \<noteq> consumerModuleID) latest)
       in bindE (ListProviderFiles ids) (\<lambda>files.
          bindE (ListProviderSymbols ids) (\<lambda>symbols.
            ret \<lparr>index_files = fold (\<lambda>file. append_at (PFile_Path file) file) files (\<lambda>_. []),
                 index_symbols = fold (\<lambda>symbol. append_at (normalizeSymbol (PSym_FullName symbol)) symbol)
                   symbols (\<lambda>_. []),
                 index_selfFiles = {}, index_selfSymbols = {}\<rparr>)))"

section \<open>The consumer's own names\<close>

definition addEnumSymbol :: "ProtoEnum \<Rightarrow> string set \<Rightarrow> string set" where
  "addEnumSymbol enum symbols = insert (normalizeSymbol (Enum_FullName enum)) symbols"

fun addMessageSymbols :: "ProtoMessage \<Rightarrow> string set \<Rightarrow> string set" where
  "addMessageSymbols (ProtoMessage name full flds messages enums) =
     (\<lambda>symbols. fold addEnumSymbol enums
       (fold addMessageSymbols messages (insert (normalizeSymbol full) symbols)))"

definition addFileSymbols :: "ProtoFile \<Rightarrow> providerIndex \<Rightarrow> providerIndex" where
  "addFileSymbols file index =
     (let index1 = index\<lparr>index_selfFiles := insert (File_Path file) (index_selfFiles index)\<rparr>;
          services = fold (\<lambda>service. insert (normalizeSymbol (PService_FullName service)))
            (File_Services file) (index_selfSymbols index1);
          messages = fold addMessageSymbols (File_Messages file) services;
          enums = fold addEnumSymbol (File_Enums file) messages
      in index1\<lparr>index_selfSymbols := enums\<rparr>)"

section \<open>Resolving\<close>

record resolver =
  Res_dependencies :: "ModuleDependency list"
  Res_unresolved :: "UnresolvedProtoDependency list"
  Res_seen :: "string set"

type_synonym addDependencyFunc =
  "providerRef \<Rightarrow> DependencySource \<Rightarrow> DependencyResolutionReason \<Rightarrow> string \<Rightarrow> string \<Rightarrow> string
   \<Rightarrow> resolver \<Rightarrow> resolver io"

type_synonym addUnresolvedFunc =
  "DependencySource \<Rightarrow> string \<Rightarrow> string \<Rightarrow> string \<Rightarrow> UnresolvedDependencyReason
   \<Rightarrow> resolver \<Rightarrow> resolver io"

definition addDependency :: "Module \<Rightarrow> ModuleVersion \<Rightarrow> time \<Rightarrow> addDependencyFunc" where
  "addDependency module moduleVersion now provider source reason importPath referencedPackage
     referencedSymbol r =
     (if Provider_ModuleID provider = Module_ID module then ret r
      else
        let key = dependencyKey (Version_ID moduleVersion) (Provider_ModuleVersionID provider)
                    source importPath referencedSymbol in
        if key \<in> Res_seen r then ret r
        else bindE NewRandomID (\<lambda>depID.
          ret (r\<lparr>Res_seen := insert key (Res_seen r),
                 Res_dependencies := Res_dependencies r @
                   [\<lparr>Dep_ID = depID, Dep_ConsumerModuleID = Module_ID module,
                     Dep_ConsumerModuleName = Module_Name module,
                     Dep_ConsumerModuleVersionID = Version_ID moduleVersion,
                     Dep_ConsumerVersion = Version_Version moduleVersion,
                     Dep_ProviderModuleID = Provider_ModuleID provider,
                     Dep_ProviderModuleName = Provider_ModuleName provider,
                     Dep_ProviderModuleVersionID = Provider_ModuleVersionID provider,
                     Dep_ProviderVersion = Provider_Version provider, Dep_Source = source,
                     Dep_Reason = reason, Dep_ImportPath = importPath,
                     Dep_ReferencedPackage = referencedPackage,
                     Dep_ReferencedSymbol = referencedSymbol, Dep_CreatedAt = now\<rparr>]\<rparr>)))"

definition addUnresolved :: "Module \<Rightarrow> ModuleVersion \<Rightarrow> time \<Rightarrow> addUnresolvedFunc" where
  "addUnresolved module moduleVersion now source importPath referencedPackage referencedSymbol
     reason r =
     bindE NewRandomID (\<lambda>depID.
       ret (r\<lparr>Res_unresolved := Res_unresolved r @
         [\<lparr>Unres_ID = depID, Unres_ModuleID = Module_ID module,
           Unres_ModuleName = Module_Name module,
           Unres_ModuleVersionID = Version_ID moduleVersion,
           Unres_Version = Version_Version moduleVersion, Unres_Source = source,
           Unres_ImportPath = importPath, Unres_ReferencedPackage = referencedPackage,
           Unres_ReferencedSymbol = referencedSymbol, Unres_Reason = reason,
           Unres_CreatedAt = now\<rparr>]\<rparr>))"

definition resolveSymbolReference ::
  "providerIndex \<Rightarrow> addDependencyFunc \<Rightarrow> addUnresolvedFunc \<Rightarrow> DependencySource \<Rightarrow> string
   \<Rightarrow> resolver \<Rightarrow> resolver io" where
  "resolveSymbolReference index addDep addUnres source symbol r =
     (let normalized = normalizeSymbol symbol in
      if normalized = '''' \<or> IsWellKnownProtoSymbol normalized then ret r
      else if normalized \<in> index_selfSymbols index then ret r
      else
        let referencedPackage = packageFromSymbol normalized in
        case index_symbols index normalized of
          [] \<Rightarrow> addUnres source '''' referencedPackage normalized
                 UnresolvedDependencyReasonProviderNotFound r
        | [m] \<Rightarrow> addDep (providerFromSymbol m) source DependencyResolutionReasonSymbol ''''
                   referencedPackage normalized r
        | _ \<Rightarrow> addUnres source '''' referencedPackage normalized
                UnresolvedDependencyReasonAmbiguousProvider r)"

fun resolveMessageReferences ::
  "providerIndex \<Rightarrow> addDependencyFunc \<Rightarrow> addUnresolvedFunc \<Rightarrow> ProtoMessage
   \<Rightarrow> resolver \<Rightarrow> resolver io" where
  "resolveMessageReferences index addDep addUnres (ProtoMessage name full flds messages enums) =
     (\<lambda>r. bindE
       (foldE (\<lambda>field r.
          if TrimSpace (Field_TypeName field) = '''' then ret r
          else resolveSymbolReference index addDep addUnres DependencySourceTypeReference
                 (Field_TypeName field) r) flds r)
       (\<lambda>r. foldE (resolveMessageReferences index addDep addUnres) messages r))"

definition resolveImport ::
  "providerIndex \<Rightarrow> addDependencyFunc \<Rightarrow> addUnresolvedFunc \<Rightarrow> ProtoImport
   \<Rightarrow> resolver \<Rightarrow> resolver io" where
  "resolveImport index addDep addUnres protoImport r =
     (let path = Import_Path protoImport in
      if IsWellKnownProtoImport path then ret r
      else if path \<in> index_selfFiles index then ret r
      else case index_files index path of
          [] \<Rightarrow> addUnres DependencySourceImport path '''' ''''
                 UnresolvedDependencyReasonProviderNotFound r
        | [m] \<Rightarrow> addDep (providerFromFile m) DependencySourceImport
                   DependencyResolutionReasonImportPath path '''' '''' r
        | _ \<Rightarrow> addUnres DependencySourceImport path '''' ''''
                UnresolvedDependencyReasonAmbiguousProvider r)"

definition resolveService ::
  "providerIndex \<Rightarrow> addDependencyFunc \<Rightarrow> addUnresolvedFunc \<Rightarrow> ProtoService
   \<Rightarrow> resolver \<Rightarrow> resolver io" where
  "resolveService index addDep addUnres service =
     foldE (\<lambda>method r.
       bindE (resolveSymbolReference index addDep addUnres DependencySourceMethodReference
                (Method_InputType method) r) (\<lambda>r.
         resolveSymbolReference index addDep addUnres DependencySourceMethodReference
           (Method_OutputType method) r))
       (PService_Methods service)"

definition resolveFile ::
  "providerIndex \<Rightarrow> addDependencyFunc \<Rightarrow> addUnresolvedFunc \<Rightarrow> ProtoFile
   \<Rightarrow> resolver \<Rightarrow> resolver io" where
  "resolveFile index addDep addUnres file r =
     bindE (foldE (resolveImport index addDep addUnres) (File_Imports file) r) (\<lambda>r.
     bindE (foldE (resolveMessageReferences index addDep addUnres) (File_Messages file) r) (\<lambda>r.
       foldE (resolveService index addDep addUnres) (File_Services file) r))"

definition resolveDependencies ::
  "Module \<Rightarrow> ModuleVersion \<Rightarrow> DescriptorMetadata \<Rightarrow> providerIndex
   \<Rightarrow> (ModuleDependency list \<times> UnresolvedProtoDependency list) io" where
  "resolveDependencies module moduleVersion metadata index =
     bindE clock_now (\<lambda>now.
       let index = fold addFileSymbols metadata index in
       bindE (foldE (resolveFile index (addDependency module moduleVersion now)
                (addUnresolved module moduleVersion now)) metadata
                \<lparr>Res_dependencies = [], Res_unresolved = [], Res_seen = {}\<rparr>) (\<lambda>r.
         ret (Res_dependencies r, Res_unresolved r)))"

section \<open>The use case\<close>

record RebuildModuleVersionDependenciesInput =
  Rebuild_ModuleID :: ModuleID
  Rebuild_ModuleName :: string
  Rebuild_ModuleVersionID :: ModuleVersionID
  Rebuild_Version :: string

record RebuildModuleVersionDependenciesOutput =
  Rebuilt_Module :: Module
  Rebuilt_Version :: ModuleVersion
  Rebuilt_Dependencies :: "ModuleDependency list"
  Rebuilt_Unresolved :: "UnresolvedProtoDependency list"

definition storeResolvedDependencies ::
  "Module \<Rightarrow> ModuleVersion \<Rightarrow> ModuleDependency list \<Rightarrow> UnresolvedProtoDependency list \<Rightarrow> unit io" where
  "storeResolvedDependencies module moduleVersion dependencies holes =
     bindE (ReplaceByConsumerModuleVersion (Version_ID moduleVersion) dependencies holes) (\<lambda>_.
     bindE clock_now (\<lambda>now.
       Outbox_Create (NewModuleDependenciesUpdated module moduleVersion
         (int (length dependencies)) (int (length holes)) now)))"

definition resolveModule :: "RebuildModuleVersionDependenciesInput \<Rightarrow> Module io" where
  "resolveModule input =
     (if Rebuild_ModuleID input \<noteq> '''' then ModuleRepo_GetByID (Rebuild_ModuleID input)
      else bindE (liftE (NewModuleName (Rebuild_ModuleName input))) ModuleRepo_GetByName)"

definition resolveModuleVersion ::
  "ModuleID \<Rightarrow> RebuildModuleVersionDependenciesInput \<Rightarrow> ModuleVersion io" where
  "resolveModuleVersion moduleID input =
     (if Rebuild_ModuleVersionID input \<noteq> '''' then
        bindE (VersionRepo_GetByID (Rebuild_ModuleVersionID input)) (\<lambda>version.
        bindE (failIf (Version_ModuleID version \<noteq> moduleID) (Domain ErrNotFound)) (\<lambda>_.
          ret version))
      else bindE (liftE (NewVersion (Rebuild_Version input)))
             (VersionRepo_GetByModuleAndVersion moduleID))"

definition RebuildModuleVersionDependencies ::
  "RebuildModuleVersionDependenciesInput \<Rightarrow> RebuildModuleVersionDependenciesOutput io" where
  "RebuildModuleVersionDependencies input =
     bindE (resolveModule input) (\<lambda>module.
     bindE (resolveModuleVersion (Module_ID module) input) (\<lambda>moduleVersion.
     bindE (Metadata_GetByModuleVersion (Version_ID moduleVersion)) (\<lambda>metadata.
     bindE (buildProviderIndex (Module_ID module)) (\<lambda>providerIndex.
     bindE (resolveDependencies module moduleVersion metadata providerIndex)
       (\<lambda>(dependencies, unresolved).
     bindE (WithinTransaction
              (storeResolvedDependencies module moduleVersion dependencies unresolved)) (\<lambda>_.
       ret \<lparr>Rebuilt_Module = module, Rebuilt_Version = moduleVersion,
            Rebuilt_Dependencies = dependencies, Rebuilt_Unresolved = unresolved\<rparr>))))))"

record PublishedModuleVersionDependencyRebuildInput =
  PubRebuild_Module :: Module
  PubRebuild_Version :: ModuleVersion
  PubRebuild_Metadata :: DescriptorMetadata

definition RebuildPublishedModuleVersionDependencies ::
  "PublishedModuleVersionDependencyRebuildInput
   \<Rightarrow> (ModuleDependency list \<times> UnresolvedProtoDependency list) io" where
  "RebuildPublishedModuleVersionDependencies input =
     bindE (buildProviderIndex (Module_ID (PubRebuild_Module input))) (\<lambda>providerIndex.
     bindE (resolveDependencies (PubRebuild_Module input) (PubRebuild_Version input)
              (PubRebuild_Metadata input) providerIndex) (\<lambda>(dependencies, unresolved).
     bindE (storeResolvedDependencies (PubRebuild_Module input) (PubRebuild_Version input)
              dependencies unresolved) (\<lambda>_.
       ret (dependencies, unresolved))))"

section \<open>A reference resolver\<close>

text \<open>
  What the loops visit, as one list: every import, every non-blank type name of a field (also in
  nested messages) and both types of every method, in the order of the files.
\<close>

datatype reference = ImportRef string | SymbolRef DependencySource string

fun message_references :: "ProtoMessage \<Rightarrow> reference list" where
  "message_references (ProtoMessage name full flds messages enums) =
     map (\<lambda>f. SymbolRef DependencySourceTypeReference (Field_TypeName f))
       (filter (\<lambda>f. TrimSpace (Field_TypeName f) \<noteq> '''') flds)
     @ concat (map message_references messages)"

definition service_references :: "ProtoService \<Rightarrow> reference list" where
  "service_references service =
     concat (map (\<lambda>m. [SymbolRef DependencySourceMethodReference (Method_InputType m),
                       SymbolRef DependencySourceMethodReference (Method_OutputType m)])
       (PService_Methods service))"

definition file_references :: "ProtoFile \<Rightarrow> reference list" where
  "file_references file =
     map (\<lambda>i. ImportRef (Import_Path i)) (File_Imports file)
     @ concat (map message_references (File_Messages file))
     @ concat (map service_references (File_Services file))"

definition references :: "DescriptorMetadata \<Rightarrow> reference list" where
  "references metadata = concat (map file_references metadata)"

text \<open>What one reference means, given the index: nothing, an edge, or a reference without provider.\<close>

record edge =
  edge_provider :: providerRef
  edge_source :: DependencySource
  edge_reason :: DependencyResolutionReason
  edge_path :: string
  edge_package :: string
  edge_symbol :: string

record hole =
  hole_source :: DependencySource
  hole_path :: string
  hole_package :: string
  hole_symbol :: string
  hole_reason :: UnresolvedDependencyReason

datatype outcome = Ignored | Resolves edge | Unresolves hole

fun outcome_of :: "providerIndex \<Rightarrow> reference \<Rightarrow> outcome" where
  "outcome_of index (ImportRef path) =
     (if IsWellKnownProtoImport path \<or> path \<in> index_selfFiles index then Ignored
      else case index_files index path of
          [m] \<Rightarrow> Resolves \<lparr>edge_provider = providerFromFile m, edge_source = DependencySourceImport,
             edge_reason = DependencyResolutionReasonImportPath, edge_path = path,
             edge_package = '''', edge_symbol = ''''\<rparr>
        | ms \<Rightarrow> Unresolves \<lparr>hole_source = DependencySourceImport, hole_path = path,
             hole_package = '''', hole_symbol = '''',
             hole_reason = (if ms = [] then UnresolvedDependencyReasonProviderNotFound
                            else UnresolvedDependencyReasonAmbiguousProvider)\<rparr>)"
| "outcome_of index (SymbolRef source symbol) =
     (let s = normalizeSymbol symbol in
      if s = '''' \<or> IsWellKnownProtoSymbol s \<or> s \<in> index_selfSymbols index then Ignored
      else case index_symbols index s of
          [m] \<Rightarrow> Resolves \<lparr>edge_provider = providerFromSymbol m, edge_source = source,
             edge_reason = DependencyResolutionReasonSymbol, edge_path = '''',
             edge_package = packageFromSymbol s, edge_symbol = s\<rparr>
        | ms \<Rightarrow> Unresolves \<lparr>hole_source = source, hole_path = '''',
             hole_package = packageFromSymbol s, hole_symbol = s,
             hole_reason = (if ms = [] then UnresolvedDependencyReasonProviderNotFound
                            else UnresolvedDependencyReasonAmbiguousProvider)\<rparr>)"

fun edges_in :: "outcome \<Rightarrow> edge list" where
  "edges_in (Resolves e) = [e]"
| "edges_in _ = []"

fun holes_in :: "outcome \<Rightarrow> hole list" where
  "holes_in (Unresolves h) = [h]"
| "holes_in _ = []"

definition reference_edges :: "ModuleID \<Rightarrow> providerIndex \<Rightarrow> DescriptorMetadata \<Rightarrow> edge list" where
  "reference_edges moduleID index metadata =
     filter (\<lambda>e. Provider_ModuleID (edge_provider e) \<noteq> moduleID)
       (concat (map (edges_in \<circ> outcome_of index) (references metadata)))"

definition reference_holes :: "providerIndex \<Rightarrow> DescriptorMetadata \<Rightarrow> hole list" where
  "reference_holes index metadata = concat (map (holes_in \<circ> outcome_of index) (references metadata))"


section \<open>The loops are the reference\<close>

fun apply_outcome :: "addDependencyFunc \<Rightarrow> addUnresolvedFunc \<Rightarrow> outcome \<Rightarrow> resolver \<Rightarrow> resolver io" where
  "apply_outcome addDep addUnres Ignored r = ret r"
| "apply_outcome addDep addUnres (Resolves e) r =
     addDep (edge_provider e) (edge_source e) (edge_reason e) (edge_path e) (edge_package e)
       (edge_symbol e) r"
| "apply_outcome addDep addUnres (Unresolves h) r =
     addUnres (hole_source h) (hole_path h) (hole_package h) (hole_symbol h) (hole_reason h) r"

abbreviation resolve_references ::
  "providerIndex \<Rightarrow> addDependencyFunc \<Rightarrow> addUnresolvedFunc \<Rightarrow> reference list
   \<Rightarrow> resolver \<Rightarrow> resolver io" where
  "resolve_references index addDep addUnres \<equiv>
     foldE (\<lambda>ref. apply_outcome addDep addUnres (outcome_of index ref))"

lemma foldE_functions: "foldE f [] = ret" "foldE f (x # xs) = (\<lambda>s. bindE (f x s) (foldE f xs))"
  by (auto intro!: ext)

lemma resolveImport_outcome:
  "resolveImport index addDep addUnres i =
     apply_outcome addDep addUnres (outcome_of index (ImportRef (Import_Path i)))"
  by (rule ext) (auto simp: resolveImport_def Let_def split: list.splits)

lemma resolveSymbol_outcome:
  "resolveSymbolReference index addDep addUnres source symbol =
     apply_outcome addDep addUnres (outcome_of index (SymbolRef source symbol))"
  by (rule ext) (auto simp: resolveSymbolReference_def Let_def split: list.splits)

lemma resolveFields_outcome:
  "foldE (\<lambda>field r. if TrimSpace (Field_TypeName field) = '''' then ret r
       else resolveSymbolReference index addDep addUnres DependencySourceTypeReference
              (Field_TypeName field) r) flds
   = resolve_references index addDep addUnres
       (map (\<lambda>f. SymbolRef DependencySourceTypeReference (Field_TypeName f))
         (filter (\<lambda>f. TrimSpace (Field_TypeName f) \<noteq> '''') flds))"
  by (induction flds) (auto simp: resolveSymbol_outcome intro!: ext)

lemma resolveMessage_outcome:
  "resolveMessageReferences index addDep addUnres m =
     resolve_references index addDep addUnres (message_references m)"
proof (induction m)
  case (ProtoMessage name full flds messages enums)
  have "foldE (resolveMessageReferences index addDep addUnres) messages
      = foldE (foldE (\<lambda>ref. apply_outcome addDep addUnres (outcome_of index ref)))
          (map message_references messages)"
    unfolding foldE_map by (rule foldE_cong) (auto simp: ProtoMessage.IH)
  then show ?case by (simp add: resolveFields_outcome foldE_append foldE_concat)
qed

lemma resolveService_outcome:
  "resolveService index addDep addUnres service =
     resolve_references index addDep addUnres (service_references service)"
  unfolding resolveService_def service_references_def foldE_concat foldE_map
  by (rule foldE_cong [OF refl])
    (simp add: resolveSymbol_outcome foldE_functions del: outcome_of.simps foldE.simps)

lemma resolveFile_outcome:
  "resolveFile index addDep addUnres file =
     resolve_references index addDep addUnres (file_references file)"
proof -
  have services: "foldE (resolveService index addDep addUnres) (File_Services file)
      = resolve_references index addDep addUnres (concat (map service_references (File_Services file)))"
    unfolding foldE_concat foldE_map by (rule foldE_cong) (auto simp: resolveService_outcome)
  have messages: "foldE (resolveMessageReferences index addDep addUnres) (File_Messages file)
      = resolve_references index addDep addUnres (concat (map message_references (File_Messages file)))"
    unfolding foldE_concat foldE_map by (rule foldE_cong) (auto simp: resolveMessage_outcome)
  have files: "foldE (resolveImport index addDep addUnres) (File_Imports file)
      = resolve_references index addDep addUnres (map (\<lambda>i. ImportRef (Import_Path i)) (File_Imports file))"
    unfolding foldE_map by (rule foldE_cong) (auto simp: resolveImport_outcome)
  show ?thesis
    by (rule ext) (simp only: resolveFile_def file_references_def foldE_append files messages services)
qed

lemma resolveFiles_outcome:
  "foldE (resolveFile index addDep addUnres) metadata =
     resolve_references index addDep addUnres (references metadata)"
  unfolding references_def foldE_concat foldE_map
  by (rule foldE_cong) (auto simp: resolveFile_outcome)


text \<open>The entity an edge, respectively a hole, becomes under a fresh identifier.\<close>

definition dependency_of :: "Module \<Rightarrow> ModuleVersion \<Rightarrow> time \<Rightarrow> edge \<Rightarrow> string \<Rightarrow> ModuleDependency" where
  "dependency_of module moduleVersion now e depID =
     \<lparr>Dep_ID = depID, Dep_ConsumerModuleID = Module_ID module,
      Dep_ConsumerModuleName = Module_Name module,
      Dep_ConsumerModuleVersionID = Version_ID moduleVersion,
      Dep_ConsumerVersion = Version_Version moduleVersion,
      Dep_ProviderModuleID = Provider_ModuleID (edge_provider e),
      Dep_ProviderModuleName = Provider_ModuleName (edge_provider e),
      Dep_ProviderModuleVersionID = Provider_ModuleVersionID (edge_provider e),
      Dep_ProviderVersion = Provider_Version (edge_provider e), Dep_Source = edge_source e,
      Dep_Reason = edge_reason e, Dep_ImportPath = edge_path e,
      Dep_ReferencedPackage = edge_package e, Dep_ReferencedSymbol = edge_symbol e,
      Dep_CreatedAt = now\<rparr>"

definition unresolved_of ::
  "Module \<Rightarrow> ModuleVersion \<Rightarrow> time \<Rightarrow> hole \<Rightarrow> string \<Rightarrow> UnresolvedProtoDependency" where
  "unresolved_of module moduleVersion now h depID =
     \<lparr>Unres_ID = depID, Unres_ModuleID = Module_ID module, Unres_ModuleName = Module_Name module,
      Unres_ModuleVersionID = Version_ID moduleVersion,
      Unres_Version = Version_Version moduleVersion, Unres_Source = hole_source h,
      Unres_ImportPath = hole_path h, Unres_ReferencedPackage = hole_package h,
      Unres_ReferencedSymbol = hole_symbol h, Unres_Reason = hole_reason h, Unres_CreatedAt = now\<rparr>"

definition edge_key :: "ModuleVersion \<Rightarrow> edge \<Rightarrow> string" where
  "edge_key moduleVersion e =
     dependencyKey (Version_ID moduleVersion) (Provider_ModuleVersionID (edge_provider e))
       (edge_source e) (edge_path e) (edge_symbol e)"

text \<open>Each entity is the one of its edge, and carries an identifier the generator returned.\<close>

definition entities :: "('e \<Rightarrow> string \<Rightarrow> 'd) \<Rightarrow> 'e list \<Rightarrow> 'd list \<Rightarrow> bool" where
  "entities f = list_all2 (\<lambda>e d. \<exists>i. d = f e (NewID i))"

lemma NewRandomID_Inr:
  "NewRandomID w = (Inr i, w') \<longleftrightarrow>
     (\<exists>s. w_random w (w_draws w) = Some s \<and> i = NewID s \<and> w' = w\<lparr>w_draws := Suc (w_draws w)\<rparr>)"
  by (auto simp: NewRandomID_def bindE_def random_hex_def split: option.splits)

lemma addDependency_outcome:
  assumes "apply_outcome (addDependency module v now) addUnres (Resolves e) r w = (Inr r', w')"
  shows "Res_unresolved r' = Res_unresolved r
    \<and> (if Provider_ModuleID (edge_provider e) = Module_ID module \<or> edge_key v e \<in> Res_seen r
       then Res_dependencies r' = Res_dependencies r \<and> Res_seen r' = Res_seen r
       else (\<exists>i. Res_dependencies r' = Res_dependencies r @ [dependency_of module v now e (NewID i)])
         \<and> Res_seen r' = insert (edge_key v e) (Res_seen r))"
  using assms
  by (auto simp: addDependency_def Let_def bindE_Inr NewRandomID_Inr edge_key_def dependency_of_def
      split: if_splits)

lemma addUnresolved_outcome:
  assumes "apply_outcome addDep (addUnresolved module v now) (Unresolves h) r w = (Inr r', w')"
  shows "Res_dependencies r' = Res_dependencies r \<and> Res_seen r' = Res_seen r
    \<and> (\<exists>i. Res_unresolved r' = Res_unresolved r @ [unresolved_of module v now h (NewID i)])"
  using assms by (auto simp: addUnresolved_def bindE_Inr NewRandomID_Inr unresolved_of_def)

lemma resolve_references_result:
  assumes "resolve_references index (addDependency module v now) (addUnresolved module v now) refs r w
      = (Inr r', w')"
  obtains deps holes where "Res_dependencies r' = Res_dependencies r @ deps"
    and "entities (dependency_of module v now)
       (first_by (edge_key v) (Res_seen r)
         (filter (\<lambda>e. Provider_ModuleID (edge_provider e) \<noteq> Module_ID module)
           (concat (map (edges_in \<circ> outcome_of index) refs)))) deps"
    and "Res_unresolved r' = Res_unresolved r @ holes"
    and "entities (unresolved_of module v now) (concat (map (holes_in \<circ> outcome_of index) refs)) holes"
  using assms
proof (induction refs arbitrary: r w thesis)
  case Nil
  then show ?case by (simp add: entities_def)
next
  case (Cons ref refs)
  from Cons.prems(2) obtain r1 w1
    where step: "apply_outcome (addDependency module v now) (addUnresolved module v now)
        (outcome_of index ref) r w = (Inr r1, w1)"
      and rest: "resolve_references index (addDependency module v now) (addUnresolved module v now)
        refs r1 w1 = (Inr r', w')"
    by (auto simp: bindE_Inr)
  obtain deps holes where IH: "Res_dependencies r' = Res_dependencies r1 @ deps"
      "entities (dependency_of module v now)
         (first_by (edge_key v) (Res_seen r1)
           (filter (\<lambda>e. Provider_ModuleID (edge_provider e) \<noteq> Module_ID module)
             (concat (map (edges_in \<circ> outcome_of index) refs)))) deps"
      "Res_unresolved r' = Res_unresolved r1 @ holes"
      "entities (unresolved_of module v now) (concat (map (holes_in \<circ> outcome_of index) refs)) holes"
    using Cons.IH [OF _ rest] by blast
  show ?case
  proof (cases "outcome_of index ref")
    case Ignored
    with step have "r1 = r" by simp
    with IH Ignored Cons.prems(1) [of deps holes] show ?thesis by (auto simp: comp_def simp del: outcome_of.simps)
  next
    case (Resolves e)
    from addDependency_outcome [OF step [unfolded Resolves]]
    show ?thesis
    proof (cases "Provider_ModuleID (edge_provider e) = Module_ID module \<or> edge_key v e \<in> Res_seen r")
      case True
      with addDependency_outcome [OF step [unfolded Resolves]] IH Resolves Cons.prems(1) [of deps holes]
      show ?thesis by (auto simp: comp_def simp del: outcome_of.simps)
    next
      case False
      with addDependency_outcome [OF step [unfolded Resolves]] obtain i
        where "Res_dependencies r1 = Res_dependencies r @ [dependency_of module v now e (NewID i)]"
          "Res_seen r1 = insert (edge_key v e) (Res_seen r)" "Res_unresolved r1 = Res_unresolved r"
        by auto
      with False IH Resolves Cons.prems(1) [of "dependency_of module v now e (NewID i) # deps" holes]
      show ?thesis by (auto simp: entities_def comp_def simp del: outcome_of.simps)
    qed
  next
    case (Unresolves h)
    with addUnresolved_outcome [OF step [unfolded Unresolves]] obtain i
      where "Res_dependencies r1 = Res_dependencies r" "Res_seen r1 = Res_seen r"
        "Res_unresolved r1 = Res_unresolved r @ [unresolved_of module v now h (NewID i)]"
      by auto
    with IH Unresolves Cons.prems(1) [of deps "unresolved_of module v now h (NewID i) # holes"]
    show ?thesis by (auto simp: entities_def comp_def simp del: outcome_of.simps)
  qed
qed

lemma resolveDependencies_Inr:
  assumes "resolveDependencies module v metadata index w = (Inr (deps, holes), w')"
  shows "entities (dependency_of module v (w_clock w (w_ticks w)))
      (first_by (edge_key v) {}
        (reference_edges (Module_ID module) (fold addFileSymbols metadata index) metadata)) deps
    \<and> entities (unresolved_of module v (w_clock w (w_ticks w)))
      (reference_holes (fold addFileSymbols metadata index) metadata) holes"
proof -
  let ?now = "w_clock w (w_ticks w)"
  from assms obtain r where
    run: "resolve_references (fold addFileSymbols metadata index) (addDependency module v ?now)
       (addUnresolved module v ?now) (references metadata)
       \<lparr>Res_dependencies = [], Res_unresolved = [], Res_seen = {}\<rparr>
       (w\<lparr>w_ticks := Suc (w_ticks w)\<rparr>) = (Inr r, w')"
    and r: "deps = Res_dependencies r" "holes = Res_unresolved r"
    by (auto simp: resolveDependencies_def bindE_Inr clock_now_def resolveFiles_outcome Let_def)
  from run show ?thesis
    by (rule resolve_references_result)
       (simp add: r reference_edges_def reference_holes_def)
qed

end
