(* ===== verification/Breaking_Format.thy ===== *)
theory Breaking_Format
  imports Domain_Entities
begin

text \<open>
  The plain-text rendering of a breaking change report, \<^verbatim>\<open>internal/format/breaking/formatter.go\<close>. A
  \<^verbatim>\<open>strings.Builder\<close> is the text written so far; \<open>newline\<close> is the byte of \<^verbatim>\<open>\n\<close>.
\<close>

section \<open>Numbers\<close>

text \<open>\<^verbatim>\<open>%d\<close>.\<close>

definition digit :: "nat \<Rightarrow> char" where
  "digit n = char_of (48 + n)"

fun show_nat :: "nat \<Rightarrow> string" where
  "show_nat n = (if n < 10 then [digit n] else show_nat (n div 10) @ [digit (n mod 10)])"

declare show_nat.simps [simp del]

definition show_int :: "int \<Rightarrow> string" where
  "show_int i = (if i < 0 then CHR ''-'' # show_nat (nat (- i)) else show_nat (nat i))"

lemma show_nat_nonempty: "show_nat n \<noteq> ''''"
  by (subst show_nat.simps) simp

lemma digit_of: "n < 10 \<Longrightarrow> of_char (digit n) = 48 + n"
  by (simp add: digit_def)

lemma show_nat_digits: "c \<in> set (show_nat n) \<Longrightarrow> 48 \<le> (of_char c :: nat) \<and> (of_char c :: nat) < 58"
proof (induction n rule: show_nat.induct)
  case (1 n)
  show ?case
  proof (cases "n < 10")
    case True
    then show ?thesis using "1.prems" by (simp add: show_nat.simps [of n] digit_of)
  next
    case False
    then show ?thesis using "1.prems" "1.IH" by (auto simp: show_nat.simps [of n] digit_of)
  qed
qed

section \<open>The report\<close>

definition newline :: string where
  "newline = [CHR 0x0A]"

definition writeHeader :: "BreakingReport \<Rightarrow> string" where
  "writeHeader report =
     ''ProtoRadar Breaking Change Report'' @ newline @ newline
     @ (if Report_ModuleName report \<noteq> '''' then ''Module: '' @ Report_ModuleName report @ newline else '''')
     @ (if Report_BaseVersion report \<noteq> '''' then ''Against: '' @ Report_BaseVersion report @ newline else '''')
     @ (let target = TrimSpace (Report_TargetRef report)
        in ''Target: '' @ (if target = '''' then ''unspecified'' else target) @ newline)
     @ ''Status: '' @ BreakingReportStatus_String (Report_Status report) @ newline
     @ ''Changes: '' @ show_int (Report_ChangeCount report) @ newline"

definition writeOptionalLine :: "string \<Rightarrow> string \<Rightarrow> string" where
  "writeOptionalLine label value =
     (let v = TrimSpace value
      in if v = '''' then '''' else ''   '' @ label @ '': '' @ v @ newline)"

definition writeChange :: "nat \<Rightarrow> BreakingChange \<Rightarrow> string" where
  "writeChange index change =
     (let filePath = TrimSpace (Change_FilePath change)
      in show_nat (index + 1) @ ''. '' @ (if filePath = '''' then ''(unknown file)'' else filePath) @ newline
         @ writeOptionalLine ''Rule'' (Change_RuleID change)
         @ writeOptionalLine ''Symbol'' (Change_Symbol change)
         @ writeOptionalLine ''Package'' (Change_PackageName change)
         @ writeOptionalLine ''Category'' (Change_Category change)
         @ writeOptionalLine ''Severity'' (Change_Severity change)
         @ writeOptionalLine ''Message'' (Change_Message change))"

definition writeChanges :: "BreakingChange list \<Rightarrow> string" where
  "writeChanges changes =
     newline @ ''Breaking changes:'' @ newline
     @ (if changes = [] then ''No change details were provided.'' @ newline
        else concat (map (\<lambda>(index, change). writeChange index change) (enumerate 0 changes)))"

text \<open>\<^verbatim>\<open>NewBreakingReportStatus\<close> admits the three statuses only, so the \<^verbatim>\<open>default\<close> branch is not reached.\<close>

definition FormatReport :: "BreakingReport \<Rightarrow> BreakingChange list \<Rightarrow> string" where
  "FormatReport report changes =
     writeHeader report @
     (case Report_Status report of
        BreakingReportStatusPassed \<Rightarrow>
          newline @ ''No breaking changes found.'' @ newline
          @ newline @ ''Result: no breaking changes found.'' @ newline
      | BreakingReportStatusBreaking \<Rightarrow>
          writeChanges changes @ newline @ ''Result: breaking changes found.'' @ newline
      | BreakingReportStatusFailed \<Rightarrow>
          (if TrimSpace (Report_HumanSummary report) \<noteq> ''''
           then newline @ Report_HumanSummary report @ newline else '''')
          @ newline @ ''Result: breaking check failed.'' @ newline)"

end
