(* ===== verification/Repo_Artifacts.thy ===== *)
theory Repo_Artifacts
  imports Repo_Metadata Breaking_Format
begin

text \<open>
  What a published version owns besides its metadata: the stored artifacts (\<^verbatim>\<open>domain/artifact.go\<close>,
  \<^verbatim>\<open>postgres/artifacts.go\<close>, \<^verbatim>\<open>storage/key.go\<close>, \<^verbatim>\<open>objectstorage/s3\<close>) and its buf configuration
  (\<^verbatim>\<open>domain/buf.go\<close>, \<^verbatim>\<open>postgres/buf_configs.go\<close>); and the GitLab project of a module
  (\<^verbatim>\<open>domain/module_gitlab_project.go\<close>, \<^verbatim>\<open>postgres/module_gitlab_projects.go\<close>). Constraints are those of
  the migrations \<^verbatim>\<open>000001\<close>, \<^verbatim>\<open>000002\<close> and \<^verbatim>\<open>000004\<close>.
\<close>

section \<open>Artifacts\<close>

record Artifact =
  Artifact_ID :: ArtifactID
  Artifact_ModuleVersionID :: ModuleVersionID
  Artifact_Kind :: ArtifactKind
  Artifact_StorageKey :: string
  Artifact_ChecksumSHA256 :: string
  Artifact_SizeBytes :: int
  Artifact_CreatedAt :: time

text \<open>
  A kind is one of the two constants by its type, so \<^verbatim>\<open>artifactKindOrDefault\<close> and the table's check never
  change anything.
\<close>

definition artifact_clash :: "artifact_row \<Rightarrow> artifact_row \<Rightarrow> bool" where
  "artifact_clash r s \<longleftrightarrow>
     art_id r = art_id s \<or> art_storage_key r = art_storage_key s
     \<or> (art_module_version_id r = art_module_version_id s \<and> art_kind r = art_kind s)"

definition ArtifactRepo_Create :: "Artifact \<Rightarrow> unit io" where
  "ArtifactRepo_Create artifact =
     stmt (\<lambda>p. bindE (uuid p (Artifact_ID artifact)) (\<lambda>u.
       bindE (uuid p (Artifact_ModuleVersionID artifact)) (\<lambda>v.
       insert_into db_artifacts db_artifacts_update artifact_clash
         (\<lambda>d. has_id ver_id (db_versions d) v)
         \<lparr>art_id = u, art_module_version_id = v,
           art_kind = ArtifactKind_String (Artifact_Kind artifact),
           art_storage_key = Artifact_StorageKey artifact,
           art_size_bytes = Artifact_SizeBytes artifact,
           art_checksum_sha256 = Artifact_ChecksumSHA256 artifact,
           art_created_at = Artifact_CreatedAt artifact\<rparr>)))"

definition scanArtifact :: "artifact_row \<Rightarrow> goerr + Artifact" where
  "scanArtifact r =
     bindR (NewArtifactKind (art_kind r)) (\<lambda>kind.
       Inr \<lparr>Artifact_ID = NewID (art_id r), Artifact_ModuleVersionID = NewID (art_module_version_id r),
         Artifact_Kind = kind, Artifact_StorageKey = art_storage_key r,
         Artifact_ChecksumSHA256 = art_checksum_sha256 r, Artifact_SizeBytes = art_size_bytes r,
         Artifact_CreatedAt = art_created_at r\<rparr>)"

text \<open>\<^verbatim>\<open>getOne\<close> with its query as the function that selects the rows.\<close>

definition ArtifactRepo_getOne :: "(platform \<Rightarrow> artifact_row list sql) \<Rightarrow> Artifact io" where
  "ArtifactRepo_getOne sql = mapErr mapError (query_row sql scanArtifact)"

definition ArtifactRepo_GetByID :: "ArtifactID \<Rightarrow> Artifact io" where
  "ArtifactRepo_GetByID artifactID =
     ArtifactRepo_getOne (\<lambda>p. bindE (uuid p artifactID) (\<lambda>u.
       select (\<lambda>d. filter (\<lambda>r. art_id r = u) (db_artifacts d))))"

definition ArtifactRepo_GetByModuleVersionAndKind :: "ModuleVersionID \<Rightarrow> ArtifactKind \<Rightarrow> Artifact io" where
  "ArtifactRepo_GetByModuleVersionAndKind moduleVersionID kind =
     ArtifactRepo_getOne (\<lambda>p. bindE (uuid p moduleVersionID) (\<lambda>v.
       select (\<lambda>d. filter (\<lambda>r. art_module_version_id r = v \<and> art_kind r = ArtifactKind_String kind)
         (db_artifacts d))))"

definition ArtifactRepo_GetByModuleVersion :: "ModuleVersionID \<Rightarrow> Artifact io" where
  "ArtifactRepo_GetByModuleVersion moduleVersionID =
     ArtifactRepo_GetByModuleVersionAndKind moduleVersionID ArtifactKindSourceArchive"

definition ArtifactRepo_ListByModuleVersion :: "ModuleVersionID \<Rightarrow> Artifact list io" where
  "ArtifactRepo_ListByModuleVersion moduleVersionID =
     query_rows
       (\<lambda>p. bindE (uuid p moduleVersionID) (\<lambda>v.
          select (\<lambda>d. sort_key art_kind (filter (\<lambda>r. art_module_version_id r = v) (db_artifacts d)))))
       scanArtifact"

section \<open>Storage keys\<close>

definition BuildSourceArchiveKey :: "ModuleName \<Rightarrow> Version \<Rightarrow> string \<Rightarrow> string" where
  "BuildSourceArchiveKey module version checksumSHA256 =
     ''modules/'' @ module @ ''/versions/'' @ version @ ''/source/sha256-''
     @ TrimSpace checksumSHA256 @ ''.tar.gz''"

definition BuildBufImageKey :: "ModuleName \<Rightarrow> Version \<Rightarrow> string \<Rightarrow> string" where
  "BuildBufImageKey module version checksumSHA256 =
     ''modules/'' @ module @ ''/versions/'' @ version @ ''/buf-image/sha256-''
     @ TrimSpace checksumSHA256 @ ''.binpb''"

definition BuildArtifactKey :: "ModuleName \<Rightarrow> Version \<Rightarrow> string \<Rightarrow> string" where
  "BuildArtifactKey module version checksumSHA256 = BuildSourceArchiveKey module version checksumSHA256"

section \<open>The object store\<close>

text \<open>
  The bucket maps keys to contents. A call may fail without an effect; storing replaces an object,
  removing a missing one succeeds, reading a missing one does not. All objects are stored with the
  same content type.
\<close>

record ArtifactObject =
  Object_Key :: string
  Object_ContentType :: string
  Object_SizeBytes :: int
  Object_Body :: string

definition artifactContentType :: string where
  "artifactContentType = ''application/gzip''"

definition object_call :: "unit io" where
  "object_call = stmt (\<lambda>p. ret ())"

definition object_put :: "string \<Rightarrow> string \<Rightarrow> ArtifactObject io" where
  "object_put key body =
     bindE object_call (\<lambda>_ w.
       (Inr \<lparr>Object_Key = key, Object_ContentType = artifactContentType,
          Object_SizeBytes = int (length body), Object_Body = ''''\<rparr>,
        w\<lparr>w_objects := (w_objects w)(key \<mapsto> body)\<rparr>))"

definition object_get :: "string \<Rightarrow> ArtifactObject io" where
  "object_get key =
     bindE object_call (\<lambda>_ w.
       (case w_objects w key of
          None \<Rightarrow> (Inl (Infra ''NoSuchKey''), w)
        | Some body \<Rightarrow>
            (Inr \<lparr>Object_Key = key, Object_ContentType = artifactContentType,
               Object_SizeBytes = int (length body), Object_Body = body\<rparr>, w)))"

definition object_delete :: "string \<Rightarrow> unit io" where
  "object_delete key =
     bindE object_call (\<lambda>_ w. (Inr (), w\<lparr>w_objects := (w_objects w)(key := None)\<rparr>))"

text \<open>
  The endpoint of the store. \<open>parse\<close> is \<^verbatim>\<open>url.Parse\<close>, of which the scheme and the host are used.
\<close>

record parsed_url =
  URL_Scheme :: string
  URL_Host :: string

definition parseEndpoint :: "(string \<Rightarrow> parsed_url option) \<Rightarrow> string \<Rightarrow> string + (string \<times> bool)" where
  "parseEndpoint parse endpoint =
     (let trimmed = TrimSpace endpoint in
      if trimmed = '''' then Inl ''storage.s3.endpoint is required''
      else if \<not> sublist ''://'' trimmed then Inr (trimmed, True)
      else case parse trimmed of
        None \<Rightarrow> Inl ''parse''
      | Some parsed \<Rightarrow>
          if URL_Host parsed = '''' then Inl ''storage.s3.endpoint must include a host''
          else if URL_Scheme parsed = ''http'' then Inr (URL_Host parsed, False)
          else if URL_Scheme parsed = ''https'' then Inr (URL_Host parsed, True)
          else Inl ''storage.s3.endpoint must use http or https'')"

section \<open>Buf configurations\<close>

record BufConfigInfo =
  Buf_BufYAMLPresent :: bool
  Buf_BufLockPresent :: bool
  Buf_BufYAMLDigest :: string
  Buf_BufLockDigest :: string
  Buf_ModulePaths :: "string list"
  Buf_Deps :: "string list"
  Buf_LintEnabled :: bool
  Buf_BreakingConfigPresent :: bool

type_synonym BufLintStatus = string

definition BufLintStatusNotRun :: BufLintStatus where "BufLintStatusNotRun = ''not_run''"
definition BufLintStatusPassed :: BufLintStatus where "BufLintStatusPassed = ''passed''"
definition BufLintStatusWarning :: BufLintStatus where "BufLintStatusWarning = ''warning''"
definition BufLintStatusFailed :: BufLintStatus where "BufLintStatusFailed = ''failed''"

record BufLintResult =
  Lint_Status :: BufLintStatus
  Lint_Report :: string

text \<open>\<^verbatim>\<open>INSERT ... ON CONFLICT (module_version_id) DO UPDATE\<close>; the JSON columns are the lists they encode.\<close>

definition config_row_of :: "string \<Rightarrow> string \<Rightarrow> BufConfigInfo \<Rightarrow> time \<Rightarrow> config_row" where
  "config_row_of i v config now =
     \<lparr>cfg_id = i, cfg_module_version_id = v, cfg_buf_yaml_present = Buf_BufYAMLPresent config,
      cfg_buf_lock_present = Buf_BufLockPresent config,
      cfg_buf_yaml_digest = Buf_BufYAMLDigest config, cfg_buf_lock_digest = Buf_BufLockDigest config,
      cfg_module_paths = Buf_ModulePaths config, cfg_deps = Buf_Deps config,
      cfg_lint_enabled = Buf_LintEnabled config,
      cfg_breaking_config_present = Buf_BreakingConfigPresent config, cfg_created_at = now\<rparr>"

definition upsert_config :: "config_row \<Rightarrow> unit sql" where
  "upsert_config row d =
     (if list_ex (\<lambda>r. cfg_module_version_id r = cfg_module_version_id row) (db_configs d)
      then (Inr (), db_configs_update (map (\<lambda>r.
        if cfg_module_version_id r = cfg_module_version_id row
        then row\<lparr>cfg_id := cfg_id r, cfg_created_at := cfg_created_at r\<rparr> else r)) d)
      else insert_into db_configs db_configs_update (\<lambda>r s. cfg_id r = cfg_id s)
        (\<lambda>d. has_id ver_id (db_versions d) (cfg_module_version_id row)) row d)"

definition BufConfigRepo_Save :: "ModuleVersionID \<Rightarrow> BufConfigInfo \<Rightarrow> unit io" where
  "BufConfigRepo_Save moduleVersionID config =
     bindE clock_now (\<lambda>now.
       stmt (\<lambda>p. bindE (uuid p moduleVersionID) (\<lambda>v. bindE (gen_id p) (\<lambda>i.
         upsert_config (config_row_of i v config now)))))"

definition scanBufConfig :: "config_row \<Rightarrow> goerr + BufConfigInfo" where
  "scanBufConfig r =
     Inr \<lparr>Buf_BufYAMLPresent = cfg_buf_yaml_present r, Buf_BufLockPresent = cfg_buf_lock_present r,
       Buf_BufYAMLDigest = cfg_buf_yaml_digest r, Buf_BufLockDigest = cfg_buf_lock_digest r,
       Buf_ModulePaths = cfg_module_paths r, Buf_Deps = cfg_deps r,
       Buf_LintEnabled = cfg_lint_enabled r,
       Buf_BreakingConfigPresent = cfg_breaking_config_present r\<rparr>"

definition BufConfigRepo_GetByModuleVersion :: "ModuleVersionID \<Rightarrow> BufConfigInfo io" where
  "BufConfigRepo_GetByModuleVersion moduleVersionID =
     query_row
       (\<lambda>p. bindE (uuid p moduleVersionID) (\<lambda>v.
          select (\<lambda>d. filter (\<lambda>r. cfg_module_version_id r = v) (db_configs d))))
       scanBufConfig"

section \<open>GitLab projects\<close>

record ModuleGitLabProject =
  Mapping_ID :: string
  Mapping_ModuleID :: ModuleID
  Mapping_ModuleName :: ModuleName
  Mapping_GitLabBaseURL :: string
  Mapping_GitLabProjectID :: int
  Mapping_GitLabProjectPath :: string
  Mapping_CreatedAt :: time
  Mapping_UpdatedAt :: time

definition TrimRight_char :: "char \<Rightarrow> string \<Rightarrow> string" where
  "TrimRight_char c s = rev (dropWhile (\<lambda>x. x = c) (rev s))"

definition path_spaces :: string where
  "path_spaces = [CHR '' '', CHR 0x09, CHR 0x0D, CHR 0x0A]"

text \<open>\<^verbatim>\<open>Normalized\<close>; \<^verbatim>\<open>IsAbs\<close> is a scheme that is not empty.\<close>

definition Mapping_Normalized ::
  "(string \<Rightarrow> parsed_url option) \<Rightarrow> ModuleGitLabProject \<Rightarrow> goerr + ModuleGitLabProject" where
  "Mapping_Normalized parse mapping =
     bindR (NewModuleName (Mapping_ModuleName mapping)) (\<lambda>moduleName.
       let baseURL = TrimSpace (Mapping_GitLabBaseURL mapping) in
       case parse baseURL of
         None \<Rightarrow> Inl (Domain ErrInvalidGitLabBaseURL)
       | Some parsed \<Rightarrow>
           if URL_Scheme parsed = '''' \<or> URL_Host parsed = ''''
           then Inl (Domain ErrInvalidGitLabBaseURL)
           else if URL_Scheme parsed \<noteq> ''http'' \<and> URL_Scheme parsed \<noteq> ''https''
           then Inl (Domain ErrInvalidGitLabBaseURL)
           else if Mapping_GitLabProjectID mapping \<le> 0 then Inl (Domain ErrInvalidGitLabProjectID)
           else
             let projectPath = TrimSpace (Mapping_GitLabProjectPath mapping) in
             if projectPath = '''' \<or> ContainsAny projectPath path_spaces
             then Inl (Domain ErrInvalidGitLabProjectPath)
             else Inr (mapping\<lparr>Mapping_ModuleName := moduleName,
               Mapping_GitLabBaseURL := TrimRight_char (CHR ''/'') baseURL,
               Mapping_GitLabProjectPath := projectPath\<rparr>))"

text \<open>\<^verbatim>\<open>INSERT ... ON CONFLICT (module_id) DO UPDATE\<close>.\<close>

definition same_project :: "project_row \<Rightarrow> project_row \<Rightarrow> bool" where
  "same_project r s \<longleftrightarrow>
     prj_gitlab_base_url r = prj_gitlab_base_url s \<and> prj_gitlab_project_id r = prj_gitlab_project_id s"

definition upsert_project :: "project_row \<Rightarrow> unit sql" where
  "upsert_project row d =
     (if list_ex (\<lambda>r. prj_module_id r = prj_module_id row) (db_projects d)
      then
        (if list_ex (\<lambda>r. prj_module_id r \<noteq> prj_module_id row \<and> same_project r row) (db_projects d)
         then (Inl UniqueViolation, d)
         else (Inr (), db_projects_update (map (\<lambda>r.
           if prj_module_id r = prj_module_id row
           then row\<lparr>prj_id := prj_id r, prj_created_at := prj_created_at r\<rparr> else r)) d))
      else insert_into db_projects db_projects_update
        (\<lambda>r s. prj_id r = prj_id s \<or> same_project r s)
        (\<lambda>d. has_id mod_id (db_modules d) (prj_module_id row)) row d)"

definition GitLabRepo_Upsert ::
  "(string \<Rightarrow> parsed_url option) \<Rightarrow> ModuleGitLabProject \<Rightarrow> unit io" where
  "GitLabRepo_Upsert parse mapping =
     bindE (liftE (Mapping_Normalized parse mapping)) (\<lambda>normalized.
       stmt (\<lambda>p. bindE (uuid p (Mapping_ID normalized)) (\<lambda>i.
         bindE (uuid p (Mapping_ModuleID normalized)) (\<lambda>m.
         upsert_project \<lparr>prj_id = i, prj_module_id = m,
           prj_gitlab_base_url = Mapping_GitLabBaseURL normalized,
           prj_gitlab_project_id = Mapping_GitLabProjectID normalized,
           prj_gitlab_project_path = Mapping_GitLabProjectPath normalized,
           prj_created_at = Mapping_CreatedAt normalized,
           prj_updated_at = Mapping_UpdatedAt normalized\<rparr>))))"

definition scanModuleGitLabProject :: "project_row \<times> string \<Rightarrow> goerr + ModuleGitLabProject" where
  "scanModuleGitLabProject row =
     (case row of (r, moduleName) \<Rightarrow>
        bindR (NewModuleName moduleName) (\<lambda>parsedModuleName.
          Inr \<lparr>Mapping_ID = NewID (prj_id r), Mapping_ModuleID = NewID (prj_module_id r),
            Mapping_ModuleName = parsedModuleName,
            Mapping_GitLabBaseURL = prj_gitlab_base_url r,
            Mapping_GitLabProjectID = prj_gitlab_project_id r,
            Mapping_GitLabProjectPath = prj_gitlab_project_path r,
            Mapping_CreatedAt = prj_created_at r, Mapping_UpdatedAt = prj_updated_at r\<rparr>))"

definition GitLabRepo_getOne ::
  "(platform \<Rightarrow> (project_row \<times> string) list sql) \<Rightarrow> ModuleGitLabProject io" where
  "GitLabRepo_getOne sql = mapErr mapError (query_row sql scanModuleGitLabProject)"

definition GitLabRepo_GetByModuleID :: "ModuleID \<Rightarrow> ModuleGitLabProject io" where
  "GitLabRepo_GetByModuleID moduleID =
     GitLabRepo_getOne (\<lambda>p. bindE (uuid p moduleID) (\<lambda>m.
       select (\<lambda>d. join_modules prj_module_id
         (filter (\<lambda>r. prj_module_id r = m) (db_projects d)) d)))"

definition GitLabRepo_GetByGitLabProject :: "string \<Rightarrow> int \<Rightarrow> ModuleGitLabProject io" where
  "GitLabRepo_GetByGitLabProject gitLabBaseURL gitLabProjectID =
     GitLabRepo_getOne (\<lambda>p.
       select (\<lambda>d. join_modules prj_module_id
         (filter (\<lambda>r. prj_gitlab_base_url r = gitLabBaseURL
                    \<and> prj_gitlab_project_id r = gitLabProjectID) (db_projects d)) d))"

end
