(* ===== verification/Owner_Service.thy ===== *)
theory Owner_Service
  imports Approval_Effects
begin

text \<open>
  Module owners, \<^verbatim>\<open>internal/usecase/governance/service.go\<close>, and whom a request acts for,
  \<^verbatim>\<open>internal/usecase/governance/actor.go\<close>. Owners are the subjects the approval workflow lets decide,
  so the lemmas end with the link between the two: what an owner entry changes in
  \<^verbatim>\<open>actorCanDecide\<close>.
\<close>

section \<open>Actors\<close>

type_synonym PrincipalType = string

definition PrincipalTypeAPIToken :: PrincipalType where "PrincipalTypeAPIToken = ''api_token''"

record Principal =
  Principal_Subject :: string
  Principal_DisplayName :: string
  Principal_Type :: PrincipalType
  Principal_Metadata :: "(string \<times> string) list"

definition Principal_IsZero :: "Principal \<Rightarrow> bool" where
  "Principal_IsZero prin \<longleftrightarrow>
     TrimSpace (Principal_Subject prin) = ''''
     \<or> TrimSpace (Principal_Type prin) = ''''"

record GovernanceActor =
  Actor_Subject :: string
  Actor_DisplayName :: string
  Actor_Source :: string
  Actor_PrincipalType :: string
  Actor_Override :: bool
  Actor_OriginalSubject :: string

definition ActorFromPrincipal :: "Principal \<Rightarrow> goerr + GovernanceActor" where
  "ActorFromPrincipal prin =
     (let subject = TrimSpace (Principal_Subject prin);
          displayName = TrimSpace (Principal_DisplayName prin) in
      if subject = '''' then Inl (Governance GovErrInvalidApprovalActor)
      else Inr \<lparr>Actor_Subject = subject,
             Actor_DisplayName = (if displayName = '''' then subject else displayName),
             Actor_Source = ''principal'',
             Actor_PrincipalType = TrimSpace (Principal_Type prin),
             Actor_Override = False, Actor_OriginalSubject = ''''\<rparr>)"

text \<open>\<^verbatim>\<open>ActorOverridePolicy\<close> has one field, \<^verbatim>\<open>Enabled\<close>.\<close>

definition ResolveGovernanceActor :: "Principal \<Rightarrow> string \<Rightarrow> bool \<Rightarrow> goerr + GovernanceActor" where
  "ResolveGovernanceActor prin requestedActor enabled =
     bindR (ActorFromPrincipal prin) (\<lambda>actor.
       let requested = TrimSpace requestedActor in
       if requested = '''' \<or> requested = Actor_Subject actor then Inr actor
       else if \<not> enabled then Inl (Governance GovErrGovernanceActorOverrideForbidden)
       else Inr \<lparr>Actor_Subject = requested, Actor_DisplayName = requested,
              Actor_Source = ''override'', Actor_PrincipalType = Actor_PrincipalType actor,
              Actor_Override = True, Actor_OriginalSubject = Actor_Subject actor\<rparr>)"

lemma ResolveGovernanceActor_Inr:
  assumes "ResolveGovernanceActor prin requested enabled = Inr actor"
  shows "Actor_Subject actor \<noteq> '''' \<and> TrimSpace (Actor_Subject actor) = Actor_Subject actor
    \<and> (Actor_Override actor \<longrightarrow> enabled \<and> Actor_Subject actor = TrimSpace requested
         \<and> Actor_OriginalSubject actor = TrimSpace (Principal_Subject prin))
    \<and> (\<not> Actor_Override actor \<longrightarrow> Actor_Subject actor = TrimSpace (Principal_Subject prin))"
  using assms
  by (auto simp: ResolveGovernanceActor_def ActorFromPrincipal_def bindR_Inr Let_def split: if_splits)

section \<open>Operations\<close>

record AddModuleOwnerInput =
  AddOwner_ModuleName :: string
  AddOwner_SubjectType :: string
  AddOwner_Subject :: string
  AddOwner_Role :: string
  AddOwner_Actor :: string

record RemoveModuleOwnerInput =
  RemoveOwner_ModuleName :: string
  RemoveOwner_OwnerID :: string
  RemoveOwner_Actor :: string

text \<open>\<^verbatim>\<open>if err != nil { return ErrX }\<close>.\<close>

definition orErr :: "goerr + 'a \<Rightarrow> goerr \<Rightarrow> 'a io" where
  "orErr r e = liftE (map_sum (\<lambda>_. e) (\<lambda>x. x) r)"

lemma orErr_Inr [simp]: "orErr r e w = (Inr x, w') \<longleftrightarrow> r = Inr x \<and> w' = w"
  by (cases r) (auto simp: orErr_def)

definition mapOwnerValidationError :: "goerr \<Rightarrow> goerr" where
  "mapOwnerValidationError err =
     (if errors_Is err (Domain ErrInvalidGovernanceSubjectType)
      then Governance GovErrInvalidSubjectType
      else if errors_Is err (Domain ErrInvalidGovernanceSubject) then Governance GovErrInvalidSubject
      else if errors_Is err (Domain ErrInvalidModuleOwnerRole)
      then Governance GovErrInvalidModuleOwnerRole
      else err)"

definition appendOwnerAudit ::
  "GovernanceAuditEventType \<Rightarrow> ModuleOwner \<Rightarrow> string \<Rightarrow> time \<Rightarrow> unit io" where
  "appendOwnerAudit eventType owner actor occurredAt =
     bindE NewRandomID (\<lambda>auditID.
       AuditSink_Record
         \<lparr>Event_ID = auditID, Event_Type = GovernanceAuditEventType_String eventType,
          Event_Actor = TrimSpace actor, Event_Action = GovernanceAuditEventType_String eventType,
          Event_Outcome = OutcomeSuccess,
          Event_Resource = \<lparr>Resource_Type = ''module'', Resource_ID = Owner_ModuleID owner,
            Resource_Name = Owner_ModuleName owner\<rparr>,
          Event_RelatedResources = [],
          Event_Payload = JObject
            [(''owner_id'', JString (Owner_ID owner)),
             (''subject_type'', JString (GovernanceSubjectType_String (Owner_SubjectType owner))),
             (''subject'', JString (Owner_Subject owner)),
             (''role'', JString (ModuleOwnerRole_String (Owner_Role owner)))],
          Event_OccurredAt = occurredAt\<rparr>)"

definition addOwnerTransaction :: "ModuleOwner \<Rightarrow> string \<Rightarrow> time \<Rightarrow> unit io" where
  "addOwnerTransaction owner actor now =
     WithinTransaction
       (bindE (mapErr (\<lambda>err. if errors_Is err (Domain ErrDuplicate)
                 then Governance GovErrModuleOwnerAlreadyExists else mapOwnerValidationError err)
                 (OwnerRepo_Add owner)) (\<lambda>_.
        bindE (appendOwnerAudit GovernanceAuditEventTypeModuleOwnerAdded owner actor now) (\<lambda>_.
          Outbox_Create (NewModuleOwnerAdded owner actor now))))"

definition AddModuleOwner :: "AddModuleOwnerInput \<Rightarrow> ModuleOwner io" where
  "AddModuleOwner input =
     (let subject = TrimSpace (AddOwner_Subject input) in
      bindE (orErr (NewModuleName (AddOwner_ModuleName input)) (Governance GovErrInvalidModuleName))
        (\<lambda>moduleName.
      bindE (orErr (NewGovernanceSubjectType (AddOwner_SubjectType input))
               (Governance GovErrInvalidSubjectType)) (\<lambda>subjectType.
      bindE (failIf (subject = '''') (Governance GovErrInvalidSubject)) (\<lambda>_.
      bindE (orErr (NewModuleOwnerRole (AddOwner_Role input))
               (Governance GovErrInvalidModuleOwnerRole)) (\<lambda>role.
      bindE (liftE (effectiveActorSubject (AddOwner_Actor input))) (\<lambda>actor.
      bindE (replaceErr (Domain ErrNotFound) (Governance GovErrModuleNotFound)
               (ModuleRepo_GetByName moduleName)) (\<lambda>module.
      bindE clock_now (\<lambda>now.
      bindE NewRandomID (\<lambda>ownerID.
        let owner = \<lparr>Owner_ID = ownerID, Owner_ModuleID = Module_ID module,
              Owner_ModuleName = Module_Name module, Owner_SubjectType = subjectType,
              Owner_Subject = subject, Owner_Role = role, Owner_CreatedAt = now,
              Owner_UpdatedAt = now\<rparr>
        in bindE (mapErr mapOwnerValidationError (liftE (ModuleOwner_Validate owner))) (\<lambda>_.
           bindE (addOwnerTransaction owner actor now) (\<lambda>_. ret owner)))))))))))"

definition removeOwnerTransaction :: "ModuleOwner \<Rightarrow> string \<Rightarrow> time \<Rightarrow> unit io" where
  "removeOwnerTransaction owner actor now =
     WithinTransaction
       (bindE (replaceErr (Domain ErrNotFound) (Governance GovErrModuleOwnerNotFound)
                 (OwnerRepo_Remove (Owner_ID owner))) (\<lambda>_.
        bindE (appendOwnerAudit GovernanceAuditEventTypeModuleOwnerRemoved owner actor now) (\<lambda>_.
          Outbox_Create (NewModuleOwnerRemoved owner actor now))))"

definition RemoveModuleOwner :: "RemoveModuleOwnerInput \<Rightarrow> unit io" where
  "RemoveModuleOwner input =
     (let ownerID = NewID (RemoveOwner_OwnerID input) in
      bindE (orErr (NewModuleName (RemoveOwner_ModuleName input)) (Governance GovErrInvalidModuleName))
        (\<lambda>moduleName.
      bindE (failIf (ownerID = '''') (Governance GovErrInvalidModuleOwnerID)) (\<lambda>_.
      bindE (liftE (effectiveActorSubject (RemoveOwner_Actor input))) (\<lambda>actor.
      bindE (replaceErr (Domain ErrNotFound) (Governance GovErrModuleNotFound)
               (ModuleRepo_GetByName moduleName)) (\<lambda>module.
      bindE (replaceErr (Domain ErrNotFound) (Governance GovErrModuleOwnerNotFound)
               (OwnerRepo_GetByID ownerID)) (\<lambda>owner.
      bindE (failIf (Owner_ModuleID owner \<noteq> Module_ID module) (Governance GovErrModuleOwnerNotFound))
        (\<lambda>_.
      bindE clock_now (\<lambda>now.
        removeOwnerTransaction
          (owner\<lparr>Owner_ModuleName := Module_Name module, Owner_UpdatedAt := now\<rparr>) actor now))))))))"

definition ListModuleOwners :: "string \<Rightarrow> ModuleOwner list io" where
  "ListModuleOwners input =
     bindE (orErr (NewModuleName input) (Governance GovErrInvalidModuleName)) (\<lambda>moduleName.
     bindE (replaceErr (Domain ErrNotFound) (Governance GovErrModuleNotFound)
              (ModuleRepo_GetByName moduleName)) (\<lambda>module.
       OwnerRepo_ListByModule (Module_ID module)))"

section \<open>Effects\<close>

lemma owner_env:
  "steps same_env (OwnerRepo_Add owner)" "steps same_env (OwnerRepo_Remove ownerID)"
  "steps same_env NewRandomID" "steps same_env (appendOwnerAudit eventType owner actor at)"
  "steps same_env (OwnerRepo_GetByID ownerID)"
  "steps same_env (addOwnerTransaction owner actor at)"
  "steps same_env (removeOwnerTransaction owner actor at)"
  unfolding OwnerRepo_Add_def OwnerRepo_Remove_def NewRandomID_def appendOwnerAudit_def
    OwnerRepo_GetByID_def
    addOwnerTransaction_def removeOwnerTransaction_def replaceErr_def
  by (intro env_rules approval_env)+

lemma owner_reads:
  "reads_only (OwnerRepo_GetByID ownerID)" "reads_only NewRandomID"
  unfolding OwnerRepo_GetByID_def NewRandomID_def reads_only_def
  by (intro same_db.world_rules; auto simp: bindE_Inr)+

lemma orErr_reads: "reads_only (orErr r e)"
  unfolding orErr_def reads_only_def by (rule same_db.steps_liftE)

lemma appendOwnerAudit_Inr:
  assumes "appendOwnerAudit eventType owner actor at w = (Inr u, w')"
  obtains row where "w_db w' = db_audits_update (\<lambda>rows. rows @ [row]) (w_db w)"
    and "aud_event_type row = GovernanceAuditEventType_String eventType"
    and "aud_actor row = TrimSpace actor" and "aud_created_at row = at" and "same_env w w'"
proof (rule audited_Inr [OF assms [unfolded appendOwnerAudit_def], of eventType "TrimSpace actor" at])
qed (simp, simp, simp, rule that)

text \<open>What a module row says when it is read back by its name.\<close>

lemma GetByName_Inr:
  assumes "ModuleRepo_GetByName name w = (Inr m, w')"
  obtains row where "row \<in> set (db_modules (w_db w))" and "mod_name row = name"
    and "Module_ID m = NewID (mod_id row)" and "NewModuleName name = Inr (Module_Name m)"
  using assms unfolding ModuleRepo_GetByName_def
proof (rule query_row_Inr)
  fix row rest d
  assume "select (\<lambda>d. filter (\<lambda>r. mod_name r = name) (db_modules d)) (w_db w) = (Inr (row # rest), d)"
    and scan: "scanModule row = Inr m"
  then have "row # rest = filter (\<lambda>r. mod_name r = name) (db_modules (w_db w))" by simp
  then have "row \<in> set (filter (\<lambda>r. mod_name r = name) (db_modules (w_db w)))"
    by (metis list.set_intros(1))
  then show thesis
    using scan by (intro that [of row]) (auto simp: scanModule_def bindR_Inr)
qed

text \<open>Both transactions, as an equation on the tables.\<close>

definition owner_added_db :: "owner_row \<Rightarrow> audit_row \<Rightarrow> outbox_row \<Rightarrow> db \<Rightarrow> db" where
  "owner_added_db row audit event d =
     db_outbox_update (\<lambda>rows. rows @ [event]) (db_generated_update Suc
       (db_audits_update (\<lambda>rows. rows @ [audit]) (db_owners_update (\<lambda>rows. rows @ [row]) d)))"

definition owner_removed_db :: "string \<Rightarrow> audit_row \<Rightarrow> outbox_row \<Rightarrow> db \<Rightarrow> db" where
  "owner_removed_db oid audit event d =
     db_outbox_update (\<lambda>rows. rows @ [event]) (db_generated_update Suc
       (db_audits_update (\<lambda>rows. rows @ [audit]) (db_owners_update (filter (\<lambda>r. own_id r \<noteq> oid)) d)))"

lemma owner_db_simps [simp]:
  "db_owners (owner_added_db row audit event d) = db_owners d @ [row]"
  "db_audits (owner_added_db row audit event d) = db_audits d @ [audit]"
  "db_outbox (owner_added_db row audit event d) = db_outbox d @ [event]"
  "ledger_of (owner_added_db row audit event d) = ledger_of d"
  "db_modules (owner_added_db row audit event d) = db_modules d"
  "db_owners (owner_removed_db oid audit event d) = filter (\<lambda>r. own_id r \<noteq> oid) (db_owners d)"
  "db_audits (owner_removed_db oid audit event d) = db_audits d @ [audit]"
  "db_outbox (owner_removed_db oid audit event d) = db_outbox d @ [event]"
  "ledger_of (owner_removed_db oid audit event d) = ledger_of d"
  "db_modules (owner_removed_db oid audit event d) = db_modules d"
  by (simp_all add: owner_added_db_def owner_removed_db_def ledger_of_def)

lemma addOwnerTransaction_Inr:
  assumes "addOwnerTransaction owner actor at w = (Inr u, w')" and "\<not> w_tx w"
  obtains oid mid audit event where "p_uuid (w_platform w) (Owner_ID owner) = Some oid"
    and "p_uuid (w_platform w) (Owner_ModuleID owner) = Some mid"
    and "\<forall>r \<in> set (db_owners (w_db w)). \<not> owner_clash (row_of_owner oid mid owner) r"
    and "has_id mod_id (db_modules (w_db w)) mid"
    and "w_db w' = owner_added_db (row_of_owner oid mid owner) audit event (w_db w)"
    and "aud_event_type audit = ''module_owner_added''" and "aud_actor audit = TrimSpace actor"
    and "obx_event_type event = ''protoradar.module_owner.added''" and "obx_status event = ''pending''"
proof -
  let ?w0 = "w\<lparr>w_calls := Suc (w_calls w), w_tx := True\<rparr>"
  obtain w1 w2 w3 where add: "OwnerRepo_Add owner ?w0 = (Inr (), w1)"
    and audit: "appendOwnerAudit GovernanceAuditEventTypeModuleOwnerAdded owner actor at w1 = (Inr (), w2)"
    and emit: "Outbox_Create (NewModuleOwnerAdded owner actor at) w2 = (Inr (), w3)"
    and w': "w_db w' = w_db w3"
    using assms by (auto simp: addOwnerTransaction_def bindE_Inr elim!: WithinTransaction_success)
  show ?thesis
  proof (rule OwnerRepo_Add_Inr [OF add])
    fix oid mid
    assume row: "p_uuid (w_platform ?w0) (Owner_ID owner) = Some oid"
      "p_uuid (w_platform ?w0) (Owner_ModuleID owner) = Some mid"
      "\<forall>r \<in> set (db_owners (w_db ?w0)). \<not> owner_clash (row_of_owner oid mid owner) r"
      "has_id mod_id (db_modules (w_db ?w0)) mid"
      "w_db w1 = db_owners_update (\<lambda>rows. rows @ [row_of_owner oid mid owner]) (w_db ?w0)"
    show thesis
    proof (rule appendOwnerAudit_Inr [OF audit], rule Outbox_Create_Inr [OF emit])
      fix log oid2 at2
      assume d2: "w_db w2 = db_audits_update (\<lambda>rows. rows @ [log]) (w_db w1)"
        and d3: "w_db w3 = db_outbox_update
          (\<lambda>rows. rows @ [new_outbox_row oid2 (NewModuleOwnerAdded owner actor at) at2])
          (db_generated_update Suc (w_db w2))"
        and log: "aud_event_type log
            = GovernanceAuditEventType_String GovernanceAuditEventTypeModuleOwnerAdded"
          "aud_actor log = TrimSpace actor"
      show thesis
        by (rule that [of oid mid log "new_outbox_row oid2 (NewModuleOwnerAdded owner actor at) at2"])
          (use row d2 d3 w' log in \<open>simp_all add: owner_added_db_def NewModuleOwnerAdded_def Let_def new_record_def\<close>)
    qed
  qed
qed

lemma removeOwnerTransaction_Inr:
  assumes "removeOwnerTransaction owner actor at w = (Inr u, w')" and "\<not> w_tx w"
  obtains oid audit event where "p_uuid (w_platform w) (Owner_ID owner) = Some oid"
    and "\<exists>r \<in> set (db_owners (w_db w)). own_id r = oid"
    and "w_db w' = owner_removed_db oid audit event (w_db w)"
    and "aud_event_type audit = ''module_owner_removed''" and "aud_actor audit = TrimSpace actor"
    and "obx_event_type event = ''protoradar.module_owner.removed''" and "obx_status event = ''pending''"
proof -
  let ?w0 = "w\<lparr>w_calls := Suc (w_calls w), w_tx := True\<rparr>"
  obtain w1 w2 w3 where remove: "OwnerRepo_Remove (Owner_ID owner) ?w0 = (Inr (), w1)"
    and audit: "appendOwnerAudit GovernanceAuditEventTypeModuleOwnerRemoved owner actor at w1 = (Inr (), w2)"
    and emit: "Outbox_Create (NewModuleOwnerRemoved owner actor at) w2 = (Inr (), w3)"
    and w': "w_db w' = w_db w3"
    using assms
    by (auto simp: removeOwnerTransaction_def replaceErr_def bindE_Inr elim!: WithinTransaction_success)
  show ?thesis
  proof (rule OwnerRepo_Remove_Inr [OF remove])
    fix oid
    assume row: "p_uuid (w_platform ?w0) (Owner_ID owner) = Some oid"
      "\<exists>r \<in> set (db_owners (w_db ?w0)). own_id r = oid"
      "w_db w1 = db_owners_update (filter (\<lambda>r. own_id r \<noteq> oid)) (w_db ?w0)"
    show thesis
    proof (rule appendOwnerAudit_Inr [OF audit], rule Outbox_Create_Inr [OF emit])
      fix log oid2 at2
      assume d2: "w_db w2 = db_audits_update (\<lambda>rows. rows @ [log]) (w_db w1)"
        and d3: "w_db w3 = db_outbox_update
          (\<lambda>rows. rows @ [new_outbox_row oid2 (NewModuleOwnerRemoved owner actor at) at2])
          (db_generated_update Suc (w_db w2))"
        and log: "aud_event_type log
            = GovernanceAuditEventType_String GovernanceAuditEventTypeModuleOwnerRemoved"
          "aud_actor log = TrimSpace actor"
      show thesis
        by (rule that [of oid log "new_outbox_row oid2 (NewModuleOwnerRemoved owner actor at) at2"])
          (use row d2 d3 w' log in \<open>simp_all add: owner_removed_db_def NewModuleOwnerRemoved_def Let_def new_record_def\<close>)
    qed
  qed
qed

section \<open>What the operations do\<close>

text \<open>A run that succeeds, read back to its transaction.\<close>

lemma AddModuleOwner_run:
  assumes "AddModuleOwner input w = (Inr owner, w')"
  obtains m actor now w1 where "addOwnerTransaction owner actor now w1 = (Inr (), w')"
    and "w_db w1 = w_db w" and "same_env w w1"
    and "effectiveActorSubject (AddOwner_Actor input) = Inr actor"
    and "NewModuleOwnerRole (AddOwner_Role input) = Inr (Owner_Role owner)"
    and "NewGovernanceSubjectType (AddOwner_SubjectType input) = Inr (Owner_SubjectType owner)"
    and "Owner_Subject owner = TrimSpace (AddOwner_Subject input)" and "Owner_Subject owner \<noteq> ''''"
    and "\<exists>row \<in> set (db_modules (w_db w)). mod_name row = TrimSpace (AddOwner_ModuleName input)
          \<and> Owner_ModuleID owner = NewID (mod_id row)"
  using assms unfolding AddModuleOwner_def Let_def
proof (elim bindE_InrE)
  fix moduleName subjectType role actor and m :: Module and now ownerID u v x w2 w3 w4 w5 w6 w7 w8 w9 w10 w11
  let ?owner = "\<lparr>Owner_ID = ownerID, Owner_ModuleID = Module_ID m, Owner_ModuleName = Module_Name m,
      Owner_SubjectType = subjectType, Owner_Subject = TrimSpace (AddOwner_Subject input),
      Owner_Role = role, Owner_CreatedAt = now, Owner_UpdatedAt = now\<rparr>"
  assume name: "orErr (NewModuleName (AddOwner_ModuleName input)) (Governance GovErrInvalidModuleName) w = (Inr moduleName, w2)"
    and subjectType: "orErr (NewGovernanceSubjectType (AddOwner_SubjectType input)) (Governance GovErrInvalidSubjectType) w2 = (Inr subjectType, w3)"
    and subject: "failIf (TrimSpace (AddOwner_Subject input) = '''') (Governance GovErrInvalidSubject) w3 = (Inr u, w4)"
    and role: "orErr (NewModuleOwnerRole (AddOwner_Role input)) (Governance GovErrInvalidModuleOwnerRole) w4 = (Inr role, w5)"
    and actor: "liftE (effectiveActorSubject (AddOwner_Actor input)) w5 = (Inr actor, w6)"
    and get: "replaceErr (Domain ErrNotFound) (Governance GovErrModuleNotFound) (ModuleRepo_GetByName moduleName) w6 = (Inr m, w7)"
    and clock: "clock_now w7 = (Inr now, w8)" and draw: "NewRandomID w8 = (Inr ownerID, w9)"
    and valid: "mapErr mapOwnerValidationError (liftE (ModuleOwner_Validate ?owner)) w9 = (Inr v, w10)"
    and tx: "addOwnerTransaction ?owner actor now w10 = (Inr x, w11)"
    and result: "ret ?owner w11 = (Inr owner, w')"
  have first: "w6 = w" "w10 = w9" using name subjectType subject role actor valid by simp_all
  have get: "ModuleRepo_GetByName moduleName w = (Inr m, w7)"
    using get first by (simp add: replaceErr_def)
  have "w_db w7 = w_db w" "same_env w w7"
    using reads_onlyD [OF registry_reads(1) get] stepsD [OF registry_env(1) get] by simp_all
  moreover have "w_db w9 = w_db w8" "same_env w8 w9"
    using reads_onlyD [OF owner_reads(2) draw] stepsD [OF owner_env(3) draw] by simp_all
  moreover have "w_db w8 = w_db w7" "same_env w7 w8" using clock_now_run [OF clock] by simp_all
  ultimately have w9: "w_db w9 = w_db w" "same_env w w9" using env.step_trans by metis+
  have name: "NewModuleName (AddOwner_ModuleName input) = Inr moduleName" using name by simp
  obtain row where "row \<in> set (db_modules (w_db w))" "mod_name row = moduleName"
    "Module_ID m = NewID (mod_id row)"
    using get by (rule GetByName_Inr)
  moreover have "moduleName = TrimSpace (AddOwner_ModuleName input)"
    using name by (auto simp: NewModuleName_def Let_def split: if_splits)
  moreover have "w11 = w'" "owner = ?owner" using result by auto
  ultimately show thesis
    using tx w9 first subjectType subject role actor by (intro that [of actor now w9]) auto
qed

text \<open>An owner read by its identifier.\<close>

lemma GetOwner_Inr:
  assumes "OwnerRepo_GetByID ownerID w = (Inr owner, w')"
  obtains row where "row \<in> set (db_owners (w_db w))"
    and "p_uuid (w_platform w) ownerID = Some (own_id row)"
    and "Owner_ID owner = NewID (own_id row)" and "Owner_ModuleID owner = NewID (own_module_id row)"
proof -
  have "query_row
      (\<lambda>p. bindE (uuid p ownerID) (\<lambda>u.
        select (\<lambda>d. join_modules own_module_id (filter (\<lambda>r. own_id r = u) (db_owners d)) d)))
      scanModuleOwner w = (Inr owner, w')"
    using assms by (simp add: OwnerRepo_GetByID_def)
  then show thesis
  proof (rule query_row_Inr)
    fix row rest d
    assume sql: "bindE (uuid (w_platform w) ownerID) (\<lambda>u. select (\<lambda>d. join_modules own_module_id
          (filter (\<lambda>r. own_id r = u) (db_owners d)) d)) (w_db w) = (Inr (row # rest), d)"
      and scan: "scanModuleOwner row = Inr owner"
    obtain r n where row: "row = (r, n)" by fastforce
    obtain u where u: "p_uuid (w_platform w) ownerID = Some u"
      "row # rest = join_modules own_module_id (filter (\<lambda>r. own_id r = u) (db_owners (w_db w))) (w_db w)"
      using sql by (auto simp: bindE_Inr)
    then have "(r, n) \<in> set (join_modules own_module_id (filter (\<lambda>r. own_id r = u) (db_owners (w_db w))) (w_db w))"
      unfolding row by (metis list.set_intros(1))
    then show thesis
      using scan u(1) by (intro that [of r]) (auto simp: row join_modules_in scanModuleOwner_def bindR_Inr)
  qed
qed

lemma RemoveModuleOwner_run:
  assumes "RemoveModuleOwner input w = (Inr u, w')"
  obtains owner actor now w1 row where "removeOwnerTransaction owner actor now w1 = (Inr (), w')"
    and "w_db w1 = w_db w" and "same_env w w1"
    and "effectiveActorSubject (RemoveOwner_Actor input) = Inr actor"
    and "row \<in> set (db_owners (w_db w))"
    and "p_uuid (w_platform w) (NewID (RemoveOwner_OwnerID input)) = Some (own_id row)"
    and "Owner_ID owner = NewID (own_id row)"
    and "\<exists>r \<in> set (db_modules (w_db w)). mod_name r = TrimSpace (RemoveOwner_ModuleName input)
          \<and> NewID (own_module_id row) = NewID (mod_id r)"
  using assms unfolding RemoveModuleOwner_def Let_def
proof (elim bindE_InrE)
  fix moduleName actor and m :: Module and owner :: ModuleOwner and now v x w2 w3 w4 w5 w6 w7 w8
  let ?owner = "owner\<lparr>Owner_ModuleName := Module_Name m, Owner_UpdatedAt := now\<rparr>"
  assume name: "orErr (NewModuleName (RemoveOwner_ModuleName input)) (Governance GovErrInvalidModuleName) w = (Inr moduleName, w2)"
    and given: "failIf (NewID (RemoveOwner_OwnerID input) = '''') (Governance GovErrInvalidModuleOwnerID) w2 = (Inr v, w3)"
    and actor: "liftE (effectiveActorSubject (RemoveOwner_Actor input)) w3 = (Inr actor, w4)"
    and get: "replaceErr (Domain ErrNotFound) (Governance GovErrModuleNotFound) (ModuleRepo_GetByName moduleName) w4 = (Inr m, w5)"
    and own: "replaceErr (Domain ErrNotFound) (Governance GovErrModuleOwnerNotFound) (OwnerRepo_GetByID (NewID (RemoveOwner_OwnerID input))) w5 = (Inr owner, w6)"
    and fits: "failIf (Owner_ModuleID owner \<noteq> Module_ID m) (Governance GovErrModuleOwnerNotFound) w6 = (Inr x, w7)"
    and clock: "clock_now w7 = (Inr now, w8)"
    and tx: "removeOwnerTransaction ?owner actor now w8 = (Inr u, w')"
  have first: "w4 = w" "w7 = w6" using name given actor fits by simp_all
  have get: "ModuleRepo_GetByName moduleName w = (Inr m, w5)"
    using get first by (simp add: replaceErr_def)
  have own: "OwnerRepo_GetByID (NewID (RemoveOwner_OwnerID input)) w5 = (Inr owner, w6)"
    using own by (simp add: replaceErr_def)
  have w5: "w_db w5 = w_db w" "same_env w w5"
    using reads_onlyD [OF registry_reads(1) get] stepsD [OF registry_env(1) get] by simp_all
  moreover have "w_db w6 = w_db w5" "same_env w5 w6"
    using reads_onlyD [OF owner_reads(1) own] stepsD [OF owner_env(5) own] by simp_all
  moreover have "w_db w8 = w_db w7" "same_env w7 w8" using clock_now_run [OF clock] by simp_all
  ultimately have w8: "w_db w8 = w_db w" "same_env w w8" using first env.step_trans by metis+
  have name: "moduleName = TrimSpace (RemoveOwner_ModuleName input)"
    using name by (auto simp: NewModuleName_def Let_def split: if_splits)
  obtain r where "r \<in> set (db_modules (w_db w))" "mod_name r = moduleName" "Module_ID m = NewID (mod_id r)"
    using get by (rule GetByName_Inr)
  moreover obtain row where "row \<in> set (db_owners (w_db w))"
    "p_uuid (w_platform w) (NewID (RemoveOwner_OwnerID input)) = Some (own_id row)"
    "Owner_ID owner = NewID (own_id row)" "Owner_ModuleID owner = NewID (own_module_id row)"
    using GetOwner_Inr [OF own] w5 by (metis same_env_def)
  ultimately show thesis
    using tx w8 fits actor name by (intro that [of ?owner actor now w8 row]) auto
qed

end
