(* ===== verification/Access.thy ===== *)
theory Access
  imports Owner_Service Atomicity
begin

text \<open>
  Who may call what: API tokens (\<^verbatim>\<open>internal/repository/postgres/api_tokens.go\<close>), authentication by
  bearer token (\<^verbatim>\<open>internal/identity\<close>), the community authorizer (\<^verbatim>\<open>internal/authorization\<close>) and the
  capabilities of the edition (\<^verbatim>\<open>internal/edition\<close>). The keyed hash of a raw token (HMAC-SHA256 in
  hexadecimal) is an argument of the definitions that use it.
\<close>

section \<open>API tokens\<close>

definition scanAPIToken :: "token_row \<Rightarrow> goerr + APIToken" where
  "scanAPIToken r =
     Inr \<lparr>Token_ID = NewID (tok_id r), Token_Name = tok_name r, Token_TokenHash = tok_token_hash r,
       Token_CreatedAt = tok_created_at r, Token_LastUsedAt = tok_last_used_at r,
       Token_ExpiresAt = tok_expires_at r\<rparr>"

definition token_clash :: "token_row \<Rightarrow> token_row \<Rightarrow> bool" where
  "token_clash r s \<longleftrightarrow> tok_id r = tok_id s \<or> tok_token_hash r = tok_token_hash s"

definition TokenRepo_Create :: "APIToken \<Rightarrow> unit io" where
  "TokenRepo_Create token =
     stmt (\<lambda>p. bindE (uuid p (Token_ID token)) (\<lambda>u.
       insert_into db_tokens db_tokens_update token_clash (\<lambda>d. True)
         \<lparr>tok_id = u, tok_name = Token_Name token, tok_token_hash = Token_TokenHash token,
           tok_created_at = Token_CreatedAt token, tok_expires_at = Token_ExpiresAt token,
           tok_last_used_at = Token_LastUsedAt token\<rparr>))"

definition TokenRepo_GetByID :: "APITokenID \<Rightarrow> APIToken io" where
  "TokenRepo_GetByID tokenID =
     query_row
       (\<lambda>p. bindE (uuid p tokenID) (\<lambda>u.
          select (\<lambda>d. filter (\<lambda>r. tok_id r = u) (db_tokens d))))
       scanAPIToken"

definition TokenRepo_GetByHash :: "string \<Rightarrow> APIToken io" where
  "TokenRepo_GetByHash tokenHash =
     query_row (\<lambda>p. select (\<lambda>d. filter (\<lambda>r. tok_token_hash r = tokenHash) (db_tokens d)))
       scanAPIToken"

definition TokenRepo_MarkUsed :: "APITokenID \<Rightarrow> time \<Rightarrow> unit io" where
  "TokenRepo_MarkUsed tokenID usedAt =
     require_rows (stmt (\<lambda>p. bindE (uuid p tokenID) (\<lambda>u.
       update_where db_tokens db_tokens_update (\<lambda>r. tok_id r = u)
         (\<lambda>r. r\<lparr>tok_last_used_at := Some usedAt\<rparr>))))"

section \<open>Authentication\<close>

record AuthRequest =
  Auth_AuthorizationHeader :: string
  Auth_BearerToken :: string

definition Bearer :: "AuthRequest \<Rightarrow> string option" where
  "Bearer req =
     (if TrimSpace (Auth_BearerToken req) \<noteq> '''' then Some (TrimSpace (Auth_BearerToken req))
      else if \<not> HasPrefix (Auth_AuthorizationHeader req) ''Bearer '' then None
      else let token = TrimSpace (TrimPrefix (Auth_AuthorizationHeader req) ''Bearer '') in
           if token = '''' then None else Some token)"

definition token_subject :: "APIToken \<Rightarrow> string" where
  "token_subject token =
     (if TrimSpace (Token_Name token) = '''' then Token_ID token else TrimSpace (Token_Name token))"

definition token_principal :: "APIToken \<Rightarrow> Principal" where
  "token_principal token =
     \<lparr>Principal_Subject = token_subject token, Principal_DisplayName = token_subject token,
      Principal_Type = PrincipalTypeAPIToken,
      Principal_Metadata = [(''api_token_id'', Token_ID token)]\<rparr>"

text \<open>
  A failure to mark the token as used is only reported to the observer, so here it is ignored.
\<close>

definition Authenticate :: "(string \<Rightarrow> string) \<Rightarrow> AuthRequest \<Rightarrow> Principal io" where
  "Authenticate hashToken req =
     (case Bearer req of
        None \<Rightarrow> raise (Access AuthnErrUnauthenticated)
      | Some rawToken \<Rightarrow>
          bindE (replaceErr (Domain ErrNotFound) (Access AuthnErrUnauthenticated)
                   (TokenRepo_GetByHash (hashToken rawToken))) (\<lambda>token.
          bindE clock_now (\<lambda>now.
          bindE (failIf (IsExpired token now) (Access AuthnErrUnauthenticated)) (\<lambda>_.
          bindE (attempt (TokenRepo_MarkUsed (Token_ID token) now)) (\<lambda>_.
            ret (token_principal token))))))"

section \<open>Authorization\<close>

type_synonym Action = string

definition ActionModuleCreate :: Action where "ActionModuleCreate = ''module:create''"
definition ActionModuleRead :: Action where "ActionModuleRead = ''module:read''"
definition ActionModuleUpdate :: Action where "ActionModuleUpdate = ''module:update''"
definition ActionModuleDelete :: Action where "ActionModuleDelete = ''module:delete''"
definition ActionModuleVersionPublish :: Action where "ActionModuleVersionPublish = ''module_version:publish''"
definition ActionModuleVersionRead :: Action where "ActionModuleVersionRead = ''module_version:read''"
definition ActionModuleVersionDownload :: Action where "ActionModuleVersionDownload = ''module_version:download''"
definition ActionModuleVersionDeprecate :: Action where "ActionModuleVersionDeprecate = ''module_version:deprecate''"
definition ActionGitLabMappingManage :: Action where "ActionGitLabMappingManage = ''gitlab_mapping:manage''"
definition ActionGitLabMappingRead :: Action where "ActionGitLabMappingRead = ''gitlab_mapping:read''"
definition ActionBreakingCheckRun :: Action where "ActionBreakingCheckRun = ''breaking_check:run''"
definition ActionBreakingReportRead :: Action where "ActionBreakingReportRead = ''breaking_report:read''"
definition ActionDependencyGraphRead :: Action where "ActionDependencyGraphRead = ''dependency_graph:read''"
definition ActionRuntimeInventoryReport :: Action where "ActionRuntimeInventoryReport = ''runtime_inventory:report''"
definition ActionRuntimeInventoryRead :: Action where "ActionRuntimeInventoryRead = ''runtime_inventory:read''"
definition ActionGovernanceOwnerManage :: Action where "ActionGovernanceOwnerManage = ''governance_owner:manage''"
definition ActionGovernanceOwnerRead :: Action where "ActionGovernanceOwnerRead = ''governance_owner:read''"
definition ActionApprovalRequestCreate :: Action where "ActionApprovalRequestCreate = ''approval_request:create''"
definition ActionApprovalRequestRead :: Action where "ActionApprovalRequestRead = ''approval_request:read''"
definition ActionApprovalDecisionRecord :: Action where "ActionApprovalDecisionRecord = ''approval_decision:record''"
definition ActionGovernanceAuditRead :: Action where "ActionGovernanceAuditRead = ''governance_audit:read''"
definition ActionEditionRead :: Action where "ActionEditionRead = ''edition:read''"
definition ActionAdminRead :: Action where "ActionAdminRead = ''admin:read''"
definition ActionAdminWrite :: Action where "ActionAdminWrite = ''admin:write''"

definition community_actions :: "Action list" where
  "community_actions =
     [ActionModuleCreate, ActionModuleRead, ActionModuleUpdate, ActionModuleDelete,
      ActionModuleVersionPublish, ActionModuleVersionRead, ActionModuleVersionDownload,
      ActionModuleVersionDeprecate, ActionGitLabMappingManage, ActionGitLabMappingRead,
      ActionBreakingCheckRun, ActionBreakingReportRead, ActionDependencyGraphRead,
      ActionRuntimeInventoryReport, ActionRuntimeInventoryRead, ActionGovernanceOwnerManage,
      ActionGovernanceOwnerRead, ActionApprovalRequestCreate, ActionApprovalRequestRead,
      ActionApprovalDecisionRecord, ActionGovernanceAuditRead, ActionEditionRead]"

definition communityActionAllowed :: "Action \<Rightarrow> bool" where
  "communityActionAllowed action \<longleftrightarrow> action \<in> set community_actions"

record Resource =
  Authz_Type :: string
  Authz_ID :: string
  Authz_Name :: string
  Authz_Attributes :: "(string \<times> string) list"

definition ResourceWithName :: "string \<Rightarrow> string \<Rightarrow> Resource" where
  "ResourceWithName resourceType name =
     \<lparr>Authz_Type = TrimSpace resourceType, Authz_ID = '''', Authz_Name = TrimSpace name,
      Authz_Attributes = []\<rparr>"

definition ResourceWithID :: "string \<Rightarrow> string \<Rightarrow> Resource" where
  "ResourceWithID resourceType resourceID =
     \<lparr>Authz_Type = TrimSpace resourceType, Authz_ID = TrimSpace resourceID, Authz_Name = '''',
      Authz_Attributes = []\<rparr>"

definition ModuleVersionResource :: "string \<Rightarrow> string \<Rightarrow> Resource" where
  "ModuleVersionResource moduleName version =
     \<lparr>Authz_Type = ''module_version'', Authz_ID = '''',
      Authz_Name = TrimSpace moduleName @ '':'' @ TrimSpace version,
      Authz_Attributes = [(''module'', TrimSpace moduleName), (''version'', TrimSpace version)]\<rparr>"

definition CommunityAuthorizer_Authorize :: "Principal \<Rightarrow> Action \<Rightarrow> Resource \<Rightarrow> goerr + unit" where
  "CommunityAuthorizer_Authorize prin action resource =
     (if Principal_IsZero prin then Inl (Access AuthzErrUnauthenticated)
      else if \<not> communityActionAllowed action then Inl (Access ErrForbidden)
      else Inr ())"

section \<open>Capabilities\<close>

type_synonym Capability = string

definition CommunityCapabilities :: "Capability list" where
  "CommunityCapabilities =
     [''registry'', ''buf_workflow'', ''breaking_checks'', ''gitlab_ci'', ''gitlab_mr_bot'',
      ''web_ui'', ''dependency_graph'', ''runtime_inventory'', ''community_governance'',
      ''api_token_auth'', ''basic_audit'', ''prometheus_metrics'', ''structured_logs'',
      ''docker_compose_quickstart'']"

definition EnterpriseCapabilities :: "Capability list" where
  "EnterpriseCapabilities =
     [''oidc_auth'', ''ldap_auth'', ''advanced_rbac'', ''gitlab_group_sync'',
      ''advanced_audit'', ''advanced_approval_workflows'', ''enterprise_dependency_graph'',
      ''runtime_alerts'', ''helm_ha'', ''air_gapped'', ''license_management'']"

text \<open>The capabilities are distinct, so \<^verbatim>\<open>sort.Slice\<close> has one result.\<close>

definition AllCapabilities :: "Capability list" where
  "AllCapabilities = sort (CommunityCapabilities @ EnterpriseCapabilities)"

record CapabilityStatus =
  Status_Capability :: Capability
  Status_Enabled :: bool

definition Capability_IsEnabled :: "Capability \<Rightarrow> bool" where
  "Capability_IsEnabled capability \<longleftrightarrow> capability \<in> set CommunityCapabilities"

definition Capability_Require :: "Capability \<Rightarrow> goerr + unit" where
  "Capability_Require capability =
     (if Capability_IsEnabled capability then Inr () else Inl (Access ErrCapabilityNotAvailable))"

definition Capability_List :: "CapabilityStatus list" where
  "Capability_List =
     map (\<lambda>capability. \<lparr>Status_Capability = capability,
            Status_Enabled = Capability_IsEnabled capability\<rparr>) AllCapabilities"

end
