(* ===== verification/Registry_Service.thy ===== *)
theory Registry_Service
  imports Dependency_Resolver Repo_Artifacts Access Archive
begin

text \<open>
  The registry's use cases, \<^verbatim>\<open>internal/usecase/registry/service.go\<close> and \<^verbatim>\<open>dependency_queries.go\<close>, over the
  PostgreSQL repositories and the object store. Outside of the repository, and so part of the service's
  record: the digest and the keyed digest of Go's crypto packages, the gzip and tar decoders, the URL
  parser, and the two calls of the \<^verbatim>\<open>buf\<close> tool, whose answers may depend on the moment of the call.

  \<^verbatim>\<open>PublishModuleVersion\<close> is composed of its two halves, \<open>preparePublish\<close> (reads, unpacks and builds) and
  \<open>storePublish\<close> (uploads, the transaction, and the cleanup after an error), so that two requests can be
  interleaved between them.
\<close>

section \<open>Configuration and inputs\<close>

record BufWorkflowResult =
  Workflow_ConfigInfo :: BufConfigInfo
  Workflow_BufImage :: string
  Workflow_BufImageDigest :: string
  Workflow_LintResult :: BufLintResult
  Workflow_DescriptorMetadata :: DescriptorMetadata

text \<open>A checker answers with one of the status constants or leaves the status empty.\<close>

record BufBreakingCheckResult =
  Check_Status :: "BreakingReportStatus option"
  Check_Changes :: "BreakingChange list"
  Check_RawOutput :: string
  Check_HumanSummary :: string

definition BufLintModeDisabled :: string where
  "BufLintModeDisabled = ''disabled''"

record RegistryService =
  reg_hasGitLabProjects :: bool
  reg_hasDependencies :: bool
  reg_hasDependencyRead :: bool
  reg_hasReports :: bool
  reg_MaxArtifactSizeBytes :: "64 word"
  reg_MaxSourceUncompressedSizeBytes :: "64 word"
  reg_BufRequireConfig :: bool
  reg_BufLintMode :: string
  reg_BreakingMaxChanges :: int
  reg_BreakingDefaultAgainst :: string
  reg_sha256 :: "string \<Rightarrow> string"
  reg_hashToken :: "string \<Rightarrow> string"
  reg_url :: "string \<Rightarrow> parsed_url option"
  reg_tempDir :: "nat \<Rightarrow> string"
  reg_decode :: "string \<Rightarrow> string + archive"
  reg_bufWorkflow :: "(nat \<Rightarrow> files \<Rightarrow> bool \<Rightarrow> bool \<Rightarrow> goerr option \<times> BufWorkflowResult) option"
  reg_bufBreaking :: "(nat \<Rightarrow> files \<Rightarrow> string \<Rightarrow> string \<Rightarrow> goerr + BufBreakingCheckResult) option"

text \<open>An \<^verbatim>\<open>io.Reader\<close>: what it delivers, and the error it ends with instead of the end of the input.\<close>

record reader =
  Reader_Content :: string
  Reader_Error :: "string option"

record CreateModuleRequest =
  CreateModule_Name :: string
  CreateModule_Description :: string
  CreateModule_RepositoryURL :: string

record LinkModuleGitLabProjectInput =
  Link_ModuleName :: string
  Link_GitLabBaseURL :: string
  Link_GitLabProjectID :: int
  Link_GitLabProjectPath :: string

record PublishModuleVersionRequest =
  Publish_ModuleName :: string
  Publish_Version :: string
  Publish_Artifact :: "reader option"

record DeprecateModuleVersionInput =
  Deprecate_ModuleName :: string
  Deprecate_Version :: string
  Deprecate_Actor :: string
  Deprecate_Reason :: string

record CheckBreakingRequest =
  Breaking_ModuleName :: string
  Breaking_Against :: string
  Breaking_TargetRef :: string
  Breaking_ProposedSourceArchive :: "reader option"
  Breaking_ArchiveSizeBytes :: "64 word"

record PublishModuleVersionResponse =
  Published_Version :: ModuleVersion
  Published_SourceArtifact :: Artifact
  Published_BufImageArtifact :: Artifact
  Published_BufConfig :: BufConfigInfo
  Published_LintResult :: BufLintResult
  Published_MetadataSummary :: DescriptorMetadataSummary

record ModuleVersionDetailsResponse =
  Details_Version :: ModuleVersion
  Details_Artifacts :: "Artifact list"
  Details_BufConfig :: BufConfigInfo
  Details_LintResult :: BufLintResult
  Details_MetadataSummary :: DescriptorMetadataSummary

definition maxTargetRefLength :: nat where
  "maxTargetRefLength = 256"

section \<open>Events\<close>

definition descriptorMetadataSummaryPayload :: "DescriptorMetadataSummary \<Rightarrow> json" where
  "descriptorMetadataSummaryPayload summary =
     JObject [(''file_count'', JInt (int (Sum_FileCount summary))),
       (''import_count'', JInt (int (Sum_ImportCount summary))),
       (''service_count'', JInt (int (Sum_ServiceCount summary))),
       (''method_count'', JInt (int (Sum_MethodCount summary))),
       (''message_count'', JInt (int (Sum_MessageCount summary))),
       (''field_count'', JInt (int (Sum_FieldCount summary))),
       (''enum_count'', JInt (int (Sum_EnumCount summary))),
       (''enum_value_count'', JInt (int (Sum_EnumValueCount summary)))]"

definition NewModuleVersionPublished ::
  "Module \<Rightarrow> ModuleVersion \<Rightarrow> Artifact \<Rightarrow> Artifact \<Rightarrow> BufConfigInfo \<Rightarrow> BufLintResult
   \<Rightarrow> DescriptorMetadataSummary \<Rightarrow> time \<Rightarrow> Record" where
  "NewModuleVersionPublished module version sourceArtifact bufImageArtifact bufConfig lintResult
     metadataSummary occurredAt =
     new_record ''module'' (Module_ID module) ''protoradar.module_version.published''
       (''module:'' @ Module_ID module @ '':version:'' @ Version_Version version @ '':published'')
       (JObject [(''module_id'', JString (Module_ID module)),
          (''module_name'', JString (Module_Name module)),
          (''module_version_id'', JString (Version_ID version)),
          (''version'', JString (Version_Version version)),
          (''digest'', JString (Version_Digest version)),
          (''source_artifact_checksum_sha256'', JString (Artifact_ChecksumSHA256 sourceArtifact)),
          (''source_artifact_size_bytes'', JInt (Artifact_SizeBytes sourceArtifact)),
          (''buf_image_checksum_sha256'', JString (Artifact_ChecksumSHA256 bufImageArtifact)),
          (''buf_image_size_bytes'', JInt (Artifact_SizeBytes bufImageArtifact)),
          (''buf_yaml_present'', JBool (Buf_BufYAMLPresent bufConfig)),
          (''buf_lock_present'', JBool (Buf_BufLockPresent bufConfig)),
          (''lint_status'', JString (if Lint_Status lintResult = '''' then BufLintStatusNotRun
             else Lint_Status lintResult)),
          (''descriptor_summary'', descriptorMetadataSummaryPayload metadataSummary),
          (''occurred_at'', JTime occurredAt)])
       occurredAt"

definition NewModuleGitLabProjectLinked ::
  "(string \<Rightarrow> parsed_url option) \<Rightarrow> ModuleGitLabProject \<Rightarrow> time \<Rightarrow> goerr + Record" where
  "NewModuleGitLabProjectLinked parse mapping occurredAt =
     bindR (Mapping_Normalized parse mapping) (\<lambda>normalized.
       Inr (new_record ''module'' (Mapping_ModuleID normalized) ''protoradar.module_gitlab_project.linked''
         (''module:'' @ Mapping_ModuleID normalized @ '':gitlab-project:'' @ Mapping_GitLabBaseURL normalized
          @ '':'' @ show_int (Mapping_GitLabProjectID normalized) @ '':linked'')
         (JObject [(''module_id'', JString (Mapping_ModuleID normalized)),
            (''module_name'', JString (Mapping_ModuleName normalized)),
            (''gitlab_base_url'', JString (Mapping_GitLabBaseURL normalized)),
            (''gitlab_project_id'', JInt (Mapping_GitLabProjectID normalized)),
            (''gitlab_project_path'', JString (Mapping_GitLabProjectPath normalized)),
            (''occurred_at'', JTime occurredAt)])
         occurredAt))"

section \<open>Modules\<close>

definition parseName :: "string \<Rightarrow> ModuleName io" where
  "parseName value = orErr (NewModuleName value) (Registry RegErrInvalidModuleName)"

definition CreateModule :: "CreateModuleRequest \<Rightarrow> Module io" where
  "CreateModule req =
     bindE (parseName (CreateModule_Name req)) (\<lambda>name.
     bindE clock_now (\<lambda>now.
     bindE NewRandomID (\<lambda>moduleID.
       let module = \<lparr>Module_ID = moduleID, Module_Name = name,
             Module_Description = CreateModule_Description req,
             Module_RepositoryURL = CreateModule_RepositoryURL req,
             Module_CreatedAt = now, Module_UpdatedAt = now\<rparr>
       in bindE (WithinTransaction
            (bindE (replaceErr (Domain ErrDuplicate) (Registry RegErrModuleAlreadyExists)
                      (ModuleRepo_Create module)) (\<lambda>_.
               replaceErr (Domain ErrDuplicate) (Registry RegErrModuleAlreadyExists)
                 (Outbox_Create (NewModuleCreated module now)))))
          (\<lambda>_. ret module))))"

definition ListModules :: "int \<Rightarrow> int \<Rightarrow> Module list io" where
  "ListModules limit off = ModuleRepo_List limit off"

definition GetModule :: "string \<Rightarrow> Module io" where
  "GetModule nameValue =
     bindE (parseName nameValue) (\<lambda>name.
       replaceErr (Domain ErrNotFound) (Registry RegErrModuleNotFound) (ModuleRepo_GetByName name))"

section \<open>GitLab projects\<close>

definition mapGitLabMappingValidationError :: "goerr \<Rightarrow> goerr" where
  "mapGitLabMappingValidationError err =
     (if errors_Is err (Domain ErrInvalidModuleName) then Registry RegErrInvalidModuleName
      else if errors_Is err (Domain ErrInvalidGitLabBaseURL) then Registry RegErrInvalidGitLabBaseURL
      else if errors_Is err (Domain ErrInvalidGitLabProjectID) then Registry RegErrInvalidGitLabProjectID
      else if errors_Is err (Domain ErrInvalidGitLabProjectPath)
      then Registry RegErrInvalidGitLabProjectPath
      else err)"

definition linkTransaction ::
  "RegistryService \<Rightarrow> ModuleID \<Rightarrow> ModuleGitLabProject \<Rightarrow> time \<Rightarrow> ModuleGitLabProject io" where
  "linkTransaction svc moduleID normalized now =
     WithinTransaction
       (bindE (replaceErr (Domain ErrDuplicate) (Registry RegErrGitLabProjectAlreadyLinked)
                 (GitLabRepo_Upsert (reg_url svc) normalized)) (\<lambda>_.
        bindE (GitLabRepo_GetByModuleID moduleID) (\<lambda>stored.
        bindE (liftE (NewModuleGitLabProjectLinked (reg_url svc) stored now)) (\<lambda>event.
        bindE (replaceErr (Domain ErrDuplicate) (Registry RegErrGitLabProjectAlreadyLinked)
                 (Outbox_Create event)) (\<lambda>_. ret stored)))))"

definition LinkModuleGitLabProject ::
  "RegistryService \<Rightarrow> LinkModuleGitLabProjectInput \<Rightarrow> ModuleGitLabProject io" where
  "LinkModuleGitLabProject svc input =
     bindE (parseName (Link_ModuleName input)) (\<lambda>name.
     bindE (failIf (\<not> reg_hasGitLabProjects svc) (Registry RegErrStorageFailure)) (\<lambda>_.
     bindE (mapErr mapGitLabMappingValidationError (liftE (Mapping_Normalized (reg_url svc)
              \<lparr>Mapping_ID = '''', Mapping_ModuleID = '''', Mapping_ModuleName = name,
               Mapping_GitLabBaseURL = Link_GitLabBaseURL input,
               Mapping_GitLabProjectID = Link_GitLabProjectID input,
               Mapping_GitLabProjectPath = Link_GitLabProjectPath input,
               Mapping_CreatedAt = 0, Mapping_UpdatedAt = 0\<rparr>))) (\<lambda>normalizedInput.
     bindE (replaceErr (Domain ErrNotFound) (Registry RegErrModuleNotFound)
              (ModuleRepo_GetByName name)) (\<lambda>module.
     bindE clock_now (\<lambda>now.
     bindE NewRandomID (\<lambda>mappingID.
     bindE (mapErr mapGitLabMappingValidationError (liftE (Mapping_Normalized (reg_url svc)
              \<lparr>Mapping_ID = mappingID, Mapping_ModuleID = Module_ID module,
               Mapping_ModuleName = Module_Name module,
               Mapping_GitLabBaseURL = Mapping_GitLabBaseURL normalizedInput,
               Mapping_GitLabProjectID = Mapping_GitLabProjectID normalizedInput,
               Mapping_GitLabProjectPath = Mapping_GitLabProjectPath normalizedInput,
               Mapping_CreatedAt = now, Mapping_UpdatedAt = now\<rparr>))) (\<lambda>normalized.
       linkTransaction svc (Module_ID module) normalized now)))))))"

definition GetModuleGitLabProject :: "RegistryService \<Rightarrow> string \<Rightarrow> ModuleGitLabProject io" where
  "GetModuleGitLabProject svc moduleName =
     bindE (GetModule moduleName) (\<lambda>module.
     bindE (failIf (\<not> reg_hasGitLabProjects svc) (Registry RegErrStorageFailure)) (\<lambda>_.
       replaceErr (Domain ErrNotFound) (Registry RegErrModuleGitLabProjectNotFound)
         (GitLabRepo_GetByModuleID (Module_ID module))))"

section \<open>Reading artifacts\<close>

text \<open>
  \<^verbatim>\<open>readArtifact\<close> copies at most \<^verbatim>\<open>limit+1\<close> bytes (in \<^verbatim>\<open>int64\<close> arithmetic), to see whether there are more
  than \<^verbatim>\<open>limit\<close>.
\<close>

definition readArtifact :: "RegistryService \<Rightarrow> reader \<Rightarrow> goerr + (string \<times> string \<times> int)" where
  "readArtifact svc r =
     (let limit = (if sint (reg_MaxArtifactSizeBytes svc) \<le> 0 then 1 else reg_MaxArtifactSizeBytes svc);
          n = nat (sint (limit + 1));
          body = take n (Reader_Content r)
      in if length (Reader_Content r) < n \<and> Reader_Error r \<noteq> None
         then Inl (Joined (Registry RegErrStorageFailure) (Infra (the (Reader_Error r))))
         else if int (length body) > sint limit then Inl (Registry RegErrArtifactTooLarge)
         else Inr (body, reg_sha256 svc body, int (length body)))"

definition maxUncompressed :: "RegistryService \<Rightarrow> 64 word" where
  "maxUncompressed svc =
     (if sint (reg_MaxSourceUncompressedSizeBytes svc) \<le> 0 then reg_MaxArtifactSizeBytes svc
      else reg_MaxSourceUncompressedSizeBytes svc)"

definition system_call :: "nat io" where
  "system_call w =
     (case w_fault w (w_calls w) of
        Some m \<Rightarrow> (Inl (Infra m), w\<lparr>w_calls := Suc (w_calls w)\<rparr>)
      | None \<Rightarrow> (Inr (w_calls w), w\<lparr>w_calls := Suc (w_calls w)\<rparr>))"

text \<open>
  \<^verbatim>\<open>os.MkdirTemp\<close>, an empty directory, and the extraction into it. The directory is removed in the end,
  so its files are a value. The context is polled before each entry; the numbers of these polls are
  set aside.
\<close>

definition extractSource :: "RegistryService \<Rightarrow> string \<Rightarrow> (string \<times> files) io" where
  "extractSource svc body =
     bindE system_call (\<lambda>n w.
       (let workdir = reg_tempDir svc n; source = reg_decode svc body;
            polls = (case source of Inl _ \<Rightarrow> 0 | Inr a \<Rightarrow> Suc (length (Archive_Entries a)));
            w1 = w\<lparr>w_polls := w_polls w + polls\<rparr>
        in case ExtractTarGzSafe (\<lambda>i. w_cancel w (w_polls w + i)) source workdir (maxUncompressed svc)
             [workdir \<mapsto> Directory] of
             (Inl err, fs) \<Rightarrow> (Inl (Joined (Registry RegErrUnsafeArchive) (Infra err)), w1)
           | (Inr _, fs) \<Rightarrow> (Inr (workdir, fs), w1)))"

definition requireBufYAML :: "string \<times> files \<Rightarrow> unit io" where
  "requireBufYAML tree =
     (case tree of (workdir, fs) \<Rightarrow>
        failIf (fs (Join2 workdir ''buf.yaml'') = None) (Registry RegErrBufConfigNotFound))"

section \<open>Publishing\<close>

definition mapBufWorkflowError :: "goerr \<Rightarrow> BufWorkflowResult \<Rightarrow> goerr" where
  "mapBufWorkflowError err result =
     (if Lint_Status (Workflow_LintResult result) = BufLintStatusFailed
      then Joined (Registry RegErrBufLintFailed) err
      else if Workflow_BufImage result \<noteq> ''''
      then Joined (Registry RegErrDescriptorExtractionFailed) err
      else Joined (Registry RegErrBufBuildFailed) err)"

definition cleanupUploadedArtifacts :: "string list \<Rightarrow> unit io" where
  "cleanupUploadedArtifacts keys =
     forE keys (\<lambda>key.
       if key = '''' then ret () else bindE (attempt (object_delete key)) (\<lambda>_. ret ()))"

definition cleaning :: "string list \<Rightarrow> 'a io \<Rightarrow> 'a io" where
  "cleaning keys m = catchE m (\<lambda>err. bindE (cleanupUploadedArtifacts keys) (\<lambda>_. raise err))"

record PreparedPublish =
  Pub_Module :: Module
  Pub_Name :: ModuleName
  Pub_VersionValue :: Version
  Pub_SourceBody :: string
  Pub_SourceChecksum :: string
  Pub_BufResult :: BufWorkflowResult

text \<open>The checks before anything is read: the names, the module, and that the version is new.\<close>

definition checkUnpublished :: "ModuleID \<Rightarrow> Version \<Rightarrow> unit io" where
  "checkUnpublished moduleID versionValue =
     bindE (attempt (VersionRepo_GetByModuleAndVersion moduleID versionValue)) (\<lambda>r.
       case r of
         Inr _ \<Rightarrow> raise (Registry RegErrModuleVersionAlreadyExists)
       | Inl err \<Rightarrow> if errors_Is err (Domain ErrNotFound) then ret () else raise err)"

definition inspectSource ::
  "RegistryService \<Rightarrow> (nat \<Rightarrow> files \<Rightarrow> bool \<Rightarrow> bool \<Rightarrow> goerr option \<times> BufWorkflowResult) \<Rightarrow> string
   \<Rightarrow> BufWorkflowResult io" where
  "inspectSource svc inspect body =
     bindE (extractSource svc body) (\<lambda>tree.
     bindE (if reg_BufRequireConfig svc then requireBufYAML tree else ret ()) (\<lambda>_.
     bindE system_call (\<lambda>n.
       case inspect n (snd tree) (reg_BufRequireConfig svc) (reg_BufLintMode svc \<noteq> BufLintModeDisabled) of
         (Some err, result) \<Rightarrow> raise (mapBufWorkflowError err result)
       | (None, result) \<Rightarrow>
           if Workflow_BufImage result = '''' then raise (Registry RegErrBufBuildFailed) else ret result)))"

definition preparePublish :: "RegistryService \<Rightarrow> PublishModuleVersionRequest \<Rightarrow> PreparedPublish io" where
  "preparePublish svc req =
     bindE (parseName (Publish_ModuleName req)) (\<lambda>name.
     bindE (orErr (NewVersion (Publish_Version req)) (Registry RegErrInvalidVersion)) (\<lambda>versionValue.
     case Publish_Artifact req of
       None \<Rightarrow> raise (Registry RegErrStorageFailure)
     | Some artifact \<Rightarrow>
       (case reg_bufWorkflow svc of
          None \<Rightarrow> raise (Registry RegErrBufWorkflowUnavailable)
        | Some inspect \<Rightarrow>
            bindE (replaceErr (Domain ErrNotFound) (Registry RegErrModuleNotFound)
                     (ModuleRepo_GetByName name)) (\<lambda>module.
            bindE (checkUnpublished (Module_ID module) versionValue) (\<lambda>_.
            bindE (liftE (readArtifact svc artifact)) (\<lambda>(body, checksum, sizeBytes).
            bindE (inspectSource svc inspect body) (\<lambda>result.
              ret \<lparr>Pub_Module = module, Pub_Name = name, Pub_VersionValue = versionValue,
                Pub_SourceBody = body, Pub_SourceChecksum = checksum, Pub_BufResult = result\<rparr>)))))))"

definition sourceKey :: "PreparedPublish \<Rightarrow> string" where
  "sourceKey prep =
     BuildSourceArchiveKey (Pub_Name prep) (Pub_VersionValue prep) (Pub_SourceChecksum prep)"

definition bufImageKey :: "RegistryService \<Rightarrow> PreparedPublish \<Rightarrow> string" where
  "bufImageKey svc prep =
     BuildBufImageKey (Pub_Name prep) (Pub_VersionValue prep)
       (reg_sha256 svc (Workflow_BufImage (Pub_BufResult prep)))"

definition publishTransaction ::
  "RegistryService \<Rightarrow> PreparedPublish \<Rightarrow> ModuleVersion \<Rightarrow> Artifact \<Rightarrow> Artifact \<Rightarrow> time \<Rightarrow> unit io" where
  "publishTransaction svc prep moduleVersion sourceArtifact bufImageArtifact now =
     (let exists = replaceErr (Domain ErrDuplicate) (Registry RegErrModuleVersionAlreadyExists);
          result = Pub_BufResult prep in
      WithinTransaction
       (bindE (exists (VersionRepo_Create moduleVersion)) (\<lambda>_.
        bindE (exists (ArtifactRepo_Create sourceArtifact)) (\<lambda>_.
        bindE (exists (ArtifactRepo_Create bufImageArtifact)) (\<lambda>_.
        bindE (BufConfigRepo_Save (Version_ID moduleVersion) (Workflow_ConfigInfo result)) (\<lambda>_.
        bindE (Metadata_Save (Version_ID moduleVersion) (Workflow_DescriptorMetadata result)) (\<lambda>_.
        bindE (if reg_hasDependencies svc
               then bindE (RebuildPublishedModuleVersionDependencies
                      \<lparr>PubRebuild_Module = Pub_Module prep, PubRebuild_Version = moduleVersion,
                       PubRebuild_Metadata = Workflow_DescriptorMetadata result\<rparr>) (\<lambda>_. ret ())
               else ret ()) (\<lambda>_.
          exists (Outbox_Create (NewModuleVersionPublished (Pub_Module prep) moduleVersion
            sourceArtifact bufImageArtifact (Workflow_ConfigInfo result) (Workflow_LintResult result)
            (Summary (Workflow_DescriptorMetadata result)) now))))))))))"

text \<open>Between the uploads and the transaction: the time and the identifiers of the new rows.\<close>

definition commitPublish ::
  "RegistryService \<Rightarrow> PreparedPublish \<Rightarrow> ArtifactObject \<Rightarrow> ArtifactObject
   \<Rightarrow> PublishModuleVersionResponse io" where
  "commitPublish svc prep sourceObject bufImageObject =
     (let result = Pub_BufResult prep in
      bindE clock_now (\<lambda>now.
      bindE NewRandomID (\<lambda>moduleVersionID.
      bindE NewRandomID (\<lambda>sourceArtifactID.
      bindE NewRandomID (\<lambda>bufImageArtifactID.
        let moduleVersion = \<lparr>Version_ID = moduleVersionID, Version_ModuleID = Module_ID (Pub_Module prep),
              Version_Version = Pub_VersionValue prep, Version_Status = ModuleVersionStatusPublished,
              Version_Digest = Workflow_BufImageDigest result, Version_CreatedAt = now,
              Version_PublishedAt = Some now, Version_DeprecatedAt = None, Version_DeprecatedBy = '''',
              Version_DeprecationReason = ''''\<rparr>;
            sourceArtifact = \<lparr>Artifact_ID = sourceArtifactID,
              Artifact_ModuleVersionID = moduleVersionID, Artifact_Kind = ArtifactKindSourceArchive,
              Artifact_StorageKey = Object_Key sourceObject,
              Artifact_ChecksumSHA256 = Pub_SourceChecksum prep,
              Artifact_SizeBytes = Object_SizeBytes sourceObject, Artifact_CreatedAt = now\<rparr>;
            bufImageArtifact = \<lparr>Artifact_ID = bufImageArtifactID,
              Artifact_ModuleVersionID = moduleVersionID, Artifact_Kind = ArtifactKindBufImage,
              Artifact_StorageKey = Object_Key bufImageObject,
              Artifact_ChecksumSHA256 = reg_sha256 svc (Workflow_BufImage result),
              Artifact_SizeBytes = Object_SizeBytes bufImageObject, Artifact_CreatedAt = now\<rparr>
        in bindE (publishTransaction svc prep moduleVersion sourceArtifact bufImageArtifact now) (\<lambda>_.
           ret \<lparr>Published_Version = moduleVersion, Published_SourceArtifact = sourceArtifact,
             Published_BufImageArtifact = bufImageArtifact,
             Published_BufConfig = Workflow_ConfigInfo result,
             Published_LintResult = Workflow_LintResult result,
             Published_MetadataSummary = Summary (Workflow_DescriptorMetadata result)\<rparr>))))))"

definition storePublish :: "RegistryService \<Rightarrow> PreparedPublish \<Rightarrow> PublishModuleVersionResponse io" where
  "storePublish svc prep =
     bindE (mapErr (Joined (Registry RegErrStorageFailure))
              (object_put (sourceKey prep) (Pub_SourceBody prep))) (\<lambda>sourceObject.
     bindE (cleaning [sourceKey prep]
              (mapErr (Joined (Registry RegErrStorageFailure))
                (object_put (bufImageKey svc prep) (Workflow_BufImage (Pub_BufResult prep)))))
       (\<lambda>bufImageObject.
       cleaning [sourceKey prep, bufImageKey svc prep]
         (commitPublish svc prep sourceObject bufImageObject)))"

definition PublishModuleVersion ::
  "RegistryService \<Rightarrow> PublishModuleVersionRequest \<Rightarrow> PublishModuleVersionResponse io" where
  "PublishModuleVersion svc req = bindE (preparePublish svc req) (storePublish svc)"

section \<open>Versions\<close>

definition ListModuleVersions :: "string \<Rightarrow> int \<Rightarrow> int \<Rightarrow> ModuleVersion list io" where
  "ListModuleVersions moduleName limit off =
     bindE (GetModule moduleName) (\<lambda>module. VersionRepo_ListByModule (Module_ID module) limit off)"

definition GetModuleVersion :: "string \<Rightarrow> string \<Rightarrow> ModuleVersion io" where
  "GetModuleVersion moduleName versionValue =
     bindE (GetModule moduleName) (\<lambda>module.
     bindE (orErr (NewVersion versionValue) (Registry RegErrInvalidVersion)) (\<lambda>version.
       replaceErr (Domain ErrNotFound) (Registry RegErrModuleNotFound)
         (VersionRepo_GetByModuleAndVersion (Module_ID module) version)))"

definition deprecateTransaction ::
  "Module \<Rightarrow> ModuleVersion \<Rightarrow> string \<Rightarrow> string \<Rightarrow> time \<Rightarrow> unit io" where
  "deprecateTransaction module moduleVersion actor reason now =
     WithinTransaction
       (bindE (VersionRepo_UpdateDeprecation (Version_ID moduleVersion) (Some now) actor reason) (\<lambda>_.
          Outbox_Create (NewModuleVersionDeprecated module
            (moduleVersion\<lparr>Version_DeprecatedAt := Some now, Version_DeprecatedBy := actor,
               Version_DeprecationReason := reason\<rparr>) actor reason now)))"

definition DeprecateModuleVersion :: "DeprecateModuleVersionInput \<Rightarrow> ModuleVersion io" where
  "DeprecateModuleVersion input =
     bindE (parseName (Deprecate_ModuleName input)) (\<lambda>name.
     bindE (orErr (NewVersion (Deprecate_Version input)) (Registry RegErrInvalidVersion)) (\<lambda>versionValue.
       let actor = TrimSpace (Deprecate_Actor input); reason = TrimSpace (Deprecate_Reason input) in
       bindE (failIf (actor = '''') (Registry RegErrInvalidActor)) (\<lambda>_.
       bindE (replaceErr (Domain ErrNotFound) (Registry RegErrModuleNotFound)
                (ModuleRepo_GetByName name)) (\<lambda>module.
       bindE (replaceErr (Domain ErrNotFound) (Registry RegErrModuleNotFound)
                (VersionRepo_GetByModuleAndVersion (Module_ID module) versionValue)) (\<lambda>moduleVersion.
         if IsDeprecated moduleVersion then ret moduleVersion
         else
           bindE clock_now (\<lambda>now.
           bindE (deprecateTransaction module moduleVersion actor reason now) (\<lambda>_.
             ret (moduleVersion\<lparr>Version_DeprecatedAt := Some now, Version_DeprecatedBy := actor,
                    Version_DeprecationReason := reason\<rparr>))))))))"

definition lintResultFromConfig :: "BufConfigInfo \<Rightarrow> BufLintResult" where
  "lintResultFromConfig config =
     (if \<not> Buf_LintEnabled config then \<lparr>Lint_Status = BufLintStatusNotRun, Lint_Report = ''''\<rparr>
      else \<lparr>Lint_Status = BufLintStatusPassed, Lint_Report = ''''\<rparr>)"

definition zero_config :: BufConfigInfo where
  "zero_config = \<lparr>Buf_BufYAMLPresent = False, Buf_BufLockPresent = False, Buf_BufYAMLDigest = '''',
     Buf_BufLockDigest = '''', Buf_ModulePaths = [], Buf_Deps = [], Buf_LintEnabled = False,
     Buf_BreakingConfigPresent = False\<rparr>"

definition orZero :: "'a \<Rightarrow> 'a io \<Rightarrow> 'a io" where
  "orZero zero m = catchE m (\<lambda>err. if errors_Is err (Domain ErrNotFound) then ret zero else raise err)"

definition GetModuleVersionDetails :: "string \<Rightarrow> string \<Rightarrow> ModuleVersionDetailsResponse io" where
  "GetModuleVersionDetails moduleName versionValue =
     bindE (GetModuleVersion moduleName versionValue) (\<lambda>moduleVersion.
     bindE (orZero [] (ArtifactRepo_ListByModuleVersion (Version_ID moduleVersion))) (\<lambda>artifacts.
     bindE (orZero zero_config (BufConfigRepo_GetByModuleVersion (Version_ID moduleVersion))) (\<lambda>bufConfig.
     bindE (orZero zero_summary (Metadata_GetSummary (Version_ID moduleVersion)))
       (\<lambda>metadataSummary.
       ret \<lparr>Details_Version = moduleVersion, Details_Artifacts = artifacts,
         Details_BufConfig = bufConfig, Details_LintResult = lintResultFromConfig bufConfig,
         Details_MetadataSummary = metadataSummary\<rparr>))))"

definition GetModuleVersionMetadata :: "string \<Rightarrow> string \<Rightarrow> DescriptorMetadata io" where
  "GetModuleVersionMetadata moduleName versionValue =
     bindE (GetModuleVersion moduleName versionValue) (\<lambda>moduleVersion.
       replaceErr (Domain ErrNotFound) (Registry RegErrModuleNotFound)
         (Metadata_GetByModuleVersion (Version_ID moduleVersion)))"

definition DownloadArtifact :: "string \<Rightarrow> string \<Rightarrow> (ArtifactObject \<times> Artifact) io" where
  "DownloadArtifact moduleName versionValue =
     bindE (GetModuleVersion moduleName versionValue) (\<lambda>moduleVersion.
     bindE (replaceErr (Domain ErrNotFound) (Registry RegErrModuleNotFound)
              (ArtifactRepo_GetByModuleVersionAndKind (Version_ID moduleVersion)
                 ArtifactKindSourceArchive)) (\<lambda>artifact.
     bindE (mapErr (Joined (Registry RegErrStorageFailure)) (object_get (Artifact_StorageKey artifact)))
       (\<lambda>object. ret (object, artifact))))"

section \<open>Breaking changes\<close>

definition readStoredArtifact :: "string \<Rightarrow> string io" where
  "readStoredArtifact storageKey =
     bindE (mapErr (Joined (Registry RegErrStorageFailure)) (object_get storageKey)) (\<lambda>object.
       ret (Object_Body object))"

definition resolveBreakingBaseline :: "ModuleID \<Rightarrow> string \<Rightarrow> ModuleVersion io" where
  "resolveBreakingBaseline moduleID against =
     (let missing = replaceErr (Domain ErrNotFound) (Registry RegErrBaselineVersionNotFound) in
      if against = ''latest'' then missing (VersionRepo_GetLatestByModule moduleID)
      else bindE (orErr (NewVersion against) (Registry RegErrInvalidAgainst)) (\<lambda>versionValue.
        missing (VersionRepo_GetByModuleAndVersion moduleID versionValue)))"

definition checkedStatus :: "BufBreakingCheckResult \<Rightarrow> BreakingReportStatus" where
  "checkedStatus result =
     (case Check_Status result of
        Some status \<Rightarrow> status
      | None \<Rightarrow> if Check_Changes result \<noteq> [] then BreakingReportStatusBreaking
               else BreakingReportStatusPassed)"

definition numberChange :: "BreakingReportID \<Rightarrow> time \<Rightarrow> BreakingChange \<Rightarrow> BreakingChange io" where
  "numberChange reportID now change =
     bindE NewRandomID (\<lambda>changeID.
       ret (change\<lparr>Change_ID := changeID, Change_ReportID := reportID,
         Change_Severity := (if TrimSpace (Change_Severity change) = '''' then ''error''
           else Change_Severity change),
         Change_CreatedAt := now\<rparr>))"

definition storeReport ::
  "RegistryService \<Rightarrow> Module \<Rightarrow> ModuleVersion \<Rightarrow> string \<Rightarrow> BreakingReportStatus
   \<Rightarrow> BufBreakingCheckResult \<Rightarrow> (BreakingReport \<times> BreakingChange list) io" where
  "storeReport svc module baseline targetRef status result =
     bindE clock_now (\<lambda>now.
     bindE NewRandomID (\<lambda>reportID.
       let resultChanges =
             (if reg_BreakingMaxChanges svc > 0
                 \<and> int (length (Check_Changes result)) > reg_BreakingMaxChanges svc
              then take (nat (reg_BreakingMaxChanges svc)) (Check_Changes result)
              else Check_Changes result)
       in bindE (collectE resultChanges (numberChange reportID now)) (\<lambda>changes.
          let report = \<lparr>Report_ID = reportID, Report_ModuleID = Module_ID module,
                Report_ModuleName = Module_Name module, Report_BaseVersionID = Version_ID baseline,
                Report_BaseVersion = Version_Version baseline, Report_TargetRef = targetRef,
                Report_Status = status, Report_ChangeCount = int (length changes),
                Report_RawOutput = Check_RawOutput result,
                Report_HumanSummary = Check_HumanSummary result, Report_CreatedAt = now\<rparr>;
              report' = (if TrimSpace (Report_HumanSummary report) = ''''
                then report\<lparr>Report_HumanSummary := FormatReport report changes\<rparr> else report)
          in bindE (WithinTransaction
                (bindE (ReportRepo_Create report' changes) (\<lambda>_.
                   Outbox_Create (NewBreakingReportCreated report')))) (\<lambda>_.
             ret (report', changes)))))"

definition CheckBreaking ::
  "RegistryService \<Rightarrow> CheckBreakingRequest \<Rightarrow> (BreakingReport \<times> BreakingChange list) io" where
  "CheckBreaking svc req =
     bindE (parseName (Breaking_ModuleName req)) (\<lambda>name.
       let requested = TrimSpace (Breaking_Against req);
           against = (if requested = '''' then TrimSpace (reg_BreakingDefaultAgainst svc) else requested);
           ref = TrimSpace (Breaking_TargetRef req);
           targetRef = (if ref = '''' then ''local'' else ref)
       in
       bindE (failIf (against = '''') (Registry RegErrInvalidAgainst)) (\<lambda>_.
       bindE (failIf (length ref > maxTargetRefLength) (Registry RegErrInvalidTargetRef)) (\<lambda>_.
       case Breaking_ProposedSourceArchive req of
         None \<Rightarrow> raise (Registry RegErrArtifactRequired)
       | Some archive \<Rightarrow>
         bindE (failIf (sint (Breaking_ArchiveSizeBytes req) > 0 \<and> sint (reg_MaxArtifactSizeBytes svc) > 0
                  \<and> sint (Breaking_ArchiveSizeBytes req) > sint (reg_MaxArtifactSizeBytes svc))
                  (Registry RegErrArtifactTooLarge)) (\<lambda>_.
         case reg_bufBreaking svc of
           None \<Rightarrow> raise (Registry RegErrBufBreakingUnavailable)
         | Some check \<Rightarrow>
           bindE (failIf (\<not> reg_hasReports svc) (Registry RegErrBufBreakingUnavailable)) (\<lambda>_.
           bindE (replaceErr (Domain ErrNotFound) (Registry RegErrModuleNotFound)
                    (ModuleRepo_GetByName name)) (\<lambda>module.
           bindE (resolveBreakingBaseline (Module_ID module) against) (\<lambda>baseline.
           bindE (replaceErr (Domain ErrNotFound) (Registry RegErrBaselineBufImageMissing)
                    (ArtifactRepo_GetByModuleVersionAndKind (Version_ID baseline) ArtifactKindBufImage))
             (\<lambda>bufImageArtifact.
           bindE (readStoredArtifact (Artifact_StorageKey bufImageArtifact)) (\<lambda>baselineImage.
           bindE (liftE (readArtifact svc archive)) (\<lambda>(body, _, _).
           bindE (extractSource svc body) (\<lambda>tree.
           bindE (requireBufYAML tree) (\<lambda>_.
           bindE system_call (\<lambda>n.
           bindE (mapErr (Joined (Registry RegErrBufBreakingFailed))
                    (liftE (check n (snd tree) baselineImage targetRef))) (\<lambda>result.
           bindE (failIf (checkedStatus result = BreakingReportStatusFailed)
                    (Registry RegErrBufBreakingFailed)) (\<lambda>_.
             storeReport svc module baseline targetRef (checkedStatus result) result)))))))))))))))"

definition GetBreakingReport :: "string \<Rightarrow> (BreakingReport \<times> BreakingChange list) io" where
  "GetBreakingReport reportIDValue =
     (let reportID = NewID reportIDValue in
      bindE (failIf (reportID = '''') (Registry RegErrBreakingReportNotFound)) (\<lambda>_.
        replaceErr (Domain ErrNotFound) (Registry RegErrBreakingReportNotFound)
          (ReportRepo_GetByID reportID)))"

definition ListBreakingReports :: "string \<Rightarrow> int \<Rightarrow> int \<Rightarrow> BreakingReport list io" where
  "ListBreakingReports moduleName limit off =
     bindE (GetModule moduleName) (\<lambda>module. ReportRepo_ListByModule (Module_ID module) limit off)"

section \<open>Dependency queries\<close>

definition GetModuleDependencyGraph ::
  "RegistryService \<Rightarrow> string
   \<Rightarrow> (Module \<times> ModuleDependency list \<times> ModuleDependency list \<times> UnresolvedProtoDependency list) io" where
  "GetModuleDependencyGraph svc moduleName =
     bindE (GetModule moduleName) (\<lambda>module.
     bindE (failIf (\<not> reg_hasDependencyRead svc) (Registry RegErrStorageFailure)) (\<lambda>_.
     bindE (ignoreNotFound (ListUpstreamByModule (Module_ID module))) (\<lambda>upstream.
     bindE (ignoreNotFound (ListDownstreamByModule (Module_ID module))) (\<lambda>downstream.
     bindE (ignoreNotFound (ListUnresolvedByModule (Module_ID module))) (\<lambda>unresolved.
       ret (module, upstream, downstream, unresolved))))))"

definition Registry_ListAffectedModules ::
  "RegistryService \<Rightarrow> string \<Rightarrow> (Module \<times> AffectedModule list) io" where
  "Registry_ListAffectedModules svc moduleName =
     bindE (GetModule moduleName) (\<lambda>module.
     bindE (failIf (\<not> reg_hasDependencyRead svc) (Registry RegErrStorageFailure)) (\<lambda>_.
     bindE (ignoreNotFound (ListAffectedModules (Module_ID module))) (\<lambda>affected.
       ret (module, affected))))"

definition GetBreakingReportAffectedModules ::
  "RegistryService \<Rightarrow> string \<Rightarrow> (BreakingReport \<times> AffectedModule list) io" where
  "GetBreakingReportAffectedModules svc reportIDValue =
     bindE (GetBreakingReport reportIDValue) (\<lambda>(report, _).
     bindE (failIf (\<not> reg_hasDependencyRead svc) (Registry RegErrStorageFailure)) (\<lambda>_.
     bindE (ignoreNotFound (ListAffectedModules (Report_ModuleID report))) (\<lambda>affected.
       ret (report, affected))))"

section \<open>API tokens\<close>

definition CreateAPIToken :: "RegistryService \<Rightarrow> string \<Rightarrow> time option \<Rightarrow> (APIToken \<times> string) io" where
  "CreateAPIToken svc name expiresAt =
     bindE random_hex (\<lambda>rawToken.
     bindE clock_now (\<lambda>now.
     bindE NewRandomID (\<lambda>tokenID.
       let token = \<lparr>Token_ID = tokenID, Token_Name = name, Token_TokenHash = reg_hashToken svc rawToken,
             Token_CreatedAt = now, Token_LastUsedAt = None, Token_ExpiresAt = expiresAt\<rparr>
       in bindE (TokenRepo_Create token) (\<lambda>_. ret (token, rawToken)))))"

text \<open>The subject is the token's id and name.\<close>

definition AuthenticateToken :: "RegistryService \<Rightarrow> string \<Rightarrow> (APITokenID \<times> string) io" where
  "AuthenticateToken svc rawToken =
     bindE (replaceErr (Domain ErrNotFound) (Registry RegErrInvalidOrExpiredToken)
              (TokenRepo_GetByHash (reg_hashToken svc rawToken))) (\<lambda>token.
     bindE clock_now (\<lambda>now.
     bindE (failIf (IsExpired token now) (Registry RegErrInvalidOrExpiredToken)) (\<lambda>_.
     bindE (attempt (TokenRepo_MarkUsed (Token_ID token) now)) (\<lambda>_.
       ret (Token_ID token, Token_Name token)))))"

end
