(* ===== verification/Registry_Reads.thy ===== *)
theory Registry_Reads
  imports Approval_Effects
begin

text \<open>
  What the lookups of modules and versions return, in terms of the rows: the first row that matches,
  and a missing one exactly when there is none.
\<close>

definition first_module :: "string \<Rightarrow> db \<Rightarrow> module_row option" where
  "first_module name d = first_row (filter (\<lambda>r. mod_name r = name) (db_modules d))"

definition first_version :: "string \<Rightarrow> Version \<Rightarrow> db \<Rightarrow> version_row option" where
  "first_version mid version d =
     first_row (filter (\<lambda>r. ver_module_id r = mid \<and> ver_version r = version) (db_versions d))"

definition newest_version :: "string \<Rightarrow> db \<Rightarrow> version_row option" where
  "newest_version mid d =
     first_row (sort_key (\<lambda>r. - ver_created_at r) (filter (\<lambda>r. ver_module_id r = mid) (db_versions d)))"

lemma select_after:
  "bindE sql (\<lambda>u. select (g u)) d = (Inr (row # rest), d') \<longleftrightarrow>
     (\<exists>u. sql d = (Inr u, d') \<and> g u d' = row # rest)"
  by (auto simp: bindE_Inr)

lemma module_read:
  assumes "ModuleRepo_GetByName name w = (Inr m, w')"
  obtains r where "first_module name (w_db w) = Some r" and "scanModule r = Inr m"
proof -
  from assms obtain row rest d where "select (\<lambda>d. filter (\<lambda>r. mod_name r = name) (db_modules d)) (w_db w)
      = (Inr (row # rest), d)" and "scanModule row = Inr m"
    unfolding ModuleRepo_GetByName_def by (rule query_row_Inr)
  moreover from this(1) have "filter (\<lambda>r. mod_name r = name) (db_modules (w_db w)) = row # rest" by auto
  ultimately show ?thesis using that [of row] by (simp add: first_module_def first_row_Some)
qed

lemma version_read:
  assumes "VersionRepo_GetByModuleAndVersion m version w = (Inr v, w')"
  obtains mid r where "p_uuid (w_platform w) m = Some mid" and "first_version mid version (w_db w) = Some r"
    and "scanModuleVersion r = Inr v"
  using assms unfolding VersionRepo_GetByModuleAndVersion_def VersionRepo_getOne_def mapErr_Inr
proof (rule query_row_Inr)
  fix row rest d
  assume "bindE (uuid (w_platform w) m) (\<lambda>u. select (\<lambda>d. filter
      (\<lambda>r. ver_module_id r = u \<and> ver_version r = version) (db_versions d))) (w_db w) = (Inr (row # rest), d)"
    and "scanModuleVersion row = Inr v"
  then obtain mid where "p_uuid (w_platform w) m = Some mid" and "scanModuleVersion row = Inr v"
      and "filter (\<lambda>r. ver_module_id r = mid \<and> ver_version r = version) (db_versions (w_db w)) = row # rest"
    by (auto simp: bindE_Inr)
  then show ?thesis using that [of mid row] by (simp add: first_version_def first_row_Some)
qed

lemma latest_read:
  assumes "VersionRepo_GetLatestByModule m w = (Inr v, w')"
  obtains mid r where "p_uuid (w_platform w) m = Some mid" and "newest_version mid (w_db w) = Some r"
    and "scanModuleVersion r = Inr v"
  using assms unfolding VersionRepo_GetLatestByModule_def VersionRepo_getOne_def mapErr_Inr
proof (rule query_row_Inr)
  fix row rest d
  assume "bindE (uuid (w_platform w) m) (\<lambda>u. select (\<lambda>d. take 1 (sort_key (\<lambda>r. - ver_created_at r)
      (filter (\<lambda>r. ver_module_id r = u) (db_versions d))))) (w_db w) = (Inr (row # rest), d)"
    and "scanModuleVersion row = Inr v"
  then obtain mid where "p_uuid (w_platform w) m = Some mid" and "scanModuleVersion row = Inr v"
      and "take 1 (sort_key (\<lambda>r. - ver_created_at r)
        (filter (\<lambda>r. ver_module_id r = mid) (db_versions (w_db w)))) = row # rest"
    by (auto simp: bindE_Inr)
  moreover from this(3) have "first_row (sort_key (\<lambda>r. - ver_created_at r)
      (filter (\<lambda>r. ver_module_id r = mid) (db_versions (w_db w)))) = Some row"
    by (metis append_Cons append_take_drop_id first_row_Some)
  ultimately show ?thesis using that [of mid row] by (simp add: newest_version_def)
qed

text \<open>
  A lookup answers \<^verbatim>\<open>ErrNotFound\<close> only because there is no row: scanning and the statement's other errors
  yield different ones.
\<close>

lemma mapError_missing: "errors_Is (mapError (Pg e)) (Domain ErrNotFound) \<longleftrightarrow> e = NoRows"
  by (cases e) (auto simp: mapCheckViolation_def)

lemma query_row_missing:
  assumes run: "query_row sql scan w = (Inl e, w')" and e: "errors_Is e (Domain ErrNotFound)"
    and scan: "\<And>r e. scan r = Inl e \<Longrightarrow> \<not> errors_Is e (Domain ErrNotFound)"
    and sql: "\<And>e d. sql (w_platform w) (w_db w) = (Inl e, d) \<Longrightarrow> e \<noteq> NoRows"
  shows "\<exists>d. sql (w_platform w) (w_db w) = (Inr [], d)"
proof -
  have "\<exists>w1. stmt (\<lambda>p. bindE (sql p) (\<lambda>rows. liftE (case rows of [] \<Rightarrow> Inl NoRows | r # _ \<Rightarrow> Inr r))) w = (Inl e, w1)"
    using run scan e unfolding query_row_def by (auto simp: bindE_Inl)
  then have "\<exists>d. bindE (sql (w_platform w)) (\<lambda>rows. liftE (case rows of [] \<Rightarrow> Inl NoRows | r # _ \<Rightarrow> Inr r)) (w_db w)
      = (Inl NoRows, d)"
    using e mapError_missing by (auto simp: stmt_def Let_def split: option.splits prod.splits sum.splits)
  then obtain d where "bindE (sql (w_platform w)) (\<lambda>rows. liftE (case rows of [] \<Rightarrow> Inl NoRows | r # _ \<Rightarrow> Inr r)) (w_db w)
      = (Inl NoRows, d)" ..
  then show ?thesis
    using sql unfolding bindE_Inl
  proof (elim disjE exE conjE)
    fix rows d1
    assume rows: "sql (w_platform w) (w_db w) = (Inr rows, d1)"
      and "liftE (case rows of [] \<Rightarrow> Inl NoRows | r # _ \<Rightarrow> Inr r) d1 = (Inl NoRows, d)"
    then show ?thesis by (cases rows) auto
  qed blast
qed

lemma scan_not_missing:
  "scanModule r = Inl e \<Longrightarrow> \<not> errors_Is e (Domain ErrNotFound)"
  "scanModuleVersion v = Inl e \<Longrightarrow> \<not> errors_Is e (Domain ErrNotFound)"
  by (auto simp: scanModule_def scanModuleVersion_def bindR_def NewModuleName_def NewVersion_def
      NewModuleVersionStatus_def Let_def split: sum.splits option.splits if_splits)

lemma mapError_twice: "errors_Is (mapError e) (Domain ErrNotFound) \<Longrightarrow> e = Pg NoRows \<or> errors_Is e (Domain ErrNotFound)"
  by (cases e rule: mapError.cases) (auto simp: mapCheckViolation_def split: option.splits if_splits)

lemma query_row_mapped: "query_row sql scan w = (Inl (Pg NoRows), w') \<Longrightarrow> \<exists>r. scan r = Inl (Pg NoRows)"
proof -
  have "mapError (Pg e) \<noteq> Pg NoRows" for e by (cases e) (auto simp: mapCheckViolation_def)
  then show "query_row sql scan w = (Inl (Pg NoRows), w') \<Longrightarrow> ?thesis"
    unfolding query_row_def
    by (auto simp: bindE_Inl liftE_def stmt_def Let_def split: option.splits prod.splits sum.splits)
qed

lemma scan_version_pg: "scanModuleVersion r \<noteq> Inl (Pg NoRows)"
  by (auto simp: scanModuleVersion_def bindR_def NewVersion_def NewModuleVersionStatus_def Let_def
      split: sum.splits option.splits if_splits)

lemma version_query_missing:
  assumes "VersionRepo_getOne sql w = (Inl e, w')" and "errors_Is e (Domain ErrNotFound)"
    and "\<And>e d. sql (w_platform w) (w_db w) = (Inl e, d) \<Longrightarrow> e \<noteq> NoRows"
  shows "\<exists>d. sql (w_platform w) (w_db w) = (Inr [], d)"
proof -
  from assms(1) obtain d where d: "query_row sql scanModuleVersion w = (Inl d, w')" "e = mapError d"
    by (auto simp: VersionRepo_getOne_def mapErr_Inl)
  with mapError_twice assms(2) query_row_mapped scan_version_pg
  have "errors_Is d (Domain ErrNotFound)" by metis
  from query_row_missing [OF d(1) this scan_not_missing(2) assms(3)] show ?thesis .
qed

lemma version_missing:
  assumes "VersionRepo_GetByModuleAndVersion m version w = (Inl e, w')" and "errors_Is e (Domain ErrNotFound)"
  obtains mid where "p_uuid (w_platform w) m = Some mid" and "first_version mid version (w_db w) = None"
proof -
  have "\<exists>d. bindE (uuid (w_platform w) m) (\<lambda>u. select (\<lambda>d. filter
      (\<lambda>r. ver_module_id r = u \<and> ver_version r = version) (db_versions d))) (w_db w) = (Inr [], d)"
    using assms unfolding VersionRepo_GetByModuleAndVersion_def
    by (rule version_query_missing) (auto simp: bindE_Inl uuid_def liftE_def select_def split: option.splits)
  then show ?thesis using that by (auto simp: bindE_Inr first_version_def)
qed

lemma latest_missing:
  assumes "VersionRepo_GetLatestByModule m w = (Inl e, w')" and "errors_Is e (Domain ErrNotFound)"
  obtains mid where "p_uuid (w_platform w) m = Some mid" and "newest_version mid (w_db w) = None"
proof -
  have "\<exists>d. bindE (uuid (w_platform w) m) (\<lambda>u. select (\<lambda>d. take 1 (sort_key (\<lambda>r. - ver_created_at r)
      (filter (\<lambda>r. ver_module_id r = u) (db_versions d))))) (w_db w) = (Inr [], d)"
    using assms unfolding VersionRepo_GetLatestByModule_def
    by (rule version_query_missing) (auto simp: bindE_Inl uuid_def liftE_def select_def split: option.splits)
  then show ?thesis using that by (auto simp: bindE_Inr newest_version_def)
qed

lemma module_missing:
  assumes "ModuleRepo_GetByName name w = (Inl e, w')" and "errors_Is e (Domain ErrNotFound)"
  shows "first_module name (w_db w) = None"
proof -
  have "\<exists>d. select (\<lambda>d. filter (\<lambda>r. mod_name r = name) (db_modules d)) (w_db w) = (Inr [], d)"
    using assms(1) [unfolded ModuleRepo_GetByName_def] assms(2) scan_not_missing(1)
    by (rule query_row_missing) (auto simp: select_def)
  then show ?thesis by (simp add: first_module_def)
qed

end
