(* ===== verification/Dependency_Effects.thy ===== *)
theory Dependency_Effects
  imports Dependency_Resolver
begin

text \<open>
  What the dependency graph's operations do to the tables: reading changes nothing, storing replaces
  the rows of one consumer version and of no other, and the outbox gets one record.
\<close>

section \<open>Loops of inserts\<close>

lemma forE_appends:
  assumes run: "forE xs f w = (Inr u, w')"
    and step: "\<And>x w u w'. f x w = (Inr u, w') \<Longrightarrow>
      \<exists>row. w_db w' = upd (\<lambda>rs. rs @ [row]) (w_db w) \<and> P (w_platform w) x row"
    and env: "\<And>x. steps same_env (f x)"
    and upd_Nil: "\<And>d. upd (\<lambda>rs. rs) d = d"
    and upd_upd: "\<And>g h d. upd g (upd h d) = upd (\<lambda>rs. g (h rs)) d"
  shows "\<exists>rows. w_db w' = upd (\<lambda>rs. rs @ rows) (w_db w) \<and> list_all2 (P (w_platform w)) xs rows"
  using run
proof (induction xs arbitrary: w)
  case Nil
  then show ?case by (auto intro!: exI [of _ "[]"] simp: upd_Nil)
next
  case (Cons x xs)
  then obtain w1 u1 where first: "f x w = (Inr u1, w1)" and rest: "forE xs f w1 = (Inr u, w')"
    by (auto simp: bindE_Inr)
  from step [OF first] obtain row where row: "w_db w1 = upd (\<lambda>rs. rs @ [row]) (w_db w)"
    "P (w_platform w) x row" by blast
  have "w_platform w1 = w_platform w" using stepsD [OF env first] by (simp add: same_env_def)
  with Cons.IH [OF rest] obtain rows where
    "w_db w' = upd (\<lambda>rs. rs @ rows) (w_db w1)" "list_all2 (P (w_platform w)) xs rows" by auto
  with row show ?case by (intro exI [of _ "row # rows"]) (simp add: upd_upd)
qed

section \<open>Reads\<close>

lemma metadata_still: "steps still (Metadata_GetByModuleVersion vid)"
proof -
  have enums: "steps still (loadProtoEnums vid fid ms)" for fid ms
    unfolding loadProtoEnums_def loadProtoEnumValues_def Let_def
    by (intro still_rules) (auto simp: bindE_Inr)
  have messages: "steps still (loadProtoMessages vid fid)" for fid
    unfolding loadProtoMessages_def loadProtoFields_def
    by (intro still_rules) (auto simp: bindE_Inr)
  show ?thesis
    unfolding Metadata_GetByModuleVersion_def loadProtoFiles_def loadFile_def loadProtoImports_def
      loadProtoServices_def loadProtoMethods_def
    by (intro still_rules messages enums) (auto simp: bindE_Inr)
qed

lemma uuids_run: "uuids p ss d = (Inr us, d') \<Longrightarrow> d' = d \<and> list_all2 (\<lambda>s u. p_uuid p s = Some u) ss us"
  by (induction ss arbitrary: us) (auto simp: bindE_Inr)

lemma provider_still:
  "steps still ListLatestPublishedModuleVersions"
  "steps still (ListProviderFiles ids)" "steps still (ListProviderSymbols ids)"
  "steps still (buildProviderIndex mid)"
proof -
  show *: "steps still ListLatestPublishedModuleVersions"
    unfolding ListLatestPublishedModuleVersions_def by (intro still_rules) auto
  show **: "steps still (ListProviderFiles ids)" "steps still (ListProviderSymbols ids)" for ids
    unfolding ListProviderFiles_def ListProviderSymbols_def
    by (intro still_rules; auto simp: bindE_Inr dest: uuids_run)+
  show "steps still (buildProviderIndex mid)"
    unfolding buildProviderIndex_def Let_def by (intro still_rules * **)
qed

lemma NewRandomID_still: "steps still NewRandomID"
  unfolding NewRandomID_def by (intro still_rules)

lemma resolve_still: "steps still (resolveDependencies module v metadata index)"
proof -
  have "steps still (apply_outcome (addDependency module v now) (addUnresolved module v now) out r)"
    for now out r
    by (cases out) (auto simp: addDependency_def addUnresolved_def Let_def
        intro!: still_rules NewRandomID_still)
  then show ?thesis
    unfolding resolveDependencies_def Let_def resolveFiles_outcome
    by (intro still_rules) simp
qed

lemma lookup_still:
  "steps still (resolveModule input)" "steps still (resolveModuleVersion mid input)"
  unfolding resolveModule_def resolveModuleVersion_def ModuleRepo_GetByID_def
    ModuleRepo_GetByName_def VersionRepo_GetByID_def VersionRepo_GetByModuleAndVersion_def
    VersionRepo_getOne_def
  by (intro still_rules; auto simp: bindE_Inr)+

section \<open>Storing\<close>

definition dependency_stored :: "platform \<Rightarrow> ModuleDependency \<Rightarrow> dependency_row \<Rightarrow> bool" where
  "dependency_stored p dependency row \<longleftrightarrow>
     p_uuid p (Dep_ID dependency) = Some (dep_id row)
     \<and> p_uuid p (Dep_ConsumerModuleID dependency) = Some (dep_consumer_module_id row)
     \<and> p_uuid p (Dep_ConsumerModuleVersionID dependency) = Some (dep_consumer_module_version_id row)
     \<and> p_uuid p (Dep_ProviderModuleID dependency) = Some (dep_provider_module_id row)
     \<and> p_uuid p (Dep_ProviderModuleVersionID dependency) = Some (dep_provider_module_version_id row)
     \<and> dep_source row = DependencySource_String (Dep_Source dependency)
     \<and> dep_reason row = DependencyResolutionReason_String (Dep_Reason dependency)
     \<and> dep_import_path row = Dep_ImportPath dependency
     \<and> dep_referenced_package row = Dep_ReferencedPackage dependency
     \<and> dep_referenced_symbol row = Dep_ReferencedSymbol dependency
     \<and> (Dep_CreatedAt dependency \<noteq> 0 \<longrightarrow> dep_created_at row = Dep_CreatedAt dependency)"

definition unresolved_stored :: "platform \<Rightarrow> UnresolvedProtoDependency \<Rightarrow> unresolved_row \<Rightarrow> bool" where
  "unresolved_stored p dependency row \<longleftrightarrow>
     p_uuid p (Unres_ID dependency) = Some (unr_id row)
     \<and> p_uuid p (Unres_ModuleID dependency) = Some (unr_module_id row)
     \<and> p_uuid p (Unres_ModuleVersionID dependency) = Some (unr_module_version_id row)
     \<and> unr_source row = DependencySource_String (Unres_Source dependency)
     \<and> unr_import_path row = Unres_ImportPath dependency
     \<and> unr_referenced_package row = Unres_ReferencedPackage dependency
     \<and> unr_referenced_symbol row = Unres_ReferencedSymbol dependency
     \<and> unr_reason row = UnresolvedDependencyReason_String (Unres_Reason dependency)
     \<and> (Unres_CreatedAt dependency \<noteq> 0 \<longrightarrow> unr_created_at row = Unres_CreatedAt dependency)"

lemma timeOrNow_Inr:
  "timeOrNow t w = (Inr at, w') \<Longrightarrow> w_db w' = w_db w \<and> w_platform w' = w_platform w \<and> (t \<noteq> 0 \<longrightarrow> at = t)"
  by (auto simp: timeOrNow_def clock_now_def split: if_splits)

lemma createDependency_Inr:
  assumes "createDependency dependency w = (Inr u, w')"
  shows "\<exists>row. w_db w' = db_dependencies_update (\<lambda>rs. rs @ [row]) (w_db w)
    \<and> dependency_stored (w_platform w) dependency row"
  using assms
  by (auto simp: createDependency_def sql_Inr dependency_stored_def row_of_dependency_def
      dest!: timeOrNow_Inr)

lemma createUnresolved_Inr:
  assumes "createUnresolvedDependency dependency w = (Inr u, w')"
  shows "\<exists>row. w_db w' = db_unresolved_update (\<lambda>rs. rs @ [row]) (w_db w)
    \<and> unresolved_stored (w_platform w) dependency row"
  using assms
  by (auto simp: createUnresolvedDependency_def sql_Inr unresolved_stored_def row_of_unresolved_def
      dest!: timeOrNow_Inr)

lemma create_env:
  "steps same_env (createDependency dependency)" "steps same_env (createUnresolvedDependency hole)"
  unfolding createDependency_def createUnresolvedDependency_def timeOrNow_def by (intro env_rules)+

lemma Replace_env: "steps same_env (ReplaceByConsumerModuleVersion vid deps holes)"
  unfolding ReplaceByConsumerModuleVersion_def by (intro env_rules create_env)

text \<open>\<open>replaced\<close>: the rows of version \<open>u\<close> are the given ones, all others are as before.\<close>

definition replaced :: "string \<Rightarrow> dependency_row list \<Rightarrow> unresolved_row list \<Rightarrow> db \<Rightarrow> db" where
  "replaced u drows hrows d =
     db_unresolved_update (\<lambda>rs. filter (\<lambda>r. unr_module_version_id r \<noteq> u) rs @ hrows)
       (db_dependencies_update (\<lambda>rs. filter (\<lambda>r. dep_consumer_module_version_id r \<noteq> u) rs @ drows) d)"

lemma delete_edges_Inr:
  assumes "stmt (\<lambda>p. bindE (uuid p vid) (\<lambda>u. delete_where db_dependencies db_dependencies_update
      (\<lambda>r. dep_consumer_module_version_id r = u))) w = (Inr n, w')"
  shows "\<exists>u. p_uuid (w_platform w) vid = Some u \<and> w_platform w' = w_platform w
    \<and> w_db w' = db_dependencies_update (filter (\<lambda>r. dep_consumer_module_version_id r \<noteq> u)) (w_db w)"
  using assms by (auto simp: sql_Inr)

lemma delete_holes_Inr:
  assumes "stmt (\<lambda>p. bindE (uuid p vid) (\<lambda>u. delete_where db_unresolved db_unresolved_update
      (\<lambda>r. unr_module_version_id r = u))) w = (Inr n, w')"
  shows "\<exists>u. p_uuid (w_platform w) vid = Some u \<and> w_platform w' = w_platform w
    \<and> w_db w' = db_unresolved_update (filter (\<lambda>r. unr_module_version_id r \<noteq> u)) (w_db w)"
  using assms by (auto simp: sql_Inr)

lemma replace_body_Inr:
  assumes "bindE (stmt (\<lambda>p. bindE (uuid p vid) (\<lambda>u.
          delete_where db_dependencies db_dependencies_update
            (\<lambda>r. dep_consumer_module_version_id r = u)))) (\<lambda>_.
        bindE (stmt (\<lambda>p. bindE (uuid p vid) (\<lambda>u.
          delete_where db_unresolved db_unresolved_update
            (\<lambda>r. unr_module_version_id r = u)))) (\<lambda>_.
        bindE (forE deps createDependency) (\<lambda>_.
          forE holes createUnresolvedDependency))) w = (Inr x, w')"
  shows "\<exists>u drows hrows. p_uuid (w_platform w) vid = Some u
    \<and> w_db w' = replaced u drows hrows (w_db w)
    \<and> list_all2 (dependency_stored (w_platform w)) deps drows
    \<and> list_all2 (unresolved_stored (w_platform w)) holes hrows"
  using assms
proof (elim bindE_InrE)
  fix n1 n2 x3 w1 w2 w3
  assume "stmt (\<lambda>p. bindE (uuid p vid) (\<lambda>u. delete_where db_dependencies db_dependencies_update
      (\<lambda>r. dep_consumer_module_version_id r = u))) w = (Inr n1, w1)"
    and "stmt (\<lambda>p. bindE (uuid p vid) (\<lambda>u. delete_where db_unresolved db_unresolved_update
      (\<lambda>r. unr_module_version_id r = u))) w1 = (Inr n2, w2)"
    and deps: "forE deps createDependency w2 = (Inr x3, w3)"
    and holes: "forE holes createUnresolvedDependency w3 = (Inr x, w')"
  from delete_edges_Inr [OF this(1)] delete_holes_Inr [OF this(2)] obtain u
    where u: "p_uuid (w_platform w) vid = Some u" and w2: "w_platform w2 = w_platform w"
      "w_db w2 = db_unresolved_update (filter (\<lambda>r. unr_module_version_id r \<noteq> u))
         (db_dependencies_update (filter (\<lambda>r. dep_consumer_module_version_id r \<noteq> u)) (w_db w))"
    by auto
  have w3: "w_platform w3 = w_platform w"
    using stepsD [OF env.steps_forE [OF create_env(1)] deps] w2 by (simp add: same_env_def)
  obtain drows where d: "w_db w3 = db_dependencies_update (\<lambda>rs. rs @ drows) (w_db w2)"
    "list_all2 (dependency_stored (w_platform w2)) deps drows"
    using forE_appends [OF deps, of db_dependencies_update dependency_stored,
        OF createDependency_Inr create_env(1)] by (auto simp: comp_def)
  obtain hrows where h: "w_db w' = db_unresolved_update (\<lambda>rs. rs @ hrows) (w_db w3)"
    "list_all2 (unresolved_stored (w_platform w3)) holes hrows"
    using forE_appends [OF holes, of db_unresolved_update unresolved_stored,
        OF createUnresolved_Inr create_env(2)] by (auto simp: comp_def)
  show ?thesis
    using u d h w2 w3
    by (intro exI [of _ u] exI [of _ drows] exI [of _ hrows]) (simp add: replaced_def comp_def)
qed

lemma Replace_Inr:
  assumes "ReplaceByConsumerModuleVersion vid deps holes w = (Inr x, w')"
  obtains u drows hrows where "p_uuid (w_platform w) vid = Some u"
    and "w_db w' = replaced u drows hrows (w_db w)"
    and "list_all2 (dependency_stored (w_platform w)) deps drows"
    and "list_all2 (unresolved_stored (w_platform w)) holes hrows"
  using assms unfolding ReplaceByConsumerModuleVersion_def
proof (cases rule: WithinTransaction_cases)
  case nested
  then show ?thesis using replace_body_Inr that by metis
next
  case (commit w0 y w1)
  then have "w_platform w0 = w_platform w" "w_db w0 = w_db w" by (auto simp: control_Inr)
  with commit replace_body_Inr [OF commit(3)] that show ?thesis by auto
qed auto

lemma store_Inr:
  assumes "storeResolvedDependencies module v deps holes w = (Inr x, w')"
  obtains u drows hrows oid occurred at where "p_uuid (w_platform w) (Version_ID v) = Some u"
    and "w_db w' = db_outbox_update (\<lambda>rows. rows @ [new_outbox_row oid
           (NewModuleDependenciesUpdated module v (int (length deps)) (int (length holes)) occurred) at])
         (db_generated_update Suc (replaced u drows hrows (w_db w)))"
    and "list_all2 (dependency_stored (w_platform w)) deps drows"
    and "list_all2 (unresolved_stored (w_platform w)) holes hrows"
    and "\<forall>r \<in> set (db_outbox (w_db w)). obx_dedup_key r
       \<noteq> ''module:'' @ Module_ID module @ '':version:'' @ Version_Version v @ '':dependencies-updated''"
  using assms unfolding storeResolvedDependencies_def
proof (elim bindE_InrE)
  fix y occurred w1 w2
  let ?event = "NewModuleDependenciesUpdated module v (int (length deps)) (int (length holes)) occurred"
  assume replace: "ReplaceByConsumerModuleVersion (Version_ID v) deps holes w = (Inr y, w1)"
    and "clock_now w1 = (Inr occurred, w2)"
    and create: "Outbox_Create ?event w2 = (Inr x, w')"
  then have w2: "w_db w2 = w_db w1" by (auto simp: clock_now_def)
  from replace show ?thesis
  proof (rule Replace_Inr)
    fix u drows hrows
    assume u: "p_uuid (w_platform w) (Version_ID v) = Some u"
      and db: "w_db w1 = replaced u drows hrows (w_db w)"
      and rows: "list_all2 (dependency_stored (w_platform w)) deps drows"
        "list_all2 (unresolved_stored (w_platform w)) holes hrows"
    from create show ?thesis
    proof (rule Outbox_Create_Inr)
      fix oid at
      assume outbox: "w_db w' = db_outbox_update (\<lambda>rows. rows @ [new_outbox_row oid ?event at])
          (db_generated_update Suc (w_db w2))"
        and fresh: "\<forall>r \<in> set (db_outbox (w_db w2)). obx_dedup_key r \<noteq> Rec_DedupKey ?event"
      have "db_outbox (w_db w2) = db_outbox (w_db w)" by (simp add: w2 db replaced_def)
      with fresh that [OF u _ rows, of oid occurred at] outbox show ?thesis
        by (simp add: w2 db NewModuleDependenciesUpdated_def new_record_def)
    qed
  qed
qed

end
