(* ===== verification/Registry_Effects.thy ===== *)
theory Registry_Effects
  imports Registry_Service Registry_Reads Dependency_Effects
begin

text \<open>
  What the steps of the registry's use cases do: the calls of the object store touch no table and only
  the objects of their keys, the statements touch no object, and of the transaction of a publication
  only its first three statements touch the tables of modules, versions and artifacts.
\<close>

section \<open>The object store\<close>

lemma object_call_run:
  "object_call w = (r, w') \<Longrightarrow>
   w' = w\<lparr>w_calls := Suc (w_calls w)\<rparr> \<and> (r = Inr () \<longleftrightarrow> w_fault w (w_calls w) = None)"
  by (auto simp: object_call_def stmt_def ret_def Let_def split: option.splits)

lemma object_put_Inr:
  "object_put key body w = (Inr obj, w') \<longleftrightarrow>
     w_fault w (w_calls w) = None
     \<and> obj = \<lparr>Object_Key = key, Object_ContentType = artifactContentType,
          Object_SizeBytes = int (length body), Object_Body = ''''\<rparr>
     \<and> w' = w\<lparr>w_calls := Suc (w_calls w), w_objects := (w_objects w)(key \<mapsto> body)\<rparr>"
  by (auto simp: object_put_def bindE_Inr object_call_def stmt_Inr)

lemma object_put_Inl: "object_put key body w = (Inl e, w') \<Longrightarrow> w' = w\<lparr>w_calls := Suc (w_calls w)\<rparr>"
  by (auto simp: object_put_def bindE_Inl dest: object_call_run)

lemma object_delete_run:
  "object_delete key w = (r, w') \<Longrightarrow>
   w' = w\<lparr>w_calls := Suc (w_calls w)\<rparr>
   \<or> w' = w\<lparr>w_calls := Suc (w_calls w), w_objects := (w_objects w)(key := None)\<rparr>"
  by (auto simp: object_delete_def bindE_def split: prod.splits sum.splits dest: object_call_run)

lemma object_delete_ok:
  "w_fault w (w_calls w) = None \<Longrightarrow>
   object_delete key w = (Inr (), w\<lparr>w_calls := Suc (w_calls w), w_objects := (w_objects w)(key := None)\<rparr>)"
  by (simp add: object_delete_def bindE_def object_call_def stmt_def ret_def)

text \<open>Everything but the tables and the objects: \<open>outer\<close>; the objects outside of a set of keys: \<open>besides\<close>.\<close>

definition outer :: "world \<Rightarrow> world \<Rightarrow> bool" where
  "outer w w' \<longleftrightarrow> same_env w (w'\<lparr>w_objects := w_objects w\<rparr>)"

definition besides :: "string set \<Rightarrow> world \<Rightarrow> world \<Rightarrow> bool" where
  "besides keys w w' \<longleftrightarrow> outer w w' \<and> w_db w' = w_db w
     \<and> (\<forall>key. key \<notin> keys \<longrightarrow> w_objects w' key = w_objects w key)"

interpretation outer: effect_preorder outer
  by unfold_locales (auto simp: outer_def same_env_def)

interpretation besides: effect_preorder "besides keys" for keys
  by unfold_locales (auto simp: besides_def outer_def same_env_def)

lemma outer_env: "steps same_env m \<Longrightarrow> steps outer m"
  by (erule steps_mono) (simp add: outer_def same_env_def)

lemma besides_still: "steps still m \<Longrightarrow> steps (besides keys) m"
  by (erule steps_mono) (simp add: besides_def outer_def still_def same_env_def)

lemma besides_put: "key \<in> keys \<Longrightarrow> steps (besides keys) (object_put key body)"
  by (rule stepsI) (auto simp: besides_def outer_def same_env_def object_put_def object_call_def
      stmt_def bindE_def ret_def Let_def split: option.splits)

lemma besides_delete: "key \<in> keys \<Longrightarrow> steps (besides keys) (object_delete key)"
  by (rule stepsI) (auto simp: besides_def outer_def same_env_def object_delete_def object_call_def
      stmt_def bindE_def ret_def Let_def split: option.splits)

lemma besides_cleanup: "set ks \<subseteq> keys \<Longrightarrow> steps (besides keys) (cleanupUploadedArtifacts ks)"
  unfolding cleanupUploadedArtifacts_def
  by (intro besides.steps_rules besides_delete) auto

lemma outer_put: "steps outer (object_put key body)"
  by (rule steps_mono [OF besides_put [of key "{key}"]]) (auto simp: besides_def)

lemma outer_cleanup: "steps outer (cleanupUploadedArtifacts ks)"
  by (rule steps_mono [OF besides_cleanup [of ks "set ks"]]) (auto simp: besides_def)

lemma cleanup_Inr: "cleanupUploadedArtifacts keys w = (r, w') \<Longrightarrow> r = Inr ()"
  unfolding cleanupUploadedArtifacts_def
  by (induction keys arbitrary: w)
    (auto simp: bindE_def attempt_def ret_def split: prod.splits if_splits sum.splits)

lemma cleanup_deletes:
  assumes "cleanupUploadedArtifacts keys w = (r, w')" and "healthy w" and "'''' \<notin> set keys"
  shows "\<forall>key \<in> set keys. w_objects w' key = None"
  using assms
proof (induction keys arbitrary: w)
  case (Cons k ks)
  let ?w1 = "w\<lparr>w_calls := Suc (w_calls w), w_objects := (w_objects w)(k := None)\<rparr>"
  have "w_fault w (w_calls w) = None" using Cons.prems(2) by (simp add: healthy_def)
  then have rest: "cleanupUploadedArtifacts ks ?w1 = (r, w')"
    using Cons.prems(1,3)
    by (auto simp: cleanupUploadedArtifacts_def bindE_def attempt_def object_delete_ok ret_def)
  have "healthy ?w1" using Cons.prems(2) by (simp add: healthy_def)
  then have "\<forall>key \<in> set ks. w_objects w' key = None"
    using Cons.IH [OF rest] Cons.prems(3) by simp
  moreover have "k \<notin> set ks \<Longrightarrow> w_objects w' k = None"
    using stepsD [OF besides_cleanup [of ks "set ks"] rest] by (simp add: besides_def)
  ultimately show ?case by auto
qed simp

lemma cleaning_Inr: "cleaning keys m w = (Inr x, w') \<longleftrightarrow> m w = (Inr x, w')"
  by (auto simp: cleaning_def catchE_Inr bindE_Inr)

lemma cleaning_Inl:
  assumes "cleaning keys m w = (Inl e, w')"
  obtains w1 r where "m w = (Inl e, w1)" and "cleanupUploadedArtifacts keys w1 = (r, w')"
proof -
  obtain x w1 where m: "m w = (x, w1)" by fastforce
  obtain r w2 where c: "cleanupUploadedArtifacts keys w1 = (r, w2)" by fastforce
  from assms m c cleanup_Inr [OF c] have "x = Inl e" and "w2 = w'"
    by (auto simp: cleaning_def catchE_def bindE_def raise_def split: sum.splits)
  with m c that show ?thesis by simp
qed

lemma cleaning_stop:
  "m w = (Inl e, w1) \<Longrightarrow> cleanupUploadedArtifacts keys w1 = (r, w') \<Longrightarrow> cleaning keys m w = (Inl e, w')"
  using cleanup_Inr [of keys w1 r w'] by (simp add: cleaning_def catchE_def bindE_def raise_def)

section \<open>Reads\<close>

lemma system_still: "steps still system_call"
  by (simp add: steps_def still_def same_env_def system_call_def split: option.splits)

lemma extract_still: "steps still (extractSource svc body)"
proof -
  have "steps still (\<lambda>w. let workdir = reg_tempDir svc n; source = reg_decode svc body;
            polls = (case source of Inl _ \<Rightarrow> 0 | Inr a \<Rightarrow> Suc (length (Archive_Entries a)));
            w1 = w\<lparr>w_polls := w_polls w + polls\<rparr>
        in case ExtractTarGzSafe (\<lambda>i. w_cancel w (w_polls w + i)) source workdir (maxUncompressed svc)
             [workdir \<mapsto> Directory] of
             (Inl err, fs) \<Rightarrow> (Inl (Joined (Registry RegErrUnsafeArchive) (Infra err)), w1)
           | (Inr _, fs) \<Rightarrow> (Inr (workdir, fs), w1))" for n
    by (auto simp: steps_def still_def same_env_def Let_def split: prod.splits sum.splits)
  then show ?thesis unfolding extractSource_def by (intro still.steps_bindE system_still)
qed

lemma parseName_still: "steps still (parseName s)"
  unfolding parseName_def orErr_def by (intro still_rules)

lemma registry_get_still:
  "steps still (ModuleRepo_GetByName name)" "steps still (VersionRepo_GetByModuleAndVersion mid v)"
  "steps still (VersionRepo_GetLatestByModule mid)"
  "steps still (ArtifactRepo_GetByModuleVersionAndKind vid kind)"
  unfolding ModuleRepo_GetByName_def VersionRepo_GetByModuleAndVersion_def VersionRepo_getOne_def
    VersionRepo_GetLatestByModule_def ArtifactRepo_GetByModuleVersionAndKind_def ArtifactRepo_getOne_def
  by (intro still_rules; auto simp: bindE_Inr)+

lemma replaceErr_still: "steps still m \<Longrightarrow> steps still (replaceErr a b m)"
  unfolding replaceErr_def by (intro still_rules)

lemma prepare_still: "steps still (preparePublish svc req)"
proof -
  have check: "steps still (checkUnpublished mid v)" for mid v
    unfolding checkUnpublished_def by (intro still_rules registry_get_still)
  have inspect: "steps still (inspectSource svc f body)" for f body
    unfolding inspectSource_def requireBufYAML_def
    by (intro still_rules extract_still system_still)
  show ?thesis
    unfolding preparePublish_def orErr_def
    by (intro still_rules parseName_still replaceErr_still registry_get_still check inspect)
qed

section \<open>Writes\<close>

text \<open>The tables a publication extends first; the outbox only grows.\<close>

definition core :: "db \<Rightarrow> db \<Rightarrow> bool" where
  "core d d' \<longleftrightarrow> db_modules d' = db_modules d \<and> db_versions d' = db_versions d
     \<and> db_artifacts d' = db_artifacts d \<and> prefix (db_outbox d) (db_outbox d')"

interpretation core: db_preorder core
  by unfold_locales (auto simp: core_def intro: prefix_order.order_trans)

lemma core_still: "steps still m \<Longrightarrow> steps (on_db core) m"
  by (erule steps_mono) (simp add: still_def on_db_def core_def)

lemma core_stmt:
  "(\<And>p d x d'. sql p d = (Inr x, d') \<Longrightarrow> core d d') \<Longrightarrow> steps (on_db core) (stmt sql)"
  by (rule core.steps_stmt)

lemma core_config: "steps (on_db core) (BufConfigRepo_Save vid config)"
proof -
  have upsert: "core d d'" if "upsert_config row d = (Inr x, d')" for row d d' x
    using that by (auto simp: upsert_config_def core_def split: if_splits)
  have "steps (on_db core) (stmt (\<lambda>p. bindE (uuid p vid) (\<lambda>v. bindE (gen_id p) (\<lambda>i.
         upsert_config (config_row_of i v config now)))))" for now
    by (rule core_stmt) (auto simp: bindE_Inr core_def dest!: upsert)
  then show ?thesis unfolding BufConfigRepo_Save_def by (intro core.steps_bindE core.steps_clock)
qed

lemma core_outbox: "steps (on_db core) (Outbox_Create event)"
  by (rule core.steps_outbox, rule core_stmt)
    (auto simp: insertOutbox_def bindE_Inr core_def)

lemma env_outbox: "steps same_env (Outbox_Create event)"
  unfolding Outbox_Create_def by (intro env_rules)

lemma core_metadata_inserts:
  "steps (on_db core) (createProtoFile vid file)" "steps (on_db core) (insertService vid fid pkg service)"
  "steps (on_db core) (createProtoMethod sid method)" "steps (on_db core) (insertEnum vid fid pkg enum)"
  "steps (on_db core) (createProtoEnumValue eid val)"
  "steps (on_db core) (insertMessage vid fid parent pkg name full)"
  "steps (on_db core) (createProtoField mid field)"
  unfolding createProtoFile_def insertService_def createProtoMethod_def insertEnum_def
    createProtoEnumValue_def insertMessage_def createProtoField_def
  by (rule core_stmt; auto simp: bindE_Inr core_def)+

lemma env_metadata_inserts:
  "steps same_env (createProtoFile vid file)" "steps same_env (insertService vid fid pkg service)"
  "steps same_env (createProtoMethod sid method)" "steps same_env (insertEnum vid fid pkg enum)"
  "steps same_env (createProtoEnumValue eid val)"
  "steps same_env (insertMessage vid fid parent pkg name full)"
  "steps same_env (createProtoField mid field)"
  unfolding createProtoFile_def insertService_def createProtoMethod_def insertEnum_def
    createProtoEnumValue_def insertMessage_def createProtoField_def
  by (rule env_stmt)+

lemma core_imports: "steps (on_db core) (createProtoImports fid imps)"
  unfolding createProtoImports_def
  by (intro core.steps_forE core_stmt) (auto simp: bindE_Inr core_def)

lemma core_enums: "steps (on_db core) (createProtoEnums vid fid pkg enums)"
  unfolding createProtoEnums_def by (intro core.steps_forE core.steps_bindE core_metadata_inserts)

lemma core_services: "steps (on_db core) (createProtoServices vid fid pkg services)"
  unfolding createProtoServices_def by (intro core.steps_forE core.steps_bindE core_metadata_inserts)

lemma core_message: "steps (on_db core) (createProtoMessage vid fid parent pkg m)"
proof (induction vid fid parent pkg m rule: createProtoMessage.induct)
  case (1 vid fid parent pkg name full flds messages enums)
  then show ?case
    unfolding createProtoMessage.simps
    by (intro core.steps_bindE core.steps_forE core_metadata_inserts core_enums)
qed

lemma env_enums: "steps same_env (createProtoEnums vid fid pkg enums)"
  unfolding createProtoEnums_def by (intro env_rules env_metadata_inserts)

lemma env_message: "steps same_env (createProtoMessage vid fid parent pkg m)"
proof (induction vid fid parent pkg m rule: createProtoMessage.induct)
  case (1 vid fid parent pkg name full flds messages enums)
  then show ?case
    unfolding createProtoMessage.simps
    by (intro env.steps_bindE env.steps_forE env_metadata_inserts env_enums)
qed

lemma core_metadata: "steps (on_db core) (Metadata_Save vid metadata)"
proof -
  have del: "steps (on_db core) (stmt (\<lambda>p. bindE (uuid p vid) delete_files))"
    by (rule core_stmt) (auto simp: bindE_Inr delete_files_def Let_def core_def)
  show ?thesis
    unfolding Metadata_Save_def saveFile_def
    by (intro core.steps_transaction core.steps_bindE core.steps_clock core.steps_forE del
        core_metadata_inserts core_imports core_services core_message core_enums)
qed

lemma env_metadata: "steps same_env (Metadata_Save vid metadata)"
  unfolding Metadata_Save_def saveFile_def createProtoImports_def createProtoServices_def
  by (intro env_transaction env.steps_bindE env_clock env.steps_forE env_stmt env_metadata_inserts
      env_message env_enums)

lemma core_create:
  "steps (on_db core) (createDependency dependency)" "steps (on_db core) (createUnresolvedDependency hole)"
proof -
  have time: "steps (on_db core) (timeOrNow t)" for t
    unfolding timeOrNow_def by (intro core.world_rules)
  show "steps (on_db core) (createDependency dependency)" "steps (on_db core) (createUnresolvedDependency hole)"
    unfolding createDependency_def createUnresolvedDependency_def
    by (intro core.steps_bindE time core_stmt; auto simp: bindE_Inr core_def)+
qed

lemma core_rebuild: "steps (on_db core) (RebuildPublishedModuleVersionDependencies input)"
proof -
  have "steps (on_db core) (ReplaceByConsumerModuleVersion vid deps holes)" for vid deps holes
    unfolding ReplaceByConsumerModuleVersion_def
    by (intro core.steps_transaction core.steps_bindE core.steps_forE core_create core_stmt)
      (auto simp: bindE_Inr core_def)
  then have store: "steps (on_db core) (storeResolvedDependencies m v deps holes)" for m v deps holes
    unfolding storeResolvedDependencies_def
    by (intro core.steps_bindE core.steps_clock core_outbox)
  show ?thesis
    unfolding RebuildPublishedModuleVersionDependencies_def
    by (intro core.steps_bindE core.steps_prod core.steps_ret store core_still [OF provider_still(4)]
        core_still [OF resolve_still])
qed

lemma env_still: "steps still m \<Longrightarrow> steps same_env m"
  by (erule steps_mono) (simp add: still_def)

lemma env_rebuild: "steps same_env (RebuildPublishedModuleVersionDependencies input)"
  unfolding RebuildPublishedModuleVersionDependencies_def storeResolvedDependencies_def
  by (intro env.steps_bindE env.steps_prod env.steps_ret env_still provider_still resolve_still
      Replace_env env_clock env_outbox)

section \<open>The transaction of a publication\<close>

definition row_of_version :: "string \<Rightarrow> string \<Rightarrow> ModuleVersion \<Rightarrow> version_row" where
  "row_of_version u mid version =
     \<lparr>ver_id = u, ver_module_id = mid, ver_version = Version_Version version,
      ver_digest = Version_Digest version,
      ver_status = ModuleVersionStatus_String (Version_Status version),
      ver_created_at = Version_CreatedAt version,
      ver_deprecated_at = Version_DeprecatedAt version,
      ver_deprecated_by = Version_DeprecatedBy version,
      ver_deprecation_reason = Version_DeprecationReason version\<rparr>"

definition row_of_artifact :: "string \<Rightarrow> string \<Rightarrow> Artifact \<Rightarrow> artifact_row" where
  "row_of_artifact u v artifact =
     \<lparr>art_id = u, art_module_version_id = v, art_kind = ArtifactKind_String (Artifact_Kind artifact),
      art_storage_key = Artifact_StorageKey artifact, art_size_bytes = Artifact_SizeBytes artifact,
      art_checksum_sha256 = Artifact_ChecksumSHA256 artifact,
      art_created_at = Artifact_CreatedAt artifact\<rparr>"

lemma VersionRepo_Create_Inr:
  assumes "VersionRepo_Create v w = (Inr x, w')"
  obtains u mid where "p_uuid (w_platform w) (Version_ID v) = Some u"
    and "p_uuid (w_platform w) (Version_ModuleID v) = Some mid"
    and "\<forall>r \<in> set (db_versions (w_db w)). \<not> version_clash (row_of_version u mid v) r"
    and "has_id mod_id (db_modules (w_db w)) mid"
    and "w_db w' = db_versions_update (\<lambda>rs. rs @ [row_of_version u mid v]) (w_db w)"
  using assms by (auto simp: VersionRepo_Create_def sql_Inr list_ex_iff row_of_version_def)

lemma ArtifactRepo_Create_Inr:
  assumes "ArtifactRepo_Create a w = (Inr x, w')"
  obtains u v where "p_uuid (w_platform w) (Artifact_ID a) = Some u"
    and "p_uuid (w_platform w) (Artifact_ModuleVersionID a) = Some v"
    and "\<forall>r \<in> set (db_artifacts (w_db w)). \<not> artifact_clash (row_of_artifact u v a) r"
    and "has_id ver_id (db_versions (w_db w)) v"
    and "w_db w' = db_artifacts_update (\<lambda>rs. rs @ [row_of_artifact u v a]) (w_db w)"
  using assms by (auto simp: ArtifactRepo_Create_def sql_Inr list_ex_iff row_of_artifact_def)

lemma replaceErr_Inr [simp]: "replaceErr a b m w = (Inr x, w') \<longleftrightarrow> m w = (Inr x, w')"
  by (simp add: replaceErr_def)

lemma env_create: "steps same_env (VersionRepo_Create v)" "steps same_env (ArtifactRepo_Create a)"
  "steps same_env (BufConfigRepo_Save vid config)"
  unfolding VersionRepo_Create_def ArtifactRepo_Create_def BufConfigRepo_Save_def by (intro env_rules)+

text \<open>The statements after the first three, as one.\<close>

definition publishRest ::
  "RegistryService \<Rightarrow> PreparedPublish \<Rightarrow> ModuleVersion \<Rightarrow> Artifact \<Rightarrow> Artifact \<Rightarrow> time \<Rightarrow> unit io" where
  "publishRest svc prep moduleVersion sourceArtifact bufImageArtifact now =
     (let result = Pub_BufResult prep in
      bindE (BufConfigRepo_Save (Version_ID moduleVersion) (Workflow_ConfigInfo result)) (\<lambda>_.
      bindE (Metadata_Save (Version_ID moduleVersion) (Workflow_DescriptorMetadata result)) (\<lambda>_.
      bindE (if reg_hasDependencies svc
             then bindE (RebuildPublishedModuleVersionDependencies
                    \<lparr>PubRebuild_Module = Pub_Module prep, PubRebuild_Version = moduleVersion,
                     PubRebuild_Metadata = Workflow_DescriptorMetadata result\<rparr>) (\<lambda>_. ret ())
             else ret ()) (\<lambda>_.
        replaceErr (Domain ErrDuplicate) (Registry RegErrModuleVersionAlreadyExists)
          (Outbox_Create (NewModuleVersionPublished (Pub_Module prep) moduleVersion
            sourceArtifact bufImageArtifact (Workflow_ConfigInfo result) (Workflow_LintResult result)
            (Summary (Workflow_DescriptorMetadata result)) now))))))"

lemma publishTransaction_rest:
  "publishTransaction svc prep v sa ba now =
   WithinTransaction
     (bindE (replaceErr (Domain ErrDuplicate) (Registry RegErrModuleVersionAlreadyExists)
        (VersionRepo_Create v)) (\<lambda>_.
      bindE (replaceErr (Domain ErrDuplicate) (Registry RegErrModuleVersionAlreadyExists)
        (ArtifactRepo_Create sa)) (\<lambda>_.
      bindE (replaceErr (Domain ErrDuplicate) (Registry RegErrModuleVersionAlreadyExists)
        (ArtifactRepo_Create ba)) (\<lambda>_.
        publishRest svc prep v sa ba now))))"
  by (simp add: publishTransaction_def publishRest_def Let_def)

lemma core_rest: "steps (on_db core) (publishRest svc prep v sa ba now)"
  unfolding publishRest_def Let_def replaceErr_def
  by (intro core.steps_bindE core.steps_if core.steps_ret core.steps_mapErr core_config core_metadata
      core_rebuild core_outbox)

lemma env_rest: "steps same_env (publishRest svc prep v sa ba now)"
  unfolding publishRest_def Let_def replaceErr_def
  by (intro env.steps_bindE env.steps_if env.steps_ret env.steps_mapErr env_create env_metadata
      env_rebuild env_outbox)

lemma env_publish: "steps same_env (publishTransaction svc prep v sa ba now)"
  unfolding publishTransaction_rest replaceErr_def
  by (intro env_transaction env.steps_bindE env.steps_mapErr env_create env_rest)

lemma rest_event:
  assumes "publishRest svc prep v sa ba now w = (Inr x, w')"
  obtains rows oid at where "db_outbox (w_db w') = db_outbox (w_db w) @ rows
      @ [new_outbox_row oid (NewModuleVersionPublished (Pub_Module prep) v sa ba
          (Workflow_ConfigInfo (Pub_BufResult prep)) (Workflow_LintResult (Pub_BufResult prep))
          (Summary (Workflow_DescriptorMetadata (Pub_BufResult prep))) now) at]"
proof -
  let ?event = "NewModuleVersionPublished (Pub_Module prep) v sa ba
          (Workflow_ConfigInfo (Pub_BufResult prep)) (Workflow_LintResult (Pub_BufResult prep))
          (Summary (Workflow_DescriptorMetadata (Pub_BufResult prep))) now"
  from assms obtain w1 w2 w3 y1 y2 y3
    where run: "BufConfigRepo_Save (Version_ID v) (Workflow_ConfigInfo (Pub_BufResult prep)) w = (Inr y1, w1)"
      "Metadata_Save (Version_ID v) (Workflow_DescriptorMetadata (Pub_BufResult prep)) w1 = (Inr y2, w2)"
      "(if reg_hasDependencies svc
        then bindE (RebuildPublishedModuleVersionDependencies
               \<lparr>PubRebuild_Module = Pub_Module prep, PubRebuild_Version = v,
                PubRebuild_Metadata = Workflow_DescriptorMetadata (Pub_BufResult prep)\<rparr>) (\<lambda>_. ret ())
        else ret ()) w2 = (Inr y3, w3)"
      "Outbox_Create ?event w3 = (Inr x, w')"
    unfolding publishRest_def Let_def by (auto elim!: bindE_InrE)
  have rebuild: "steps (on_db core) (if reg_hasDependencies svc
        then bindE (RebuildPublishedModuleVersionDependencies
               \<lparr>PubRebuild_Module = Pub_Module prep, PubRebuild_Version = v,
                PubRebuild_Metadata = Workflow_DescriptorMetadata (Pub_BufResult prep)\<rparr>) (\<lambda>_. ret ())
        else ret ())"
    by (intro core.steps_if core.steps_bindE core.steps_ret core_rebuild)
  have "core (w_db w) (w_db w1)" "core (w_db w1) (w_db w2)" "core (w_db w2) (w_db w3)"
    using stepsD [OF core_config run(1)] stepsD [OF core_metadata run(2)] stepsD [OF rebuild run(3)]
    by (simp_all add: on_db_def)
  then have "prefix (db_outbox (w_db w)) (db_outbox (w_db w3))"
    unfolding core_def by (meson prefix_order.order_trans)
  then obtain rows where rows: "db_outbox (w_db w3) = db_outbox (w_db w) @ rows"
    by (auto simp: prefix_def)
  from run(4) show ?thesis
    by (rule Outbox_Create_Inr) (use rows in \<open>auto intro: that\<close>)
qed

lemma publishTransaction_Inr:
  assumes "publishTransaction svc prep v sa ba now w = (Inr x, w')" and "\<not> w_tx w"
    and "Artifact_ModuleVersionID sa = Version_ID v" and "Artifact_ModuleVersionID ba = Version_ID v"
  obtains u mid s b rows oid at
  where "p_uuid (w_platform w) (Version_ID v) = Some u"
    and "p_uuid (w_platform w) (Version_ModuleID v) = Some mid"
    and "has_id mod_id (db_modules (w_db w)) mid"
    and "\<forall>r \<in> set (db_versions (w_db w)). \<not> version_clash (row_of_version u mid v) r"
    and "\<forall>r \<in> set (db_artifacts (w_db w)). \<not> artifact_clash (row_of_artifact s u sa) r"
    and "\<forall>r \<in> set (db_artifacts (w_db w)). \<not> artifact_clash (row_of_artifact b u ba) r"
    and "db_modules (w_db w') = db_modules (w_db w)"
    and "db_versions (w_db w') = db_versions (w_db w) @ [row_of_version u mid v]"
    and "db_artifacts (w_db w') = db_artifacts (w_db w) @ [row_of_artifact s u sa, row_of_artifact b u ba]"
    and "db_outbox (w_db w') = db_outbox (w_db w) @ rows
      @ [new_outbox_row oid (NewModuleVersionPublished (Pub_Module prep) v sa ba
          (Workflow_ConfigInfo (Pub_BufResult prep)) (Workflow_LintResult (Pub_BufResult prep))
          (Summary (Workflow_DescriptorMetadata (Pub_BufResult prep))) now) at]"
proof -
  obtain w1 where body: "bindE (VersionRepo_Create v) (\<lambda>_. bindE (ArtifactRepo_Create sa) (\<lambda>_.
      bindE (ArtifactRepo_Create ba) (\<lambda>_. publishRest svc prep v sa ba now)))
      (w\<lparr>w_calls := Suc (w_calls w), w_tx := True\<rparr>) = (Inr x, w1)" and db: "w_db w' = w_db w1"
    by (rule WithinTransaction_success [OF assms(1) [unfolded publishTransaction_rest] assms(2)], rule that)
      (auto simp: bindE_Inr)
  from body obtain a1 a2 a3 wa wb wc
    where v: "VersionRepo_Create v (w\<lparr>w_calls := Suc (w_calls w), w_tx := True\<rparr>) = (Inr a1, wa)"
      and sa: "ArtifactRepo_Create sa wa = (Inr a2, wb)" and ba: "ArtifactRepo_Create ba wb = (Inr a3, wc)"
      and rest: "publishRest svc prep v sa ba now wc = (Inr x, w1)"
    by (auto simp: bindE_Inr)
  have plat: "w_platform wa = w_platform w" "w_platform wb = w_platform w"
    using stepsD [OF env_create(1) v] stepsD [OF env_create(2) sa] by (simp_all add: same_env_def)
  from v obtain u mid where u: "p_uuid (w_platform w) (Version_ID v) = Some u"
      "p_uuid (w_platform w) (Version_ModuleID v) = Some mid"
      "\<forall>r \<in> set (db_versions (w_db w)). \<not> version_clash (row_of_version u mid v) r"
      "has_id mod_id (db_modules (w_db w)) mid"
      "w_db wa = db_versions_update (\<lambda>rs. rs @ [row_of_version u mid v]) (w_db w)"
    by (rule VersionRepo_Create_Inr) simp
  from sa obtain s where s: "\<forall>r \<in> set (db_artifacts (w_db wa)). \<not> artifact_clash (row_of_artifact s u sa) r"
      "w_db wb = db_artifacts_update (\<lambda>rs. rs @ [row_of_artifact s u sa]) (w_db wa)"
    by (rule ArtifactRepo_Create_Inr) (use assms(3) u(1) plat in simp)
  from ba obtain b where b: "\<forall>r \<in> set (db_artifacts (w_db wb)). \<not> artifact_clash (row_of_artifact b u ba) r"
      "w_db wc = db_artifacts_update (\<lambda>rs. rs @ [row_of_artifact b u ba]) (w_db wb)"
    by (rule ArtifactRepo_Create_Inr) (use assms(4) u(1) plat in simp)
  have core: "core (w_db wc) (w_db w1)" using stepsD [OF core_rest rest] by (simp add: on_db_def)
  from rest obtain rows oid at where "db_outbox (w_db w1) = db_outbox (w_db wc) @ rows
      @ [new_outbox_row oid (NewModuleVersionPublished (Pub_Module prep) v sa ba
          (Workflow_ConfigInfo (Pub_BufResult prep)) (Workflow_LintResult (Pub_BufResult prep))
          (Summary (Workflow_DescriptorMetadata (Pub_BufResult prep))) now) at]"
    by (rule rest_event)
  then show ?thesis
    using u s b core db by (intro that [of u mid s b rows oid at]) (auto simp: core_def)
qed

end
