(* ===== verification/Registry_Claims.thy ===== *)
theory Registry_Claims
  imports Registry_Effects
begin

text \<open>
  The properties of publishing, downloading and deprecating: a failed publication leaves nothing, a
  successful one can be downloaded, and the cleanup of a publication that lost a race takes the
  winner's objects with it.
\<close>

section \<open>Failing\<close>

lemma commit_env: "steps same_env (commitPublish svc prep so bo)"
  unfolding commitPublish_def Let_def NewRandomID_def
  by (intro env.steps_bindE env_clock env_random env.steps_ret env_publish)

lemma commit_atomic: "atomic (commitPublish svc prep so bo)"
  unfolding commitPublish_def Let_def publishTransaction_rest
  by (intro atomic_after NewRandomID_still still_clock atomic_ret atomic_transaction)

lemma keys_nonempty: "sourceKey prep \<noteq> ''''" "bufImageKey svc prep \<noteq> ''''"
  by (simp_all add: sourceKey_def bufImageKey_def BuildSourceArchiveKey_def BuildBufImageKey_def)

definition publish_keys :: "RegistryService \<Rightarrow> PreparedPublish \<Rightarrow> string set" where
  "publish_keys svc prep = {sourceKey prep, bufImageKey svc prep}"

text \<open>
  Where \<open>storePublish\<close> stops: a failed first upload changes nothing; otherwise the tables stay, only
  objects of the two keys change, and with a working store these are gone.
\<close>

lemma storePublish_Inl:
  assumes "storePublish svc prep w = (Inl e, w')" and "\<not> w_tx w"
  shows "w_db w' = w_db w \<and> outer w w'
    \<and> (\<forall>key. key \<notin> publish_keys svc prep \<longrightarrow> w_objects w' key = w_objects w key)
    \<and> (healthy w \<longrightarrow> (\<forall>key \<in> publish_keys svc prep. w_objects w' key = None))"
proof -
  let ?put1 = "object_put (sourceKey prep) (Pub_SourceBody prep)"
  let ?put2 = "object_put (bufImageKey svc prep) (Workflow_BufImage (Pub_BufResult prep))"
  let ?K = "publish_keys svc prep"
  have put1: "steps (besides ?K) ?put1" and put2: "steps (besides ?K) ?put2"
    by (simp_all add: besides_put publish_keys_def)
  from assms(1) consider (one) e1 where "?put1 w = (Inl e1, w')"
    | (two) so w1 e2 w2 r where "?put1 w = (Inr so, w1)" "?put2 w1 = (Inl e2, w2)"
        "cleanupUploadedArtifacts [sourceKey prep] w2 = (r, w')"
    | (three) so w1 bo w2 e3 w3 r where "?put1 w = (Inr so, w1)" "?put2 w1 = (Inr bo, w2)"
        "commitPublish svc prep so bo w2 = (Inl e3, w3)"
        "cleanupUploadedArtifacts [sourceKey prep, bufImageKey svc prep] w3 = (r, w')"
    unfolding storePublish_def by (auto simp: bindE_Inl mapErr_Inl cleaning_Inr elim!: cleaning_Inl)
  then show ?thesis
  proof cases
    case one
    have "\<not> healthy w"
      using one by (auto simp: object_put_def bindE_Inl healthy_def dest: object_call_run)
    then show ?thesis using stepsD [OF put1 one] by (simp add: besides_def)
  next
    case two
    have "besides ?K w w'"
            using besides.step_trans [OF besides.step_trans [OF stepsD [OF put1 two(1)] stepsD [OF put2 two(2)]]
          stepsD [OF besides_cleanup two(3)]]
      by (simp add: publish_keys_def)
    moreover have "\<not> healthy w1"
      using two(2) by (auto simp: object_put_def bindE_Inl healthy_def dest: object_call_run)
    then have "\<not> healthy w" using two(1) by (auto simp: object_put_Inr healthy_def)
    ultimately show ?thesis by (simp add: besides_def)
  next
    case three
    have first: "besides ?K w w2"
      using stepsD [OF put1 three(1)] stepsD [OF put2 three(2)] by (rule besides.step_trans)
    then have outside: "\<not> w_tx w2" using assms(2) by (simp add: besides_def outer_def same_env_def)
    have "w_db w3 = w_db w2" by (rule atomicD [OF commit_atomic three(3) outside])
    moreover have "same_env w2 w3" by (rule stepsD [OF commit_env three(3)])
    ultimately have second: "besides ?K w w3"
      using first by (auto simp: besides_def outer_def same_env_def)
    have "besides ?K w3 w'"
      by (rule stepsD [OF besides_cleanup three(4)]) (simp add: publish_keys_def)
    with second have all: "besides ?K w w'" by (rule besides.step_trans)
    have "\<forall>key \<in> ?K. w_objects w' key = None" if "healthy w"
    proof -
      have "healthy w3" using that second by (simp add: besides_def outer_def same_env_def healthy_def)
      moreover have "'''' \<notin> set [sourceKey prep, bufImageKey svc prep]"
        using keys_nonempty(1) [of prep] keys_nonempty(2) [of svc prep] by auto
      ultimately show ?thesis
        using cleanup_deletes [OF three(4)] by (simp add: publish_keys_def)
    qed
    with all show ?thesis by (simp add: besides_def)
  qed
qed

text \<open>What a prepared publication is.\<close>

lemma checkUnpublished_Inr:
  assumes "checkUnpublished mid v w = (Inr x, w')"
  shows "\<exists>e. VersionRepo_GetByModuleAndVersion mid v w = (Inl e, w') \<and> errors_Is e (Domain ErrNotFound)"
  using assms unfolding checkUnpublished_def
proof (rule bindE_InrE)
  fix r w1
  assume "attempt (VersionRepo_GetByModuleAndVersion mid v) w = (Inr r, w1)"
    and "(case r of Inr _ \<Rightarrow> raise (Registry RegErrModuleVersionAlreadyExists)
       | Inl err \<Rightarrow> if errors_Is err (Domain ErrNotFound) then ret () else raise err) w1 = (Inr x, w')"
  then show ?thesis by (cases r) (auto simp: attempt_simps split: if_splits)
qed


lemma preparePublish_Inr:
  assumes "preparePublish svc req w = (Inr prep, w')"
  obtains name version reader w1 size where
    "NewModuleName (Publish_ModuleName req) = Inr name" and "NewVersion (Publish_Version req) = Inr version"
    and "Publish_Artifact req = Some reader"
    and "ModuleRepo_GetByName name w = (Inr (Pub_Module prep), w1)"
    and "\<exists>e w2. VersionRepo_GetByModuleAndVersion (Module_ID (Pub_Module prep)) version w1 = (Inl e, w2)
           \<and> errors_Is e (Domain ErrNotFound)"
    and "readArtifact svc reader = Inr (Pub_SourceBody prep, Pub_SourceChecksum prep, size)"
    and "Pub_Name prep = name" and "Pub_VersionValue prep = version"
    and "w_db w' = w_db w" and "same_env w w'"
proof -
  note frame = stillD [OF prepare_still assms]
  from assms obtain name version where names: "NewModuleName (Publish_ModuleName req) = Inr name"
      "NewVersion (Publish_Version req) = Inr version"
    by (auto simp: preparePublish_def parseName_def orErr_Inr elim!: bindE_InrE)
  with assms obtain reader inspect where some: "Publish_Artifact req = Some reader"
      "reg_bufWorkflow svc = Some inspect"
    by (auto simp: preparePublish_def parseName_def orErr_Inr elim!: bindE_InrE split: option.splits)
  from assms names some show ?thesis
    unfolding preparePublish_def parseName_def
  proof (elim bindE_InrE)
    fix name' version' w1 w2
    assume "orErr (NewModuleName (Publish_ModuleName req)) (Registry RegErrInvalidModuleName) w = (Inr name', w1)"
      and "orErr (NewVersion (Publish_Version req)) (Registry RegErrInvalidVersion) w1 = (Inr version', w2)"
      and run: "(case Publish_Artifact req of
         None \<Rightarrow> raise (Registry RegErrStorageFailure)
       | Some artifact \<Rightarrow>
         (case reg_bufWorkflow svc of
            None \<Rightarrow> raise (Registry RegErrBufWorkflowUnavailable)
          | Some inspect \<Rightarrow>
              bindE (replaceErr (Domain ErrNotFound) (Registry RegErrModuleNotFound)
                       (ModuleRepo_GetByName name')) (\<lambda>module.
              bindE (checkUnpublished (Module_ID module) version') (\<lambda>_.
              bindE (liftE (readArtifact svc artifact)) (\<lambda>(body, checksum, sizeBytes).
              bindE (inspectSource svc inspect body) (\<lambda>result.
                ret \<lparr>Pub_Module = module, Pub_Name = name', Pub_VersionValue = version',
                  Pub_SourceBody = body, Pub_SourceChecksum = checksum, Pub_BufResult = result\<rparr>))))))
        w2 = (Inr prep, w')"
    then have eqs: "name' = name" "version' = version" "w2 = w" using names by (auto simp: orErr_Inr)
    from run show ?thesis
      unfolding some option.case
    proof (elim bindE_InrE)
      fix module x u w3 w4 w5
      assume get: "replaceErr (Domain ErrNotFound) (Registry RegErrModuleNotFound)
          (ModuleRepo_GetByName name') w2 = (Inr module, w3)"
        and check: "checkUnpublished (Module_ID module) version' w3 = (Inr u, w4)"
        and lift: "liftE (readArtifact svc reader) w4 = (Inr x, w5)"
        and rest: "(case x of (body, checksum, sizeBytes) \<Rightarrow>
            bindE (inspectSource svc inspect body) (\<lambda>result.
                ret \<lparr>Pub_Module = module, Pub_Name = name', Pub_VersionValue = version',
                  Pub_SourceBody = body, Pub_SourceChecksum = checksum, Pub_BufResult = result\<rparr>)) w5
          = (Inr prep, w')"
      obtain body checksum size where x: "x = (body, checksum, size)" by (cases x)
      from rest x have prep: "Pub_Module prep = module" "Pub_Name prep = name'"
        "Pub_VersionValue prep = version'" "Pub_SourceBody prep = body" "Pub_SourceChecksum prep = checksum"
        by (auto elim!: bindE_InrE)
      show ?thesis
        using that [of name version reader w3 size] names some frame get lift x prep eqs
          checkUnpublished_Inr [OF check] by auto
    qed
  qed
qed

text \<open>
  C15: A publication that fails leaves every table as it was and no object of another module or
  version changed; while the store works, it leaves no object of its own either.
\<close>

theorem publish_all_or_nothing:
  assumes "PublishModuleVersion svc req w = (Inl e, w')" and "\<not> w_tx w"
  shows "w_db w' = w_db w
    \<and> (\<forall>key. w_objects w' key = w_objects w key
        \<or> (\<exists>name version c. NewModuleName (Publish_ModuleName req) = Inr name
             \<and> NewVersion (Publish_Version req) = Inr version
             \<and> (key = BuildSourceArchiveKey name version c \<or> key = BuildBufImageKey name version c)
             \<and> (healthy w \<longrightarrow> w_objects w' key = None)))"
proof -
  from assms(1) consider "preparePublish svc req w = (Inl e, w')"
    | prep w1 where "preparePublish svc req w = (Inr prep, w1)" "storePublish svc prep w1 = (Inl e, w')"
    by (auto simp: PublishModuleVersion_def bindE_Inl)
  then show ?thesis
  proof cases
    case 1
    then show ?thesis using stillD [OF prepare_still 1] by (simp add: same_env_def)
  next
    case 2
    from 2(1) show ?thesis
    proof (rule preparePublish_Inr)
      fix name version
      assume names: "NewModuleName (Publish_ModuleName req) = Inr name"
        "NewVersion (Publish_Version req) = Inr version"
        and prep: "Pub_Name prep = name" "Pub_VersionValue prep = version"
        and frame: "w_db w1 = w_db w" "same_env w w1"
      have "\<not> w_tx w1" using assms(2) frame by (simp add: same_env_def)
      from storePublish_Inl [OF 2(2) this] frame
      have store: "w_db w' = w_db w"
        "\<forall>key. key \<notin> publish_keys svc prep \<longrightarrow> w_objects w' key = w_objects w key"
        "healthy w \<longrightarrow> (\<forall>key \<in> publish_keys svc prep. w_objects w' key = None)"
        using healthy_env [OF _ frame(2)] by (auto simp: same_env_def)
      have "\<exists>c. key = BuildSourceArchiveKey name version c \<or> key = BuildBufImageKey name version c"
        if "key \<in> publish_keys svc prep" for key
        using that prep by (auto simp: publish_keys_def sourceKey_def bufImageKey_def)
      with store names show ?thesis by blast
    qed
  qed
qed

section \<open>Succeeding\<close>

lemma commitPublish_Inr:
  assumes "commitPublish svc prep so bo w = (Inr resp, w')"
  obtains v sa ba now w1 where "publishTransaction svc prep v sa ba now w1 = (Inr (), w')"
    and "w_db w1 = w_db w" and "same_env w w1"
    and "Version_ModuleID v = Module_ID (Pub_Module prep)" and "Version_Version v = Pub_VersionValue prep"
    and "Version_Status v = ModuleVersionStatusPublished"
    and "Artifact_ModuleVersionID sa = Version_ID v" and "Artifact_ModuleVersionID ba = Version_ID v"
    and "Artifact_Kind sa = ArtifactKindSourceArchive" and "Artifact_Kind ba = ArtifactKindBufImage"
    and "Artifact_StorageKey sa = Object_Key so" and "Artifact_StorageKey ba = Object_Key bo"
    and "Artifact_ChecksumSHA256 sa = Pub_SourceChecksum prep"
    and "Artifact_SizeBytes sa = Object_SizeBytes so" and "Artifact_SizeBytes ba = Object_SizeBytes bo"
    and "resp = \<lparr>Published_Version = v, Published_SourceArtifact = sa,
             Published_BufImageArtifact = ba,
             Published_BufConfig = Workflow_ConfigInfo (Pub_BufResult prep),
             Published_LintResult = Workflow_LintResult (Pub_BufResult prep),
             Published_MetadataSummary = Summary (Workflow_DescriptorMetadata (Pub_BufResult prep))\<rparr>"
  using assms unfolding commitPublish_def Let_def
proof (elim bindE_InrE)
  fix now i1 i2 i3 u w1 w2 w3 w4 w5
  assume steps: "clock_now w = (Inr now, w1)" "NewRandomID w1 = (Inr i1, w2)" "NewRandomID w2 = (Inr i2, w3)"
    "NewRandomID w3 = (Inr i3, w4)"
  let ?v = "\<lparr>Version_ID = i1, Version_ModuleID = Module_ID (Pub_Module prep),
              Version_Version = Pub_VersionValue prep, Version_Status = ModuleVersionStatusPublished,
              Version_Digest = Workflow_BufImageDigest (Pub_BufResult prep), Version_CreatedAt = now,
              Version_PublishedAt = Some now, Version_DeprecatedAt = None, Version_DeprecatedBy = '''',
              Version_DeprecationReason = ''''\<rparr>"
  let ?sa = "\<lparr>Artifact_ID = i2, Artifact_ModuleVersionID = i1, Artifact_Kind = ArtifactKindSourceArchive,
              Artifact_StorageKey = Object_Key so, Artifact_ChecksumSHA256 = Pub_SourceChecksum prep,
              Artifact_SizeBytes = Object_SizeBytes so, Artifact_CreatedAt = now\<rparr>"
  let ?ba = "\<lparr>Artifact_ID = i3, Artifact_ModuleVersionID = i1, Artifact_Kind = ArtifactKindBufImage,
              Artifact_StorageKey = Object_Key bo,
              Artifact_ChecksumSHA256 = reg_sha256 svc (Workflow_BufImage (Pub_BufResult prep)),
              Artifact_SizeBytes = Object_SizeBytes bo, Artifact_CreatedAt = now\<rparr>"
  assume tx: "publishTransaction svc prep ?v ?sa ?ba now w4 = (Inr u, w5)"
    and final: "ret \<lparr>Published_Version = ?v, Published_SourceArtifact = ?sa,
             Published_BufImageArtifact = ?ba,
             Published_BufConfig = Workflow_ConfigInfo (Pub_BufResult prep),
             Published_LintResult = Workflow_LintResult (Pub_BufResult prep),
             Published_MetadataSummary = Summary (Workflow_DescriptorMetadata (Pub_BufResult prep))\<rparr> w5
      = (Inr resp, w')"
  have "still w w4"
    using still.step_trans [OF still.step_trans [OF stepsD [OF still_clock steps(1)]
          stepsD [OF NewRandomID_still steps(2)]] still.step_trans [OF stepsD [OF NewRandomID_still steps(3)]
          stepsD [OF NewRandomID_still steps(4)]]] .
  with tx final show ?thesis
    by (intro that [of ?v ?sa ?ba now w4]) (auto simp: still_def)
qed

lemma source_not_image: "BuildSourceArchiveKey m v c \<noteq> BuildBufImageKey m' v' c'"
proof
  assume "BuildSourceArchiveKey m v c = BuildBufImageKey m' v' c'"
  then have "last (BuildSourceArchiveKey m v c) = last (BuildBufImageKey m' v' c')" by simp
  then show False by (simp add: BuildSourceArchiveKey_def BuildBufImageKey_def)
qed

text \<open>A stored publication: its rows in the tables and its objects in the store.\<close>

lemma storePublish_Inr:
  assumes "storePublish svc prep w = (Inr resp, w')" and "\<not> w_tx w"
  obtains u mid v sa ba s b rows event oid at
  where "p_uuid (w_platform w) (Version_ID v) = Some u"
    and "p_uuid (w_platform w) (Module_ID (Pub_Module prep)) = Some mid"
    and "has_id mod_id (db_modules (w_db w)) mid"
    and "\<forall>r \<in> set (db_versions (w_db w)). \<not> version_clash (row_of_version u mid v) r"
    and "\<forall>r \<in> set (db_artifacts (w_db w)). \<not> artifact_clash (row_of_artifact s u sa) r"
    and "\<forall>r \<in> set (db_artifacts (w_db w)). \<not> artifact_clash (row_of_artifact b u ba) r"
    and "db_modules (w_db w') = db_modules (w_db w)"
    and "db_versions (w_db w') = db_versions (w_db w) @ [row_of_version u mid v]"
    and "db_artifacts (w_db w') = db_artifacts (w_db w) @ [row_of_artifact s u sa, row_of_artifact b u ba]"
    and "db_outbox (w_db w') = db_outbox (w_db w) @ rows @ [new_outbox_row oid event at]"
    and "w_objects w' = (w_objects w)(sourceKey prep \<mapsto> Pub_SourceBody prep,
           bufImageKey svc prep \<mapsto> Workflow_BufImage (Pub_BufResult prep))"
    and "outer w w'"
    and "Version_Version v = Pub_VersionValue prep" and "Version_Status v = ModuleVersionStatusPublished"
    and "Artifact_Kind sa = ArtifactKindSourceArchive" and "Artifact_Kind ba = ArtifactKindBufImage"
    and "Artifact_StorageKey sa = sourceKey prep" and "Artifact_StorageKey ba = bufImageKey svc prep"
    and "Artifact_ChecksumSHA256 sa = Pub_SourceChecksum prep"
    and "Artifact_SizeBytes sa = int (length (Pub_SourceBody prep))"
    and "Artifact_SizeBytes ba = int (length (Workflow_BufImage (Pub_BufResult prep)))"
proof -
  let ?put1 = "object_put (sourceKey prep) (Pub_SourceBody prep)"
  let ?put2 = "object_put (bufImageKey svc prep) (Workflow_BufImage (Pub_BufResult prep))"
  from assms(1) obtain so w1 bo w2 where put1: "?put1 w = (Inr so, w1)" and put2: "?put2 w1 = (Inr bo, w2)"
    and commit: "commitPublish svc prep so bo w2 = (Inr resp, w')"
    unfolding storePublish_def by (auto simp: bindE_Inr cleaning_Inr)
  have w2: "w_db w2 = w_db w" "outer w w2" "w_platform w2 = w_platform w" "\<not> w_tx w2"
    "w_objects w2 = (w_objects w)(sourceKey prep \<mapsto> Pub_SourceBody prep,
        bufImageKey svc prep \<mapsto> Workflow_BufImage (Pub_BufResult prep))"
    and so: "Object_Key so = sourceKey prep" "Object_SizeBytes so = int (length (Pub_SourceBody prep))"
    and bo: "Object_Key bo = bufImageKey svc prep"
      "Object_SizeBytes bo = int (length (Workflow_BufImage (Pub_BufResult prep)))"
    using put1 put2 assms(2) by (auto simp: object_put_Inr outer_def same_env_def)
  have env: "same_env w2 w'" by (rule stepsD [OF commit_env commit])
  from commit show ?thesis
  proof (rule commitPublish_Inr)
    fix v sa ba now w3
    assume tx: "publishTransaction svc prep v sa ba now w3 = (Inr (), w')"
      and w3: "w_db w3 = w_db w2" "same_env w2 w3"
      and v: "Version_ModuleID v = Module_ID (Pub_Module prep)" "Version_Version v = Pub_VersionValue prep"
        "Version_Status v = ModuleVersionStatusPublished"
      and ids: "Artifact_ModuleVersionID sa = Version_ID v" "Artifact_ModuleVersionID ba = Version_ID v"
      and a: "Artifact_Kind sa = ArtifactKindSourceArchive" "Artifact_Kind ba = ArtifactKindBufImage"
        "Artifact_StorageKey sa = Object_Key so" "Artifact_StorageKey ba = Object_Key bo"
        "Artifact_ChecksumSHA256 sa = Pub_SourceChecksum prep"
        "Artifact_SizeBytes sa = Object_SizeBytes so" "Artifact_SizeBytes ba = Object_SizeBytes bo"
    have "\<not> w_tx w3" and plat: "w_platform w3 = w_platform w"
      using w2 w3 by (simp_all add: same_env_def)
    from tx this(1) ids show ?thesis
    proof (rule publishTransaction_Inr)
      fix u mid s b rows oid at
      assume "p_uuid (w_platform w3) (Version_ID v) = Some u"
        and "p_uuid (w_platform w3) (Version_ModuleID v) = Some mid"
        and "has_id mod_id (db_modules (w_db w3)) mid"
        and "\<forall>r \<in> set (db_versions (w_db w3)). \<not> version_clash (row_of_version u mid v) r"
        and "\<forall>r \<in> set (db_artifacts (w_db w3)). \<not> artifact_clash (row_of_artifact s u sa) r"
        and "\<forall>r \<in> set (db_artifacts (w_db w3)). \<not> artifact_clash (row_of_artifact b u ba) r"
        and "db_modules (w_db w') = db_modules (w_db w3)"
        and "db_versions (w_db w') = db_versions (w_db w3) @ [row_of_version u mid v]"
        and "db_artifacts (w_db w') = db_artifacts (w_db w3) @ [row_of_artifact s u sa, row_of_artifact b u ba]"
        and "db_outbox (w_db w') = db_outbox (w_db w3) @ rows
          @ [new_outbox_row oid (NewModuleVersionPublished (Pub_Module prep) v sa ba
              (Workflow_ConfigInfo (Pub_BufResult prep)) (Workflow_LintResult (Pub_BufResult prep))
              (Summary (Workflow_DescriptorMetadata (Pub_BufResult prep))) now) at]"
      moreover have "outer w w'" using w2(2) env by (auto simp: outer_def same_env_def)
      moreover have "w_objects w' = w_objects w2" using env by (simp add: same_env_def)
      ultimately show ?thesis
        using that [of v u mid s sa b ba rows oid _ at] w2 w3(1) plat v a so bo by auto
    qed
  qed
qed

section \<open>Downloading what was published\<close>

lemma query_row_ok:
  assumes "w_fault w (w_calls w) = None" and "sql (w_platform w) (w_db w) = (Inr (r # rs), d')"
    and "d' = w_db w" and "scan r = Inr x"
  shows "query_row sql scan w = (Inr x, w\<lparr>w_calls := Suc (w_calls w)\<rparr>)"
  using assms by (simp add: query_row_def bindE_def stmt_ok liftE_def)

lemma readArtifact_whole:
  assumes "readArtifact svc reader = Inr (body, checksum, n)"
    and "sint (reg_MaxArtifactSizeBytes svc) < 2 ^ 63 - 1"
  shows "body = Reader_Content reader \<and> checksum = reg_sha256 svc (Reader_Content reader)"
proof -
  define limit where "limit = (if sint (reg_MaxArtifactSizeBytes svc) \<le> 0 then 1 else reg_MaxArtifactSizeBytes svc)"
  have "0 < sint limit" "sint limit + 1 < 2 ^ 63" using assms(2) by (auto simp: limit_def)
  then have "sint (limit + 1) = sint limit + 1"
    by (simp add: sint_word_ariths signed_take_bit_int_eq_self)
  moreover have "body = take (nat (sint (limit + 1))) (Reader_Content reader)"
    "checksum = reg_sha256 svc body" "\<not> int (length body) > sint limit"
    using assms(1) by (auto simp: readArtifact_def Let_def simp flip: limit_def split: if_splits)
  ultimately show ?thesis using \<open>0 < sint limit\<close> by (auto simp: min_def split: if_splits)
qed

lemma module_found:
  assumes "ModuleRepo_GetByName name w = (Inr m, w1)" and "db_modules (w_db w2) = db_modules (w_db w)"
    and "w_fault w2 (w_calls w2) = None"
  shows "ModuleRepo_GetByName name w2 = (Inr m, w2\<lparr>w_calls := Suc (w_calls w2)\<rparr>)"
proof -
  from assms(1) obtain r rs where "filter (\<lambda>r. mod_name r = name) (db_modules (w_db w)) = r # rs"
      and "scanModule r = Inr m"
    unfolding ModuleRepo_GetByName_def by (elim query_row_Inr) (rule that [OF sym]; auto)
  then show ?thesis
    unfolding ModuleRepo_GetByName_def using assms(2,3)
    by (intro query_row_ok [of _ _ r rs "w_db w2"]) auto
qed

lemma version_found:
  assumes "db_versions (w_db w) = old @ [row_of_version u mid v]"
    and "\<forall>r \<in> set old. \<not> version_clash (row_of_version u mid v) r"
    and "p_uuid (w_platform w) m = Some mid" and "w_fault w (w_calls w) = None"
    and "NewVersion (Version_Version v) = Inr (Version_Version v)"
    and "Version_Status v = ModuleVersionStatusPublished"
  shows "\<exists>found. VersionRepo_GetByModuleAndVersion m (Version_Version v) w
      = (Inr found, w\<lparr>w_calls := Suc (w_calls w)\<rparr>) \<and> Version_ID found = NewID u"
proof -
  have "filter (\<lambda>r. ver_module_id r = mid \<and> ver_version r = Version_Version v) old = []"
    using assms(2) by (auto simp: filter_empty_conv version_clash_def row_of_version_def)
  then have rows: "filter (\<lambda>r. ver_module_id r = mid \<and> ver_version r = Version_Version v) (db_versions (w_db w))
      = [row_of_version u mid v]"
    using assms(1) by (simp add: row_of_version_def)
  obtain found where "scanModuleVersion (row_of_version u mid v) = Inr found" "Version_ID found = NewID u"
    using assms(5,6) by (simp add: scanModuleVersion_def row_of_version_def NewModuleVersionStatus_def
        ModuleVersionStatuses_def)
  with rows assms(3,4) show ?thesis
    unfolding VersionRepo_GetByModuleAndVersion_def VersionRepo_getOne_def mapErr_Inr
    by (intro exI [of _ found] conjI query_row_ok [of _ _ "row_of_version u mid v" "[]" "w_db w"])
      (simp_all add: bindE_def uuid_def liftE_def select_def)
qed

lemma artifact_found:
  assumes "db_artifacts (w_db w) = old @ [row_of_artifact s u sa, row_of_artifact b u ba]"
    and "\<forall>r \<in> set old. \<not> artifact_clash (row_of_artifact s u sa) r"
    and "p_uuid (w_platform w) (NewID u) = Some u" and "w_fault w (w_calls w) = None"
    and "Artifact_Kind sa = ArtifactKindSourceArchive" and "Artifact_Kind ba = ArtifactKindBufImage"
  shows "\<exists>found. ArtifactRepo_GetByModuleVersionAndKind (NewID u) ArtifactKindSourceArchive w
      = (Inr found, w\<lparr>w_calls := Suc (w_calls w)\<rparr>) \<and> Artifact_StorageKey found = Artifact_StorageKey sa
        \<and> Artifact_ChecksumSHA256 found = Artifact_ChecksumSHA256 sa"
proof -
  let ?k = "ArtifactKind_String ArtifactKindSourceArchive"
  have "filter (\<lambda>r. art_module_version_id r = u \<and> art_kind r = ?k) old = []"
    using assms(2,5) by (auto simp: filter_empty_conv artifact_clash_def row_of_artifact_def)
  then have rows: "filter (\<lambda>r. art_module_version_id r = u \<and> art_kind r = ?k) (db_artifacts (w_db w))
      = [row_of_artifact s u sa]"
    using assms(1,5,6) by (simp add: row_of_artifact_def)
  obtain found where "scanArtifact (row_of_artifact s u sa) = Inr found"
      "Artifact_StorageKey found = Artifact_StorageKey sa"
      "Artifact_ChecksumSHA256 found = Artifact_ChecksumSHA256 sa"
    using assms(5) by (simp add: scanArtifact_def row_of_artifact_def NewArtifactKind_def ArtifactKinds_def
        trim_eval)
  with rows assms(3,4) show ?thesis
    unfolding ArtifactRepo_GetByModuleVersionAndKind_def ArtifactRepo_getOne_def mapErr_Inr
    by (intro exI [of _ found] conjI query_row_ok [of _ _ "row_of_artifact s u sa" "[]" "w_db w"])
      (simp_all add: bindE_def uuid_def liftE_def select_def)
qed

text \<open>
  C16: What was published can be downloaded: after a successful publication, downloading the named
  version yields exactly the uploaded archive, with its checksum. (The size limit must not be the
  largest \<^verbatim>\<open>int64\<close>, for which the code reads nothing.)
\<close>

theorem publish_download:
  assumes run: "PublishModuleVersion svc req w = (Inr resp, w')" and "\<not> w_tx w" and "healthy w"
    and laws: "uuid_laws (w_platform w)" and reader: "Publish_Artifact req = Some reader"
    and limit: "sint (reg_MaxArtifactSizeBytes svc) < 2 ^ 63 - 1"
  shows "\<exists>object artifact w2.
    DownloadArtifact (Publish_ModuleName req) (Publish_Version req) w' = (Inr (object, artifact), w2)
    \<and> Object_Body object = Reader_Content reader
    \<and> Artifact_ChecksumSHA256 artifact = reg_sha256 svc (Reader_Content reader)"
proof -
  from run obtain prep w1 where prepare: "preparePublish svc req w = (Inr prep, w1)"
    and store: "storePublish svc prep w1 = (Inr resp, w')"
    by (auto simp: PublishModuleVersion_def bindE_Inr)
  from prepare obtain name version w0 n where names: "NewModuleName (Publish_ModuleName req) = Inr name"
      "NewVersion (Publish_Version req) = Inr version"
    and found: "ModuleRepo_GetByName name w = (Inr (Pub_Module prep), w0)"
    and read: "readArtifact svc reader = Inr (Pub_SourceBody prep, Pub_SourceChecksum prep, n)"
    and prep: "Pub_Name prep = name" "Pub_VersionValue prep = version"
    and frame: "w_db w1 = w_db w" "same_env w w1"
    by (rule preparePublish_Inr) (use reader in auto)
  note whole = readArtifact_whole [OF read limit]
  have "\<not> w_tx w1" and plat1: "w_platform w1 = w_platform w"
    using assms(2) frame by (simp_all add: same_env_def)
  from store this(1) show ?thesis
  proof (rule storePublish_Inr)
    fix u mid v sa ba s b
    assume u: "p_uuid (w_platform w1) (Version_ID v) = Some u"
      and mid: "p_uuid (w_platform w1) (Module_ID (Pub_Module prep)) = Some mid"
      and new: "\<forall>r \<in> set (db_versions (w_db w1)). \<not> version_clash (row_of_version u mid v) r"
      and sclash: "\<forall>r \<in> set (db_artifacts (w_db w1)). \<not> artifact_clash (row_of_artifact s u sa) r"
      and mods: "db_modules (w_db w') = db_modules (w_db w1)"
      and vers: "db_versions (w_db w') = db_versions (w_db w1) @ [row_of_version u mid v]"
      and arts: "db_artifacts (w_db w')
        = db_artifacts (w_db w1) @ [row_of_artifact s u sa, row_of_artifact b u ba]"
      and objs: "w_objects w' = (w_objects w1)(sourceKey prep \<mapsto> Pub_SourceBody prep,
           bufImageKey svc prep \<mapsto> Workflow_BufImage (Pub_BufResult prep))"
      and out: "outer w1 w'"
      and v: "Version_Version v = Pub_VersionValue prep" "Version_Status v = ModuleVersionStatusPublished"
      and kinds: "Artifact_Kind sa = ArtifactKindSourceArchive" "Artifact_Kind ba = ArtifactKindBufImage"
      and key: "Artifact_StorageKey sa = sourceKey prep"
      and sum: "Artifact_ChecksumSHA256 sa = Pub_SourceChecksum prep"
    have fault: "w_fault w' i = None" for i
      using assms(3) frame(2) out by (simp add: healthy_def outer_def same_env_def)
    have plat: "w_platform w' = w_platform w" using out plat1 by (simp add: outer_def same_env_def)
    let ?bump = "\<lambda>k. w'\<lparr>w_calls := k\<rparr>"
    have step1: "ModuleRepo_GetByName name w' = (Inr (Pub_Module prep), ?bump (Suc (w_calls w')))"
      using module_found [OF found, of w'] mods frame fault by simp
    obtain ver where step2: "VersionRepo_GetByModuleAndVersion (Module_ID (Pub_Module prep)) version
          (?bump (Suc (w_calls w'))) = (Inr ver, ?bump (Suc (Suc (w_calls w'))))"
      and ver: "Version_ID ver = NewID u"
      using version_found [of "?bump (Suc (w_calls w'))" "db_versions (w_db w1)" u mid v
          "Module_ID (Pub_Module prep)"] vers new mid plat plat1 fault v prep
          NewVersion_again [OF names(2)] by auto
    have canonical: "p_uuid (w_platform w') (NewID u) = Some u"
      using uuid_laws_trim [OF laws, of _ u] uuid_laws_canonical [OF laws, of _ u] u plat plat1 by simp
    obtain art where step3: "ArtifactRepo_GetByModuleVersionAndKind (NewID u) ArtifactKindSourceArchive
          (?bump (Suc (Suc (w_calls w')))) = (Inr art, ?bump (Suc (Suc (Suc (w_calls w')))))"
      and art: "Artifact_StorageKey art = sourceKey prep"
        "Artifact_ChecksumSHA256 art = Pub_SourceChecksum prep"
      using artifact_found [of "?bump (Suc (Suc (w_calls w')))" "db_artifacts (w_db w1)" s u sa b ba]
        arts sclash canonical fault kinds key sum by auto
    have "sourceKey prep \<noteq> bufImageKey svc prep"
      by (simp add: sourceKey_def bufImageKey_def source_not_image)
    then have body: "w_objects w' (sourceKey prep) = Some (Pub_SourceBody prep)" using objs by simp
    then obtain object where step4: "object_get (sourceKey prep) (?bump (Suc (Suc (Suc (w_calls w')))))
          = (Inr object, ?bump (Suc (Suc (Suc (Suc (w_calls w'))))))"
      and object: "Object_Body object = Pub_SourceBody prep"
      using fault by (simp add: object_get_def object_call_def bindE_def stmt_def ret_def)
    have "DownloadArtifact (Publish_ModuleName req) (Publish_Version req) w'
        = (Inr (object, art), ?bump (Suc (Suc (Suc (Suc (w_calls w'))))))"
      unfolding DownloadArtifact_def GetModuleVersion_def GetModule_def parseName_def
      using names step1 step2 step3 step4 ver art(1) prep
      by (simp add: bindE_Inr replaceErr_Inr)
    then show ?thesis using object art(2) whole by auto
  qed
qed

section \<open>Two publications at once\<close>

text \<open>
  C17: Two publications of the same request, so of the same version with the same content, whose
  inspection gave the same image and which both passed the checks before either was stored: the second is refused, and its cleanup deletes the first one's objects, although
  the first one was answered with success and its version and artifact rows stay.
\<close>

theorem concurrent_publish_loses_artifacts:
  assumes first: "preparePublish svc req w = (Inr a, wa)" and second: "preparePublish svc req wa = (Inr b, wb)"
    and stored: "storePublish svc a wb = (Inr resp, w1)"
    and image: "Workflow_BufImage (Pub_BufResult b) = Workflow_BufImage (Pub_BufResult a)"
    and "healthy w" and "\<not> w_tx w"
  shows "\<exists>e w2. storePublish svc b w1 = (Inl e, w2) \<and> w_db w2 = w_db w1
    \<and> (\<exists>r \<in> set (db_artifacts (w_db w2)). art_storage_key r = sourceKey a
         \<and> w_objects w1 (art_storage_key r) = Some (Pub_SourceBody a)
         \<and> w_objects w2 (art_storage_key r) = None)
    \<and> w_objects w2 (bufImageKey svc a) = None"
proof -
  from first obtain name version reader w0 n where names: "NewModuleName (Publish_ModuleName req) = Inr name"
      "NewVersion (Publish_Version req) = Inr version" and reader: "Publish_Artifact req = Some reader"
    and found: "ModuleRepo_GetByName name w = (Inr (Pub_Module a), w0)"
    and read: "readArtifact svc reader = Inr (Pub_SourceBody a, Pub_SourceChecksum a, n)"
    and a: "Pub_Name a = name" "Pub_VersionValue a = version"
    and fa: "w_db wa = w_db w" "same_env w wa"
    by (rule preparePublish_Inr)
  from second obtain name' version' reader' wb0 m where names': "NewModuleName (Publish_ModuleName req) = Inr name'"
      "NewVersion (Publish_Version req) = Inr version'" "Publish_Artifact req = Some reader'"
    and found': "ModuleRepo_GetByName name' wa = (Inr (Pub_Module b), wb0)"
    and read': "readArtifact svc reader' = Inr (Pub_SourceBody b, Pub_SourceChecksum b, m)"
    and b: "Pub_Name b = name'" "Pub_VersionValue b = version'"
    and fb: "w_db wb = w_db wa" "same_env wa wb"
    by (rule preparePublish_Inr)
  have same: "name' = name" "version' = version" "reader' = reader" using names names' reader by simp_all
  have healthy: "healthy wa" "healthy wb"
    using healthy_env [OF assms(5) fa(2)] healthy_env [OF _ fb(2)] by auto
  have module: "Pub_Module b = Pub_Module a"
    using module_found [OF found, of wa] fa healthy(1) found' same by (simp add: healthy_def)
  have "Pub_SourceChecksum b = Pub_SourceChecksum a" using read read' same by simp
  then have keys: "sourceKey b = sourceKey a" "bufImageKey svc b = bufImageKey svc a"
    using a b image same by (simp_all add: sourceKey_def bufImageKey_def)
  have "\<not> w_tx wb" using assms(6) fa fb by (simp add: same_env_def)
  from stored this show ?thesis
  proof (rule storePublish_Inr)
    fix u mid v sa s ba b'
    assume mid: "p_uuid (w_platform wb) (Module_ID (Pub_Module a)) = Some mid"
      and vers: "db_versions (w_db w1) = db_versions (w_db wb) @ [row_of_version u mid v]"
      and arts: "db_artifacts (w_db w1)
        = db_artifacts (w_db wb) @ [row_of_artifact s u sa, row_of_artifact b' u ba]"
      and objs: "w_objects w1 = (w_objects wb)(sourceKey a \<mapsto> Pub_SourceBody a,
           bufImageKey svc a \<mapsto> Workflow_BufImage (Pub_BufResult a))"
      and out: "outer wb w1" and v: "Version_Version v = Pub_VersionValue a"
      and key: "Artifact_StorageKey sa = sourceKey a"
    have outside: "\<not> w_tx w1" and "healthy w1" and plat: "w_platform w1 = w_platform wb"
      using out \<open>\<not> w_tx wb\<close> healthy(2) by (simp_all add: outer_def same_env_def healthy_def)
    obtain x w2 where run: "storePublish svc b w1 = (x, w2)" by fastforce
    have "x \<noteq> Inr y" for y
    proof
      assume "x = Inr y"
      with run have "storePublish svc b w1 = (Inr y, w2)" by simp
      then show False using outside
        by (rule storePublish_Inr)
          (use vers v mid plat module a b same in \<open>auto simp: version_clash_def row_of_version_def\<close>)
    qed
    then obtain e where e: "storePublish svc b w1 = (Inl e, w2)" using run by (cases x) auto
    from storePublish_Inl [OF e outside] \<open>healthy w1\<close> keys
    have "w_db w2 = w_db w1" "w_objects w2 (sourceKey a) = None" "w_objects w2 (bufImageKey svc a) = None"
      by (auto simp: publish_keys_def)
    moreover have "sourceKey a \<noteq> bufImageKey svc a"
      by (simp add: sourceKey_def bufImageKey_def source_not_image)
    ultimately show ?thesis
      using e arts objs key by (auto simp: row_of_artifact_def intro!: exI [of _ e] exI [of _ w2])
  qed
qed

section \<open>Deprecating\<close>

lemma deprecateTransaction_Inr:
  assumes "deprecateTransaction module v actor reason now w = (Inr x, w')" and "\<not> w_tx w"
  obtains u oid at where "p_uuid (w_platform w) (Version_ID v) = Some u"
    and "w_db w' = db_outbox_update (\<lambda>rows. rows @ [new_outbox_row oid (NewModuleVersionDeprecated module
            (v\<lparr>Version_DeprecatedAt := Some now, Version_DeprecatedBy := actor,
               Version_DeprecationReason := reason\<rparr>) actor reason now) at])
         (db_generated_update Suc (db_versions_update (map (\<lambda>r. if ver_id r = u
            then r\<lparr>ver_deprecated_at := Some now, ver_deprecated_by := actor,
                   ver_deprecation_reason := reason\<rparr> else r)) (w_db w)))"
proof -
  let ?event = "NewModuleVersionDeprecated module (v\<lparr>Version_DeprecatedAt := Some now,
      Version_DeprecatedBy := actor, Version_DeprecationReason := reason\<rparr>) actor reason now"
  obtain w1 where body: "bindE (VersionRepo_UpdateDeprecation (Version_ID v) (Some now) actor reason)
      (\<lambda>_. Outbox_Create ?event) (w\<lparr>w_calls := Suc (w_calls w), w_tx := True\<rparr>) = (Inr x, w1)"
    and db: "w_db w' = w_db w1"
    by (rule WithinTransaction_success [OF assms(1) [unfolded deprecateTransaction_def] assms(2)], rule that)
  from body obtain y w2 where upd: "VersionRepo_UpdateDeprecation (Version_ID v) (Some now) actor reason
      (w\<lparr>w_calls := Suc (w_calls w), w_tx := True\<rparr>) = (Inr y, w2)"
    and create: "Outbox_Create ?event w2 = (Inr x, w1)"
    by (auto simp: bindE_Inr)
  from upd obtain u where u: "p_uuid (w_platform w) (Version_ID v) = Some u"
    and w2: "w_db w2 = db_versions_update (map (\<lambda>r. if ver_id r = u
            then r\<lparr>ver_deprecated_at := Some now, ver_deprecated_by := actor,
                   ver_deprecation_reason := reason\<rparr> else r)) (w_db w)"
    by (auto simp: VersionRepo_UpdateDeprecation_def sql_Inr)
  from create show ?thesis
    by (rule Outbox_Create_Inr) (use that [OF u] w2 db in simp)
qed

text \<open>One call: either the version was deprecated and nothing is written, or its row is updated.\<close>

lemma DeprecateModuleVersion_Inr:
  assumes "DeprecateModuleVersion input w = (Inr v, w')" and "\<not> w_tx w"
  obtains name version module w0 mid r mv where "NewModuleName (Deprecate_ModuleName input) = Inr name"
    and "NewVersion (Deprecate_Version input) = Inr version"
    and "ModuleRepo_GetByName name w = (Inr module, w0)"
    and "p_uuid (w_platform w) (Module_ID module) = Some mid"
    and "first_version mid version (w_db w) = Some r" and "scanModuleVersion r = Inr mv"
    and "(IsDeprecated mv \<and> v = mv \<and> w_db w' = w_db w)
       \<or> (\<not> IsDeprecated mv \<and> (\<exists>now u oid event at. p_uuid (w_platform w) (Version_ID mv) = Some u
          \<and> v = mv\<lparr>Version_DeprecatedAt := Some now, Version_DeprecatedBy := TrimSpace (Deprecate_Actor input),
                 Version_DeprecationReason := TrimSpace (Deprecate_Reason input)\<rparr>
          \<and> w_db w' = db_outbox_update (\<lambda>rows. rows @ [new_outbox_row oid event at])
              (db_generated_update Suc (db_versions_update (map (\<lambda>r. if ver_id r = u
                then r\<lparr>ver_deprecated_at := Some now, ver_deprecated_by := TrimSpace (Deprecate_Actor input),
                       ver_deprecation_reason := TrimSpace (Deprecate_Reason input)\<rparr> else r)) (w_db w)))))"
    and "same_env w w'"
proof -
  let ?actor = "TrimSpace (Deprecate_Actor input)" and ?reason = "TrimSpace (Deprecate_Reason input)"
  from assms(1) obtain name version module mv w0 w1 where names: "NewModuleName (Deprecate_ModuleName input) = Inr name"
      "NewVersion (Deprecate_Version input) = Inr version"
    and get: "ModuleRepo_GetByName name w = (Inr module, w0)"
    and ver: "VersionRepo_GetByModuleAndVersion (Module_ID module) version w0 = (Inr mv, w1)"
    and rest: "(if IsDeprecated mv then ret mv
         else
           bindE clock_now (\<lambda>now.
           bindE (deprecateTransaction module mv ?actor ?reason now) (\<lambda>_.
             ret (mv\<lparr>Version_DeprecatedAt := Some now, Version_DeprecatedBy := ?actor,
                    Version_DeprecationReason := ?reason\<rparr>)))) w1 = (Inr v, w')"
    unfolding DeprecateModuleVersion_def parseName_def Let_def
    by (elim bindE_InrE) auto
  have w0: "w_db w0 = w_db w" "same_env w w0" and w1: "w_db w1 = w_db w" "same_env w w1"
    using stillD [OF registry_get_still(1) get] stillD [OF registry_get_still(2) ver] env.step_trans
    by (auto simp: same_env_def)
  from ver obtain mid r where read: "p_uuid (w_platform w) (Module_ID module) = Some mid"
      "first_version mid version (w_db w) = Some r" "scanModuleVersion r = Inr mv"
    by (rule version_read) (use w0 in \<open>simp add: same_env_def\<close>)
  show ?thesis
  proof (cases "IsDeprecated mv")
    case True
    then show ?thesis using that [OF names get read] rest w1 by simp
  next
    case False
    with rest obtain now w2 w3 x where clock: "clock_now w1 = (Inr now, w2)"
      and tx: "deprecateTransaction module mv ?actor ?reason now w2 = (Inr x, w3)"
      and v: "v = mv\<lparr>Version_DeprecatedAt := Some now, Version_DeprecatedBy := ?actor,
                    Version_DeprecationReason := ?reason\<rparr>" "w' = w3"
      by (auto simp: bindE_Inr)
    have w2: "w_db w2 = w_db w" "same_env w w2"
      using clock w1 by (auto simp: clock_now_def same_env_def)
    have "steps same_env (deprecateTransaction module mv ?actor ?reason now)"
      unfolding deprecateTransaction_def VersionRepo_UpdateDeprecation_def
      by (intro env_transaction env.steps_bindE env_require env_stmt env_outbox)
    from env.step_trans [OF w2(2) stepsD [OF this tx]] have env: "same_env w w'" using v(2) by simp
    have "\<not> w_tx w2" using w2(2) assms(2) by (simp add: same_env_def)
    from tx this obtain u oid at where "p_uuid (w_platform w2) (Version_ID mv) = Some u"
      and "w_db w3 = db_outbox_update (\<lambda>rows. rows @ [new_outbox_row oid (NewModuleVersionDeprecated module
            (mv\<lparr>Version_DeprecatedAt := Some now, Version_DeprecatedBy := ?actor,
               Version_DeprecationReason := ?reason\<rparr>) ?actor ?reason now) at])
         (db_generated_update Suc (db_versions_update (map (\<lambda>r. if ver_id r = u
            then r\<lparr>ver_deprecated_at := Some now, ver_deprecated_by := ?actor,
                   ver_deprecation_reason := ?reason\<rparr> else r)) (w_db w2)))"
      by (rule deprecateTransaction_Inr)
    then show ?thesis
      using that [OF names get read] False v w2 env by (auto simp: same_env_def)
  qed
qed

lemma DeprecateModuleVersion_already:
  assumes "DeprecateModuleVersion input w = (Inr v, w')" and "\<not> w_tx w"
  obtains name version module w0 mid r mv where "NewModuleName (Deprecate_ModuleName input) = Inr name"
    and "NewVersion (Deprecate_Version input) = Inr version"
    and "ModuleRepo_GetByName name w = (Inr module, w0)"
    and "p_uuid (w_platform w) (Module_ID module) = Some mid"
    and "first_version mid version (w_db w) = Some r" and "scanModuleVersion r = Inr mv"
    and "IsDeprecated mv \<Longrightarrow> v = mv \<and> w_db w' = w_db w"
  by (rule DeprecateModuleVersion_Inr [OF assms], rule that) auto

text \<open>
  A deprecation is final: a further request for the same version, whoever makes it and for
  whatever reason, writes nothing and answers with the time, the actor and the reason of the first.
\<close>

theorem deprecation_is_final:
  assumes first: "DeprecateModuleVersion input w = (Inr v, w1)"
    and again: "DeprecateModuleVersion input' w1 = (Inr v', w2)"
    and same: "NewModuleName (Deprecate_ModuleName input') = NewModuleName (Deprecate_ModuleName input)"
      "NewVersion (Deprecate_Version input') = NewVersion (Deprecate_Version input)"
    and ids: "\<forall>r \<in> set (db_versions (w_db w)). p_uuid (w_platform w) (NewID (ver_id r)) = Some (ver_id r)"
    and outside: "\<not> w_tx w" and healthy: "healthy w"
  shows "w_db w2 = w_db w1 \<and> Version_DeprecatedAt v \<noteq> None
    \<and> Version_DeprecatedAt v' = Version_DeprecatedAt v \<and> Version_DeprecatedBy v' = Version_DeprecatedBy v
    \<and> Version_DeprecationReason v' = Version_DeprecationReason v"
  using first outside
proof (rule DeprecateModuleVersion_Inr)
  fix name version module w0 mid r mv
  assume names: "NewModuleName (Deprecate_ModuleName input) = Inr name"
      "NewVersion (Deprecate_Version input) = Inr version"
    and get: "ModuleRepo_GetByName name w = (Inr module, w0)"
    and mid: "p_uuid (w_platform w) (Module_ID module) = Some mid"
    and r: "first_version mid version (w_db w) = Some r" "scanModuleVersion r = Inr mv"
    and cases: "(IsDeprecated mv \<and> v = mv \<and> w_db w1 = w_db w)
       \<or> (\<not> IsDeprecated mv \<and> (\<exists>now u oid event at. p_uuid (w_platform w) (Version_ID mv) = Some u
          \<and> v = mv\<lparr>Version_DeprecatedAt := Some now, Version_DeprecatedBy := TrimSpace (Deprecate_Actor input),
                 Version_DeprecationReason := TrimSpace (Deprecate_Reason input)\<rparr>
          \<and> w_db w1 = db_outbox_update (\<lambda>rows. rows @ [new_outbox_row oid event at])
              (db_generated_update Suc (db_versions_update (map (\<lambda>r. if ver_id r = u
                then r\<lparr>ver_deprecated_at := Some now, ver_deprecated_by := TrimSpace (Deprecate_Actor input),
                       ver_deprecation_reason := TrimSpace (Deprecate_Reason input)\<rparr> else r)) (w_db w)))))"
    and env: "same_env w w1"
  have "\<not> w_tx w1" using env outside by (simp add: same_env_def)
  have mods: "db_modules (w_db w1) = db_modules (w_db w)" using cases by auto
  obtain r1 where r1: "first_version mid version (w_db w1) = Some r1" "scanModuleVersion r1 = Inr v"
      and "IsDeprecated v"
  proof (cases "IsDeprecated mv")
    case True
    with cases r that show ?thesis by auto
  next
    case False
    with cases obtain now u oid event at where u: "p_uuid (w_platform w) (Version_ID mv) = Some u"
      and v: "v = mv\<lparr>Version_DeprecatedAt := Some now, Version_DeprecatedBy := TrimSpace (Deprecate_Actor input),
                 Version_DeprecationReason := TrimSpace (Deprecate_Reason input)\<rparr>"
      and db: "w_db w1 = db_outbox_update (\<lambda>rows. rows @ [new_outbox_row oid event at])
              (db_generated_update Suc (db_versions_update (map (\<lambda>r. if ver_id r = u
                then r\<lparr>ver_deprecated_at := Some now, ver_deprecated_by := TrimSpace (Deprecate_Actor input),
                       ver_deprecation_reason := TrimSpace (Deprecate_Reason input)\<rparr> else r)) (w_db w)))"
      by auto
    let ?f = "\<lambda>r. if ver_id r = u
                then r\<lparr>ver_deprecated_at := Some now, ver_deprecated_by := TrimSpace (Deprecate_Actor input),
                       ver_deprecation_reason := TrimSpace (Deprecate_Reason input)\<rparr> else r"
    have "filter (\<lambda>r. ver_module_id r = mid \<and> ver_version r = version) (map ?f rs)
        = map ?f (filter (\<lambda>r. ver_module_id r = mid \<and> ver_version r = version) rs)" for rs
      by (induction rs) auto
    note filter_map = this [of "db_versions (w_db w)"]
    have "db_versions (w_db w1) = map ?f (db_versions (w_db w))" by (simp add: db)
    then have "filter (\<lambda>r. ver_module_id r = mid \<and> ver_version r = version) (db_versions (w_db w1))
        = map ?f (filter (\<lambda>r. ver_module_id r = mid \<and> ver_version r = version) (db_versions (w_db w)))"
      by (simp only: filter_map)
    with r(1) have first1: "first_version mid version (w_db w1) = Some (?f r)"
      by (auto simp only: first_version_def first_row_Some list.map)
    have "r \<in> set (db_versions (w_db w))" using r(1) by (auto simp: first_version_def dest: first_row_in)
    moreover have "Version_ID mv = NewID (ver_id r)"
      using r(2) by (auto simp: scanModuleVersion_def bindR_Inr)
    ultimately have "ver_id r = u" using ids u by auto
    then have "scanModuleVersion (?f r) = Inr v"
      using r(2) v by (auto simp: scanModuleVersion_def bindR_Inr)
    with first1 that v show ?thesis by (simp add: IsDeprecated_def)
  qed
  from again \<open>\<not> w_tx w1\<close> show ?thesis
  proof (rule DeprecateModuleVersion_already)
    fix name' version' module' w0' mid' r' mv'
    assume names': "NewModuleName (Deprecate_ModuleName input') = Inr name'"
        "NewVersion (Deprecate_Version input') = Inr version'"
      and get': "ModuleRepo_GetByName name' w1 = (Inr module', w0')"
      and mid': "p_uuid (w_platform w1) (Module_ID module') = Some mid'"
      and r': "first_version mid' version' (w_db w1) = Some r'" "scanModuleVersion r' = Inr mv'"
      and already: "IsDeprecated mv' \<Longrightarrow> v' = mv' \<and> w_db w2 = w_db w1"
    have eq: "name' = name" "version' = version" using names names' same by simp_all
    have "module' = module"
      using module_found [OF get, of w1] mods healthy env get' eq by (simp add: healthy_def same_env_def)
    then have "mid' = mid" using mid mid' env by (simp add: same_env_def)
    then have "mv' = v" using r1 r' eq by simp
    with already \<open>IsDeprecated v\<close> show ?thesis by (auto simp: IsDeprecated_def)
  qed
qed

end
