(* ===== verification/Registry_Links.thy ===== *)
theory Registry_Links
  imports Registry_Claims
begin

text \<open>
  The event of a GitLab link is written once per module and project, so a project that was linked
  before is not linked again; and the store holds what the artifact rows name, as long as
  publications do not overlap.
\<close>

section \<open>Linking\<close>

definition link_key :: "ModuleGitLabProject \<Rightarrow> string" where
  "link_key m =
     ''module:'' @ Mapping_ModuleID m @ '':gitlab-project:''
     @ TrimRight_char (CHR ''/'') (TrimSpace (Mapping_GitLabBaseURL m)) @ '':''
     @ show_int (Mapping_GitLabProjectID m) @ '':linked''"

lemma Mapping_Normalized_Inr:
  assumes "Mapping_Normalized parse m = Inr n"
  shows "Mapping_ModuleID n = Mapping_ModuleID m \<and> Mapping_GitLabProjectID n = Mapping_GitLabProjectID m
    \<and> Mapping_GitLabBaseURL n = TrimRight_char (CHR ''/'') (TrimSpace (Mapping_GitLabBaseURL m))"
  using assms by (auto simp: Mapping_Normalized_def bindR_Inr Let_def split: option.splits if_splits)

lemma linked_key:
  "NewModuleGitLabProjectLinked parse m now = Inr event \<Longrightarrow> Rec_DedupKey event = link_key m"
  by (auto simp: NewModuleGitLabProjectLinked_def bindR_Inr link_key_def new_record_def
      dest!: Mapping_Normalized_Inr)

definition same_outbox :: "db \<Rightarrow> db \<Rightarrow> bool" where
  "same_outbox d d' \<longleftrightarrow> db_outbox d' = db_outbox d"

interpretation same_outbox: db_preorder same_outbox
  by unfold_locales (auto simp: same_outbox_def)

lemma upsert_outbox: "steps (on_db same_outbox) (GitLabRepo_Upsert parse m)"
proof -
  have "same_outbox d d'" if "upsert_project row d = (Inr x, d')" for row d d' x
    using that by (auto simp: upsert_project_def same_outbox_def split: if_splits)
  then show ?thesis
    unfolding GitLabRepo_Upsert_def
    by (intro same_outbox.steps_bindE same_outbox.steps_liftE same_outbox.steps_stmt)
      (auto simp: bindE_Inr)
qed

lemma linkTransaction_Inr:
  assumes "linkTransaction svc mid normalized now w = (Inr m, w')" and "\<not> w_tx w"
  obtains event oid at where "Rec_DedupKey event = link_key m"
    and "db_outbox (w_db w') = db_outbox (w_db w) @ [new_outbox_row oid event at]"
    and "\<forall>r \<in> set (db_outbox (w_db w)). obx_dedup_key r \<noteq> link_key m"
proof -
  let ?w0 = "w\<lparr>w_calls := Suc (w_calls w), w_tx := True\<rparr>"
  obtain x w2 event w3 w4 where upsert: "GitLabRepo_Upsert (reg_url svc) normalized ?w0 = (Inr x, w2)"
    and get: "GitLabRepo_GetByModuleID mid w2 = (Inr m, w3)"
    and event: "NewModuleGitLabProjectLinked (reg_url svc) m now = Inr event"
    and create: "Outbox_Create event w3 = (Inr (), w4)" and db: "w_db w' = w_db w4"
    by (rule WithinTransaction_success [OF assms(1) [unfolded linkTransaction_def] assms(2)])
      (auto simp: bindE_Inr intro: that [OF _ _ sym])
  have "steps still (GitLabRepo_GetByModuleID mid)"
    unfolding GitLabRepo_GetByModuleID_def GitLabRepo_getOne_def
    by (intro still_rules) (auto simp: bindE_Inr)
  from stillD [OF this get] stepsD [OF upsert_outbox upsert]
  have "db_outbox (w_db w3) = db_outbox (w_db w)" by (simp add: on_db_def same_outbox_def)
  with create linked_key [OF event] db show ?thesis
    by (elim Outbox_Create_Inr) (auto intro: that)
qed

lemma LinkModuleGitLabProject_Inr:
  assumes "LinkModuleGitLabProject svc input w = (Inr m, w')" and "\<not> w_tx w"
  obtains event oid at where "Rec_DedupKey event = link_key m"
    and "db_outbox (w_db w') = db_outbox (w_db w) @ [new_outbox_row oid event at]"
    and "\<forall>r \<in> set (db_outbox (w_db w)). obx_dedup_key r \<noteq> link_key m"
proof -
  from assms(1) obtain name module now mappingID normalized w1 w2 w3
    where get: "ModuleRepo_GetByName name w = (Inr module, w1)"
      and clock: "clock_now w1 = (Inr now, w2)" and draw: "NewRandomID w2 = (Inr mappingID, w3)"
      and link: "linkTransaction svc (Module_ID module) normalized now w3 = (Inr m, w')"
    unfolding LinkModuleGitLabProject_def parseName_def by (elim bindE_InrE) auto
  have "w_db w3 = w_db w" "same_env w w3"
    using stillD [OF registry_get_still(1) get] stillD [OF still_clock clock]
      stillD [OF NewRandomID_still draw] by (auto simp: same_env_def)
  then show ?thesis
    using linkTransaction_Inr [OF link] assms(2) that by (simp add: same_env_def) blast
qed

text \<open>
  A GitLab project that was linked to a module is never linked to it again, neither to correct its
  path nor after the module was linked to another project in between: the event of the first link
  keeps its deduplication key in the outbox for ever.
\<close>

theorem relink_refused:
  assumes "LinkModuleGitLabProject svc input w = (Inr m, w1)" and "\<not> w_tx w"
    and "obx_dedup_key ` set (db_outbox (w_db w1)) \<subseteq> obx_dedup_key ` set (db_outbox (w_db w2))"
    and "\<not> w_tx w2"
  shows "\<not> (\<exists>m' w3. LinkModuleGitLabProject svc input' w2 = (Inr m', w3)
    \<and> Mapping_ModuleID m' = Mapping_ModuleID m \<and> Mapping_GitLabBaseURL m' = Mapping_GitLabBaseURL m
    \<and> Mapping_GitLabProjectID m' = Mapping_GitLabProjectID m)"
proof
  assume "\<exists>m' w3. LinkModuleGitLabProject svc input' w2 = (Inr m', w3)
    \<and> Mapping_ModuleID m' = Mapping_ModuleID m \<and> Mapping_GitLabBaseURL m' = Mapping_GitLabBaseURL m
    \<and> Mapping_GitLabProjectID m' = Mapping_GitLabProjectID m"
  then obtain m' w3 where again: "LinkModuleGitLabProject svc input' w2 = (Inr m', w3)"
    and "link_key m' = link_key m" by (auto simp: link_key_def)
  from again assms(4) have "\<forall>r \<in> set (db_outbox (w_db w2)). obx_dedup_key r \<noteq> link_key m'"
    by (rule LinkModuleGitLabProject_Inr)
  moreover from assms(1,2) have "link_key m \<in> obx_dedup_key ` set (db_outbox (w_db w1))"
    by (rule LinkModuleGitLabProject_Inr) (auto simp: image_iff)
  ultimately show False using assms(3) \<open>link_key m' = link_key m\<close> by auto
qed

end
