(* ===== verification/Samples.thy ===== *)
theory Samples
  imports Store
begin

text \<open>
  A concrete world the properties are tried on. Its uuid type is a small one with the behaviour of
  PostgreSQL's: two hexadecimal digits are accepted with or without a dash between them, and the
  canonical text has the dash. The random source yields undashed text, as \<^verbatim>\<open>hex.EncodeToString\<close>
  does, and the clock advances by one nanosecond per reading.
\<close>

definition hex_digits :: string where
  "hex_digits = ''0123456789abcdef''"

definition sample_uuid :: "string \<Rightarrow> string option" where
  "sample_uuid s =
     (case s of
        [a, b] \<Rightarrow> if a \<in> set hex_digits \<and> b \<in> set hex_digits then Some [a, CHR ''-'', b] else None
      | [a, c, b] \<Rightarrow>
          if a \<in> set hex_digits \<and> c = CHR ''-'' \<and> b \<in> set hex_digits then Some s else None
      | _ \<Rightarrow> None)"

definition sample_platform :: platform where
  "sample_platform =
     \<lparr>p_uuid = sample_uuid,
      p_gen_uuid = (\<lambda>n. [hex_digits ! (n div 16 mod 16), CHR ''-'', hex_digits ! (n mod 16)]),
      p_lower = (\<lambda>s. s), p_json = (\<lambda>_. ''{}'')\<rparr>"

definition sample_world :: "db \<Rightarrow> world" where
  "sample_world d =
     \<lparr>w_platform = sample_platform, w_db = d, w_tx = False, w_calls = 0, w_fault = (\<lambda>_. None),
      w_ticks = 0, w_clock = (\<lambda>n. 1000 + int n), w_draws = 0,
      w_random = (\<lambda>n. Some [hex_digits ! (n div 16 mod 16), hex_digits ! (n mod 16)]),
      w_polls = 0, w_cancel = (\<lambda>_. None), w_objects = (\<lambda>_. None)\<rparr>"

lemma sample_platform_simps [simp]:
  "p_uuid sample_platform = sample_uuid" "w_platform (sample_world d) = sample_platform"
  "w_db (sample_world d) = d" "w_fault (sample_world d) = (\<lambda>_. None)"
  "w_calls (sample_world d) = 0" "w_ticks (sample_world d) = 0" "\<not> w_tx (sample_world d)"
  "w_clock (sample_world d) n = 1000 + int n"
  by (simp_all add: sample_platform_def sample_world_def)

lemma hex_plain: "c \<in> set hex_digits \<Longrightarrow> plain_char c"
  by (auto simp: hex_digits_def plain_char_def go_spaces_def)

lemma sample_uuid_Some:
  "sample_uuid s = Some u \<longleftrightarrow>
     (\<exists>a b. a \<in> set hex_digits \<and> b \<in> set hex_digits \<and> u = [a, CHR ''-'', b]
        \<and> (s = [a, b] \<or> s = u))"
  by (auto simp: sample_uuid_def split: list.splits if_splits)

lemma sample_uuid_laws: "uuid_laws sample_platform"
  by (auto simp: uuid_laws_def sample_uuid_Some intro!: TrimSpace_plain hex_plain)

lemma sample_healthy: "healthy (sample_world d)"
  by (simp add: healthy_def sample_world_def)

text \<open>Runs are compared by whether they return, and then by their values.\<close>

definition succeeded :: "('e + 'a) \<times> world \<Rightarrow> bool" where
  "succeeded r = (case fst r of Inl _ \<Rightarrow> False | Inr _ \<Rightarrow> True)"

lemma succeededE:
  assumes "succeeded (f w)"
  obtains x where "f w = (Inr x, snd (f w))"
  using assms by (cases "f w") (auto simp: succeeded_def split: sum.splits)

lemma failedE:
  assumes "\<not> succeeded (f w)"
  obtains e where "f w = (Inl e, snd (f w))"
  using assms by (cases "f w") (auto simp: succeeded_def split: sum.splits)

lemma succeeded_eq: "succeeded r \<Longrightarrow> r = (Inr (projr (fst r)), snd r)"
  by (cases r) (auto simp: succeeded_def split: sum.splits)

end
