(* ===== verification/Registry_Witnesses.thy ===== *)
theory Registry_Witnesses
  imports Registry_Links Samples
begin

text \<open>
  The properties of the registry applied to one module, \<open>billing\<close>, whose source archive holds a
  \<open>buf.yaml\<close> and which the \<open>buf\<close> tool builds without complaints.
\<close>

definition sample_registry :: db where
  "sample_registry = empty_db\<lparr>db_modules := [\<lparr>mod_id = ''a-1'', mod_name = ''billing'',
     mod_description = '''', mod_repository_url = '''', mod_created_at = 1, mod_updated_at = 1\<rparr>]\<rparr>"

definition sample_result :: BufWorkflowResult where
  "sample_result = \<lparr>Workflow_ConfigInfo = zero_config\<lparr>Buf_BufYAMLPresent := True\<rparr>,
     Workflow_BufImage = ''image'', Workflow_BufImageDigest = ''digest'',
     Workflow_LintResult = \<lparr>Lint_Status = BufLintStatusPassed, Lint_Report = ''''\<rparr>,
     Workflow_DescriptorMetadata = []\<rparr>"

definition sample_archive :: archive where
  "sample_archive = \<lparr>Archive_Entries = [\<lparr>Header_Name = ''buf.yaml'', Header_Typeflag = TypeReg,
     Header_Size = 2, Header_Body = ''v1''\<rparr>], Archive_Error = None\<rparr>"

definition sample_service :: RegistryService where
  "sample_service = \<lparr>reg_hasGitLabProjects = True, reg_hasDependencies = True,
     reg_hasDependencyRead = True, reg_hasReports = True, reg_MaxArtifactSizeBytes = 100,
     reg_MaxSourceUncompressedSizeBytes = 100, reg_BufRequireConfig = True,
     reg_BufLintMode = ''error'', reg_BreakingMaxChanges = 10, reg_BreakingDefaultAgainst = ''latest'',
     reg_sha256 = (\<lambda>s. ''sum''), reg_hashToken = (\<lambda>s. s),
     reg_url = (\<lambda>s. Some \<lparr>URL_Scheme = ''https'', URL_Host = ''gitlab''\<rparr>),
     reg_tempDir = (\<lambda>n. ''/tmp/w''), reg_decode = (\<lambda>s. Inr sample_archive),
     reg_bufWorkflow = Some (\<lambda>n fs required lint. (None, sample_result)),
     reg_bufBreaking = None\<rparr>"

definition sample_reader :: reader where
  "sample_reader = \<lparr>Reader_Content = ''tar'', Reader_Error = None\<rparr>"

definition sample_publish :: PublishModuleVersionRequest where
  "sample_publish = \<lparr>Publish_ModuleName = ''billing'', Publish_Version = ''v1'',
     Publish_Artifact = Some sample_reader\<rparr>"

section \<open>Publishing\<close>

definition published_run :: "(goerr + PublishModuleVersionResponse) \<times> world" where
  "published_run = PublishModuleVersion sample_service sample_publish (sample_world sample_registry)"

lemma published_run_value: "succeeded published_run"
  by code_simp

text \<open>The same request with an outbox that outlived the rows: the event's key is taken.\<close>

definition stale_world :: world where
  "stale_world = sample_world (sample_registry\<lparr>db_outbox := db_outbox (w_db (snd published_run))\<rparr>)"

lemma stale_run_value:
  "\<not> succeeded (PublishModuleVersion sample_service sample_publish stale_world)"
  by code_simp

theorem publish_all_or_nothing_witness:
  "w_db (snd (PublishModuleVersion sample_service sample_publish stale_world)) = w_db stale_world
   \<and> (\<forall>key. w_objects (snd (PublishModuleVersion sample_service sample_publish stale_world)) key = None)"
proof -
  obtain e where run: "PublishModuleVersion sample_service sample_publish stale_world
    = (Inl e, snd (PublishModuleVersion sample_service sample_publish stale_world))"
    using stale_run_value by (rule failedE)
  have "\<not> w_tx stale_world" "healthy stale_world" "w_objects stale_world key = None" for key
    by (simp_all add: stale_world_def sample_healthy) (simp add: sample_world_def)
  with publish_all_or_nothing [OF run] show ?thesis by metis
qed

theorem publish_download_witness:
  "\<exists>object artifact w2. DownloadArtifact ''billing'' ''v1'' (snd published_run) = (Inr (object, artifact), w2)
     \<and> Object_Body object = ''tar''"
proof -
  obtain resp where run: "PublishModuleVersion sample_service sample_publish (sample_world sample_registry)
    = (Inr resp, snd published_run)"
    using published_run_value unfolding published_run_def by (rule succeededE)
  show ?thesis
    using publish_download [OF run, of sample_reader]
    by (simp add: sample_healthy sample_uuid_laws)
      (auto simp: sample_publish_def sample_reader_def sample_service_def)
qed

section \<open>Two requests at once\<close>

definition first_prepared :: "(goerr + PreparedPublish) \<times> world" where
  "first_prepared = preparePublish sample_service sample_publish (sample_world sample_registry)"

definition second_prepared :: "(goerr + PreparedPublish) \<times> world" where
  "second_prepared = preparePublish sample_service sample_publish (snd first_prepared)"

definition first_stored :: "(goerr + PublishModuleVersionResponse) \<times> world" where
  "first_stored = storePublish sample_service (projr (fst first_prepared)) (snd second_prepared)"

definition second_stored :: "(goerr + PublishModuleVersionResponse) \<times> world" where
  "second_stored = storePublish sample_service (projr (fst second_prepared)) (snd first_stored)"

lemma prepared_values:
  "succeeded first_prepared" "succeeded second_prepared" "succeeded first_stored"
  "Workflow_BufImage (Pub_BufResult (projr (fst second_prepared)))
    = Workflow_BufImage (Pub_BufResult (projr (fst first_prepared)))"
  by code_simp+

theorem concurrent_publish_loses_artifacts_witness:
  "\<exists>r \<in> set (db_artifacts (w_db (snd second_stored))).
     w_objects (snd first_stored) (art_storage_key r) = Some ''tar''
     \<and> w_objects (snd second_stored) (art_storage_key r) = None"
proof -
  have first: "preparePublish sample_service sample_publish (sample_world sample_registry)
      = (Inr (projr (fst first_prepared)), snd first_prepared)"
    using succeeded_eq [OF prepared_values(1)] by (simp add: first_prepared_def)
  have second: "preparePublish sample_service sample_publish (snd first_prepared)
      = (Inr (projr (fst second_prepared)), snd second_prepared)"
    using succeeded_eq [OF prepared_values(2)] by (simp add: second_prepared_def)
  have stored: "storePublish sample_service (projr (fst first_prepared)) (snd second_prepared)
      = (Inr (projr (fst first_stored)), snd first_stored)"
    using succeeded_eq [OF prepared_values(3)] by (simp add: first_stored_def)
  have "Pub_SourceBody (projr (fst first_prepared)) = ''tar''" by code_simp
  then show ?thesis
    using concurrent_publish_loses_artifacts [OF first second stored
        prepared_values(4) sample_healthy]
    by (auto simp: second_stored_def)
qed

section \<open>Deprecation\<close>

definition sample_deprecate :: "string \<Rightarrow> DeprecateModuleVersionInput" where
  "sample_deprecate actor = \<lparr>Deprecate_ModuleName = ''billing'', Deprecate_Version = ''v1'',
     Deprecate_Actor = actor, Deprecate_Reason = ''old''\<rparr>"

definition published_world :: world where
  "published_world = sample_world (sample_registry\<lparr>db_versions := db_versions (w_db (snd published_run))\<rparr>)"

definition deprecated_run :: "(goerr + ModuleVersion) \<times> world" where
  "deprecated_run = DeprecateModuleVersion (sample_deprecate ''ann'') published_world"

definition deprecated_again :: "(goerr + ModuleVersion) \<times> world" where
  "deprecated_again = DeprecateModuleVersion (sample_deprecate ''bob'') (snd deprecated_run)"

lemma deprecated_values:
  "succeeded deprecated_run" "succeeded deprecated_again"
  "map ver_id (db_versions (w_db published_world)) = [''0-0'']"
  "p_uuid (w_platform published_world) ''0-0'' = Some ''0-0''"
  by code_simp+

theorem deprecation_is_final_witness:
  "w_db (snd deprecated_again) = w_db (snd deprecated_run)
   \<and> Version_DeprecatedBy (projr (fst deprecated_again)) = Version_DeprecatedBy (projr (fst deprecated_run))"
proof -
  have first: "DeprecateModuleVersion (sample_deprecate ''ann'') published_world
      = (Inr (projr (fst deprecated_run)), snd deprecated_run)"
    using succeeded_eq [OF deprecated_values(1)] by (simp add: deprecated_run_def)
  have again: "DeprecateModuleVersion (sample_deprecate ''bob'') (snd deprecated_run)
      = (Inr (projr (fst deprecated_again)), snd deprecated_again)"
    using succeeded_eq [OF deprecated_values(2)] by (simp add: deprecated_again_def)
  have ids: "\<forall>r \<in> set (db_versions (w_db published_world)).
      p_uuid (w_platform published_world) (NewID (ver_id r)) = Some (ver_id r)"
  proof -
    have "TrimSpace ''0-0'' = ''0-0''" by code_simp
    then show ?thesis using deprecated_values(3,4) by (auto simp: map_eq_Cons_conv NewID_def)
  qed
  show ?thesis
    using deprecation_is_final [OF first again _ _ ids]
    by (simp add: sample_deprecate_def published_world_def sample_healthy)
qed

section \<open>Links\<close>

definition sample_link :: "string \<Rightarrow> LinkModuleGitLabProjectInput" where
  "sample_link path = \<lparr>Link_ModuleName = ''billing'', Link_GitLabBaseURL = ''https://gitlab/'',
     Link_GitLabProjectID = 7, Link_GitLabProjectPath = path\<rparr>"

definition linked_run :: "(goerr + ModuleGitLabProject) \<times> world" where
  "linked_run = LinkModuleGitLabProject sample_service (sample_link ''a/b'') (sample_world sample_registry)"

lemma linked_values: "succeeded linked_run" "\<not> w_tx (snd linked_run)"
  "Mapping_ModuleID (projr (fst linked_run)) = ''a-1''"
  "Mapping_GitLabBaseURL (projr (fst linked_run)) = ''https://gitlab''"
  "Mapping_GitLabProjectID (projr (fst linked_run)) = 7"
  by code_simp+

theorem relink_refused_witness:
  "\<not> (\<exists>m w3. LinkModuleGitLabProject sample_service (sample_link ''a/c'') (snd linked_run) = (Inr m, w3)
     \<and> Mapping_ModuleID m = ''a-1'' \<and> Mapping_GitLabBaseURL m = ''https://gitlab''
     \<and> Mapping_GitLabProjectID m = 7)"
proof -
  have run: "LinkModuleGitLabProject sample_service (sample_link ''a/b'') (sample_world sample_registry)
      = (Inr (projr (fst linked_run)), snd linked_run)"
    using succeeded_eq [OF linked_values(1)] by (simp add: linked_run_def)
  show ?thesis
    using relink_refused [OF run _ subset_refl linked_values(2)] linked_values(3-) by simp
qed

end
