(* ===== verification/Repo_Runtime.thy ===== *)
theory Repo_Runtime
  imports Repo_Dependencies
begin

text \<open>
  The repository of the runtime inventory, \<^verbatim>\<open>internal/repository/postgres/runtime_inventory.go\<close>, over the
  tables of migration \<^verbatim>\<open>000006_runtime_inventory\<close>: which services are deployed where, and which module
  versions each deployment reported.
\<close>

section \<open>Results of the queries\<close>

record RuntimeServiceSummary =
  Summary_Service :: RuntimeService
  Summary_Environments :: "RuntimeEnvironment list"
  Summary_EnvironmentCount :: nat
  Summary_DeploymentCount :: nat
  Summary_UpToDateCount :: nat
  Summary_BehindLatestCount :: nat
  Summary_UnknownVersionCount :: nat
  Summary_DeprecatedCount :: nat
  Summary_LatestReportedAt :: "time option"

record RuntimeServiceDetails =
  RtDetails_Service :: RuntimeService
  RtDetails_Deployments :: "RuntimeDeployment list"
  RtDetails_Usages :: "RuntimeModuleUsage list"

record RuntimeEnvironmentInventory =
  Inventory_Environment :: RuntimeEnvironment
  Inventory_Deployments :: "RuntimeDeployment list"
  Inventory_Usages :: "RuntimeModuleUsage list"

record ModuleRuntimeUsage =
  ModUsage_ServiceName :: RuntimeServiceName
  ModUsage_Environment :: RuntimeEnvironment
  ModUsage_DeploymentID :: RuntimeDeploymentID
  ModUsage_ModuleName :: ModuleName
  ModUsage_Version :: Version
  ModUsage_GitCommit :: string
  ModUsage_BuildVersion :: string
  ModUsage_ReportedAt :: time
  ModUsage_DriftStatus :: RuntimeDriftStatus
  ModUsage_DriftReason :: string

section \<open>Reading rows\<close>

definition scanRuntimeService :: "service_row \<Rightarrow> goerr + RuntimeService" where
  "scanRuntimeService r =
     bindR (NewRuntimeServiceName (srv_name r)) (\<lambda>name.
       Inr \<lparr>Service_ID = NewID (srv_id r), Service_Name = name,
         Service_CreatedAt = srv_created_at r, Service_UpdatedAt = srv_updated_at r\<rparr>)"

definition scanRuntimeDeployment :: "deployment_row \<times> service_row \<Rightarrow> goerr + RuntimeDeployment" where
  "scanRuntimeDeployment row =
     (case row of (rd, rs) \<Rightarrow>
        bindR (NewRuntimeServiceName (srv_name rs)) (\<lambda>serviceName.
        bindR (NewRuntimeEnvironment (dpl_environment rd)) (\<lambda>environment.
          Inr \<lparr>Deployment_ID = NewID (dpl_id rd), Deployment_ServiceID = NewID (dpl_service_id rd),
            Deployment_ServiceName = serviceName, Deployment_Environment = environment,
            Deployment_GitCommit = dpl_git_commit rd, Deployment_BuildVersion = dpl_build_version rd,
            Deployment_ReportedAt = dpl_reported_at rd, Deployment_CreatedAt = dpl_created_at rd\<rparr>)))"

definition runtimeVersion :: "string option \<Rightarrow> Version option" where
  "runtimeVersion v =
     (case v of
        None \<Rightarrow> None
      | Some s \<Rightarrow> (case NewVersion s of Inl _ \<Rightarrow> None | Inr version \<Rightarrow> Some version))"

text \<open>A usage with the version the lateral subquery found to be the latest of its module.\<close>

definition scanRuntimeModuleUsage :: "usage_row \<times> string option \<Rightarrow> goerr + RuntimeModuleUsage" where
  "scanRuntimeModuleUsage row =
     (case row of (r, latestVersionValue) \<Rightarrow>
        bindR (NewModuleName (usg_module_name r)) (\<lambda>moduleName.
        bindR (NewVersion (usg_version r)) (\<lambda>version.
        bindR (NewRuntimeDriftStatus (usg_drift_status r)) (\<lambda>status.
          Inr \<lparr>Usage_ID = NewID (usg_id r), Usage_DeploymentID = NewID (usg_deployment_id r),
            Usage_ModuleID = map_option NewID (usg_module_id r), Usage_ModuleName = moduleName,
            Usage_ModuleVersionID = map_option NewID (usg_module_version_id r),
            Usage_Version = version, Usage_LatestVersion = runtimeVersion latestVersionValue,
            Usage_DriftStatus = status, Usage_DriftReason = usg_drift_reason r,
            Usage_CreatedAt = usg_created_at r\<rparr>))))"

definition scanModuleRuntimeUsage ::
  "usage_row \<times> deployment_row \<times> service_row \<Rightarrow> goerr + ModuleRuntimeUsage" where
  "scanModuleRuntimeUsage row =
     (case row of (rmu, rd, rs) \<Rightarrow>
        bindR (NewRuntimeServiceName (srv_name rs)) (\<lambda>serviceName.
        bindR (NewRuntimeEnvironment (dpl_environment rd)) (\<lambda>environment.
        bindR (NewModuleName (usg_module_name rmu)) (\<lambda>moduleName.
        bindR (NewVersion (usg_version rmu)) (\<lambda>version.
        bindR (NewRuntimeDriftStatus (usg_drift_status rmu)) (\<lambda>status.
          Inr \<lparr>ModUsage_ServiceName = serviceName, ModUsage_Environment = environment,
            ModUsage_DeploymentID = NewID (dpl_id rd), ModUsage_ModuleName = moduleName,
            ModUsage_Version = version, ModUsage_GitCommit = dpl_git_commit rd,
            ModUsage_BuildVersion = dpl_build_version rd, ModUsage_ReportedAt = dpl_reported_at rd,
            ModUsage_DriftStatus = status, ModUsage_DriftReason = usg_drift_reason rmu\<rparr>))))))"

definition RuntimeImpactStatusPotentiallyAffectedByBreakingChange :: string where
  "RuntimeImpactStatusPotentiallyAffectedByBreakingChange = ''potentially_affected_by_breaking_change''"

text \<open>The status and the reason of an impact are constants of the query.\<close>

definition scanRuntimeImpact ::
  "usage_row \<times> deployment_row \<times> service_row \<Rightarrow> goerr + RuntimeImpact" where
  "scanRuntimeImpact row =
     (case row of (rmu, rd, rs) \<Rightarrow>
        bindR (NewRuntimeServiceName (srv_name rs)) (\<lambda>serviceName.
        bindR (NewRuntimeEnvironment (dpl_environment rd)) (\<lambda>environment.
        bindR (NewModuleName (usg_module_name rmu)) (\<lambda>moduleName.
        bindR (NewVersion (usg_version rmu)) (\<lambda>version.
        bindR (NewRuntimeDriftStatus (usg_drift_status rmu)) (\<lambda>driftStatus.
          Inr \<lparr>Impact_ServiceName = serviceName, Impact_Environment = environment,
            Impact_UsedModule = moduleName, Impact_UsedVersion = version,
            Impact_GitCommit = dpl_git_commit rd, Impact_BuildVersion = dpl_build_version rd,
            Impact_ReportedAt = dpl_reported_at rd,
            Impact_ImpactStatus = RuntimeImpactStatusPotentiallyAffectedByBreakingChange,
            Impact_Reason = ''exact runtime module version matches breaking report base version'',
            Impact_DriftStatus = driftStatus, Impact_DriftReason = usg_drift_reason rmu\<rparr>))))))"

section \<open>Joins\<close>

text \<open>\<^verbatim>\<open>runtime_deployments rd JOIN runtime_services rs ON rs.id = rd.service_id\<close>, and with the usages.\<close>

definition deployments_joined :: "db \<Rightarrow> (deployment_row \<times> service_row) list" where
  "deployments_joined d =
     concat (map (\<lambda>rd. map (Pair rd) (by_id srv_id (db_services d) (dpl_service_id rd)))
       (db_deployments d))"

definition usages_joined :: "db \<Rightarrow> (usage_row \<times> deployment_row \<times> service_row) list" where
  "usages_joined d =
     concat (map (\<lambda>rmu. map (Pair rmu)
         (filter (\<lambda>(rd, rs). dpl_id rd = usg_deployment_id rmu) (deployments_joined d)))
       (db_usages d))"

text \<open>
  \<^verbatim>\<open>LEFT JOIN LATERAL (SELECT mv.version ... WHERE mv.module_id = rmu.module_id AND mv.status = $1
  ORDER BY mv.created_at DESC LIMIT 1)\<close>.
\<close>

definition lateral_latest :: "db \<Rightarrow> usage_row \<Rightarrow> string option" where
  "lateral_latest d rmu =
     map_option ver_version (first_row (sort_key (\<lambda>mv. - ver_created_at mv)
       (filter (\<lambda>mv. Some (ver_module_id mv) = usg_module_id rmu
          \<and> ver_status mv = ModuleVersionStatus_String ModuleVersionStatusPublished)
         (db_versions d))))"

section \<open>Queries\<close>

text \<open>The three list functions take the rest of the statement as a function on the joined rows.\<close>

definition listRuntimeDeployments ::
  "(platform \<Rightarrow> ((deployment_row \<times> service_row) list \<Rightarrow> (deployment_row \<times> service_row) list) sql)
   \<Rightarrow> RuntimeDeployment list io" where
  "listRuntimeDeployments clause =
     query_rows (\<lambda>p. bindE (clause p) (\<lambda>f. select (\<lambda>d. f (deployments_joined d))))
       scanRuntimeDeployment"

definition listRuntimeModuleUsages ::
  "(platform \<Rightarrow> (db \<Rightarrow> usage_row list) sql) \<Rightarrow> RuntimeModuleUsage list io" where
  "listRuntimeModuleUsages clause =
     query_rows (\<lambda>p. bindE (clause p) (\<lambda>f. select (\<lambda>d. map (\<lambda>r. (r, lateral_latest d r)) (f d))))
       scanRuntimeModuleUsage"

definition listModuleRuntimeUsages ::
  "(platform \<Rightarrow> (usage_row \<Rightarrow> bool) sql) \<Rightarrow> int \<Rightarrow> int \<Rightarrow> ModuleRuntimeUsage list io" where
  "listModuleRuntimeUsages cond limit off =
     query_rows (\<lambda>p. bindE (cond p) (\<lambda>P. select (\<lambda>d.
         limit_offset limit off
           (sort_key (\<lambda>(rmu, rd, rs). (- dpl_reported_at rd, srv_name rs, dpl_environment rd))
             (filter (\<lambda>(rmu, _). P rmu) (usages_joined d))))))
       scanModuleRuntimeUsage"

definition ListRuntimeDeploymentsByService ::
  "RuntimeServiceID \<Rightarrow> int \<Rightarrow> int \<Rightarrow> RuntimeDeployment list io" where
  "ListRuntimeDeploymentsByService serviceID limit off =
     listRuntimeDeployments (\<lambda>p. bindE (uuid p serviceID) (\<lambda>s. ret (\<lambda>rows.
       limit_offset limit off
         (sort_key (\<lambda>(rd, rs). (- dpl_reported_at rd, - dpl_created_at rd))
           (filter (\<lambda>(rd, rs). dpl_service_id rd = s) rows)))))"

definition ListRuntimeModuleUsagesByDeployment ::
  "RuntimeDeploymentID \<Rightarrow> RuntimeModuleUsage list io" where
  "ListRuntimeModuleUsagesByDeployment deploymentID =
     listRuntimeModuleUsages (\<lambda>p. bindE (uuid p deploymentID) (\<lambda>dep. ret (\<lambda>d.
       sort_key (\<lambda>r. (usg_module_name r, usg_version r))
         (filter (\<lambda>r. usg_deployment_id r = dep) (db_usages d)))))"

text \<open>The subquery of the latest deployment yields no row, and then nothing equals it.\<close>

definition ListLatestRuntimeUsagesByServiceEnvironment ::
  "RuntimeServiceName \<Rightarrow> RuntimeEnvironment \<Rightarrow> RuntimeModuleUsage list io" where
  "ListLatestRuntimeUsagesByServiceEnvironment serviceName environment =
     listRuntimeModuleUsages (\<lambda>p. ret (\<lambda>d.
       let latest = map_option (dpl_id \<circ> fst) (first_row
             (sort_key (\<lambda>(rd, rs). (- dpl_reported_at rd, - dpl_created_at rd))
               (filter (\<lambda>(rd, rs). srv_name rs = serviceName \<and> dpl_environment rd = environment)
                 (deployments_joined d))))
       in sort_key (\<lambda>r. (usg_module_name r, usg_version r))
            (map fst (filter (\<lambda>(rmu, rd, rs). Some (dpl_id rd) = latest) (usages_joined d)))))"

definition ListRuntimeModuleUsagesByDriftStatus ::
  "RuntimeDriftStatus \<Rightarrow> int \<Rightarrow> int \<Rightarrow> RuntimeModuleUsage list io" where
  "ListRuntimeModuleUsagesByDriftStatus status limit off =
     listRuntimeModuleUsages (\<lambda>p. ret (\<lambda>d.
       limit_offset limit off (sort_key (\<lambda>r. (- usg_created_at r, usg_module_name r))
         (filter (\<lambda>r. usg_drift_status r = RuntimeDriftStatus_String status) (db_usages d)))))"

definition ListModuleRuntimeUsages :: "ModuleID \<Rightarrow> int \<Rightarrow> int \<Rightarrow> ModuleRuntimeUsage list io" where
  "ListModuleRuntimeUsages moduleID =
     listModuleRuntimeUsages (\<lambda>p. bindE (uuid p moduleID) (\<lambda>m. ret (\<lambda>rmu. usg_module_id rmu = Some m)))"

definition ListModuleRuntimeUsagesByModuleName ::
  "ModuleName \<Rightarrow> int \<Rightarrow> int \<Rightarrow> ModuleRuntimeUsage list io" where
  "ListModuleRuntimeUsagesByModuleName moduleName =
     listModuleRuntimeUsages (\<lambda>p. ret (\<lambda>rmu. usg_module_name rmu = moduleName))"

definition impact_rows ::
  "string \<Rightarrow> int \<Rightarrow> int \<Rightarrow> db \<Rightarrow> (usage_row \<times> deployment_row \<times> service_row) list" where
  "impact_rows v limit off d =
     limit_offset limit off
       (sort_key (\<lambda>(rmu, rd, rs). (- dpl_reported_at rd, srv_name rs, dpl_environment rd))
         (filter (\<lambda>(rmu, _). usg_module_version_id rmu = Some v) (usages_joined d)))"

text \<open>The report's id is not used.\<close>

definition ListRuntimeImpactByModuleVersion ::
  "BreakingReportID \<Rightarrow> ModuleVersionID \<Rightarrow> int \<Rightarrow> int \<Rightarrow> RuntimeImpact list io" where
  "ListRuntimeImpactByModuleVersion reportID moduleVersionID limit off =
     query_rows (\<lambda>p. bindE (uuid p moduleVersionID) (\<lambda>v. select (impact_rows v limit off)))
       scanRuntimeImpact"

section \<open>Services\<close>

definition getRuntimeService :: "(platform \<Rightarrow> service_row list sql) \<Rightarrow> RuntimeService io" where
  "getRuntimeService sql = mapErr mapError (query_row sql scanRuntimeService)"

text \<open>
  \<^verbatim>\<open>INSERT ... ON CONFLICT (name) DO UPDATE SET updated_at = EXCLUDED.updated_at RETURNING\<close> the row that
  is stored in the end.
\<close>

definition upsert_service :: "service_row \<Rightarrow> service_row list sql" where
  "upsert_service row d =
     (case first_row (filter (\<lambda>r. srv_name r = srv_name row) (db_services d)) of
        Some stored \<Rightarrow>
          (Inr [stored\<lparr>srv_updated_at := srv_updated_at row\<rparr>],
           db_services_update (map (\<lambda>r. if srv_name r = srv_name row
             then r\<lparr>srv_updated_at := srv_updated_at row\<rparr> else r)) d)
      | None \<Rightarrow>
          bindE (insert_into db_services db_services_update (\<lambda>r s. srv_id r = srv_id s) (\<lambda>d. True) row)
            (\<lambda>_. ret [row]) d)"

definition UpsertRuntimeServiceByName :: "RuntimeService \<Rightarrow> RuntimeService io" where
  "UpsertRuntimeServiceByName service =
     bindE (timeOrNow (Service_CreatedAt service)) (\<lambda>createdAt.
     bindE (timeOrNow (Service_UpdatedAt service)) (\<lambda>updatedAt.
       getRuntimeService (\<lambda>p. bindE (uuid p (Service_ID service)) (\<lambda>u.
         upsert_service \<lparr>srv_id = u, srv_name = Service_Name service, srv_created_at = createdAt,
           srv_updated_at = updatedAt\<rparr>))))"

definition GetRuntimeServiceByName :: "RuntimeServiceName \<Rightarrow> RuntimeService io" where
  "GetRuntimeServiceByName serviceName =
     getRuntimeService (\<lambda>p. select (\<lambda>d. filter (\<lambda>r. srv_name r = serviceName) (db_services d)))"

section \<open>Writing\<close>

definition CreateRuntimeDeployment :: "RuntimeDeployment \<Rightarrow> unit io" where
  "CreateRuntimeDeployment deployment =
     bindE (timeOrNow (Deployment_CreatedAt deployment)) (\<lambda>createdAt.
       stmt (\<lambda>p. bindE (uuid p (Deployment_ID deployment)) (\<lambda>u.
         bindE (uuid p (Deployment_ServiceID deployment)) (\<lambda>s.
         insert_into db_deployments db_deployments_update (\<lambda>r t. dpl_id r = dpl_id t)
           (\<lambda>d. has_id srv_id (db_services d) s)
           \<lparr>dpl_id = u, dpl_service_id = s, dpl_environment = Deployment_Environment deployment,
             dpl_git_commit = Deployment_GitCommit deployment,
             dpl_build_version = Deployment_BuildVersion deployment,
             dpl_reported_at = Deployment_ReportedAt deployment, dpl_created_at = createdAt\<rparr>))))"

definition createRuntimeModuleUsage :: "RuntimeModuleUsage \<Rightarrow> unit io" where
  "createRuntimeModuleUsage usage =
     bindE (timeOrNow (Usage_CreatedAt usage)) (\<lambda>createdAt.
       stmt (\<lambda>p. bindE (uuid p (Usage_ID usage)) (\<lambda>u.
         bindE (uuid p (Usage_DeploymentID usage)) (\<lambda>dep.
         bindE (nullable_uuid p (Usage_ModuleID usage)) (\<lambda>m.
         bindE (nullable_uuid p (Usage_ModuleVersionID usage)) (\<lambda>v.
         insert_into db_usages db_usages_update (\<lambda>r s. usg_id r = usg_id s)
           (\<lambda>d. has_id dpl_id (db_deployments d) dep \<and> has_opt_id mod_id (db_modules d) m
              \<and> has_opt_id ver_id (db_versions d) v)
           \<lparr>usg_id = u, usg_deployment_id = dep, usg_module_id = m,
             usg_module_name = Usage_ModuleName usage, usg_module_version_id = v,
             usg_version = Usage_Version usage,
             usg_drift_status = RuntimeDriftStatus_String (Usage_DriftStatus usage),
             usg_drift_reason = Usage_DriftReason usage, usg_created_at = createdAt\<rparr>))))))"

definition CreateRuntimeModuleUsages :: "RuntimeModuleUsage list \<Rightarrow> unit io" where
  "CreateRuntimeModuleUsages usages = WithinTransaction (forE usages createRuntimeModuleUsage)"

section \<open>Summaries\<close>

text \<open>The two common table expressions of \<^verbatim>\<open>ListRuntimeServices\<close>.\<close>

definition latest_deployments :: "db \<Rightarrow> deployment_row list" where
  "latest_deployments d =
     first_by (\<lambda>r. (dpl_service_id r, dpl_environment r)) {}
       (sort_key (\<lambda>r. (dpl_service_id r, dpl_environment r, - dpl_reported_at r, - dpl_created_at r))
         (db_deployments d))"

definition service_summary ::
  "db \<Rightarrow> service_row \<Rightarrow> service_row \<times> string list \<times> nat \<times> (RuntimeDriftStatus \<Rightarrow> nat) \<times> time option" where
  "service_summary d rs =
     (let deployments = filter (\<lambda>r. dpl_service_id r = srv_id rs) (db_deployments d);
          latest = filter (\<lambda>r. dpl_service_id r = srv_id rs) (latest_deployments d);
          usages = concat (map (\<lambda>ld. filter (\<lambda>rmu. usg_deployment_id rmu = dpl_id ld) (db_usages d)) latest)
      in (rs, sorted_list_of_set (dpl_environment ` set latest), length deployments,
          (\<lambda>status. length (filter (\<lambda>rmu. usg_drift_status rmu = RuntimeDriftStatus_String status) usages)),
          (if deployments = [] then None else Some (Max (dpl_reported_at ` set deployments)))))"

definition scanRuntimeServiceSummary ::
  "service_row \<times> string list \<times> nat \<times> (RuntimeDriftStatus \<Rightarrow> nat) \<times> time option
   \<Rightarrow> goerr + RuntimeServiceSummary" where
  "scanRuntimeServiceSummary row =
     (case row of (r, environmentValues, deploymentCount, driftCount, latestReportedAt) \<Rightarrow>
        bindR (scanRuntimeService r) (\<lambda>service.
        bindR (traverse NewRuntimeEnvironment environmentValues) (\<lambda>environments.
          Inr \<lparr>Summary_Service = service, Summary_Environments = environments,
            Summary_EnvironmentCount = length environmentValues,
            Summary_DeploymentCount = deploymentCount,
            Summary_UpToDateCount = driftCount RuntimeDriftStatusUpToDate,
            Summary_BehindLatestCount = driftCount RuntimeDriftStatusBehindLatest,
            Summary_UnknownVersionCount = driftCount RuntimeDriftStatusUnknownVersion,
            Summary_DeprecatedCount = driftCount RuntimeDriftStatusDeprecatedVersion,
            Summary_LatestReportedAt = latestReportedAt\<rparr>)))"

definition ListRuntimeServices :: "int \<Rightarrow> int \<Rightarrow> RuntimeServiceSummary list io" where
  "ListRuntimeServices limit off =
     query_rows (\<lambda>p. select (\<lambda>d.
         limit_offset limit off (map (service_summary d) (sort_key srv_name (db_services d)))))
       scanRuntimeServiceSummary"

definition deploymentUsages :: "RuntimeDeployment list \<Rightarrow> RuntimeModuleUsage list io" where
  "deploymentUsages deployments =
     bindE (collectE deployments (\<lambda>deployment.
       ListRuntimeModuleUsagesByDeployment (Deployment_ID deployment))) (\<lambda>usages. ret (concat usages))"

definition Repo_GetRuntimeServiceDetails :: "RuntimeServiceName \<Rightarrow> RuntimeServiceDetails io" where
  "Repo_GetRuntimeServiceDetails serviceName =
     bindE (GetRuntimeServiceByName serviceName) (\<lambda>service.
     bindE (ListRuntimeDeploymentsByService (Service_ID service) 1000 0) (\<lambda>deployments.
     bindE (deploymentUsages deployments) (\<lambda>usages.
       ret \<lparr>RtDetails_Service = service, RtDetails_Deployments = deployments,
         RtDetails_Usages = usages\<rparr>)))"

definition ListRuntimeEnvironmentInventory ::
  "RuntimeEnvironment \<Rightarrow> int \<Rightarrow> int \<Rightarrow> RuntimeEnvironmentInventory io" where
  "ListRuntimeEnvironmentInventory environment limit off =
     bindE (listRuntimeDeployments (\<lambda>p. ret (\<lambda>rows.
       limit_offset limit off
         (sort_key (\<lambda>(rd, rs). (- dpl_reported_at rd, - dpl_created_at rd))
           (filter (\<lambda>(rd, rs). dpl_environment rd = environment) rows))))) (\<lambda>deployments.
     bindE (deploymentUsages deployments) (\<lambda>usages.
       ret \<lparr>Inventory_Environment = environment, Inventory_Deployments = deployments,
         Inventory_Usages = usages\<rparr>))"

end
