(* ===== verification/Runtime_Service.thy ===== *)
theory Runtime_Service
  imports Repo_Runtime Approval_Service
begin

text \<open>
  The runtime inventory's use cases, \<^verbatim>\<open>internal/usecase/runtimeinventory/service.go\<close>: a deployment
  reports the module versions it contains, each of which is compared with the registry; and the event
  of \<^verbatim>\<open>runtime_inventory_reported.go\<close>.
\<close>

section \<open>Inputs and outputs\<close>

record ReportedModuleInput =
  Reported_Module :: string
  Reported_Version :: string

record ReportRuntimeInventoryInput =
  Inv_ServiceName :: string
  Inv_Environment :: string
  Inv_GitCommit :: string
  Inv_BuildVersion :: string
  Inv_ReportedAt :: "time option"
  Inv_Modules :: "ReportedModuleInput list"

record RuntimeModuleUsageOutput =
  UsageOut_Module :: string
  UsageOut_Version :: string
  UsageOut_LatestVersion :: string
  UsageOut_DriftStatus :: RuntimeDriftStatus
  UsageOut_DriftReason :: string

record DriftCounts =
  Drift_UpToDate :: nat
  Drift_BehindLatest :: nat
  Drift_UnknownVersion :: nat
  Drift_DeprecatedVersion :: nat

record ReportRuntimeInventoryOutput =
  InvOut_DeploymentID :: string
  InvOut_ServiceName :: string
  InvOut_Environment :: string
  InvOut_GitCommit :: string
  InvOut_BuildVersion :: string
  InvOut_ReportedAt :: time
  InvOut_Usages :: "RuntimeModuleUsageOutput list"
  InvOut_DriftCounts :: DriftCounts

fun DriftCounts_Add :: "RuntimeDriftStatus \<Rightarrow> DriftCounts \<Rightarrow> DriftCounts" where
  "DriftCounts_Add RuntimeDriftStatusUpToDate c = c\<lparr>Drift_UpToDate := Suc (Drift_UpToDate c)\<rparr>"
| "DriftCounts_Add RuntimeDriftStatusBehindLatest c =
     c\<lparr>Drift_BehindLatest := Suc (Drift_BehindLatest c)\<rparr>"
| "DriftCounts_Add RuntimeDriftStatusUnknownVersion c =
     c\<lparr>Drift_UnknownVersion := Suc (Drift_UnknownVersion c)\<rparr>"
| "DriftCounts_Add RuntimeDriftStatusDeprecatedVersion c =
     c\<lparr>Drift_DeprecatedVersion := Suc (Drift_DeprecatedVersion c)\<rparr>"

definition zero_counts :: DriftCounts where
  "zero_counts = \<lparr>Drift_UpToDate = 0, Drift_BehindLatest = 0, Drift_UnknownVersion = 0,
     Drift_DeprecatedVersion = 0\<rparr>"

definition ParseModuleVersionReference :: "string \<Rightarrow> goerr + (string \<times> string)" where
  "ParseModuleVersionReference value =
     (let reference = TrimSpace value;
          invalid = Inl (Runtime RtErrInvalidModuleVersionReference)
      in if reference = '''' then invalid
         else case Cut reference (CHR ''@'') of
           None \<Rightarrow> invalid
         | Some (module, version) \<Rightarrow>
             if CHR ''@'' \<in> set version then invalid
             else if TrimSpace module = '''' \<or> TrimSpace version = '''' then invalid
             else Inr (TrimSpace module, TrimSpace version))"

section \<open>The event\<close>

definition NewRuntimeInventoryReported ::
  "RuntimeDeployment \<Rightarrow> RuntimeService \<Rightarrow> nat \<Rightarrow> DriftCounts \<Rightarrow> time \<Rightarrow> Record" where
  "NewRuntimeInventoryReported deployment service moduleUsageCount counts occurredAt =
     new_record ''runtime_deployment'' (Deployment_ID deployment)
       ''protoradar.runtime_inventory.reported''
       (''runtime-deployment:'' @ Deployment_ID deployment @ '':reported'')
       (JObject [(''deployment_id'', JString (Deployment_ID deployment)),
          (''service_id'', JString (Service_ID service)),
          (''service_name'', JString (Service_Name service)),
          (''environment'', JString (Deployment_Environment deployment)),
          (''git_commit'', JString (Deployment_GitCommit deployment)),
          (''build_version'', JString (Deployment_BuildVersion deployment)),
          (''module_usage_count'', JInt (int moduleUsageCount)),
          (''drift_counts'', JObject
            [(''up_to_date'', JInt (int (Drift_UpToDate counts))),
             (''behind_latest'', JInt (int (Drift_BehindLatest counts))),
             (''unknown_version'', JInt (int (Drift_UnknownVersion counts))),
             (''deprecated_version'', JInt (int (Drift_DeprecatedVersion counts)))]),
          (''occurred_at'', JTime occurredAt)])
       occurredAt"

section \<open>What was reported\<close>

text \<open>The loop of \<^verbatim>\<open>reportedModuleReferences\<close>, with the references seen so far.\<close>

fun collectReferences ::
  "(string \<times> string) set \<Rightarrow> ReportedModuleInput list \<Rightarrow> goerr + (ModuleName \<times> Version) list" where
  "collectReferences seen [] = Inr []"
| "collectReferences seen (input # inputs) =
     bindR (NewModuleName (Reported_Module input)) (\<lambda>moduleName.
     bindR (NewVersion (Reported_Version input)) (\<lambda>version.
       if (moduleName, version) \<in> seen then collectReferences seen inputs
       else bindR (collectReferences (insert (moduleName, version) seen) inputs) (\<lambda>refs.
         Inr ((moduleName, version) # refs))))"

definition reportedModuleReferences ::
  "ReportedModuleInput list \<Rightarrow> goerr + (ModuleName \<times> Version) list" where
  "reportedModuleReferences inputs =
     (if inputs = [] then Inl (Runtime RtErrRuntimeModulesRequired)
      else bindR (collectReferences {} inputs) (\<lambda>refs.
        if refs = [] then Inl (Runtime RtErrRuntimeModulesRequired) else Inr refs))"

section \<open>Drift\<close>

definition DriftReasonUpToDate :: string where "DriftReasonUpToDate = ''up_to_date''"
definition DriftReasonModuleNotFound :: string where "DriftReasonModuleNotFound = ''module_not_found''"
definition DriftReasonVersionNotFound :: string where "DriftReasonVersionNotFound = ''version_not_found''"
definition DriftReasonBehindLatest :: string where "DriftReasonBehindLatest = ''behind_latest''"
definition DriftReasonDeprecated :: string where "DriftReasonDeprecated = ''deprecated_version''"

definition unresolved_usage :: "ModuleName \<Rightarrow> Version \<Rightarrow> RuntimeModuleUsage" where
  "unresolved_usage moduleName version =
     \<lparr>Usage_ID = '''', Usage_DeploymentID = '''', Usage_ModuleID = None, Usage_ModuleName = moduleName,
      Usage_ModuleVersionID = None, Usage_Version = version, Usage_LatestVersion = None,
      Usage_DriftStatus = RuntimeDriftStatusUnknownVersion,
      Usage_DriftReason = DriftReasonModuleNotFound, Usage_CreatedAt = 0\<rparr>"

text \<open>\<^verbatim>\<open>x, err := m; if err != nil && !errors.Is(err, domain.ErrNotFound) { return err }\<close>.\<close>

definition optionally :: "'a io \<Rightarrow> 'a option io" where
  "optionally m =
     catchE (bindE m (\<lambda>x. ret (Some x)))
       (\<lambda>err. if errors_Is err (Domain ErrNotFound) then ret None else raise err)"

text \<open>
  The classification at the end of \<^verbatim>\<open>resolveRuntimeUsage\<close>; without a latest version \<^verbatim>\<open>latest\<close> is the zero
  value.
\<close>

definition classifyUsage ::
  "ModuleVersion \<Rightarrow> ModuleVersion option \<Rightarrow> RuntimeModuleUsage \<Rightarrow> RuntimeModuleUsage" where
  "classifyUsage moduleVersion latest usage =
     (let latestID = (case latest of None \<Rightarrow> '''' | Some l \<Rightarrow> Version_ID l);
          latestVersion = (case latest of None \<Rightarrow> '''' | Some l \<Rightarrow> Version_Version l)
      in if IsDeprecated moduleVersion
         then usage\<lparr>Usage_DriftStatus := RuntimeDriftStatusDeprecatedVersion,
                Usage_DriftReason := DriftReasonDeprecated\<rparr>
         else if latestID = Version_ID moduleVersion \<or> latestVersion = Version_Version moduleVersion
         then usage\<lparr>Usage_DriftStatus := RuntimeDriftStatusUpToDate,
                Usage_DriftReason := DriftReasonUpToDate\<rparr>
         else usage\<lparr>Usage_DriftStatus := RuntimeDriftStatusBehindLatest,
                Usage_DriftReason := (case Usage_LatestVersion usage of
                    Some v \<Rightarrow> DriftReasonBehindLatest @ '': latest version is '' @ v
                  | None \<Rightarrow> DriftReasonBehindLatest)\<rparr>)"

definition resolveRuntimeUsage :: "ModuleName \<times> Version \<Rightarrow> RuntimeModuleUsage io" where
  "resolveRuntimeUsage ref =
     (case ref of (moduleName, version) \<Rightarrow>
        let usage = unresolved_usage moduleName version in
        bindE (optionally (ModuleRepo_GetByName moduleName)) (\<lambda>found.
          case found of
            None \<Rightarrow> ret usage
          | Some module \<Rightarrow>
              let usage = usage\<lparr>Usage_ModuleID := Some (Module_ID module)\<rparr> in
              bindE (optionally (VersionRepo_GetByModuleAndVersion (Module_ID module) version)) (\<lambda>found.
                case found of
                  None \<Rightarrow> ret (usage\<lparr>Usage_DriftReason := DriftReasonVersionNotFound\<rparr>)
                | Some moduleVersion \<Rightarrow>
                    let usage = usage\<lparr>Usage_ModuleVersionID := Some (Version_ID moduleVersion)\<rparr> in
                    bindE (optionally (VersionRepo_GetLatestByModule (Module_ID module))) (\<lambda>latest.
                      ret (classifyUsage moduleVersion latest
                        (usage\<lparr>Usage_LatestVersion := map_option Version_Version latest\<rparr>))))))"

definition runtimeUsageOutput :: "RuntimeModuleUsage \<Rightarrow> RuntimeModuleUsageOutput" where
  "runtimeUsageOutput usage =
     \<lparr>UsageOut_Module = Usage_ModuleName usage, UsageOut_Version = Usage_Version usage,
      UsageOut_LatestVersion = (case Usage_LatestVersion usage of None \<Rightarrow> '''' | Some v \<Rightarrow> v),
      UsageOut_DriftStatus = Usage_DriftStatus usage, UsageOut_DriftReason = Usage_DriftReason usage\<rparr>"

section \<open>Reporting\<close>

definition resolveReported ::
  "RuntimeDeploymentID \<Rightarrow> time \<Rightarrow> ModuleName \<times> Version \<Rightarrow> RuntimeModuleUsage io" where
  "resolveReported deploymentID reportedAt ref =
     bindE (resolveRuntimeUsage ref) (\<lambda>usage.
     bindE NewRandomID (\<lambda>usageID.
       ret (usage\<lparr>Usage_ID := usageID, Usage_DeploymentID := deploymentID,
              Usage_CreatedAt := reportedAt\<rparr>)))"

definition storeReported ::
  "RuntimeService \<Rightarrow> RuntimeDeployment \<Rightarrow> RuntimeModuleUsage list \<Rightarrow> DriftCounts \<Rightarrow> time \<Rightarrow> unit io" where
  "storeReported service deployment usages counts reportedAt =
     WithinTransaction
       (bindE (UpsertRuntimeServiceByName service) (\<lambda>storedService.
          let deployment = deployment\<lparr>Deployment_ServiceID := Service_ID storedService,
                Deployment_ServiceName := Service_Name storedService\<rparr>
          in bindE (CreateRuntimeDeployment deployment) (\<lambda>_.
             bindE (CreateRuntimeModuleUsages usages) (\<lambda>_.
               Outbox_Create (NewRuntimeInventoryReported deployment storedService (length usages)
                 counts reportedAt)))))"

definition ReportRuntimeInventory ::
  "ReportRuntimeInventoryInput \<Rightarrow> ReportRuntimeInventoryOutput io" where
  "ReportRuntimeInventory input =
     bindE (liftE (NewRuntimeServiceName (Inv_ServiceName input))) (\<lambda>serviceName.
     bindE (liftE (NewRuntimeEnvironment (Inv_Environment input))) (\<lambda>environment.
       let gitCommit = TrimSpace (Inv_GitCommit input);
           buildVersion = TrimSpace (Inv_BuildVersion input)
       in
       bindE (liftE (ValidateRuntimeGitCommit gitCommit)) (\<lambda>_.
       bindE (liftE (ValidateRuntimeBuildVersion buildVersion)) (\<lambda>_.
       bindE clock_now (\<lambda>now.
         let reportedAt = (case Inv_ReportedAt input of None \<Rightarrow> now | Some t \<Rightarrow> t) in
         bindE (liftE (reportedModuleReferences (Inv_Modules input))) (\<lambda>references.
         bindE NewRandomID (\<lambda>serviceID.
         bindE NewRandomID (\<lambda>deploymentID.
         bindE (collectE references (resolveReported deploymentID reportedAt)) (\<lambda>usages.
           let counts = fold (\<lambda>usage. DriftCounts_Add (Usage_DriftStatus usage)) usages zero_counts;
               deployment = \<lparr>Deployment_ID = deploymentID, Deployment_ServiceID = serviceID,
                 Deployment_ServiceName = serviceName, Deployment_Environment = environment,
                 Deployment_GitCommit = gitCommit, Deployment_BuildVersion = buildVersion,
                 Deployment_ReportedAt = reportedAt, Deployment_CreatedAt = reportedAt\<rparr>;
               service = \<lparr>Service_ID = serviceID, Service_Name = serviceName,
                 Service_CreatedAt = reportedAt, Service_UpdatedAt = reportedAt\<rparr>
           in bindE (storeReported service deployment usages counts reportedAt) (\<lambda>_.
              ret \<lparr>InvOut_DeploymentID = deploymentID, InvOut_ServiceName = serviceName,
                InvOut_Environment = environment, InvOut_GitCommit = gitCommit,
                InvOut_BuildVersion = buildVersion, InvOut_ReportedAt = reportedAt,
                InvOut_Usages = map runtimeUsageOutput usages, InvOut_DriftCounts = counts\<rparr>))))))))))"

section \<open>Queries\<close>

definition GetRuntimeServiceDetails :: "string \<Rightarrow> RuntimeServiceDetails io" where
  "GetRuntimeServiceDetails serviceNameValue =
     bindE (liftE (NewRuntimeServiceName serviceNameValue)) Repo_GetRuntimeServiceDetails"

definition GetEnvironmentInventory :: "string \<Rightarrow> int \<Rightarrow> int \<Rightarrow> RuntimeEnvironmentInventory io" where
  "GetEnvironmentInventory environmentValue limit off =
     bindE (liftE (NewRuntimeEnvironment environmentValue)) (\<lambda>environment.
       ListRuntimeEnvironmentInventory environment limit off)"

definition GetModuleRuntimeUsages :: "string \<Rightarrow> int \<Rightarrow> int \<Rightarrow> ModuleRuntimeUsage list io" where
  "GetModuleRuntimeUsages moduleNameValue limit off =
     bindE (liftE (NewModuleName moduleNameValue)) (\<lambda>moduleName.
     bindE (optionally (ModuleRepo_GetByName moduleName)) (\<lambda>found.
       case found of
         None \<Rightarrow> ListModuleRuntimeUsagesByModuleName moduleName limit off
       | Some module \<Rightarrow> ListModuleRuntimeUsages (Module_ID module) limit off))"

definition GetBreakingReportRuntimeImpact ::
  "BreakingReportID \<Rightarrow> int \<Rightarrow> int \<Rightarrow> RuntimeImpact list io" where
  "GetBreakingReportRuntimeImpact reportID limit off =
     bindE (ReportRepo_GetByID reportID) (\<lambda>(report, _).
       ListRuntimeImpactByModuleVersion (Report_ID report) (Report_BaseVersionID report) limit off)"

end
