(* ===== verification/Runtime_Effects.thy ===== *)
theory Runtime_Effects
  imports Runtime_Service Registry_Reads Dependency_Effects
begin

text \<open>
  What the steps of the runtime inventory do: resolving a reported version only reads, and the
  transaction of a report appends to its tables.
\<close>

section \<open>Reading\<close>

lemma liftE_Inr: "liftE r w = (Inr x, w') \<longleftrightarrow> r = Inr x \<and> w' = w"
  by (auto simp: liftE_def)

lemma optionally_Some: "optionally m w = (Inr (Some x), w') \<Longrightarrow> m w = (Inr x, w')"
  by (auto simp: optionally_def catchE_Inr bindE_Inr bindE_Inl split: if_splits)

lemma optionally_None:
  "optionally m w = (Inr None, w') \<Longrightarrow> \<exists>e. m w = (Inl e, w') \<and> errors_Is e (Domain ErrNotFound)"
  by (auto simp: optionally_def catchE_Inr bindE_Inr bindE_Inl split: if_splits)

lemma lookup_version_still:
  "steps still (ModuleRepo_GetByName name)"
  "steps still (VersionRepo_GetByModuleAndVersion mid version)"
  "steps still (VersionRepo_GetLatestByModule mid)"
  unfolding ModuleRepo_GetByName_def VersionRepo_GetByModuleAndVersion_def VersionRepo_getOne_def
    VersionRepo_GetLatestByModule_def
  by (intro still_rules; auto simp: bindE_Inr)+

lemma optionally_still: "steps still m \<Longrightarrow> steps still (optionally m)"
  unfolding optionally_def by (intro still_rules)

lemma resolve_usage_still: "steps still (resolveRuntimeUsage ref)"
  unfolding resolveRuntimeUsage_def Let_def
  by (intro still_rules optionally_still lookup_version_still)

lemma resolved_still: "steps still (resolveReported deploymentID reportedAt ref)"
  unfolding resolveReported_def by (intro still_rules resolve_usage_still NewRandomID_still)

lemma runtime_queries_still:
  "steps still (ListRuntimeImpactByModuleVersion rid vid limit off)"
  unfolding ListRuntimeImpactByModuleVersion_def
  by (intro still_rules; auto simp: bindE_Inr)

section \<open>Writing\<close>

lemma upsert_service_Inr:
  assumes "upsert_service row d = (Inr rows, d')"
  shows "\<exists>stored services. rows = [stored] \<and> d' = db_services_update (\<lambda>_. services) d
    \<and> stored \<in> set services \<and> srv_name stored = srv_name row
    \<and> (\<forall>r' \<in> set services. srv_id r' = srv_id row \<or> (\<exists>r \<in> set (db_services d). srv_id r' = srv_id r))"
proof (cases "first_row (filter (\<lambda>r. srv_name r = srv_name row) (db_services d))")
  case None
  with assms have "rows = [row]" "d' = db_services_update (\<lambda>rs. rs @ [row]) d"
    by (auto simp: upsert_service_def bindE_Inr)
  then show ?thesis
    by (intro exI [of _ row] exI [of _ "db_services d @ [row]"]) auto
next
  case (Some stored)
  let ?f = "\<lambda>r. if srv_name r = srv_name row then r\<lparr>srv_updated_at := srv_updated_at row\<rparr> else r"
  from Some assms have rows: "rows = [?f stored]" "d' = db_services_update (map ?f) d"
    and stored: "stored \<in> set (db_services d)" "srv_name stored = srv_name row"
    by (auto simp: upsert_service_def dest!: first_row_in)
  then show ?thesis
    by (intro exI [of _ "?f stored"] exI [of _ "map ?f (db_services d)"]) (auto simp: image_iff)
qed

lemma time_env: "steps same_env (timeOrNow t)"
  unfolding timeOrNow_def by (intro env_rules)

lemma UpsertRuntimeService_Inr:
  assumes "UpsertRuntimeServiceByName service w = (Inr s, w')"
  obtains stored services where "w_db w' = db_services_update (\<lambda>_. services) (w_db w)"
    and "stored \<in> set services" and "srv_name stored = Service_Name service"
    and "scanRuntimeService stored = Inr s" and "same_env w w'"
    and "p_uuid (w_platform w) (Service_ID service) \<noteq> None"
    and "\<forall>r' \<in> set services. p_uuid (w_platform w) (Service_ID service) = Some (srv_id r')
           \<or> (\<exists>r \<in> set (db_services (w_db w)). srv_id r' = srv_id r)"
proof -
  from assms obtain createdAt updatedAt w1 w2 where t1: "timeOrNow (Service_CreatedAt service) w = (Inr createdAt, w1)"
    and t2: "timeOrNow (Service_UpdatedAt service) w1 = (Inr updatedAt, w2)"
    and q: "query_row (\<lambda>p. bindE (uuid p (Service_ID service)) (\<lambda>u.
         upsert_service \<lparr>srv_id = u, srv_name = Service_Name service, srv_created_at = createdAt,
           srv_updated_at = updatedAt\<rparr>)) scanRuntimeService w2 = (Inr s, w')"
    unfolding UpsertRuntimeServiceByName_def getRuntimeService_def by (auto simp: bindE_Inr)
  have w2: "w_db w2 = w_db w" "same_env w w2"
    using timeOrNow_Inr [OF t1] timeOrNow_Inr [OF t2] stepsD [OF time_env t1] stepsD [OF time_env t2]
    by (auto intro: env.step_trans)
  have env: "same_env w w'" using w2(2) stepsD [OF env_query_row q] by (rule env.step_trans)
  from q obtain r rs u d1 where "w_db w' = d1"
    and u: "p_uuid (w_platform w2) (Service_ID service) = Some u"
    and ups: "upsert_service \<lparr>srv_id = u, srv_name = Service_Name service, srv_created_at = createdAt,
           srv_updated_at = updatedAt\<rparr> (w_db w2) = (Inr (r # rs), d1)"
    and "scanRuntimeService r = Inr s"
    unfolding query_row_def by (auto simp: bindE_Inr stmt_Inr first_row)
  with upsert_service_Inr [OF ups] w2 env u show ?thesis
    by (auto simp: same_env_def intro!: that)
qed

lemma CreateRuntimeDeployment_Inr:
  assumes "CreateRuntimeDeployment deployment w = (Inr u, w')"
  obtains dep where "w_db w' = db_deployments_update (\<lambda>rs. rs @ [dep]) (w_db w)" and "same_env w w'"
    and "p_uuid (w_platform w) (Deployment_ID deployment) = Some (dpl_id dep)"
    and "p_uuid (w_platform w) (Deployment_ServiceID deployment) = Some (dpl_service_id dep)"
    and "dpl_environment dep = Deployment_Environment deployment"
    and "dpl_reported_at dep = Deployment_ReportedAt deployment"
    and "dpl_id dep \<notin> dpl_id ` set (db_deployments (w_db w))"
proof -
  have "steps same_env (CreateRuntimeDeployment deployment)"
    unfolding CreateRuntimeDeployment_def by (intro env_rules time_env)
  from stepsD [OF this assms] have "same_env w w'" .
  then show ?thesis
    using assms that
    by (fastforce simp: CreateRuntimeDeployment_def sql_Inr list_ex_iff dest!: timeOrNow_Inr)
qed

definition usage_stored :: "platform \<Rightarrow> RuntimeModuleUsage \<Rightarrow> usage_row \<Rightarrow> bool" where
  "usage_stored p usage r \<longleftrightarrow>
     p_uuid p (Usage_DeploymentID usage) = Some (usg_deployment_id r)
     \<and> (case Usage_ModuleVersionID usage of None \<Rightarrow> usg_module_version_id r = None
        | Some v \<Rightarrow> \<exists>u. p_uuid p v = Some u \<and> usg_module_version_id r = Some u)
     \<and> usg_module_name r = Usage_ModuleName usage \<and> usg_version r = Usage_Version usage
     \<and> usg_drift_status r = RuntimeDriftStatus_String (Usage_DriftStatus usage)
     \<and> usg_drift_reason r = Usage_DriftReason usage"

lemma createUsage_Inr:
  assumes "createRuntimeModuleUsage usage w = (Inr u, w')"
  shows "\<exists>row. w_db w' = db_usages_update (\<lambda>rs. rs @ [row]) (w_db w) \<and> usage_stored (w_platform w) usage row"
proof -
  from assms obtain createdAt and w1 :: world and i dep m v where "w_db w1 = w_db w" "w_platform w1 = w_platform w"
    and ids: "p_uuid (w_platform w1) (Usage_ID usage) = Some i"
      "p_uuid (w_platform w1) (Usage_DeploymentID usage) = Some dep"
      "case Usage_ModuleVersionID usage of None \<Rightarrow> v = None
         | Some s \<Rightarrow> \<exists>u. p_uuid (w_platform w1) s = Some u \<and> v = Some u"
    and "w_db w' = db_usages_update (\<lambda>rows. rows @ [\<lparr>usg_id = i, usg_deployment_id = dep,
             usg_module_id = m, usg_module_name = Usage_ModuleName usage, usg_module_version_id = v,
             usg_version = Usage_Version usage,
             usg_drift_status = RuntimeDriftStatus_String (Usage_DriftStatus usage),
             usg_drift_reason = Usage_DriftReason usage, usg_created_at = createdAt\<rparr>]) (w_db w1)"
    unfolding createRuntimeModuleUsage_def
  proof (elim bindE_InrE)
    fix t w2
    assume t: "timeOrNow (Usage_CreatedAt usage) w = (Inr t, w2)"
    assume "stmt (\<lambda>p. bindE (uuid p (Usage_ID usage)) (\<lambda>u.
         bindE (uuid p (Usage_DeploymentID usage)) (\<lambda>dep.
         bindE (nullable_uuid p (Usage_ModuleID usage)) (\<lambda>m.
         bindE (nullable_uuid p (Usage_ModuleVersionID usage)) (\<lambda>v.
         insert_into db_usages db_usages_update (\<lambda>r s. usg_id r = usg_id s)
           (\<lambda>d. has_id dpl_id (db_deployments d) dep \<and> has_opt_id mod_id (db_modules d) m
              \<and> has_opt_id ver_id (db_versions d) v)
           \<lparr>usg_id = u, usg_deployment_id = dep, usg_module_id = m,
             usg_module_name = Usage_ModuleName usage, usg_module_version_id = v,
             usg_version = Usage_Version usage,
             usg_drift_status = RuntimeDriftStatus_String (Usage_DriftStatus usage),
             usg_drift_reason = Usage_DriftReason usage, usg_created_at = t\<rparr>))))) w2 = (Inr u, w')"
    then obtain i dep m v where "p_uuid (w_platform w2) (Usage_ID usage) = Some i"
      "p_uuid (w_platform w2) (Usage_DeploymentID usage) = Some dep"
      "case Usage_ModuleVersionID usage of None \<Rightarrow> v = None
         | Some s \<Rightarrow> \<exists>u. p_uuid (w_platform w2) s = Some u \<and> v = Some u"
      "w_db w' = db_usages_update (\<lambda>rows. rows @ [\<lparr>usg_id = i, usg_deployment_id = dep,
             usg_module_id = m, usg_module_name = Usage_ModuleName usage, usg_module_version_id = v,
             usg_version = Usage_Version usage,
             usg_drift_status = RuntimeDriftStatus_String (Usage_DriftStatus usage),
             usg_drift_reason = Usage_DriftReason usage, usg_created_at = t\<rparr>]) (w_db w2)"
      unfolding stmt_Inr by (auto simp: bindE_Inr)
    with timeOrNow_Inr [OF t] show ?thesis by (intro that [of w2 i dep v m t]) simp_all
  qed
  then show ?thesis
    by (intro exI [of _ "\<lparr>usg_id = i, usg_deployment_id = dep,
             usg_module_id = m, usg_module_name = Usage_ModuleName usage, usg_module_version_id = v,
             usg_version = Usage_Version usage,
             usg_drift_status = RuntimeDriftStatus_String (Usage_DriftStatus usage),
             usg_drift_reason = Usage_DriftReason usage, usg_created_at = createdAt\<rparr>"])
      (simp add: usage_stored_def split: option.splits)
qed

lemma createUsage_env: "steps same_env (createRuntimeModuleUsage usage)"
  unfolding createRuntimeModuleUsage_def by (intro env_rules time_env)

definition reported_db ::
  "service_row list \<Rightarrow> deployment_row \<Rightarrow> usage_row list \<Rightarrow> outbox_row \<Rightarrow> db \<Rightarrow> db" where
  "reported_db services dep rows event d =
     d\<lparr>db_services := services, db_deployments := db_deployments d @ [dep],
       db_usages := db_usages d @ rows, db_outbox := db_outbox d @ [event],
       db_generated := Suc (db_generated d)\<rparr>"

lemma reported_db_simps [simp]:
  "db_modules (reported_db services dep rows event d) = db_modules d"
  "db_versions (reported_db services dep rows event d) = db_versions d"
  "db_reports (reported_db services dep rows event d) = db_reports d"
  "db_dependencies (reported_db services dep rows event d) = db_dependencies d"
  "db_usages (reported_db services dep rows event d) = db_usages d @ rows"
  by (simp_all add: reported_db_def)

lemma storeReported_Inr:
  assumes "storeReported service deployment usages counts reportedAt w = (Inr u, w')" and "\<not> w_tx w"
  obtains services stored dep rows event where
    "w_db w' = reported_db services dep rows event (w_db w)"
    and "stored \<in> set services" and "srv_name stored = Service_Name service"
    and "p_uuid (w_platform w) (NewID (srv_id stored)) = Some (dpl_service_id dep)"
    and "p_uuid (w_platform w) (Deployment_ID deployment) = Some (dpl_id dep)"
    and "dpl_environment dep = Deployment_Environment deployment"
    and "dpl_reported_at dep = Deployment_ReportedAt deployment"
    and "list_all2 (usage_stored (w_platform w)) usages rows"
    and "obx_dedup_key event = ''runtime-deployment:'' @ Deployment_ID deployment @ '':reported''"
    and "\<forall>r' \<in> set services. p_uuid (w_platform w) (Service_ID service) = Some (srv_id r')
           \<or> (\<exists>r \<in> set (db_services (w_db w)). srv_id r' = srv_id r)"
proof -
  let ?w0 = "w\<lparr>w_calls := Suc (w_calls w), w_tx := True\<rparr>"
  obtain s w1 u1 w2 u2 w3 w4 where upsert: "UpsertRuntimeServiceByName service ?w0 = (Inr s, w1)"
    and deploy: "CreateRuntimeDeployment (deployment\<lparr>Deployment_ServiceID := Service_ID s,
          Deployment_ServiceName := Service_Name s\<rparr>) w1 = (Inr u1, w2)"
    and usages: "CreateRuntimeModuleUsages usages w2 = (Inr u2, w3)"
    and event: "Outbox_Create (NewRuntimeInventoryReported (deployment\<lparr>Deployment_ServiceID := Service_ID s,
          Deployment_ServiceName := Service_Name s\<rparr>) s (length usages) counts reportedAt) w3 = (Inr (), w4)"
    and db: "w_db w' = w_db w4"
    by (rule WithinTransaction_success [OF assms(1) [unfolded storeReported_def] assms(2)])
      (auto simp: bindE_Inr Let_def intro: that)
  show ?thesis
    using upsert
  proof (rule UpsertRuntimeService_Inr)
    fix stored services
    assume services: "w_db w1 = db_services_update (\<lambda>_. services) (w_db ?w0)" "stored \<in> set services"
        "srv_name stored = Service_Name service" "scanRuntimeService stored = Inr s" "same_env ?w0 w1"
        "\<forall>r' \<in> set services. p_uuid (w_platform ?w0) (Service_ID service) = Some (srv_id r')
           \<or> (\<exists>r \<in> set (db_services (w_db ?w0)). srv_id r' = srv_id r)"
    show ?thesis
      using deploy
    proof (rule CreateRuntimeDeployment_Inr)
      fix dep
      assume dep: "w_db w2 = db_deployments_update (\<lambda>rs. rs @ [dep]) (w_db w1)" "same_env w1 w2"
        "p_uuid (w_platform w1) (Deployment_ID (deployment\<lparr>Deployment_ServiceID := Service_ID s,
            Deployment_ServiceName := Service_Name s\<rparr>)) = Some (dpl_id dep)"
        "p_uuid (w_platform w1) (Deployment_ServiceID (deployment\<lparr>Deployment_ServiceID := Service_ID s,
            Deployment_ServiceName := Service_Name s\<rparr>)) = Some (dpl_service_id dep)"
        "dpl_environment dep = Deployment_Environment (deployment\<lparr>Deployment_ServiceID := Service_ID s,
            Deployment_ServiceName := Service_Name s\<rparr>)"
        "dpl_reported_at dep = Deployment_ReportedAt (deployment\<lparr>Deployment_ServiceID := Service_ID s,
            Deployment_ServiceName := Service_Name s\<rparr>)"
      have tx: "w_tx w2" and p1: "w_platform w1 = w_platform w" and p2: "w_platform w2 = w_platform w"
        using services(5) dep(2) by (simp_all add: same_env_def)
      from usages tx have loop: "forE usages createRuntimeModuleUsage w2 = (Inr u2, w3)"
        by (simp add: CreateRuntimeModuleUsages_def WithinTransaction_nested)
      obtain rows where rows: "w_db w3 = db_usages_update (\<lambda>rs. rs @ rows) (w_db w2)"
          "list_all2 (usage_stored (w_platform w2)) usages rows"
        using forE_appends [OF loop, of db_usages_update usage_stored] createUsage_Inr createUsage_env
        by auto
      have sid: "Service_ID s = NewID (srv_id stored)"
        using services(4) by (auto simp: scanRuntimeService_def bindR_Inr)
      show ?thesis
        using event
      proof (rule Outbox_Create_Inr)
        fix oid at
        assume out: "w_db w4 = db_outbox_update (\<lambda>r. r @ [new_outbox_row oid
            (NewRuntimeInventoryReported (deployment\<lparr>Deployment_ServiceID := Service_ID s,
              Deployment_ServiceName := Service_Name s\<rparr>) s (length usages) counts reportedAt) at])
            (db_generated_update Suc (w_db w3))"
        define ev where "ev = new_outbox_row oid (NewRuntimeInventoryReported
            (deployment\<lparr>Deployment_ServiceID := Service_ID s, Deployment_ServiceName := Service_Name s\<rparr>)
            s (length usages) counts reportedAt) at"
        have "obx_dedup_key ev = ''runtime-deployment:'' @ Deployment_ID deployment @ '':reported''"
          by (simp add: ev_def new_outbox_row_def NewRuntimeInventoryReported_def new_record_def)
        moreover have "w_db w' = reported_db services dep rows ev (w_db w)"
          unfolding db out by (simp add: rows(1) dep(1) services(1) reported_db_def ev_def)
        ultimately show ?thesis
          using services(2,3,6) dep(3-6) rows(2) p1 p2 sid by (intro that [of services dep rows ev]) simp_all
      qed
    qed
  qed
qed

end
