(* ===== verification/Approval_Protocol.thy ===== *)
theory Approval_Protocol
  imports Approval_Effects Samples
begin

text \<open>
  The approval workflow as a protocol on its three tables: an abstract state machine (\<open>ledger\<close>
  states, the step relation \<open>ledger_step\<close>), the invariant of its reachable states, and the
  refinement that every run of the service in \<open>Approval_Service\<close> is a step of it. A request's
  status and its two counters are specified by one function of the requirements' statuses,
  \<open>tally\<close>; the service computes them incrementally from what it has loaded.
\<close>

section \<open>The abstract machine\<close>

definition tally :: "string list \<Rightarrow> string \<times> int \<times> int" where
  "tally ss =
     (if ss = [] then ''not_required''
      else if ''rejected'' \<in> set ss then ''rejected''
      else if list_all (\<lambda>s. s = ''approved'' \<or> s = ''not_required'') ss then ''approved''
      else ''pending'',
      int (length ss), int (length (filter (\<lambda>s. s = ''approved'') ss)))"

definition counters :: "request_row \<Rightarrow> string \<times> int \<times> int" where
  "counters q = (req_status q, req_required_approvals q, req_received_approvals q)"

definition statuses_of :: "ledger \<Rightarrow> string \<Rightarrow> string list" where
  "statuses_of L aid = map rqm_status (requirements_of (led_requirements L) aid)"

definition open_request :: "request_row \<Rightarrow> requirement_row list \<Rightarrow> ledger \<Rightarrow> ledger" where
  "open_request q rs L =
     L\<lparr>led_requests := led_requests L @ [q], led_requirements := led_requirements L @ rs\<rparr>"

definition settle :: "string \<Rightarrow> string \<Rightarrow> time \<Rightarrow> requirement_row \<Rightarrow> requirement_row" where
  "settle rid value at r =
     (if rqm_id r = rid then r\<lparr>rqm_status := value, rqm_updated_at := at\<rparr> else r)"

definition count_again :: "string \<Rightarrow> string \<times> int \<times> int \<Rightarrow> time \<Rightarrow> request_row \<Rightarrow> request_row" where
  "count_again aid totals at q =
     (if req_id q = aid
      then (case totals of (st, required, received) \<Rightarrow>
        q\<lparr>req_status := st, req_required_approvals := required, req_received_approvals := received,
          req_updated_at := at\<rparr>)
      else q)"

definition record_decision :: "decision_row \<Rightarrow> time \<Rightarrow> ledger \<Rightarrow> ledger" where
  "record_decision e at L =
     (let aid = dec_approval_request_id e;
          rs = map (settle (dec_requirement_id e) (dec_decision e) at) (led_requirements L)
      in \<lparr>led_requests = map (count_again aid (tally (map rqm_status (requirements_of rs aid))) at)
             (led_requests L),
          led_requirements = rs, led_decisions = led_decisions L @ [e]\<rparr>)"

inductive ledger_step :: "(string \<Rightarrow> string option) \<Rightarrow> ledger \<Rightarrow> ledger \<Rightarrow> bool"
  for U :: "string \<Rightarrow> string option" where
  opened:
    "fits U (req_id q) \<Longrightarrow> req_breaking_report_id q \<noteq> None \<Longrightarrow>
     \<forall>p \<in> set (led_requests L). req_id p \<noteq> req_id q
       \<and> req_breaking_report_id p \<noteq> req_breaking_report_id q \<Longrightarrow>
     \<forall>r \<in> set rs. fits U (rqm_id r) \<and> rqm_approval_request_id r = req_id q
       \<and> rqm_status r = ''pending'' \<Longrightarrow>
     distinct (map rqm_id (led_requirements L @ rs)) \<Longrightarrow>
     counters q = (if rs = [] then ''not_required'' else ''pending'', int (length rs), 0) \<Longrightarrow>
     ledger_step U L (open_request q rs L)"
| decided:
    "q \<in> set (led_requests L) \<Longrightarrow> req_status q = ''pending'' \<Longrightarrow>
     r \<in> set (led_requirements L) \<Longrightarrow> rqm_approval_request_id r = req_id q \<Longrightarrow>
     rqm_status r = ''pending'' \<Longrightarrow>
     dec_approval_request_id e = req_id q \<Longrightarrow> dec_requirement_id e = rqm_id r \<Longrightarrow>
     dec_decision e \<in> {''approved'', ''rejected''} \<Longrightarrow>
     \<forall>f \<in> set (led_decisions L). dec_id f \<noteq> dec_id e \<and> dec_requirement_id f \<noteq> rqm_id r \<Longrightarrow>
     ledger_step U L (record_decision e at L)"

inductive ledger_reachable :: "(string \<Rightarrow> string option) \<Rightarrow> ledger \<Rightarrow> bool"
  for U :: "string \<Rightarrow> string option" where
  start: "ledger_reachable U \<lparr>led_requests = [], led_requirements = [], led_decisions = []\<rparr>"
| step: "ledger_reachable U L \<Longrightarrow> ledger_step U L L' \<Longrightarrow> ledger_reachable U L'"

inductive_cases ledger_stepE: "ledger_step U L L'"

section \<open>The invariant\<close>

text \<open>
  The tables keep their constraints, every request's status and counters are the tally of its
  requirements, and a requirement's status is the value of its decision (pending without one).
\<close>

definition standing_decision :: "ledger \<Rightarrow> requirement_row \<Rightarrow> bool" where
  "standing_decision L r \<longleftrightarrow>
     (rqm_status r = ''pending'' \<and> (\<forall>e \<in> set (led_decisions L). dec_requirement_id e \<noteq> rqm_id r))
     \<or> (\<exists>e \<in> set (led_decisions L). dec_requirement_id e = rqm_id r
          \<and> dec_approval_request_id e = rqm_approval_request_id r \<and> dec_decision e = rqm_status r)"

definition ledger_inv :: "(string \<Rightarrow> string option) \<Rightarrow> ledger \<Rightarrow> bool" where
  "ledger_inv U L \<longleftrightarrow>
     ledger_ok U L
     \<and> (\<forall>q \<in> set (led_requests L). counters q = tally (statuses_of L (req_id q)))
     \<and> (\<forall>r \<in> set (led_requirements L). standing_decision L r)"

lemma requirements_of_append [simp]:
  "requirements_of (xs @ ys) aid = requirements_of xs aid @ requirements_of ys aid"
  by (simp add: requirements_of_def)

lemma settle_simps [simp]:
  "rqm_id (settle rid v at r) = rqm_id r"
  "rqm_approval_request_id (settle rid v at r) = rqm_approval_request_id r"
  "rqm_status (settle rid v at r) = (if rqm_id r = rid then v else rqm_status r)"
  by (simp_all add: settle_def)

lemma count_again_simps [simp]:
  "req_id (count_again aid c at q) = req_id q"
  "req_breaking_report_id (count_again aid c at q) = req_breaking_report_id q"
  "counters (count_again aid c at q) = (if req_id q = aid then c else counters q)"
  "req_status (count_again aid c at q) = (if req_id q = aid then fst c else req_status q)"
  by (simp_all add: count_again_def counters_def split: prod.splits)

lemma requirements_of_settle:
  "requirements_of (map (settle rid v at) rs) aid = map (settle rid v at) (requirements_of rs aid)"
  by (simp add: requirements_of_def filter_map comp_def)

lemma tally_pending:
  "rs \<noteq> [] \<Longrightarrow> \<forall>r \<in> set rs. rqm_status r = ''pending'' \<Longrightarrow>
   tally (map rqm_status rs) = (''pending'', int (length rs), 0)"
  by (cases rs) (auto simp: tally_def filter_empty_conv)

lemma tally_status: "fst (tally ss) \<in> set request_statuses"
  by (simp add: tally_def request_statuses_def)

lemma requirements_of_empty:
  "\<forall>r \<in> set rs. rqm_approval_request_id r \<noteq> aid \<Longrightarrow> requirements_of rs aid = []"
  by (simp add: requirements_of_def filter_empty_conv)

lemma requirements_of_all:
  "\<forall>r \<in> set rs. rqm_approval_request_id r = aid \<Longrightarrow> requirements_of rs aid = rs"
  by (simp add: requirements_of_def)

lemma ledger_okD:
  assumes "ledger_ok U L"
  shows "distinct (map req_id (led_requests L))" "distinct (map rqm_id (led_requirements L))"
    and "r \<in> set (led_requirements L) \<Longrightarrow> rqm_approval_request_id r \<in> req_id ` set (led_requests L)"
    and "e \<in> set (led_decisions L) \<Longrightarrow> dec_requirement_id e \<in> rqm_id ` set (led_requirements L)"
  using assms by (auto simp: ledger_ok_def)

lemma open_request_ok:
  assumes ok: "ledger_ok U L" and "fits U (req_id q)"
    and "\<forall>p \<in> set (led_requests L). req_id p \<noteq> req_id q
       \<and> req_breaking_report_id p \<noteq> req_breaking_report_id q"
    and rs: "\<forall>r \<in> set rs. fits U (rqm_id r) \<and> rqm_approval_request_id r = req_id q
       \<and> rqm_status r = ''pending''"
    and "distinct (map rqm_id (led_requirements L @ rs))"
    and "counters q = (if rs = [] then ''not_required'' else ''pending'', int (length rs), 0)"
  shows "ledger_ok U (open_request q rs L)"
proof -
  have "req_status q \<in> set request_statuses" "''pending'' \<in> set requirement_statuses"
    using assms(6) by (auto simp: counters_def request_statuses_def requirement_statuses_def split: if_splits)
  moreover have "req_breaking_report_id q \<notin> set (map req_breaking_report_id (led_requests L))"
    using assms(3) by auto
  moreover have "req_id q \<notin> set (map req_id (led_requests L))"
    using assms(3) by auto
  ultimately show ?thesis
    using assms by (auto simp: ledger_ok_def open_request_def)
qed

lemma open_request_inv:
  assumes inv: "ledger_inv U L" and q: "fits U (req_id q)"
    and new: "\<forall>p \<in> set (led_requests L). req_id p \<noteq> req_id q
       \<and> req_breaking_report_id p \<noteq> req_breaking_report_id q"
    and rs: "\<forall>r \<in> set rs. fits U (rqm_id r) \<and> rqm_approval_request_id r = req_id q
       \<and> rqm_status r = ''pending''"
    and distinct: "distinct (map rqm_id (led_requirements L @ rs))"
    and counters: "counters q = (if rs = [] then ''not_required'' else ''pending'', int (length rs), 0)"
  shows "ledger_inv U (open_request q rs L)"
proof -
  let ?L = "open_request q rs L"
  have ok: "ledger_ok U L" using inv by (simp add: ledger_inv_def)
  have same: "statuses_of ?L (req_id p) = statuses_of L (req_id p)" if "p \<in> set (led_requests L)" for p
  proof -
    have "requirements_of rs (req_id p) = []"
      using rs new that by (intro requirements_of_empty) auto
    then show ?thesis by (simp add: statuses_of_def open_request_def)
  qed
  have "requirements_of (led_requirements L) (req_id q) = []"
    using ledger_okD(3) [OF ok] new by (intro requirements_of_empty) force
  moreover have "requirements_of rs (req_id q) = rs"
    using rs by (intro requirements_of_all) auto
  ultimately have "statuses_of ?L (req_id q) = map rqm_status rs"
    by (simp add: statuses_of_def open_request_def)
  moreover have "tally [] = (''not_required'', 0, 0)" by (simp add: tally_def)
  ultimately have "counters q = tally (statuses_of ?L (req_id q))"
    using counters tally_pending [of rs] rs by (cases "rs = []") auto
  moreover have "standing_decision ?L r" if "r \<in> set (led_requirements L)" for r
    using inv that by (auto simp: ledger_inv_def standing_decision_def open_request_def)
  moreover have "standing_decision ?L r" if r: "r \<in> set rs" for r
  proof -
    have "rqm_id r \<notin> rqm_id ` set (led_requirements L)"
      using distinct r by auto
    then have "\<forall>e \<in> set (led_decisions L). dec_requirement_id e \<noteq> rqm_id r"
      using ledger_okD(4) [OF ok] by metis
    then show ?thesis using rs r by (simp add: standing_decision_def open_request_def)
  qed
  ultimately show ?thesis
    using inv same open_request_ok [OF ok q new rs distinct counters]
    by (auto simp: ledger_inv_def open_request_def)
qed

lemma record_decision_simps [simp]:
  "led_decisions (record_decision e at L) = led_decisions L @ [e]"
  "led_requirements (record_decision e at L)
     = map (settle (dec_requirement_id e) (dec_decision e) at) (led_requirements L)"
  "map req_id (led_requests (record_decision e at L)) = map req_id (led_requests L)"
  "map req_breaking_report_id (led_requests (record_decision e at L))
     = map req_breaking_report_id (led_requests L)"
  "led_requests (record_decision e at L) = map (count_again (dec_approval_request_id e)
     (tally (statuses_of (record_decision e at L) (dec_approval_request_id e))) at) (led_requests L)"
  by (simp_all add: record_decision_def Let_def comp_def statuses_of_def)

lemma record_decision_statuses:
  assumes "\<forall>r \<in> set (led_requirements L). rqm_id r = dec_requirement_id e \<longrightarrow> rqm_approval_request_id r \<noteq> aid"
  shows "statuses_of (record_decision e at L) aid = statuses_of L aid"
  using assms by (auto simp: statuses_of_def requirements_of_settle) (auto simp: requirements_of_def)

lemma record_decision_ok:
  assumes ok: "ledger_ok U L" and r: "r \<in> set (led_requirements L)"
    and e: "dec_requirement_id e = rqm_id r" "dec_decision e \<in> {''approved'', ''rejected''}"
    and fresh: "\<forall>f \<in> set (led_decisions L). dec_id f \<noteq> dec_id e \<and> dec_requirement_id f \<noteq> rqm_id r"
  shows "ledger_ok U (record_decision e at L)"
proof -
  let ?L = "record_decision e at L"
  have ids: "req_id ` set (led_requests ?L) = req_id ` set (led_requests L)"
    "rqm_id ` set (led_requirements ?L) = rqm_id ` set (led_requirements L)"
    by (simp_all add: image_image)
  have known: "dec_decision e \<in> set requirement_statuses"
    using e(2) by (auto simp: requirement_statuses_def)
  have requests: "\<forall>q \<in> set (led_requests ?L). fits U (req_id q) \<and> req_status q \<in> set request_statuses"
    using ok by (auto simp: ledger_ok_def tally_status)
  have requirements: "\<forall>r \<in> set (led_requirements ?L). fits U (rqm_id r)
      \<and> fits U (rqm_approval_request_id r) \<and> rqm_status r \<in> set requirement_statuses
      \<and> rqm_approval_request_id r \<in> req_id ` set (led_requests ?L)"
    using ok known unfolding ids by (auto simp: ledger_ok_def)
  have "fits U (rqm_id r)" "rqm_id r \<in> rqm_id ` set (led_requirements L)"
    using ok r by (auto simp: ledger_ok_def)
  then have decisions: "\<forall>f \<in> set (led_decisions ?L). fits U (dec_requirement_id f)
      \<and> dec_decision f \<in> {''approved'', ''rejected''}
      \<and> dec_requirement_id f \<in> rqm_id ` set (led_requirements ?L)"
    using ok e unfolding ids by (simp add: ledger_ok_def)
  have "distinct (map dec_id (led_decisions ?L))" "distinct (map dec_requirement_id (led_decisions ?L))"
    using ok e fresh by (auto simp: ledger_ok_def)
  moreover have "distinct (map req_id (led_requests ?L))" "distinct (map rqm_id (led_requirements ?L))"
    "distinct (filter (\<lambda>b. b \<noteq> None) (map req_breaking_report_id (led_requests ?L)))"
    using ok unfolding record_decision_simps(3,4) by (simp_all add: ledger_ok_def comp_def)
  ultimately show ?thesis
    unfolding ledger_ok_def using requests requirements decisions by (intro conjI)
qed

lemma record_decision_inv:
  assumes inv: "ledger_inv U L" and q: "q \<in> set (led_requests L)" and r: "r \<in> set (led_requirements L)"
    and link: "rqm_approval_request_id r = req_id q"
    and e: "dec_approval_request_id e = req_id q" "dec_requirement_id e = rqm_id r"
      "dec_decision e \<in> {''approved'', ''rejected''}"
    and fresh: "\<forall>f \<in> set (led_decisions L). dec_id f \<noteq> dec_id e \<and> dec_requirement_id f \<noteq> rqm_id r"
  shows "ledger_inv U (record_decision e at L)"
proof -
  let ?L = "record_decision e at L"
  have ok: "ledger_ok U L" using inv by (simp add: ledger_inv_def)
  have single: "r' = r" if "r' \<in> set (led_requirements L)" "rqm_id r' = rqm_id r" for r'
    using ledger_okD(2) [OF ok] that r by (simp add: distinct_map inj_on_def)
  have others: "statuses_of ?L aid = statuses_of L aid" if "aid \<noteq> req_id q" for aid
    using single link that e(2) by (intro record_decision_statuses) auto
  have counted: "counters p = tally (statuses_of ?L (req_id p))" if p: "p \<in> set (led_requests ?L)" for p
  proof -
    obtain p0 where p0: "p0 \<in> set (led_requests L)"
      "p = count_again (req_id q) (tally (statuses_of ?L (req_id q))) at p0"
      using p e(1) by (auto simp del: record_decision_simps(2))
    moreover have "counters p0 = tally (statuses_of L (req_id p0))"
      using inv p0 by (simp add: ledger_inv_def)
    ultimately show ?thesis using others by (cases "req_id p0 = req_id q") simp_all
  qed
  have standing: "standing_decision ?L r1" if r1: "r1 \<in> set (led_requirements ?L)" for r1
  proof -
    obtain r0 where r0: "r0 \<in> set (led_requirements L)" "r1 = settle (rqm_id r) (dec_decision e) at r0"
      using r1 e(2) by auto
    have "standing_decision L r0" using inv r0 by (simp add: ledger_inv_def)
    then show ?thesis
      using r0 single [of r0] e link
      by (cases "rqm_id r0 = rqm_id r") (auto simp: standing_decision_def simp del: record_decision_simps(5))
  qed
  show ?thesis
    unfolding ledger_inv_def
    using record_decision_ok [OF ok r e(2,3) fresh] counted standing by blast
qed

lemma ledger_step_inv: "ledger_step U L L' \<Longrightarrow> ledger_inv U L \<Longrightarrow> ledger_inv U L'"
  by (induction rule: ledger_step.induct) (blast intro: open_request_inv record_decision_inv)+

lemma ledger_reachable_inv: "ledger_reachable U L \<Longrightarrow> ledger_inv U L"
proof (induction rule: ledger_reachable.induct)
  case start
  show ?case by (simp add: ledger_inv_def ledger_ok_def)
qed (rule ledger_step_inv)

section \<open>The service refines the machine\<close>

lemma status_cases:
  "ApprovalRequirementStatus_String x = ''approved'' \<longleftrightarrow> x = ApprovalRequirementStatusApproved"
  "ApprovalRequirementStatus_String x = ''rejected'' \<longleftrightarrow> x = ApprovalRequirementStatusRejected"
  "ApprovalRequirementStatus_String x = ''not_required'' \<longleftrightarrow> x = ApprovalRequirementStatusNotRequired"
  "ApprovalRequirementStatus_String x = ''pending'' \<longleftrightarrow> x = ApprovalRequirementStatusPending"
  by (cases x; simp)+

definition pairs_of :: "ApprovalRequirement list \<Rightarrow> (string \<times> string) list" where
  "pairs_of xs = map (\<lambda>x. (Requirement_ID x, ApprovalRequirementStatus_String (Requirement_Status x))) xs"

definition after :: "string \<Rightarrow> string \<Rightarrow> (string \<times> string) list \<Rightarrow> string list" where
  "after rid v ps = map (\<lambda>(i, s). if i = rid then v else s) ps"

lemma receivedApprovalsAfter_tally:
  "receivedApprovalsAfter xs rid st = snd (snd (tally (after rid (ApprovalRequirementStatus_String st) (pairs_of xs))))"
proof -
  let ?v = "ApprovalRequirementStatus_String st"
  have chosen: "(if Requirement_ID x = rid then st else Requirement_Status x) = ApprovalRequirementStatusApproved
      \<longleftrightarrow> (if Requirement_ID x = rid then ?v
           else ApprovalRequirementStatus_String (Requirement_Status x)) = ''approved''" for x
    by (simp add: status_cases)
  have "after rid ?v (pairs_of xs) = map (\<lambda>x. if Requirement_ID x = rid then ?v
      else ApprovalRequirementStatus_String (Requirement_Status x)) xs"
    by (simp add: after_def pairs_of_def)
  then show ?thesis
    unfolding receivedApprovalsAfter_def chosen by (simp only: tally_def filter_map comp_def length_map snd_conv)
qed

lemma allRequirementsApprovedAfter_tally:
  "allRequirementsApprovedAfter xs rid \<longleftrightarrow>
     (\<forall>s \<in> set (after rid ''approved'' (pairs_of xs)). s = ''approved'' \<or> s = ''not_required'')"
proof -
  have chosen: "(Requirement_ID x = rid \<or> Requirement_Status x = ApprovalRequirementStatusApproved
      \<or> Requirement_Status x = ApprovalRequirementStatusNotRequired)
    \<longleftrightarrow> (\<lambda>s. s = ''approved'' \<or> s = ''not_required'') (if Requirement_ID x = rid then ''approved''
           else ApprovalRequirementStatus_String (Requirement_Status x))" for x
    by (simp add: status_cases)
  have "after rid ''approved'' (pairs_of xs) = map (\<lambda>x. if Requirement_ID x = rid then ''approved''
      else ApprovalRequirementStatus_String (Requirement_Status x)) xs"
    by (simp add: after_def pairs_of_def)
  then show ?thesis
    unfolding allRequirementsApprovedAfter_def chosen list_all_iff by (simp only: set_map ball_simps)
qed

lemma tally_mset: "mset ss = mset ts \<Longrightarrow> tally ss = tally ts"
proof -
  assume eq: "mset ss = mset ts"
  have "mset (filter (\<lambda>s. s = ''approved'') ss) = mset (filter (\<lambda>s. s = ''approved'') ts)"
    by (simp only: mset_filter eq)
  then have "length (filter (\<lambda>s. s = ''approved'') ss) = length (filter (\<lambda>s. s = ''approved'') ts)"
    by (rule mset_eq_length)
  moreover have "ss = [] \<longleftrightarrow> ts = []" using mset_eq_length [OF eq] by fastforce
  ultimately show ?thesis
    unfolding tally_def list_all_iff mset_eq_setD [OF eq] mset_eq_length [OF eq] by (simp only:)
qed

lemma after_mset: "mset ps = mset qs \<Longrightarrow> mset (after rid v ps) = mset (after rid v qs)"
  by (simp add: after_def)

lemma after_settle:
  "after rid v (map standing rs) = map rqm_status (map (settle rid v at) rs)"
  by (auto simp: after_def standing_def)

text \<open>
  The service's totals are the tally of the statuses after the decision, provided no requirement
  of a pending request is already rejected, which the invariant gives.
\<close>

lemma decide_tally:
  assumes load: "loaded d q request" and mem: "requirement \<in> set (Request_Requirements request)"
    and none: "\<forall>s \<in> set (map rqm_status (requirements_of (db_requirements d) (req_id q))). s \<noteq> ''rejected''"
    and verdict: "v = ApprovalDecisionValue_String (Decision_Decision decision)"
    and prep: "prep = decide request requirement decision actor now"
  shows "(ApprovalRequestStatus_String (Prep_RequestStatus prep), Prep_Required prep, Prep_Received prep)
      = tally (map rqm_status (requirements_of
          (map (settle (Requirement_ID requirement) v at) (db_requirements d)) (req_id q)))"
    and "ApprovalRequirementStatus_String (Prep_RequirementStatus prep) = v"
proof -
  let ?xs = "Request_Requirements request" and ?rid = "Requirement_ID requirement"
  let ?ss = "after ?rid v (pairs_of ?xs)"
  have pairs: "mset (pairs_of ?xs) = mset (map standing (requirements_of (db_requirements d) (req_id q)))"
    using load by (simp add: loaded_def pairs_of_def)
  have final: "tally (map rqm_status (requirements_of (map (settle ?rid v at) (db_requirements d)) (req_id q)))
      = tally ?ss"
    unfolding requirements_of_settle after_settle [symmetric]
    by (intro tally_mset after_mset pairs [symmetric])
  have decided: "v \<in> set ?ss" and nonempty: "?ss \<noteq> []"
    using mem by (force simp: after_def pairs_of_def)+
  have rejected: "''rejected'' \<in> set ?ss \<longleftrightarrow> v = ''rejected''"
  proof
    assume "''rejected'' \<in> set ?ss"
    then obtain i s where "(i, s) \<in> set (pairs_of ?xs)" "''rejected'' = (if i = ?rid then v else s)"
      by (auto simp: after_def)
    moreover from this(1) have "s \<noteq> ''rejected''"
      using mset_eq_setD [OF pairs] none by (fastforce simp: standing_def)
    ultimately show "v = ''rejected''" by (simp split: if_splits)
  qed (use decided in simp)
  show v: "ApprovalRequirementStatus_String (Prep_RequirementStatus prep) = v"
    using verdict prep by (cases "Decision_Decision decision") (simp_all add: decide_def Let_def)
  have "Prep_Required prep = fst (snd (tally ?ss))"
    using prep by (simp add: decide_def Let_def tally_def after_def pairs_of_def)
  moreover have "Prep_Received prep = snd (snd (tally ?ss))"
    unfolding v [symmetric] receivedApprovalsAfter_tally [symmetric]
    using prep by (simp add: decide_def Let_def)
  moreover have "ApprovalRequestStatus_String (Prep_RequestStatus prep) = fst (tally ?ss)"
    using prep verdict nonempty rejected allRequirementsApprovedAfter_tally [of ?xs ?rid]
    by (cases "Decision_Decision decision")
       (auto simp: decide_def Let_def tally_def list_all_iff)
  ultimately show "(ApprovalRequestStatus_String (Prep_RequestStatus prep), Prep_Required prep, Prep_Received prep)
      = tally (map rqm_status (requirements_of
          (map (settle (Requirement_ID requirement) v at) (db_requirements d)) (req_id q)))"
    unfolding final by (metis prod.collapse)
qed

lemma ledger_of_simps [simp]:
  "led_requests (ledger_of d) = db_requests d" "led_requirements (ledger_of d) = db_requirements d"
  "led_decisions (ledger_of d) = db_decisions d"
  by (simp_all add: ledger_of_def)

lemma decided_db_ledger:
  assumes totals: "(ApprovalRequestStatus_String (Prep_RequestStatus prep), Prep_Required prep, Prep_Received prep)
      = tally (map rqm_status (requirements_of (map (settle rid v (Prep_Now prep)) (db_requirements d)) aid))"
    and status: "ApprovalRequirementStatus_String (Prep_RequirementStatus prep) = v"
    and e: "dec_approval_request_id e = aid" "dec_requirement_id e = rid" "dec_decision e = v"
  shows "ledger_of (decided_db aid rid prep e audits event d) = record_decision e (Prep_Now prep) (ledger_of d)"
proof -
  have "(if rqm_id r = rid then decided_requirement (Prep_RequirementStatus prep) (Prep_Now prep) r else r)
      = settle rid v (Prep_Now prep) r" for r
    by (simp add: settle_def decided_requirement_def status)
  moreover have "(if req_id q = aid then decided_request (Prep_RequestStatus prep) (Prep_Required prep)
        (Prep_Received prep) (Prep_Now prep) q else q)
      = count_again aid (tally (map rqm_status (requirements_of
          (map (settle rid v (Prep_Now prep)) (db_requirements d)) aid))) (Prep_Now prep) q" for q
    unfolding totals [symmetric] by (simp add: count_again_def decided_request_def)
  ultimately show ?thesis
    by (simp add: ledger_of_def record_decision_def Let_def e)
qed

lemma pending_no_reject:
  assumes "ledger_inv U L" and "q \<in> set (led_requests L)" and "req_status q = ''pending''"
  shows "\<forall>s \<in> set (map rqm_status (requirements_of (led_requirements L) (req_id q))). s \<noteq> ''rejected''"
proof -
  have "counters q = tally (statuses_of L (req_id q))" using assms by (simp add: ledger_inv_def)
  then have "fst (tally (statuses_of L (req_id q))) = ''pending''"
    using assms(3) by (metis counters_def fst_conv)
  then have "''rejected'' \<notin> set (statuses_of L (req_id q))"
    by (auto simp: tally_def split: if_splits)
  then show ?thesis unfolding statuses_of_def by blast
qed

lemma commit_step:
  assumes can: "decidable svc input (w_platform w) (w_db w) q r request requirement"
    and prep: "prep = decide request requirement
           \<lparr>Decision_ID = did, Decision_ApprovalRequestID = req_id q, Decision_RequirementID = rqm_id r,
            Decision_Decision = v, Decision_DecidedBy = who,
            Decision_Comment = txt, Decision_CreatedAt = now\<rparr> who now"
    and commit: "commitDecision prep w = (Inr u, w')" and outside: "\<not> w_tx w"
    and inv: "ledger_inv (p_uuid (w_platform w)) (ledger_of (w_db w))"
  shows "ledger_step (p_uuid (w_platform w)) (ledger_of (w_db w)) (ledger_of (w_db w'))
    \<and> (\<exists>e. ledger_of (w_db w') = record_decision e now (ledger_of (w_db w))
         \<and> dec_requirement_id e = rqm_id r \<and> dec_decision e = ApprovalDecisionValue_String v
         \<and> dec_decided_by e = who)"
proof -
  have load: "loaded (w_db w) q request" and mem: "requirement \<in> set (Request_Requirements request)"
    and ids: "Requirement_ID requirement = rqm_id r" "Request_ID request = req_id q"
    and q: "q \<in> set (db_requests (w_db w))" "req_status q = ''pending''"
    and r: "r \<in> set (db_requirements (w_db w))" "rqm_approval_request_id r = req_id q" "rqm_status r = ''pending''"
    using can by (auto simp: decidable_def loaded_def requirements_of_def)
  have ok: "ledger_ok (p_uuid (w_platform w)) (ledger_of (w_db w))" using inv by (simp add: ledger_inv_def)
  have fits: "p_uuid (w_platform w) (req_id q) = Some (req_id q)" "p_uuid (w_platform w) (rqm_id r) = Some (rqm_id r)"
    using ok q r by (auto simp: ledger_ok_def fits_def)
  have parts: "Prep_Decision prep = \<lparr>Decision_ID = did, Decision_ApprovalRequestID = req_id q,
       Decision_RequirementID = rqm_id r, Decision_Decision = v, Decision_DecidedBy = who,
       Decision_Comment = txt, Decision_CreatedAt = now\<rparr>"
    "Prep_Request prep = request" "Prep_Requirement prep = requirement" "Prep_Now prep = now"
    using prep by (simp_all add: decide_def Let_def)
  have coherent: "Decision_RequirementID (Prep_Decision prep) = Requirement_ID (Prep_Requirement prep)"
    "Decision_ApprovalRequestID (Prep_Decision prep) = Request_ID (Prep_Request prep)"
    by (simp_all add: parts ids)
  have none: "\<forall>s \<in> set (map rqm_status (requirements_of (db_requirements (w_db w)) (req_id q))). s \<noteq> ''rejected''"
    using pending_no_reject [OF inv] q by simp
  show ?thesis
  proof (rule commitDecision_Inr [OF commit outside coherent])
    fix di aid rid audits event
    assume at: "p_uuid (w_platform w) (Request_ID (Prep_Request prep)) = Some aid"
        "p_uuid (w_platform w) (Requirement_ID (Prep_Requirement prep)) = Some rid"
      and fresh: "\<forall>r \<in> set (db_decisions (w_db w)). di \<noteq> dec_id r \<and> rid \<noteq> dec_requirement_id r"
      and d': "w_db w' = decided_db aid rid prep (row_of_decision di aid rid (Prep_Decision prep))
           audits event (w_db w)"
    let ?e = "row_of_decision di aid rid (Prep_Decision prep)"
    have eq: "aid = req_id q" "rid = rqm_id r"
      using at fits by (simp_all add: parts ids)
    have e: "dec_approval_request_id ?e = aid" "dec_requirement_id ?e = rid"
      "dec_decision ?e = ApprovalDecisionValue_String v"
      by (simp_all add: parts)
    have "ledger_of (w_db w') = record_decision ?e (Prep_Now prep) (ledger_of (w_db w))"
      unfolding d'
    proof (rule decided_db_ledger [OF _ _ e])
      show "ApprovalRequirementStatus_String (Prep_RequirementStatus prep) = ApprovalDecisionValue_String v"
        using decide_tally(2) [OF load mem none _ prep] by simp
      show "(ApprovalRequestStatus_String (Prep_RequestStatus prep), Prep_Required prep, Prep_Received prep)
          = tally (map rqm_status (requirements_of
              (map (settle rid (ApprovalDecisionValue_String v) (Prep_Now prep)) (db_requirements (w_db w))) aid))"
        using decide_tally(1) [OF load mem none _ prep] by (simp add: eq ids)
    qed
    moreover have "dec_decision ?e \<in> {''approved'', ''rejected''}"
      unfolding e by (cases v) simp_all
    moreover have "\<forall>f \<in> set (db_decisions (w_db w)). dec_id f \<noteq> dec_id ?e \<and> dec_requirement_id f \<noteq> rqm_id r"
      using fresh unfolding eq(2) row_of_simps by fastforce
    moreover have "dec_decided_by ?e = who" by (simp add: parts row_of_decision_def)
    ultimately show ?thesis
      using ledger_step.decided [of q "ledger_of (w_db w)" r ?e _ "Prep_Now prep"] q r e eq parts(4)
      by (intro conjI exI [of _ ?e]) simp_all
  qed
qed

lemma GetRequestByID_reads: "reads_only (ApprovalRepo_GetRequestByID requestID)"
  by (rule GetRequest_reads)

text \<open>A handler that records a decision is one step of the machine, or fails and changes nothing.\<close>

lemma recordDecision_refines:
  assumes run: "recordDecision svc input v w = (r, w')" and outside: "\<not> w_tx w"
    and laws: "uuid_laws (w_platform w)"
    and inv: "ledger_inv (p_uuid (w_platform w)) (ledger_of (w_db w))"
  shows "w_db w' = w_db w \<and> (\<exists>e. r = Inl e)
    \<or> ledger_step (p_uuid (w_platform w)) (ledger_of (w_db w)) (ledger_of (w_db w'))
      \<and> (\<exists>e at. ledger_of (w_db w') = record_decision e at (ledger_of (w_db w))
           \<and> dec_requirement_id e = NewID (In_RequirementID input)
           \<and> dec_decision e = ApprovalDecisionValue_String v \<and> dec_decided_by e = TrimSpace (In_Actor input))"
proof -
  obtain x w1 where p: "prepareDecision svc input v w = (x, w1)" by fastforce
  have w1: "w_db w1 = w_db w" "same_env w w1"
    using reads_onlyD [OF prepareDecision_reads p] stepsD [OF prepareDecision_env p] by simp_all
  have ok: "approvals_ok (p_uuid (w_platform w)) (w_db w)"
    using inv by (simp add: approvals_ok_def ledger_inv_def)
  show ?thesis
  proof (cases x)
    case (Inl e)
    with run p w1 show ?thesis by (auto simp: recordDecision_def bindE_def)
  next
    case (Inr prep)
    obtain y w2 where c: "commitDecision prep w1 = (y, w2)" by fastforce
    show ?thesis
    proof (cases y)
      case (Inl e)
      have "w_db w2 = w_db w1"
        using c Inl outside w1 unfolding commitDecision_def Let_def
        by (auto simp: same_env_def dest: WithinTransaction_error)
      with run p c Inl \<open>x = Inr prep\<close> w1 show ?thesis by (auto simp: recordDecision_def bindE_def)
    next
      case (Inr u)
      have "ApprovalRepo_GetRequestByID (Request_ID (Prep_Request prep)) w2 = (r, w')"
        using run p c Inr \<open>x = Inr prep\<close> by (simp add: recordDecision_def bindE_def)
      from reads_onlyD [OF GetRequestByID_reads this] have w': "w_db w' = w_db w2" .
      show ?thesis
      proof (rule prepareDecision_Inr [OF p [unfolded \<open>x = Inr prep\<close>] laws ok])
        fix q r request requirement did now
        assume can: "decidable svc input (w_platform w) (w_db w) q r request requirement"
          and prep: "prep = decide request requirement
           \<lparr>Decision_ID = did, Decision_ApprovalRequestID = req_id q, Decision_RequirementID = rqm_id r,
            Decision_Decision = v, Decision_DecidedBy = TrimSpace (In_Actor input),
            Decision_Comment = In_Comment input, Decision_CreatedAt = now\<rparr>
           (TrimSpace (In_Actor input)) now"
        have "decidable svc input (w_platform w1) (w_db w1) q r request requirement"
          using w1 can by (simp add: same_env_def)
        from commit_step [OF this prep c [unfolded Inr]]
        have "ledger_step (p_uuid (w_platform w)) (ledger_of (w_db w)) (ledger_of (w_db w'))
            \<and> (\<exists>e. ledger_of (w_db w') = record_decision e now (ledger_of (w_db w))
                 \<and> dec_requirement_id e = rqm_id r \<and> dec_decision e = ApprovalDecisionValue_String v
                 \<and> dec_decided_by e = TrimSpace (In_Actor input))"
          using w' w1 outside inv by (simp add: same_env_def)
        moreover have "rqm_id r = NewID (In_RequirementID input)" using can by (simp add: decidable_def)
        ultimately show ?thesis by (intro disjI2) auto
      qed
    qed
  qed
qed

lemma recordDecision_steps:
  assumes "recordDecision svc input v w = (r, w')" and "\<not> w_tx w" and "uuid_laws (w_platform w)"
    and "ledger_inv (p_uuid (w_platform w)) (ledger_of (w_db w))"
  shows "w_db w' = w_db w
    \<or> ledger_step (p_uuid (w_platform w)) (ledger_of (w_db w)) (ledger_of (w_db w'))"
  using recordDecision_refines [OF assms] by (elim disjE conjE) (rule disjI1 disjI2, assumption)+

lemma opens_step:
  assumes opens: "opens p reportID (evaluate i) request d d'" and policy: "policy_evaluator evaluate"
    and ok: "ledger_ok (p_uuid p) (ledger_of d)" and laws: "uuid_laws p"
  shows "ledger_step (p_uuid p) (ledger_of d) (ledger_of d')"
proof -
  obtain row rid mid bid rows audit event where
    rid: "p_uuid p (Request_ID request) = Some rid" and row: "row = row_of_request rid mid (Some bid) request"
    and fresh: "\<forall>r \<in> set (db_requests d). \<not> request_clash row r"
    and rows: "list_all2 (requirement_row_for p rid) (Request_Requirements request) rows"
    and distinct: "distinct (map rqm_id (db_requirements d)) \<longrightarrow> distinct (map rqm_id (db_requirements d @ rows))"
    and d': "d' = opened_db row rows audit event d"
    and status: "Request_Status request = (if Result_ApprovalRequired (evaluate i)
       then ApprovalRequestStatusPending else ApprovalRequestStatusNotRequired)"
    and required: "Request_RequiredApprovals request = int (length (Result_Requirements (evaluate i)))"
    and received: "Request_ReceivedApprovals request = 0"
    and plans: "map (\<lambda>x. (Requirement_RequirementType x, Requirement_TargetModuleID x,
              Requirement_TargetModuleName x, Requirement_Status x)) (Request_Requirements request)
          = map (\<lambda>p. (Plan_RequirementType p, Plan_TargetModuleID p, Plan_TargetModuleName p,
              Plan_Status p)) (Result_Requirements (evaluate i))"
    using opens unfolding opens_def by blast
  have lengths: "length rows = length (Result_Requirements (evaluate i))"
    using list_all2_lengthD [OF rows] map_eq_imp_length_eq [OF plans] by simp
  have stats: "map Requirement_Status (Request_Requirements request) = map Plan_Status (Result_Requirements (evaluate i))"
    using arg_cong [OF plans, of "map (\<lambda>(a, b, c, d). d)"] by (simp add: comp_def)
  have pending: "Requirement_Status x = ApprovalRequirementStatusPending"
    if "x \<in> set (Request_Requirements request)" for x
  proof -
    have "Requirement_Status x \<in> Plan_Status ` set (Result_Requirements (evaluate i))"
      using arg_cong [OF stats, of set] that by auto
    then show ?thesis using policy_evaluator.plans_pending [OF policy] by auto
  qed
  have new: "fits (p_uuid p) (rqm_id r) \<and> rqm_approval_request_id r = rid \<and> rqm_status r = ''pending''"
    if r: "r \<in> set rows" for r
  proof -
    obtain x where "x \<in> set (Request_Requirements request)" "requirement_row_for p rid x r"
      using rows r by (metis in_set_conv_nth list_all2_conv_all_nth)
    then show ?thesis
      using pending uuid_laws_canonical [OF laws] by (auto simp: requirement_row_for_def fits_def)
  qed
  have "counters row = (if rows = [] then ''not_required'' else ''pending'', int (length rows), 0)"
    using policy_evaluator.required_iff [OF policy, of i] lengths status required received
    by (auto simp: counters_def row)
  moreover have "\<forall>r \<in> set (db_requests d). req_id r \<noteq> req_id row
      \<and> req_breaking_report_id r \<noteq> req_breaking_report_id row"
    using fresh by (auto simp: request_clash_def row)
  moreover have "fits (p_uuid p) rid"
    using uuid_laws_canonical [OF laws rid] by (simp add: fits_def)
  ultimately have "ledger_step (p_uuid p) (ledger_of d) (open_request row rows (ledger_of d))"
    using new distinct ok by (intro ledger_step.opened) (auto simp: row ledger_ok_def)
  then show ?thesis by (simp add: d' open_request_def ledger_of_def)
qed

lemma GetByReport_env: "steps same_env (ApprovalRepo_GetRequestByBreakingReportID reportID)"
  unfolding ApprovalRepo_GetRequestByBreakingReportID_def getRequest_def populateRequest_def
    listRequirements_def listDecisions_def
  by (intro env_rules)

lemma Create_refines:
  assumes run: "CreateApprovalRequestForBreakingReport svc input w = (r, w')" and outside: "\<not> w_tx w"
    and svc: "collaborators_read svc" and policy: "policy_evaluator (svc_policy svc)"
    and laws: "uuid_laws (w_platform w)"
    and ok: "ledger_ok (p_uuid (w_platform w)) (ledger_of (w_db w))"
  shows "w_db w' = w_db w
    \<or> ledger_step (p_uuid (w_platform w)) (ledger_of (w_db w)) (ledger_of (w_db w'))"
proof -
  let ?report = "NewID (Create_BreakingReportID input)"
  show ?thesis
  proof (cases "?report = '''' \<or> (\<exists>e. effectiveActorSubject (Create_Actor input) = Inl e)")
    case True
    with run show ?thesis
      by (auto simp: CreateApprovalRequestForBreakingReport_def Let_def bindE_def failIf_def raise_def
          ret_def liftE_def split: if_splits)
  next
    case False
    then obtain actor where actor: "effectiveActorSubject (Create_Actor input) = Inr actor"
      by (cases "effectiveActorSubject (Create_Actor input)") auto
    obtain x w1 where g: "ApprovalRepo_GetRequestByBreakingReportID ?report w = (x, w1)" by fastforce
    have w1: "w_db w1 = w_db w" "same_env w w1"
      using reads_onlyD [OF GetRequest_reads(2) g] stepsD [OF GetByReport_env g] by simp_all
    have "w' = w1 \<or> createFresh svc ?report actor (Create_TargetRef input) w1 = (r, w')"
      using run actor False g
      by (auto simp: CreateApprovalRequestForBreakingReport_def Let_def bindE_def failIf_def raise_def
          ret_def liftE_def attempt_def split: sum.splits if_splits)
    then show ?thesis
    proof
      assume "createFresh svc ?report actor (Create_TargetRef input) w1 = (r, w')"
      from createFresh_effect [OF this _ svc] show ?thesis
        using w1 outside opens_step [OF _ policy ok laws] unfolding policyResultFor_def
        by (auto simp: same_env_def)
    qed (use w1 in simp)
  qed
qed

end
