(* ===== verification/Approval_Claims.thy ===== *)
theory Approval_Claims
  imports Approval_Protocol
begin

text \<open>
  The properties of the approval workflow, stated of the service's operations, and the concrete
  registry they are tried on: a module with a breaking report, an affected module in production,
  and one owner of each.
\<close>

section \<open>A concrete registry\<close>

definition sample_registry :: db where
  "sample_registry = empty_db\<lparr>
     db_modules := [
       \<lparr>mod_id = ''a-1'', mod_name = ''orders'', mod_description = '''', mod_repository_url = '''',
        mod_created_at = 1, mod_updated_at = 1\<rparr>,
       \<lparr>mod_id = ''a-2'', mod_name = ''billing'', mod_description = '''', mod_repository_url = '''',
        mod_created_at = 1, mod_updated_at = 1\<rparr>],
     db_versions := [
       \<lparr>ver_id = ''b-1'', ver_module_id = ''a-1'', ver_version = ''v1'', ver_digest = '''',
        ver_status = ''published'', ver_created_at = 2, ver_deprecated_at = None,
        ver_deprecated_by = '''', ver_deprecation_reason = ''''\<rparr>],
     db_reports := [
       \<lparr>rep_id = ''c-1'', rep_module_id = ''a-1'', rep_base_version_id = ''b-1'',
        rep_target_ref = ''main'', rep_status = ''breaking'', rep_change_count = 1,
        rep_raw_output = '''', rep_human_summary = '''', rep_created_at = 3\<rparr>],
     db_owners := [
       \<lparr>own_id = ''d-1'', own_module_id = ''a-1'', own_subject_type = ''user'',
        own_subject = ''alice'', own_role = ''owner'', own_created_at = 4, own_updated_at = 4\<rparr>,
       \<lparr>own_id = ''d-2'', own_module_id = ''a-2'', own_subject_type = ''user'',
        own_subject = ''bob'', own_role = ''owner'', own_created_at = 4, own_updated_at = 4\<rparr>]\<rparr>"

text \<open>The same registry with an open request that two owners have to approve.\<close>

definition sample_pending :: db where
  "sample_pending = sample_registry\<lparr>
     db_requests := [
       \<lparr>req_id = ''e-0'', req_module_id = ''a-1'', req_breaking_report_id = Some ''c-1'',
        req_target_ref = ''main'', req_status = ''pending'', req_required_approvals = 2,
        req_received_approvals = 0, req_created_at = 6, req_updated_at = 6\<rparr>],
     db_requirements := [
       \<lparr>rqm_id = ''e-1'', rqm_approval_request_id = ''e-0'',
        rqm_requirement_type = ''module_owner_approval'', rqm_target_module_id = Some ''a-1'',
        rqm_target_module_name = ''orders'', rqm_required_role = ''owner'', rqm_status = ''pending'',
        rqm_reason = '''', rqm_created_at = 6, rqm_updated_at = 6\<rparr>,
       \<lparr>rqm_id = ''e-2'', rqm_approval_request_id = ''e-0'',
        rqm_requirement_type = ''affected_consumer_approval'', rqm_target_module_id = Some ''a-2'',
        rqm_target_module_name = ''billing'', rqm_required_role = ''owner'', rqm_status = ''pending'',
        rqm_reason = '''', rqm_created_at = 6, rqm_updated_at = 6\<rparr>]\<rparr>"

lemma sample_pending_ok: "ledger_ok (p_uuid sample_platform) (ledger_of sample_pending)"
  by (simp add: ledger_ok_def ledger_of_def sample_pending_def sample_registry_def empty_db_def fits_def
      sample_uuid_def hex_digits_def request_statuses_def requirement_statuses_def)

definition sample_affected :: AffectedModule where
  "sample_affected = \<lparr>Affected_ModuleName = ''billing'', Affected_LatestVersion = ''v1'',
     Affected_DependencySources = [], Affected_Reasons = []\<rparr>"

definition sample_impact :: RuntimeImpact where
  "sample_impact = \<lparr>Impact_ServiceName = ''shop'', Impact_Environment = ''production'',
     Impact_UsedModule = ''billing'', Impact_UsedVersion = ''v1'', Impact_GitCommit = '''',
     Impact_BuildVersion = '''', Impact_ReportedAt = 5, Impact_ImpactStatus = '''',
     Impact_Reason = '''', Impact_DriftStatus = RuntimeDriftStatusUpToDate, Impact_DriftReason = ''''\<rparr>"

definition sample_service :: ApprovalService where
  "sample_service = \<lparr>svc_dependencies = Some (\<lambda>_. ret [sample_affected]),
     svc_runtime = Some (\<lambda>_ _ _ _. ret [sample_impact]),
     svc_policy = EvaluatePolicy (\<lambda>s. s), svc_policyConfig = DefaultPolicyConfig\<rparr>"

definition sample_create :: CreateInput where
  "sample_create = \<lparr>Create_BreakingReportID = ''c-1'', Create_Actor = ''carol'', Create_TargetRef = ''''\<rparr>"

definition sample_decision :: "string \<Rightarrow> string \<Rightarrow> ApprovalDecisionInput" where
  "sample_decision requirementID actor = \<lparr>In_RequestID = '''', In_RequirementID = requirementID,
     In_Actor = actor, In_Comment = ''''\<rparr>"

text \<open>The world after the request is created, and after the first approval.\<close>

definition sample_opened :: world where
  "sample_opened = snd (CreateApprovalRequestForBreakingReport sample_service sample_create
     (sample_world sample_registry))"

definition sample_approved :: world where
  "sample_approved = snd (ApproveRequirement sample_service (sample_decision ''0-1'' ''alice'') sample_opened)"

section \<open>Runs of the service\<close>

text \<open>
  One request of the service, handled to its end from tables \<open>d\<close>: the clock, the random source and
  the faults of the environment are arbitrary, and so is the service's wiring as far as its policy
  and its read-only collaborators keep their contracts. \<open>elsewhere\<close> stands for the operations of
  the other components, none of which writes the approval tables.
\<close>

inductive served :: "platform \<Rightarrow> db \<Rightarrow> db \<Rightarrow> bool" for p :: platform where
  created:
    "CreateApprovalRequestForBreakingReport svc create w = (r, w') \<Longrightarrow> \<not> w_tx w \<Longrightarrow>
     w_platform w = p \<Longrightarrow> collaborators_read svc \<Longrightarrow> policy_evaluator (svc_policy svc) \<Longrightarrow>
     served p (w_db w) (w_db w')"
| approved:
    "ApproveRequirement svc input w = (r, w') \<Longrightarrow> \<not> w_tx w \<Longrightarrow> w_platform w = p \<Longrightarrow>
     served p (w_db w) (w_db w')"
| rejected:
    "RejectRequirement svc input w = (r, w') \<Longrightarrow> \<not> w_tx w \<Longrightarrow> w_platform w = p \<Longrightarrow>
     served p (w_db w) (w_db w')"
| elsewhere: "ledger_of d' = ledger_of d \<Longrightarrow> served p d d'"

inductive reached :: "platform \<Rightarrow> db \<Rightarrow> bool" for p :: platform where
  start: "reached p empty_db"
| run: "reached p d \<Longrightarrow> served p d d' \<Longrightarrow> reached p d'"

lemma served_step:
  assumes "served p d d'" and "uuid_laws p" and "ledger_inv (p_uuid p) (ledger_of d)"
  shows "ledger_of d' = ledger_of d \<or> ledger_step (p_uuid p) (ledger_of d) (ledger_of d')"
  using assms
proof (induction rule: served.induct)
  case (created svc create w r w')
  then show ?case using Create_refines [OF created(1)] by (auto simp: ledger_inv_def)
next
  case (approved svc input w r w')
  then show ?case using recordDecision_steps [of svc input _ w r w'] unfolding ApproveRequirement_def by auto
next
  case (rejected svc input w r w')
  then show ?case using recordDecision_steps [of svc input _ w r w'] unfolding RejectRequirement_def by auto
qed simp

lemma served_inv:
  assumes "served p d d'" and "uuid_laws p" and "ledger_inv (p_uuid p) (ledger_of d)"
  shows "ledger_inv (p_uuid p) (ledger_of d')"
  using served_step [OF assms] assms(3) ledger_step_inv by auto

lemma reached_inv:
  assumes "reached p d" and "uuid_laws p"
  shows "ledger_inv (p_uuid p) (ledger_of d)"
  using assms
proof (induction rule: reached.induct)
  case start
  show ?case by (simp add: ledger_inv_def ledger_ok_def ledger_of_def empty_db_def)
qed (rule served_inv)

lemma ledger_step_history:
  assumes "ledger_step U L L'" and "distinct (map req_id (led_requests L))"
  shows "prefix (led_decisions L) (led_decisions L')
    \<and> filter (\<lambda>q. req_status q \<noteq> ''pending'') (led_requests L)
      = filter (\<lambda>q. req_status q \<noteq> ''pending'' \<and> q \<in> set (led_requests L)) (led_requests L')"
  using assms
proof (cases rule: ledger_step.cases)
  case (opened q rs)
  have "q \<notin> set (led_requests L)" using opened(4) by blast
  then show ?thesis by (simp add: opened(1) open_request_def cong: filter_cong)
next
  case (decided q r e at)
  let ?f = "count_again (req_id q) (tally (statuses_of (record_decision e at L) (req_id q))) at"
  have same: "?f x = x" if "x \<in> set (led_requests L)" "req_status x \<noteq> ''pending''" for x
  proof -
    have "req_id x \<noteq> req_id q"
      using assms(2) that decided(2,3) by (metis distinct_map inj_onD)
    then show ?thesis by (simp add: count_again_def)
  qed
  have changed: "req_status x \<noteq> ''pending''"
    if x: "x \<in> set (led_requests L)" "req_status (?f x) \<noteq> ''pending''" "?f x \<in> set (led_requests L)" for x
  proof
    assume p: "req_status x = ''pending''"
    have "?f x = x"
      using assms(2) x(1,3) by (metis count_again_simps(1) distinct_map inj_onD)
    with p x(2) show False by simp
  qed
  have "filter (\<lambda>q. req_status q \<noteq> ''pending'' \<and> q \<in> set (led_requests L)) (map ?f xs)
      = filter (\<lambda>q. req_status q \<noteq> ''pending'') xs" if "set xs \<subseteq> set (led_requests L)" for xs
    using that
  proof (induction xs)
    case (Cons x xs)
    then show ?case using same [of x] changed [of x] by (cases "req_status x = ''pending''") auto
  qed simp
  then show ?thesis by (simp add: decided(1,7))
qed

lemma inv_ok: "ledger_inv (p_uuid p) (ledger_of d) \<Longrightarrow> approvals_ok (p_uuid p) d"
  by (simp add: ledger_inv_def approvals_ok_def)

lemma filter_key_le_one: "distinct (map k xs) \<Longrightarrow> length (filter (\<lambda>x. k x = v) xs) \<le> 1"
proof (induction xs)
  case (Cons x xs)
  then show ?case
    by (cases "k x = v") (auto simp: filter_empty_conv image_iff)
qed simp

section \<open>Invariants of every run\<close>

lemma approval_values:
  "s \<in> {''approved'', ''rejected''} \<Longrightarrow> \<exists>v. s = ApprovalDecisionValue_String v"
  using ApprovalDecisionValue_String.simps by (metis empty_iff insert_iff)

text \<open>
  C1: in every state that handled requests lead to, the stored status and both counters of an
  approval request are the tally of its requirements: rejected as soon as one requirement is,
  approved when all are, pending otherwise, not required without requirements; the required count
  is their number and the received count the number approved.
\<close>

theorem requests_tally:
  assumes "reached p d" and "uuid_laws p" and "q \<in> set (db_requests d)"
  shows "(req_status q, req_required_approvals q, req_received_approvals q)
    = tally (map rqm_status (requirements_of (db_requirements d) (req_id q)))"
  using reached_inv [OF assms(1,2)] assms(3)
  by (simp add: ledger_inv_def counters_def statuses_of_def)

text \<open>
  C8: in every such state a requirement has at most one decision, its status is that decision's
  value, and it is pending exactly while it has none; two requests never belong to one report.
\<close>

theorem one_decision_per_requirement:
  assumes "reached p d" and "uuid_laws p" and "r \<in> set (db_requirements d)"
  shows "(case filter (\<lambda>e. dec_requirement_id e = rqm_id r) (db_decisions d) of
      [] \<Rightarrow> rqm_status r = ''pending''
    | [e] \<Rightarrow> rqm_status r = dec_decision e \<and> dec_approval_request_id e = rqm_approval_request_id r
        \<and> dec_decision e \<in> {''approved'', ''rejected''}
    | _ \<Rightarrow> False)
    \<and> distinct (filter (\<lambda>b. b \<noteq> None) (map req_breaking_report_id (db_requests d)))"
proof -
  have inv: "ledger_inv (p_uuid p) (ledger_of d)" by (rule reached_inv [OF assms(1,2)])
  let ?es = "filter (\<lambda>e. dec_requirement_id e = rqm_id r) (db_decisions d)"
  have reports: "distinct (filter (\<lambda>b. b \<noteq> None) (map req_breaking_report_id (db_requests d)))"
    and distinct: "distinct (map dec_requirement_id (db_decisions d))"
    and vals: "\<forall>e \<in> set (db_decisions d). dec_decision e \<in> {''approved'', ''rejected''}"
    using inv by (auto simp: ledger_inv_def ledger_ok_def)
  have "standing_decision (ledger_of d) r" using inv assms(3) by (simp add: ledger_inv_def)
  note standing = this
  have one: "length ?es \<le> 1"
    using distinct by (rule filter_key_le_one)
  show ?thesis
  proof (cases ?es)
    case Nil
    then have "\<forall>e \<in> set (db_decisions d). dec_requirement_id e \<noteq> rqm_id r"
      by (simp add: filter_empty_conv)
    then show ?thesis using standing reports Nil by (auto simp: standing_decision_def)
  next
    case (Cons e rest)
    then have es: "?es = [e]" using one by simp
    then have e: "{f \<in> set (db_decisions d). dec_requirement_id f = rqm_id r} = {e}"
      by (metis list.set(1,2) set_filter)
    then have mem: "e \<in> set (db_decisions d)" "dec_requirement_id e = rqm_id r" by auto
    have only: "f = e" if "f \<in> set (db_decisions d)" "dec_requirement_id f = rqm_id r" for f
      using e that by blast
    obtain f where "f \<in> set (db_decisions d)" "dec_requirement_id f = rqm_id r"
      "dec_approval_request_id f = rqm_approval_request_id r" "rqm_status r = dec_decision f"
      using standing mem by (auto simp: standing_decision_def)
    then have link: "rqm_status r = dec_decision e" "dec_approval_request_id e = rqm_approval_request_id r"
      using only [of f] by simp_all
    have "dec_decision e \<in> {''approved'', ''rejected''}" by (rule bspec [OF vals mem(1)])
    then show ?thesis unfolding es list.case using link reports by (intro conjI)
  qed
qed

text \<open>
  C9: in every such state the tables are well typed for the code that reads them: each stored status of a request
  or requirement is one its parser accepts, and each stored decision is read without an error.
\<close>

theorem stored_statuses_typed:
  assumes "reached p d" and "uuid_laws p"
  shows "(\<forall>q \<in> set (db_requests d). \<exists>s. NewApprovalRequestStatus (req_status q) = Inr s)
    \<and> (\<forall>r \<in> set (db_requirements d). \<exists>s. NewApprovalRequirementStatus (rqm_status r) = Inr s)
    \<and> (\<forall>e \<in> set (db_decisions d). \<exists>x. scanApprovalDecision e = Inr x
         \<and> dec_decision e = ApprovalDecisionValue_String (Decision_Decision x))"
proof -
  have inv: "ledger_inv (p_uuid p) (ledger_of d)" by (rule reached_inv [OF assms])
  have decisions: "\<exists>v. dec_decision e = ApprovalDecisionValue_String v" if "e \<in> set (db_decisions d)" for e
    using inv that approval_values [of "dec_decision e"] by (auto simp: ledger_inv_def ledger_ok_def)
  have requests: "\<exists>s. req_status q = ApprovalRequestStatus_String s" if "q \<in> set (db_requests d)" for q
  proof -
    have "counters q = tally (statuses_of (ledger_of d) (req_id q))" using inv that by (simp add: ledger_inv_def)
    then have "req_status q \<in> {''not_required'', ''rejected'', ''approved'', ''pending''}"
      by (auto simp: counters_def tally_def split: if_splits)
    then show ?thesis
      using ApprovalRequestStatus_String.simps by (metis empty_iff insert_iff)
  qed
  have requirements: "\<exists>s. rqm_status r = ApprovalRequirementStatus_String s" if "r \<in> set (db_requirements d)" for r
  proof -
    have "standing_decision (ledger_of d) r" using inv that by (simp add: ledger_inv_def)
    then have "rqm_status r \<in> {''pending'', ''approved'', ''rejected''}"
      using inv by (auto simp: standing_decision_def ledger_inv_def ledger_ok_def)
    then show ?thesis using ApprovalRequirementStatus_String.simps by (metis empty_iff insert_iff)
  qed
  show ?thesis
    using decisions requests requirements by (fastforce simp: scanApprovalDecision_def)
qed

text \<open>
  C11: a handled request never rewrites history. Decisions are only appended, and an approval request
  whose status is final (anything but pending) is left exactly as it is.
\<close>

theorem final_requests_stay:
  assumes "served p d d'" and "uuid_laws p" and "ledger_inv (p_uuid p) (ledger_of d)"
  shows "prefix (db_decisions d) (db_decisions d')
    \<and> filter (\<lambda>q. req_status q \<noteq> ''pending'') (db_requests d)
      = filter (\<lambda>q. req_status q \<noteq> ''pending'' \<and> q \<in> set (db_requests d)) (db_requests d')"
proof -
  have "led_decisions (ledger_of d) = led_decisions (ledger_of d') \<and>
      led_requests (ledger_of d) = led_requests (ledger_of d')
    \<or> ledger_step (p_uuid p) (ledger_of d) (ledger_of d')"
    using served_step [OF assms] by presburger
  moreover have "distinct (map req_id (db_requests d))"
    using assms(3) by (simp add: ledger_inv_def ledger_ok_def)
  ultimately show ?thesis
    using ledger_step_history [of "p_uuid p" "ledger_of d" "ledger_of d'"] by (auto cong: filter_cong)
qed

lemma ledger_reachable_served:
  assumes "reached p d" and "uuid_laws p"
  shows "ledger_reachable (p_uuid p) (ledger_of d)"
  using assms
proof (induction rule: reached.induct)
  case start
  have "ledger_of empty_db = \<lparr>led_requests = [], led_requirements = [], led_decisions = []\<rparr>"
    by (simp add: ledger_of_def empty_db_def)
  then show ?case by (simp add: ledger_reachable.start)
next
  case (run d d')
  from served_step [OF run(2,4) reached_inv [OF run(1,4)]] run(3,4) show ?case
    by (auto intro: ledger_reachable.step)
qed

text \<open>
  C3: the decision handlers implement the abstract machine. From every state that handled requests
  lead to, which abstracts to a reachable state of the machine, a call either fails and changes
  nothing, or it is the machine's step that records one decision: the called value on the named
  requirement by the acting subject.
\<close>

theorem decisions_refine_machine:
  assumes "reached (w_platform w) (w_db w)" and "uuid_laws (w_platform w)" and "\<not> w_tx w"
    and "recordDecision svc input v w = (res, w')"
  shows "ledger_reachable (p_uuid (w_platform w)) (ledger_of (w_db w))
    \<and> (w_db w' = w_db w \<and> (\<exists>e. res = Inl e)
       \<or> ledger_step (p_uuid (w_platform w)) (ledger_of (w_db w)) (ledger_of (w_db w'))
         \<and> (\<exists>e at. ledger_of (w_db w') = record_decision e at (ledger_of (w_db w))
              \<and> dec_requirement_id e = NewID (In_RequirementID input)
              \<and> dec_decision e = ApprovalDecisionValue_String v
              \<and> dec_decided_by e = TrimSpace (In_Actor input)))"
  by (rule conjI [OF ledger_reachable_served [OF assms(1,2)]
      recordDecision_refines [OF assms(4,3,2) reached_inv [OF assms(1,2)]]])

section \<open>Recording a decision\<close>

text \<open>The shape of every run that writes: prepared on the tables it then commits to.\<close>

lemma recordDecision_written:
  assumes run: "recordDecision svc input v w = (res, w')" and outside: "\<not> w_tx w"
    and laws: "uuid_laws (w_platform w)" and ok: "approvals_ok (p_uuid (w_platform w)) (w_db w)"
    and changed: "w_db w' \<noteq> w_db w"
  obtains prep w1 w2 q r request requirement did now
  where "decidable svc input (w_platform w) (w_db w) q r request requirement"
    and "prep = decide request requirement
           \<lparr>Decision_ID = did, Decision_ApprovalRequestID = req_id q, Decision_RequirementID = rqm_id r,
            Decision_Decision = v, Decision_DecidedBy = TrimSpace (In_Actor input),
            Decision_Comment = In_Comment input, Decision_CreatedAt = now\<rparr>
           (TrimSpace (In_Actor input)) now"
    and "w_db w1 = w_db w" and "same_env w w1" and "commitDecision prep w1 = (Inr (), w2)"
    and "w_db w' = w_db w2" and "ApprovalRepo_GetRequestByID (Request_ID (Prep_Request prep)) w2 = (res, w')"
proof -
  obtain x w1 where p: "prepareDecision svc input v w = (x, w1)" by fastforce
  have w1: "w_db w1 = w_db w" "same_env w w1"
    using reads_onlyD [OF prepareDecision_reads p] stepsD [OF prepareDecision_env p] by simp_all
  obtain prep where x: "x = Inr prep"
    using run p w1 changed by (cases x) (auto simp: recordDecision_def bindE_def)
  obtain y w2 where c: "commitDecision prep w1 = (y, w2)" by fastforce
  have y: "y = Inr ()"
  proof (cases y)
    case (Inl e)
    have "w_db w2 = w_db w1"
      using c Inl outside w1 unfolding commitDecision_def Let_def
      by (auto simp: same_env_def dest: WithinTransaction_error)
    with run p c x Inl w1 changed show ?thesis by (simp add: recordDecision_def bindE_def)
  qed simp
  have last: "ApprovalRepo_GetRequestByID (Request_ID (Prep_Request prep)) w2 = (res, w')"
    using run p c x y by (simp add: recordDecision_def bindE_def)
  show ?thesis
    using prepareDecision_Inr [OF p [unfolded x] laws ok] that [OF _ _ w1 c [unfolded y] _ last]
      reads_onlyD [OF GetRequestByID_reads last] by metis
qed

text \<open>The owner entry behind \<open>may_decide\<close>.\<close>

lemma may_decide_owner:
  assumes "may_decide p owners (allowedPolicyRoles cfg) (map_option NewID target) actor"
  shows "\<exists>t u own. target = Some t \<and> p_uuid p (NewID t) = Some u \<and> own \<in> set owners
    \<and> own_module_id own = u \<and> own_subject own = actor \<and> own_subject_type own \<in> {''user'', ''team''}
    \<and> TrimSpace (own_role own) \<in> {''owner''}
        \<union> (if Config_AllowMaintainerApproval cfg then {''maintainer''} else {})"
proof -
  have role: "TrimSpace s \<in> {''owner''} \<union> (if Config_AllowMaintainerApproval cfg then {''maintainer''} else {})"
    if "NewModuleOwnerRole s = Inr role" "role \<in> set (allowedPolicyRoles cfg)" for s role
  proof -
    have "ModuleOwnerRole_String role = TrimSpace s"
      using that(1) by (auto simp: NewModuleOwnerRole_def find_Some_iff split: option.splits)
    then show ?thesis
      using that(2) by (auto simp: allowedPolicyRoles_def split: if_splits)
  qed
  then show ?thesis
    using assms unfolding may_decide_def by (smt (verit) map_option_eq_Some)
qed

text \<open>The new decision row, the requirement it decides, and the owner entry that allows it.\<close>

lemma recorded_decision:
  assumes "recordDecision svc input v w = (res, w')" and "\<not> w_tx w"
    and "uuid_laws (w_platform w)" and "approvals_ok (p_uuid (w_platform w)) (w_db w)"
    and "w_db w' \<noteq> w_db w"
  obtains row own r target where "db_decisions (w_db w') = db_decisions (w_db w) @ [row]"
    and "dec_decided_by row = TrimSpace (In_Actor input)"
    and "r \<in> set (db_requirements (w_db w))" and "rqm_id r = NewID (In_RequirementID input)"
    and "dec_requirement_id row = rqm_id r" and "rqm_target_module_id r = Some target"
    and "own \<in> set (db_owners (w_db w))" and "p_uuid (w_platform w) (NewID target) = Some (own_module_id own)"
    and "own_subject own = TrimSpace (In_Actor input)" and "own_subject_type own \<in> {''user'', ''team''}"
    and "TrimSpace (own_role own) \<in> {''owner''}
          \<union> (if Config_AllowMaintainerApproval (svc_policyConfig svc) then {''maintainer''} else {})"
proof (rule recordDecision_written [OF assms])
  fix prep w1 w2 request requirement did now and q :: request_row and r :: requirement_row
  assume can: "decidable svc input (w_platform w) (w_db w) q r request requirement"
    and prep: "prep = decide request requirement
           \<lparr>Decision_ID = did, Decision_ApprovalRequestID = req_id q, Decision_RequirementID = rqm_id r,
            Decision_Decision = v, Decision_DecidedBy = TrimSpace (In_Actor input),
            Decision_Comment = In_Comment input, Decision_CreatedAt = now\<rparr>
           (TrimSpace (In_Actor input)) now"
    and w1: "w_db w1 = w_db w" "same_env w w1" and commit: "commitDecision prep w1 = (Inr (), w2)"
    and w': "w_db w' = w_db w2"
  have "Requirement_TargetModuleID requirement = map_option NewID (rqm_target_module_id r)"
    using can scanApprovalRequirement_Inr(3) by (simp add: decidable_def)
  then have "may_decide (w_platform w) (db_owners (w_db w)) (allowedPolicyRoles (svc_policyConfig svc))
      (map_option NewID (rqm_target_module_id r)) (TrimSpace (In_Actor input))"
    using can by (simp add: decidable_def)
  then obtain t own where owner: "rqm_target_module_id r = Some t" "own \<in> set (db_owners (w_db w))"
      "p_uuid (w_platform w) (NewID t) = Some (own_module_id own)"
      "own_subject own = TrimSpace (In_Actor input)" "own_subject_type own \<in> {''user'', ''team''}"
      "TrimSpace (own_role own) \<in> {''owner''}
        \<union> (if Config_AllowMaintainerApproval (svc_policyConfig svc) then {''maintainer''} else {})"
    using may_decide_owner by blast
  have r: "r \<in> set (db_requirements (w_db w))" "rqm_id r = NewID (In_RequirementID input)"
    using can by (auto simp: decidable_def requirements_of_def)
  have "p_uuid (w_platform w1) (rqm_id r) = Some (rqm_id r)"
    using approvals_okD(2) [OF assms(4) r(1)] w1(2) unfolding fits_def same_env_def by metis
  note canonical = this
  have coherent: "Decision_RequirementID (Prep_Decision prep) = Requirement_ID (Prep_Requirement prep)"
      "Decision_ApprovalRequestID (Prep_Decision prep) = Request_ID (Prep_Request prep)"
    using can by (simp_all add: prep decide_def Let_def decidable_def loaded_def)
  have outside: "\<not> w_tx w1" using assms(2) w1 by (simp add: same_env_def)
  show thesis
  proof (rule commitDecision_Inr [OF commit outside coherent])
    fix di aid ri audits event
    assume at: "p_uuid (w_platform w1) (Requirement_ID (Prep_Requirement prep)) = Some ri"
      and "w_db w2 = decided_db aid ri prep (row_of_decision di aid ri (Prep_Decision prep)) audits event (w_db w1)"
    then have "db_decisions (w_db w') = db_decisions (w_db w) @ [row_of_decision di aid ri (Prep_Decision prep)]"
      by (simp add: w' w1)
    moreover have "dec_decided_by (row_of_decision di aid ri (Prep_Decision prep)) = TrimSpace (In_Actor input)"
      by (simp add: prep decide_def Let_def row_of_decision_def)
    moreover have "dec_requirement_id (row_of_decision di aid ri (Prep_Decision prep)) = rqm_id r"
      using at canonical can by (simp add: prep decide_def Let_def decidable_def)
    ultimately show thesis using that r owner by blast
  qed
qed

text \<open>
  C2: whoever records a decision is entitled to it. When a request to approve or reject changes any
  table, the requirement it names was pending, undecided and part of a pending request, and its
  target module has an owner entry for the acting subject whose role the policy allows to decide.
\<close>

theorem decision_authorised:
  assumes "recordDecision svc input v w = (res, w')" and "\<not> w_tx w"
    and "uuid_laws (w_platform w)" and "approvals_ok (p_uuid (w_platform w)) (w_db w)"
    and "w_db w' \<noteq> w_db w"
  shows "\<exists>r \<in> set (db_requirements (w_db w)). \<exists>q \<in> set (db_requests (w_db w)).
      rqm_id r = NewID (In_RequirementID input) \<and> rqm_approval_request_id r = req_id q
    \<and> NewID (In_RequestID input) \<in> {'''', req_id q}
    \<and> rqm_status r = ''pending'' \<and> req_status q = ''pending''
    \<and> (\<forall>e \<in> set (db_decisions (w_db w)).
         \<not> (dec_requirement_id e = rqm_id r \<and> dec_approval_request_id e = req_id q))
    \<and> (\<exists>target u own. rqm_target_module_id r = Some target
         \<and> p_uuid (w_platform w) (NewID target) = Some u \<and> own \<in> set (db_owners (w_db w))
         \<and> own_module_id own = u \<and> own_subject own = TrimSpace (In_Actor input)
         \<and> own_subject_type own \<in> {''user'', ''team''}
         \<and> TrimSpace (own_role own) \<in> {''owner''}
             \<union> (if Config_AllowMaintainerApproval (svc_policyConfig svc) then {''maintainer''} else {}))"
proof (rule recordDecision_written [OF assms])
  fix q r request requirement
  assume can: "decidable svc input (w_platform w) (w_db w) q r request requirement"
  have row: "r \<in> set (db_requirements (w_db w))" "rqm_approval_request_id r = req_id q"
    and q: "q \<in> set (db_requests (w_db w))"
    using can by (auto simp: decidable_def requirements_of_def loaded_def)
  have scan: "Requirement_TargetModuleID requirement = map_option NewID (rqm_target_module_id r)"
    using can scanApprovalRequirement_Inr(3) by (simp add: decidable_def)
  have "may_decide (w_platform w) (db_owners (w_db w)) (allowedPolicyRoles (svc_policyConfig svc))
      (map_option NewID (rqm_target_module_id r)) (TrimSpace (In_Actor input))"
    using can by (simp add: decidable_def flip: scan)
  note owner = may_decide_owner [OF this]
  show ?thesis
    using can owner q row
    by (intro bexI [of _ r] bexI [of _ q]) (auto simp: decidable_def)
qed

text \<open>The totals a decision stores, over the requirement rows as the decision leaves them.\<close>

lemma decide_totals:
  assumes load: "loaded d q request" and mem: "requirement \<in> set (Request_Requirements request)"
    and prep: "prep = decide request requirement decision actor now"
    and rows: "rows = map (\<lambda>x. if rqm_id x = Requirement_ID requirement
        then x\<lparr>rqm_status := ApprovalDecisionValue_String (Decision_Decision decision), rqm_updated_at := now\<rparr>
        else x) (db_requirements d)"
    and ss: "ss = map rqm_status (filter (\<lambda>x. rqm_approval_request_id x = req_id q) rows)"
  shows "Prep_Required prep = int (length ss)"
    and "Prep_Received prep = int (length (filter (\<lambda>s. s = ''approved'') ss))"
    and "ApprovalRequestStatus_String (Prep_RequestStatus prep)
      = (if Decision_Decision decision = ApprovalDecisionValueRejected then ''rejected''
         else if list_all (\<lambda>s. s \<in> {''approved'', ''not_required''}) ss then ''approved'' else ''pending'')"
    and "ApprovalRequirementStatus_String (Prep_RequirementStatus prep)
      = ApprovalDecisionValue_String (Decision_Decision decision)"
proof -
  let ?xs = "Request_Requirements request" and ?rid = "Requirement_ID requirement"
    and ?v = "ApprovalDecisionValue_String (Decision_Decision decision)"
  have "rows = map (settle ?rid ?v now) (db_requirements d)"
    by (simp add: rows settle_def)
  then have "ss = map rqm_status (map (settle ?rid ?v now) (requirements_of (db_requirements d) (req_id q)))"
    by (simp only: ss requirements_of_def [symmetric] requirements_of_settle)
  then have same: "mset ss = mset (after ?rid ?v (pairs_of ?xs))"
    using load after_mset [of "pairs_of ?xs"]
    by (simp only: after_settle [symmetric] loaded_def pairs_of_def)
  show verdict: "ApprovalRequirementStatus_String (Prep_RequirementStatus prep) = ?v"
    by (cases "Decision_Decision decision") (simp_all add: prep decide_def Let_def)
  have whole: "length ss = length ?xs"
    using mset_eq_length [OF same] by (simp only: after_def pairs_of_def length_map)
  have "mset (filter (\<lambda>s. s = ''approved'') ss)
      = mset (filter (\<lambda>s. s = ''approved'') (after ?rid ?v (pairs_of ?xs)))"
    by (simp only: mset_filter same)
  note approvals = mset_eq_length [OF this]
  show "Prep_Required prep = int (length ss)"
    by (simp add: whole prep decide_def Let_def)
  have "Prep_Received prep = receivedApprovalsAfter ?xs ?rid (Prep_RequirementStatus prep)"
    by (simp add: prep decide_def Let_def)
  then show "Prep_Received prep = int (length (filter (\<lambda>s. s = ''approved'') ss))"
    by (simp only: receivedApprovalsAfter_tally verdict tally_def snd_conv approvals)
  show "ApprovalRequestStatus_String (Prep_RequestStatus prep)
      = (if Decision_Decision decision = ApprovalDecisionValueRejected then ''rejected''
         else if list_all (\<lambda>s. s \<in> {''approved'', ''not_required''}) ss then ''approved'' else ''pending'')"
  proof (cases "Decision_Decision decision")
    case ApprovalDecisionValueApproved
    have "list_all (\<lambda>s. s \<in> {''approved'', ''not_required''}) ss
        \<longleftrightarrow> allRequirementsApprovedAfter ?xs ?rid"
      unfolding allRequirementsApprovedAfter_tally list_all_iff mset_eq_setD [OF same]
      by (simp only: ApprovalDecisionValueApproved ApprovalDecisionValue_String.simps insert_iff empty_iff simp_thms)
    then show ?thesis
      by (simp only: ApprovalDecisionValueApproved prep decide_def Let_def) simp
  qed (simp add: prep decide_def Let_def)
qed

text \<open>
  C4: a recorded decision is one transaction, and these are exactly the tables it leaves. The
  requirement it names takes the verdict; its request takes the status, the number of
  requirements and the number of approvals which the requirement rows then show; exactly one decision
  row comes in, with the acting subject, the verdict and the comment; exactly one
  \<open>approval_decision_recorded\<close> audit row, and one \<open>approval_request_status_changed\<close> row precisely when
  the decision settles the request; and exactly one pending outbox record, of the decision. Every
  other requirement, request and table is as it was.
\<close>

theorem decision_effects:
  assumes "recordDecision svc input v w = (res, w')" and "\<not> w_tx w"
    and "uuid_laws (w_platform w)" and "approvals_ok (p_uuid (w_platform w)) (w_db w)"
    and "w_db w' \<noteq> w_db w"
  shows "\<exists>row audits event q r now rows ss st.
      q \<in> set (db_requests (w_db w)) \<and> req_status q = ''pending''
    \<and> r \<in> set (db_requirements (w_db w)) \<and> rqm_id r = NewID (In_RequirementID input)
    \<and> rqm_approval_request_id r = req_id q \<and> rqm_status r = ''pending''
    \<and> rows = map (\<lambda>x. if rqm_id x = rqm_id r
         then x\<lparr>rqm_status := ApprovalDecisionValue_String v, rqm_updated_at := now\<rparr> else x)
         (db_requirements (w_db w))
    \<and> ss = map rqm_status (filter (\<lambda>x. rqm_approval_request_id x = req_id q) rows)
    \<and> st = (if v = ApprovalDecisionValueRejected then ''rejected''
         else if list_all (\<lambda>s. s \<in> {''approved'', ''not_required''}) ss then ''approved'' else ''pending'')
    \<and> w_db w' = (w_db w)
        \<lparr>db_requests := map (\<lambda>x. if req_id x = req_id q
           then x\<lparr>req_status := st, req_required_approvals := int (length ss),
                  req_received_approvals := int (length (filter (\<lambda>s. s = ''approved'') ss)),
                  req_updated_at := now\<rparr> else x) (db_requests (w_db w)),
         db_requirements := rows,
         db_decisions := db_decisions (w_db w) @ [row],
         db_audits := db_audits (w_db w) @ audits,
         db_outbox := db_outbox (w_db w) @ [event],
         db_generated := Suc (db_generated (w_db w))\<rparr>
    \<and> dec_approval_request_id row = req_id q \<and> dec_requirement_id row = rqm_id r
    \<and> dec_decision row = ApprovalDecisionValue_String v \<and> dec_comment row = In_Comment input
    \<and> dec_decided_by row = TrimSpace (In_Actor input) \<and> dec_created_at row = now
    \<and> map aud_event_type audits = ''approval_decision_recorded''
        # (if st = ''pending'' then [] else [''approval_request_status_changed''])
    \<and> (\<forall>a \<in> set audits. aud_actor a = TrimSpace (In_Actor input) \<and> aud_created_at a = now)
    \<and> obx_event_type event = ''protoradar.approval_decision.recorded'' \<and> obx_status event = ''pending''"
proof (rule recordDecision_written [OF assms])
  fix prep w1 w2 request requirement did now and q :: request_row and r :: requirement_row
  let ?dec = "\<lparr>Decision_ID = did, Decision_ApprovalRequestID = req_id q, Decision_RequirementID = rqm_id r,
            Decision_Decision = v, Decision_DecidedBy = TrimSpace (In_Actor input),
            Decision_Comment = In_Comment input, Decision_CreatedAt = now\<rparr>"
  assume can: "decidable svc input (w_platform w) (w_db w) q r request requirement"
    and prep: "prep = decide request requirement ?dec (TrimSpace (In_Actor input)) now"
    and w1: "w_db w1 = w_db w" "same_env w w1" and commit: "commitDecision prep w1 = (Inr (), w2)"
    and w': "w_db w' = w_db w2"
  have parts: "Prep_Decision prep = ?dec" "Prep_Request prep = request" "Prep_Requirement prep = requirement"
    "Prep_Actor prep = TrimSpace (In_Actor input)" "Prep_Now prep = now"
    using prep by (simp_all add: decide_def Let_def)
  have load: "loaded (w_db w) q request" "requirement \<in> set (Request_Requirements request)"
    and ids: "Requirement_ID requirement = rqm_id r" "Request_ID request = req_id q"
    and q: "q \<in> set (db_requests (w_db w))" "req_status q = ''pending''"
    and status: "ApprovalRequestStatus_String (Request_Status request) = ''pending''"
    and rid: "rqm_id r = NewID (In_RequirementID input)" "r \<in> set (db_requirements (w_db w))"
      "rqm_approval_request_id r = req_id q" "rqm_status r = ''pending''"
    using can by (auto simp: decidable_def loaded_def requirements_of_def)
  define rows where "rows = map (\<lambda>x. if rqm_id x = rqm_id r
      then x\<lparr>rqm_status := ApprovalDecisionValue_String v, rqm_updated_at := now\<rparr> else x) (db_requirements (w_db w))"
  define ss where "ss = map rqm_status (filter (\<lambda>x. rqm_approval_request_id x = req_id q) rows)"
  define st where "st = (if v = ApprovalDecisionValueRejected then ''rejected''
      else if list_all (\<lambda>s. s \<in> {''approved'', ''not_required''}) ss then ''approved'' else ''pending'')"
  have counted: "Prep_Required prep = int (length ss)"
    "Prep_Received prep = int (length (filter (\<lambda>s. s = ''approved'') ss))"
    "ApprovalRequestStatus_String (Prep_RequestStatus prep) = st"
    "ApprovalRequirementStatus_String (Prep_RequirementStatus prep) = ApprovalDecisionValue_String v"
    unfolding st_def by (rule decide_totals [OF load prep _ ss_def, simplified ApprovalDecision.simps];
      simp add: rows_def ids)+
  have outside: "\<not> w_tx w1" using assms(2) w1 by (simp add: same_env_def)
  have canonical: "p_uuid (w_platform w1) (req_id q) = Some (req_id q)"
      "p_uuid (w_platform w1) (rqm_id r) = Some (rqm_id r)"
    using approvals_okD(1) [OF assms(4) q(1)] approvals_okD(2) [OF assms(4) rid(2)] w1(2)
    unfolding fits_def same_env_def by metis+
  have settled: "Request_Status request \<noteq> Prep_RequestStatus prep \<longleftrightarrow> st \<noteq> ''pending''"
    using status counted(3) by (cases "Request_Status request"; cases "Prep_RequestStatus prep") auto
  show ?thesis
  proof (rule commitDecision_Inr [OF commit outside])
    fix di aid ri audits event
    assume at: "p_uuid (w_platform w1) (Request_ID (Prep_Request prep)) = Some aid"
        "p_uuid (w_platform w1) (Requirement_ID (Prep_Requirement prep)) = Some ri"
      and d': "w_db w2 = decided_db aid ri prep (row_of_decision di aid ri (Prep_Decision prep)) audits event (w_db w1)"
      and audits: "map aud_event_type audits = ''approval_decision_recorded''
           # (if Request_Status (Prep_Request prep) \<noteq> Prep_RequestStatus prep
              then [''approval_request_status_changed''] else [])"
        "\<forall>row \<in> set audits. aud_actor row = TrimSpace (Prep_Actor prep) \<and> aud_created_at row = Prep_Now prep"
      and event: "obx_event_type event = ''protoradar.approval_decision.recorded''" "obx_status event = ''pending''"
    have eq: "aid = req_id q" "ri = rqm_id r" using at canonical by (simp_all add: parts ids)
    let ?row = "row_of_decision di aid ri (Prep_Decision prep)"
    have row: "dec_comment ?row = In_Comment input" "dec_decided_by ?row = TrimSpace (In_Actor input)"
      "dec_created_at ?row = now"
      by (simp_all add: row_of_decision_def parts)
    have after: "w_db w' = (w_db w)
        \<lparr>db_requests := map (\<lambda>x. if req_id x = req_id q
           then x\<lparr>req_status := st, req_required_approvals := int (length ss),
                  req_received_approvals := int (length (filter (\<lambda>s. s = ''approved'') ss)),
                  req_updated_at := now\<rparr> else x) (db_requests (w_db w)),
         db_requirements := rows, db_decisions := db_decisions (w_db w) @ [?row],
         db_audits := db_audits (w_db w) @ audits, db_outbox := db_outbox (w_db w) @ [event],
         db_generated := Suc (db_generated (w_db w))\<rparr>"
      by (simp add: w' d' w1 eq parts decided_db_def decided_request_def decided_requirement_def counted rows_def)
    show ?thesis
      by (rule exI [of _ ?row], rule exI [of _ audits], rule exI [of _ event], rule exI [of _ q],
          rule exI [of _ r], rule exI [of _ now], rule exI [of _ rows], rule exI [of _ ss], rule exI [of _ st])
        (use audits event row q rid after in \<open>simp add: rows_def ss_def st_def eq parts settled\<close>)
  qed (simp_all add: parts ids)
qed

text \<open>
  an error answer leaves every table as it was, except that the decision is already committed
  when only the final reading back of the request fails.
\<close>

theorem decision_error:
  assumes "recordDecision svc input v w = (Inl e, w')" and "\<not> w_tx w"
    and "uuid_laws (w_platform w)" and "approvals_ok (p_uuid (w_platform w)) (w_db w)"
  shows "w_db w' = w_db w
    \<or> (\<exists>prep w2. (\<exists>w1. commitDecision prep w1 = (Inr (), w2))
         \<and> ApprovalRepo_GetRequestByID (Request_ID (Prep_Request prep)) w2 = (Inl e, w'))"
proof (cases "w_db w' = w_db w")
  case False
  show ?thesis by (rule recordDecision_written [OF assms False]) blast
qed simp

lemma recordDecision_refused:
  assumes "recordDecision svc input v w = (res, w')"
    and "\<And>prep w1. prepareDecision svc input v w \<noteq> (Inr prep, w1)"
  shows "w_db w' = w_db w \<and> (\<exists>e. res = Inl e)"
proof -
  obtain e w1 where e: "prepareDecision svc input v w = (Inl e, w1)"
    using assms(2) by (metis surj_pair sum.exhaust)
  then have "res = Inl e" "w' = w1"
    using assms(1) by (auto simp: recordDecision_def bindE_stop)
  then show ?thesis using reads_onlyD [OF prepareDecision_reads e] by simp
qed

text \<open>
  a requirement is only ever decided through the canonical text of its identifier. The database
  also accepts the identifier without dashes, which is the form in which creating a request returns
  it; naming a requirement that way is always an error and writes nothing.
\<close>

theorem noncanonical_requirement_refused:
  assumes "recordDecision svc input v w = (res, w')" and "\<not> w_tx w"
    and "uuid_laws (w_platform w)" and "approvals_ok (p_uuid (w_platform w)) (w_db w)"
    and "p_uuid (w_platform w) (NewID (In_RequirementID input)) = Some u"
    and "u \<noteq> NewID (In_RequirementID input)"
  shows "w_db w' = w_db w \<and> (\<exists>e. res = Inl e)"
proof -
  have "prepareDecision svc input v w \<noteq> (Inr prep, w1)" for prep w1
  proof
    assume "prepareDecision svc input v w = (Inr prep, w1)"
    then show False
    proof (rule prepareDecision_Inr [OF _ assms(3,4)])
      fix q r request requirement
      assume "decidable svc input (w_platform w) (w_db w) q r request requirement"
      then have "NewID (In_RequirementID input) = rqm_id r" "r \<in> set (db_requirements (w_db w))"
        by (auto simp: decidable_def requirements_of_def)
      then show False
        using approvals_okD(2) [OF assms(4)] assms(5,6) by (fastforce simp: fits_def)
    qed
  qed
  then show ?thesis by (rule recordDecision_refused [OF assms(1)])
qed

text \<open>
  C12: a requirement that has a decision, or that belongs to a request that is no longer pending, is
  never decided again: the request is refused and writes nothing.
\<close>

theorem decided_requirement_refused:
  assumes "recordDecision svc input v w = (res, w')" and "\<not> w_tx w"
    and "uuid_laws (w_platform w)" and "ledger_ok (p_uuid (w_platform w)) (ledger_of (w_db w))"
    and "r \<in> set (db_requirements (w_db w))" and "NewID (In_RequirementID input) = rqm_id r"
    and "(\<exists>e \<in> set (db_decisions (w_db w)). dec_requirement_id e = rqm_id r
           \<and> dec_approval_request_id e = rqm_approval_request_id r)
       \<or> (\<forall>q \<in> set (db_requests (w_db w)). req_id q = rqm_approval_request_id r
           \<longrightarrow> req_status q \<noteq> ''pending'')"
  shows "w_db w' = w_db w \<and> (\<exists>e. res = Inl e)"
proof -
  have ok: "approvals_ok (p_uuid (w_platform w)) (w_db w)"
    using assms(4) by (simp add: approvals_ok_def)
  have "prepareDecision svc input v w \<noteq> (Inr prep, w1)" for prep w1
  proof
    assume "prepareDecision svc input v w = (Inr prep, w1)"
    then show False
    proof (rule prepareDecision_Inr [OF _ assms(3) ok])
      fix q r' request requirement
      assume can: "decidable svc input (w_platform w) (w_db w) q r' request requirement"
      then have r': "r' \<in> set (db_requirements (w_db w))" "rqm_id r' = rqm_id r"
        "rqm_approval_request_id r' = req_id q" "q \<in> set (db_requests (w_db w))" "req_status q = ''pending''"
        using assms(6) by (auto simp: decidable_def requirements_of_def loaded_def)
      then have "r' = r"
        using ledger_okD(2) [OF assms(4)] assms(5) by (simp add: distinct_map inj_on_def)
      then show False
        using can r' assms(7) by (auto simp: decidable_def)
    qed
  qed
  then show ?thesis by (rule recordDecision_refused [OF assms(1)])
qed

end
