(* ===== verification/Approval_Opening.thy ===== *)
theory Approval_Opening
  imports Approval_Claims Registry_Reads Atomicity
begin

text \<open>
  Opening an approval request for a breaking report: what is written, for which report, and that a
  report never gets a second request.
\<close>

section \<open>What the policy is asked about\<close>

text \<open>
  A list read from the tables of \<open>w\<close>, where a missing row or object counts as the empty list: the
  read itself runs in some world with the same tables and the same environment.
\<close>

definition told :: "world \<Rightarrow> 'a list io \<Rightarrow> 'a list \<Rightarrow> bool" where
  "told w m xs \<longleftrightarrow>
     (\<exists>v v'. w_db v = w_db w \<and> same_env w v
        \<and> (m v = (Inr xs, v') \<or> xs = [] \<and> (\<exists>e. m v = (Inl e, v') \<and> errors_Is e (Domain ErrNotFound))))"

text \<open>
  The entry the policy sees for a module that the dependency service lists: the stored module of
  this name, its identifier and its owners, or just the name when there is none. Whether it is in
  production is left to the runtime impact.
\<close>

definition policy_entry :: "world \<Rightarrow> AffectedModule \<Rightarrow> PolicyAffectedModule \<Rightarrow> bool" where
  "policy_entry w a p \<longleftrightarrow>
     \<not> Policy_ProductionUsed p
     \<and> (case first_module (Affected_ModuleName a) (w_db w) of
          None \<Rightarrow> Policy_ModuleID p = None \<and> Policy_ModuleName p = Affected_ModuleName a \<and> Policy_Owners p = []
        | Some m \<Rightarrow> Policy_ModuleID p = Some (NewID (mod_id m)) \<and> Policy_ModuleName p = TrimSpace (mod_name m)
            \<and> told w (OwnerRepo_ListByModule (NewID (mod_id m))) (Policy_Owners p))"

text \<open>
  The policy's input for a stored report: the report, the owners of its module, what the dependency
  service answers for this module, and what the runtime service answers for the report.
\<close>

definition policy_input :: "ApprovalService \<Rightarrow> world \<Rightarrow> report_row \<Rightarrow> EvaluatePolicyInput \<Rightarrow> bool" where
  "policy_input svc w rp i \<longleftrightarrow>
     Input_Config i = svc_policyConfig svc
     \<and> (\<exists>m \<in> set (db_modules (w_db w)). \<exists>x \<in> set (db_versions (w_db w)).
          mod_id m = rep_module_id rp \<and> ver_id x = rep_base_version_id rp
          \<and> scanBreakingReport (rp, mod_name m, ver_version x) = Inr (Input_Report i))
     \<and> (\<exists>m \<in> set (db_modules (w_db w)). p_uuid (w_platform w) (NewID (rep_module_id rp)) = Some (mod_id m)
          \<and> told w (OwnerRepo_ListByModule (NewID (mod_id m))) (Input_ModuleOwners i))
     \<and> (\<exists>affected. list_all2 (policy_entry w) affected (Input_AffectedModules i)
          \<and> (case svc_dependencies svc of None \<Rightarrow> affected = []
             | Some listAffected \<Rightarrow> told w (listAffected (NewID (rep_module_id rp))) affected))
     \<and> (case svc_runtime svc of None \<Rightarrow> Input_RuntimeImpact i = []
        | Some listImpact \<Rightarrow>
            if NewID (rep_base_version_id rp) = '''' then Input_RuntimeImpact i = []
            else told w (listImpact (NewID (rep_id rp)) (NewID (rep_base_version_id rp)) 100 0)
                   (Input_RuntimeImpact i))"

lemma told_here:
  assumes "ignoreNotFound m v = (Inr xs, v')" and "w_db v = w_db w" and "same_env w v"
  shows "told w m xs"
  using assms unfolding told_def ignoreNotFound_def by (fastforce simp: catchE_Inr split: if_splits)

lemma told_same: "told v m xs \<Longrightarrow> w_db v = w_db w \<Longrightarrow> same_env w v \<Longrightarrow> told w m xs"
  unfolding told_def using env.step_trans by metis

lemma NewModuleName_trim: "NewModuleName s = Inr name \<Longrightarrow> name = TrimSpace s"
  by (auto simp: NewModuleName_def Let_def split: if_splits)

lemma owners_still: "steps still (ignoreNotFound (OwnerRepo_ListByModule moduleID))"
  unfolding ignoreNotFound_def by (intro still_rules stillI registry_reads registry_env)

lemma policyAffectedModule_entry:
  assumes run: "policyAffectedModule a v = (Inr p, v')" and same: "w_db v = w_db w" "same_env w v"
  shows "policy_entry w a p"
  using run unfolding policyAffectedModule_def
proof (rule bindE_InrE)
  fix found v1
  assume look: "attempt (ModuleRepo_GetByName (Affected_ModuleName a)) v = (Inr found, v1)"
    and rest: "(case found of
         Inl err \<Rightarrow>
           if errors_Is err (Domain ErrNotFound)
           then ret \<lparr>Policy_ModuleID = None, Policy_ModuleName = Affected_ModuleName a,
                      Policy_Owners = [], Policy_ProductionUsed = False\<rparr>
           else raise err
       | Inr module \<Rightarrow>
           bindE (ignoreNotFound (OwnerRepo_ListByModule (Module_ID module))) (\<lambda>owners.
             ret \<lparr>Policy_ModuleID = Some (Module_ID module), Policy_ModuleName = Module_Name module,
                   Policy_Owners = owners, Policy_ProductionUsed = False\<rparr>)) v1 = (Inr p, v')"
  show ?thesis
  proof (cases found)
    case (Inl e)
    with look have "ModuleRepo_GetByName (Affected_ModuleName a) v = (Inl e, v1)" by (simp add: attempt_simps)
    with rest Inl show ?thesis
      using module_missing [of "Affected_ModuleName a" v e v1] same by (auto simp: policy_entry_def split: if_splits)
  next
    case (Inr module)
    with look have get: "ModuleRepo_GetByName (Affected_ModuleName a) v = (Inr module, v1)"
      by (simp add: attempt_simps)
    have v1: "w_db v1 = w_db w" "same_env w v1"
      using reads_onlyD [OF registry_reads(1) get] env.step_trans [OF same(2) stepsD [OF registry_env(1) get]] same(1)
      by simp_all
    from get obtain m where m: "first_module (Affected_ModuleName a) (w_db v) = Some m" "scanModule m = Inr module"
      by (rule module_read)
    then have "Module_ID module = NewID (mod_id m)" "Module_Name module = TrimSpace (mod_name m)"
      using NewModuleName_trim by (auto simp: scanModule_def bindR_Inr)
    with rest Inr m(1) show ?thesis
      using told_here [OF _ v1] same(1) by (auto simp: policy_entry_def bindE_Inr)
  qed
qed

lemma policyAffectedModule_still: "steps still (policyAffectedModule a)"
  unfolding policyAffectedModule_def ignoreNotFound_def
  by (intro still_rules stillI registry_reads registry_env)

lemma policyAffectedModules_entries:
  assumes "collectE as policyAffectedModule v = (Inr ps, v')" and "w_db v = w_db w" and "same_env w v"
  shows "list_all2 (policy_entry w) as ps"
  using assms
proof (induction as arbitrary: v ps)
  case (Cons a as)
  then obtain p qs v1 where first: "policyAffectedModule a v = (Inr p, v1)"
    and more: "collectE as policyAffectedModule v1 = (Inr qs, v')" and ps: "ps = p # qs"
    by (auto simp: bindE_Inr)
  have "w_db v1 = w_db w" "same_env w v1"
    using stillD [OF policyAffectedModule_still first] Cons.prems(2,3) env.step_trans by (simp, metis)
  with Cons.IH [OF more] policyAffectedModule_entry [OF first] Cons.prems(2,3) show ?case by (simp add: ps)
qed simp

lemma ModuleRepo_GetByID_row:
  assumes "ModuleRepo_GetByID moduleID w = (Inr m, w')"
  obtains r where "r \<in> set (db_modules (w_db w))" and "p_uuid (w_platform w) moduleID = Some (mod_id r)"
    and "Module_ID m = NewID (mod_id r)"
  using assms unfolding ModuleRepo_GetByID_def
proof (rule query_row_Inr)
  fix row rest d
  assume sql: "bindE (uuid (w_platform w) moduleID)
      (\<lambda>u. select (\<lambda>d. filter (\<lambda>r. mod_id r = u) (db_modules d))) (w_db w) = (Inr (row # rest), d)"
    and "scanModule row = Inr m"
  then have "Module_ID m = NewID (mod_id row)" by (auto simp: scanModule_def bindR_Inr)
  moreover obtain u where "p_uuid (w_platform w) moduleID = Some u"
      "filter (\<lambda>r. mod_id r = u) (db_modules (w_db w)) = row # rest"
    using sql by (fastforce simp: bindE_Inr)
  moreover from this(2) have "row \<in> set (filter (\<lambda>r. mod_id r = u) (db_modules (w_db w)))" by simp
  then have "row \<in> set (db_modules (w_db w))" "mod_id row = u" by auto
  ultimately show ?thesis by (intro that [of row]) simp_all
qed

lemma ReportRepo_GetByID_scan:
  assumes "ReportRepo_GetByID reportID w = (Inr (report, changes), w')"
  obtains rp n v where "rp \<in> set (db_reports (w_db w))" and "p_uuid (w_platform w) reportID = Some (rep_id rp)"
    and "scanBreakingReport (rp, n, v) = Inr report"
    and "\<exists>m \<in> set (db_modules (w_db w)). mod_id m = rep_module_id rp \<and> n = mod_name m"
    and "\<exists>x \<in> set (db_versions (w_db w)). ver_id x = rep_base_version_id rp \<and> v = ver_version x"
proof -
  obtain w1 where q: "query_row (\<lambda>p. bindE (uuid p reportID) (\<lambda>u.
        select (\<lambda>d. join_report (filter (\<lambda>r. rep_id r = u) (db_reports d)) d)))
      scanBreakingReport w = (Inr report, w1)"
    using assms by (auto simp: ReportRepo_GetByID_def bindE_Inr)
  then show ?thesis
  proof (rule query_row_Inr)
    fix row rest d
    assume sql: "bindE (uuid (w_platform w) reportID) (\<lambda>u.
        select (\<lambda>d. join_report (filter (\<lambda>r. rep_id r = u) (db_reports d)) d)) (w_db w) = (Inr (row # rest), d)"
      and scan: "scanBreakingReport row = Inr report"
    obtain rp n v where row: "row = (rp, n, v)" by (cases row)
    obtain u where u: "p_uuid (w_platform w) reportID = Some u"
      and join: "join_report (filter (\<lambda>r. rep_id r = u) (db_reports (w_db w))) (w_db w) = row # rest"
      using sql by (fastforce simp: bindE_Inr)
    have "row \<in> set (join_report (filter (\<lambda>r. rep_id r = u) (db_reports (w_db w))) (w_db w))"
      unfolding join by simp
    then have rp: "rp \<in> set (db_reports (w_db w))" "rep_id rp = u"
        "\<exists>m \<in> set (db_modules (w_db w)). mod_id m = rep_module_id rp \<and> n = mod_name m"
        "\<exists>x \<in> set (db_versions (w_db w)). ver_id x = rep_base_version_id rp \<and> v = ver_version x"
      by (auto simp: join_report_def row join_modules_in)
    with u scan show ?thesis by (intro that [OF rp(1) _ _ rp(3,4)]) (simp_all add: row)
  qed
qed

lemma ReportRepo_GetByID_Inr:
  assumes "ReportRepo_GetByID reportID w = (Inr (report, changes), w')"
  obtains rp where "rp \<in> set (db_reports (w_db w))" and "p_uuid (w_platform w) reportID = Some (rep_id rp)"
    and "Report_ID report = NewID (rep_id rp)"
    and "BreakingReportStatus_String (Report_Status report) = TrimSpace (rep_status rp)"
  using assms
proof (rule ReportRepo_GetByID_scan)
  fix rp n v
  assume rp: "rp \<in> set (db_reports (w_db w))" "p_uuid (w_platform w) reportID = Some (rep_id rp)"
    and scan: "scanBreakingReport (rp, n, v) = Inr report"
  have "BreakingReportStatus_String st = TrimSpace s" if "NewBreakingReportStatus s = Inr st" for st s
    using that by (auto simp: NewBreakingReportStatus_def find_Some_iff split: option.splits)
  with scan show ?thesis
    by (intro that [OF rp]) (auto simp: scanBreakingReport_def bindR_Inr)
qed

text \<open>The context is the policy's input for the stored report.\<close>

lemma context_Inr:
  assumes run: "approvalPolicyContextForReport svc reportID w = (Inr ctx, w')" and svc: "collaborators_read svc"
  obtains rp where "rp \<in> set (db_reports (w_db w))" and "p_uuid (w_platform w) reportID = Some (rep_id rp)"
    and "Report_ID (Ctx_Report ctx) = NewID (rep_id rp)"
    and "BreakingReportStatus_String (Report_Status (Ctx_Report ctx)) = TrimSpace (rep_status rp)"
    and "policy_input svc w rp \<lparr>Input_Report = Ctx_Report ctx, Input_ModuleOwners = Ctx_ModuleOwners ctx,
       Input_AffectedModules = Ctx_AffectedModules ctx, Input_RuntimeImpact = Ctx_RuntimeImpact ctx,
       Input_Config = svc_policyConfig svc\<rparr>"
proof -
  from run obtain report changes w1 module w2 owners w3 affected w4 impact w5 policyAffected
    where get: "ReportRepo_GetByID reportID w = (Inr (report, changes), w1)"
      and module: "ModuleRepo_GetByID (Report_ModuleID report) w1 = (Inr module, w2)"
      and owners: "ignoreNotFound (OwnerRepo_ListByModule (Module_ID module)) w2 = (Inr owners, w3)"
      and affected: "affectedModules svc (Report_ModuleID report) w3 = (Inr affected, w4)"
      and impact: "runtimeImpact svc report w4 = (Inr impact, w5)"
      and policy: "collectE affected policyAffectedModule w5 = (Inr policyAffected, w')"
      and ctx: "ctx = \<lparr>Ctx_Report = report, Ctx_Module = module, Ctx_ModuleOwners = owners,
        Ctx_AffectedModules = policyAffected, Ctx_RuntimeImpact = impact\<rparr>"
    unfolding approvalPolicyContextForReport_def policyAffectedModules_def
    by (elim bindE_pairE bindE_InrE) (auto simp: replaceErr_def)
  have still: "steps still (ReportRepo_GetByID reportID)" "steps still (ModuleRepo_GetByID (Report_ModuleID report))"
    "steps still (affectedModules svc (Report_ModuleID report))" "steps still (runtimeImpact svc report)"
    by (rule stillI registry_reads registry_env collaborators_readD [OF svc])+
  have w1: "w_db w1 = w_db w" "same_env w w1" using stillD [OF still(1) get] by simp_all
  have w2: "w_db w2 = w_db w" "same_env w w2"
    using stillD [OF still(2) module] w1 env.step_trans by (simp, metis)
  have w3: "w_db w3 = w_db w" "same_env w w3"
    using stillD [OF owners_still owners] w2 env.step_trans by (simp, metis)
  have w4: "w_db w4 = w_db w" "same_env w w4"
    using stillD [OF still(3) affected] w3 env.step_trans by (simp, metis)
  have w5: "w_db w5 = w_db w" "same_env w w5"
    using stillD [OF still(4) impact] w4 env.step_trans by (simp, metis)
  from get obtain rp n v where rp: "rp \<in> set (db_reports (w_db w))" "p_uuid (w_platform w) reportID = Some (rep_id rp)"
    and scan: "scanBreakingReport (rp, n, v) = Inr report"
    and joined: "\<exists>m \<in> set (db_modules (w_db w)). mod_id m = rep_module_id rp \<and> n = mod_name m"
      "\<exists>x \<in> set (db_versions (w_db w)). ver_id x = rep_base_version_id rp \<and> v = ver_version x"
    by (rule ReportRepo_GetByID_scan)
  have status: "BreakingReportStatus_String st = TrimSpace s" if "NewBreakingReportStatus s = Inr st" for st s
    using that by (auto simp: NewBreakingReportStatus_def find_Some_iff split: option.splits)
  have ids: "Report_ID report = NewID (rep_id rp)" "Report_ModuleID report = NewID (rep_module_id rp)"
    "Report_BaseVersionID report = NewID (rep_base_version_id rp)"
    "BreakingReportStatus_String (Report_Status report) = TrimSpace (rep_status rp)"
    using scan status by (auto simp: scanBreakingReport_def bindR_Inr)
  have "w_platform w1 = w_platform w" using w1(2) by (simp add: same_env_def)
  then have owned: "\<exists>m \<in> set (db_modules (w_db w)). p_uuid (w_platform w) (NewID (rep_module_id rp)) = Some (mod_id m)
      \<and> told w (OwnerRepo_ListByModule (NewID (mod_id m))) owners"
    using module told_here [OF owners w2] w1(1) unfolding ids
    by (elim ModuleRepo_GetByID_row) (simp, metis)
  have consumers: "list_all2 (policy_entry w) affected policyAffected"
    by (rule policyAffectedModules_entries [OF policy w5])
  have asked: "case svc_dependencies svc of None \<Rightarrow> affected = []
      | Some listAffected \<Rightarrow> told w (listAffected (NewID (rep_module_id rp))) affected"
    using affected told_here [OF _ w3] by (auto simp: affectedModules_def ids split: option.splits)
  have running: "case svc_runtime svc of None \<Rightarrow> impact = []
      | Some listImpact \<Rightarrow> if NewID (rep_base_version_id rp) = '''' then impact = []
          else told w (listImpact (NewID (rep_id rp)) (NewID (rep_base_version_id rp)) 100 0) impact"
    using impact told_here [OF _ w4]
    by (auto simp: runtimeImpact_def ids defaultApprovalListLimit_def split: option.splits if_splits)
  show ?thesis
  proof (rule that [OF rp])
    show "policy_input svc w rp \<lparr>Input_Report = Ctx_Report ctx, Input_ModuleOwners = Ctx_ModuleOwners ctx,
       Input_AffectedModules = Ctx_AffectedModules ctx, Input_RuntimeImpact = Ctx_RuntimeImpact ctx,
       Input_Config = svc_policyConfig svc\<rparr>"
      unfolding policy_input_def EvaluatePolicyInput.simps ctx approvalPolicyContext.simps
      using scan joined owned consumers asked running by (intro conjI) (blast | simp)+
  qed (simp_all add: ctx ids)
qed

lemma policy_input_same:
  assumes "policy_input svc v rp i" and "w_db v = w_db w" and "same_env w v"
  shows "policy_input svc w rp i"
proof -
  have "policy_entry v a p \<Longrightarrow> policy_entry w a p" for a p
    using assms(2,3) told_same by (auto simp: policy_entry_def split: option.splits)
  then have "list_all2 (policy_entry v) as ps \<Longrightarrow> list_all2 (policy_entry w) as ps" for as ps
    using list_all2_mono by blast
  note consumers = this
  have "w_platform v = w_platform w" using assms(3) by (simp add: same_env_def)
  note at = assms(1) [unfolded policy_input_def assms(2) this]
  have "\<exists>affected. list_all2 (policy_entry w) affected (Input_AffectedModules i)
      \<and> (case svc_dependencies svc of None \<Rightarrow> affected = []
         | Some listAffected \<Rightarrow> told w (listAffected (NewID (rep_module_id rp))) affected)"
    using at consumers told_same [OF _ assms(2,3)] by (cases "svc_dependencies svc") (simp_all, blast+)
  moreover have "case svc_runtime svc of None \<Rightarrow> Input_RuntimeImpact i = []
        | Some listImpact \<Rightarrow>
            if NewID (rep_base_version_id rp) = '''' then Input_RuntimeImpact i = []
            else told w (listImpact (NewID (rep_id rp)) (NewID (rep_base_version_id rp)) 100 0)
                   (Input_RuntimeImpact i)"
    using at [THEN conjunct2, THEN conjunct2, THEN conjunct2, THEN conjunct2]
    by (auto split: option.split intro: told_same [OF _ assms(2,3)])
  moreover have "\<exists>m \<in> set (db_modules (w_db w)). p_uuid (w_platform w) (NewID (rep_module_id rp)) = Some (mod_id m)
      \<and> told w (OwnerRepo_ListByModule (NewID (mod_id m))) (Input_ModuleOwners i)"
    using at told_same [OF _ assms(2,3)] by blast
  ultimately show ?thesis using at unfolding policy_input_def by blast
qed

lemma filtered_key_unique:
  assumes "distinct (filter (\<lambda>b. b \<noteq> None) (map k xs))" and "x \<in> set xs" and "y \<in> set xs"
    and "k x = Some u" and "k y = Some u"
  shows "x = y"
  using assms
proof (induction xs)
  case (Cons z xs)
  then show ?case by (cases "k z") (auto simp: image_iff)
qed simp

lemma createAll_cases:
  assumes run: "CreateApprovalRequestForBreakingReport svc input w = (res, w')" and outside: "\<not> w_tx w"
    and svc: "collaborators_read svc"
  obtains (unchanged) "w_db w' = w_db w"
      and "\<And>request. res = Inr request \<Longrightarrow> \<exists>w4 w5. w_db w4 = w_db w \<and> same_env w w4
        \<and> ApprovalRepo_GetRequestByBreakingReportID (NewID (Create_BreakingReportID input)) w4 = (Inr request, w5)"
    | (opened) request ctx w0 w1 where "res = Inr request"
      and "w_db w0 = w_db w" and "same_env w w0"
      and "approvalPolicyContextForReport svc (NewID (Create_BreakingReportID input)) w0 = (Inr ctx, w1)"
      and "opens (w_platform w) (Report_ID (Ctx_Report ctx)) (policyResultFor svc ctx) request (w_db w) (w_db w')"
proof -
  let ?report = "NewID (Create_BreakingReportID input)"
  show ?thesis
  proof (cases "?report = '''' \<or> (\<exists>e. effectiveActorSubject (Create_Actor input) = Inl e)")
    case True
    with run have "w' = w \<and> (\<exists>e. res = Inl e)"
      by (auto simp: CreateApprovalRequestForBreakingReport_def Let_def bindE_def failIf_def raise_def
          ret_def liftE_def split: if_splits)
    then show ?thesis by (intro unchanged) auto
  next
    case False
    then obtain actor where actor: "effectiveActorSubject (Create_Actor input) = Inr actor"
      by (cases "effectiveActorSubject (Create_Actor input)") auto
    obtain x w2 where g: "ApprovalRepo_GetRequestByBreakingReportID ?report w = (x, w2)" by fastforce
    have w2: "w_db w2 = w_db w" "same_env w w2"
      using reads_onlyD [OF GetRequest_reads(2) g] stepsD [OF GetByReport_env g] by simp_all
    have "(w' = w2 \<and> res = x) \<or> createFresh svc ?report actor (Create_TargetRef input) w2 = (res, w')"
      using run actor False g
      by (auto simp: CreateApprovalRequestForBreakingReport_def Let_def bindE_def failIf_def raise_def
          ret_def liftE_def attempt_def split: sum.splits if_splits)
    then show ?thesis
    proof
      assume "w' = w2 \<and> res = x"
      then show ?thesis using g w2 env.step_refl by (intro unchanged) blast+
    next
      assume fresh: "createFresh svc ?report actor (Create_TargetRef input) w2 = (res, w')"
      have "\<not> w_tx w2" and platform: "w_platform w2 = w_platform w" using outside w2 by (simp_all add: same_env_def)
      from createFresh_effect [OF fresh this(1) svc] show ?thesis
      proof
        assume "w_db w' = w_db w2 \<and> (\<forall>request. res = Inr request \<longrightarrow> (\<exists>w4. w_db w4 = w_db w2
          \<and> same_env w2 w4 \<and> ApprovalRepo_GetRequestByBreakingReportID ?report w4 = (Inr request, w')))"
        then show ?thesis using w2 env.step_trans by (intro unchanged) (simp, metis)
      next
        assume "\<exists>request ctx w0 w1. res = Inr request \<and> w_db w0 = w_db w2 \<and> same_env w2 w0
          \<and> approvalPolicyContextForReport svc ?report w0 = (Inr ctx, w1)
          \<and> opens (w_platform w2) (Report_ID (Ctx_Report ctx)) (policyResultFor svc ctx) request
              (w_db w2) (w_db w')"
        then obtain request ctx w0 w1 where f: "res = Inr request" "w_db w0 = w_db w2" "same_env w2 w0"
          "approvalPolicyContextForReport svc ?report w0 = (Inr ctx, w1)"
          "opens (w_platform w2) (Report_ID (Ctx_Report ctx)) (policyResultFor svc ctx) request
              (w_db w2) (w_db w')"
          by blast
        show ?thesis
          by (rule opened [OF f(1) _ env.step_trans [OF w2(2) f(3)] f(4)])
            (use f(2,5) w2(1) platform in simp_all)
      qed
    qed
  qed
qed

text \<open>
  creating the approval request of a report is idempotent. When a request is already stored for
  the report, nothing is written, and a successful answer is that request.
\<close>

theorem create_idempotent:
  assumes "CreateApprovalRequestForBreakingReport svc input w = (res, w')" and "\<not> w_tx w"
    and "collaborators_read svc" and "uuid_laws (w_platform w)"
    and "ledger_ok (p_uuid (w_platform w)) (ledger_of (w_db w))"
    and "q \<in> set (db_requests (w_db w))" and "req_breaking_report_id q = Some u"
    and "p_uuid (w_platform w) (NewID (Create_BreakingReportID input)) = Some u"
  shows "w_db w' = w_db w \<and> (\<forall>request. res = Inr request \<longrightarrow> loaded (w_db w) q request)"
proof -
  have ok: "approvals_ok (p_uuid (w_platform w)) (w_db w)" using assms(5) by (simp add: approvals_ok_def)
  have unique: "q' = q" if "q' \<in> set (db_requests (w_db w))" "req_breaking_report_id q' = Some u" for q'
    using assms(5-7) that by (intro filtered_key_unique [of req_breaking_report_id]) (auto simp: ledger_ok_def)
  from assms(1-3) show ?thesis
  proof (cases rule: createAll_cases)
    case unchanged
    have "loaded (w_db w) q request" if res: "res = Inr request" for request
    proof -
      obtain w4 w5 where w4: "w_db w4 = w_db w" "same_env w w4"
        and get: "ApprovalRepo_GetRequestByBreakingReportID (NewID (Create_BreakingReportID input)) w4 = (Inr request, w5)"
        using unchanged(2) [OF res] by blast
      have "w_platform w4 = w_platform w" using w4 by (simp add: same_env_def)
      then show ?thesis
        using GetRequestByBreakingReportID_loaded [OF get] w4 assms(4,8) ok unique
        by (metis loaded_def option.inject)
    qed
    with unchanged(1) show ?thesis by blast
  next
    case (opened request ctx w0 w1)
    obtain rp :: report_row where rp: "p_uuid (w_platform w0) (NewID (Create_BreakingReportID input)) = Some (rep_id rp)"
        "Report_ID (Ctx_Report ctx) = NewID (rep_id rp)"
      by (rule context_Inr [OF opened(4) assms(3)]) blast
    have "Report_ID (Ctx_Report ctx) = u"
      using rp assms(4,8) opened(3) uuid_laws_trim by (auto simp: same_env_def)
    moreover have "p_uuid (w_platform w) u = Some u"
      using uuid_laws_canonical [OF assms(4) assms(8)] .
    ultimately show ?thesis
      using opened(5) assms(6,7) by (auto simp: opens_def request_clash_def row_of_request_def)
  qed
qed

lemma requirement_rows_plans:
  assumes rows: "list_all2 (requirement_row_for p rid) xs rows"
    and plans: "map (\<lambda>x. (Requirement_RequirementType x, Requirement_TargetModuleID x,
              Requirement_TargetModuleName x, Requirement_Status x)) xs
          = map (\<lambda>p. (Plan_RequirementType p, Plan_TargetModuleID p, Plan_TargetModuleName p,
              Plan_Status p)) ps"
  shows "map (\<lambda>r. (rqm_requirement_type r, rqm_target_module_name r, rqm_status r)) rows
      = map (\<lambda>p. (ApprovalRequirementType_String (Plan_RequirementType p), Plan_TargetModuleName p,
          ApprovalRequirementStatus_String (Plan_Status p))) ps"
    and "\<forall>r \<in> set rows. rqm_approval_request_id r = rid"
proof -
  have stored: "map (\<lambda>r. (rqm_requirement_type r, rqm_target_module_name r, rqm_status r)) rows
      = map (\<lambda>x. (ApprovalRequirementType_String (Requirement_RequirementType x),
          Requirement_TargetModuleName x, ApprovalRequirementStatus_String (Requirement_Status x))) xs
      \<and> (\<forall>r \<in> set rows. rqm_approval_request_id r = rid)"
    using rows by (induction rule: list_all2_induct)
      (auto simp: requirement_row_for_def row_of_requirement_def)
  then show "\<forall>r \<in> set rows. rqm_approval_request_id r = rid" by simp
  from stored show "map (\<lambda>r. (rqm_requirement_type r, rqm_target_module_name r, rqm_status r)) rows
      = map (\<lambda>p. (ApprovalRequirementType_String (Plan_RequirementType p), Plan_TargetModuleName p,
          ApprovalRequirementStatus_String (Plan_Status p))) ps"
    using arg_cong [OF plans, of "map (\<lambda>(t, _, n, s). (ApprovalRequirementType_String t, n,
      ApprovalRequirementStatus_String s))"] by (simp add: comp_def)
qed

lemma requirement_rows_targets:
  assumes rows: "list_all2 (requirement_row_for p rid) xs rows"
    and plans: "map (\<lambda>x. (Requirement_RequirementType x, Requirement_TargetModuleID x,
              Requirement_TargetModuleName x, Requirement_Status x)) xs
          = map (\<lambda>p. (Plan_RequirementType p, Plan_TargetModuleID p, Plan_TargetModuleName p,
              Plan_Status p)) ps"
  shows "map (\<lambda>r. (rqm_requirement_type r, rqm_target_module_id r, rqm_target_module_name r)) rows
      = map (\<lambda>q. (ApprovalRequirementType_String (Plan_RequirementType q),
          Option.bind (Plan_TargetModuleID q) (p_uuid p), Plan_TargetModuleName q)) ps"
proof -
  have "map (\<lambda>r. (rqm_requirement_type r, rqm_target_module_id r, rqm_target_module_name r)) rows
      = map (\<lambda>x. (ApprovalRequirementType_String (Requirement_RequirementType x),
          Option.bind (Requirement_TargetModuleID x) (p_uuid p), Requirement_TargetModuleName x)) xs"
    using rows by (induction rule: list_all2_induct)
      (auto simp: requirement_row_for_def row_of_requirement_def)
  then show ?thesis
    using arg_cong [OF plans, of "map (\<lambda>(t, i, n, _). (ApprovalRequirementType_String t,
      Option.bind i (p_uuid p), n))"] by (simp add: comp_def)
qed

text \<open>
  C7: what a new approval request contains. When the request writes anything, the report exists and
  had no request; the requirements stored (kind, target module and its name) are exactly the plans
  the policy requires (none when governance is disabled or the report is not a breaking one) for the
  stored report, the owners of its module, the modules the dependency service lists as affected and
  the impact the runtime service lists, all read from these tables; all of them are pending, under a
  request whose status and counters say so; one audit row and one outbox record are stored with them,
  and no decision.
\<close>

theorem create_opens:
  assumes "CreateApprovalRequestForBreakingReport svc input w = (res, w')" and "\<not> w_tx w"
    and "collaborators_read svc" and "uuid_laws (w_platform w)"
    and "svc_policy svc = EvaluatePolicy lower" and "w_db w' \<noteq> w_db w"
  shows "\<exists>rp row rows audit event i.
      rp \<in> set (db_reports (w_db w))
    \<and> p_uuid (w_platform w) (NewID (Create_BreakingReportID input)) = Some (rep_id rp)
    \<and> (\<forall>q \<in> set (db_requests (w_db w)). req_breaking_report_id q \<noteq> Some (rep_id rp))
    \<and> db_requests (w_db w') = db_requests (w_db w) @ [row]
    \<and> req_breaking_report_id row = Some (rep_id rp)
    \<and> counters row = (if rows = [] then ''not_required'' else ''pending'', int (length rows), 0)
    \<and> db_requirements (w_db w') = db_requirements (w_db w) @ rows
    \<and> (\<forall>r \<in> set rows. rqm_approval_request_id r = req_id row \<and> rqm_status r = ''pending'')
    \<and> policy_input svc w rp i
    \<and> Input_Config i = svc_policyConfig svc \<and> Report_ID (Input_Report i) = rep_id rp
    \<and> map (\<lambda>r. (rqm_requirement_type r, rqm_target_module_id r, rqm_target_module_name r)) rows
      = (if Config_Enabled (svc_policyConfig svc) \<and> TrimSpace (rep_status rp) = ''breaking''
         then map (\<lambda>p. (ApprovalRequirementType_String (Plan_RequirementType p),
                  Option.bind (Plan_TargetModuleID p) (p_uuid (w_platform w)), Plan_TargetModuleName p))
                (required_plans lower i)
         else [])
    \<and> db_audits (w_db w') = db_audits (w_db w) @ [audit]
    \<and> aud_event_type audit = ''approval_request_created''
    \<and> db_outbox (w_db w') = db_outbox (w_db w) @ [event]
    \<and> obx_event_type event = ''protoradar.approval_request.created''
    \<and> db_decisions (w_db w') = db_decisions (w_db w)"
  using assms(1-3)
proof (cases rule: createAll_cases)
  case (opened request ctx w0 w1)
  define i where "i = \<lparr>Input_Report = Ctx_Report ctx, Input_ModuleOwners = Ctx_ModuleOwners ctx,
       Input_AffectedModules = Ctx_AffectedModules ctx, Input_RuntimeImpact = Ctx_RuntimeImpact ctx,
       Input_Config = svc_policyConfig svc\<rparr>"
  let ?p = "w_platform w" and ?result = "EvaluatePolicy lower i"
  have p0: "w_platform w0 = ?p" using opened(3) by (simp add: same_env_def)
  have result: "policyResultFor svc ctx = ?result" by (simp add: policyResultFor_def i_def assms(5))
  obtain rp where rp: "rp \<in> set (db_reports (w_db w0))"
    "p_uuid (w_platform w0) (NewID (Create_BreakingReportID input)) = Some (rep_id rp)"
    "Report_ID (Ctx_Report ctx) = NewID (rep_id rp)"
    "BreakingReportStatus_String (Report_Status (Ctx_Report ctx)) = TrimSpace (rep_status rp)"
    and asked: "policy_input svc w0 rp i"
    by (rule context_Inr [OF opened(4) assms(3), folded i_def])
  have asked': "policy_input svc w rp i" by (rule policy_input_same [OF asked opened(2,3)])
  have canonical: "NewID (rep_id rp) = rep_id rp" "p_uuid ?p (rep_id rp) = Some (rep_id rp)"
    using rp(2) p0 uuid_laws_trim [OF assms(4)] uuid_laws_canonical [OF assms(4)] by auto
  obtain row rid mid bid rows audit event where
    row: "row = row_of_request rid mid (Some bid) request"
    and bid: "p_uuid ?p (rep_id rp) = Some bid"
    and fresh: "\<forall>r \<in> set (db_requests (w_db w)). \<not> request_clash row r"
    and rows: "list_all2 (requirement_row_for ?p rid) (Request_Requirements request) rows"
    and d': "w_db w' = opened_db row rows audit event (w_db w)"
    and logs: "aud_event_type audit = ''approval_request_created''"
      "obx_event_type event = ''protoradar.approval_request.created''"
    and request: "Request_Status request = (if Result_ApprovalRequired ?result
       then ApprovalRequestStatusPending else ApprovalRequestStatusNotRequired)"
      "Request_RequiredApprovals request = int (length (Result_Requirements ?result))"
      "Request_ReceivedApprovals request = 0"
    and plans: "map (\<lambda>x. (Requirement_RequirementType x, Requirement_TargetModuleID x,
              Requirement_TargetModuleName x, Requirement_Status x)) (Request_Requirements request)
          = map (\<lambda>p. (Plan_RequirementType p, Plan_TargetModuleID p, Plan_TargetModuleName p,
              Plan_Status p)) (Result_Requirements ?result)"
    using opened(5) unfolding result opens_def rp(3) canonical(1) by blast
  have bid': "bid = rep_id rp" using bid canonical(2) by simp
  have lengths: "length rows = length (Result_Requirements ?result)"
    using list_all2_lengthD [OF rows] map_eq_imp_length_eq [OF plans] by simp
  note shape = requirement_rows_plans(1) [OF rows plans]
  note types = requirement_rows_targets [OF rows plans]
  have statuses: "map rqm_status rows
      = map (\<lambda>p. ApprovalRequirementStatus_String (Plan_Status p)) (Result_Requirements ?result)"
    using arg_cong [OF shape, of "map (\<lambda>(_, _, s). s)"] by (simp add: comp_def)
  have "rqm_status r = ''pending''" if "r \<in> set rows" for r
  proof -
    have "rqm_status r \<in> set (map rqm_status rows)" using that by simp
    then obtain p where "p \<in> set (Result_Requirements ?result)"
      "rqm_status r = ApprovalRequirementStatus_String (Plan_Status p)"
      unfolding statuses by auto
    then show ?thesis using default_policy.plans_pending by simp
  qed
  note pending = this
  have config: "Input_Config i = svc_policyConfig svc" "Report_ID (Input_Report i) = rep_id rp"
    "Report_Status (Input_Report i) = Report_Status (Ctx_Report ctx)"
    by (simp_all add: i_def rp(3) canonical)
  have breaking: "Report_Status (Ctx_Report ctx) = BreakingReportStatusBreaking \<longleftrightarrow> TrimSpace (rep_status rp) = ''breaking''"
    unfolding rp(4) [symmetric] by (cases "Report_Status (Ctx_Report ctx)") simp_all
  have "map (\<lambda>p. (ApprovalRequirementType_String (Plan_RequirementType p),
                  Option.bind (Plan_TargetModuleID p) (p_uuid (w_platform w)), Plan_TargetModuleName p))
          (map strip ps)
      = map (\<lambda>p. (ApprovalRequirementType_String (Plan_RequirementType p),
                  Option.bind (Plan_TargetModuleID p) (p_uuid (w_platform w)), Plan_TargetModuleName p)) ps" for ps
    by (simp add: strip_def comp_def)
  note stripped = this
  have required: "map (\<lambda>r. (rqm_requirement_type r, rqm_target_module_id r, rqm_target_module_name r)) rows
      = (if Config_Enabled (svc_policyConfig svc) \<and> TrimSpace (rep_status rp) = ''breaking''
         then map (\<lambda>p. (ApprovalRequirementType_String (Plan_RequirementType p),
                  Option.bind (Plan_TargetModuleID p) (p_uuid (w_platform w)), Plan_TargetModuleName p))
                (required_plans lower i)
         else [])"
  proof (cases "Config_Enabled (svc_policyConfig svc) \<and> TrimSpace (rep_status rp) = ''breaking''")
    case True
    then have "map strip (Result_Requirements ?result) = required_plans lower i"
      using EvaluatePolicy_breaking [of i lower] config breaking by simp
    with types stripped [of "Result_Requirements ?result"] True show ?thesis by simp
  next
    case False
    then have "Result_Requirements ?result = []"
      using EvaluatePolicy_not_required [of i lower] config breaking by auto
    with types have "rows = []" by simp
    with False show ?thesis unfolding if_not_P [OF False] by simp
  qed
  have counted: "counters row = (if rows = [] then ''not_required'' else ''pending'', int (length rows), 0)"
    using default_policy.required_iff [of lower i] lengths request by (auto simp: counters_def row)
  have link: "req_breaking_report_id row = Some (rep_id rp)" "req_id row = rid"
    by (simp_all add: row bid')
  have new: "\<forall>q \<in> set (db_requests (w_db w)). req_breaking_report_id q \<noteq> Some (rep_id rp)"
    using fresh link by (auto simp: request_clash_def)
  have fk: "\<forall>r \<in> set rows. rqm_approval_request_id r = req_id row \<and> rqm_status r = ''pending''"
    using requirement_rows_plans(2) [OF rows plans] pending link by simp
  have known: "rp \<in> set (db_reports (w_db w))" "p_uuid ?p (NewID (Create_BreakingReportID input)) = Some (rep_id rp)"
    using rp(1,2) p0 opened(2) by simp_all
  show ?thesis
    unfolding d' opened_db_simps
    by (rule exI [of _ rp], rule exI [of _ row], rule exI [of _ rows], rule exI [of _ audit],
        rule exI [of _ event], rule exI [of _ i])
      (intro conjI refl known new link(1) counted fk asked' config(1,2) required logs)
qed (use assms(6) in blast)

end
