(* ===== verification/Policy_Claims.thy ===== *)
theory Policy_Claims
  imports Policy
begin

text \<open>The properties of the approval policy.\<close>

text \<open>
  C10: the policy's result is its reference. Approval is required exactly for a breaking report while
  governance is enabled; the requirements are then the owners of the changed module and the owners
  of every affected module in production use, in order, each requirement key once; the number of
  required approvals is their number.
\<close>

theorem policy_reference:
  "(let result = EvaluatePolicy lower input;
        needed = Config_Enabled (Input_Config input)
          \<and> Report_Status (Input_Report input) = BreakingReportStatusBreaking
    in map strip (Result_Requirements result) = (if needed then required_plans lower input else [])
     \<and> Result_ApprovalRequired result = needed
     \<and> Result_Status result = (if needed then ApprovalRequestStatusPending else ApprovalRequestStatusNotRequired)
     \<and> Result_RequiredApprovals result = int (length (Result_Requirements result))
     \<and> distinct (map requirementKey (Result_Requirements result)))"
proof (cases "Config_Enabled (Input_Config input)
    \<and> Report_Status (Input_Report input) = BreakingReportStatusBreaking")
  case True
  then show ?thesis
    using EvaluatePolicy_breaking [of input lower] EvaluatePolicy_RequiredApprovals [of lower input]
      default_policy.plans_distinct [of lower input]
    by (simp add: Let_def)
next
  case False
  then show ?thesis
    using EvaluatePolicy_not_required [of input lower] EvaluatePolicy_RequiredApprovals [of lower input]
    by (auto simp: Let_def)
qed

text \<open>
  The modules in production, by the environments the configuration names, compared without case
  and surrounding space.
\<close>

lemma productionRuntimeModules_iff:
  "n \<in> productionRuntimeModules lower impact environments \<longleftrightarrow>
     (\<exists>item \<in> set impact. Impact_UsedModule item = n
        \<and> (\<exists>e \<in> set environments. ToLower lower (TrimSpace e) \<noteq> ''''
             \<and> ToLower lower (TrimSpace e) = ToLower lower (TrimSpace (Impact_Environment item))))"
proof -
  let ?env = "\<lambda>e. ToLower lower (TrimSpace e)"
  have production: "x \<in> set (filter (\<lambda>e. e \<noteq> '''') (map ?env environments))
      \<longleftrightarrow> (\<exists>e \<in> set environments. ?env e \<noteq> '''' \<and> ?env e = x)" for x
    by auto
  show ?thesis
    unfolding productionRuntimeModules_def Let_def production by (simp only: set_map set_filter) blast
qed

text \<open>
  an affected module's owners have to approve only if the module is in production use: every
  requirement after the first is for an affected module which some runtime impact names in a
  production environment, or which is itself marked as used in production; and every such module has
  a requirement with its key.
\<close>

theorem consumer_approval_iff_production:
  assumes "Config_Enabled (Input_Config input)"
    and "Report_Status (Input_Report input) = BreakingReportStatusBreaking"
  shows "requirementKey ` set (Result_Requirements (EvaluatePolicy lower input))
    = insert (requirementKey (moduleOwnerPlan (Input_Report input) (normalizePolicyConfig (Input_Config input))))
        (requirementKey ` (\<lambda>a. affectedPlan a (normalizePolicyConfig (Input_Config input)))
          ` {a \<in> set (Input_AffectedModules input). Policy_ProductionUsed a
               \<or> (\<exists>item \<in> set (Input_RuntimeImpact input). Impact_UsedModule item = Policy_ModuleName a
                    \<and> (\<exists>e \<in> set (Config_ProductionEnvironments (normalizePolicyConfig (Input_Config input))).
                         ToLower lower (TrimSpace e) \<noteq> ''''
                         \<and> ToLower lower (TrimSpace e) = ToLower lower (TrimSpace (Impact_Environment item))))})"
proof -
  have "requirementKey ` set (Result_Requirements (EvaluatePolicy lower input))
      = set (map requirementKey (required_plans lower input))"
    using EvaluatePolicy_breaking [OF assms, of lower]
    by (metis image_comp list.set_map map_strip_key)
  also have "\<dots> = requirementKey ` set (moduleOwnerPlan (Input_Report input) (normalizePolicyConfig (Input_Config input))
      # map (\<lambda>a. affectedPlan a (normalizePolicyConfig (Input_Config input)))
          (filter (in_production (productionRuntimeModules lower (Input_RuntimeImpact input)
            (Config_ProductionEnvironments (normalizePolicyConfig (Input_Config input))))) (Input_AffectedModules input)))"
    unfolding required_plans_def Let_def by (simp add: first_by_keys del: first_by.simps)
  finally show ?thesis
    by (simp add: in_production_def productionRuntimeModules_iff)
qed

section \<open>A concrete evaluation\<close>

definition sample_report :: BreakingReport where
  "sample_report = \<lparr>Report_ID = ''r1'', Report_ModuleID = ''m1'', Report_ModuleName = ''orders'',
     Report_BaseVersionID = ''v1'', Report_BaseVersion = ''v1'', Report_TargetRef = ''main'',
     Report_Status = BreakingReportStatusBreaking, Report_ChangeCount = 1, Report_RawOutput = '''',
     Report_HumanSummary = '''', Report_CreatedAt = 1\<rparr>"

definition sample_used :: "string \<Rightarrow> string \<Rightarrow> RuntimeImpact" where
  "sample_used name environment = \<lparr>Impact_ServiceName = ''shop'', Impact_Environment = environment,
     Impact_UsedModule = name, Impact_UsedVersion = ''v1'', Impact_GitCommit = '''',
     Impact_BuildVersion = '''', Impact_ReportedAt = 5, Impact_ImpactStatus = '''', Impact_Reason = '''',
     Impact_DriftStatus = RuntimeDriftStatusUpToDate, Impact_DriftReason = ''''\<rparr>"

definition sample_consumer :: "string \<Rightarrow> string \<Rightarrow> PolicyAffectedModule" where
  "sample_consumer i name = \<lparr>Policy_ModuleID = Some i, Policy_ModuleName = name, Policy_Owners = [],
     Policy_ProductionUsed = False\<rparr>"

definition sample_input :: EvaluatePolicyInput where
  "sample_input = \<lparr>Input_Report = sample_report, Input_ModuleOwners = [],
     Input_AffectedModules = [sample_consumer ''m2'' ''billing'', sample_consumer ''m3'' ''mail''],
     Input_RuntimeImpact = [sample_used ''billing'' '' Prod'', sample_used ''mail'' ''staging''],
     Input_Config = DefaultPolicyConfig\<rparr>"

theorem consumer_approval_iff_production_witness:
  "requirementKey ` set (Result_Requirements (EvaluatePolicy (\<lambda>s. s) sample_input))
    = {''module_owner_approval:m1'', ''affected_consumer_approval:m2''}"
proof -
  let ?c = "normalizePolicyConfig (Input_Config sample_input)"
  let ?used = "\<lambda>a. Policy_ProductionUsed a
     \<or> (\<exists>item \<in> set (Input_RuntimeImpact sample_input). Impact_UsedModule item = Policy_ModuleName a
          \<and> (\<exists>e \<in> set (Config_ProductionEnvironments ?c). ToLower (\<lambda>s. s) (TrimSpace e) \<noteq> ''''
               \<and> ToLower (\<lambda>s. s) (TrimSpace e) = ToLower (\<lambda>s. s) (TrimSpace (Impact_Environment item))))"
  have "{a \<in> set (Input_AffectedModules sample_input). ?used a} = {sample_consumer ''m2'' ''billing''}"
  proof -
    have "?used (sample_consumer ''m2'' ''billing'')" "\<not> ?used (sample_consumer ''m3'' ''mail'')" by code_simp+
    then show ?thesis by (auto simp: sample_input_def)
  qed
  moreover have "requirementKey (moduleOwnerPlan (Input_Report sample_input) ?c) = ''module_owner_approval:m1''"
    "requirementKey (affectedPlan (sample_consumer ''m2'' ''billing'') ?c) = ''affected_consumer_approval:m2''"
    by code_simp+
  moreover have "Config_Enabled (Input_Config sample_input)"
    "Report_Status (Input_Report sample_input) = BreakingReportStatusBreaking" by code_simp+
  ultimately show ?thesis
    using consumer_approval_iff_production [of sample_input "\<lambda>s. s"] by (simp del: insert_iff)
qed

end
