(* ===== verification/Runtime_Claims.thy ===== *)
theory Runtime_Claims
  imports Runtime_Effects Approval_Opening Policy_Claims
begin

text \<open>
  The properties of the runtime inventory: what a report stores, and what its impact means for the
  approval of breaking changes.
\<close>

section \<open>A registry whose names and identifiers are in their stored form\<close>

definition canonical_registry :: "platform \<Rightarrow> db \<Rightarrow> bool" where
  "canonical_registry p d \<longleftrightarrow>
     (\<forall>m \<in> set (db_modules d). p_uuid p (mod_id m) = Some (mod_id m) \<and> NewModuleName (mod_name m) = Inr (mod_name m))
     \<and> (\<forall>v \<in> set (db_versions d). p_uuid p (ver_id v) = Some (ver_id v) \<and> NewVersion (ver_version v) = Inr (ver_version v))
     \<and> distinct (map mod_id (db_modules d)) \<and> distinct (map mod_name (db_modules d))
     \<and> distinct (map ver_id (db_versions d))"

text \<open>The drift of a reported version, by the registry's tables.\<close>

definition drift_of :: "db \<Rightarrow> ModuleName \<Rightarrow> Version \<Rightarrow> RuntimeDriftStatus" where
  "drift_of d name version =
     (case first_module name d of
        None \<Rightarrow> RuntimeDriftStatusUnknownVersion
      | Some m \<Rightarrow>
          (case first_version (mod_id m) version d of
             None \<Rightarrow> RuntimeDriftStatusUnknownVersion
           | Some v \<Rightarrow>
               if ver_deprecated_at v \<noteq> None then RuntimeDriftStatusDeprecatedVersion
               else if map_option ver_version (newest_version (mod_id m) d) = Some version
               then RuntimeDriftStatusUpToDate else RuntimeDriftStatusBehindLatest))"

lemma newest_in: "newest_version mid d = Some r \<Longrightarrow> r \<in> set (db_versions d) \<and> ver_module_id r = mid"
  unfolding newest_version_def by (drule first_row_in) auto

lemma first_version_in:
  "first_version mid version d = Some r \<Longrightarrow>
     r \<in> set (db_versions d) \<and> ver_module_id r = mid \<and> ver_version r = version"
  unfolding first_version_def by (drule first_row_in) auto

lemma first_module_in: "first_module name d = Some m \<Longrightarrow> m \<in> set (db_modules d) \<and> mod_name m = name"
  unfolding first_module_def by (drule first_row_in) auto

lemma newest_exists: "v \<in> set (db_versions d) \<Longrightarrow> newest_version (ver_module_id v) d \<noteq> None"
  by (auto simp: newest_version_def filter_empty_conv dest!: arg_cong [where f = set])

lemma same_row: "distinct (map k xs) \<Longrightarrow> a \<in> set xs \<Longrightarrow> b \<in> set xs \<Longrightarrow> k a = k b \<Longrightarrow> a = b"
  by (metis distinct_map inj_on_def)

lemma scan_canonical:
  assumes "canonical_registry p d" and "uuid_laws p"
  shows "scanModuleVersion r = Inr x \<Longrightarrow> r \<in> set (db_versions d) \<Longrightarrow>
      Version_ID x = ver_id r \<and> Version_Version x = ver_version r
      \<and> (IsDeprecated x \<longleftrightarrow> ver_deprecated_at r \<noteq> None)"
    and "scanModule m = Inr y \<Longrightarrow> m \<in> set (db_modules d) \<Longrightarrow>
      Module_ID y = mod_id m \<and> Module_Name y = mod_name m \<and> p_uuid p (mod_id m) = Some (mod_id m)"
proof -
  assume r: "r \<in> set (db_versions d)" and scan: "scanModuleVersion r = Inr x"
  with assms have "p_uuid p (ver_id r) = Some (ver_id r)" "NewVersion (ver_version r) = Inr (ver_version r)"
    by (simp_all add: canonical_registry_def)
  with uuid_laws_trim [OF assms(2)] scan show "Version_ID x = ver_id r \<and> Version_Version x = ver_version r
      \<and> (IsDeprecated x \<longleftrightarrow> ver_deprecated_at r \<noteq> None)"
    by (auto simp: scanModuleVersion_def bindR_Inr IsDeprecated_def)
next
  assume m: "m \<in> set (db_modules d)" and scan: "scanModule m = Inr y"
  with assms have "p_uuid p (mod_id m) = Some (mod_id m)" "NewModuleName (mod_name m) = Inr (mod_name m)"
    by (simp_all add: canonical_registry_def)
  with uuid_laws_trim [OF assms(2)] scan show "Module_ID y = mod_id m \<and> Module_Name y = mod_name m
      \<and> p_uuid p (mod_id m) = Some (mod_id m)"
    by (auto simp: scanModule_def bindR_Inr)
qed

definition usage_of :: "db \<Rightarrow> ModuleName \<times> Version \<Rightarrow> RuntimeModuleUsage \<Rightarrow> bool" where
  "usage_of d ref usage \<longleftrightarrow>
     (Usage_ModuleName usage, Usage_Version usage) = ref
     \<and> Usage_DriftStatus usage = drift_of d (fst ref) (snd ref)
     \<and> (\<forall>x. Usage_ModuleVersionID usage = Some x \<longrightarrow> (\<exists>m v. first_module (fst ref) d = Some m
          \<and> first_version (mod_id m) (snd ref) d = Some v \<and> x = NewID (ver_id v)))"

lemma classifyUsage_fields:
  "Usage_ModuleName (classifyUsage v latest usage) = Usage_ModuleName usage"
  "Usage_Version (classifyUsage v latest usage) = Usage_Version usage"
  "Usage_ModuleVersionID (classifyUsage v latest usage) = Usage_ModuleVersionID usage"
  "Usage_DriftStatus (classifyUsage v latest usage) =
     (if IsDeprecated v then RuntimeDriftStatusDeprecatedVersion
      else if (case latest of None \<Rightarrow> '''' | Some l \<Rightarrow> Version_ID l) = Version_ID v
           \<or> (case latest of None \<Rightarrow> '''' | Some l \<Rightarrow> Version_Version l) = Version_Version v
      then RuntimeDriftStatusUpToDate else RuntimeDriftStatusBehindLatest)"
  by (simp_all add: classifyUsage_def Let_def)

lemma resolveRuntimeUsage_Inr:
  assumes run: "resolveRuntimeUsage ref w = (Inr usage, w')"
    and laws: "uuid_laws (w_platform w)" and ok: "canonical_registry (w_platform w) (w_db w)"
  shows "usage_of (w_db w) ref usage"
proof -
  obtain name version where ref: "ref = (name, version)" by (cases ref)
  let ?d = "w_db w"
  from run obtain found w1 where lookup: "optionally (ModuleRepo_GetByName name) w = (Inr found, w1)"
    and rest: "(case found of
            None \<Rightarrow> ret (unresolved_usage name version)
          | Some module \<Rightarrow>
              bindE (optionally (VersionRepo_GetByModuleAndVersion (Module_ID module) version)) (\<lambda>found.
                case found of
                  None \<Rightarrow> ret (unresolved_usage name version\<lparr>Usage_ModuleID := Some (Module_ID module),
                      Usage_DriftReason := DriftReasonVersionNotFound\<rparr>)
                | Some moduleVersion \<Rightarrow>
                    bindE (optionally (VersionRepo_GetLatestByModule (Module_ID module))) (\<lambda>latest.
                      ret (classifyUsage moduleVersion latest
                        (unresolved_usage name version\<lparr>Usage_ModuleID := Some (Module_ID module),
                          Usage_ModuleVersionID := Some (Version_ID moduleVersion),
                          Usage_LatestVersion := map_option Version_Version latest\<rparr>))))) w1 = (Inr usage, w')"
    unfolding resolveRuntimeUsage_def ref Let_def by (auto elim!: bindE_InrE)
  show ?thesis
  proof (cases found)
    case None
    from optionally_None [OF lookup [unfolded None]] module_missing have "first_module name ?d = None" by blast
    with rest None show ?thesis by (auto simp: usage_of_def ref drift_of_def unresolved_usage_def)
  next
    case (Some module)
    have w1: "w_db w1 = ?d" "w_platform w1 = w_platform w"
      using stillD [OF optionally_still [OF lookup_version_still(1)] lookup] by (simp_all add: same_env_def)
    obtain m where m: "first_module name ?d = Some m" "scanModule m = Inr module"
      using optionally_Some [OF lookup [unfolded Some]] by (rule module_read)
    note m_in = first_module_in [OF m(1)]
    have mid: "p_uuid (w_platform w) (Module_ID module) = Some (mod_id m)"
      using scan_canonical(2) [OF ok laws m(2)] m_in by simp
    from rest obtain vfound w2 where vlookup: "optionally (VersionRepo_GetByModuleAndVersion
          (Module_ID module) version) w1 = (Inr vfound, w2)"
      and vrest: "(case vfound of
                  None \<Rightarrow> ret (unresolved_usage name version\<lparr>Usage_ModuleID := Some (Module_ID module),
                      Usage_DriftReason := DriftReasonVersionNotFound\<rparr>)
                | Some moduleVersion \<Rightarrow>
                    bindE (optionally (VersionRepo_GetLatestByModule (Module_ID module))) (\<lambda>latest.
                      ret (classifyUsage moduleVersion latest
                        (unresolved_usage name version\<lparr>Usage_ModuleID := Some (Module_ID module),
                          Usage_ModuleVersionID := Some (Version_ID moduleVersion),
                          Usage_LatestVersion := map_option Version_Version latest\<rparr>)))) w2 = (Inr usage, w')"
      unfolding Some by (auto elim!: bindE_InrE)
    show ?thesis
    proof (cases vfound)
      case None
      from optionally_None [OF vlookup [unfolded None]] have "first_version (mod_id m) version ?d = None"
        using version_missing w1 mid by (metis option.inject)
      with vrest None m show ?thesis by (auto simp: usage_of_def ref drift_of_def unresolved_usage_def)
    next
      case (Some mv)
      have w2: "w_db w2 = ?d" "w_platform w2 = w_platform w"
        using stillD [OF optionally_still [OF lookup_version_still(2)] vlookup] w1 by (simp_all add: same_env_def)
      obtain v where v: "first_version (mod_id m) version ?d = Some v" "scanModuleVersion v = Inr mv"
        using optionally_Some [OF vlookup [unfolded Some]] w1 mid by (elim version_read) auto
      note v_in = first_version_in [OF v(1)]
      obtain latest w3 where latest: "optionally (VersionRepo_GetLatestByModule (Module_ID module)) w2 = (Inr latest, w3)"
        and usage: "usage = classifyUsage mv latest
            (unresolved_usage name version\<lparr>Usage_ModuleID := Some (Module_ID module),
              Usage_ModuleVersionID := Some (Version_ID mv),
              Usage_LatestVersion := map_option Version_Version latest\<rparr>)"
        using vrest unfolding Some by (auto elim!: bindE_InrE)
      have newest: "newest_version (mod_id m) ?d \<noteq> None" using newest_exists [of v] v_in by auto
      have "latest \<noteq> None"
      proof
        assume "latest = None"
        from optionally_None [OF latest [unfolded this]] obtain e where
          "VersionRepo_GetLatestByModule (Module_ID module) w2 = (Inl e, w3)" "errors_Is e (Domain ErrNotFound)"
          by blast
        then show False by (rule latest_missing) (use w2 mid newest in simp)
      qed
      then obtain l where l: "latest = Some l" by blast
      obtain n where n: "newest_version (mod_id m) ?d = Some n" "scanModuleVersion n = Inr l"
        using optionally_Some [OF latest [unfolded l]] w2 mid by (elim latest_read) auto
      note n_in = newest_in [OF n(1)]
      have fields: "Version_ID mv = ver_id v" "Version_Version mv = version" "IsDeprecated mv \<longleftrightarrow> ver_deprecated_at v \<noteq> None"
        "Version_ID l = ver_id n" "Version_Version l = ver_version n"
        using scan_canonical(1) [OF ok laws v(2)] scan_canonical(1) [OF ok laws n(2)] v_in n_in by simp_all
      have "ver_id n = ver_id v \<longleftrightarrow> n = v"
        using same_row [of ver_id "db_versions ?d" n v] ok v_in n_in by (auto simp: canonical_registry_def)
      then have "(ver_id n = ver_id v \<or> ver_version n = version) \<longleftrightarrow> ver_version n = version" using v_in by auto
      moreover have "p_uuid (w_platform w) (ver_id v) = Some (ver_id v)"
        using ok v_in by (simp add: canonical_registry_def)
      then have "NewID (ver_id v) = ver_id v" by (rule uuid_laws_trim [OF laws])
      ultimately show ?thesis
        using m(1) v(1) n(1) fields
        by (simp add: usage_of_def ref drift_of_def usage l classifyUsage_fields unresolved_usage_def)
    qed
  qed
qed

section \<open>Reporting\<close>

lemma collectReferences_Inr:
  "collectReferences seen inputs = Inr refs \<Longrightarrow>
   refs = first_by (\<lambda>x. x) seen (map (\<lambda>i. (TrimSpace (Reported_Module i), TrimSpace (Reported_Version i))) inputs)"
proof (induction inputs arbitrary: seen refs)
  case (Cons i inputs)
  then obtain name version where names: "NewModuleName (Reported_Module i) = Inr name"
      "NewVersion (Reported_Version i) = Inr version" by (auto simp: bindR_Inr)
  then have "name = TrimSpace (Reported_Module i)" "version = TrimSpace (Reported_Version i)"
    by (simp_all add: NewModuleName_Inr NewVersion_Inr)
  with Cons names show ?case by (auto simp: bindR_Inr split: if_splits)
qed simp

definition reported_refs :: "ReportRuntimeInventoryInput \<Rightarrow> (ModuleName \<times> Version) list" where
  "reported_refs input = first_by (\<lambda>x. x) {}
     (map (\<lambda>i. (TrimSpace (Reported_Module i), TrimSpace (Reported_Version i))) (Inv_Modules input))"

lemma reportedModuleReferences_Inr:
  "reportedModuleReferences (Inv_Modules input) = Inr refs \<Longrightarrow> refs = reported_refs input"
  using collectReferences_Inr [of "{}" "Inv_Modules input"]
  by (auto simp: reportedModuleReferences_def reported_refs_def bindR_Inr split: if_splits)

lemma collect_resolved:
  assumes "collectE refs (resolveReported deploymentID reportedAt) w = (Inr usages, w')"
    and "uuid_laws (w_platform w)" and "canonical_registry (w_platform w) (w_db w)"
  shows "list_all2 (\<lambda>ref usage. usage_of (w_db w) ref usage \<and> Usage_DeploymentID usage = deploymentID) refs usages"
  using assms
proof (induction refs arbitrary: w usages)
  case (Cons ref refs)
  then obtain usage us w1 where first: "resolveReported deploymentID reportedAt ref w = (Inr usage, w1)"
    and rest: "collectE refs (resolveReported deploymentID reportedAt) w1 = (Inr us, w')"
    and usages: "usages = usage # us" by (auto simp: bindE_Inr)
  from first obtain u w2 where "resolveRuntimeUsage ref w = (Inr u, w2)"
    and u: "usage_of (w_db w) ref u \<longrightarrow> usage_of (w_db w) ref usage" "Usage_DeploymentID usage = deploymentID"
    unfolding resolveReported_def by (auto simp: bindE_Inr usage_of_def)
  with resolveRuntimeUsage_Inr Cons.prems have "usage_of (w_db w) ref usage" by blast
  moreover have "w_db w1 = w_db w" "w_platform w1 = w_platform w"
    using stillD [OF resolved_still first] by (simp_all add: same_env_def)
  with Cons.IH [OF rest] Cons.prems(2,3)
  have "list_all2 (\<lambda>ref usage. usage_of (w_db w) ref usage \<and> Usage_DeploymentID usage = deploymentID) refs us" by simp
  ultimately show ?case by (simp add: usages u(2))
qed simp

text \<open>A report, up to its transaction.\<close>

lemma ReportRuntimeInventory_Inr:
  assumes run: "ReportRuntimeInventory input w = (Inr out, w')"
  obtains deploymentID usages service deployment counts reportedAt w1 w2 where
    "list_all2 (\<lambda>ref usage. usage_of (w_db w) ref usage \<and> Usage_DeploymentID usage = deploymentID)
       (reported_refs input) usages \<or> \<not> uuid_laws (w_platform w) \<or> \<not> canonical_registry (w_platform w) (w_db w)"
    and "storeReported service deployment usages counts reportedAt w1 = (Inr (), w2)" and "w_db w' = w_db w2"
    and "w_db w1 = w_db w" and "same_env w w1"
    and "Deployment_ID deployment = deploymentID" and "InvOut_DeploymentID out = deploymentID"
    and "Service_Name service = TrimSpace (Inv_ServiceName input)"
    and "Deployment_Environment deployment = TrimSpace (Inv_Environment input)"
    and "\<forall>t. Inv_ReportedAt input = Some t \<longrightarrow> Deployment_ReportedAt deployment = t"
    and "counts = fold (\<lambda>usage. DriftCounts_Add (Usage_DriftStatus usage)) usages zero_counts"
    and "InvOut_DriftCounts out = counts"
proof -
  from run obtain name env now refs sid did usages w0 w1 w2 w3 w4 where
    names: "NewRuntimeServiceName (Inv_ServiceName input) = Inr name"
      "NewRuntimeEnvironment (Inv_Environment input) = Inr env"
    and refs: "reportedModuleReferences (Inv_Modules input) = Inr refs"
    and reads: "clock_now w = (Inr now, w0)" "NewRandomID w0 = (Inr sid, w1)" "NewRandomID w1 = (Inr did, w2)"
    and usages: "collectE refs (resolveReported did (case Inv_ReportedAt input of None \<Rightarrow> now | Some t \<Rightarrow> t)) w2
      = (Inr usages, w3)"
    and store: "storeReported \<lparr>Service_ID = sid, Service_Name = name,
          Service_CreatedAt = (case Inv_ReportedAt input of None \<Rightarrow> now | Some t \<Rightarrow> t),
          Service_UpdatedAt = (case Inv_ReportedAt input of None \<Rightarrow> now | Some t \<Rightarrow> t)\<rparr>
        \<lparr>Deployment_ID = did, Deployment_ServiceID = sid, Deployment_ServiceName = name,
          Deployment_Environment = env, Deployment_GitCommit = TrimSpace (Inv_GitCommit input),
          Deployment_BuildVersion = TrimSpace (Inv_BuildVersion input),
          Deployment_ReportedAt = (case Inv_ReportedAt input of None \<Rightarrow> now | Some t \<Rightarrow> t),
          Deployment_CreatedAt = (case Inv_ReportedAt input of None \<Rightarrow> now | Some t \<Rightarrow> t)\<rparr>
        usages (fold (\<lambda>usage. DriftCounts_Add (Usage_DriftStatus usage)) usages zero_counts)
        (case Inv_ReportedAt input of None \<Rightarrow> now | Some t \<Rightarrow> t) w3 = (Inr (), w4)"
    and out: "w' = w4" "InvOut_DeploymentID out = did"
      "InvOut_DriftCounts out = fold (\<lambda>usage. DriftCounts_Add (Usage_DriftStatus usage)) usages zero_counts"
    unfolding ReportRuntimeInventory_def Let_def
    by (elim bindE_InrE) (auto simp: liftE_Inr simp del: liftE_simps)
  have frame: "w_db w2 = w_db w" "same_env w w2"
    using stillD [OF still_clock reads(1)] stillD [OF NewRandomID_still reads(2)]
      stillD [OF NewRandomID_still reads(3)] env.step_trans by (simp, blast)
  have frame3: "w_db w3 = w_db w" "same_env w w3"
    using stillD [OF still.steps_collectE [OF resolved_still] usages] frame env.step_trans by (simp, blast)
  have "list_all2 (\<lambda>ref usage. usage_of (w_db w) ref usage \<and> Usage_DeploymentID usage = did)
       (reported_refs input) usages \<or> \<not> uuid_laws (w_platform w) \<or> \<not> canonical_registry (w_platform w) (w_db w)"
    using collect_resolved [OF usages] frame reportedModuleReferences_Inr [OF refs]
    by (auto simp: same_env_def)
  from that [OF this store _ frame3] show ?thesis
    using names out by (auto simp: NewRuntimeServiceName_Inr NewRuntimeEnvironment_Inr)
qed

lemmas list_all2_right = list_all2_ex [rule_format]

lemma list_all2_chain:
  assumes "list_all2 P xs ys" and "list_all2 Q ys zs" and "\<And>x y z. P x y \<Longrightarrow> Q y z \<Longrightarrow> R x z"
  shows "list_all2 R xs zs"
  using assms(1,2)
proof (induction arbitrary: zs rule: list_all2_induct)
  case (Cons x xs y ys)
  then show ?case using assms(3) by (auto simp: list_all2_Cons1)
qed simp

text \<open>
  C18: what a report of the runtime inventory stores. In one transaction with its outbox record: one
  deployment of the named service in the named environment, and for each module version reported, once
  whatever its spelling or repetitions, a usage with the drift the registry's tables say: unknown,
  deprecated, up to date (the newest version of its module) or behind.
\<close>

theorem runtime_report_exact:
  assumes "ReportRuntimeInventory input w = (Inr out, w')" and "\<not> w_tx w"
    and "uuid_laws (w_platform w)" and "canonical_registry (w_platform w) (w_db w)"
  shows "\<exists>services stored dep rows event.
      w_db w' = reported_db services dep rows event (w_db w)
    \<and> stored \<in> set services \<and> srv_name stored = TrimSpace (Inv_ServiceName input)
    \<and> p_uuid (w_platform w) (NewID (srv_id stored)) = Some (dpl_service_id dep)
    \<and> dpl_environment dep = TrimSpace (Inv_Environment input)
    \<and> map (\<lambda>r. (usg_module_name r, usg_version r)) rows = reported_refs input
    \<and> (\<forall>r \<in> set rows. usg_deployment_id r = dpl_id dep
         \<and> usg_drift_status r
           = RuntimeDriftStatus_String (drift_of (w_db w) (usg_module_name r) (usg_version r)))"
  using assms(1)
proof (rule ReportRuntimeInventory_Inr)
  fix deploymentID usages service deployment counts reportedAt w1 w2
  assume resolved: "list_all2 (\<lambda>ref usage. usage_of (w_db w) ref usage \<and> Usage_DeploymentID usage = deploymentID)
       (reported_refs input) usages \<or> \<not> uuid_laws (w_platform w) \<or> \<not> canonical_registry (w_platform w) (w_db w)"
    and store: "storeReported service deployment usages counts reportedAt w1 = (Inr (), w2)"
    and w': "w_db w' = w_db w2" and w1: "w_db w1 = w_db w" "same_env w w1"
    and names: "Deployment_ID deployment = deploymentID" "Service_Name service = TrimSpace (Inv_ServiceName input)"
      "Deployment_Environment deployment = TrimSpace (Inv_Environment input)"
  have "\<not> w_tx w1" and p: "w_platform w1 = w_platform w" using assms(2) w1 by (simp_all add: same_env_def)
  from store this(1) show ?thesis
  proof (rule storeReported_Inr)
    fix services stored dep rows event
    assume facts: "w_db w2 = reported_db services dep rows event (w_db w1)"
      "stored \<in> set services" "srv_name stored = Service_Name service"
      "p_uuid (w_platform w1) (NewID (srv_id stored)) = Some (dpl_service_id dep)"
      "p_uuid (w_platform w1) (Deployment_ID deployment) = Some (dpl_id dep)"
      "dpl_environment dep = Deployment_Environment deployment"
      and rows: "list_all2 (usage_stored (w_platform w1)) usages rows"
    from resolved assms(3,4) have "list_all2 (\<lambda>ref usage. usage_of (w_db w) ref usage
      \<and> Usage_DeploymentID usage = deploymentID) (reported_refs input) usages" by simp
    from list_all2_chain [OF this rows, of "\<lambda>ref r. (usg_module_name r, usg_version r) = ref
        \<and> usg_deployment_id r = dpl_id dep
        \<and> usg_drift_status r = RuntimeDriftStatus_String (drift_of (w_db w) (usg_module_name r) (usg_version r))"]
    have all: "list_all2 (\<lambda>ref r. (usg_module_name r, usg_version r) = ref
        \<and> usg_deployment_id r = dpl_id dep
        \<and> usg_drift_status r = RuntimeDriftStatus_String (drift_of (w_db w) (usg_module_name r) (usg_version r)))
      (reported_refs input) rows"
      using facts(5) names(1) p by (auto simp: usage_of_def usage_stored_def)
    then have "map (\<lambda>r. (usg_module_name r, usg_version r)) rows = reported_refs input
      \<and> (\<forall>r \<in> set rows. usg_deployment_id r = dpl_id dep \<and> usg_drift_status r
           = RuntimeDriftStatus_String (drift_of (w_db w) (usg_module_name r) (usg_version r)))"
      by (induction rule: list_all2_induct) auto
    then show ?thesis
      using facts names w' w1 p by (intro exI [of _ services] exI [of _ stored] exI [of _ dep] exI [of _ rows]
        exI [of _ event]) simp
  qed
qed

section \<open>The modules the usages name\<close>

definition usages_named :: "db \<Rightarrow> bool" where
  "usages_named d \<longleftrightarrow>
     (\<forall>r \<in> set (db_usages d). \<forall>v. usg_module_version_id r = Some v \<longrightarrow>
        (\<exists>x \<in> set (db_versions d). \<exists>m \<in> set (db_modules d).
           ver_id x = v \<and> mod_id m = ver_module_id x \<and> mod_name m = usg_module_name r))"

lemma report_atomic: "atomic (ReportRuntimeInventory input)"
  unfolding ReportRuntimeInventory_def Let_def storeReported_def
  by (intro atomic_rules still_rules NewRandomID_still resolved_still)

text \<open>
  C19: a usage that is linked to a stored version carries the name of that version's module, and reports
  keep it so, whether they succeed or fail.
\<close>

theorem usages_stay_named:
  assumes "ReportRuntimeInventory input w = (res, w')" and "\<not> w_tx w"
    and laws: "uuid_laws (w_platform w)" and ok: "canonical_registry (w_platform w) (w_db w)"
    and named: "usages_named (w_db w)"
  shows "usages_named (w_db w') \<and> canonical_registry (w_platform w) (w_db w')"
proof (cases res)
  case (Inl e)
  with atomicD [OF report_atomic, of input w e w'] assms show ?thesis by simp
next
  case (Inr out)
  with assms(1) have "ReportRuntimeInventory input w = (Inr out, w')" by simp
  then show ?thesis
  proof (rule ReportRuntimeInventory_Inr)
    fix deploymentID usages service deployment counts reportedAt w1 w2
    assume resolved: "list_all2 (\<lambda>ref usage. usage_of (w_db w) ref usage \<and> Usage_DeploymentID usage = deploymentID)
         (reported_refs input) usages \<or> \<not> uuid_laws (w_platform w) \<or> \<not> canonical_registry (w_platform w) (w_db w)"
      and store: "storeReported service deployment usages counts reportedAt w1 = (Inr (), w2)"
      and w': "w_db w' = w_db w2" and w1: "w_db w1 = w_db w" "same_env w w1"
    have "\<not> w_tx w1" and p: "w_platform w1 = w_platform w" using assms(2) w1 by (simp_all add: same_env_def)
    from store this(1) show ?thesis
    proof (rule storeReported_Inr)
      fix services stored dep rows event
      assume db: "w_db w2 = reported_db services dep rows event (w_db w1)"
        and rows: "list_all2 (usage_stored (w_platform w1)) usages rows"
      have "\<exists>x \<in> set (db_versions (w_db w)). \<exists>m \<in> set (db_modules (w_db w)).
          ver_id x = v \<and> mod_id m = ver_module_id x \<and> mod_name m = usg_module_name r"
        if r: "r \<in> set rows" and v: "usg_module_version_id r = Some v" for r v
      proof -
        obtain usage where usage: "usage \<in> set usages" "usage_stored (w_platform w) usage r"
          using list_all2_right [OF rows r] p by auto
        obtain ref where ref: "usage_of (w_db w) ref usage"
          using resolved laws ok list_all2_right [OF _ usage(1)] by blast
        from usage(2) v obtain y where y: "Usage_ModuleVersionID usage = Some y" "p_uuid (w_platform w) y = Some v"
          by (auto simp: usage_stored_def split: option.splits)
        from ref y(1) obtain m x where mx: "first_module (fst ref) (w_db w) = Some m"
            "first_version (mod_id m) (snd ref) (w_db w) = Some x" "y = NewID (ver_id x)"
          by (auto simp: usage_of_def)
        note m = first_module_in [OF mx(1)] and x = first_version_in [OF mx(2)]
        have "p_uuid (w_platform w) (ver_id x) = Some (ver_id x)" using ok x by (simp add: canonical_registry_def)
        with mx(3) y(2) uuid_laws_trim [OF laws] have "ver_id x = v" by simp
        moreover have "usg_module_name r = fst ref"
          using usage(2) ref by (auto simp: usage_stored_def usage_of_def)
        ultimately show ?thesis using m x by metis
      qed
      then have "usages_named (w_db w')"
        unfolding w' db usages_named_def w1 reported_db_simps set_append
        using named [unfolded usages_named_def] by blast
      then show ?thesis using ok by (simp add: w' db w1 canonical_registry_def)
    qed
  qed
qed

section \<open>Approval by the owners of affected consumers\<close>

text \<open>The service as the server wires it.\<close>

definition wired_service :: "(string \<Rightarrow> string) \<Rightarrow> PolicyConfig \<Rightarrow> ApprovalService" where
  "wired_service lower config = \<lparr>svc_dependencies = Some ListAffectedModules,
     svc_runtime = Some ListRuntimeImpactByModuleVersion, svc_policy = EvaluatePolicy lower,
     svc_policyConfig = config\<rparr>"

text \<open>
  What else the other operations keep of the tables: the base version of a report is one of its module's
  versions, and no module depends on itself.
\<close>

definition reports_based :: "platform \<Rightarrow> db \<Rightarrow> bool" where
  "reports_based p d \<longleftrightarrow>
     (\<forall>rp \<in> set (db_reports d). p_uuid p (rep_module_id rp) = Some (rep_module_id rp)
        \<and> p_uuid p (rep_base_version_id rp) = Some (rep_base_version_id rp)
        \<and> (\<forall>v \<in> set (db_versions d). ver_id v = rep_base_version_id rp \<longrightarrow> ver_module_id v = rep_module_id rp))
     \<and> (\<forall>r \<in> set (db_dependencies d). dep_consumer_module_id r \<noteq> dep_provider_module_id r)"

lemma wired_reads: "collaborators_read (wired_service lower config)"
proof -
  have "steps still (ListAffectedModules m)" for m
    unfolding ListAffectedModules_def by (intro still_rules) (auto simp: bindE_Inr)
  then show ?thesis
    using runtime_queries_still
    by (auto simp: collaborators_read_def wired_service_def still_def reads_only_def on_db_def steps_def
        same_env_def)
qed

lemma affected_names:
  assumes run: "ListAffectedModules mid w = (Inr ms, w')" and u: "p_uuid (w_platform w) mid = Some u"
    and a: "a \<in> set ms" and ok: "canonical_registry (w_platform w) (w_db w)"
  shows "\<exists>cm \<in> set (db_modules (w_db w)). \<exists>r \<in> set (db_dependencies (w_db w)).
    Affected_ModuleName a = mod_name cm \<and> mod_id cm = dep_consumer_module_id r \<and> dep_provider_module_id r = u"
  using run unfolding ListAffectedModules_def
proof (rule query_rows_Inr)
  fix rows d
  assume sql: "bindE (uuid (w_platform w) mid) (\<lambda>u. select (affected_rows u)) (w_db w) = (Inr rows, d)"
    and scan: "list_all2 (\<lambda>r x. scanAffectedModule r = Inr x) rows ms"
  from sql u have rows: "rows = affected_rows u (w_db w)" by (auto simp: bindE_Inr)
  from list_all2_right [OF scan a] obtain row where row: "row \<in> set rows" "scanAffectedModule row = Inr a" ..
  from row(1) have "(fst row, fst (snd row)) \<in> fst ` set (affected_joined u (w_db w))"
    unfolding rows affected_rows_def by (auto intro: rev_image_eqI)
  then obtain cm r where cm: "cm \<in> set (db_modules (w_db w))" "r \<in> set (db_dependencies (w_db w))"
    "dep_provider_module_id r = u" "mod_id cm = dep_consumer_module_id r" "fst row = mod_name cm"
    by (auto simp: affected_joined_def by_id_def)
  have "NewModuleName (fst row) = Inr (Affected_ModuleName a)"
    using row(2) by (auto simp: scanAffectedModule_def bindR_Inr split: prod.splits)
  moreover have "NewModuleName (mod_name cm) = Inr (mod_name cm)"
    using ok cm(1) by (simp add: canonical_registry_def)
  ultimately show ?thesis using cm by (intro bexI [of _ cm] bexI [of _ r]) auto
qed

lemma impact_names:
  assumes run: "ListRuntimeImpactByModuleVersion rid vid limit off w = (Inr items, w')"
    and u: "p_uuid (w_platform w) vid = Some v" and item: "item \<in> set items"
    and ok: "canonical_registry (w_platform w) (w_db w)" and named: "usages_named (w_db w)"
  shows "\<exists>x \<in> set (db_versions (w_db w)). \<exists>m \<in> set (db_modules (w_db w)).
    ver_id x = v \<and> mod_id m = ver_module_id x \<and> Impact_UsedModule item = mod_name m"
  using run unfolding ListRuntimeImpactByModuleVersion_def
proof (rule query_rows_Inr)
  fix rows d
  assume sql: "bindE (uuid (w_platform w) vid) (\<lambda>v. select (impact_rows v limit off)) (w_db w) = (Inr rows, d)"
    and scan: "list_all2 (\<lambda>r x. scanRuntimeImpact r = Inr x) rows items"
  from sql u have rows: "rows = impact_rows v limit off (w_db w)" by (auto simp: bindE_Inr)
  from list_all2_right [OF scan item] obtain row where row: "row \<in> set rows" "scanRuntimeImpact row = Inr item" ..
  obtain rmu rd rs where split: "row = (rmu, rd, rs)" by (cases row)
  have "row \<in> set (filter (\<lambda>(rmu, _). usg_module_version_id rmu = Some v) (usages_joined (w_db w)))"
    using row(1) by (auto simp: rows impact_rows_def limit_offset_def dest!: in_set_takeD in_set_dropD)
  then have "rmu \<in> set (db_usages (w_db w))" "usg_module_version_id rmu = Some v"
    by (auto simp: usages_joined_def split)
  with named obtain x m where xm: "x \<in> set (db_versions (w_db w))" "m \<in> set (db_modules (w_db w))"
    "ver_id x = v" "mod_id m = ver_module_id x" "mod_name m = usg_module_name rmu"
    unfolding usages_named_def by blast
  have "NewModuleName (usg_module_name rmu) = Inr (Impact_UsedModule item)"
    using row(2) by (auto simp: scanRuntimeImpact_def split bindR_Inr)
  moreover have "NewModuleName (mod_name m) = Inr (mod_name m)"
    using ok xm(2) by (simp add: canonical_registry_def)
  ultimately show ?thesis using xm by (intro bexI [of _ x] bexI [of _ m]) auto
qed

lemma policyAffected_Inr:
  assumes "policyAffectedModule item w = (Inr a, w')" and "uuid_laws (w_platform w)"
    and "canonical_registry (w_platform w) (w_db w)"
  shows "Policy_ModuleName a = Affected_ModuleName item \<and> \<not> Policy_ProductionUsed a"
  using assms(1) unfolding policyAffectedModule_def
proof (rule bindE_InrE)
  fix found w1
  assume look: "attempt (ModuleRepo_GetByName (Affected_ModuleName item)) w = (Inr found, w1)"
    and rest: "(case found of
         Inl err \<Rightarrow>
           if errors_Is err (Domain ErrNotFound)
           then ret \<lparr>Policy_ModuleID = None, Policy_ModuleName = Affected_ModuleName item,
                      Policy_Owners = [], Policy_ProductionUsed = False\<rparr>
           else raise err
       | Inr module \<Rightarrow>
           bindE (ignoreNotFound (OwnerRepo_ListByModule (Module_ID module))) (\<lambda>owners.
             ret \<lparr>Policy_ModuleID = Some (Module_ID module), Policy_ModuleName = Module_Name module,
                   Policy_Owners = owners, Policy_ProductionUsed = False\<rparr>)) w1 = (Inr a, w')"
  show ?thesis
  proof (cases found)
    case (Inl e)
    with rest show ?thesis by (auto split: if_splits)
  next
    case (Inr module)
    with look have "ModuleRepo_GetByName (Affected_ModuleName item) w = (Inr module, w1)"
      by (simp add: attempt_simps)
    then obtain m where "first_module (Affected_ModuleName item) (w_db w) = Some m" "scanModule m = Inr module"
      by (rule module_read)
    with scan_canonical(2) [OF assms(3,2)] first_module_in have "Module_Name module = Affected_ModuleName item" by metis
    with rest Inr show ?thesis by (auto simp: bindE_Inr)
  qed
qed

lemma policyAffecteds_Inr:
  assumes "collectE affected policyAffectedModule w = (Inr as, w')" and "uuid_laws (w_platform w)"
    and "canonical_registry (w_platform w) (w_db w)"
  shows "\<forall>a \<in> set as. \<not> Policy_ProductionUsed a \<and> (\<exists>item \<in> set affected. Policy_ModuleName a = Affected_ModuleName item)"
  using assms
proof (induction affected arbitrary: w as)
  case (Cons item affected)
  then obtain a rest w1 where first: "policyAffectedModule item w = (Inr a, w1)"
    and more: "collectE affected policyAffectedModule w1 = (Inr rest, w')" and as: "as = a # rest"
    by (auto simp: bindE_Inr)
  have "steps still (policyAffectedModule item)"
    unfolding policyAffectedModule_def ignoreNotFound_def OwnerRepo_ListByModule_def
    by (intro still_rules lookup_version_still; auto simp: bindE_Inr)
  from stillD [OF this first] have "w_db w1 = w_db w" "w_platform w1 = w_platform w" by (simp_all add: same_env_def)
  with Cons.IH [OF more] Cons.prems(2,3) policyAffected_Inr [OF first] show ?case by (auto simp: as)
qed simp

text \<open>No affected module of a report's policy input is in production.\<close>

lemma wired_context:
  assumes run: "approvalPolicyContextForReport (wired_service lower config) reportID w = (Inr ctx, w')"
    and laws: "uuid_laws (w_platform w)" and ok: "canonical_registry (w_platform w) (w_db w)"
    and named: "usages_named (w_db w)" and based: "reports_based (w_platform w) (w_db w)"
  shows "\<forall>a \<in> set (Ctx_AffectedModules ctx). \<not> Policy_ProductionUsed a
    \<and> (\<forall>item \<in> set (Ctx_RuntimeImpact ctx). Impact_UsedModule item \<noteq> Policy_ModuleName a)"
proof -
  let ?svc = "wired_service lower config"
  from run obtain report changes w1 module w2 owners w3 affected w4 impact w5 policyAffected
    where get: "ReportRepo_GetByID reportID w = (Inr (report, changes), w1)"
      and module: "ModuleRepo_GetByID (Report_ModuleID report) w1 = (Inr module, w2)"
      and owners: "ignoreNotFound (OwnerRepo_ListByModule (Module_ID module)) w2 = (Inr owners, w3)"
      and affected: "affectedModules ?svc (Report_ModuleID report) w3 = (Inr affected, w4)"
      and impact: "runtimeImpact ?svc report w4 = (Inr impact, w5)"
      and policy: "collectE affected policyAffectedModule w5 = (Inr policyAffected, w')"
      and ctx: "Ctx_AffectedModules ctx = policyAffected" "Ctx_RuntimeImpact ctx = impact"
    unfolding approvalPolicyContextForReport_def policyAffectedModules_def
    by (elim bindE_pairE bindE_InrE) (auto simp: replaceErr_def)
  have same: "w_db w1 = w_db w" "w_db w2 = w_db w" "w_db w3 = w_db w" "w_db w4 = w_db w" "w_db w5 = w_db w"
      "w_platform w1 = w_platform w" "w_platform w2 = w_platform w" "w_platform w3 = w_platform w"
      "w_platform w4 = w_platform w" "w_platform w5 = w_platform w"
  proof -
    have still: "steps still (ReportRepo_GetByID reportID)" "steps still (ModuleRepo_GetByID (Report_ModuleID report))"
      "steps still (affectedModules ?svc (Report_ModuleID report))" "steps still (runtimeImpact ?svc report)"
      by (rule stillI registry_reads registry_env collaborators_readD [OF wired_reads])+
    have own: "steps still (ignoreNotFound (OwnerRepo_ListByModule (Module_ID module)))"
      unfolding ignoreNotFound_def by (intro still_rules stillI registry_reads registry_env)
    show "w_db w1 = w_db w" "w_db w2 = w_db w" "w_db w3 = w_db w" "w_db w4 = w_db w" "w_db w5 = w_db w"
      "w_platform w1 = w_platform w" "w_platform w2 = w_platform w" "w_platform w3 = w_platform w"
      "w_platform w4 = w_platform w" "w_platform w5 = w_platform w"
      using stillD [OF still(1) get] stillD [OF still(2) module] stillD [OF own owners]
        stillD [OF still(3) affected] stillD [OF still(4) impact] by (simp_all add: same_env_def)
  qed
  from get obtain rp n v where rp: "rp \<in> set (db_reports (w_db w))" and "scanBreakingReport (rp, n, v) = Inr report"
    by (rule ReportRepo_GetByID_scan)
  then have "Report_ModuleID report = NewID (rep_module_id rp)" "Report_BaseVersionID report = NewID (rep_base_version_id rp)"
    by (auto simp: scanBreakingReport_def bindR_Inr)
  moreover have canon: "p_uuid (w_platform w) (rep_module_id rp) = Some (rep_module_id rp)"
    "p_uuid (w_platform w) (rep_base_version_id rp) = Some (rep_base_version_id rp)"
    using based rp by (simp_all add: reports_based_def)
  ultimately have ids: "Report_ModuleID report = rep_module_id rp" "Report_BaseVersionID report = rep_base_version_id rp"
    using uuid_laws_trim [OF laws] by simp_all
  have consumer: "\<exists>cm \<in> set (db_modules (w_db w)). mod_id cm \<noteq> rep_module_id rp \<and> Affected_ModuleName item = mod_name cm"
    if "item \<in> set affected" for item
  proof -
    from affected have "ListAffectedModules (rep_module_id rp) w3 = (Inr affected, w4) \<or> affected = []"
      by (auto simp: affectedModules_def wired_service_def ignoreNotFound_def catchE_Inr ids split: if_splits)
    with that have "ListAffectedModules (rep_module_id rp) w3 = (Inr affected, w4)" by auto
    from affected_names [OF this _ that, of "rep_module_id rp"] canon(1) ok same
    obtain cm r where cm: "cm \<in> set (db_modules (w_db w))" "r \<in> set (db_dependencies (w_db w))"
      "Affected_ModuleName item = mod_name cm" "mod_id cm = dep_consumer_module_id r"
      "dep_provider_module_id r = rep_module_id rp" by auto
    moreover have "dep_consumer_module_id r \<noteq> dep_provider_module_id r"
      using based cm(2) by (simp add: reports_based_def)
    ultimately show ?thesis by (intro bexI [of _ cm]) simp_all
  qed
  have used: "\<exists>m \<in> set (db_modules (w_db w)). mod_id m = rep_module_id rp \<and> Impact_UsedModule item = mod_name m"
    if "item \<in> set impact" for item
  proof -
    from impact that have "ListRuntimeImpactByModuleVersion (Report_ID report) (rep_base_version_id rp)
        defaultApprovalListLimit 0 w4 = (Inr impact, w5)"
      by (auto simp: runtimeImpact_def wired_service_def ignoreNotFound_def catchE_Inr ids split: if_splits)
    from impact_names [OF this _ that, of "rep_base_version_id rp"] canon(2) ok named same
    obtain x m where "x \<in> set (db_versions (w_db w))" "m \<in> set (db_modules (w_db w))"
      "ver_id x = rep_base_version_id rp" "mod_id m = ver_module_id x" "Impact_UsedModule item = mod_name m"
      by auto
    with based rp show ?thesis by (auto simp: reports_based_def)
  qed
  have differ: "mod_name m \<noteq> mod_name cm" if "m \<in> set (db_modules (w_db w))" "cm \<in> set (db_modules (w_db w))"
    "mod_id m \<noteq> mod_id cm" for m cm
    using same_row [of mod_name "db_modules (w_db w)" m cm] ok that by (auto simp: canonical_registry_def)
  have "uuid_laws (w_platform w5)" "canonical_registry (w_platform w5) (w_db w5)" using laws ok same by simp_all
  from policyAffecteds_Inr [OF policy this] consumer used differ show ?thesis
    unfolding ctx by (metis (no_types))
qed

text \<open>
  C13: as the server wires the approval workflow, a request never asks the owners of an affected consumer:
  all its requirements are approvals by the owners of the changed module. The runtime impact of a report
  lists the deployments of the changed module's own version, whose name no other module has, and nothing
  else marks an affected module as used in production.
\<close>

theorem consumer_approval_never_required:
  assumes "CreateApprovalRequestForBreakingReport (wired_service lower config) input w = (res, w')"
    and "\<not> w_tx w" and laws: "uuid_laws (w_platform w)"
    and ok: "canonical_registry (w_platform w) (w_db w)"
    and named: "usages_named (w_db w)" and based: "reports_based (w_platform w) (w_db w)"
  shows "\<exists>rows. db_requirements (w_db w') = db_requirements (w_db w) @ rows
    \<and> (\<forall>r \<in> set rows. rqm_requirement_type r = ''module_owner_approval'')"
  using assms(1,2) wired_reads
proof (cases rule: createAll_cases)
  case unchanged
  then show ?thesis by simp
next
  case (opened request ctx w0 w1)
  let ?i = "\<lparr>Input_Report = Ctx_Report ctx, Input_ModuleOwners = Ctx_ModuleOwners ctx,
       Input_AffectedModules = Ctx_AffectedModules ctx, Input_RuntimeImpact = Ctx_RuntimeImpact ctx,
       Input_Config = config\<rparr>"
  let ?result = "EvaluatePolicy lower ?i"
  have result: "policyResultFor (wired_service lower config) ctx = ?result"
    by (simp add: policyResultFor_def wired_service_def)
  have w0: "w_platform w0 = w_platform w" using opened(3) by (simp add: same_env_def)
  have quiet: "\<forall>a \<in> set (Ctx_AffectedModules ctx). \<not> Policy_ProductionUsed a
    \<and> (\<forall>item \<in> set (Ctx_RuntimeImpact ctx). Impact_UsedModule item \<noteq> Policy_ModuleName a)"
    by (rule wired_context [OF opened(4)]) (use laws ok named based opened(2) w0 in simp_all)
  then have "filter (in_production (productionRuntimeModules lower (Ctx_RuntimeImpact ctx) envs))
      (Ctx_AffectedModules ctx) = []" for envs
    by (auto simp: filter_empty_conv in_production_def productionRuntimeModules_iff)
  then have "required_plans lower ?i = [moduleOwnerPlan (Ctx_Report ctx) (normalizePolicyConfig config)]"
    by (simp add: required_plans_def Let_def)
  note required = this
  have plans: "Plan_RequirementType p = ApprovalRequirementTypeModuleOwnerApproval"
    if p: "p \<in> set (Result_Requirements ?result)" for p
  proof (cases "Config_Enabled config \<and> Report_Status (Ctx_Report ctx) = BreakingReportStatusBreaking")
    case True
    then have "map strip (Result_Requirements ?result) = [moduleOwnerPlan (Ctx_Report ctx) (normalizePolicyConfig config)]"
      using EvaluatePolicy_breaking [of ?i lower] required by simp
    moreover have "strip p \<in> set (map strip (Result_Requirements ?result))" using p by simp
    ultimately have "strip p = moduleOwnerPlan (Ctx_Report ctx) (normalizePolicyConfig config)"
      by (simp only: list.set empty_iff insert_iff simp_thms)
    then have "Plan_RequirementType (strip p) = ApprovalRequirementTypeModuleOwnerApproval"
      by (simp add: moduleOwnerPlan_def)
    then show ?thesis by (simp add: strip_def)
  next
    case False
    then show ?thesis using EvaluatePolicy_not_required [of ?i lower] p by auto
  qed
  obtain row rid rows audit event where d': "w_db w' = opened_db row rows audit event (w_db w)"
    and rows: "list_all2 (requirement_row_for (w_platform w) rid) (Request_Requirements request) rows"
    and shape: "map (\<lambda>x. (Requirement_RequirementType x, Requirement_TargetModuleID x,
              Requirement_TargetModuleName x, Requirement_Status x)) (Request_Requirements request)
          = map (\<lambda>p. (Plan_RequirementType p, Plan_TargetModuleID p, Plan_TargetModuleName p,
              Plan_Status p)) (Result_Requirements ?result)"
    using opened(5) unfolding result opens_def by blast
  have "rqm_requirement_type ` set rows
      = (\<lambda>p. ApprovalRequirementType_String (Plan_RequirementType p)) ` set (Result_Requirements ?result)"
    using arg_cong [OF requirement_rows_plans(1) [OF rows shape], of "\<lambda>xs. fst ` set xs"]
    by (simp add: image_image)
  with plans have "\<forall>r \<in> set rows. rqm_requirement_type r = ''module_owner_approval''" by (auto simp: image_iff)
  then show ?thesis by (intro exI [of _ rows]) (simp add: d' opened_db_simps)
qed

end
