(* ===== verification/Runtime_Witnesses.thy ===== *)
theory Runtime_Witnesses
  imports Runtime_Claims Samples
begin

text \<open>
  The properties of the runtime inventory applied to a registry of two modules: \<open>shop\<close> depends on
  \<open>common\<close>, a breaking report of \<open>common\<close> is stored, and both modules are deployed in production.
\<close>

definition fleet_version :: "string \<Rightarrow> string \<Rightarrow> string \<Rightarrow> time \<Rightarrow> version_row" where
  "fleet_version u m v at = \<lparr>ver_id = u, ver_module_id = m, ver_version = v, ver_digest = '''',
     ver_status = ''published'', ver_created_at = at, ver_deprecated_at = None,
     ver_deprecated_by = '''', ver_deprecation_reason = ''''\<rparr>"

definition fleet_module :: "string \<Rightarrow> string \<Rightarrow> module_row" where
  "fleet_module u name = \<lparr>mod_id = u, mod_name = name, mod_description = '''',
     mod_repository_url = '''', mod_created_at = 1, mod_updated_at = 1\<rparr>"

definition fleet :: db where
  "fleet = empty_db\<lparr>
     db_modules := [fleet_module ''a-1'' ''shop'', fleet_module ''a-2'' ''common''],
     db_versions := [fleet_version ''b-1'' ''a-1'' ''v1'' 2, fleet_version ''b-2'' ''a-2'' ''v1'' 2,
       fleet_version ''b-3'' ''a-2'' ''v2'' 3],
     db_reports := [\<lparr>rep_id = ''c-1'', rep_module_id = ''a-2'', rep_base_version_id = ''b-2'',
       rep_target_ref = ''local'', rep_status = ''breaking'', rep_change_count = 1,
       rep_raw_output = '''', rep_human_summary = '''', rep_created_at = 4\<rparr>],
     db_dependencies := [\<lparr>dep_id = ''d-1'', dep_consumer_module_id = ''a-1'',
       dep_consumer_module_version_id = ''b-1'', dep_provider_module_id = ''a-2'',
       dep_provider_module_version_id = ''b-2'', dep_source = ''import'', dep_reason = ''import_path'',
       dep_import_path = ''common.proto'', dep_referenced_package = '''', dep_referenced_symbol = '''',
       dep_created_at = 3\<rparr>]\<rparr>"

definition fleet_report :: ReportRuntimeInventoryInput where
  "fleet_report = \<lparr>Inv_ServiceName = '' checkout '', Inv_Environment = ''prod'', Inv_GitCommit = ''abc'',
     Inv_BuildVersion = ''1'', Inv_ReportedAt = None,
     Inv_Modules = [\<lparr>Reported_Module = ''common'', Reported_Version = ''v1''\<rparr>,
       \<lparr>Reported_Module = ''shop'', Reported_Version = ''v1''\<rparr>,
       \<lparr>Reported_Module = '' common'', Reported_Version = ''v1 ''\<rparr>,
       \<lparr>Reported_Module = ''lost'', Reported_Version = ''v9''\<rparr>]\<rparr>"

definition fleet_run :: "(goerr + ReportRuntimeInventoryOutput) \<times> world" where
  "fleet_run = ReportRuntimeInventory fleet_report (sample_world fleet)"

lemma fleet_run_value: "succeeded fleet_run"
  "map (\<lambda>r. (usg_module_name r, usg_drift_status r)) (db_usages (w_db (snd fleet_run)))
    = [(''common'', ''behind_latest''), (''shop'', ''up_to_date''), (''lost'', ''unknown_version'')]"
  "\<not> w_tx (snd fleet_run)"
  by code_simp+

lemma fleet_run_eq: "ReportRuntimeInventory fleet_report (sample_world fleet)
    = (Inr (projr (fst fleet_run)), snd fleet_run)"
  using succeeded_eq [OF fleet_run_value(1)] by (simp add: fleet_run_def)

lemma fleet_canonical: "canonical_registry sample_platform fleet"
proof -
  have "list_all (\<lambda>m. sample_uuid (mod_id m) = Some (mod_id m) \<and> NewModuleName (mod_name m) = Inr (mod_name m))
      (db_modules fleet)"
    "list_all (\<lambda>v. sample_uuid (ver_id v) = Some (ver_id v) \<and> NewVersion (ver_version v) = Inr (ver_version v))
      (db_versions fleet)"
    "distinct (map mod_id (db_modules fleet))" "distinct (map mod_name (db_modules fleet))"
    "distinct (map ver_id (db_versions fleet))"
    by code_simp+
  then show ?thesis by (simp add: canonical_registry_def list_all_iff)
qed

lemma fleet_named: "usages_named fleet"
  by (simp add: usages_named_def fleet_def empty_db_def)

theorem runtime_report_exact_witness:
  "map (\<lambda>r. (usg_module_name r, usg_version r)) (db_usages (w_db (snd fleet_run)))
     = [(''common'', ''v1''), (''shop'', ''v1''), (''lost'', ''v9'')]
   \<and> drift_of fleet ''common'' ''v1'' = RuntimeDriftStatusBehindLatest"
proof -
  have "reported_refs fleet_report = [(''common'', ''v1''), (''shop'', ''v1''), (''lost'', ''v9'')]"
    "drift_of fleet ''common'' ''v1'' = RuntimeDriftStatusBehindLatest" "db_usages fleet = []"
    by code_simp+
  moreover have "\<exists>rows. db_usages (w_db (snd fleet_run)) = db_usages fleet @ rows
      \<and> map (\<lambda>r. (usg_module_name r, usg_version r)) rows = reported_refs fleet_report"
    using runtime_report_exact [OF fleet_run_eq] fleet_canonical sample_uuid_laws by auto
  ultimately show ?thesis by simp
qed

theorem usages_stay_named_witness:
  "usages_named (w_db (snd fleet_run)) \<and> canonical_registry sample_platform (w_db (snd fleet_run))"
  using usages_stay_named [OF fleet_run_eq] fleet_canonical fleet_named sample_uuid_laws by simp

definition fleet_service :: ApprovalService where
  "fleet_service = wired_service (\<lambda>s. s) DefaultPolicyConfig"

definition fleet_after :: world where
  "fleet_after = sample_world (fleet\<lparr>db_services := db_services (w_db (snd fleet_run)),
     db_deployments := db_deployments (w_db (snd fleet_run)), db_usages := db_usages (w_db (snd fleet_run))\<rparr>)"

definition fleet_create :: CreateInput where
  "fleet_create = \<lparr>Create_BreakingReportID = ''c-1'', Create_Actor = ''ann'', Create_TargetRef = ''''\<rparr>"

definition fleet_request :: "(goerr + ApprovalRequest) \<times> world" where
  "fleet_request = CreateApprovalRequestForBreakingReport fleet_service fleet_create fleet_after"

lemma fleet_request_value:
  "map rqm_target_module_name (db_requirements (w_db (snd fleet_request))) = [''common'']"
  "map (\<lambda>a. Affected_ModuleName a) (projr (fst (ListAffectedModules ''a-2'' fleet_after))) = [''shop'']"
  by code_simp+

theorem consumer_approval_never_required_witness:
  "rqm_requirement_type ` set (db_requirements (w_db (snd fleet_request))) = {''module_owner_approval''}"
proof -
  have run: "CreateApprovalRequestForBreakingReport (wired_service (\<lambda>s. s) DefaultPolicyConfig) fleet_create
      fleet_after = (fst fleet_request, snd fleet_request)"
    by (simp add: fleet_request_def fleet_service_def)
  have after: "w_platform fleet_after = sample_platform" "\<not> w_tx fleet_after"
    "db_modules (w_db fleet_after) = db_modules fleet" "db_versions (w_db fleet_after) = db_versions fleet"
    "db_reports (w_db fleet_after) = db_reports fleet" "db_dependencies (w_db fleet_after) = db_dependencies fleet"
    "db_usages (w_db fleet_after) = db_usages (w_db (snd fleet_run))" "db_requirements (w_db fleet_after) = []"
    by (simp_all add: fleet_after_def) (simp add: fleet_def empty_db_def)
  have canonical: "canonical_registry sample_platform (w_db fleet_after)"
    using fleet_canonical by (simp add: canonical_registry_def after)
  have "list_all (\<lambda>r. case usg_module_version_id r of None \<Rightarrow> True
      | Some v \<Rightarrow> list_ex (\<lambda>x. ver_id x = v \<and> list_ex (\<lambda>m. mod_id m = ver_module_id x
          \<and> mod_name m = usg_module_name r) (db_modules fleet)) (db_versions fleet)) (db_usages (w_db (snd fleet_run)))"
    by code_simp
  then have named: "usages_named (w_db fleet_after)"
    by (fastforce simp: usages_named_def after list_all_iff list_ex_iff split: option.splits)
  have "list_all (\<lambda>rp. sample_uuid (rep_module_id rp) = Some (rep_module_id rp)
      \<and> sample_uuid (rep_base_version_id rp) = Some (rep_base_version_id rp)
      \<and> list_all (\<lambda>v. ver_id v = rep_base_version_id rp \<longrightarrow> ver_module_id v = rep_module_id rp) (db_versions fleet))
      (db_reports fleet)"
    "list_all (\<lambda>r. dep_consumer_module_id r \<noteq> dep_provider_module_id r) (db_dependencies fleet)"
    by code_simp+
  then have based: "reports_based sample_platform (w_db fleet_after)"
    by (simp add: reports_based_def after list_all_iff)
  have "db_requirements (w_db (snd fleet_request)) \<noteq> []" using fleet_request_value(1) by auto
  moreover have "\<forall>r \<in> set (db_requirements (w_db (snd fleet_request))). rqm_requirement_type r = ''module_owner_approval''"
    using consumer_approval_never_required [OF run after(2)] sample_uuid_laws canonical named based
    by (simp add: after(1,8))
  ultimately show ?thesis by (cases "db_requirements (w_db (snd fleet_request))") auto
qed

end
