(* ===== verification/Outbox_Publisher.thy ===== *)
theory Outbox_Publisher
  imports Outbox_Store
begin

text \<open>
  The publisher of \<^verbatim>\<open>internal/outbox/publisher.go\<close>, over any repository and dispatcher: the state
  \<open>'w\<close> is whatever they act on. The observer receives the counters the source reports; loggers are
  left out, they return nothing. \<^verbatim>\<open>Run\<close> takes the sequence of events its \<^verbatim>\<open>select\<close> receives.

  Durations are nanoseconds. The backoff is computed in \<^verbatim>\<open>float64\<close>: the initial backoff is rounded to
  a 53-bit significand, scaling by a power of two is exact, and a value outside \<^verbatim>\<open>int64\<close> converts to
  an implementation-defined integer that is either negative or the largest one; both give the
  maximal backoff.
\<close>

section \<open>Options\<close>

record PublisherOptions =
  Opt_Enabled :: bool
  Opt_BatchSize :: int
  Opt_PollInterval :: duration
  Opt_LeaseDuration :: duration
  Opt_MaxAttempts :: int
  Opt_InitialRetryBackoff :: duration
  Opt_MaxRetryBackoff :: duration
  Opt_ErrorMessageMaxLength :: int

definition Second :: duration where "Second = 1000000000"
definition Minute :: duration where "Minute = 60 * Second"

definition DefaultPublisherOptions :: PublisherOptions where
  "DefaultPublisherOptions =
     \<lparr>Opt_Enabled = False, Opt_BatchSize = 50, Opt_PollInterval = 5 * Second,
      Opt_LeaseDuration = 30 * Second, Opt_MaxAttempts = 5,
      Opt_InitialRetryBackoff = 30 * Second, Opt_MaxRetryBackoff = 5 * Minute,
      Opt_ErrorMessageMaxLength = 4096\<rparr>"

definition normalizePublisherOptions :: "PublisherOptions \<Rightarrow> PublisherOptions" where
  "normalizePublisherOptions options =
     (let defaults = DefaultPublisherOptions;
          positive = (\<lambda>v d. if v \<le> 0 then d else (v :: int));
          initial = positive (Opt_InitialRetryBackoff options) (Opt_InitialRetryBackoff defaults);
          maximal = positive (Opt_MaxRetryBackoff options) (Opt_MaxRetryBackoff defaults)
      in options\<lparr>
           Opt_BatchSize := positive (Opt_BatchSize options) (Opt_BatchSize defaults),
           Opt_PollInterval := positive (Opt_PollInterval options) (Opt_PollInterval defaults),
           Opt_LeaseDuration := positive (Opt_LeaseDuration options) (Opt_LeaseDuration defaults),
           Opt_MaxAttempts := positive (Opt_MaxAttempts options) (Opt_MaxAttempts defaults),
           Opt_InitialRetryBackoff := initial,
           Opt_MaxRetryBackoff := (if maximal < initial then initial else maximal),
           Opt_ErrorMessageMaxLength :=
             positive (Opt_ErrorMessageMaxLength options) (Opt_ErrorMessageMaxLength defaults)\<rparr>)"

section \<open>Backoff\<close>

text \<open>
  \<^verbatim>\<open>float64(n)\<close> for a positive integer: round to nearest, ties to even, at 53 significant bits.
  \<open>excess\<close> is the number of bits beyond them, found by halving.
\<close>

function excess :: "int \<Rightarrow> nat" where
  "excess n = (if n < 2 ^ 53 then 0 else Suc (excess (n div 2)))"
  by pat_completeness auto
termination by (relation "measure nat") auto

declare excess.simps [simp del]

definition float64 :: "int \<Rightarrow> int" where
  "float64 n =
     (let u = 2 ^ excess n; q = n div u; r = n mod u
      in if 2 * r > u \<or> (2 * r = u \<and> odd q) then (q + 1) * u else q * u)"

definition retryBackoff :: "PublisherOptions \<Rightarrow> int \<Rightarrow> duration" where
  "retryBackoff options attempts =
     (let attempt = (if attempts < 1 then 1 else attempts);
          backoff = float64 (Opt_InitialRetryBackoff options) * 2 ^ nat (attempt - 1)
      in if backoff \<ge> 2 ^ 63 \<or> backoff \<le> 0 \<or> backoff > Opt_MaxRetryBackoff options
         then Opt_MaxRetryBackoff options else backoff)"

definition truncateMessage :: "string \<Rightarrow> int \<Rightarrow> string" where
  "truncateMessage message maxLength =
     (if maxLength \<le> 0 \<or> int (length message) \<le> maxLength then message
      else take (nat maxLength) message)"

section \<open>The publisher\<close>

record 'w Repository =
  Repo_ClaimPending :: "int \<Rightarrow> duration \<Rightarrow> time \<Rightarrow> ('w, goerr, Record list) go"
  Repo_MarkPublished :: "string \<Rightarrow> time \<Rightarrow> ('w, goerr, unit) go"
  Repo_MarkFailed :: "string \<Rightarrow> string \<Rightarrow> time \<Rightarrow> time \<Rightarrow> int \<Rightarrow> ('w, goerr, unit) go"
  Repo_Stats :: "('w, goerr, Stats) go"

datatype observation =
  RecordClaimed nat | RecordDispatch string duration | RecordError string | RecordStats Stats

record 'w Publisher =
  Pub_Repository :: "'w Repository"
  Pub_Dispatch :: "Record \<Rightarrow> ('w, goerr, unit) go"
  Pub_Options :: PublisherOptions
  Pub_Observer :: "(observation \<Rightarrow> 'w \<Rightarrow> 'w) option"
  Pub_Now :: "('w, goerr, time) go"
  Pub_CtxErr :: "('w, goerr, unit) go"
  Pub_ErrorText :: "goerr \<Rightarrow> string"

definition observe :: "'w Publisher \<Rightarrow> observation \<Rightarrow> ('w, goerr, unit) go" where
  "observe publisher obs w =
     (case Pub_Observer publisher of None \<Rightarrow> (Inr (), w) | Some f \<Rightarrow> (Inr (), f obs w))"

definition recordStats :: "'w Publisher \<Rightarrow> ('w, goerr, unit) go" where
  "recordStats publisher =
     (case Pub_Observer publisher of
        None \<Rightarrow> ret ()
      | Some _ \<Rightarrow>
          bindE (attempt (Repo_Stats (Pub_Repository publisher))) (\<lambda>result.
            case result of
              Inl err \<Rightarrow> observe publisher (RecordError ''stats_failed'')
            | Inr stats \<Rightarrow> observe publisher (RecordStats stats)))"

definition markedPublished ::
  "'w Publisher \<Rightarrow> Record \<Rightarrow> duration \<Rightarrow> ('w, goerr, unit) go" where
  "markedPublished publisher record dur =
     bindE (Pub_Now publisher) (\<lambda>now.
       bindE
         (catchE (Repo_MarkPublished (Pub_Repository publisher) (Rec_ID record) now)
            (\<lambda>markErr. bindE (observe publisher (RecordError ''mark_published_failed''))
               (\<lambda>_. raise markErr)))
         (\<lambda>_. bindE (observe publisher (RecordDispatch ''published'' dur))
            (\<lambda>_. recordStats publisher)))"

definition markedFailed ::
  "'w Publisher \<Rightarrow> Record \<Rightarrow> duration \<Rightarrow> goerr \<Rightarrow> ('w, goerr, unit) go" where
  "markedFailed publisher record dur err =
     bindE (Pub_CtxErr publisher) (\<lambda>_.
     bindE (Pub_Now publisher) (\<lambda>now.
       let options = Pub_Options publisher;
           nextAttemptAt = now + retryBackoff options (Rec_Attempts record);
           message = truncateMessage (Pub_ErrorText publisher err) (Opt_ErrorMessageMaxLength options)
       in bindE
            (catchE
               (Repo_MarkFailed (Pub_Repository publisher) (Rec_ID record) message nextAttemptAt now
                  (Opt_MaxAttempts options))
               (\<lambda>markErr. bindE (observe publisher (RecordError ''mark_failed_failed''))
                  (\<lambda>_. raise markErr)))
            (\<lambda>_. bindE (observe publisher (RecordDispatch
                     (if Rec_Attempts record \<ge> Opt_MaxAttempts options then ''dead'' else ''failed'') dur))
               (\<lambda>_. recordStats publisher))))"

definition dispatchRecord :: "'w Publisher \<Rightarrow> Record \<Rightarrow> ('w, goerr, unit) go" where
  "dispatchRecord publisher record =
     bindE (Pub_Now publisher) (\<lambda>started.
     bindE (attempt (Pub_Dispatch publisher record)) (\<lambda>result.
     bindE (Pub_Now publisher) (\<lambda>finished.
       case result of
         Inr _ \<Rightarrow> markedPublished publisher record (finished - started)
       | Inl err \<Rightarrow> markedFailed publisher record (finished - started) err)))"

definition turn :: "'w Publisher \<Rightarrow> Record \<Rightarrow> ('w, goerr, unit) go" where
  "turn publisher record = bindE (Pub_CtxErr publisher) (\<lambda>_. dispatchRecord publisher record)"

definition PublishOnce :: "'w Publisher \<Rightarrow> ('w, goerr, unit) go" where
  "PublishOnce publisher =
     (if \<not> Opt_Enabled (Pub_Options publisher) then ret ()
      else
        bindE (Pub_CtxErr publisher) (\<lambda>_.
        bindE (Pub_Now publisher) (\<lambda>now.
        bindE
          (catchE
             (Repo_ClaimPending (Pub_Repository publisher) (Opt_BatchSize (Pub_Options publisher))
                (Opt_LeaseDuration (Pub_Options publisher)) now)
             (\<lambda>err. bindE (observe publisher (RecordError ''claim_failed'')) (\<lambda>_. raise err)))
          (\<lambda>records.
             bindE (observe publisher (RecordClaimed (length records))) (\<lambda>_.
             bindE (recordStats publisher) (\<lambda>_.
               forE records (turn publisher)))))))"

text \<open>
  \<^verbatim>\<open>Run\<close>: one iteration at the start, then one per tick until the context is done; an iteration's
  error is only logged.
\<close>

datatype select_event = Tick | Done

fun run_loop :: "'w Publisher \<Rightarrow> select_event list \<Rightarrow> ('w, goerr, unit) go" where
  "run_loop publisher [] = ret ()"
| "run_loop publisher (Done # events) = ret ()"
| "run_loop publisher (Tick # events) =
     bindE (attempt (PublishOnce publisher)) (\<lambda>_. run_loop publisher events)"

definition Run :: "'w Publisher \<Rightarrow> select_event list \<Rightarrow> ('w, goerr, unit) go" where
  "Run publisher events =
     (if \<not> Opt_Enabled (Pub_Options publisher) then ret ()
      else bindE (attempt (PublishOnce publisher)) (\<lambda>_. run_loop publisher events))"

text \<open>\<^verbatim>\<open>NewPublisher\<close> normalises the options.\<close>

definition NewPublisher :: "'w Publisher \<Rightarrow> 'w Publisher" where
  "NewPublisher publisher =
     publisher\<lparr>Pub_Options := normalizePublisherOptions (Pub_Options publisher)\<rparr>"

definition positive_options :: "PublisherOptions \<Rightarrow> bool" where
  "positive_options options \<longleftrightarrow>
     0 < Opt_BatchSize options \<and> 0 < Opt_PollInterval options \<and> 0 < Opt_LeaseDuration options
     \<and> 0 < Opt_MaxAttempts options \<and> 0 < Opt_InitialRetryBackoff options
     \<and> Opt_InitialRetryBackoff options \<le> Opt_MaxRetryBackoff options
     \<and> 0 < Opt_ErrorMessageMaxLength options"

lemma normalize_positive: "positive_options (normalizePublisherOptions options)"
  by (simp add: positive_options_def normalizePublisherOptions_def DefaultPublisherOptions_def
      Second_def Minute_def Let_def)

lemma normalize_id: "positive_options options \<Longrightarrow> normalizePublisherOptions options = options"
  by (simp add: positive_options_def normalizePublisherOptions_def Let_def)

lemma excess_0: "n < 2 ^ 53 \<Longrightarrow> excess n = 0"
  by (simp add: excess.simps)

lemma float64_exact: "n < 2 ^ 53 \<Longrightarrow> float64 n = n"
  by (simp add: float64_def excess_0)

lemma float64_pos: "0 < n \<Longrightarrow> 0 < float64 n"
proof -
  assume n: "0 < n"
  have "0 < n div 2 ^ excess n"
    using n
  proof (induction n rule: excess.induct)
    case (1 n)
    show ?case
    proof (cases "n < 2 ^ 53")
      case True
      with 1(2) show ?thesis by (simp add: excess_0)
    next
      case False
      then have "0 < n div 2" by simp
      with 1(1) False have "0 < n div 2 div 2 ^ excess (n div 2)" by blast
      with False show ?thesis
        by (simp add: excess.simps [of n] zdiv_zmult2_eq)
    qed
  qed
  then show ?thesis by (auto simp: float64_def Let_def)
qed

lemma retryBackoff_cases:
  assumes "0 < Opt_InitialRetryBackoff options"
  shows "retryBackoff options attempts =
    (let backoff = float64 (Opt_InitialRetryBackoff options) * 2 ^ nat (attempts - 1)
     in if backoff \<ge> 2 ^ 63 \<or> backoff > Opt_MaxRetryBackoff options
        then Opt_MaxRetryBackoff options else backoff)"
proof -
  have "0 < float64 (Opt_InitialRetryBackoff options) * 2 ^ nat (attempts - 1)"
    using float64_pos [OF assms] by simp
  then show ?thesis by (auto simp: retryBackoff_def Let_def)
qed

lemma retryBackoff_range:
  assumes "positive_options options"
  shows "0 < retryBackoff options attempts \<and> retryBackoff options attempts \<le> Opt_MaxRetryBackoff options"
  using assms float64_pos [of "Opt_InitialRetryBackoff options"]
  by (auto simp: positive_options_def retryBackoff_cases Let_def)

lemma retryBackoff_step:
  assumes pos: "0 < Opt_InitialRetryBackoff options" and le: "m \<le> n"
  shows "retryBackoff options m \<le> retryBackoff options n"
proof -
  let ?f = "float64 (Opt_InitialRetryBackoff options)"
  have "(2::int) ^ nat (m - 1) \<le> 2 ^ nat (n - 1)"
    using le by (intro power_increasing) auto
  then have "?f * 2 ^ nat (m - 1) \<le> ?f * 2 ^ nat (n - 1)"
    using float64_pos [OF pos] by (intro mult_left_mono) auto
  then show ?thesis by (simp add: retryBackoff_cases [OF pos] Let_def)
qed

section \<open>The contract of an outbox repository\<close>

text \<open>
  What the publisher relies on of its repository, over the status of each record: \<open>status w i\<close> is
  \<open>None\<close> when there is no record \<open>i\<close>. Claiming returns different records, each of them in
  processing, at most as many as asked for; marking a record sets its status; no operation touches
  the status of another record, and reading the statistics changes nothing. \<open>ok\<close> is the
  repository's own invariant.
\<close>

definition only_at :: "('w \<Rightarrow> string \<Rightarrow> string option) \<Rightarrow> string set \<Rightarrow> 'w \<Rightarrow> 'w \<Rightarrow> bool" where
  "only_at status ids w w' \<longleftrightarrow> (\<forall>i. i \<notin> ids \<longrightarrow> status w' i = status w i)"

lemma only_at_trans [trans]:
  "only_at status A w w' \<Longrightarrow> only_at status B w' w'' \<Longrightarrow> only_at status (A \<union> B) w w''"
  by (auto simp: only_at_def)

lemma only_at_refl [simp]: "only_at status A w w"
  by (simp add: only_at_def)

lemma only_at_mono: "only_at status A w w' \<Longrightarrow> A \<subseteq> B \<Longrightarrow> only_at status B w w'"
  by (auto simp: only_at_def)

lemma only_at_empty: "only_at status {} w w' \<longleftrightarrow> status w' = status w"
  by (auto simp: only_at_def)


locale outbox_repository =
  fixes repo :: "'w Repository"
    and status :: "'w \<Rightarrow> string \<Rightarrow> string option"
    and ok :: "'w \<Rightarrow> bool"
  assumes claim_law:
      "ok w \<Longrightarrow> Repo_ClaimPending repo n lease now w = (claimed, w') \<Longrightarrow>
         ok w' \<and> (case claimed of
             Inl e \<Rightarrow> only_at status {} w w'
           | Inr recs \<Rightarrow> distinct (map Rec_ID recs) \<and> length recs \<le> nat n
               \<and> (\<forall>rec \<in> set recs. status w' (Rec_ID rec) = Some outboxStatusProcessing)
               \<and> only_at status (set (map Rec_ID recs)) w w')"
    and published_law:
      "ok w \<Longrightarrow> status w i \<noteq> None \<Longrightarrow> Repo_MarkPublished repo i now w = (marked, w') \<Longrightarrow>
         ok w' \<and> only_at status {i} w w' \<and> status w' i \<noteq> None
         \<and> (marked = Inr () \<longrightarrow> status w' i = Some outboxStatusPublished)"
    and failed_law:
      "ok w \<Longrightarrow> status w i \<noteq> None \<Longrightarrow> Repo_MarkFailed repo i msg later now m w = (marked, w') \<Longrightarrow>
         ok w' \<and> only_at status {i} w w' \<and> status w' i \<noteq> None
         \<and> (marked = Inr () \<longrightarrow> status w' i \<in> {Some outboxStatusFailed, Some outboxStatusDead})"
    and stats_law:
      "ok w \<Longrightarrow> Repo_Stats repo w = (stats, w') \<Longrightarrow> ok w' \<and> status w' = status w"

definition settled :: "string option \<Rightarrow> bool" where
  "settled s \<longleftrightarrow> s \<in> {Some outboxStatusPublished, Some outboxStatusFailed, Some outboxStatusDead}"

text \<open>
  A publisher over such a repository whose dispatcher, observer, clock and context leave the
  outbox alone. \<open>moves i\<close> is the relation its steps on record \<open>i\<close> stay in, \<open>rests\<close> the one of its
  other steps.
\<close>

definition moves ::
  "('w \<Rightarrow> bool) \<Rightarrow> ('w \<Rightarrow> string \<Rightarrow> string option) \<Rightarrow> string \<Rightarrow> 'w \<Rightarrow> 'w \<Rightarrow> bool" where
  "moves ok status i w w' \<longleftrightarrow>
     (ok w \<and> status w i \<noteq> None \<longrightarrow> ok w' \<and> status w' i \<noteq> None \<and> only_at status {i} w w')"

definition rests :: "('w \<Rightarrow> bool) \<Rightarrow> ('w \<Rightarrow> string \<Rightarrow> string option) \<Rightarrow> 'w \<Rightarrow> 'w \<Rightarrow> bool" where
  "rests ok status w w' \<longleftrightarrow> (ok w \<longrightarrow> ok w' \<and> status w' = status w)"

interpretation rests: effect_preorder "rests ok status" for ok status
  by unfold_locales (auto simp: rests_def)

interpretation moves: effect_preorder "moves ok status i" for ok status i
  by unfold_locales (auto simp: moves_def only_at_def)

locale outbox_publisher = outbox_repository repo status ok
  for repo :: "'w Repository" and status and ok +
  fixes publisher :: "'w Publisher"
  assumes uses_repo: "Pub_Repository publisher = repo"
    and dispatch_rests: "steps (rests ok status) (Pub_Dispatch publisher rec)"
    and now_rests: "steps (rests ok status) (Pub_Now publisher)"
    and ctx_rests: "steps (rests ok status) (Pub_CtxErr publisher)"
    and observe_rests: "Pub_Observer publisher = Some f \<Longrightarrow> rests ok status w (f obs w)"
begin

lemma rests_moves: "steps (rests ok status) m \<Longrightarrow> steps (moves ok status i) m"
  by (erule steps_mono) (auto simp: rests_def moves_def only_at_def)

lemma observe_steps: "steps (rests ok status) (observe publisher obs)"
  by (auto simp: steps_def observe_def rests.step_refl intro: observe_rests split: option.splits)

lemma stats_steps: "steps (rests ok status) (recordStats publisher)"
proof -
  have "steps (rests ok status) (Repo_Stats repo)"
    by (rule stepsI) (metis prod.collapse rests_def stats_law)
  then show ?thesis
    unfolding recordStats_def uses_repo
    by (intro rests.steps_option rests.steps_ret rests.steps_bindE rests.steps_attempt
        rests.steps_sum observe_steps)
qed

lemma published_steps:
  "steps (moves ok status i) (Repo_MarkPublished repo i now)"
  by (rule stepsI) (metis moves_def prod.collapse published_law)

lemma failed_steps:
  "steps (moves ok status i) (Repo_MarkFailed repo i msg later now m)"
  by (rule stepsI) (metis moves_def prod.collapse failed_law)

lemmas quiet_steps = dispatch_rests now_rests ctx_rests observe_steps stats_steps

lemma dispatchRecord_steps: "steps (moves ok status (Rec_ID rec)) (dispatchRecord publisher rec)"
  unfolding dispatchRecord_def markedPublished_def markedFailed_def uses_repo Let_def
  by (intro moves.steps_bindE moves.steps_attempt moves.steps_sum moves.steps_catchE
      moves.steps_raise published_steps failed_steps quiet_steps [THEN rests_moves])

lemma quietD:
  "steps (rests ok status) m \<Longrightarrow> m w = (r, w') \<Longrightarrow> ok w \<Longrightarrow> ok w' \<and> status w' = status w"
  by (drule (1) stepsD) (simp add: rests_def)

lemma markedPublished_publishes:
  assumes w: "ok w" "status w (Rec_ID rec) \<noteq> None"
    and run: "markedPublished publisher rec dur w = (Inr u, w')"
  shows "status w' (Rec_ID rec) = Some outboxStatusPublished"
proof -
  obtain now w1 w2 w3 where now: "Pub_Now publisher w = (Inr now, w1)"
      and mark: "Repo_MarkPublished repo (Rec_ID rec) now w1 = (Inr (), w2)"
      and rest: "observe publisher (RecordDispatch ''published'' dur) w2 = (Inr (), w3)"
        "recordStats publisher w3 = (Inr u, w')"
    using run by (auto simp: markedPublished_def bindE_Inr catchE_Inr uses_repo)
  note w1 = quietD [OF now_rests now w(1)]
  have "ok w2" "status w2 (Rec_ID rec) = Some outboxStatusPublished"
    using published_law [OF _ _ mark] w1 w(2) by auto
  then show ?thesis
    using quietD [OF observe_steps rest(1)] quietD [OF stats_steps rest(2)] by simp
qed

lemma markedFailed_settles:
  assumes w: "ok w" "status w (Rec_ID rec) \<noteq> None"
    and run: "markedFailed publisher rec dur err w = (Inr u, w')"
  shows "settled (status w' (Rec_ID rec))"
proof -
  obtain c w0 now w1 msg later m w2 obs w3 where ctx: "Pub_CtxErr publisher w = (Inr c, w0)"
      and now: "Pub_Now publisher w0 = (Inr now, w1)"
      and mark: "Repo_MarkFailed repo (Rec_ID rec) msg later now m w1 = (Inr (), w2)"
      and rest: "observe publisher obs w2 = (Inr (), w3)" "recordStats publisher w3 = (Inr u, w')"
    using run by (auto simp: markedFailed_def bindE_Inr catchE_Inr uses_repo Let_def)
  note w0 = quietD [OF ctx_rests ctx w(1)]
  note w1 = quietD [OF now_rests now, OF w0 [THEN conjunct1]]
  have "ok w2" "status w2 (Rec_ID rec) \<in> {Some outboxStatusFailed, Some outboxStatusDead}"
    using failed_law [OF _ _ mark] w0 w1 w(2) by auto
  then show ?thesis
    using quietD [OF observe_steps rest(1)] quietD [OF stats_steps rest(2)]
    by (auto simp: settled_def)
qed

lemma dispatchRecord_settles:
  assumes w: "ok w" "status w (Rec_ID rec) \<noteq> None"
    and run: "dispatchRecord publisher rec w = (Inr u, w')"
  shows "settled (status w' (Rec_ID rec))"
proof -
  obtain t w1 result w2 t' w3 where quiet: "Pub_Now publisher w = (Inr t, w1)"
      "Pub_Dispatch publisher rec w1 = (result, w2)" "Pub_Now publisher w2 = (Inr t', w3)"
      and mark: "(case result of
          Inr _ \<Rightarrow> markedPublished publisher rec (t' - t)
        | Inl err \<Rightarrow> markedFailed publisher rec (t' - t) err) w3 = (Inr u, w')"
    using run by (auto simp: dispatchRecord_def bindE_Inr attempt_simps)
  note w1 = quietD [OF now_rests quiet(1) w(1)]
  note w2 = quietD [OF dispatch_rests quiet(2), OF w1 [THEN conjunct1]]
  note w3 = quietD [OF now_rests quiet(3), OF w2 [THEN conjunct1]]
  have "ok w3" "status w3 (Rec_ID rec) \<noteq> None" using w1 w2 w3 w(2) by auto
  then show ?thesis
    using mark by (cases result) (auto simp: settled_def dest: markedPublished_publishes markedFailed_settles)
qed

text \<open>
  The loop over the claimed records: each is settled when its turn is over, and stays so because
  the later turns are about other records.
\<close>

lemma turns_only:
  assumes "ok w" and "\<forall>rec \<in> set recs. status w (Rec_ID rec) \<noteq> None"
    and "forE recs (turn publisher) w = (r, w')"
  shows "ok w' \<and> only_at status (set (map Rec_ID recs)) w w'"
  using assms
proof (induction recs arbitrary: w)
  case (Cons rec recs)
  obtain r1 w1 where t: "turn publisher rec w = (r1, w1)" by fastforce
  have "steps (moves ok status (Rec_ID rec)) (turn publisher rec)"
    unfolding turn_def by (intro moves.steps_bindE dispatchRecord_steps ctx_rests [THEN rests_moves])
  from stepsD [OF this t] Cons.prems have w1: "ok w1" "status w1 (Rec_ID rec) \<noteq> None"
      "only_at status {Rec_ID rec} w w1"
    by (auto simp: moves_def)
  show ?case
  proof (cases r1)
    case (Inl e)
    with Cons.prems(3) t w1 show ?thesis by (auto simp: bindE_def only_at_def)
  next
    case (Inr u)
    have "\<forall>rec \<in> set recs. status w1 (Rec_ID rec) \<noteq> None"
      using Cons.prems(2) w1 by (metis (full_types) list.set_intros(2) only_at_def singletonD)
    from Cons.IH [OF w1(1) this] Cons.prems(3) t Inr
    have "ok w' \<and> only_at status (set (map Rec_ID recs)) w1 w'" by (auto simp: bindE_def)
    with w1 show ?thesis by (auto simp: only_at_def)
  qed
qed simp

lemma turns_reach:
  assumes reach: "\<And>rec w u w'. ok w \<Longrightarrow> status w (Rec_ID rec) \<noteq> None \<Longrightarrow>
      dispatchRecord publisher rec w = (Inr u, w') \<Longrightarrow> Q (status w' (Rec_ID rec))"
    and "ok w" and "\<forall>rec \<in> set recs. status w (Rec_ID rec) \<noteq> None"
    and "distinct (map Rec_ID recs)" and "forE recs (turn publisher) w = (Inr u, w')"
  shows "\<forall>rec \<in> set recs. Q (status w' (Rec_ID rec))"
  using assms(2-)
proof (induction recs arbitrary: w)
  case (Cons rec recs)
  from Cons.prems(4) obtain c w0 w1 where ctx: "Pub_CtxErr publisher w = (Inr c, w0)"
      and one: "dispatchRecord publisher rec w0 = (Inr (), w1)"
      and others: "forE recs (turn publisher) w1 = (Inr u, w')"
    by (auto simp: bindE_Inr turn_def [of publisher rec])
  have w0: "ok w0" "status w0 = status w" using quietD [OF ctx_rests ctx Cons.prems(1)] by auto
  then have "Q (status w1 (Rec_ID rec))"
    using reach [OF _ _ one] Cons.prems(2) by simp
  moreover have w1: "ok w1" "only_at status {Rec_ID rec} w w1"
    using stepsD [OF dispatchRecord_steps one] w0 Cons.prems(2) by (auto simp: moves_def only_at_def)
  have known: "\<forall>rec \<in> set recs. status w1 (Rec_ID rec) \<noteq> None"
  proof
    fix other assume other: "other \<in> set recs"
    then have "Rec_ID other \<noteq> Rec_ID rec" using Cons.prems(3) by (simp add: image_iff) metis
    then show "status w1 (Rec_ID other) \<noteq> None"
      using other Cons.prems(2) w1(2) by (simp add: only_at_def)
  qed
  have "status w' (Rec_ID rec) = status w1 (Rec_ID rec)"
    using turns_only [OF w1(1) known others] Cons.prems(3) by (simp add: only_at_def)
  ultimately show ?case
    using Cons.IH [OF w1(1) known _ others] Cons.prems(3) by simp
qed simp

lemma PublishOnce_reach:
  assumes reach: "\<And>rec w u w'. ok w \<Longrightarrow> status w (Rec_ID rec) \<noteq> None \<Longrightarrow>
      dispatchRecord publisher rec w = (Inr u, w') \<Longrightarrow> Q (status w' (Rec_ID rec))"
    and "ok w" and "Opt_Enabled (Pub_Options publisher)"
    and "PublishOnce publisher w = (Inr u, w')"
  shows "\<exists>c w0 now w1 recs w2. Pub_CtxErr publisher w = (Inr c, w0)
    \<and> Pub_Now publisher w0 = (Inr now, w1)
    \<and> Repo_ClaimPending repo (Opt_BatchSize (Pub_Options publisher))
          (Opt_LeaseDuration (Pub_Options publisher)) now w1 = (Inr recs, w2)
    \<and> (\<forall>rec \<in> set recs. Q (status w' (Rec_ID rec)))
    \<and> only_at status (set (map Rec_ID recs)) w w' \<and> ok w'"
proof -
  let ?n = "Opt_BatchSize (Pub_Options publisher)"
  let ?lease = "Opt_LeaseDuration (Pub_Options publisher)"
  obtain c w0 now w1 recs w2 obs w3 w4 where quiet: "Pub_CtxErr publisher w = (Inr c, w0)"
      "Pub_Now publisher w0 = (Inr now, w1)"
      and claim: "Repo_ClaimPending repo ?n ?lease now w1 = (Inr recs, w2)"
      and rest: "observe publisher obs w2 = (Inr (), w3)" "recordStats publisher w3 = (Inr (), w4)"
      and loop: "forE recs (turn publisher) w4 = (Inr u, w')"
    using assms(3,4) by (auto simp: PublishOnce_def bindE_Inr catchE_Inr uses_repo)
  have w1: "ok w1" "status w1 = status w"
    using quietD [OF ctx_rests quiet(1) assms(2)] quietD [OF now_rests quiet(2)] by auto
  from claim_law [OF w1(1) claim] have w2: "ok w2" "distinct (map Rec_ID recs)"
      "\<forall>rec \<in> set recs. status w2 (Rec_ID rec) = Some outboxStatusProcessing"
      "only_at status (set (map Rec_ID recs)) w1 w2"
    by auto
  have w4: "ok w4" "status w4 = status w2"
    using quietD [OF observe_steps rest(1) w2(1)] quietD [OF stats_steps rest(2)] by auto
  have known: "\<forall>rec \<in> set recs. status w4 (Rec_ID rec) \<noteq> None" using w2(3) w4(2) by simp
  show ?thesis
    using quiet claim turns_reach [of Q, OF reach w4(1) known w2(2) loop]
      turns_only [OF w4(1) known loop] w1(2) w2(4) w4(2)
    by (intro exI [of _ c] exI [of _ w0] exI [of _ now] exI [of _ w1] exI [of _ recs] exI [of _ w2])
      (auto simp: only_at_def)
qed

lemmas PublishOnce_settles = PublishOnce_reach [of settled, OF dispatchRecord_settles]

text \<open>With a dispatcher that does not fail every claimed record is published.\<close>

lemma dispatchRecord_publishes:
  assumes w: "ok w" "status w (Rec_ID rec) \<noteq> None"
    and run: "dispatchRecord publisher rec w = (Inr u, w')"
    and total: "\<And>rec w. \<exists>w'. Pub_Dispatch publisher rec w = (Inr (), w')"
  shows "status w' (Rec_ID rec) = Some outboxStatusPublished"
proof -
  obtain t w1 w2 t' w3 where quiet: "Pub_Now publisher w = (Inr t, w1)"
      "Pub_Dispatch publisher rec w1 = (Inr (), w2)" "Pub_Now publisher w2 = (Inr t', w3)"
      and mark: "markedPublished publisher rec (t' - t) w3 = (Inr u, w')"
    using run total [of rec] by (auto simp: dispatchRecord_def bindE_Inr attempt_simps)
      (metis (no_types, lifting) Pair_inject sum.case(2))
  note w1 = quietD [OF now_rests quiet(1) w(1)]
  note w2 = quietD [OF dispatch_rests quiet(2), OF w1 [THEN conjunct1]]
  note w3 = quietD [OF now_rests quiet(3), OF w2 [THEN conjunct1]]
  have "ok w3" "status w3 (Rec_ID rec) \<noteq> None" using w1 w2 w3 w(2) by auto
  with mark show ?thesis by (auto dest: markedPublished_publishes)
qed

lemma PublishOnce_publishes:
  assumes "ok w" and "Opt_Enabled (Pub_Options publisher)"
    and "PublishOnce publisher w = (Inr u, w')"
    and total: "\<And>rec w. \<exists>w'. Pub_Dispatch publisher rec w = (Inr (), w')"
  shows "\<exists>c w0 now w1 recs w2. Pub_CtxErr publisher w = (Inr c, w0)
    \<and> Pub_Now publisher w0 = (Inr now, w1)
    \<and> Repo_ClaimPending repo (Opt_BatchSize (Pub_Options publisher))
          (Opt_LeaseDuration (Pub_Options publisher)) now w1 = (Inr recs, w2)
    \<and> (\<forall>rec \<in> set recs. status w' (Rec_ID rec) = Some outboxStatusPublished)
    \<and> only_at status (set (map Rec_ID recs)) w w' \<and> ok w'"
proof (rule PublishOnce_reach [where Q = "\<lambda>s. s = Some outboxStatusPublished", OF _ assms(1-3)])
  fix rec w u w'
  assume "ok w" "status w (Rec_ID rec) \<noteq> None" "dispatchRecord publisher rec w = (Inr u, w')"
  then show "status w' (Rec_ID rec) = Some outboxStatusPublished"
    using total by (rule dispatchRecord_publishes)
qed

end

end
