(* ===== verification/Outbox_System.thy ===== *)
theory Outbox_System
  imports Outbox_Publisher Samples
begin

text \<open>
  The outbox as Community runs it: the publisher over the PostgreSQL repository and the logging
  dispatcher (\<^verbatim>\<open>internal/outbox/logging_dispatcher.go\<close>). The repository's contract is discharged
  here for the model of \<^verbatim>\<open>repository/postgres/outbox.go\<close>, and so the publisher's theorem holds of it.
\<close>

definition postgres_outbox :: "world Repository" where
  "postgres_outbox =
     \<lparr>Repo_ClaimPending = Outbox_ClaimPending, Repo_MarkPublished = Outbox_MarkPublished,
      Repo_MarkFailed = Outbox_MarkFailed, Repo_Stats = Outbox_Stats\<rparr>"

definition LoggingDispatcher_Dispatch :: "Record \<Rightarrow> unit io" where
  "LoggingDispatcher_Dispatch record = ret ()"

definition outbox_status :: "world \<Rightarrow> string \<Rightarrow> string option" where
  "outbox_status w i = map_option obx_status (find (\<lambda>r. obx_id r = i) (db_outbox (w_db w)))"

text \<open>Ids are unique and canonical, which the primary key and the uuid type see to.\<close>

definition outbox_ok :: "world \<Rightarrow> bool" where
  "outbox_ok w \<longleftrightarrow>
     distinct (map obx_id (db_outbox (w_db w)))
     \<and> (\<forall>r \<in> set (db_outbox (w_db w)). p_uuid (w_platform w) (obx_id r) = Some (obx_id r))"

lemma outbox_canonical: "outbox_ok w \<Longrightarrow> outbox_status w i \<noteq> None \<Longrightarrow> p_uuid (w_platform w) i = Some i"
  by (auto simp: outbox_ok_def outbox_status_def dest!: find_key_Some)

lemma outbox_ok_update:
  assumes "outbox_ok w" and "\<And>r. obx_id (f r) = obx_id r"
    and "w_platform w' = w_platform w"
    and "db_outbox (w_db w') = map (\<lambda>r. if P r then f r else r) (db_outbox (w_db w))"
  shows "outbox_ok w'"
  using assms(1,3)
  unfolding outbox_ok_def assms(4) map_key_update [of obx_id f, OF assms(2)] by (auto simp: assms(2))

lemma outbox_status_update:
  assumes "\<And>r. obx_id (f r) = obx_id r"
    and "db_outbox (w_db w') = map (\<lambda>r. if P (obx_id r) then f r else r) (db_outbox (w_db w))"
  shows "outbox_status w' i =
     map_option (\<lambda>r. obx_status (if P i then f r else r))
       (find (\<lambda>r. obx_id r = i) (db_outbox (w_db w)))"
  unfolding outbox_status_def assms(2) find_map_update [of obx_id f, OF assms(1)]
  by (simp add: option.map_comp comp_def)

text \<open>The two statements of a mark: the update, and the check that the record exists.\<close>

lemma ensure_keeps:
  "ensureOutboxRecordExists i w = (r, w') \<Longrightarrow> w_db w' = w_db w \<and> w_platform w' = w_platform w"
  by (auto simp: ensureOutboxRecordExists_def bindE_def stmt_def Let_def uuid_def liftE_def
      select_def failIf_def ret_def raise_def split: option.splits prod.splits sum.splits if_splits)

lemma mark_law:
  assumes ok: "outbox_ok w" and known: "outbox_status w i \<noteq> None"
    and keeps: "\<And>r. obx_id (f r) = obx_id r"
    and run: "bindE (stmt (\<lambda>p. bindE (uuid p i) (\<lambda>u.
        update_where db_outbox db_outbox_update (\<lambda>r. obx_id r = u) f)))
       (\<lambda>_. ensureOutboxRecordExists i) w = (marked, w')"
  shows "outbox_ok w' \<and> only_at outbox_status {i} w w' \<and> outbox_status w' i \<noteq> None
     \<and> (marked = Inr () \<longrightarrow> (\<exists>r. outbox_status w' i = Some (obx_status (f r))))"
proof -
  note canonical = outbox_canonical [OF ok known]
  show ?thesis
  proof (cases "w_fault w (w_calls w)")
    case (Some m)
    then show ?thesis
      using run ok known by (auto simp: bindE_def stmt_def outbox_ok_def outbox_status_def only_at_def)
  next
    case None
    define rows where "rows = map (\<lambda>r. if obx_id r = i then f r else r) (db_outbox (w_db w))"
    define w1 where "w1 = w\<lparr>w_calls := Suc (w_calls w),
      w_db := db_outbox_update (map (\<lambda>r. if obx_id r = i then f r else r)) (w_db w)\<rparr>"
    have w1: "db_outbox (w_db w1) = rows" "w_platform w1 = w_platform w"
      by (simp_all add: w1_def rows_def)
    have rest: "ensureOutboxRecordExists i w1 = (marked, w')"
      using run None canonical
      by (simp add: bindE_def stmt_ok uuid_def liftE_def update_where_def w1_def)
    have w': "db_outbox (w_db w') = rows" "w_platform w' = w_platform w"
      using ensure_keeps [OF rest] w1 by auto
    have status: "outbox_status w' j = map_option (\<lambda>r. obx_status (if j = i then f r else r))
        (find (\<lambda>r. obx_id r = j) (db_outbox (w_db w)))" for j
      using outbox_status_update [of f w' "\<lambda>x. x = i" w j] keeps w'(1) by (simp add: rows_def)
    have "outbox_ok w'"
      by (rule outbox_ok_update [OF ok keeps w'(2), of "\<lambda>r. obx_id r = i"]) (simp add: w'(1) rows_def)
    moreover have "only_at outbox_status {i} w w'"
      by (simp add: only_at_def status) (simp add: outbox_status_def)
    ultimately show ?thesis using known by (auto simp: status) (auto simp: outbox_status_def)
  qed
qed

lemma claim_batch_in: "r \<in> set (claim_batch n now rows) \<Longrightarrow> r \<in> set rows \<and> claimable now r"
  by (auto simp: claim_batch_def dest: in_set_takeD)

lemma claim_batch_distinct:
  assumes "distinct (map obx_id rows)"
  shows "distinct (map obx_id (claim_batch n now rows))"
proof -
  have "distinct (map obx_id (sort_key (\<lambda>r. (obx_available_at r, obx_created_at r))
      (filter (claimable now) rows)))"
    using assms by (auto simp: distinct_map inj_on_def)
  then show ?thesis by (simp add: claim_batch_def take_map [symmetric])
qed

lemma claim_law_postgres:
  assumes ok: "outbox_ok w" and run: "Outbox_ClaimPending n lease now w = (claimed, w')"
  shows "outbox_ok w' \<and> (case claimed of
      Inl e \<Rightarrow> only_at outbox_status {} w w'
    | Inr recs \<Rightarrow> distinct (map Rec_ID recs) \<and> length recs \<le> nat n
        \<and> (\<forall>rec \<in> set recs. outbox_status w' (Rec_ID rec) = Some outboxStatusProcessing)
        \<and> only_at outbox_status (set (map Rec_ID recs)) w w')"
proof (cases "n \<le> 0 \<or> w_fault w (w_calls w) \<noteq> None")
  case True
  then show ?thesis
    using run ok
    by (auto simp: Outbox_ClaimPending_def bindE_def stmt_def ret_def outbox_ok_def outbox_status_def
        only_at_def split: if_splits)
next
  case False
  let ?rows = "db_outbox (w_db w)"
  let ?batch = "claim_batch n now ?rows"
  let ?f = "claim_row now (now + lease)"
  have keeps: "obx_id (?f r) = obx_id r" for r by (simp add: claim_row_def)
  have recs: "claimed = Inr (map scanOutboxRecord (map ?f ?batch))"
    and rows': "db_outbox (w_db w')
      = map (\<lambda>r. if obx_id r \<in> set (map obx_id ?batch) then ?f r else r) ?rows"
    and platform: "w_platform w' = w_platform w"
    using run False by (auto simp: Outbox_ClaimPending_def bindE_def stmt_ok claimRows_def Let_def ret_def)
  have ids: "map Rec_ID (map scanOutboxRecord (map ?f ?batch)) = map obx_id ?batch"
    by (simp add: scanOutboxRecord_def claim_row_def)
  have status: "outbox_status w' i = map_option (\<lambda>r. obx_status (if i \<in> set (map obx_id ?batch) then ?f r else r))
      (find (\<lambda>r. obx_id r = i) ?rows)" for i
    by (rule outbox_status_update [OF keeps rows'])
  have "outbox_ok w'"
    by (rule outbox_ok_update [OF ok keeps platform rows'])
  moreover have "distinct (map obx_id ?batch)"
    using ok by (simp add: outbox_ok_def claim_batch_distinct)
  moreover have "length ?batch \<le> nat n" by (simp add: claim_batch_def)
  moreover have "outbox_status w' (obx_id r) = Some outboxStatusProcessing" if r: "r \<in> set ?batch" for r
  proof -
    obtain s where "find (\<lambda>s. obx_id s = obx_id r) ?rows = Some s"
      using find_key_in [of r ?rows obx_id] claim_batch_in [OF r] by blast
    with r show ?thesis by (auto simp: status claim_row_def)
  qed
  moreover have "only_at outbox_status (set (map obx_id ?batch)) w w'"
    by (simp add: only_at_def status) (simp add: outbox_status_def)
  ultimately show ?thesis
    unfolding recs sum.case ids
    by (auto simp: scanOutboxRecord_def claim_row_def)
qed

interpretation postgres: outbox_repository postgres_outbox outbox_status outbox_ok
proof
  fix w n lease now claimed w'
  assume "outbox_ok w" and "Repo_ClaimPending postgres_outbox n lease now w = (claimed, w')"
  then show "outbox_ok w' \<and> (case claimed of
      Inl e \<Rightarrow> only_at outbox_status {} w w'
    | Inr recs \<Rightarrow> distinct (map Rec_ID recs) \<and> length recs \<le> nat n
        \<and> (\<forall>rec \<in> set recs. outbox_status w' (Rec_ID rec) = Some outboxStatusProcessing)
        \<and> only_at outbox_status (set (map Rec_ID recs)) w w')"
    by (simp add: postgres_outbox_def claim_law_postgres)
next
  fix w i now marked w'
  assume "outbox_ok w" and "outbox_status w i \<noteq> None"
    and "Repo_MarkPublished postgres_outbox i now w = (marked, w')"
  then show "outbox_ok w' \<and> only_at outbox_status {i} w w' \<and> outbox_status w' i \<noteq> None
      \<and> (marked = Inr () \<longrightarrow> outbox_status w' i = Some outboxStatusPublished)"
    using mark_law [of w i "publish_row now" marked w']
    by (auto simp: postgres_outbox_def Outbox_MarkPublished_def publish_row_def)
next
  fix w i msg later now m marked w'
  assume "outbox_ok w" and "outbox_status w i \<noteq> None"
    and "Repo_MarkFailed postgres_outbox i msg later now m w = (marked, w')"
  then show "outbox_ok w' \<and> only_at outbox_status {i} w w' \<and> outbox_status w' i \<noteq> None
      \<and> (marked = Inr () \<longrightarrow>
          outbox_status w' i \<in> {Some outboxStatusFailed, Some outboxStatusDead})"
    using mark_law [of w i "fail_row (truncateOutboxError msg) later now m" marked w']
    by (auto simp: postgres_outbox_def Outbox_MarkFailed_def fail_row_def split: if_splits)
next
  fix w stats w'
  assume "outbox_ok w" and "Repo_Stats postgres_outbox w = (stats, w')"
  then show "outbox_ok w' \<and> outbox_status w' = outbox_status w"
    by (auto simp: postgres_outbox_def Outbox_Stats_def stmt_def select_def Let_def outbox_ok_def
        outbox_status_def fun_eq_iff split: option.splits)
qed

text \<open>
  The publisher of the running system. Its observer feeds the metrics registry, which is outside
  the modelled world, so observing leaves the world alone.
\<close>

definition communityPublisher ::
  "PublisherOptions \<Rightarrow> bool \<Rightarrow> (goerr \<Rightarrow> string) \<Rightarrow> world Publisher" where
  "communityPublisher options observed errorText =
     NewPublisher
       \<lparr>Pub_Repository = postgres_outbox, Pub_Dispatch = LoggingDispatcher_Dispatch,
        Pub_Options = options, Pub_Observer = (if observed then Some (\<lambda>_ w. w) else None),
        Pub_Now = clock_now, Pub_CtxErr = ctx_check, Pub_ErrorText = errorText\<rparr>"

lemma clock_rests: "steps (rests outbox_ok outbox_status) clock_now"
  by (auto simp: steps_def rests_def clock_now_def outbox_ok_def outbox_status_def fun_eq_iff)

lemma ctx_rests: "steps (rests outbox_ok outbox_status) ctx_check"
  by (auto simp: steps_def rests_def ctx_check_def outbox_ok_def outbox_status_def fun_eq_iff
      split: option.splits)

interpretation community: outbox_publisher postgres_outbox outbox_status outbox_ok
    "communityPublisher options observed errorText" for options observed errorText
  by unfold_locales
    (auto simp: communityPublisher_def NewPublisher_def LoggingDispatcher_Dispatch_def
      intro: rests.steps_ret clock_rests ctx_rests rests.step_refl split: if_splits)

section \<open>Publishing\<close>

lemma community_simps [simp]:
  "Pub_CtxErr (communityPublisher options observed errorText) = ctx_check"
  "Pub_Now (communityPublisher options observed errorText) = clock_now"
  "Pub_Dispatch (communityPublisher options observed errorText) = LoggingDispatcher_Dispatch"
  "Pub_Repository (communityPublisher options observed errorText) = postgres_outbox"
  "Opt_Enabled (normalizePublisherOptions options) = Opt_Enabled options"
  "Pub_Options (communityPublisher options observed errorText) = normalizePublisherOptions options"
  by (simp_all add: communityPublisher_def NewPublisher_def normalizePublisherOptions_def Let_def)

lemma claim_postgres_run:
  assumes "Outbox_ClaimPending n lease now w = (Inr recs, w')"
  shows "map Rec_ID recs = map obx_id (claim_batch n now (db_outbox (w_db w)))"
  using assms
  by (auto simp: Outbox_ClaimPending_def bindE_Inr stmt_Inr claimRows_def Let_def scanOutboxRecord_def
      claim_row_def claim_batch_def split: if_splits)

lemma round_publishes:
  assumes "outbox_ok w" and "Opt_Enabled options"
    and "PublishOnce (communityPublisher options observed errorText) w = (Inr (), w')"
  shows "outbox_ok w' \<and> (\<forall>i. outbox_status w' i =
     (if i \<in> obx_id ` set (claim_batch (Opt_BatchSize (normalizePublisherOptions options))
           (w_clock w (w_ticks w)) (db_outbox (w_db w)))
      then Some outboxStatusPublished else outbox_status w i))"
proof -
  let ?pub = "communityPublisher options observed errorText"
  have total: "\<exists>w'. Pub_Dispatch ?pub rec w = (Inr (), w')" for rec w
    by (simp add: LoggingDispatcher_Dispatch_def)
  obtain c w0 now w1 recs w2 where quiet: "ctx_check w = (Inr c, w0)" "clock_now w0 = (Inr now, w1)"
      and claim: "Outbox_ClaimPending (Opt_BatchSize (normalizePublisherOptions options))
          (Opt_LeaseDuration (normalizePublisherOptions options)) now w1 = (Inr recs, w2)"
      and all: "\<forall>rec \<in> set recs. outbox_status w' (Rec_ID rec) = Some outboxStatusPublished"
      and only: "only_at outbox_status (set (map Rec_ID recs)) w w'" and ok: "outbox_ok w'"
    using community.PublishOnce_publishes [OF assms(1) _ assms(3) total] assms(2)
    by (auto simp: postgres_outbox_def)
  have "now = w_clock w (w_ticks w)" "w_db w1 = w_db w"
    using quiet by (auto simp: ctx_check_def clock_now_def split: option.splits)
  moreover note claim_postgres_run [OF claim]
  ultimately have ids: "set (map Rec_ID recs) = obx_id ` set (claim_batch
      (Opt_BatchSize (normalizePublisherOptions options)) (w_clock w (w_ticks w)) (db_outbox (w_db w)))"
    by (metis list.set_map)
  show ?thesis
    using all only ok unfolding ids [symmetric] by (auto simp: only_at_def)
qed

text \<open>
  A publishing round of the running system that returns without error has published every
  record of its batch (the oldest claimable ones, at most a batch) and changed the status of no
  other record.
\<close>

theorem community_publishes:
  assumes "outbox_ok w" and "Opt_Enabled options"
    and "PublishOnce (communityPublisher options observed errorText) w = (Inr (), w')"
  shows "\<forall>i. outbox_status w' i =
     (if i \<in> obx_id ` set (claim_batch (Opt_BatchSize (normalizePublisherOptions options))
           (w_clock w (w_ticks w)) (db_outbox (w_db w)))
      then Some outboxStatusPublished else outbox_status w i)"
  using round_publishes [OF assms] by (rule conjunct2)

section \<open>Claims\<close>

lemma claim_postgres_eq:
  assumes "0 < n" and "w_fault w (w_calls w) = None"
  shows "Outbox_ClaimPending n lease now w =
    (let batch = claim_batch n now (db_outbox (w_db w))
     in (Inr (map (scanOutboxRecord \<circ> claim_row now (now + lease)) batch),
         w\<lparr>w_calls := Suc (w_calls w),
           w_db := db_outbox_update (map (\<lambda>r. if obx_id r \<in> set (map obx_id batch)
             then claim_row now (now + lease) r else r)) (w_db w)\<rparr>))"
  using assms by (simp add: Outbox_ClaimPending_def bindE_def stmt_ok claimRows_def Let_def ret_def)

lemma sorted_take_drop:
  assumes "sorted (map k xs)" and "r \<in> set (take n xs)" and "s \<in> set (drop n xs)"
  shows "k r \<le> k s"
proof -
  have "sorted (map k (take n xs) @ map k (drop n xs))"
    using assms(1) by (metis append_take_drop_id map_append)
  then show ?thesis using assms(2,3) by (simp add: sorted_append)
qed

lemma claim_batch_length:
  "length (claim_batch n now rows) = min (nat n) (length (filter (claimable now) rows))"
  by (simp add: claim_batch_def min.commute)

lemma claim_batch_oldest:
  assumes "r \<in> set (claim_batch n now rows)" and "s \<in> set rows" and "claimable now s"
    and "s \<notin> set (claim_batch n now rows)"
  shows "(obx_available_at r, obx_created_at r) \<le> (obx_available_at s, obx_created_at s)"
proof -
  let ?k = "\<lambda>r. (obx_available_at r, obx_created_at r)"
  let ?sorted = "sort_key ?k (filter (claimable now) rows)"
  have "s \<in> set ?sorted" using assms(2,3) by simp
  moreover have "set ?sorted = set (take (nat n) ?sorted) \<union> set (drop (nat n) ?sorted)"
    by (simp flip: set_append)
  ultimately have dropped: "s \<in> set (drop (nat n) ?sorted)"
    using assms(4) unfolding claim_batch_def by blast
  have taken: "r \<in> set (take (nat n) ?sorted)" using assms(1) by (simp add: claim_batch_def)
  have "sorted (map ?k ?sorted)" by (rule sorted_sort_key)
  from sorted_take_drop [OF this taken dropped] show ?thesis .
qed

text \<open>
  \<^verbatim>\<open>ClaimPending\<close> returns, for a positive batch size and a healthy statement, exactly the
  oldest claimable records: at most the batch size, all claimable, no claimable one left behind
  that is strictly older, each with one more attempt and a lease until the given time; every other
  row is unchanged.
\<close>

theorem claim_oldest_first:
  assumes "0 < n" and "w_fault w (w_calls w) = None" and "outbox_ok w"
    and "Outbox_ClaimPending n lease now w = (result, w')"
  shows "\<exists>batch. result = Inr (map (scanOutboxRecord \<circ> claim_row now (now + lease)) batch)
     \<and> length batch = min (nat n) (length (filter (claimable now) (db_outbox (w_db w))))
     \<and> set batch \<subseteq> {r \<in> set (db_outbox (w_db w)). claimable now r}
     \<and> distinct (map obx_id batch)
     \<and> (\<forall>r \<in> set batch. \<forall>s \<in> set (db_outbox (w_db w)). claimable now s \<and> s \<notin> set batch \<longrightarrow>
           (obx_available_at r, obx_created_at r) \<le> (obx_available_at s, obx_created_at s))
     \<and> db_outbox (w_db w') = map (\<lambda>r. if r \<in> set batch then claim_row now (now + lease) r else r)
           (db_outbox (w_db w))"
proof (intro exI conjI)
  let ?rows = "db_outbox (w_db w)"
  let ?batch = "claim_batch n now ?rows"
  note run = assms(4) [unfolded claim_postgres_eq [OF assms(1,2)] Let_def]
  show "result = Inr (map (scanOutboxRecord \<circ> claim_row now (now + lease)) ?batch)"
    using run by blast
  show "length ?batch = min (nat n) (length (filter (claimable now) ?rows))"
    by (rule claim_batch_length)
  show "set ?batch \<subseteq> {r \<in> set ?rows. claimable now r}" using claim_batch_in by blast
  show "distinct (map obx_id ?batch)"
    using assms(3) by (simp add: outbox_ok_def claim_batch_distinct)
  show "\<forall>r \<in> set ?batch. \<forall>s \<in> set ?rows. claimable now s \<and> s \<notin> set ?batch \<longrightarrow>
      (obx_available_at r, obx_created_at r) \<le> (obx_available_at s, obx_created_at s)"
    using claim_batch_oldest by blast
  have same: "obx_id r \<in> set (map obx_id ?batch) \<longleftrightarrow> r \<in> set ?batch" if "r \<in> set ?rows" for r
    using assms(3) that claim_batch_in unfolding outbox_ok_def distinct_map inj_on_def
    by (metis (no_types, lifting) image_iff list.set_map)
  have "db_outbox (w_db w') = map (\<lambda>r. if obx_id r \<in> set (map obx_id ?batch)
      then claim_row now (now + lease) r else r) ?rows"
    using run by (metis (no_types, lifting) Pair_inject db.select_convs(17) db.surjective
        db.update_convs(17) world.select_convs(2) world.surjective world.update_convs(2))
  then show "db_outbox (w_db w') = map (\<lambda>r. if r \<in> set ?batch then claim_row now (now + lease) r else r) ?rows"
    using same by (auto intro!: map_cong)
qed

text \<open>A claimed record is not claimable again before its lease expires.\<close>

lemma claim_row_leased:
  "later < now + lease \<Longrightarrow> \<not> claimable later (claim_row now (now + lease) r)"
  by (simp add: claimable_def claim_row_def outbox_status_defs)

text \<open>
  C39: Two publishers never hold the same record: when a second claim is made before the lease of
  the first has expired, the batches have no record in common.
\<close>

theorem claims_disjoint:
  assumes "outbox_ok w" and "0 < n"
    and "Outbox_ClaimPending n lease now w = (Inr first, w1)"
    and "later < now + lease"
    and "Outbox_ClaimPending m lease' later w1 = (Inr second, w2)"
  shows "set (map Rec_ID first) \<inter> set (map Rec_ID second) = {}"
proof -
  let ?rows = "db_outbox (w_db w)"
  let ?batch = "claim_batch n now ?rows"
  let ?claimed = "\<lambda>r. if obx_id r \<in> set (map obx_id ?batch) then claim_row now (now + lease) r else r"
  have ids: "map Rec_ID first = map obx_id ?batch" "map Rec_ID second
      = map obx_id (claim_batch m later (db_outbox (w_db w1)))"
    using claim_postgres_run assms(3,5) by blast+
  have w1: "db_outbox (w_db w1) = map ?claimed ?rows"
    using assms(2,3) by (auto simp: Outbox_ClaimPending_def bindE_Inr stmt_Inr claimRows_def Let_def)
  have "obx_id s \<notin> set (map obx_id ?batch)"
    if s: "s \<in> set (claim_batch m later (map ?claimed ?rows))" for s
  proof -
    obtain r where r: "r \<in> set ?rows" "s = ?claimed r" and "claimable later s"
      using claim_batch_in [OF s] by auto
    then show ?thesis using claim_row_leased [OF assms(4)] by (auto simp: claim_row_def)
  qed
  then have "obx_id ` set (claim_batch m later (map ?claimed ?rows)) \<inter> set (map obx_id ?batch) = {}"
    by blast
  then show ?thesis unfolding ids w1 set_map [of obx_id "claim_batch m later (map ?claimed ?rows)"]
    by blast
qed

section \<open>Marks\<close>

lemma ensure_present:
  assumes "w_fault w (w_calls w) = None" and "p_uuid (w_platform w) i = Some i"
    and "i \<in> obx_id ` set (db_outbox (w_db w))"
  shows "ensureOutboxRecordExists i w = (Inr (), w\<lparr>w_calls := Suc (w_calls w)\<rparr>)"
  using assms
  by (auto simp: ensureOutboxRecordExists_def bindE_def stmt_ok uuid_def liftE_def select_def
      failIf_def ret_def list_ex_iff)

lemma mark_run:
  assumes "healthy w" and "outbox_ok w" and "outbox_status w i \<noteq> None"
    and keeps: "\<And>r. obx_id (f r) = obx_id r"
  shows "\<exists>w'. bindE (stmt (\<lambda>p. bindE (uuid p i) (\<lambda>u.
        update_where db_outbox db_outbox_update (\<lambda>r. obx_id r = u) f)))
       (\<lambda>_. ensureOutboxRecordExists i) w = (Inr (), w')
     \<and> db_outbox (w_db w') = map (\<lambda>r. if obx_id r = i then f r else r) (db_outbox (w_db w))"
proof -
  let ?w1 = "w\<lparr>w_calls := Suc (w_calls w),
      w_db := db_outbox_update (map (\<lambda>r. if obx_id r = i then f r else r)) (w_db w)\<rparr>"
  note canonical = outbox_canonical [OF assms(2,3)]
  have "i \<in> obx_id ` set (db_outbox (w_db w))"
    using assms(3) by (auto simp: outbox_status_def dest!: find_key_Some)
  moreover have "map obx_id (db_outbox (w_db ?w1)) = map obx_id (db_outbox (w_db w))"
    using keeps by simp
  ultimately have "i \<in> obx_id ` set (db_outbox (w_db ?w1))" by (metis list.set_map)
  then have "ensureOutboxRecordExists i ?w1 = (Inr (), ?w1\<lparr>w_calls := Suc (Suc (w_calls w))\<rparr>)"
    using ensure_present [of ?w1 i] canonical assms(1) by (simp add: healthy_def)
  then show ?thesis
    using assms(1) canonical by (simp add: bindE_def stmt_ok healthy_def uuid_def liftE_def update_where_def)
qed

text \<open>
  A failed dispatch is retried exactly until its attempts are used up: after \<^verbatim>\<open>MarkFailed\<close> the
  row can be claimed again from the next attempt's time on if fewer than the maximal number of
  attempts were made, and never again otherwise; then its status is \<^verbatim>\<open>dead\<close>.
\<close>

theorem failed_retry_or_dead:
  "(claimable later (fail_row err nextAttemptAt now maxAttempts r) \<longleftrightarrow>
      obx_attempts r < maxAttempts \<and> nextAttemptAt \<le> later)
   \<and> (obx_status (fail_row err nextAttemptAt now maxAttempts r) = outboxStatusDead \<longleftrightarrow>
      maxAttempts \<le> obx_attempts r)"
  by (auto simp: claimable_def fail_row_def outbox_status_defs)

text \<open>
  Marks are not fenced by the lease: a publisher whose lease has expired, and whose dispatch
  then fails, turns a record that another publisher has already published back to \<^verbatim>\<open>failed\<close>, and
  the record is claimed and dispatched again.
\<close>

theorem stale_failure_reopens_published:
  assumes "outbox_ok w" and "healthy w"
    and "r \<in> set (db_outbox (w_db w))" and "obx_status r = outboxStatusPublished"
    and "obx_attempts r < maxAttempts"
  shows "\<exists>w' r'. Outbox_MarkFailed (obx_id r) msg nextAttemptAt now maxAttempts w = (Inr (), w')
     \<and> r' \<in> set (db_outbox (w_db w')) \<and> obx_id r' = obx_id r
     \<and> obx_status r' = outboxStatusFailed \<and> (\<forall>later \<ge> nextAttemptAt. claimable later r')"
proof -
  let ?f = "fail_row (truncateOutboxError msg) nextAttemptAt now maxAttempts"
  have keeps: "obx_id (?f r) = obx_id r" for r by (simp add: fail_row_def)
  have "outbox_status w (obx_id r) \<noteq> None"
    using find_key_in [OF assms(3), of obx_id] by (auto simp: outbox_status_def)
  from mark_run [OF assms(2,1) this keeps] obtain w' where
      run: "Outbox_MarkFailed (obx_id r) msg nextAttemptAt now maxAttempts w = (Inr (), w')"
      and rows: "db_outbox (w_db w')
        = map (\<lambda>s. if obx_id s = obx_id r then ?f s else s) (db_outbox (w_db w))"
    by (auto simp: Outbox_MarkFailed_def)
  have "?f r \<in> set (db_outbox (w_db w'))" using assms(3) by (auto simp: rows)
  moreover have "obx_status (?f r) = outboxStatusFailed" "\<forall>later \<ge> nextAttemptAt. claimable later (?f r)"
    using assms(5) by (auto simp: fail_row_def claimable_def)
  ultimately show ?thesis using run keeps by blast
qed

text \<open>
  C40: The retry backoff is positive, at most the configured maximum and never decreases with the
  attempts; below 104 days of initial backoff and within the maximum it doubles exactly.
\<close>

theorem backoff_bounds:
  "let opts = normalizePublisherOptions options;
       initial = Opt_InitialRetryBackoff opts; maximal = Opt_MaxRetryBackoff opts
   in 0 < retryBackoff opts n \<and> retryBackoff opts n \<le> maximal
    \<and> (m \<le> n \<longrightarrow> retryBackoff opts m \<le> retryBackoff opts n)
    \<and> (1 \<le> n \<and> initial < 2 ^ 53 \<and> maximal < 2 ^ 63 \<and> initial * 2 ^ nat (n - 1) \<le> maximal \<longrightarrow>
       retryBackoff opts n = initial * 2 ^ nat (n - 1))"
proof -
  let ?o = "normalizePublisherOptions options"
  have pos: "positive_options ?o" by (rule normalize_positive)
  then have init: "0 < Opt_InitialRetryBackoff ?o" by (simp add: positive_options_def)
  show ?thesis
    using retryBackoff_range [OF pos, of n] retryBackoff_step [OF init, of m n]
    by (simp add: retryBackoff_cases [OF init] float64_exact Let_def)
qed

text \<open>
  Writing an event appends one pending record, unless its deduplication key has been used: then
  the write fails with \<^verbatim>\<open>ErrDuplicate\<close> and the outbox is unchanged.
\<close>

theorem create_dedup:
  assumes "w_fault w (w_calls w) = None" and "Rec_OccurredAt record \<noteq> 0"
    and "p_gen_uuid (w_platform w) (db_generated (w_db w)) \<notin> obx_id ` set (db_outbox (w_db w))"
    and "Outbox_Create record w = (result, w')"
  shows "if Rec_DedupKey record \<in> obx_dedup_key ` set (db_outbox (w_db w))
     then result = Inl (Domain ErrDuplicate) \<and> w_db w' = w_db w
     else result = Inr () \<and> db_outbox (w_db w') = db_outbox (w_db w)
       @ [new_outbox_row (p_gen_uuid (w_platform w) (db_generated (w_db w))) record
            (Rec_OccurredAt record)]"
proof -
  let ?row = "new_outbox_row (p_gen_uuid (w_platform w) (db_generated (w_db w))) record
            (Rec_OccurredAt record)"
  have "list_ex (outbox_clash ?row) (db_outbox (w_db w)) \<longleftrightarrow>
      Rec_DedupKey record \<in> obx_dedup_key ` set (db_outbox (w_db w))"
    using assms(3) by (auto simp: list_ex_iff outbox_clash_def new_outbox_row_def)
  then show ?thesis
    using assms(1,2,4)
    by (auto simp: Outbox_Create_def bindE_def ret_def stmt_ok insertOutbox_def insert_into_def
        split: if_splits)
qed

section \<open>Witnesses\<close>

definition sample_event :: "string \<Rightarrow> Record" where
  "sample_event key =
     \<lparr>Rec_ID = '''', Rec_AggregateType = ''module'', Rec_AggregateID = ''0-0'',
      Rec_EventType = ''protoradar.module.created'', Rec_DedupKey = key, Rec_Payload = JObject [],
      Rec_Status = '''', Rec_Attempts = 0, Rec_AvailableAt = 0, Rec_CreatedAt = 0,
      Rec_ClaimedAt = None, Rec_ClaimExpiresAt = None, Rec_PublishedAt = None, Rec_LastError = '''',
      Rec_UpdatedAt = 0, Rec_OccurredAt = 5\<rparr>"

definition sample_outbox :: world where
  "sample_outbox = sample_world (empty_db\<lparr>db_outbox :=
     [new_outbox_row ''0-1'' (sample_event ''k1'') 5, new_outbox_row ''0-2'' (sample_event ''k2'') 2000]\<rparr>)"

definition sample_options :: PublisherOptions where
  "sample_options = DefaultPublisherOptions\<lparr>Opt_Enabled := True\<rparr>"

lemma sample_outbox_ok: "outbox_ok sample_outbox"
  by (simp add: outbox_ok_def sample_outbox_def sample_uuid_def hex_digits_def new_outbox_row_def)

lemma sample_outbox_healthy: "healthy sample_outbox"
  by (simp add: sample_outbox_def sample_healthy)

theorem community_publishes_witness:
  "fst (PublishOnce (communityPublisher sample_options True (\<lambda>_. '''')) sample_outbox) = Inr ()
   \<and> outbox_status (snd (PublishOnce (communityPublisher sample_options True (\<lambda>_. '''')) sample_outbox))
       ''0-1'' = Some outboxStatusPublished
   \<and> outbox_status (snd (PublishOnce (communityPublisher sample_options True (\<lambda>_. '''')) sample_outbox))
       ''0-2'' = Some outboxStatusPending"
proof -
  let ?run = "PublishOnce (communityPublisher sample_options True (\<lambda>_. '''')) sample_outbox"
  have ok: "fst ?run = Inr ()" by code_simp
  then have run: "?run = (Inr (), snd ?run)" by (metis prod.collapse)
  have "''0-1'' \<in> obx_id ` set (claim_batch (Opt_BatchSize (normalizePublisherOptions sample_options))
           (w_clock sample_outbox (w_ticks sample_outbox)) (db_outbox (w_db sample_outbox)))"
    "''0-2'' \<notin> obx_id ` set (claim_batch (Opt_BatchSize (normalizePublisherOptions sample_options))
           (w_clock sample_outbox (w_ticks sample_outbox)) (db_outbox (w_db sample_outbox)))"
    by code_simp+
  moreover have "outbox_status sample_outbox ''0-2'' = Some outboxStatusPending" by code_simp
  moreover have "Opt_Enabled sample_options" by (simp add: sample_options_def)
  ultimately show ?thesis
    using ok community_publishes [OF sample_outbox_ok _ run] by simp
qed

theorem claim_oldest_first_witness:
  "\<exists>batch. fst (Outbox_ClaimPending 1 30 100 sample_outbox)
     = Inr (map (scanOutboxRecord \<circ> claim_row 100 130) batch) \<and> length batch = 1"
proof -
  have "length (filter (claimable 100) (db_outbox (w_db sample_outbox))) = 1" by code_simp
  moreover have "w_fault sample_outbox (w_calls sample_outbox) = None"
    by (simp add: sample_outbox_def)
  ultimately show ?thesis
    using claim_oldest_first [of 1 sample_outbox 30 100 "fst (Outbox_ClaimPending 1 30 100 sample_outbox)"
        "snd (Outbox_ClaimPending 1 30 100 sample_outbox)"] sample_outbox_ok by auto
qed

theorem claims_disjoint_witness:
  "\<exists>first w1 second w2. Outbox_ClaimPending 5 30 100 sample_outbox = (Inr first, w1)
     \<and> Outbox_ClaimPending 5 30 120 w1 = (Inr second, w2) \<and> length first = 1
     \<and> set (map Rec_ID first) \<inter> set (map Rec_ID second) = {}"
proof -
  let ?one = "Outbox_ClaimPending 5 30 100 sample_outbox"
  let ?two = "Outbox_ClaimPending 5 30 120 (snd ?one)"
  obtain first where f: "fst ?one = Inr first" "length first = 1"
  proof -
    have "(case fst ?one of Inr xs \<Rightarrow> length xs = 1 | Inl e \<Rightarrow> False)" by code_simp
    then show ?thesis using that by (auto split: sum.splits)
  qed
  obtain second where s: "fst ?two = Inr second"
  proof -
    have "(case fst ?two of Inr xs \<Rightarrow> True | Inl e \<Rightarrow> False)" by code_simp
    then show ?thesis using that by (auto split: sum.splits)
  qed
  have "?one = (Inr first, snd ?one)" "?two = (Inr second, snd ?two)"
    using f s by (metis prod.collapse)+
  then show ?thesis
    using claims_disjoint [OF sample_outbox_ok, of 5 30 100 first "snd ?one" 120 5 30 second "snd ?two"] f(2)
    by (intro exI conjI) auto
qed

definition sample_published :: world where
  "sample_published = sample_world (empty_db\<lparr>db_outbox :=
     [publish_row 50 (new_outbox_row ''0-1'' (sample_event ''k1'') 5)]\<rparr>)"

theorem stale_failure_reopens_published_witness:
  "\<exists>w' r'. Outbox_MarkFailed ''0-1'' ''timeout'' 200 100 5 sample_published = (Inr (), w')
     \<and> r' \<in> set (db_outbox (w_db w')) \<and> obx_status r' = outboxStatusFailed \<and> claimable 300 r'"
proof -
  let ?r = "publish_row 50 (new_outbox_row ''0-1'' (sample_event ''k1'') 5)"
  have "outbox_ok sample_published" "healthy sample_published"
    "?r \<in> set (db_outbox (w_db sample_published))"
    by (simp_all add: outbox_ok_def sample_published_def sample_uuid_def hex_digits_def
        new_outbox_row_def publish_row_def sample_healthy)
  moreover have "obx_status ?r = outboxStatusPublished" "obx_attempts ?r < 5" "obx_id ?r = ''0-1''"
    by (simp_all add: publish_row_def new_outbox_row_def)
  ultimately show ?thesis
    using stale_failure_reopens_published [of sample_published ?r 5 "''timeout''" 200 100] by force
qed

theorem backoff_bounds_witness:
  "retryBackoff (normalizePublisherOptions DefaultPublisherOptions) 3 = 4 * (30 * Second)"
  using backoff_bounds [of DefaultPublisherOptions 3 1]
  by (simp add: normalizePublisherOptions_def DefaultPublisherOptions_def Second_def Minute_def Let_def)

theorem create_dedup_witness:
  "fst (Outbox_Create (sample_event ''k1'') sample_outbox) = Inl (Domain ErrDuplicate)
   \<and> length (db_outbox (w_db (snd (Outbox_Create (sample_event ''k3'') sample_outbox)))) = 3"
proof -
  have fresh: "p_gen_uuid (w_platform sample_outbox) (db_generated (w_db sample_outbox))
      \<notin> obx_id ` set (db_outbox (w_db sample_outbox))"
    "w_fault sample_outbox (w_calls sample_outbox) = None"
    by (simp_all add: sample_outbox_def sample_platform_def hex_digits_def new_outbox_row_def empty_db_def
        sample_world_def)
  have keys: "obx_dedup_key ` set (db_outbox (w_db sample_outbox)) = {''k1'', ''k2''}"
    by (simp add: sample_outbox_def new_outbox_row_def sample_event_def)
  have len: "length (db_outbox (w_db sample_outbox)) = 2" by (simp add: sample_outbox_def)
  have at: "Rec_OccurredAt (sample_event k) \<noteq> 0" "Rec_DedupKey (sample_event k) = k" for k
    by (simp_all add: sample_event_def)
  note run = create_dedup [OF fresh(2) at(1) fresh(1) prod.collapse [symmetric]]
  show ?thesis using run [of "''k1''"] run [of "''k3''"] by (simp add: at keys len)
qed

end
