(* ===== verification/Outbox_Progress.thy ===== *)
theory Outbox_Progress
  imports Outbox_System
begin

text \<open>
  Progress of the outbox: on a database that works, every publishing round returns, leaves the records
  outside its batch exactly as they are, and publishes its batch; so every record that is due is
  published after finitely many rounds of \<^verbatim>\<open>Run\<close>.
\<close>

section \<open>Rounds that leave rows alone\<close>

text \<open>Time goes on and the rows outside \<open>ids\<close> stay.\<close>

definition onward :: "string set \<Rightarrow> world \<Rightarrow> world \<Rightarrow> bool" where
  "onward ids w w' \<longleftrightarrow> same_env w w' \<and> w_ticks w \<le> w_ticks w'
     \<and> {r \<in> set (db_outbox (w_db w)). obx_id r \<notin> ids} \<subseteq> set (db_outbox (w_db w'))"

interpretation onward: effect_preorder "onward ids" for ids
  by unfold_locales (auto simp: onward_def same_env_def)

lemma onward_mono: "onward A w w' \<Longrightarrow> A \<subseteq> B \<Longrightarrow> onward B w w'"
  by (auto simp: onward_def)

lemma onward_clock: "steps (onward ids) clock_now"
  by (auto simp: steps_def onward_def clock_now_def same_env_def)

lemma onward_ctx: "steps (onward ids) ctx_check"
  by (auto simp: steps_def onward_def ctx_check_def same_env_def split: option.splits)

lemma onward_stats: "steps (onward ids) Outbox_Stats"
  by (auto simp: steps_def onward_def Outbox_Stats_def stmt_def select_def Let_def same_env_def
      split: option.splits)

abbreviation (input) community where
  "community options observed errorText \<equiv> communityPublisher options observed errorText"

lemma onward_observe: "steps (onward ids) (observe (community options observed errorText) obs)"
  by (auto simp: steps_def observe_def communityPublisher_def NewPublisher_def onward.step_refl
      split: option.splits)

lemma onward_recordStats: "steps (onward ids) (recordStats (community options observed errorText))"
  unfolding recordStats_def community_simps
  by (intro onward.steps_option onward.steps_ret onward.steps_bindE onward.steps_attempt
      onward.steps_sum onward_observe) (simp add: postgres_outbox_def onward_stats)

lemmas onward_quiet = onward_clock onward_ctx onward_observe onward_recordStats

text \<open>On a working database none of the quiet steps fails.\<close>

lemma ctx_runs: "healthy w \<Longrightarrow> \<exists>w'. ctx_check w = (Inr (), w')"
  by (simp add: ctx_check_def healthy_def)

lemma observe_runs: "\<exists>w'. observe publisher obs w = (Inr (), w')"
  by (simp add: observe_def split: option.splits)

lemma recordStats_runs: "\<exists>w'. recordStats publisher w = (Inr (), w')"
proof -
  have "\<exists>w'. (case r of Inl err \<Rightarrow> observe publisher (RecordError ''stats_failed'')
            | Inr stats \<Rightarrow> observe publisher (RecordStats stats)) w1 = (Inr (), w')" for r w1
    by (cases r) (simp_all add: observe_runs)
  then show ?thesis
    by (cases "Repo_Stats (Pub_Repository publisher) w")
      (auto simp: recordStats_def bindE_def attempt_def ret_def split: option.splits)
qed

lemma onward_healthy: "healthy w \<Longrightarrow> onward ids w w' \<Longrightarrow> healthy w'"
  by (auto simp: onward_def intro: healthy_env)

section \<open>One record\<close>

lemma mark_onward:
  assumes "healthy w" and "outbox_ok w" and "outbox_status w i \<noteq> None"
  shows "\<exists>w'. Outbox_MarkPublished i now w = (Inr (), w') \<and> onward {i} w w'"
proof -
  have keeps: "obx_id (publish_row now r) = obx_id r" for r by (simp add: publish_row_def)
  obtain w' where run: "Outbox_MarkPublished i now w = (Inr (), w')"
      and rows: "db_outbox (w_db w') = map (\<lambda>r. if obx_id r = i then publish_row now r else r) (db_outbox (w_db w))"
    using mark_run [OF assms keeps] by (auto simp: Outbox_MarkPublished_def)
  have "steps same_env (Outbox_MarkPublished i now)"
    unfolding Outbox_MarkPublished_def ensureOutboxRecordExists_def by (intro env_rules)
  moreover have "w_ticks w' = w_ticks w"
    using run by (auto simp: Outbox_MarkPublished_def ensureOutboxRecordExists_def bindE_Inr stmt_Inr)
  ultimately show ?thesis
    using run stepsD rows by (fastforce simp: onward_def)
qed

lemma turn_runs:
  assumes w: "healthy w" "outbox_ok w" "outbox_status w (Rec_ID rec) \<noteq> None"
  shows "\<exists>w'. turn (community options observed errorText) rec w = (Inr (), w') \<and> onward {Rec_ID rec} w w'"
proof -
  let ?pub = "community options observed errorText"
  let ?on = "onward {Rec_ID rec}"
  obtain w1 where c: "ctx_check w = (Inr (), w1)" using ctx_runs [OF w(1)] by blast
  define w2 w3 where "w2 = w1\<lparr>w_ticks := Suc (w_ticks w1)\<rparr>" and "w3 = w2\<lparr>w_ticks := Suc (w_ticks w2)\<rparr>"
  define w4 where "w4 = w3\<lparr>w_ticks := Suc (w_ticks w3)\<rparr>"
  have w4: "?on w w4" "outbox_ok w4" "outbox_status w4 = outbox_status w"
    using stepsD [OF onward_ctx c, of "{Rec_ID rec}"] w(2) c
    by (auto simp: w2_def w3_def w4_def onward_def same_env_def outbox_ok_def outbox_status_def ctx_check_def
        fun_eq_iff split: option.splits)
  obtain w5 where m: "Outbox_MarkPublished (Rec_ID rec) (w_clock w3 (w_ticks w3)) w4 = (Inr (), w5)" "?on w4 w5"
    using mark_onward [OF onward_healthy [OF w(1) w4(1)] w4(2)] w4(3) w(3) by metis
  obtain w6 where o6: "observe ?pub (RecordDispatch ''published''
      (w_clock w2 (w_ticks w2) - w_clock w1 (w_ticks w1))) w5 = (Inr (), w6)"
    using observe_runs [of ?pub _ w5] by blast
  obtain w7 where s7: "recordStats ?pub w6 = (Inr (), w7)" using recordStats_runs [of ?pub w6] by blast
  have "turn ?pub rec w = (Inr (), w7)"
    using c m(1) o6 s7 unfolding turn_def dispatchRecord_def markedPublished_def
    by (simp add: bindE_def clock_now_def attempt_def LoggingDispatcher_Dispatch_def ret_def catchE_def
        postgres_outbox_def w2_def w3_def w4_def)
  moreover have "?on w w7"
    by (rule onward.step_trans [OF w4(1) onward.step_trans [OF m(2) onward.step_trans
        [OF stepsD [OF onward_observe o6] stepsD [OF onward_recordStats s7]]]])
  ultimately show ?thesis by blast
qed

section \<open>One round\<close>

lemma loop_runs:
  assumes "healthy w" and "outbox_ok w" and "\<forall>rec \<in> set recs. outbox_status w (Rec_ID rec) \<noteq> None"
  shows "\<exists>w'. forE recs (turn (community options observed errorText)) w = (Inr (), w')
    \<and> onward (Rec_ID ` set recs) w w'"
  using assms
proof (induction recs arbitrary: w)
  case Nil
  show ?case by (simp add: ret_def onward.step_refl)
next
  case (Cons rec recs)
  let ?turn = "turn (community options observed errorText)"
  obtain w1 where t: "?turn rec w = (Inr (), w1)" "onward {Rec_ID rec} w w1"
    using turn_runs [of w rec options observed errorText] Cons.prems by auto
  have "steps (moves outbox_ok outbox_status (Rec_ID rec)) (?turn rec)"
    unfolding turn_def by (intro moves.steps_bindE community.dispatchRecord_steps
        community.ctx_rests [THEN community.rests_moves])
  from stepsD [OF this t(1)] Cons.prems
  have moved: "outbox_ok w1 \<and> outbox_status w1 (Rec_ID rec) \<noteq> None
      \<and> (\<forall>i. i \<noteq> Rec_ID rec \<longrightarrow> outbox_status w1 i = outbox_status w i)"
    by (simp add: moves_def only_at_def)
  then have w1: "outbox_ok w1" "\<forall>i. outbox_status w i \<noteq> None \<longrightarrow> outbox_status w1 i \<noteq> None"
    by metis+
  obtain w2 where l: "forE recs ?turn w1 = (Inr (), w2)" "onward (Rec_ID ` set recs) w1 w2"
    using Cons.IH [OF onward_healthy [OF Cons.prems(1) t(2)] w1(1)] w1(2) Cons.prems(3) by auto
  have "onward (Rec_ID ` set (rec # recs)) w w2"
    by (rule onward.step_trans [OF onward_mono [OF t(2)] onward_mono [OF l(2)]]) auto
  with t(1) l(1) show ?case by (simp add: bindE_def)
qed

definition due_batch :: "PublisherOptions \<Rightarrow> world \<Rightarrow> outbox_row list" where
  "due_batch options w = claim_batch (Opt_BatchSize (normalizePublisherOptions options))
     (w_clock w (w_ticks w)) (db_outbox (w_db w))"

lemma round_runs:
  assumes w: "healthy w" "outbox_ok w" and enabled: "Opt_Enabled options"
  shows "\<exists>w'. PublishOnce (community options observed errorText) w = (Inr (), w')
    \<and> onward (obx_id ` set (due_batch options w)) w w'"
proof -
  let ?pub = "community options observed errorText"
  let ?n = "Opt_BatchSize (normalizePublisherOptions options)"
  let ?lease = "Opt_LeaseDuration (normalizePublisherOptions options)"
  let ?ids = "obx_id ` set (due_batch options w)"
  obtain w1 where c: "ctx_check w = (Inr (), w1)" using ctx_runs [OF w(1)] by blast
  let ?now = "w_clock w1 (w_ticks w1)"
  define w2 where "w2 = w1\<lparr>w_ticks := Suc (w_ticks w1)\<rparr>"
  have w1: "w_db w1 = w_db w" "?now = w_clock w (w_ticks w)"
    using c by (auto simp: ctx_check_def split: option.splits)
  have w2: "onward ?ids w w2" "outbox_ok w2" "w_db w2 = w_db w"
    using stepsD [OF onward_ctx c, of ?ids] w(2) c w1
    by (auto simp: w2_def onward_def same_env_def outbox_ok_def)
  have n: "0 < ?n" using normalize_positive [of options] by (simp add: positive_options_def)
  have batch: "claim_batch ?n ?now (db_outbox (w_db w2)) = due_batch options w"
    by (simp add: due_batch_def w1 w2(3))
  have no_fault: "w_fault w2 (w_calls w2) = None"
    using onward_healthy [OF w(1) w2(1)] by (simp add: healthy_def)
  obtain recs w3 where cl: "Outbox_ClaimPending ?n ?lease ?now w2 = (Inr recs, w3)"
      and ids: "Rec_ID ` set recs = ?ids" and w3: "onward ?ids w2 w3"
    unfolding claim_postgres_eq [OF n no_fault] batch Let_def
    by (force simp: scanOutboxRecord_def claim_row_def image_image onward_def same_env_def w2(3))
  note law = claim_law_postgres [OF w2(2) cl]
  obtain w4 where o4: "observe ?pub (RecordClaimed (length recs)) w3 = (Inr (), w4)"
    using observe_runs [of ?pub _ w3] by blast
  obtain w5 where s5: "recordStats ?pub w4 = (Inr (), w5)" using recordStats_runs [of ?pub w4] by blast
  have w5: "onward ?ids w w5"
    by (rule onward.step_trans [OF w2(1) onward.step_trans [OF w3 onward.step_trans
        [OF stepsD [OF onward_observe o4] stepsD [OF onward_recordStats s5]]]])
  have ok5: "outbox_ok w5" "outbox_status w5 = outbox_status w3"
    using community.quietD [OF community.observe_steps o4] community.quietD [OF community.stats_steps s5] law
    by auto
  have "\<forall>rec \<in> set recs. outbox_status w5 (Rec_ID rec) \<noteq> None" using law ok5(2) by simp
  from loop_runs [OF onward_healthy [OF w(1) w5] ok5(1) this] obtain w6
    where l: "forE recs (turn ?pub) w5 = (Inr (), w6)" "onward ?ids w5 w6" unfolding ids by blast
  have "PublishOnce ?pub w = (Inr (), w6)"
    using c cl o4 s5 l(1) enabled unfolding PublishOnce_def
    by (simp add: bindE_def clock_now_def catchE_def postgres_outbox_def w2_def)
  with onward.step_trans [OF w5 l(2)] show ?thesis by blast
qed

section \<open>The records still to publish\<close>

definition unpublished :: "world \<Rightarrow> string set" where
  "unpublished w = {i. \<exists>s. outbox_status w i = Some s \<and> s \<noteq> outboxStatusPublished}"

lemma unpublished_ids: "unpublished w \<subseteq> obx_id ` set (db_outbox (w_db w))"
  by (auto simp: unpublished_def outbox_status_def dest!: find_key_Some)

lemma unpublished_finite: "finite (unpublished w)"
  by (rule finite_subset [OF unpublished_ids]) simp

lemma unpublished_length: "card (unpublished w) \<le> length (db_outbox (w_db w))"
  using card_mono [OF _ unpublished_ids] card_image_le [of "set (db_outbox (w_db w))" obx_id]
    card_length [of "db_outbox (w_db w)"] by (meson List.finite_set finite_imageI le_trans)

lemma status_of_row:
  "outbox_ok w \<Longrightarrow> r \<in> set (db_outbox (w_db w)) \<Longrightarrow> outbox_status w (obx_id r) = Some (obx_status r)"
proof -
  assume ok: "outbox_ok w" and r: "r \<in> set (db_outbox (w_db w))"
  obtain s where s: "find (\<lambda>s. obx_id s = obx_id r) (db_outbox (w_db w)) = Some s" "obx_id s = obx_id r"
    using find_key_in [OF r] by blast
  then have "s = r" using ok r find_key_Some [OF s(1)] by (auto simp: outbox_ok_def distinct_map dest: inj_onD)
  with s(1) show ?thesis by (simp add: outbox_status_def)
qed

lemma claimable_unpublished: "claimable now r \<Longrightarrow> obx_status r \<noteq> outboxStatusPublished"
  by (auto simp: claimable_def outbox_status_defs)

lemma claimable_later: "claimable now r \<Longrightarrow> now \<le> later \<Longrightarrow> claimable later r"
  by (auto simp: claimable_def split: option.splits)

lemma round_decreases:
  assumes w: "outbox_ok w" "Opt_Enabled options"
    and run: "PublishOnce (community options observed errorText) w = (Inr (), w')"
    and r: "r \<in> set (db_outbox (w_db w))" "claimable (w_clock w (w_ticks w)) r"
  shows "card (unpublished w') < card (unpublished w)"
proof -
  let ?ids = "obx_id ` set (due_batch options w)"
  have n: "0 < Opt_BatchSize (normalizePublisherOptions options)"
    using normalize_positive [of options] by (simp add: positive_options_def)
  have "filter (claimable (w_clock w (w_ticks w))) (db_outbox (w_db w)) \<noteq> []"
    using r by (auto simp: filter_empty_conv)
  then have "0 < length (due_batch options w)" using n by (simp add: due_batch_def claim_batch_length)
  then obtain b where b: "b \<in> set (due_batch options w)" using nth_mem by blast
  then have "b \<in> set (db_outbox (w_db w))" "claimable (w_clock w (w_ticks w)) b"
    using claim_batch_in unfolding due_batch_def by blast+
  then have "obx_id b \<in> unpublished w"
    using status_of_row [OF w(1)] claimable_unpublished by (auto simp: unpublished_def)
  moreover have "unpublished w' = unpublished w - ?ids"
    using round_publishes [OF w run] by (auto simp: unpublished_def due_batch_def split: if_splits)
  ultimately show ?thesis using b unpublished_finite by (intro psubset_card_mono) auto
qed

section \<open>Liveness\<close>

text \<open>The state of one record that was due: published, or untouched and still due.\<close>

definition on_its_way :: "outbox_row \<Rightarrow> world \<Rightarrow> bool" where
  "on_its_way r w \<longleftrightarrow> outbox_status w (obx_id r) = Some outboxStatusPublished
     \<or> r \<in> set (db_outbox (w_db w)) \<and> claimable (w_clock w (w_ticks w)) r"

lemma round_on_its_way:
  assumes w: "healthy w" "outbox_ok w" "Opt_Enabled options" "mono (w_clock w)" and r: "on_its_way r w"
    and run: "PublishOnce (community options observed errorText) w = (Inr (), w')"
    and on: "onward (obx_id ` set (due_batch options w)) w w'"
  shows "on_its_way r w'"
proof (cases "obx_id r \<in> obx_id ` set (due_batch options w)")
  case True
  then show ?thesis using round_publishes [OF w(2,3) run] by (simp add: on_its_way_def due_batch_def)
next
  case False
  have "w_clock w' = w_clock w" "w_ticks w \<le> w_ticks w'" using on by (simp_all add: onward_def same_env_def)
  then have "w_clock w (w_ticks w) \<le> w_clock w' (w_ticks w')" using w(4) by (simp add: monoD)
  then show ?thesis
    using r False on round_publishes [OF w(2,3) run] claimable_later
    by (auto simp: on_its_way_def onward_def due_batch_def)
qed

lemma on_its_way_left:
  assumes "outbox_ok w" and "on_its_way r w" and "unpublished w = {}"
  shows "outbox_status w (obx_id r) = Some outboxStatusPublished"
proof (rule ccontr)
  assume not: "outbox_status w (obx_id r) \<noteq> Some outboxStatusPublished"
  then have "r \<in> set (db_outbox (w_db w))" using assms(2) by (simp add: on_its_way_def)
  then have "obx_id r \<in> unpublished w"
    using status_of_row [OF assms(1)] not by (auto simp: unpublished_def)
  with assms(3) show False by simp
qed

lemma round_stays_published:
  assumes "outbox_ok w" and "Opt_Enabled options"
    and "PublishOnce (community options observed errorText) w = (Inr (), w')"
    and "outbox_status w i = Some outboxStatusPublished"
  shows "outbox_status w' i = Some outboxStatusPublished"
  using round_publishes [OF assms(1-3)] assms(4) by simp

lemma loop_publishes:
  assumes "healthy w" and "outbox_ok w" and "Opt_Enabled options" and "mono (w_clock w)"
    and "on_its_way r w"
  shows "\<exists>w'. run_loop (community options observed errorText) events w = (Inr (), w')
    \<and> (card (unpublished w) \<le> length (takeWhile ((=) Tick) events)
       \<or> outbox_status w (obx_id r) = Some outboxStatusPublished \<longrightarrow>
        outbox_status w' (obx_id r) = Some outboxStatusPublished)"
  using assms
proof (induction events arbitrary: w)
  case Nil
  then show ?case
    using on_its_way_left [OF Nil.prems(2,5)] unpublished_finite by (auto simp: ret_def)
next
  case (Cons e events)
  let ?pub = "community options observed errorText"
  show ?case
  proof (cases e)
    case Done
    then show ?thesis
      using on_its_way_left [OF Cons.prems(2,5)] unpublished_finite by (auto simp: ret_def)
  next
    case Tick
    obtain w1 where w1: "PublishOnce ?pub w = (Inr (), w1)" "onward (obx_id ` set (due_batch options w)) w w1"
      using round_runs [OF Cons.prems(1-3), of observed errorText] by blast
    have after: "healthy w1" "outbox_ok w1" "mono (w_clock w1)" "on_its_way r w1"
      using onward_healthy [OF Cons.prems(1) w1(2)] round_publishes [OF Cons.prems(2,3) w1(1)]
        round_on_its_way [OF Cons.prems w1] w1(2) Cons.prems(4) by (auto simp: onward_def same_env_def)
    obtain w' where w': "run_loop ?pub events w1 = (Inr (), w')"
        "card (unpublished w1) \<le> length (takeWhile ((=) Tick) events)
         \<or> outbox_status w1 (obx_id r) = Some outboxStatusPublished \<longrightarrow>
          outbox_status w' (obx_id r) = Some outboxStatusPublished"
      using Cons.IH [OF after(1,2) Cons.prems(3) after(3,4)] by blast
    have "run_loop ?pub (e # events) w = (Inr (), w')"
      using Tick w1(1) w'(1) by (simp add: bindE_def attempt_def)
    moreover have "card (unpublished w1) < card (unpublished w)
        \<or> outbox_status w (obx_id r) = Some outboxStatusPublished"
      using Cons.prems(5) round_decreases [OF Cons.prems(2,3) w1(1)] by (auto simp: on_its_way_def)
    ultimately show ?thesis
      using w'(2) Tick round_stays_published [OF Cons.prems(2,3) w1(1), of "obx_id r"] by auto
  qed
qed

text \<open>
  C38: on a working database the publisher's loop never stops with an error, and it publishes every
  record that is due at its start once it has had as many ticks as there are records: no record starves,
  whatever else becomes due meanwhile.
\<close>

theorem due_records_published:
  assumes "outbox_ok w" and "healthy w" and "mono (w_clock w)" and "Opt_Enabled options"
    and "r \<in> set (db_outbox (w_db w))" and "claimable (w_clock w (w_ticks w)) r"
    and "length (db_outbox (w_db w)) \<le> Suc (length (takeWhile ((=) Tick) events))"
  shows "\<exists>w'. Run (communityPublisher options observed errorText) events w = (Inr (), w')
    \<and> outbox_status w' (obx_id r) = Some outboxStatusPublished"
proof -
  have "on_its_way r w" using assms(5,6) by (simp add: on_its_way_def)
  from loop_publishes [OF assms(2,1,4,3) this, of observed errorText "Tick # events"]
  show ?thesis
    using le_trans [OF unpublished_length [of w] assms(7)] assms(4) by (auto simp: Run_def)
qed

text \<open>Two records that are due, with a batch of one: two rounds publish both.\<close>

definition busy_outbox :: world where
  "busy_outbox = sample_world (empty_db\<lparr>db_outbox :=
     [new_outbox_row ''0-1'' (sample_event ''k1'') 7, new_outbox_row ''0-2'' (sample_event ''k2'') 5]\<rparr>)"

theorem due_records_published_witness:
  "outbox_status (snd (Run (communityPublisher (sample_options\<lparr>Opt_BatchSize := 1\<rparr>) True (\<lambda>_. '''')) [Tick, Done]
     busy_outbox)) ''0-1'' = Some outboxStatusPublished"
proof -
  let ?r = "new_outbox_row ''0-1'' (sample_event ''k1'') 7"
  have "outbox_ok busy_outbox"
    by (simp add: outbox_ok_def busy_outbox_def sample_uuid_def hex_digits_def new_outbox_row_def)
  moreover have "healthy busy_outbox" by (simp add: busy_outbox_def sample_healthy)
  moreover have "mono (w_clock busy_outbox)"
    by (simp add: busy_outbox_def monoI)
  moreover have "claimable (w_clock busy_outbox (w_ticks busy_outbox)) ?r" by code_simp
  moreover have "?r \<in> set (db_outbox (w_db busy_outbox))"
    "length (db_outbox (w_db busy_outbox)) \<le> Suc (length (takeWhile ((=) Tick) [Tick, Done]))"
    by (simp_all add: busy_outbox_def)
  moreover have "obx_id ?r = ''0-1''" by (simp add: new_outbox_row_def)
  moreover have "Opt_Enabled (sample_options\<lparr>Opt_BatchSize := 1\<rparr>)" by (simp add: sample_options_def)
  ultimately show ?thesis
    using due_records_published [of busy_outbox "sample_options\<lparr>Opt_BatchSize := 1\<rparr>" ?r "[Tick, Done]" True "\<lambda>_. ''''"]
    by auto
qed

end
