(* ===== verification/Approval_Race.thy ===== *)
theory Approval_Race
  imports Approval_Claims
begin

text \<open>
  Two decisions on one request that are handled at the same time. \<^verbatim>\<open>recordDecision\<close> reads and checks
  before it opens its transaction and writes totals it computed from what it read, so the second
  commit overwrites the first one's totals with its own.
\<close>

lemma requirements_of_map:
  "(\<And>r. rqm_approval_request_id (f r) = rqm_approval_request_id r) \<Longrightarrow>
   requirements_of (map f rs) aid = map f (requirements_of rs aid)"
  by (simp add: requirements_of_def filter_map comp_def)

text \<open>What a prepared approval of requirement \<open>r\<close> will write when the request has two requirements.\<close>

lemma prepared_pair:
  assumes prepare: "prepareDecision svc input ApprovalDecisionValueApproved w = (Inr prep, w')"
    and laws: "uuid_laws (w_platform w)" and ok: "ledger_ok (p_uuid (w_platform w)) (ledger_of (w_db w))"
    and two: "requirements_of (db_requirements (w_db w)) aid = [r, s] \<or> requirements_of (db_requirements (w_db w)) aid = [s, r]"
    and pending: "rqm_status r = ''pending''" "rqm_status s = ''pending''"
    and names: "NewID (In_RequirementID input) = rqm_id r"
  shows "Prep_RequestStatus prep = ApprovalRequestStatusPending \<and> Prep_Required prep = 2
    \<and> Prep_Received prep = 1 \<and> Prep_RequirementStatus prep = ApprovalRequirementStatusApproved
    \<and> Decision_RequirementID (Prep_Decision prep) = rqm_id r
    \<and> Decision_Decision (Prep_Decision prep) = ApprovalDecisionValueApproved
    \<and> Requirement_ID (Prep_Requirement prep) = rqm_id r
    \<and> Decision_ApprovalRequestID (Prep_Decision prep) = aid \<and> Request_ID (Prep_Request prep) = aid
    \<and> fits (p_uuid (w_platform w)) aid \<and> fits (p_uuid (w_platform w)) (rqm_id r)"
proof -
  have ok': "approvals_ok (p_uuid (w_platform w)) (w_db w)" using ok by (simp add: approvals_ok_def)
  have both: "{x \<in> set (db_requirements (w_db w)). rqm_approval_request_id x = aid} = {r, s}"
  proof -
    have "set (requirements_of (db_requirements (w_db w)) aid) = {r, s}" using two by (elim disjE) (simp_all add: insert_commute)
    then show ?thesis by (simp add: requirements_of_def)
  qed
  then have rs: "r \<in> set (db_requirements (w_db w))" "rqm_approval_request_id r = aid" by auto
  have "distinct (map rqm_id (requirements_of (db_requirements (w_db w)) aid))"
    unfolding requirements_of_def using ledger_okD(2) [OF ok] by (simp add: distinct_map_filter)
  then have differ: "rqm_id r \<noteq> rqm_id s" using two by auto
  show ?thesis
  proof (rule prepareDecision_Inr [OF prepare laws ok'])
    fix q r' request requirement did now
    assume can: "decidable svc input (w_platform w) (w_db w) q r' request requirement"
      and prep: "prep = decide request requirement
           \<lparr>Decision_ID = did, Decision_ApprovalRequestID = req_id q, Decision_RequirementID = rqm_id r',
            Decision_Decision = ApprovalDecisionValueApproved, Decision_DecidedBy = TrimSpace (In_Actor input),
            Decision_Comment = In_Comment input, Decision_CreatedAt = now\<rparr>
           (TrimSpace (In_Actor input)) now"
    have r': "r' \<in> set (db_requirements (w_db w))" "rqm_approval_request_id r' = req_id q"
      "rqm_id r' = rqm_id r" "Requirement_ID requirement = rqm_id r" "Request_ID request = req_id q"
      "q \<in> set (db_requests (w_db w))"
      and load: "loaded (w_db w) q request" and mem: "requirement \<in> set (Request_Requirements request)"
      using can names by (auto simp: decidable_def requirements_of_def loaded_def)
    then have "r' = r" using ledger_okD(2) [OF ok] rs(1) by (simp add: distinct_map inj_on_def)
    with r'(2) rs have aid: "req_id q = aid" by simp
    have none: "\<forall>x \<in> set (map rqm_status (requirements_of (db_requirements (w_db w)) (req_id q))). x \<noteq> ''rejected''"
      using two pending unfolding aid by auto
    have "map rqm_status (requirements_of (map (settle (rqm_id r) ''approved'' now) (db_requirements (w_db w))) aid)
        \<in> {[''approved'', ''pending''], [''pending'', ''approved'']}"
      unfolding requirements_of_settle using two pending differ by auto
    then have totals: "(ApprovalRequestStatus_String (Prep_RequestStatus prep), Prep_Required prep, Prep_Received prep)
        = (''pending'', 2, 1)"
      using decide_tally(1) [OF load mem none _ prep, of "''approved''" now] r'(4) aid by (auto simp: tally_def)
    moreover have "ApprovalRequirementStatus_String (Prep_RequirementStatus prep) = ''approved''"
      using decide_tally(2) [OF load mem none _ prep, of "''approved''"] by simp
    moreover have "st = ApprovalRequestStatusPending" if "ApprovalRequestStatus_String st = ''pending''" for st
      using that by (cases st) simp_all
    ultimately show ?thesis
      using prep r' aid \<open>r' = r\<close> approvals_okD(1) [OF ok' r'(6)] approvals_okD(2) [OF ok' rs(1)]
      by (simp add: status_cases decide_def Let_def)
  qed
qed

section \<open>What stays lost\<close>

text \<open>
  A request both of whose requirements are approved while its row still says pending, one approval
  of two. No handler leaves this state: the requirements accept no further decision, and a report
  has its one request already.
\<close>

definition stuck :: "(string \<Rightarrow> string option) \<Rightarrow> string \<Rightarrow> string set \<Rightarrow> ledger \<Rightarrow> bool" where
  "stuck U aid ids L \<longleftrightarrow>
     ledger_ok U L \<and> statuses_of L aid = [''approved'', ''approved'']
     \<and> (\<forall>q \<in> set (led_requests L). req_id q = aid \<longrightarrow> counters q = (''pending'', 2, 1))
     \<and> ids \<subseteq> dec_requirement_id ` set (led_decisions L)"

lemma stuck_known:
  assumes "stuck U aid ids L"
  shows "aid \<in> req_id ` set (led_requests L)"
proof -
  have ok: "ledger_ok U L" and "statuses_of L aid \<noteq> []" using assms by (simp_all add: stuck_def)
  then have "requirements_of (led_requirements L) aid \<noteq> []" by (simp add: statuses_of_def)
  then obtain r where "r \<in> set (led_requirements L)" "rqm_approval_request_id r = aid"
    by (auto simp: requirements_of_def filter_empty_conv)
  then show ?thesis using ledger_okD(3) [OF ok] by auto
qed

lemma stuck_settled:
  assumes "stuck U aid ids L" and "r \<in> set (led_requirements L)" and "rqm_status r = ''pending''"
  shows "rqm_approval_request_id r \<noteq> aid"
proof
  assume "rqm_approval_request_id r = aid"
  then have "rqm_status r \<in> set (statuses_of L aid)"
    using assms(2) by (simp add: statuses_of_def requirements_of_def)
  then show False using assms(1,3) by (simp add: stuck_def)
qed

lemma requests_replaced:
  "led_requests (L\<lparr>led_requests := qs\<rparr>) = qs"
  "led_requirements (L\<lparr>led_requests := qs\<rparr>) = led_requirements L"
  "led_decisions (L\<lparr>led_requests := qs\<rparr>) = led_decisions L"
  for L :: ledger
  by simp_all

text \<open>A decision on another request, whatever totals it writes there.\<close>

lemma stuck_decision:
  assumes stuck: "stuck U aid ids L" and r: "r \<in> set (led_requirements L)" "rqm_status r = ''pending''"
    and e: "dec_approval_request_id e = rqm_approval_request_id r" "dec_requirement_id e = rqm_id r"
      "dec_decision e \<in> {''approved'', ''rejected''}"
    and fresh: "\<forall>f \<in> set (led_decisions L). dec_id f \<noteq> dec_id e \<and> dec_requirement_id f \<noteq> rqm_id r"
    and st: "fst totals \<in> set request_statuses"
  shows "stuck U aid ids ((record_decision e at L)
    \<lparr>led_requests := map (count_again (dec_approval_request_id e) totals at) (led_requests L)\<rparr>)"
proof -
  let ?L = "record_decision e at L" and ?qs = "map (count_again (dec_approval_request_id e) totals at) (led_requests L)"
  have ok: "ledger_ok U L" using stuck by (simp add: stuck_def)
  have other: "rqm_approval_request_id r \<noteq> aid" by (rule stuck_settled [OF stuck r])
  note proj = requests_replaced [where L = ?L and qs = ?qs]
  have ids: "map req_id ?qs = map req_id (led_requests ?L)"
    "map req_breaking_report_id ?qs = map req_breaking_report_id (led_requests ?L)"
    by (simp_all add: comp_def)
  have members: "req_id ` set ?qs = req_id ` set (led_requests ?L)"
    using arg_cong [OF ids(1), of set] by (simp only: set_map)
  have "ledger_ok U ?L" by (rule record_decision_ok [OF ok r(1) e(2,3) fresh])
  moreover have "\<forall>q \<in> set ?qs. fits U (req_id q) \<and> req_status q \<in> set request_statuses"
    using ok st by (auto simp: ledger_ok_def)
  ultimately have "ledger_ok U (?L\<lparr>led_requests := ?qs\<rparr>)"
    unfolding ledger_ok_def proj ids members by (elim conjE) (intro conjI)
  moreover have "rqm_approval_request_id r' \<noteq> aid"
    if "r' \<in> set (led_requirements L)" "rqm_id r' = dec_requirement_id e" for r'
  proof -
    have "r' = r" using ledger_okD(2) [OF ok] that r(1) e(2) by (simp add: distinct_map inj_on_def)
    with other show ?thesis by simp
  qed
  then have "statuses_of ?L aid = statuses_of L aid"
    by (intro record_decision_statuses) blast
  then have "statuses_of (?L\<lparr>led_requests := ?qs\<rparr>) aid = [''approved'', ''approved'']"
    using stuck by (simp add: stuck_def statuses_of_def)
  moreover have "counters q = (''pending'', 2, 1)" if "q \<in> set ?qs" "req_id q = aid" for q
    using that stuck other e(1) by (auto simp: stuck_def)
  moreover have "ids \<subseteq> dec_requirement_id ` set (led_decisions ?L)"
    using stuck by (auto simp: stuck_def)
  ultimately show ?thesis unfolding stuck_def proj by blast
qed

lemma stuck_step:
  assumes stuck: "stuck U aid ids L" and step: "ledger_step U L L'"
  shows "stuck U aid ids L'"
  using step
proof (cases rule: ledger_step.cases)
  case (opened q rs)
  have ok: "ledger_ok U L" using stuck by (simp add: stuck_def)
  have other: "req_id q \<noteq> aid" using stuck_known [OF stuck] opened(4) by auto
  have "requirements_of rs aid = []"
    using opened(5) other by (intro requirements_of_empty) auto
  moreover have "ledger_ok U L'"
    unfolding opened(1) by (rule open_request_ok [OF ok opened(2,4,5,6,7)])
  ultimately show ?thesis
    using stuck other by (auto simp: stuck_def opened(1) open_request_def statuses_of_def)
next
  case (decided q r e at)
  have "stuck U aid ids ((record_decision e at L)\<lparr>led_requests := map (count_again (dec_approval_request_id e)
      (tally (statuses_of L' (dec_approval_request_id e))) at) (led_requests L)\<rparr>)"
    using decided tally_status by (intro stuck_decision [OF stuck, of r]) auto
  moreover have "(record_decision e at L)\<lparr>led_requests := map (count_again (dec_approval_request_id e)
      (tally (statuses_of L' (dec_approval_request_id e))) at) (led_requests L)\<rparr> = L'"
    unfolding decided(1) record_decision_simps(5) [symmetric] by simp
  ultimately show ?thesis by (simp only:)
qed

lemma stuck_recordDecision:
  assumes run: "recordDecision svc input v w = (res, w')" and outside: "\<not> w_tx w"
    and laws: "uuid_laws (w_platform w)" and stuck: "stuck (p_uuid (w_platform w)) aid ids (ledger_of (w_db w))"
  shows "stuck (p_uuid (w_platform w)) aid ids (ledger_of (w_db w'))"
proof (cases "w_db w' = w_db w")
  case False
  have ok: "approvals_ok (p_uuid (w_platform w)) (w_db w)"
    using stuck by (simp add: approvals_ok_def stuck_def)
  show ?thesis
  proof (rule recordDecision_written [OF run outside laws ok False])
    fix prep w1 w2 request requirement did now and q :: request_row and r :: requirement_row
    assume can: "decidable svc input (w_platform w) (w_db w) q r request requirement"
      and prep: "prep = decide request requirement
           \<lparr>Decision_ID = did, Decision_ApprovalRequestID = req_id q, Decision_RequirementID = rqm_id r,
            Decision_Decision = v, Decision_DecidedBy = TrimSpace (In_Actor input),
            Decision_Comment = In_Comment input, Decision_CreatedAt = now\<rparr>
           (TrimSpace (In_Actor input)) now"
      and w1: "w_db w1 = w_db w" "same_env w w1" and commit: "commitDecision prep w1 = (Inr (), w2)"
      and w': "w_db w' = w_db w2"
    have ids: "Requirement_ID requirement = rqm_id r" "Request_ID request = req_id q"
      and q: "q \<in> set (db_requests (w_db w))"
      and r: "r \<in> set (db_requirements (w_db w))" "rqm_approval_request_id r = req_id q" "rqm_status r = ''pending''"
      using can by (auto simp: decidable_def loaded_def requirements_of_def)
    have outside': "\<not> w_tx w1" using outside w1 by (simp add: same_env_def)
    have canonical: "p_uuid (w_platform w1) (req_id q) = Some (req_id q)"
        "p_uuid (w_platform w1) (rqm_id r) = Some (rqm_id r)"
      using approvals_okD(1) [OF ok q] approvals_okD(2) [OF ok r(1)] w1(2)
      unfolding fits_def same_env_def by metis+
    show ?thesis
    proof (rule commitDecision_Inr [OF commit outside'])
      fix di ai ri audits event
      assume at: "p_uuid (w_platform w1) (Request_ID (Prep_Request prep)) = Some ai"
          "p_uuid (w_platform w1) (Requirement_ID (Prep_Requirement prep)) = Some ri"
        and fresh: "\<forall>r \<in> set (db_decisions (w_db w1)). di \<noteq> dec_id r \<and> ri \<noteq> dec_requirement_id r"
        and d': "w_db w2 = decided_db ai ri prep (row_of_decision di ai ri (Prep_Decision prep)) audits event (w_db w1)"
      let ?e = "row_of_decision di ai ri (Prep_Decision prep)"
      let ?totals = "(ApprovalRequestStatus_String (Prep_RequestStatus prep), Prep_Required prep, Prep_Received prep)"
      have eq: "ai = req_id q" "ri = rqm_id r"
        using at canonical by (simp_all add: prep decide_def Let_def ids)
      have e: "dec_approval_request_id ?e = req_id q" "dec_requirement_id ?e = rqm_id r"
        "dec_decision ?e = ApprovalDecisionValue_String v"
        by (simp_all add: eq prep decide_def Let_def)
      have chosen: "Decision_Decision (Prep_Decision prep) = v"
        by (simp add: prep decide_def Let_def)
      have verdict: "ApprovalRequirementStatus_String (Prep_RequirementStatus prep) = ApprovalDecisionValue_String v"
        by (cases v) (simp_all add: prep decide_def Let_def)
      have settled: "(if rqm_id x = rqm_id r then decided_requirement (Prep_RequirementStatus prep) (Prep_Now prep) x else x)
          = settle (rqm_id r) (ApprovalDecisionValue_String v) (Prep_Now prep) x" for x
        by (simp add: settle_def decided_requirement_def verdict)
      have counted: "(if req_id x = req_id q then decided_request (Prep_RequestStatus prep) (Prep_Required prep)
            (Prep_Received prep) (Prep_Now prep) x else x) = count_again (req_id q) ?totals (Prep_Now prep) x" for x
        by (simp add: count_again_def decided_request_def)
      have "ledger_of (w_db w') = (record_decision ?e (Prep_Now prep) (ledger_of (w_db w)))
          \<lparr>led_requests := map (count_again (dec_approval_request_id ?e) ?totals (Prep_Now prep))
             (led_requests (ledger_of (w_db w)))\<rparr>"
        by (simp add: w' d' w1 ledger_of_def settled counted chosen e eq record_decision_def Let_def)
      moreover have "stuck (p_uuid (w_platform w)) aid ids ((record_decision ?e (Prep_Now prep) (ledger_of (w_db w)))
          \<lparr>led_requests := map (count_again (dec_approval_request_id ?e) ?totals (Prep_Now prep))
             (led_requests (ledger_of (w_db w)))\<rparr>)"
      proof (rule stuck_decision [OF stuck, of r])
        show "dec_decision ?e \<in> {''approved'', ''rejected''}"
          unfolding e by (cases v) simp_all
        show "fst ?totals \<in> set request_statuses"
          by (cases "Prep_RequestStatus prep") (simp_all add: request_statuses_def)
        show "\<forall>f \<in> set (led_decisions (ledger_of (w_db w))). dec_id f \<noteq> dec_id ?e \<and> dec_requirement_id f \<noteq> rqm_id r"
          using fresh unfolding w1 eq(2) row_of_simps by fastforce
      qed (use r e in simp_all)
      ultimately show ?thesis by (simp only:)
    qed (use ids in \<open>simp_all add: prep decide_def Let_def\<close>)
  qed
qed (use stuck in simp)

lemma stuck_served:
  assumes "served p d d'" and "uuid_laws p" and "stuck (p_uuid p) aid ids (ledger_of d)"
  shows "stuck (p_uuid p) aid ids (ledger_of d')"
  using assms
proof (induction rule: served.induct)
  case (created svc create w r w')
  have "ledger_ok (p_uuid (w_platform w)) (ledger_of (w_db w))"
    using created by (simp add: stuck_def)
  then show ?case
    using Create_refines [OF created(1,2,4,5)] created stuck_step by fastforce
next
  case (approved svc input w r w')
  then show ?case using stuck_recordDecision [of svc input _ w r w'] unfolding ApproveRequirement_def by blast
next
  case (rejected svc input w r w')
  then show ?case using stuck_recordDecision [of svc input _ w r w'] unfolding RejectRequirement_def by blast
qed simp

lemma stuck_for_ever:
  assumes "(served p)\<^sup>*\<^sup>* d d'" and "uuid_laws p" and "stuck (p_uuid p) aid ids (ledger_of d)"
  shows "stuck (p_uuid p) aid ids (ledger_of d')"
  using assms(1)
proof (induction rule: rtranclp_induct)
  case (step e f)
  then show ?case using stuck_served [OF step(2) assms(2)] by blast
qed (rule assms(3))

lemma decided_db_ledger_ok:
  assumes ok: "ledger_ok U (ledger_of d)" and r: "r \<in> set (db_requirements d)"
    and e: "dec_requirement_id e = rqm_id r" "dec_decision e \<in> {''approved'', ''rejected''}"
      "dec_decision e = ApprovalRequirementStatus_String (Prep_RequirementStatus prep)"
    and fresh: "\<forall>f \<in> set (db_decisions d). dec_id f \<noteq> dec_id e \<and> dec_requirement_id f \<noteq> rqm_id r"
  shows "ledger_ok U (ledger_of (decided_db aid (rqm_id r) prep e audits event d))"
proof -
  let ?L = "record_decision e (Prep_Now prep) (ledger_of d)"
    and ?d = "decided_db aid (rqm_id r) prep e audits event d"
  have good: "ledger_ok U ?L" using record_decision_ok [OF _ _ e(1,2)] ok r fresh by simp
  have same: "db_requirements ?d = led_requirements ?L" "db_decisions ?d = led_decisions ?L"
    by (simp_all add: e settle_def decided_requirement_def [abs_def] flip: e(3))
  have ids: "map req_id (db_requests ?d) = map req_id (led_requests ?L)"
    "map req_breaking_report_id (db_requests ?d) = map req_breaking_report_id (led_requests ?L)"
    by (simp_all add: comp_def decided_request_def)
  have members: "req_id ` set (db_requests ?d) = req_id ` set (led_requests ?L)"
    using arg_cong [OF ids(1), of set] by (simp only: set_map)
  have "ApprovalRequestStatus_String (Prep_RequestStatus prep) \<in> set request_statuses"
    by (cases "Prep_RequestStatus prep") (simp_all add: request_statuses_def)
  then have "\<forall>q \<in> set (db_requests ?d). fits U (req_id q) \<and> req_status q \<in> set request_statuses"
    using ok by (auto simp: ledger_ok_def decided_request_def)
  with good show ?thesis
    unfolding ledger_ok_def ledger_of_simps same ids members by (elim conjE) (intro conjI)
qed

text \<open>
  C6: two concurrent approvals can leave a request unsettled for ever. When both requirements of a
  pending request are approved by two handlers that read before either commits, and both commits
  succeed, then in every later state, whatever requests are handled next, both requirements are
  approved, each with its decision, yet the stored request is pending with one received approval
  out of two.
\<close>

theorem concurrent_approvals_lost:
  assumes "prepareDecision svc1 in1 ApprovalDecisionValueApproved w = (Inr prep1, w1)"
    and "prepareDecision svc2 in2 ApprovalDecisionValueApproved v = (Inr prep2, v1)"
    and "w_db v = w_db w" and "w_platform v = w_platform w"
    and "uuid_laws (w_platform w)" and "ledger_ok (p_uuid (w_platform w)) (ledger_of (w_db w))"
    and "requirements_of (db_requirements (w_db w)) aid = [r1, r2]"
    and "rqm_status r1 = ''pending''" and "rqm_status r2 = ''pending''"
    and "NewID (In_RequirementID in1) = rqm_id r1" and "NewID (In_RequirementID in2) = rqm_id r2"
    and "commitDecision prep1 w2 = (Inr (), w3)" and "w_db w2 = w_db w" and "\<not> w_tx w2"
    and "w_platform w2 = w_platform w"
    and "commitDecision prep2 w4 = (Inr (), w5)" and "w_db w4 = w_db w3" and "\<not> w_tx w4"
    and "w_platform w4 = w_platform w"
    and "(served (w_platform w))\<^sup>*\<^sup>* (w_db w5) d"
  shows "map rqm_status (requirements_of (db_requirements d) aid) = [''approved'', ''approved'']
    \<and> (\<exists>q \<in> set (db_requests d). req_id q = aid)
    \<and> (\<forall>q \<in> set (db_requests d). req_id q = aid \<longrightarrow> counters q = (''pending'', 2, 1))
    \<and> (\<forall>r \<in> {r1, r2}. \<exists>e \<in> set (db_decisions d). dec_requirement_id e = rqm_id r)"
proof -
  note p1 = prepared_pair [OF assms(1) assms(5) assms(6) disjI1 [OF assms(7)] assms(8,9,10)]
  have p2: "Prep_RequestStatus prep2 = ApprovalRequestStatusPending \<and> Prep_Required prep2 = 2
    \<and> Prep_Received prep2 = 1 \<and> Prep_RequirementStatus prep2 = ApprovalRequirementStatusApproved
    \<and> Decision_RequirementID (Prep_Decision prep2) = rqm_id r2
    \<and> Decision_Decision (Prep_Decision prep2) = ApprovalDecisionValueApproved
    \<and> Requirement_ID (Prep_Requirement prep2) = rqm_id r2
    \<and> Decision_ApprovalRequestID (Prep_Decision prep2) = aid \<and> Request_ID (Prep_Request prep2) = aid
    \<and> fits (p_uuid (w_platform w)) aid \<and> fits (p_uuid (w_platform w)) (rqm_id r2)"
    using prepared_pair [OF assms(2), of aid r2 r1] assms(3-11) by simp
  obtain e1 audits1 event1 where dw3: "w_db w3 = decided_db aid (rqm_id r1) prep1 e1 audits1 event1 (w_db w)"
    and e1: "dec_requirement_id e1 = rqm_id r1" "dec_decision e1 = ''approved''"
      "\<forall>f \<in> set (db_decisions (w_db w)). dec_id f \<noteq> dec_id e1 \<and> dec_requirement_id f \<noteq> rqm_id r1"
  proof (rule commitDecision_Inr [OF assms(12,14)])
    fix did a i audits event
    assume at: "p_uuid (w_platform w2) (Request_ID (Prep_Request prep1)) = Some a"
      "p_uuid (w_platform w2) (Requirement_ID (Prep_Requirement prep1)) = Some i"
      and fresh: "\<forall>r \<in> set (db_decisions (w_db w2)). did \<noteq> dec_id r \<and> i \<noteq> dec_requirement_id r"
      and d: "w_db w3 = decided_db a i prep1 (row_of_decision did a i (Prep_Decision prep1)) audits event (w_db w2)"
    have eq: "a = aid" "i = rqm_id r1" using at p1 assms(13,15) by (auto simp: fits_def)
    have "\<forall>f \<in> set (db_decisions (w_db w2)). dec_id f \<noteq> did \<and> dec_requirement_id f \<noteq> rqm_id r1"
      using fresh eq(2) by fastforce
    then show thesis
      by (intro that [OF d [unfolded eq assms(13)]]) (use p1 in \<open>simp_all add: eq assms(13)\<close>)
  qed (use p1 in simp_all)
  obtain e2 audits2 event2 where dw5: "w_db w5 = decided_db aid (rqm_id r2) prep2 e2 audits2 event2 (w_db w3)"
    and e2: "dec_requirement_id e2 = rqm_id r2" "dec_decision e2 = ''approved''"
      "\<forall>f \<in> set (db_decisions (w_db w3)). dec_id f \<noteq> dec_id e2 \<and> dec_requirement_id f \<noteq> rqm_id r2"
  proof (rule commitDecision_Inr [OF assms(16,18)])
    fix did a i audits event
    assume at: "p_uuid (w_platform w4) (Request_ID (Prep_Request prep2)) = Some a"
      "p_uuid (w_platform w4) (Requirement_ID (Prep_Requirement prep2)) = Some i"
      and fresh: "\<forall>r \<in> set (db_decisions (w_db w4)). did \<noteq> dec_id r \<and> i \<noteq> dec_requirement_id r"
      and d: "w_db w5 = decided_db a i prep2 (row_of_decision did a i (Prep_Decision prep2)) audits event (w_db w4)"
    have eq: "a = aid" "i = rqm_id r2" using at p2 assms(17,19) by (auto simp: fits_def)
    have "\<forall>f \<in> set (db_decisions (w_db w4)). dec_id f \<noteq> did \<and> dec_requirement_id f \<noteq> rqm_id r2"
      using fresh eq(2) by fastforce
    then show thesis
      by (intro that [OF d [unfolded eq assms(17)]]) (use p2 in \<open>simp_all add: eq assms(17)\<close>)
  qed (use p2 in simp_all)
  have "{r1, r2} \<subseteq> {x \<in> set (db_requirements (w_db w)). rqm_approval_request_id x = aid}"
    using arg_cong [OF assms(7), of set] by (simp add: requirements_of_def)
  then have rows: "r1 \<in> set (db_requirements (w_db w))" "r2 \<in> set (db_requirements (w_db w))" by auto
  let ?f = "\<lambda>prep i r. if rqm_id r = i then decided_requirement (Prep_RequirementStatus prep) (Prep_Now prep) r else r"
  have statuses: "requirements_of (map (?f prep i) rs) aid = map (?f prep i) (requirements_of rs aid)" for prep i rs
    by (rule requirements_of_map) simp
  have "requirements_of (db_requirements (w_db w5)) aid
      = [?f prep2 (rqm_id r2) (?f prep1 (rqm_id r1) r1), ?f prep2 (rqm_id r2) (?f prep1 (rqm_id r1) r2)]"
    using assms(7) by (simp only: dw5 dw3 decided_db_simps statuses list.map)
  then have "map rqm_status (requirements_of (db_requirements (w_db w5)) aid) = [''approved'', ''approved'']"
    using p1 p2 by simp
  moreover have "\<forall>q \<in> set (db_requests (w_db w5)). req_id q = aid \<longrightarrow> counters q = (''pending'', 2, 1)"
    using p2 by (auto simp: dw5 counters_def)
  moreover have "{rqm_id r1, rqm_id r2} \<subseteq> dec_requirement_id ` set (db_decisions (w_db w5))"
    using e1(1) e2(1) by (auto simp: dw5 dw3)
  moreover have "ledger_ok (p_uuid (w_platform w)) (ledger_of (w_db w5))"
  proof -
    have "ledger_ok (p_uuid (w_platform w)) (ledger_of (w_db w3))"
      unfolding dw3 using p1 e1
      by (intro decided_db_ledger_ok [OF assms(6) rows(1) e1(1) _ _ e1(3)]) simp_all
    moreover have "?f prep1 (rqm_id r1) r2 \<in> set (db_requirements (w_db w3))"
      unfolding dw3 decided_db_simps set_map using rows(2) by (rule imageI)
    moreover have "rqm_id (?f prep1 (rqm_id r1) r2) = rqm_id r2" by simp
    ultimately show ?thesis
      using decided_db_ledger_ok [of _ "w_db w3" "?f prep1 (rqm_id r1) r2" e2 prep2] e2 p2
      unfolding dw5 by simp
  qed
  ultimately have "stuck (p_uuid (w_platform w)) aid {rqm_id r1, rqm_id r2} (ledger_of (w_db w5))"
    by (simp add: stuck_def statuses_of_def)
  note later = stuck_for_ever [OF assms(20,5) this]
  have "aid \<in> req_id ` set (db_requests d)" using stuck_known [OF later] by simp
  then show ?thesis
    using later by (auto simp: stuck_def statuses_of_def)
qed

end
