(* ===== verification/Approval_Witnesses.thy ===== *)
theory Approval_Witnesses
  imports Approval_Race Approval_Opening
begin

text \<open>
  The properties of the approval workflow applied to concrete runs on the registry of
  \<open>Approval_Claims\<close>.
\<close>

lemma map_single: "map f xs = [y] \<Longrightarrow> \<exists>x. xs = [x] \<and> f x = y"
  by (auto simp: map_eq_Cons_conv)

section \<open>Runs\<close>

definition plain_service :: ApprovalService where
  "plain_service = sample_service\<lparr>svc_dependencies := None, svc_runtime := None\<rparr>"

definition opened_run :: "(goerr + ApprovalRequest) \<times> world" where
  "opened_run = CreateApprovalRequestForBreakingReport plain_service sample_create (sample_world sample_registry)"

lemma opened_run_value:
  "(map counters (db_requests (w_db (snd opened_run))), map standing (db_requirements (w_db (snd opened_run))))
    = ([(''pending'', 1, 0)], [(''0-1'', ''pending'')])"
  by code_simp

definition approve_run :: "(goerr + ApprovalRequest) \<times> world" where
  "approve_run = recordDecision sample_service (sample_decision ''e-1'' ''alice'')
     ApprovalDecisionValueApproved (sample_world sample_pending)"

lemma approve_run_value: "map dec_decided_by (db_decisions (w_db (snd approve_run))) = [''alice'']"
  by code_simp

text \<open>The same approval with the connection lost at the final reading.\<close>

definition cut_world :: world where
  "cut_world = (sample_world sample_pending)\<lparr>w_fault := (\<lambda>n. if n = 11 then Some ''connection reset'' else None)\<rparr>"

definition cut_run :: "(goerr + ApprovalRequest) \<times> world" where
  "cut_run = recordDecision sample_service (sample_decision ''e-1'' ''alice'')
     ApprovalDecisionValueApproved cut_world"

lemma cut_run_value:
  "fst cut_run = Inl (Infra ''connection reset'')
   \<and> map dec_decided_by (db_decisions (w_db (snd cut_run))) = [''alice'']"
  by code_simp

lemma sample_pending_approvals: "approvals_ok (p_uuid (w_platform (sample_world sample_pending)))
    (w_db (sample_world sample_pending))"
  using sample_pending_ok by (simp add: approvals_ok_def)

lemma plain_service_contracts:
  "collaborators_read plain_service" "svc_policy plain_service = EvaluatePolicy (\<lambda>s. s)"
  "policy_evaluator (svc_policy plain_service)"
  by (simp_all add: collaborators_read_def plain_service_def sample_service_def
      default_policy.policy_evaluator_axioms)

lemma opened_run_eq: "CreateApprovalRequestForBreakingReport plain_service sample_create
    (sample_world sample_registry) = (fst opened_run, snd opened_run)"
  by (simp add: opened_run_def)

lemma opened_served: "served sample_platform sample_registry (w_db (snd opened_run))"
  using served.created [OF opened_run_eq _ _ plain_service_contracts(1,3)] by simp

lemma registry_reached: "reached sample_platform sample_registry"
proof -
  have "ledger_of sample_registry = ledger_of empty_db"
    by (simp add: ledger_of_def sample_registry_def)
  then show ?thesis by (blast intro: reached.intros served.elsewhere)
qed

lemma opened_reached: "reached sample_platform (w_db (snd opened_run))"
  by (rule reached.run [OF registry_reached opened_served])

lemma approve_run_eq: "recordDecision sample_service (sample_decision ''e-1'' ''alice'')
    ApprovalDecisionValueApproved (sample_world sample_pending) = (fst approve_run, snd approve_run)"
  by (simp add: approve_run_def)

lemma approve_run_writes: "w_db (snd approve_run) \<noteq> w_db (sample_world sample_pending)"
  using approve_run_value by (auto simp: sample_pending_def sample_registry_def empty_db_def)

lemmas approve_facts = approve_run_eq sample_pending_approvals approve_run_writes

section \<open>Witnesses\<close>

theorem requests_tally_witness:
  "\<exists>q \<in> set (db_requests (w_db (snd opened_run))).
     tally (map rqm_status (requirements_of (db_requirements (w_db (snd opened_run))) (req_id q)))
       = (''pending'', 1, 0)"
proof -
  obtain q where "db_requests (w_db (snd opened_run)) = [q]" "counters q = (''pending'', 1, 0)"
    using opened_run_value map_single by blast
  then show ?thesis
    using requests_tally [OF opened_reached sample_uuid_laws] by (force simp: counters_def)
qed

theorem stored_statuses_typed_witness:
  "map (\<lambda>q. NewApprovalRequestStatus (req_status q)) (db_requests (w_db (snd opened_run)))
     = [Inr ApprovalRequestStatusPending]"
proof -
  obtain q where q: "db_requests (w_db (snd opened_run)) = [q]" "counters q = (''pending'', 1, 0)"
    using opened_run_value map_single by blast
  obtain s where "NewApprovalRequestStatus (req_status q) = Inr s"
    using conjunct1 [OF stored_statuses_typed [OF opened_reached sample_uuid_laws]] q(1) by auto
  moreover have "s = ApprovalRequestStatusPending" if "NewApprovalRequestStatus ''pending'' = Inr s" for s
    using that NewApprovalRequestStatus_String [of ApprovalRequestStatusPending] by simp
  ultimately show ?thesis using q by (auto simp: counters_def)
qed

text \<open>The owner approves the requirement of the opened request, on a world that draws other identifiers.\<close>

definition signed_world :: world where
  "signed_world = (sample_world (w_db (snd opened_run)))\<lparr>w_draws := 100\<rparr>"

definition signed_run :: "(goerr + ApprovalRequest) \<times> world" where
  "signed_run = recordDecision plain_service (sample_decision ''0-1'' ''alice'')
     ApprovalDecisionValueApproved signed_world"

lemma signed_run_value: "succeeded signed_run"
  by code_simp

theorem decisions_refine_machine_witness:
  "\<exists>e at. ledger_of (w_db (snd signed_run)) = record_decision e at (ledger_of (w_db (snd opened_run)))
     \<and> dec_decision e = ''approved'' \<and> dec_decided_by e = ''alice''"
proof -
  have world: "w_platform signed_world = sample_platform" "w_db signed_world = w_db (snd opened_run)"
    "\<not> w_tx signed_world" "reached (w_platform signed_world) (w_db signed_world)"
    using opened_reached by (simp_all add: signed_world_def)
  have run: "recordDecision plain_service (sample_decision ''0-1'' ''alice'')
      ApprovalDecisionValueApproved signed_world = (fst signed_run, snd signed_run)"
    by (simp add: signed_run_def)
  have "TrimSpace (In_Actor (sample_decision ''0-1'' ''alice'')) = ''alice''" by code_simp
  with conjunct2 [OF decisions_refine_machine [OF world(4) _ world(3) run]] signed_run_value
  show ?thesis unfolding succeeded_def using sample_uuid_laws by (auto simp: world split: sum.splits)
qed

theorem one_decision_per_requirement_witness:
  "\<exists>r \<in> set (db_requirements (w_db (snd opened_run))). case filter (\<lambda>e. dec_requirement_id e = rqm_id r)
      (db_decisions (w_db (snd opened_run))) of
      [] \<Rightarrow> rqm_status r = ''pending''
    | [e] \<Rightarrow> rqm_status r = dec_decision e \<and> dec_approval_request_id e = rqm_approval_request_id r
        \<and> dec_decision e \<in> {''approved'', ''rejected''}
    | _ \<Rightarrow> False"
proof -
  obtain r where "db_requirements (w_db (snd opened_run)) = [r]"
    using opened_run_value map_single by blast
  then have r: "r \<in> set (db_requirements (w_db (snd opened_run)))" by simp
  show ?thesis
    by (rule bexI [OF _ r]) (rule conjunct1 [OF one_decision_per_requirement [OF opened_reached sample_uuid_laws r]])
qed

theorem final_requests_stay_witness:
  "filter (\<lambda>q. req_status q \<noteq> ''pending'' \<and> q \<in> set (db_requests sample_registry))
     (db_requests (w_db (snd opened_run))) = []"
proof -
  have "db_requests sample_registry = []" by (simp add: sample_registry_def empty_db_def)
  then show ?thesis
    using final_requests_stay [OF opened_served sample_uuid_laws reached_inv [OF registry_reached sample_uuid_laws]]
    by simp
qed

theorem decision_authorised_witness:
  "\<exists>r \<in> set (db_requirements sample_pending). \<exists>own \<in> set (db_owners sample_pending).
     rqm_id r = ''e-1'' \<and> own_subject own = ''alice''"
proof -
  have "NewID (In_RequirementID (sample_decision ''e-1'' ''alice'')) = ''e-1''"
    "TrimSpace (In_Actor (sample_decision ''e-1'' ''alice'')) = ''alice''"
    by code_simp+
  then show ?thesis
    using decision_authorised [OF approve_facts(1) _ _ approve_facts(2,3)] sample_uuid_laws by auto
qed

theorem decision_effects_witness:
  "\<exists>row audits. db_decisions (w_db (snd approve_run)) = [row]
     \<and> dec_decision row = ''approved'' \<and> db_audits (w_db (snd approve_run)) = audits
     \<and> hd (map aud_event_type audits) = ''approval_decision_recorded''
     \<and> map rqm_id (db_requirements (w_db (snd approve_run))) = [''e-1'', ''e-2'']
     \<and> db_owners (w_db (snd approve_run)) = db_owners sample_registry"
proof -
  have start: "db_decisions sample_pending = []" "db_audits sample_pending = []"
    "map rqm_id (db_requirements sample_pending) = [''e-1'', ''e-2'']"
    "db_owners sample_pending = db_owners sample_registry"
    by (simp_all add: sample_pending_def sample_registry_def empty_db_def)
  have env: "\<not> w_tx (sample_world sample_pending)" "uuid_laws (w_platform (sample_world sample_pending))"
    by (simp_all add: sample_uuid_laws)
  obtain row audits rows requests event n and r :: requirement_row and now :: time where
    after: "w_db (snd approve_run) = (w_db (sample_world sample_pending))
      \<lparr>db_requests := requests, db_requirements := rows,
       db_decisions := db_decisions (w_db (sample_world sample_pending)) @ [row],
       db_audits := db_audits (w_db (sample_world sample_pending)) @ audits,
       db_outbox := db_outbox (w_db (sample_world sample_pending)) @ [event], db_generated := n\<rparr>"
    and rows: "rows = map (\<lambda>x. if rqm_id x = rqm_id r
         then x\<lparr>rqm_status := ApprovalDecisionValue_String ApprovalDecisionValueApproved, rqm_updated_at := now\<rparr>
         else x) (db_requirements (w_db (sample_world sample_pending)))"
    and verdict: "dec_decision row = ApprovalDecisionValue_String ApprovalDecisionValueApproved"
    and audited: "\<exists>tail. map aud_event_type audits = ''approval_decision_recorded'' # tail"
    using decision_effects [OF approve_facts(1) env approve_facts(2,3)]
    by (elim exE conjE) (rule that, assumption, assumption, assumption, rule exI, assumption)
  have "map rqm_id rows = map rqm_id (db_requirements sample_pending)"
    unfolding rows by simp
  then show ?thesis using start after verdict audited by auto
qed

theorem decision_error_witness:
  "\<exists>(prep :: PreparedDecision) w2. ApprovalRepo_GetRequestByID (Request_ID (Prep_Request prep)) w2
     = (Inl (Infra ''connection reset''), snd cut_run)"
proof -
  have run: "recordDecision sample_service (sample_decision ''e-1'' ''alice'')
      ApprovalDecisionValueApproved cut_world = (Inl (Infra ''connection reset''), snd cut_run)"
    using cut_run_value by (metis cut_run_def prod.collapse)
  have cut: "w_platform cut_world = sample_platform" "w_db cut_world = sample_pending" "\<not> w_tx cut_world"
    by (simp_all add: cut_world_def)
  have "w_db (snd cut_run) \<noteq> w_db cut_world"
    using cut_run_value by (auto simp: cut sample_pending_def sample_registry_def empty_db_def)
  moreover have "approvals_ok (p_uuid sample_platform) sample_pending"
    using sample_pending_approvals by simp
  ultimately show ?thesis
    using decision_error [OF run cut(3)] sample_uuid_laws unfolding cut by blast
qed

theorem noncanonical_requirement_refused_witness:
  "\<exists>e. fst (recordDecision sample_service (sample_decision ''e1'' ''alice'')
     ApprovalDecisionValueApproved (sample_world sample_pending)) = Inl e"
proof -
  have "p_uuid (w_platform (sample_world sample_pending)) (NewID (In_RequirementID (sample_decision ''e1'' ''alice'')))
      = Some ''e-1''" "''e-1'' \<noteq> NewID (In_RequirementID (sample_decision ''e1'' ''alice''))"
    by code_simp+
  then show ?thesis
    using noncanonical_requirement_refused [OF prod.collapse [symmetric] _ _ sample_pending_approvals]
      sample_uuid_laws by simp
qed

definition sample_closed :: db where
  "sample_closed = db_requests_update (map (\<lambda>q. q\<lparr>req_status := ''rejected''\<rparr>)) sample_pending"

theorem decided_requirement_refused_witness:
  "\<exists>e. fst (recordDecision sample_service (sample_decision ''e-1'' ''alice'')
     ApprovalDecisionValueApproved (sample_world sample_closed)) = Inl e"
proof -
  have ok: "ledger_ok (p_uuid sample_platform) (ledger_of sample_closed)"
    by (simp add: sample_closed_def ledger_ok_def ledger_of_def sample_pending_def sample_registry_def empty_db_def fits_def
      sample_uuid_def hex_digits_def request_statuses_def requirement_statuses_def)
  have id: "NewID (In_RequirementID (sample_decision ''e-1'' ''alice'')) = ''e-1''" by code_simp
  have "''e-1'' \<in> rqm_id ` set (db_requirements sample_closed)"
    by (simp add: sample_closed_def sample_pending_def)
  then obtain r where r: "r \<in> set (db_requirements sample_closed)" "rqm_id r = ''e-1''" by auto
  have "\<forall>q \<in> set (db_requests sample_closed). req_status q \<noteq> ''pending''"
    by (simp add: sample_closed_def)
  then show ?thesis
    using decided_requirement_refused [OF prod.collapse [symmetric], of "sample_world sample_closed"] r ok id
      sample_uuid_laws by simp
qed

theorem create_idempotent_witness:
  "w_db (snd (CreateApprovalRequestForBreakingReport plain_service sample_create (sample_world sample_pending)))
     = sample_pending"
proof -
  have id: "NewID (Create_BreakingReportID sample_create) = ''c-1''" by code_simp
  obtain q where "q \<in> set (db_requests sample_pending)" "req_breaking_report_id q = Some ''c-1''"
    by (auto simp: sample_pending_def)
  then show ?thesis
    using create_idempotent [OF prod.collapse [symmetric] _ plain_service_contracts(1), of "sample_world sample_pending"]
      sample_uuid_laws sample_pending_ok by (simp add: id sample_uuid_def hex_digits_def)
qed

theorem create_opens_witness:
  "\<exists>audit event. db_audits (w_db (snd opened_run)) = [audit] \<and> db_outbox (w_db (snd opened_run)) = [event]
     \<and> aud_event_type audit = ''approval_request_created''"
proof -
  have "w_db (snd opened_run) \<noteq> sample_registry"
    using opened_run_value by (auto simp: sample_registry_def empty_db_def)
  moreover have "db_audits sample_registry = []" "db_outbox sample_registry = []"
    by (simp_all add: sample_registry_def empty_db_def)
  ultimately show ?thesis
    using create_opens [OF opened_run_eq _ plain_service_contracts(1) _ plain_service_contracts(2)]
      sample_uuid_laws by auto
qed

section \<open>The race\<close>

text \<open>
  Alice and Bob approve at the same time: both handlers prepare on the same tables, then Alice's
  commits, then Bob's. Bob's handler draws its identifiers from another part of the random source.
\<close>

definition alice_prepared :: "(goerr + PreparedDecision) \<times> world" where
  "alice_prepared = prepareDecision sample_service (sample_decision ''e-1'' ''alice'')
     ApprovalDecisionValueApproved (sample_world sample_pending)"

definition bob_world :: world where
  "bob_world = (sample_world sample_pending)\<lparr>w_draws := 9\<rparr>"

definition bob_prepared :: "(goerr + PreparedDecision) \<times> world" where
  "bob_prepared = prepareDecision sample_service (sample_decision ''e-2'' ''bob'')
     ApprovalDecisionValueApproved bob_world"

definition commit_prepared :: "(goerr + PreparedDecision) \<times> world \<Rightarrow> db \<Rightarrow> (goerr + unit) \<times> world" where
  "commit_prepared x d =
     (case x of (Inr prep, w) \<Rightarrow> commitDecision prep (w\<lparr>w_db := d\<rparr>) | (Inl e, w) \<Rightarrow> (Inl e, w))"

definition alice_committed :: "(goerr + unit) \<times> world" where
  "alice_committed = commit_prepared alice_prepared sample_pending"

definition bob_committed :: "(goerr + unit) \<times> world" where
  "bob_committed = commit_prepared bob_prepared (w_db (snd alice_committed))"

lemma race_value: "fst bob_committed = Inr () \<and> fst alice_committed = Inr ()"
  by code_simp

lemma commit_prepared_Inr:
  assumes "fst (commit_prepared x d) = Inr ()"
  obtains prep where "x = (Inr prep, snd x)"
    and "commitDecision prep ((snd x)\<lparr>w_db := d\<rparr>) = (Inr (), snd (commit_prepared x d))"
  using assms by (cases x; cases "fst x") (auto simp: commit_prepared_def prod_eq_iff)

text \<open>Alice tries once more, on what the two have left.\<close>

definition retry_world :: world where
  "retry_world = sample_world (w_db (snd bob_committed))"

definition retried :: "(goerr + ApprovalRequest) \<times> world" where
  "retried = ApproveRequirement sample_service (sample_decision ''e-1'' ''alice'') retry_world"

lemma retried_served: "(served sample_platform)\<^sup>*\<^sup>* (w_db (snd bob_committed)) (w_db (snd retried))"
proof -
  have "ApproveRequirement sample_service (sample_decision ''e-1'' ''alice'') retry_world = (fst retried, snd retried)"
    by (simp add: retried_def)
  then have "served sample_platform (w_db retry_world) (w_db (snd retried))"
    by (rule served.approved) (simp_all add: retry_world_def)
  then show ?thesis by (simp add: retry_world_def)
qed

theorem concurrent_approvals_lost_witness:
  "map rqm_status (requirements_of (db_requirements (w_db (snd retried))) ''e-0'')
      = [''approved'', ''approved'']
   \<and> (\<exists>q \<in> set (db_requests (w_db (snd retried))). req_id q = ''e-0'' \<and> counters q = (''pending'', 2, 1))"
proof -
  obtain prep1 where a: "alice_prepared = (Inr prep1, snd alice_prepared)"
    "commitDecision prep1 ((snd alice_prepared)\<lparr>w_db := sample_pending\<rparr>) = (Inr (), snd alice_committed)"
    using race_value unfolding alice_committed_def by (blast elim: commit_prepared_Inr)
  obtain prep2 where b: "bob_prepared = (Inr prep2, snd bob_prepared)"
    "commitDecision prep2 ((snd bob_prepared)\<lparr>w_db := w_db (snd alice_committed)\<rparr>) = (Inr (), snd bob_committed)"
    using race_value unfolding bob_committed_def by (blast elim: commit_prepared_Inr)
  have env: "same_env (sample_world sample_pending) (snd alice_prepared)" "same_env bob_world (snd bob_prepared)"
    using stepsD [OF prepareDecision_env a(1) [unfolded alice_prepared_def]]
      stepsD [OF prepareDecision_env b(1) [unfolded bob_prepared_def]]
    by (simp_all add: alice_prepared_def bob_prepared_def)
  have two: "requirements_of (db_requirements sample_pending) ''e-0'' = db_requirements sample_pending"
    by (simp add: requirements_of_def sample_pending_def)
  obtain r1 r2 where rows: "db_requirements sample_pending = [r1, r2]" "rqm_id r1 = ''e-1''" "rqm_id r2 = ''e-2''"
    "rqm_status r1 = ''pending''" "rqm_status r2 = ''pending''"
    by (simp add: sample_pending_def)
  have ids: "NewID (In_RequirementID (sample_decision ''e-1'' ''alice'')) = ''e-1''"
    "NewID (In_RequirementID (sample_decision ''e-2'' ''bob'')) = ''e-2''"
    by code_simp+
  have bob: "w_db bob_world = sample_pending" "w_platform bob_world = sample_platform" "\<not> w_tx bob_world"
    by (simp_all add: bob_world_def)
  note lost = concurrent_approvals_lost [OF a(1) [unfolded alice_prepared_def] b(1) [unfolded bob_prepared_def],
      of "''e-0''" r1 r2 "(snd alice_prepared)\<lparr>w_db := sample_pending\<rparr>" "snd alice_committed"
        "(snd bob_prepared)\<lparr>w_db := w_db (snd alice_committed)\<rparr>" "snd bob_committed"
        "w_db (snd retried)"]
  have "map rqm_status (requirements_of (db_requirements (w_db (snd retried))) ''e-0'')
      = [''approved'', ''approved'']
    \<and> (\<exists>q \<in> set (db_requests (w_db (snd retried))). req_id q = ''e-0'')
    \<and> (\<forall>q \<in> set (db_requests (w_db (snd retried))). req_id q = ''e-0'' \<longrightarrow> counters q = (''pending'', 2, 1))
    \<and> (\<forall>r \<in> {r1, r2}. \<exists>e \<in> set (db_decisions (w_db (snd retried))). dec_requirement_id e = rqm_id r)"
    by (rule lost) (use rows ids bob env a(2) b(2) sample_uuid_laws sample_pending_ok two retried_served in
        \<open>simp_all add: same_env_def\<close>)
  then show ?thesis by blast
qed

end
