(* ===== verification/Http_Api.thy ===== *)
theory Http_Api
  imports Access
begin

text \<open>
  The governance endpoints, \<^verbatim>\<open>internal/transport/http/governance.go\<close> with their middlewares in
  \<^verbatim>\<open>server.go\<close>: a bearer token is authenticated, the action is authorized, the acting subject is
  resolved from the principal, the use case runs, and its result or error becomes a response. The
  router, \<^verbatim>\<open>net/http\<close>'s body reader and the JSON decoder are outside: a request has the values they
  produce.
\<close>

section \<open>Requests and responses\<close>

datatype 'b body = BodyTooLarge | BodyInvalid | NoBody | Body 'b

record 'b http_request =
  Http_Authorization :: string
  Http_PathValue :: "string \<Rightarrow> string"
  Http_Query :: "string \<Rightarrow> string"
  Http_Body :: "'b body"

datatype response = Reply int json | EmptyReply int

definition status_of :: "response \<Rightarrow> int" where
  "status_of response = (case response of Reply status content \<Rightarrow> status | EmptyReply status \<Rightarrow> status)"

definition writeError :: "int \<Rightarrow> string \<Rightarrow> string \<Rightarrow> response" where
  "writeError status code message =
     Reply status (JObject [(''error'', JObject [(''code'', JString code), (''message'', JString message)])])"

definition writeInternalError :: response where
  "writeInternalError = writeError 500 ''internal_error'' ''Internal server error.''"

definition writePayloadTooLarge :: response where
  "writePayloadTooLarge = writeError 413 ''payload_too_large'' ''Request body is too large.''"

definition unauthorized :: response where
  "unauthorized = writeError 401 ''unauthorized'' ''Authentication is required.''"

definition is_any :: "goerr \<Rightarrow> goerr list \<Rightarrow> bool" where
  "is_any err targets \<longleftrightarrow> list_ex (errors_Is err) targets"

definition validation_errors :: "goerr list" where
  "validation_errors =
     map Registry [RegErrInvalidModuleName, RegErrInvalidVersion, RegErrInvalidActor,
       RegErrInvalidAgainst, RegErrInvalidTargetRef, RegErrArtifactRequired,
       RegErrInvalidGitLabBaseURL, RegErrInvalidGitLabProjectID, RegErrInvalidGitLabProjectPath]
     @ [Runtime RtErrRuntimeModulesRequired]
     @ map Domain [ErrInvalidRuntimeServiceName, ErrInvalidRuntimeEnvironment,
       ErrInvalidRuntimeGitCommit, ErrInvalidRuntimeBuildVersion, ErrInvalidModuleName,
       ErrInvalidVersion, ErrInvalidGovernanceSubjectType, ErrInvalidModuleOwnerRole,
       ErrInvalidApprovalRequestStatus, ErrInvalidApprovalRequirementType,
       ErrInvalidApprovalRequirementStatus, ErrInvalidApprovalDecision,
       ErrInvalidGovernanceAuditEventType]
     @ map Governance [GovErrInvalidModuleName, GovErrInvalidSubjectType, GovErrInvalidSubject,
       GovErrInvalidModuleOwnerRole, GovErrInvalidModuleOwnerID, GovErrInvalidBreakingReportID,
       GovErrInvalidRequirementID, GovErrInvalidApprovalActor, GovErrApprovalDecisionCommentTooLong]"

definition not_found_errors :: "goerr list" where
  "not_found_errors =
     map Registry [RegErrModuleNotFound, RegErrBaselineVersionNotFound, RegErrBreakingReportNotFound,
       RegErrModuleGitLabProjectNotFound]
     @ [Domain ErrNotFound]
     @ map Governance [GovErrModuleNotFound, GovErrModuleOwnerNotFound, GovErrBreakingReportNotFound,
       GovErrApprovalRequestNotFound, GovErrApprovalRequirementNotFound]"

definition conflict_errors :: "goerr list" where
  "conflict_errors =
     map Registry [RegErrModuleAlreadyExists, RegErrModuleVersionAlreadyExists,
       RegErrGitLabProjectAlreadyLinked]
     @ map Governance [GovErrModuleOwnerAlreadyExists, GovErrApprovalRequestConflict,
       GovErrApprovalRequirementConflict]"

definition forbidden_errors :: "goerr list" where
  "forbidden_errors = map Governance [GovErrApprovalActorForbidden, GovErrGovernanceActorOverrideForbidden]"

definition writeUsecaseError :: "goerr \<Rightarrow> response" where
  "writeUsecaseError err =
     (if is_any err validation_errors
      then writeError 400 ''validation_error'' ''Request validation failed.''
      else if errors_Is err (Registry RegErrInvalidOrExpiredToken) then unauthorized
      else if is_any err not_found_errors
      then writeError 404 ''not_found'' ''Requested resource was not found.''
      else if is_any err conflict_errors
      then writeError 409 ''conflict'' ''Requested operation conflicts with existing state.''
      else if is_any err forbidden_errors
      then writeError 403 ''forbidden'' ''Governance actor is not allowed.''
      else if errors_Is err (Registry RegErrBaselineBufImageMissing)
      then writeError 409 ''conflict'' ''Baseline Buf image is missing.''
      else if errors_Is err (Registry RegErrArtifactTooLarge)
      then writeError 413 ''payload_too_large'' ''Artifact is too large.''
      else if errors_Is err (Registry RegErrUnsafeArchive)
      then writeError 400 ''validation_error'' ''Archive is unsafe.''
      else if errors_Is err (Registry RegErrBufConfigNotFound)
      then writeError 422 ''unprocessable_entity'' ''Buf config was not found.''
      else if errors_Is err (Registry RegErrBufBuildFailed)
      then writeError 422 ''unprocessable_entity'' ''Buf build failed.''
      else if errors_Is err (Registry RegErrBufLintFailed)
      then writeError 422 ''unprocessable_entity'' ''Buf lint failed.''
      else if errors_Is err (Registry RegErrDescriptorExtractionFailed)
      then writeError 422 ''unprocessable_entity'' ''Descriptor extraction failed.''
      else if errors_Is err (Registry RegErrBufBreakingFailed)
      then writeError 500 ''internal_error'' ''Buf breaking failed.''
      else writeInternalError)"

text \<open>\<open>respond\<close>: \<^verbatim>\<open>if err != nil { writeUsecaseError(w, err); return }\<close>, then the success response.\<close>

definition respond :: "'a io \<Rightarrow> ('a \<Rightarrow> response) \<Rightarrow> response io" where
  "respond m reply =
     bindE (attempt m) (\<lambda>result.
       ret (case result of Inl err \<Rightarrow> writeUsecaseError err | Inr x \<Rightarrow> reply x))"

section \<open>Middlewares\<close>

record server =
  srv_auth :: "(AuthRequest \<Rightarrow> Principal io) option"
  srv_authorizer :: "Principal \<Rightarrow> Action \<Rightarrow> Resource \<Rightarrow> goerr + unit"
  srv_governance :: "ApprovalService option"
  srv_actorOverride :: bool

definition writeAuthorizationError :: "goerr \<Rightarrow> response" where
  "writeAuthorizationError err =
     (if errors_Is err (Access AuthzErrUnauthenticated) then unauthorized
      else writeError 403 ''forbidden'' ''Principal is not allowed to perform this action.'')"

text \<open>The context of a request holds at most a principal.\<close>

type_synonym 'b handler = "Principal option \<Rightarrow> 'b http_request \<Rightarrow> response io"

definition PrincipalFromContext :: "Principal option \<Rightarrow> Principal option" where
  "PrincipalFromContext ctx =
     (case ctx of None \<Rightarrow> None | Some prin \<Rightarrow> if Principal_IsZero prin then None else Some prin)"

definition requireBearer :: "server \<Rightarrow> 'b handler \<Rightarrow> 'b handler" where
  "requireBearer server next_handler ctx r =
     (case srv_auth server of
        None \<Rightarrow> ret unauthorized
      | Some auth \<Rightarrow>
          bindE (attempt (auth \<lparr>Auth_AuthorizationHeader = Http_Authorization r, Auth_BearerToken = ''''\<rparr>))
            (\<lambda>result.
               case result of
                 Inl err \<Rightarrow> ret unauthorized
               | Inr prin \<Rightarrow> next_handler (Some prin) r))"

definition requireAuthorization ::
  "server \<Rightarrow> Action \<Rightarrow> ('b http_request \<Rightarrow> Resource) \<Rightarrow> 'b handler \<Rightarrow> 'b handler" where
  "requireAuthorization server action resource next_handler ctx r =
     (case PrincipalFromContext ctx of
        None \<Rightarrow> ret unauthorized
      | Some prin \<Rightarrow>
          (case srv_authorizer server prin action (resource r) of
             Inl err \<Rightarrow> ret (writeAuthorizationError err)
           | Inr _ \<Rightarrow> next_handler ctx r))"

definition protected ::
  "server \<Rightarrow> Action \<Rightarrow> ('b http_request \<Rightarrow> Resource) \<Rightarrow> 'b handler \<Rightarrow> 'b handler" where
  "protected server action resource next_handler =
     requireBearer server (requireAuthorization server action resource next_handler)"

definition pathResource :: "string \<Rightarrow> string \<Rightarrow> 'b http_request \<Rightarrow> Resource" where
  "pathResource resourceType pathValue r =
     \<lparr>Authz_Type = resourceType, Authz_ID = '''', Authz_Name = Http_PathValue r pathValue,
      Authz_Attributes = []\<rparr>"

definition pathIDResource :: "string \<Rightarrow> string \<Rightarrow> 'b http_request \<Rightarrow> Resource" where
  "pathIDResource resourceType pathValue r =
     \<lparr>Authz_Type = resourceType, Authz_ID = Http_PathValue r pathValue, Authz_Name = '''',
      Authz_Attributes = []\<rparr>"

text \<open>
  \<^verbatim>\<open>fmt.Sscanf(value, "%d", &parsed)\<close>: leading white space other than a line break, a sign, and as
  many digits as there are; what follows is ignored, a value outside of the 64-bit range is an error.
\<close>

definition is_digit :: "char \<Rightarrow> bool" where
  "is_digit c \<longleftrightarrow> CHR ''0'' \<le> c \<and> c \<le> CHR ''9''"

definition decimal :: "string \<Rightarrow> int" where
  "decimal digits = foldl (\<lambda>n c. 10 * n + (int (of_char c) - 48)) 0 digits"

definition Sscanf_d :: "string \<Rightarrow> int option" where
  "Sscanf_d s =
     (let t = trim_left s; skipped = take (length s - length t) s;
          signed = (t \<noteq> '''' \<and> hd t \<in> {CHR ''+'', CHR ''-''});
          digits = takeWhile is_digit (if signed then tl t else t);
          n = (if signed \<and> hd t = CHR ''-'' then - decimal digits else decimal digits)
      in if CHR 0x0A \<in> set skipped \<or> digits = '''' \<or> n < - (2 ^ 63) \<or> n \<ge> 2 ^ 63 then None
         else Some n)"

definition parsePositiveInt :: "string \<Rightarrow> int \<Rightarrow> int" where
  "parsePositiveInt s fallback =
     (if s = '''' then fallback
      else case Sscanf_d s of None \<Rightarrow> fallback | Some n \<Rightarrow> if n \<le> 0 then fallback else n)"

section \<open>Governance responses\<close>

definition moduleOwnerResponse :: "ModuleOwner \<Rightarrow> json" where
  "moduleOwnerResponse owner =
     JObject [(''id'', JString (Owner_ID owner)), (''module_id'', JString (Owner_ModuleID owner)),
       (''module_name'', JString (Owner_ModuleName owner)),
       (''subject_type'', JString (GovernanceSubjectType_String (Owner_SubjectType owner))),
       (''subject'', JString (Owner_Subject owner)),
       (''role'', JString (ModuleOwnerRole_String (Owner_Role owner))),
       (''created_at'', JTime (Owner_CreatedAt owner)), (''updated_at'', JTime (Owner_UpdatedAt owner))]"

definition moduleOwnersResponse :: "string \<Rightarrow> ModuleOwner list \<Rightarrow> json" where
  "moduleOwnersResponse module owners =
     JObject [(''module'', JString module), (''owners'', JArray (map moduleOwnerResponse owners))]"

definition string_or_empty :: "string option \<Rightarrow> string" where
  "string_or_empty x = (case x of None \<Rightarrow> '''' | Some s \<Rightarrow> s)"

definition approvalRequirementResponse :: "ApprovalRequirement \<Rightarrow> json" where
  "approvalRequirementResponse requirement =
     JObject
       ([(''id'', JString (Requirement_ID requirement)),
         (''approval_request_id'', JString (Requirement_ApprovalRequestID requirement)),
         (''requirement_type'',
            JString (ApprovalRequirementType_String (Requirement_RequirementType requirement)))]
        @ omitempty ''target_module_id'' (string_or_empty (Requirement_TargetModuleID requirement))
        @ [(''target_module_name'', JString (Requirement_TargetModuleName requirement)),
           (''required_role'',
              JString (string_or_empty (map_option ModuleOwnerRole_String (Requirement_RequiredRole requirement)))),
           (''status'', JString (ApprovalRequirementStatus_String (Requirement_Status requirement))),
           (''reason'', JString (Requirement_Reason requirement)),
           (''created_at'', JTime (Requirement_CreatedAt requirement)),
           (''updated_at'', JTime (Requirement_UpdatedAt requirement))])"

definition approvalDecisionResponse :: "ApprovalDecision \<Rightarrow> json" where
  "approvalDecisionResponse decision =
     JObject
       ([(''id'', JString (Decision_ID decision)),
         (''approval_request_id'', JString (Decision_ApprovalRequestID decision)),
         (''requirement_id'', JString (Decision_RequirementID decision)),
         (''decision'', JString (ApprovalDecisionValue_String (Decision_Decision decision))),
         (''decided_by'', JString (Decision_DecidedBy decision))]
        @ omitempty ''comment'' (Decision_Comment decision)
        @ [(''created_at'', JTime (Decision_CreatedAt decision))])"

definition approvalRequestResponse :: "ApprovalRequest \<Rightarrow> json" where
  "approvalRequestResponse request =
     JObject
       ([(''id'', JString (Request_ID request)), (''module_id'', JString (Request_ModuleID request)),
         (''module_name'', JString (Request_ModuleName request))]
        @ omitempty ''breaking_report_id'' (string_or_empty (Request_BreakingReportID request))
        @ [(''target_ref'', JString (Request_TargetRef request)),
           (''status'', JString (ApprovalRequestStatus_String (Request_Status request))),
           (''required_approvals'', JInt (Request_RequiredApprovals request)),
           (''received_approvals'', JInt (Request_ReceivedApprovals request)),
           (''requirements'', JArray (map approvalRequirementResponse (Request_Requirements request))),
           (''decisions'', JArray (map approvalDecisionResponse (Request_Decisions request))),
           (''created_at'', JTime (Request_CreatedAt request)),
           (''updated_at'', JTime (Request_UpdatedAt request))])"

text \<open>A stored payload is a JSON value, so it is never the empty text.\<close>

definition approvalAuditEventResponse :: "GovernanceAuditEvent \<Rightarrow> json" where
  "approvalAuditEventResponse event =
     JObject
       ([(''id'', JString (Audit_ID event)),
         (''event_type'', JString (GovernanceAuditEventType_String (Audit_EventType event)))]
        @ omitempty ''actor'' (Audit_Actor event)
        @ omitempty ''module_id'' (string_or_empty (Audit_ModuleID event))
        @ omitempty ''module_name'' (Audit_ModuleName event)
        @ omitempty ''approval_request_id'' (string_or_empty (Audit_ApprovalRequestID event))
        @ omitempty ''breaking_report_id'' (string_or_empty (Audit_BreakingReportID event))
        @ [(''payload'', Audit_PayloadJSON event), (''created_at'', JTime (Audit_CreatedAt event))])"

definition approvalAuditResponseForRequest :: "string \<Rightarrow> GovernanceAuditEvent list \<Rightarrow> json" where
  "approvalAuditResponseForRequest requestID events =
     JObject [(''approval_request_id'', JString requestID),
       (''events'', JArray (map approvalAuditEventResponse events))]"

section \<open>Governance handlers\<close>

record addModuleOwnerRequest =
  AddReq_SubjectType :: string
  AddReq_Subject :: string
  AddReq_Role :: string
  AddReq_Actor :: string

record createApprovalRequestRequest =
  CreateReq_Actor :: string
  CreateReq_TargetRef :: string

record approvalDecisionRequest =
  DecisionReq_Actor :: string
  DecisionReq_Comment :: string

definition resolveGovernanceActor :: "server \<Rightarrow> Principal option \<Rightarrow> string \<Rightarrow> goerr + string" where
  "resolveGovernanceActor server ctx requestedActor =
     (case PrincipalFromContext ctx of
        None \<Rightarrow> Inl (Governance GovErrInvalidApprovalActor)
      | Some prin \<Rightarrow>
          bindR (ResolveGovernanceActor prin requestedActor (srv_actorOverride server)) (\<lambda>actor.
            Inr (Actor_Subject actor)))"

text \<open>
  \<open>with_body\<close> is the decoding of a required body; \<open>optional_body\<close> reads a missing one as the zero
  value. \<open>with_governance\<close> is the check for the use case.
\<close>

definition with_body :: "'b http_request \<Rightarrow> ('b \<Rightarrow> response io) \<Rightarrow> response io" where
  "with_body r f =
     (case Http_Body r of
        Body req \<Rightarrow> f req
      | BodyTooLarge \<Rightarrow> ret writePayloadTooLarge
      | _ \<Rightarrow> ret (writeError 400 ''bad_request'' ''Request body is invalid.''))"

definition optional_body :: "'b \<Rightarrow> 'b http_request \<Rightarrow> ('b \<Rightarrow> response io) \<Rightarrow> response io" where
  "optional_body zero r f = (case Http_Body r of NoBody \<Rightarrow> f zero | _ \<Rightarrow> with_body r f)"

definition with_governance :: "server \<Rightarrow> (ApprovalService \<Rightarrow> response io) \<Rightarrow> response io" where
  "with_governance server f =
     (case srv_governance server of None \<Rightarrow> ret writeInternalError | Some svc \<Rightarrow> f svc)"

definition with_actor :: "goerr + string \<Rightarrow> (string \<Rightarrow> response io) \<Rightarrow> response io" where
  "with_actor resolved f =
     (case resolved of Inl err \<Rightarrow> ret (writeUsecaseError err) | Inr actor \<Rightarrow> f actor)"

definition listModuleOwners :: "server \<Rightarrow> 'b handler" where
  "listModuleOwners server ctx r =
     with_governance server (\<lambda>svc.
       let moduleName = Http_PathValue r ''module'' in
       respond (ListModuleOwners moduleName)
         (\<lambda>owners. Reply 200 (moduleOwnersResponse moduleName owners)))"

definition addModuleOwner :: "server \<Rightarrow> addModuleOwnerRequest handler" where
  "addModuleOwner server ctx r =
     with_governance server (\<lambda>svc.
     with_body r (\<lambda>req.
     with_actor (resolveGovernanceActor server ctx (AddReq_Actor req)) (\<lambda>actor.
       respond
         (AddModuleOwner \<lparr>AddOwner_ModuleName = Http_PathValue r ''module'',
            AddOwner_SubjectType = AddReq_SubjectType req, AddOwner_Subject = AddReq_Subject req,
            AddOwner_Role = AddReq_Role req, AddOwner_Actor = actor\<rparr>)
         (\<lambda>owner. Reply 201 (moduleOwnerResponse owner)))))"

definition removeModuleOwner :: "server \<Rightarrow> 'b handler" where
  "removeModuleOwner server ctx r =
     with_governance server (\<lambda>svc.
     with_actor (resolveGovernanceActor server ctx (Http_Query r ''actor'')) (\<lambda>actor.
       respond
         (RemoveModuleOwner \<lparr>RemoveOwner_ModuleName = Http_PathValue r ''module'',
            RemoveOwner_OwnerID = Http_PathValue r ''owner_id'', RemoveOwner_Actor = actor\<rparr>)
         (\<lambda>_. EmptyReply 204)))"

definition createApprovalRequest :: "server \<Rightarrow> createApprovalRequestRequest handler" where
  "createApprovalRequest server ctx r =
     with_governance server (\<lambda>svc.
     optional_body \<lparr>CreateReq_Actor = '''', CreateReq_TargetRef = ''''\<rparr> r (\<lambda>req.
     with_actor (resolveGovernanceActor server ctx (CreateReq_Actor req)) (\<lambda>actor.
       respond
         (CreateApprovalRequestForBreakingReport svc
            \<lparr>Create_BreakingReportID = Http_PathValue r ''report_id'', Create_Actor = actor,
             Create_TargetRef = CreateReq_TargetRef req\<rparr>)
         (\<lambda>request. Reply 201 (approvalRequestResponse request)))))"

definition getApprovalStatus :: "server \<Rightarrow> 'b handler" where
  "getApprovalStatus server ctx r =
     with_governance server (\<lambda>svc.
       respond (GetApprovalStatusForBreakingReport (Http_PathValue r ''report_id''))
         (\<lambda>request. Reply 200 (approvalRequestResponse request)))"

definition recordApprovalDecision :: "server \<Rightarrow> bool \<Rightarrow> approvalDecisionRequest handler" where
  "recordApprovalDecision server approve ctx r =
     with_governance server (\<lambda>svc.
     with_body r (\<lambda>req.
     with_actor (resolveGovernanceActor server ctx (DecisionReq_Actor req)) (\<lambda>actor.
       let input = \<lparr>In_RequestID = Http_PathValue r ''request_id'',
             In_RequirementID = Http_PathValue r ''requirement_id'', In_Actor = actor,
             In_Comment = DecisionReq_Comment req\<rparr>
       in respond (if approve then ApproveRequirement svc input else RejectRequirement svc input)
            (\<lambda>request. Reply 200 (approvalRequestResponse request)))))"

definition approveRequirement :: "server \<Rightarrow> approvalDecisionRequest handler" where
  "approveRequirement server = recordApprovalDecision server True"

definition rejectRequirement :: "server \<Rightarrow> approvalDecisionRequest handler" where
  "rejectRequirement server = recordApprovalDecision server False"

definition defaultGovernanceListLimit :: int where
  "defaultGovernanceListLimit = 100"

definition getApprovalRequestAudit :: "server \<Rightarrow> 'b handler" where
  "getApprovalRequestAudit server ctx r =
     with_governance server (\<lambda>svc.
       let requestID = Http_PathValue r ''request_id'' in
       respond
         (ListApprovalRequestAudit requestID
            (parsePositiveInt (Http_Query r ''limit'') defaultGovernanceListLimit)
            (parsePositiveInt (Http_Query r ''offset'') 0))
         (\<lambda>events. Reply 200 (approvalAuditResponseForRequest requestID events)))"

section \<open>Routes\<close>

text \<open>The routes of the governance endpoints, as \<^verbatim>\<open>Handler\<close> registers them.\<close>

definition route_approve :: "server \<Rightarrow> approvalDecisionRequest handler" where
  "route_approve server = protected server ActionApprovalDecisionRecord
     (pathIDResource ''approval_request'' ''request_id'') (approveRequirement server)"

definition route_reject :: "server \<Rightarrow> approvalDecisionRequest handler" where
  "route_reject server = protected server ActionApprovalDecisionRecord
     (pathIDResource ''approval_request'' ''request_id'') (rejectRequirement server)"

definition route_create_request :: "server \<Rightarrow> createApprovalRequestRequest handler" where
  "route_create_request server = protected server ActionApprovalRequestCreate
     (pathIDResource ''breaking_report'' ''report_id'') (createApprovalRequest server)"

definition route_add_owner :: "server \<Rightarrow> addModuleOwnerRequest handler" where
  "route_add_owner server = protected server ActionGovernanceOwnerManage
     (pathResource ''module'' ''module'') (addModuleOwner server)"

definition route_remove_owner :: "server \<Rightarrow> 'b handler" where
  "route_remove_owner server = protected server ActionGovernanceOwnerManage
     (pathIDResource ''module_owner'' ''owner_id'') (removeModuleOwner server)"

end
