(* ===== verification/Owner_Claims.thy ===== *)
theory Owner_Claims
  imports Owner_Service Atomicity Approval_Claims
begin

text \<open>
  The properties of module owners: what adding and removing one writes, that the owner table keeps
  its constraints, and what both mean for who may decide an approval requirement.
\<close>

section \<open>Errors write nothing\<close>

lemma owner_still:
  "steps still (ModuleRepo_GetByName name)" "steps still (OwnerRepo_GetByID ownerID)"
  "steps still (orErr r e)" "steps still NewRandomID"
  using stillI [OF registry_reads(1) registry_env(1)] stillI [OF owner_reads(1) owner_env(5)]
    stillI [OF owner_reads(2) owner_env(3)]
  by (simp_all add: orErr_def still.steps_liftE)

lemma owner_atomic: "atomic (AddModuleOwner added)" "atomic (RemoveModuleOwner removed)"
  unfolding AddModuleOwner_def RemoveModuleOwner_def Let_def addOwnerTransaction_def
    removeOwnerTransaction_def replaceErr_def
  by (intro atomic_rules still_rules owner_still)+

section \<open>Adding and removing\<close>

text \<open>
  C20: adding an owner is one transaction. When anything is written, the answer is the new owner,
  whose parsed fields are stored as one owner row of the named module that no stored row equals in
  subject, type and role; with it come one audit row in the acting subject's name and one pending
  outbox record; the approval tables stay as they are.
\<close>

theorem owner_added:
  assumes "AddModuleOwner input w = (res, w')" and "\<not> w_tx w" and "w_db w' \<noteq> w_db w"
  shows "\<exists>owner row audit event m.
      res = Inr owner
    \<and> NewModuleOwnerRole (AddOwner_Role input) = Inr (Owner_Role owner)
    \<and> NewGovernanceSubjectType (AddOwner_SubjectType input) = Inr (Owner_SubjectType owner)
    \<and> m \<in> set (db_modules (w_db w)) \<and> mod_name m = TrimSpace (AddOwner_ModuleName input)
    \<and> p_uuid (w_platform w) (NewID (mod_id m)) = Some (own_module_id row)
    \<and> own_subject row = TrimSpace (AddOwner_Subject input) \<and> own_subject row \<noteq> ''''
    \<and> own_subject_type row = GovernanceSubjectType_String (Owner_SubjectType owner)
    \<and> own_role row = ModuleOwnerRole_String (Owner_Role owner)
    \<and> (\<forall>r \<in> set (db_owners (w_db w)). \<not> owner_clash row r)
    \<and> db_owners (w_db w') = db_owners (w_db w) @ [row]
    \<and> db_audits (w_db w') = db_audits (w_db w) @ [audit]
    \<and> aud_event_type audit = ''module_owner_added'' \<and> aud_actor audit = TrimSpace (AddOwner_Actor input)
    \<and> db_outbox (w_db w') = db_outbox (w_db w) @ [event]
    \<and> obx_event_type event = ''protoradar.module_owner.added'' \<and> obx_status event = ''pending''
    \<and> ledger_of (w_db w') = ledger_of (w_db w)"
proof -
  obtain owner where res: "res = Inr owner"
    using assms atomicD [OF owner_atomic(1)] by (cases res) blast+
  show ?thesis
  proof (rule AddModuleOwner_run [OF assms(1) [unfolded res]])
    fix actor now w1
    assume tx: "addOwnerTransaction owner actor now w1 = (Inr (), w')"
      and w1: "w_db w1 = w_db w" "same_env w w1"
      and actor: "effectiveActorSubject (AddOwner_Actor input) = Inr actor"
      and fields: "NewModuleOwnerRole (AddOwner_Role input) = Inr (Owner_Role owner)"
        "NewGovernanceSubjectType (AddOwner_SubjectType input) = Inr (Owner_SubjectType owner)"
        "Owner_Subject owner = TrimSpace (AddOwner_Subject input)" "Owner_Subject owner \<noteq> ''''"
      and m: "\<exists>row \<in> set (db_modules (w_db w)). mod_name row = TrimSpace (AddOwner_ModuleName input)
        \<and> Owner_ModuleID owner = NewID (mod_id row)"
    have actor: "TrimSpace actor = TrimSpace (AddOwner_Actor input)"
      using actor by (auto simp: effectiveActorSubject_def Let_def split: if_splits)
    obtain m where m: "m \<in> set (db_modules (w_db w))" "mod_name m = TrimSpace (AddOwner_ModuleName input)"
      "Owner_ModuleID owner = NewID (mod_id m)" using m by blast
    have outside: "\<not> w_tx w1" and p: "w_platform w1 = w_platform w"
      using w1(2) assms(2) by (simp_all add: same_env_def)
    show ?thesis
    proof (rule addOwnerTransaction_Inr [OF tx outside])
      fix oid mid audit event
      assume "p_uuid (w_platform w1) (Owner_ModuleID owner) = Some mid"
        "\<forall>r \<in> set (db_owners (w_db w1)). \<not> owner_clash (row_of_owner oid mid owner) r"
        "w_db w' = owner_added_db (row_of_owner oid mid owner) audit event (w_db w1)"
        "aud_event_type audit = ''module_owner_added''" "aud_actor audit = TrimSpace actor"
        "obx_event_type event = ''protoradar.module_owner.added''" "obx_status event = ''pending''"
      with w1 actor fields m p res show ?thesis
        by (intro exI [of _ owner] exI [of _ "row_of_owner oid mid owner"] exI [of _ audit]
            exI [of _ event] exI [of _ m] conjI) simp_all
    qed
  qed
qed

text \<open>
  removing an owner removes that entry of that module and nothing else, with one audit row and
  one outbox record; an identifier that names no entry, or an entry of another module, is refused.
\<close>

theorem owner_removed:
  assumes "RemoveModuleOwner input w = (res, w')" and "\<not> w_tx w" and "w_db w' \<noteq> w_db w"
    and "uuid_laws (w_platform w)" and "owners_ok (p_uuid (w_platform w)) (w_db w)"
  shows "\<exists>row audit event m.
      res = Inr () \<and> row \<in> set (db_owners (w_db w))
    \<and> p_uuid (w_platform w) (NewID (RemoveOwner_OwnerID input)) = Some (own_id row)
    \<and> m \<in> set (db_modules (w_db w)) \<and> mod_name m = TrimSpace (RemoveOwner_ModuleName input)
    \<and> NewID (mod_id m) = own_module_id row
    \<and> db_owners (w_db w') = remove1 row (db_owners (w_db w))
    \<and> row \<notin> set (db_owners (w_db w'))
    \<and> db_audits (w_db w') = db_audits (w_db w) @ [audit]
    \<and> aud_event_type audit = ''module_owner_removed''
    \<and> aud_actor audit = TrimSpace (RemoveOwner_Actor input)
    \<and> db_outbox (w_db w') = db_outbox (w_db w) @ [event]
    \<and> obx_event_type event = ''protoradar.module_owner.removed'' \<and> obx_status event = ''pending''
    \<and> ledger_of (w_db w') = ledger_of (w_db w)"
proof -
  have res: "res = Inr ()"
    using assms(1-3) atomicD [OF owner_atomic(2)] by (cases res) auto
  have filter_id: "filter (\<lambda>r. own_id r \<noteq> own_id row) rs = remove1 row rs"
    if "distinct (map own_id rs)" "row \<in> set rs" for row rs
    using that
  proof (induction rs)
    case (Cons r rs)
    then show ?case
      by (cases "r = row") (auto simp: filter_id_conv image_iff)
  qed simp
  show ?thesis
  proof (rule RemoveModuleOwner_run [OF assms(1) [unfolded res]])
    fix owner actor now w1 row
    assume tx: "removeOwnerTransaction owner actor now w1 = (Inr (), w')"
      and w1: "w_db w1 = w_db w" "same_env w w1"
      and actor: "effectiveActorSubject (RemoveOwner_Actor input) = Inr actor"
      and row: "row \<in> set (db_owners (w_db w))"
        "p_uuid (w_platform w) (NewID (RemoveOwner_OwnerID input)) = Some (own_id row)"
        "Owner_ID owner = NewID (own_id row)"
      and m: "\<exists>r \<in> set (db_modules (w_db w)). mod_name r = TrimSpace (RemoveOwner_ModuleName input)
          \<and> NewID (own_module_id row) = NewID (mod_id r)"
    have actor: "TrimSpace actor = TrimSpace (RemoveOwner_Actor input)"
      using actor by (auto simp: effectiveActorSubject_def Let_def split: if_splits)
    have outside: "\<not> w_tx w1" and p: "w_platform w1 = w_platform w"
      using w1(2) assms(2) by (simp_all add: same_env_def)
    have fit: "fits (p_uuid (w_platform w)) (own_id row)" "fits (p_uuid (w_platform w)) (own_module_id row)"
      and distinct: "distinct (map own_id (db_owners (w_db w)))"
      using assms(5) row(1) by (simp_all add: owners_ok_def)
    obtain m where m: "m \<in> set (db_modules (w_db w))"
      "mod_name m = TrimSpace (RemoveOwner_ModuleName input)" "NewID (mod_id m) = own_module_id row"
      using m fits_NewID [OF assms(4) fit(2)] by metis
    show ?thesis
    proof (rule removeOwnerTransaction_Inr [OF tx outside])
      fix oid audit event
      assume out: "p_uuid (w_platform w1) (Owner_ID owner) = Some oid"
        "w_db w' = owner_removed_db oid audit event (w_db w1)"
        "aud_event_type audit = ''module_owner_removed''" "aud_actor audit = TrimSpace actor"
        "obx_event_type event = ''protoradar.module_owner.removed''" "obx_status event = ''pending''"
      have oid: "oid = own_id row"
        using out(1) fit(1) row(3) fits_NewID [OF assms(4) fit(1)] p by (simp add: fits_def)
      have owners: "db_owners (w_db w') = remove1 row (db_owners (w_db w))"
        using filter_id [OF distinct row(1)] by (simp add: out(2) oid w1)
      moreover have "row \<notin> set (db_owners (w_db w'))"
        by (simp add: out(2) oid)
      ultimately show ?thesis
        using w1 actor m row res out
        by (intro exI [of _ row] exI [of _ audit] exI [of _ event] exI [of _ m] conjI) simp_all
    qed
  qed
qed

section \<open>The owner table\<close>

text \<open>
  A handled request of the owner service, or anything that leaves the owner table alone.
\<close>

inductive owner_served :: "platform \<Rightarrow> db \<Rightarrow> db \<Rightarrow> bool" for p :: platform where
  added:
    "AddModuleOwner input w = (r, w') \<Longrightarrow> \<not> w_tx w \<Longrightarrow> w_platform w = p \<Longrightarrow>
     owner_served p (w_db w) (w_db w')"
| removed:
    "RemoveModuleOwner removal w = (u, w') \<Longrightarrow> \<not> w_tx w \<Longrightarrow> w_platform w = p \<Longrightarrow>
     owner_served p (w_db w) (w_db w')"
| elsewhere: "db_owners d' = db_owners d \<Longrightarrow> owner_served p d d'"

lemma owners_ok_insert:
  assumes "owners_ok U d" and "\<forall>r \<in> set (db_owners d). \<not> owner_clash row r"
    and "fits U (own_id row)" and "fits U (own_module_id row)"
    and "own_subject_type row \<in> {''user'', ''team''}" and "own_role row \<in> {''owner'', ''maintainer''}"
    and "db_owners d' = db_owners d @ [row]"
  shows "owners_ok U d'"
  using assms by (fastforce simp: owners_ok_def owner_clash_def)

lemma owners_ok_subset:
  assumes "owners_ok U d" and "db_owners d' = filter P (db_owners d)"
  shows "owners_ok U d'"
  using assms by (auto simp: owners_ok_def distinct_map_filter)

lemma owner_served_ok:
  assumes step: "owner_served p d d'" "owners_ok (p_uuid p) d" and "uuid_laws p"
  shows "owners_ok (p_uuid p) d'"
proof -
  have fit: "fits (p_uuid p) u" if "p_uuid p s = Some u" for s u
    using uuid_laws_canonical [OF assms(3) that] by (simp add: fits_def)
  have types: "GovernanceSubjectType_String t \<in> {''user'', ''team''}" for t by (cases t) simp_all
  have roles: "ModuleOwnerRole_String t \<in> {''owner'', ''maintainer''}" for t by (cases t) simp_all
  from step show ?thesis
  proof cases
    case (added input w r w')
    show ?thesis
    proof (cases r)
      case (Inl e)
      then show ?thesis using added atomicD [OF owner_atomic(1)] step(2) by simp
    next
      case (Inr owner)
      show ?thesis
      proof (rule AddModuleOwner_run [OF added(3) [unfolded Inr]])
        fix actor now w1
        assume tx: "addOwnerTransaction owner actor now w1 = (Inr (), w')"
          and w1: "w_db w1 = w_db w" "same_env w w1"
        have outside: "\<not> w_tx w1" and p: "w_platform w1 = p"
          using w1(2) added(4,5) by (simp_all add: same_env_def)
        show ?thesis
        proof (rule addOwnerTransaction_Inr [OF tx outside])
          fix oid mid audit event
          let ?row = "row_of_owner oid mid owner"
          assume row: "p_uuid (w_platform w1) (Owner_ID owner) = Some oid"
            "p_uuid (w_platform w1) (Owner_ModuleID owner) = Some mid"
            "\<forall>r \<in> set (db_owners (w_db w1)). \<not> owner_clash ?row r"
            "w_db w' = owner_added_db ?row audit event (w_db w1)"
          have "\<forall>r \<in> set (db_owners d). \<not> owner_clash ?row r" "db_owners d' = db_owners d @ [?row]"
            using row(3,4) by (simp_all add: w1(1) added(1,2))
          moreover have "fits (p_uuid p) (own_id ?row)" "fits (p_uuid p) (own_module_id ?row)"
            using fit [OF row(1) [unfolded p]] fit [OF row(2) [unfolded p]] by simp_all
          ultimately show ?thesis
            using owners_ok_insert [OF step(2), of ?row d'] types roles unfolding row_of_simps by blast
        qed
      qed
    qed
  next
    case (removed input w u w')
    show ?thesis
    proof (cases u)
      case (Inl e)
      then show ?thesis using removed atomicD [OF owner_atomic(2)] step(2) by simp
    next
      case (Inr v)
      show ?thesis
      proof (rule RemoveModuleOwner_run [OF removed(3) [unfolded Inr]])
        fix owner actor now w1 row
        assume tx: "removeOwnerTransaction owner actor now w1 = (Inr (), w')"
          and w1: "w_db w1 = w_db w" "same_env w w1"
        have outside: "\<not> w_tx w1" using w1(2) removed(4) by (simp add: same_env_def)
        show ?thesis
          by (rule removeOwnerTransaction_Inr [OF tx outside])
            (use step(2) removed(1,2) w1 in \<open>auto intro: owners_ok_subset\<close>)
      qed
    qed
  next
    case elsewhere
    then show ?thesis using step(2) by (simp add: owners_ok_def)
  qed
qed

text \<open>
  the owner table keeps its constraints: whatever requests are handled, identifiers stay unique
  and canonical, no two entries agree in module, subject type, subject and role, and the stored types
  and roles are those the parsers accept.
\<close>

theorem owners_stay_unique:
  assumes "(owner_served p)\<^sup>*\<^sup>* empty_db d" and "uuid_laws p"
  shows "owners_ok (p_uuid p) d"
  using assms(1)
proof (induction rule: rtranclp_induct)
  case base
  show ?case by (simp add: owners_ok_def empty_db_def)
qed (rule owner_served_ok [OF _ _ assms(2)])

section \<open>Who may decide\<close>

text \<open>On tables that keep their constraints and without faults, \<^verbatim>\<open>actorCanDecide\<close> is exact.\<close>

lemma scan_roles_exact:
  assumes "\<forall>r \<in> set rs. own_role r \<in> {''owner'', ''maintainer''}"
  shows "scan_roles roles rs
    = Inr (\<exists>r \<in> set rs. \<exists>role \<in> set roles. NewModuleOwnerRole (own_role r) = Inr role)"
  using assms
proof (induction rs)
  case (Cons r rs)
  have "\<exists>role. NewModuleOwnerRole (own_role r) = Inr role"
    using Cons.prems by (auto simp: NewModuleOwnerRole_def ModuleOwnerRoles_def trim_eval)
  then show ?case using Cons by (auto simp: bindR_def)
qed simp

lemma HasRole_exact:
  assumes "healthy w" and "p_uuid (w_platform w) moduleID = Some u"
    and "\<forall>r \<in> set (db_owners (w_db w)). own_role r \<in> {''owner'', ''maintainer''}"
  shows "OwnerRepo_HasRole moduleID subjectType subject roles w
    = (Inr (\<exists>r \<in> set (db_owners (w_db w)). own_module_id r = u
          \<and> own_subject_type r = GovernanceSubjectType_String subjectType \<and> own_subject r = subject
          \<and> (\<exists>role \<in> set roles. NewModuleOwnerRole (own_role r) = Inr role)),
       w\<lparr>w_calls := Suc (w_calls w)\<rparr>)"
proof -
  let ?P = "\<lambda>r. own_module_id r = u \<and> own_subject_type r = GovernanceSubjectType_String subjectType
    \<and> own_subject r = subject"
  have "stmt (\<lambda>p. bindE (uuid p moduleID) (\<lambda>u. select (\<lambda>d. filter (\<lambda>r. own_module_id r = u
        \<and> own_subject_type r = GovernanceSubjectType_String subjectType
        \<and> own_subject r = subject) (db_owners d)))) w
    = (Inr (filter ?P (db_owners (w_db w))), w\<lparr>w_calls := Suc (w_calls w)\<rparr>)"
    using assms(1,2) by (auto simp: stmt_Inr bindE_Inr healthy_def)
  then have "OwnerRepo_HasRole moduleID subjectType subject roles w
      = (scan_roles roles (filter ?P (db_owners (w_db w))), w\<lparr>w_calls := Suc (w_calls w)\<rparr>)"
    unfolding OwnerRepo_HasRole_def by (subst bindE_run) (assumption, simp add: liftE_def)
  moreover have "\<forall>r \<in> set (filter ?P (db_owners (w_db w))). own_role r \<in> {''owner'', ''maintainer''}"
    using assms(3) by simp
  ultimately show ?thesis
    using scan_roles_exact [of "filter ?P (db_owners (w_db w))" roles] by (simp add: conj_assoc Bex_def)
qed

lemma actorCanDecide_exact:
  assumes "healthy w" and "Requirement_TargetModuleID requirement = Some t" and "t \<noteq> ''''"
    and "p_uuid (w_platform w) t = Some u" and "owners_ok (p_uuid (w_platform w)) (w_db w)"
  shows "fst (actorCanDecide svc requirement actor w)
    = Inr (\<exists>r \<in> set (db_owners (w_db w)). own_module_id r = u \<and> own_subject r = actor
        \<and> (\<exists>role \<in> set (allowedPolicyRoles (svc_policyConfig svc)). own_role r = ModuleOwnerRole_String role))"
proof -
  let ?roles = "allowedPolicyRoles (svc_policyConfig svc)"
  let ?w1 = "w\<lparr>w_calls := Suc (w_calls w)\<rparr>"
  have role: "\<forall>r \<in> set (db_owners (w_db w)). own_role r \<in> {''owner'', ''maintainer''}"
    and type: "\<forall>r \<in> set (db_owners (w_db w)). own_subject_type r \<in> {''user'', ''team''}"
    using assms(5) by (simp_all add: owners_ok_def)
  have parse: "NewModuleOwnerRole (own_role r) = Inr x \<longleftrightarrow> own_role r = ModuleOwnerRole_String x"
    if "r \<in> set (db_owners (w_db w))" for r x
  proof -
    have "own_role r = ''owner'' \<or> own_role r = ''maintainer''" using role that by simp
    then show ?thesis
      by (elim disjE; cases x) (simp_all add: NewModuleOwnerRole_def ModuleOwnerRoles_def trim_eval)
  qed
  have w1: "healthy ?w1" "p_uuid (w_platform ?w1) t = Some u"
    "\<forall>r \<in> set (db_owners (w_db ?w1)). own_role r \<in> {''owner'', ''maintainer''}"
    using assms(1,4) role by (simp_all add: healthy_def)
  define held where "held s \<longleftrightarrow> (\<exists>r \<in> set (db_owners (w_db w)). own_module_id r = u
      \<and> own_subject_type r = s \<and> own_subject r = actor
      \<and> (\<exists>role \<in> set ?roles. NewModuleOwnerRole (own_role r) = Inr role))" for s
  have user: "OwnerRepo_HasRole t GovernanceSubjectTypeUser actor ?roles w = (Inr (held ''user''), ?w1)"
    using HasRole_exact [OF assms(1,4) role, of GovernanceSubjectTypeUser actor ?roles]
    by (simp add: held_def)
  have team: "\<exists>w2. OwnerRepo_HasRole t GovernanceSubjectTypeTeam actor ?roles ?w1 = (Inr (held ''team''), w2)"
    using HasRole_exact [OF w1, of GovernanceSubjectTypeTeam actor ?roles]
    by (simp add: held_def)
  have "fst (actorCanDecide svc requirement actor w) = Inr (held ''user'' \<or> held ''team'')"
  proof (cases "held ''user''")
    case True
    with user assms(2,3) show ?thesis
      by (simp add: actorCanDecide_def bindE_def attempt_def ret_def)
  next
    case False
    with user team assms(2,3) show ?thesis
      by (auto simp: actorCanDecide_def bindE_def attempt_def ret_def)
  qed
  also have "(held ''user'' \<or> held ''team'') = (\<exists>r \<in> set (db_owners (w_db w)). own_module_id r = u
      \<and> own_subject r = actor \<and> (\<exists>role \<in> set ?roles. own_role r = ModuleOwnerRole_String role))"
    unfolding held_def using type parse by blast
  finally show ?thesis .
qed

lemma AddModuleOwner_row:
  assumes "AddModuleOwner input w = (Inr owner, w')" and "\<not> w_tx w"
  obtains oid mid where "p_uuid (w_platform w) (Owner_ModuleID owner) = Some mid"
    and "db_owners (w_db w') = db_owners (w_db w) @ [row_of_owner oid mid owner]"
proof (rule AddModuleOwner_run [OF assms(1)])
  fix actor now w1
  assume tx: "addOwnerTransaction owner actor now w1 = (Inr (), w')"
    and w1: "w_db w1 = w_db w" "same_env w w1"
  have outside: "\<not> w_tx w1" and p: "w_platform w1 = w_platform w"
    using w1(2) assms(2) by (simp_all add: same_env_def)
  show thesis
    by (rule addOwnerTransaction_Inr [OF tx outside]) (use that w1 p in auto)
qed

text \<open>
  an owner entry is the right to decide. Once a subject is added as owner of a module in a role
  the policy allows, \<^verbatim>\<open>actorCanDecide\<close> accepts the subject for every requirement that targets the
  module.
\<close>

theorem owner_grants_decision:
  assumes "AddModuleOwner input w = (Inr owner, w')" and "\<not> w_tx w"
    and "uuid_laws (w_platform w)" and "owners_ok (p_uuid (w_platform w)) (w_db w)"
    and "w_db v = w_db w'" and "w_platform v = w_platform w" and "healthy v"
    and "Requirement_TargetModuleID requirement = Some (Owner_ModuleID owner)"
    and "Owner_ModuleID owner \<noteq> ''''"
    and "Owner_Role owner \<in> set (allowedPolicyRoles (svc_policyConfig svc))"
  shows "fst (actorCanDecide svc requirement (Owner_Subject owner) v) = Inr True"
proof (rule AddModuleOwner_row [OF assms(1,2)])
  fix oid mid
  assume row: "p_uuid (w_platform w) (Owner_ModuleID owner) = Some mid"
    "db_owners (w_db w') = db_owners (w_db w) @ [row_of_owner oid mid owner]"
  have "owner_served (w_platform w) (w_db w) (w_db w')"
    by (rule owner_served.added [OF assms(1,2)]) simp
  then have ok: "owners_ok (p_uuid (w_platform v)) (w_db v)"
    using owner_served_ok assms(3-6) by metis
  have "row_of_owner oid mid owner \<in> set (db_owners (w_db v))" using row(2) assms(5) by simp
  then have "\<exists>r \<in> set (db_owners (w_db v)). own_module_id r = mid \<and> own_subject r = Owner_Subject owner
      \<and> (\<exists>role \<in> set (allowedPolicyRoles (svc_policyConfig svc)). own_role r = ModuleOwnerRole_String role)"
    by (rule bexI [rotated]) (use assms(10) in auto)
  then show ?thesis
    using actorCanDecide_exact [OF assms(7,8,9) _ ok, of mid svc "Owner_Subject owner"] row(1) assms(6)
    by simp
qed

text \<open>
  C21: removing a subject's last entry for a module takes the right away: \<^verbatim>\<open>actorCanDecide\<close> then
  refuses the subject for every requirement that targets the module.
\<close>

theorem owner_removal_revokes:
  assumes "RemoveModuleOwner input w = (Inr u, w')" and "\<not> w_tx w"
    and "uuid_laws (w_platform w)" and "owners_ok (p_uuid (w_platform w)) (w_db w)"
    and "row \<in> set (db_owners (w_db w))"
    and "p_uuid (w_platform w) (NewID (RemoveOwner_OwnerID input)) = Some (own_id row)"
    and "\<forall>r \<in> set (db_owners (w_db w)). own_module_id r = own_module_id row
           \<and> own_subject r = own_subject row \<longrightarrow> r = row"
    and "w_db v = w_db w'" and "w_platform v = w_platform w" and "healthy v"
    and "Requirement_TargetModuleID requirement = Some t" and "t \<noteq> ''''"
    and "p_uuid (w_platform w) t = Some (own_module_id row)"
  shows "fst (actorCanDecide svc requirement (own_subject row) v) = Inr False"
proof (rule RemoveModuleOwner_run [OF assms(1)])
  fix owner actor now w1 row'
  assume tx: "removeOwnerTransaction owner actor now w1 = (Inr (), w')"
    and w1: "w_db w1 = w_db w" "same_env w w1"
    and row': "row' \<in> set (db_owners (w_db w))"
      "p_uuid (w_platform w) (NewID (RemoveOwner_OwnerID input)) = Some (own_id row')"
      "Owner_ID owner = NewID (own_id row')"
  have outside: "\<not> w_tx w1" and p: "w_platform w1 = w_platform w"
    using w1(2) assms(2) by (simp_all add: same_env_def)
  have "fits (p_uuid (w_platform w)) (own_id row')" using assms(4) row'(1) by (simp add: owners_ok_def)
  then have ident: "p_uuid (w_platform w) (Owner_ID owner) = Some (own_id row)"
    using row'(2,3) assms(6) fits_NewID [OF assms(3)] by (simp add: fits_def)
  have owners: "db_owners (w_db v) = filter (\<lambda>r. own_id r \<noteq> own_id row) (db_owners (w_db w))"
    by (rule removeOwnerTransaction_Inr [OF tx outside]) (use ident p w1 assms(8) in simp)
  have "owner_served (w_platform w) (w_db w) (w_db w')"
    by (rule owner_served.removed [OF assms(1,2)]) simp
  then have ok: "owners_ok (p_uuid (w_platform v)) (w_db v)"
    using owner_served_ok assms(3,4,8,9) by metis
  have "\<not> (\<exists>r \<in> set (db_owners (w_db v)). own_module_id r = own_module_id row \<and> own_subject r = own_subject row
      \<and> (\<exists>role \<in> set (allowedPolicyRoles (svc_policyConfig svc)). own_role r = ModuleOwnerRole_String role))"
    using owners assms(7) by auto
  then show ?thesis
    using actorCanDecide_exact [OF assms(10,11,12) _ ok, of "own_module_id row" svc "own_subject row"]
      assms(9,13) by simp
qed

section \<open>A concrete run\<close>

text \<open>Carol becomes an owner of billing; then Bob's entry is removed.\<close>

definition sample_addition :: AddModuleOwnerInput where
  "sample_addition = \<lparr>AddOwner_ModuleName = ''billing'', AddOwner_SubjectType = ''user'',
     AddOwner_Subject = ''carol'', AddOwner_Role = ''owner'', AddOwner_Actor = ''bob''\<rparr>"

definition sample_removal :: RemoveModuleOwnerInput where
  "sample_removal = \<lparr>RemoveOwner_ModuleName = ''billing'', RemoveOwner_OwnerID = ''d-2'',
     RemoveOwner_Actor = ''alice''\<rparr>"

definition added_run :: "(goerr + ModuleOwner) \<times> world" where
  "added_run = AddModuleOwner sample_addition (sample_world sample_registry)"

definition removed_run :: "(goerr + unit) \<times> world" where
  "removed_run = RemoveModuleOwner sample_removal (sample_world sample_registry)"

lemma added_run_value: "map own_subject (db_owners (w_db (snd added_run))) = [''alice'', ''bob'', ''carol'']"
  by code_simp

lemma added_run_owner: "(case fst added_run of Inl e \<Rightarrow> False
    | Inr owner \<Rightarrow> Owner_ModuleID owner = ''a-2'' \<and> Owner_Subject owner = ''carol''
        \<and> Owner_Role owner = ModuleOwnerRoleOwner)"
  by code_simp

lemma removed_run_value: "(fst removed_run, map own_subject (db_owners (w_db (snd removed_run)))) = (Inr (), [''alice''])"
  by code_simp

lemma sample_owners_ok: "owners_ok (p_uuid sample_platform) sample_registry"
  by (simp add: owners_ok_def sample_registry_def fits_def sample_uuid_def hex_digits_def)

lemma sample_runs:
  "AddModuleOwner sample_addition (sample_world sample_registry) = (fst added_run, snd added_run)"
  "RemoveModuleOwner sample_removal (sample_world sample_registry) = (fst removed_run, snd removed_run)"
  by (simp_all add: added_run_def removed_run_def)

lemma sample_subjects: "map own_subject (db_owners sample_registry) = [''alice'', ''bob'']"
  by (simp add: sample_registry_def)

theorem owner_added_witness:
  "\<exists>row. db_owners (w_db (snd added_run)) = db_owners sample_registry @ [row] \<and> own_subject row = ''carol''"
proof -
  have "w_db (snd added_run) \<noteq> w_db (sample_world sample_registry)"
    using added_run_value sample_subjects by auto
  moreover have "TrimSpace (AddOwner_Subject sample_addition) = ''carol''" by code_simp
  ultimately show ?thesis
    using owner_added [OF sample_runs(1)] by auto
qed

theorem owner_removed_witness:
  "\<exists>row \<in> set (db_owners sample_registry). own_id row = ''d-2''
     \<and> db_owners (w_db (snd removed_run)) = remove1 row (db_owners sample_registry)"
proof -
  have "w_db (snd removed_run) \<noteq> w_db (sample_world sample_registry)"
    using removed_run_value sample_subjects by auto
  moreover have "sample_uuid (NewID (RemoveOwner_OwnerID sample_removal)) = Some ''d-2''" by code_simp
  ultimately show ?thesis
    using owner_removed [OF sample_runs(2)] sample_uuid_laws sample_owners_ok by auto
qed

theorem owners_stay_unique_witness:
  "owners_ok (p_uuid sample_platform) (w_db (snd (AddModuleOwner sample_addition (sample_world empty_db))))"
proof -
  have "owner_served sample_platform empty_db (w_db (snd (AddModuleOwner sample_addition (sample_world empty_db))))"
    using owner_served.added [OF prod.collapse [symmetric], of "sample_world empty_db" sample_platform sample_addition]
    by simp
  then show ?thesis
    by (intro owners_stay_unique [OF _ sample_uuid_laws] r_into_rtranclp)
qed

definition sample_requirement :: ApprovalRequirement where
  "sample_requirement = \<lparr>Requirement_ID = ''e-2'', Requirement_ApprovalRequestID = ''e-0'',
     Requirement_RequirementType = ApprovalRequirementTypeAffectedConsumerApproval,
     Requirement_TargetModuleID = Some ''a-2'', Requirement_TargetModuleName = ''billing'',
     Requirement_RequiredRole = Some ModuleOwnerRoleOwner,
     Requirement_Status = ApprovalRequirementStatusPending, Requirement_Reason = '''',
     Requirement_CreatedAt = 6, Requirement_UpdatedAt = 6\<rparr>"

theorem owner_grants_decision_witness:
  "fst (actorCanDecide sample_service sample_requirement ''carol''
     (sample_world (w_db (snd added_run)))) = Inr True"
proof -
  obtain owner where owner: "fst added_run = Inr owner" "Owner_ModuleID owner = ''a-2''"
    "Owner_Subject owner = ''carol''" "Owner_Role owner = ModuleOwnerRoleOwner"
    using added_run_owner by (auto split: sum.splits)
  have "ModuleOwnerRoleOwner \<in> set (allowedPolicyRoles (svc_policyConfig sample_service))" by code_simp
  then show ?thesis
    using owner_grants_decision [OF sample_runs(1) [unfolded owner(1)], of "sample_world (w_db (snd added_run))"
        sample_requirement sample_service]
      sample_uuid_laws sample_owners_ok sample_healthy owner(2-4) by (simp add: sample_requirement_def)
qed

theorem owner_removal_revokes_witness:
  "fst (actorCanDecide sample_service sample_requirement ''bob''
     (sample_world (w_db (snd removed_run)))) = Inr False"
proof -
  have run: "RemoveModuleOwner sample_removal (sample_world sample_registry) = (Inr (), snd removed_run)"
    using sample_runs(2) removed_run_value unfolding prod.inject by (elim conjE) (erule subst, assumption)
  obtain a b where rows: "db_owners sample_registry = [a, b]" "own_id b = ''d-2''" "own_subject b = ''bob''"
    "own_module_id b = ''a-2''" "own_subject a = ''alice''"
    by (simp add: sample_registry_def)
  have ids: "sample_uuid (NewID (RemoveOwner_OwnerID sample_removal)) = Some ''d-2''" by code_simp
  have target: "sample_uuid ''a-2'' = Some ''a-2''" by code_simp
  show ?thesis
    using owner_removal_revokes [OF run, of b "sample_world (w_db (snd removed_run))" sample_requirement "''a-2''"
        sample_service]
      sample_uuid_laws sample_owners_ok sample_healthy rows ids target
    by (simp add: sample_requirement_def)
qed

end
