(* ===== verification/Http_Claims.thy ===== *)
theory Http_Claims
  imports Http_Api Owner_Claims
begin

text \<open>
  The properties of access: what authentication accepts, that nothing happens without it, and who a
  decision made over HTTP is recorded for.
\<close>

section \<open>Authentication\<close>

definition expired_row :: "token_row \<Rightarrow> time \<Rightarrow> bool" where
  "expired_row row now = (case tok_expires_at row of None \<Rightarrow> False | Some e \<Rightarrow> e \<le> now)"

definition row_principal :: "token_row \<Rightarrow> Principal" where
  "row_principal row = (let subject =
     (if TrimSpace (tok_name row) = '''' then NewID (tok_id row) else TrimSpace (tok_name row))
   in \<lparr>Principal_Subject = subject, Principal_DisplayName = subject,
       Principal_Type = PrincipalTypeAPIToken,
       Principal_Metadata = [(''api_token_id'', NewID (tok_id row))]\<rparr>)"

text \<open>
  The tables after a request was authenticated: the same, or with the token marked as used.
\<close>

definition marked :: "db \<Rightarrow> db \<Rightarrow> bool" where
  "marked d d' \<longleftrightarrow> (\<exists>rows. d' = db_tokens_update (\<lambda>_. rows) d
     \<and> map (\<lambda>r. r\<lparr>tok_last_used_at := None\<rparr>) rows = map (\<lambda>r. r\<lparr>tok_last_used_at := None\<rparr>) (db_tokens d))"

interpretation marks: db_preorder marked
proof
  show "marked d d" for d by (auto simp: marked_def intro!: exI [of _ "db_tokens d"])
  show "marked d1 d3" if "marked d1 d2" "marked d2 d3" for d1 d2 d3
    using that by (auto simp: marked_def)
qed

lemma MarkUsed_marks: "steps (on_db marked) (TokenRepo_MarkUsed tokenID usedAt)"
proof -
  have "marked d (db_tokens_update (map (\<lambda>r. if tok_id r = u then r\<lparr>tok_last_used_at := Some usedAt\<rparr> else r)) d)"
    for d u
    unfolding marked_def
    by (rule exI [of _ "map (\<lambda>r. if tok_id r = u then r\<lparr>tok_last_used_at := Some usedAt\<rparr> else r) (db_tokens d)"])
       (auto simp: comp_def)
  then show ?thesis
    unfolding TokenRepo_MarkUsed_def
    by (intro marks.steps_require marks.steps_stmt) (auto simp: bindE_Inr)
qed

lemma access_env:
  "steps same_env (TokenRepo_MarkUsed tokenID usedAt)" "steps same_env (TokenRepo_GetByHash h)"
  unfolding TokenRepo_MarkUsed_def TokenRepo_GetByHash_def by (intro env_rules)+

lemma GetByHash_still: "steps still (TokenRepo_GetByHash h)"
  unfolding TokenRepo_GetByHash_def by (intro still_query_row) simp

lemma Authenticate_marks: "steps (on_db marked) (Authenticate hashToken req)"
  unfolding Authenticate_def replaceErr_def
  by (intro marks.world_rules MarkUsed_marks marks.steps_reads_only)
     (auto simp: reads_only_def TokenRepo_GetByHash_def intro: same_db.steps_query_row)

lemma Authenticate_env: "steps same_env (Authenticate hashToken req)"
  unfolding Authenticate_def replaceErr_def by (intro env_rules access_env)

lemma scanAPIToken_principal:
  "scanAPIToken row = Inr token \<Longrightarrow>
     token_principal token = row_principal row \<and> IsExpired token now = expired_row row now"
  by (auto simp: scanAPIToken_def token_principal_def row_principal_def token_subject_def Let_def
      IsExpired_def expired_row_def split: option.splits)

lemma Authenticate_Inr:
  assumes "Authenticate hashToken req w = (Inr prin, w')"
  obtains raw row where "Bearer req = Some raw" and "row \<in> set (db_tokens (w_db w))"
    and "tok_token_hash row = hashToken raw" and "\<not> expired_row row (w_clock w (w_ticks w))"
    and "prin = row_principal row"
proof -
  obtain raw where raw: "Bearer req = Some raw"
    using assms by (auto simp: Authenticate_def split: option.splits)
  obtain token w1 w2 where get: "TokenRepo_GetByHash (hashToken raw) w = (Inr token, w1)"
    and valid: "\<not> IsExpired token (w_clock w1 (w_ticks w1))" "prin = token_principal token"
    using assms by (auto simp: Authenticate_def raw replaceErr_def bindE_Inr clock_now_def attempt_simps)
  have q: "query_row (\<lambda>p. select (\<lambda>d. filter (\<lambda>r. tok_token_hash r = hashToken raw) (db_tokens d)))
      scanAPIToken w = (Inr token, w1)"
    using get by (simp add: TokenRepo_GetByHash_def)
  have ticks: "w_clock w1 = w_clock w" "w_ticks w1 = w_ticks w"
    using q by (auto simp: query_row_def bindE_Inr stmt_Inr)
  show thesis
    using q
  proof (rule query_row_Inr)
    fix row rest d
    assume "select (\<lambda>d. filter (\<lambda>r. tok_token_hash r = hashToken raw) (db_tokens d)) (w_db w) = (Inr (row # rest), d)"
      and scan: "scanAPIToken row = Inr token"
    then have "row # rest = filter (\<lambda>r. tok_token_hash r = hashToken raw) (db_tokens (w_db w))" by simp
    then have "row \<in> set (filter (\<lambda>r. tok_token_hash r = hashToken raw) (db_tokens (w_db w)))"
      by (metis list.set_intros(1))
    then show thesis
      using that [OF raw, of row] scanAPIToken_principal [OF scan] valid ticks by auto
  qed
qed

text \<open>
  authentication is its reference. Without faults, a request is accepted exactly when it bears a
  token whose hash is stored and that has not expired; the principal is then the trimmed token name,
  or the token's identifier when the name is blank; any other request is unauthenticated.
\<close>

theorem authenticate_reference:
  assumes "healthy w"
  shows "fst (Authenticate hashToken req w) =
    (case Bearer req of
       None \<Rightarrow> Inl (Access AuthnErrUnauthenticated)
     | Some raw \<Rightarrow>
         (case find (\<lambda>r. tok_token_hash r = hashToken raw) (db_tokens (w_db w)) of
            None \<Rightarrow> Inl (Access AuthnErrUnauthenticated)
          | Some row \<Rightarrow>
              if expired_row row (w_clock w (w_ticks w)) then Inl (Access AuthnErrUnauthenticated)
              else Inr (row_principal row)))"
proof (cases "Bearer req")
  case (Some raw)
  let ?P = "\<lambda>r. tok_token_hash r = hashToken raw" and ?w1 = "w\<lparr>w_calls := Suc (w_calls w)\<rparr>"
  have fault: "w_fault w (w_calls w) = None" using assms by (simp add: healthy_def)
  have find: "find ?P xs = (case filter ?P xs of [] \<Rightarrow> None | r # _ \<Rightarrow> Some r)" for xs
    by (induction xs) auto
  show ?thesis
  proof (cases "filter ?P (db_tokens (w_db w))")
    case Nil
    have "TokenRepo_GetByHash (hashToken raw) w = (Inl (Domain ErrNotFound), ?w1)"
      unfolding TokenRepo_GetByHash_def query_row_def
      by (rule bindE_stop) (simp add: stmt_ok fault bindE_def select_def Nil liftE_def)
    then show ?thesis
      by (simp add: Authenticate_def Some find Nil replaceErr_def bindE_def mapErr_def catchE_def raise_def)
  next
    case (Cons row rest)
    obtain token where token: "scanAPIToken row = Inr token" by (simp add: scanAPIToken_def)
    note principal = scanAPIToken_principal [OF token]
    have get: "replaceErr e e' (TokenRepo_GetByHash (hashToken raw)) w = (Inr token, ?w1)" for e e'
      unfolding TokenRepo_GetByHash_def query_row_def replaceErr_def
      by (simp add: bindE_Inr stmt_Inr fault Cons token)
    show ?thesis
      unfolding Authenticate_def Some option.case find Cons list.case
      by (simp add: bindE_def get clock_now_def principal failIf_def raise_def ret_def attempt_def
          split: prod.splits)
  qed
qed (simp add: Authenticate_def raise_def)

section \<open>Nothing without a valid token\<close>

lemma Authenticate_error:
  assumes "Authenticate hashToken req w = (Inl e, w')"
  shows "w_db w' = w_db w"
  using assms
  by (auto simp: Authenticate_def replaceErr_def bindE_Inl mapErr_Inl clock_now_def attempt_simps raise_def
      failIf_def bindE_Inr dest: stillD [OF GetByHash_still] split: option.splits if_splits)

lemma Authenticate_cases:
  obtains prin where "fst (Authenticate hashToken req w) = Inr prin"
  | e where "fst (Authenticate hashToken req w) = Inl e"
    and "w_db (snd (Authenticate hashToken req w)) = w_db w"
  using Authenticate_error [of hashToken req w] by (cases "Authenticate hashToken req w") (metis fst_conv snd_conv sum.exhaust)

text \<open>
  C14: a protected route does nothing for a caller without a valid token: when the request bears no
  token, or none whose hash is stored and that has not expired, the answer is 401 and no table
  changes, whatever the action, the authorizer and the handler are.
\<close>

theorem requests_need_token:
  assumes "protected server action resource next_handler ctx r w = (res, w')"
    and "srv_auth server = Some (Authenticate hashToken)"
    and "\<And>raw row. Bearer \<lparr>Auth_AuthorizationHeader = Http_Authorization r, Auth_BearerToken = ''''\<rparr> = Some raw
           \<Longrightarrow> row \<in> set (db_tokens (w_db w)) \<Longrightarrow> tok_token_hash row = hashToken raw
           \<Longrightarrow> expired_row row (w_clock w (w_ticks w))"
  shows "res = Inr unauthorized \<and> status_of unauthorized = 401 \<and> w_db w' = w_db w"
proof -
  let ?req = "\<lparr>Auth_AuthorizationHeader = Http_Authorization r, Auth_BearerToken = ''''\<rparr>"
  obtain x w1 where auth: "Authenticate hashToken ?req w = (x, w1)" by fastforce
  obtain e where x: "x = Inl e"
    using auth assms(3) Authenticate_Inr [of hashToken ?req w] by (cases x) blast+
  have "w_db w1 = w_db w" using auth x by (blast dest: Authenticate_error)
  then show ?thesis
    using assms(1) auth x
    by (auto simp: protected_def requireBearer_def assms(2) bindE_def attempt_def unauthorized_def
        writeError_def status_of_def ret_def)
qed

section \<open>Who a decision is recorded for\<close>

lemma PrincipalFromContext_Some:
  "PrincipalFromContext ctx = Some prin \<Longrightarrow> ctx = Some prin"
  by (auto simp: PrincipalFromContext_def split: option.splits if_splits)

lemma resolve_subject:
  assumes "resolveGovernanceActor server ctx requested = Inr actor" and "\<not> srv_actorOverride server"
  shows "\<exists>prin. ctx = Some prin \<and> actor = TrimSpace (Principal_Subject prin) \<and> actor \<noteq> ''''"
  using assms ResolveGovernanceActor_Inr
  by (fastforce simp: resolveGovernanceActor_def bindR_Inr split: option.splits
      dest: PrincipalFromContext_Some)

lemma recordApprovalDecision_run:
  assumes "recordApprovalDecision server approve ctx r w = (res, w')" and "w_db w' \<noteq> w_db w"
  obtains svc and req :: approvalDecisionRequest and actor where "srv_governance server = Some svc"
    and "resolveGovernanceActor server ctx (DecisionReq_Actor req) = Inr actor"
    and "snd (recordDecision svc
      \<lparr>In_RequestID = Http_PathValue r ''request_id'', In_RequirementID = Http_PathValue r ''requirement_id'',
       In_Actor = actor, In_Comment = DecisionReq_Comment req\<rparr>
      (if approve then ApprovalDecisionValueApproved else ApprovalDecisionValueRejected) w) = w'"
proof -
  obtain svc where svc: "srv_governance server = Some svc"
    using assms by (cases "srv_governance server") (auto simp: recordApprovalDecision_def with_governance_def ret_def)
  obtain req where req: "Http_Body r = Body req"
    using assms by (cases "Http_Body r")
      (auto simp: recordApprovalDecision_def with_governance_def svc with_body_def ret_def)
  obtain actor where actor: "resolveGovernanceActor server ctx (DecisionReq_Actor req) = Inr actor"
    using assms by (cases "resolveGovernanceActor server ctx (DecisionReq_Actor req)")
      (auto simp: recordApprovalDecision_def with_governance_def svc with_body_def req with_actor_def ret_def)
  show thesis
    by (rule that [OF svc actor])
      (use assms(1) in \<open>auto simp: recordApprovalDecision_def with_governance_def svc with_body_def req
        with_actor_def actor respond_def bindE_def attempt_def ret_def ApproveRequirement_def
        RejectRequirement_def split: prod.splits if_splits\<close>)
qed

text \<open>
  C5: a decision recorded over HTTP is the caller's own. When the approve or reject endpoint stores
  a decision on a server that does not allow overriding the actor, the caller presented a stored,
  unexpired token; the new row decides the requirement the path names; its \<open>decided_by\<close> is that
  token's subject; and the subject is an owner of the module this requirement targets, in a role
  the policy allows.
\<close>

theorem http_decision_accountable:
  assumes "protected server ActionApprovalDecisionRecord resource (recordApprovalDecision server approve) ctx r w
      = (res, w')"
    and "\<not> w_tx w" and "srv_auth server = Some (Authenticate hashToken)" and "\<not> srv_actorOverride server"
    and "srv_governance server = Some svc"
    and "uuid_laws (w_platform w)" and "approvals_ok (p_uuid (w_platform w)) (w_db w)"
    and "db_decisions (w_db w') \<noteq> db_decisions (w_db w)"
  shows "\<exists>raw row decision rq target own.
      Bearer \<lparr>Auth_AuthorizationHeader = Http_Authorization r, Auth_BearerToken = ''''\<rparr> = Some raw
    \<and> row \<in> set (db_tokens (w_db w)) \<and> tok_token_hash row = hashToken raw
    \<and> \<not> expired_row row (w_clock w (w_ticks w))
    \<and> db_decisions (w_db w') = db_decisions (w_db w) @ [decision]
    \<and> dec_decided_by decision = TrimSpace (Principal_Subject (row_principal row))
    \<and> rq \<in> set (db_requirements (w_db w)) \<and> rqm_id rq = NewID (Http_PathValue r ''requirement_id'')
    \<and> dec_requirement_id decision = rqm_id rq \<and> rqm_target_module_id rq = Some target
    \<and> own \<in> set (db_owners (w_db w))
    \<and> p_uuid (w_platform w) (NewID target) = Some (own_module_id own)
    \<and> own_subject own = dec_decided_by decision \<and> own_subject_type own \<in> {''user'', ''team''}
    \<and> TrimSpace (own_role own) \<in> {''owner''}
        \<union> (if Config_AllowMaintainerApproval (svc_policyConfig svc) then {''maintainer''} else {})"
proof -
  let ?req = "\<lparr>Auth_AuthorizationHeader = Http_Authorization r, Auth_BearerToken = ''''\<rparr>"
  let ?handler = "requireAuthorization server ActionApprovalDecisionRecord resource
    (recordApprovalDecision server approve)"
  obtain x w1 where auth: "Authenticate hashToken ?req w = (x, w1)" by fastforce
  have rest: "(case x of Inl err \<Rightarrow> ret unauthorized | Inr prin \<Rightarrow> ?handler (Some prin) r) w1 = (res, w')"
    using assms(1) auth by (simp add: protected_def requireBearer_def assms(3) bindE_def attempt_def)
  have w1: "marked (w_db w) (w_db w1)" "same_env w w1"
    using stepsD [OF Authenticate_marks auth] stepsD [OF Authenticate_env auth] by (simp_all add: on_db_def)
  then have same: "db_decisions (w_db w1) = db_decisions (w_db w)" "db_owners (w_db w1) = db_owners (w_db w)"
    "ledger_of (w_db w1) = ledger_of (w_db w)"
    by (auto simp: marked_def ledger_of_def)
  obtain prin where x: "x = Inr prin"
    using rest assms(8) same by (cases x) (auto simp: ret_def)
  have decide: "recordApprovalDecision server approve (Some prin) r w1 = (res, w')"
    using rest assms(8) same
    by (auto simp: x requireAuthorization_def ret_def PrincipalFromContext_def
        split: option.splits sum.splits if_splits)
  have "w_db w' \<noteq> w_db w1" using assms(8) same by auto
  then obtain req actor res2 where
    actor: "resolveGovernanceActor server (Some prin) (DecisionReq_Actor (req :: approvalDecisionRequest)) = Inr actor"
    and run: "recordDecision svc
      \<lparr>In_RequestID = Http_PathValue r ''request_id'', In_RequirementID = Http_PathValue r ''requirement_id'',
       In_Actor = actor, In_Comment = DecisionReq_Comment req\<rparr>
      (if approve then ApprovalDecisionValueApproved else ApprovalDecisionValueRejected) w1 = (res2, w')"
    by (elim recordApprovalDecision_run [OF decide]) (use assms(5) in \<open>auto simp: prod_eq_iff\<close>)
  have subject: "actor = TrimSpace (Principal_Subject prin)" "TrimSpace actor = actor"
    using resolve_subject [OF actor assms(4)] by auto
  have outside: "\<not> w_tx w1" and laws: "uuid_laws (w_platform w1)"
    and ok: "approvals_ok (p_uuid (w_platform w1)) (w_db w1)"
    using w1(2) assms(2,6,7) same(3) by (simp_all add: same_env_def approvals_ok_def)
  show ?thesis
  proof (rule Authenticate_Inr [OF auth [unfolded x]])
    fix raw row
    assume token: "Bearer ?req = Some raw" "row \<in> set (db_tokens (w_db w))" "tok_token_hash row = hashToken raw"
      "\<not> expired_row row (w_clock w (w_ticks w))" "prin = row_principal row"
    show ?thesis
    proof (rule recorded_decision [OF run outside laws ok \<open>w_db w' \<noteq> w_db w1\<close>])
      fix decision own rq target
      let ?input = "\<lparr>In_RequestID = Http_PathValue r ''request_id'',
        In_RequirementID = Http_PathValue r ''requirement_id'', In_Actor = actor,
        In_Comment = DecisionReq_Comment req\<rparr>"
      assume "db_decisions (w_db w') = db_decisions (w_db w1) @ [decision]"
        "dec_decided_by decision = TrimSpace (In_Actor ?input)"
        "rq \<in> set (db_requirements (w_db w1))" "rqm_id rq = NewID (In_RequirementID ?input)"
        "dec_requirement_id decision = rqm_id rq" "rqm_target_module_id rq = Some target"
        "own \<in> set (db_owners (w_db w1))"
        "p_uuid (w_platform w1) (NewID target) = Some (own_module_id own)"
        "own_subject own = TrimSpace (In_Actor ?input)" "own_subject_type own \<in> {''user'', ''team''}"
        "TrimSpace (own_role own) \<in> {''owner''}
          \<union> (if Config_AllowMaintainerApproval (svc_policyConfig svc) then {''maintainer''} else {})"
      moreover have "db_requirements (w_db w1) = db_requirements (w_db w)" "w_platform w1 = w_platform w"
        using same(3) w1(2) by (auto simp: ledger_of_def same_env_def)
      ultimately show ?thesis using token subject same
        by (intro exI [of _ raw] exI [of _ row] exI [of _ decision] exI [of _ rq] exI [of _ target]
            exI [of _ own] conjI) simp_all
    qed
  qed
qed

section \<open>What the decision endpoints answer\<close>





section \<open>A concrete server\<close>

definition sample_hash :: "string \<Rightarrow> string" where "sample_hash s = ''h-'' @ s"

definition sample_server :: server where
  "sample_server = \<lparr>srv_auth = Some (Authenticate sample_hash),
     srv_authorizer = CommunityAuthorizer_Authorize, srv_governance = Some sample_service,
     srv_actorOverride = False\<rparr>"

definition sample_secured :: db where
  "sample_secured = sample_pending\<lparr>db_tokens :=
     [\<lparr>tok_id = ''f-1'', tok_name = ''alice'', tok_token_hash = ''h-secret'', tok_created_at = 1,
       tok_expires_at = Some 5000, tok_last_used_at = None\<rparr>]\<rparr>"

definition sample_http :: "string \<Rightarrow> approvalDecisionRequest http_request" where
  "sample_http token = \<lparr>Http_Authorization = ''Bearer '' @ token,
     Http_PathValue = (\<lambda>k. if k = ''requirement_id'' then ''e-1'' else ''e-0''),
     Http_Query = (\<lambda>_. ''''), Http_Body = Body \<lparr>DecisionReq_Actor = '''', DecisionReq_Comment = ''ok''\<rparr>\<rparr>"

definition http_run :: "(goerr + response) \<times> world" where
  "http_run = route_approve sample_server None (sample_http ''secret'') (sample_world sample_secured)"

lemma http_run_value: "map dec_decided_by (db_decisions (w_db (snd http_run))) = [''alice'']"
  by code_simp

lemma sample_secured_simps:
  "ledger_of sample_secured = ledger_of sample_pending" "db_owners sample_secured = db_owners sample_registry"
  "db_decisions sample_secured = []"
  by (simp_all add: sample_secured_def ledger_of_def sample_pending_def sample_registry_def empty_db_def)

theorem authenticate_reference_witness:
  "fst (Authenticate sample_hash \<lparr>Auth_AuthorizationHeader = ''Bearer other'', Auth_BearerToken = ''''\<rparr>
     (sample_world sample_secured)) = Inl (Access AuthnErrUnauthenticated)"
proof -
  have "Bearer \<lparr>Auth_AuthorizationHeader = ''Bearer other'', Auth_BearerToken = ''''\<rparr> = Some ''other''"
    by code_simp
  moreover have "find (\<lambda>r. tok_token_hash r = sample_hash ''other'') (db_tokens sample_secured) = None"
    by code_simp
  ultimately show ?thesis
    using authenticate_reference [OF sample_healthy, of sample_hash] by simp
qed

theorem requests_need_token_witness:
  "fst (route_approve sample_server None (sample_http ''guess'') (sample_world sample_secured)) = Inr unauthorized"
proof -
  have bearer: "Bearer \<lparr>Auth_AuthorizationHeader = Http_Authorization (sample_http ''guess''),
      Auth_BearerToken = ''''\<rparr> = Some ''guess''" by code_simp
  have "map tok_token_hash (db_tokens sample_secured) = [''h-secret'']" by (simp add: sample_secured_def)
  then have "tok_token_hash row \<noteq> sample_hash ''guess''" if "row \<in> set (db_tokens sample_secured)" for row
    using that by (auto simp: sample_hash_def)
  then show ?thesis
    unfolding route_approve_def
    by (intro requests_need_token [THEN conjunct1, OF prod.collapse [symmetric], of _ sample_hash])
       (auto simp: sample_server_def bearer)
qed

theorem http_decision_accountable_witness:
  "\<exists>row \<in> set (db_tokens sample_secured). \<exists>decision. db_decisions (w_db (snd http_run)) = [decision]
     \<and> dec_decided_by decision = TrimSpace (Principal_Subject (row_principal row))"
proof -
  have run: "protected sample_server ActionApprovalDecisionRecord (pathIDResource ''approval_request'' ''request_id'')
      (recordApprovalDecision sample_server True) None (sample_http ''secret'') (sample_world sample_secured)
      = (fst http_run, snd http_run)"
    by (simp add: http_run_def route_approve_def approveRequirement_def)
  have ok: "approvals_ok (p_uuid (w_platform (sample_world sample_secured))) (w_db (sample_world sample_secured))"
    using sample_pending_ok by (simp add: approvals_ok_def sample_secured_simps)
  have "db_decisions (w_db (snd http_run)) \<noteq> db_decisions sample_secured"
    using http_run_value by (auto simp: sample_secured_simps)
  then show ?thesis
    using http_decision_accountable [OF run _ _ _ _ _ ok, of sample_hash sample_service] sample_uuid_laws
    by (auto simp: sample_server_def sample_secured_simps)
qed


end
