(* ===== verification/Dependency_Claims.thy ===== *)
theory Dependency_Claims
  imports Dependency_Effects Samples
begin

text \<open>
  The properties of the dependency graph: the resolver computes its reference and always returns,
  what it stores is sound against the provider index, storing is all or nothing, and what the
  \<^verbatim>\<open>affected modules\<close> query answers.
\<close>

lemma list_all2_image: "list_all2 P xs ys \<Longrightarrow> \<forall>x \<in> set xs. \<exists>y \<in> set ys. P x y"
  by (induction rule: list_all2_induct) auto

lemma entities_in: "entities f es ds \<Longrightarrow> d \<in> set ds \<Longrightarrow> \<exists>e \<in> set es. \<exists>i. d = f e (NewID i)"
  unfolding entities_def by (induction rule: list_all2_induct) auto

lemma entities_map:
  assumes "entities f es ds" and "\<And>e i. g (f e i) = h e"
  shows "map g ds = map h es"
  using assms(1) unfolding entities_def by (induction rule: list_all2_induct) (auto simp: assms(2))

section \<open>The resolver is its reference\<close>

lemma NewRandomID_total:
  "\<forall>n. w_random w n \<noteq> None \<Longrightarrow> \<exists>i w'. NewRandomID w = (Inr i, w') \<and> w_random w' = w_random w"
proof -
  assume "\<forall>n. w_random w n \<noteq> None"
  then obtain s where "w_random w (w_draws w) = Some s" by blast
  then show ?thesis by (simp add: NewRandomID_Inr)
qed

lemma apply_outcome_total:
  assumes "\<forall>n. w_random w n \<noteq> None"
  shows "\<exists>r' w'. apply_outcome (addDependency module v now) (addUnresolved module v now) out r w
      = (Inr r', w') \<and> w_random w' = w_random w"
  using NewRandomID_total [OF assms]
  by (cases out) (auto simp: addDependency_def addUnresolved_def Let_def bindE_def ret_def)

lemma resolve_references_total:
  assumes "\<forall>n. w_random w n \<noteq> None"
  shows "\<exists>r' w'. resolve_references index (addDependency module v now) (addUnresolved module v now)
      refs r w = (Inr r', w')"
  using assms
proof (induction refs arbitrary: r w)
  case (Cons ref refs)
  obtain r1 w1 where step: "apply_outcome (addDependency module v now) (addUnresolved module v now)
      (outcome_of index ref) r w = (Inr r1, w1)" and "w_random w1 = w_random w"
    using apply_outcome_total [OF Cons.prems] by blast
  then obtain r' w' where "resolve_references index (addDependency module v now)
      (addUnresolved module v now) refs r1 w1 = (Inr r', w')"
    using Cons.IH [of w1 r1] Cons.prems by auto
  with step show ?case by (simp add: bindE_def)
qed (simp add: ret_def)

text \<open>
  C22: resolving returns whenever the random source works, and the edges it returns are, in order, those
  of the reference: each import, field type and method type of the files (nested messages included) that is neither
  well known nor the version's own becomes an edge when exactly one provider offers it, the first
  time its key occurs and unless the provider is the module itself; each one without a provider,
  or with several, becomes an unresolved entry.
\<close>

theorem resolver_reference:
  assumes "\<forall>n. w_random w n \<noteq> None"
  shows "\<exists>deps holes w'. resolveDependencies module v metadata index w = (Inr (deps, holes), w')
    \<and> entities (dependency_of module v (w_clock w (w_ticks w)))
        (first_by (edge_key v) {}
          (reference_edges (Module_ID module) (fold addFileSymbols metadata index) metadata)) deps
    \<and> entities (unresolved_of module v (w_clock w (w_ticks w)))
        (reference_holes (fold addFileSymbols metadata index) metadata) holes"
proof -
  have "\<exists>r w'. resolve_references (fold addFileSymbols metadata index)
      (addDependency module v (w_clock w (w_ticks w))) (addUnresolved module v (w_clock w (w_ticks w)))
      (references metadata) \<lparr>Res_dependencies = [], Res_unresolved = [], Res_seen = {}\<rparr>
      (w\<lparr>w_ticks := Suc (w_ticks w)\<rparr>) = (Inr r, w')"
    by (rule resolve_references_total) (simp add: assms)
  then obtain deps holes w' where "resolveDependencies module v metadata index w = (Inr (deps, holes), w')"
    by (auto simp: resolveDependencies_def bindE_def clock_now_def resolveFiles_outcome Let_def ret_def)
  with resolveDependencies_Inr show ?thesis by blast
qed

section \<open>What the index offers\<close>

lemma append_at_filter:
  "fold (\<lambda>x. append_at (key x) x) xs m k = m k @ filter (\<lambda>x. key x = k) xs"
  by (induction xs arbitrary: m) (auto simp: append_at_def)

lemma with_module_in:
  "(c, m, v) \<in> set (with_module key cols us rows d) \<longleftrightarrow>
     (\<exists>r \<in> set rows. c = cols r \<and> key r \<in> set us \<and> v \<in> set (db_versions d) \<and> ver_id v = key r
        \<and> m \<in> set (db_modules d) \<and> mod_id m = ver_module_id v)"
  by (auto simp: with_module_def by_id_def)

definition canonical_versions :: "platform \<Rightarrow> db \<Rightarrow> bool" where
  "canonical_versions p d \<longleftrightarrow> uuid_laws p \<and> distinct (map ver_id (db_versions d))
     \<and> (\<forall>v \<in> set (db_versions d). p_uuid p (ver_id v) = Some (ver_id v)
          \<and> p_uuid p (ver_module_id v) = Some (ver_module_id v))"

text \<open>
  A newest published version of its module: stored, published, and no published version of the module
  was created later. Of several that were created at the same time the database picks one.
\<close>

definition newest_published :: "db \<Rightarrow> version_row \<Rightarrow> bool" where
  "newest_published d v \<longleftrightarrow> v \<in> set (db_versions d) \<and> ver_status v = ''published''
     \<and> (\<forall>x \<in> set (db_versions d). ver_module_id x = ver_module_id v \<longrightarrow> ver_status x = ''published''
          \<longrightarrow> ver_created_at x \<le> ver_created_at v)"

definition picks_newest :: "db \<Rightarrow> version_row set \<Rightarrow> bool" where
  "picks_newest d L \<longleftrightarrow> (\<forall>v \<in> L. newest_published d v)
     \<and> (\<forall>v. newest_published d v \<longrightarrow> (\<exists>!x. x \<in> L \<and> ver_module_id x = ver_module_id v))"

lemma first_by_first:
  "sorted (map f xs) \<Longrightarrow> v \<in> set (first_by k seen xs) \<Longrightarrow> x \<in> set xs \<Longrightarrow> k x = k v \<Longrightarrow> f v \<le> f x"
proof (induction xs arbitrary: seen)
  case (Cons y ys)
  have fresh: "k v \<notin> seen'" if "v \<in> set (first_by k seen' ys)" for seen'
    using that first_by_keys [of k seen' ys] by blast
  show ?case
  proof (cases "k y \<in> seen")
    case True
    with Cons.prems(2) have v: "v \<in> set (first_by k seen ys)" by simp
    with fresh [OF v] True Cons.prems(3,4) have "x \<in> set ys" by auto
    with Cons.IH [OF _ v] Cons.prems show ?thesis by simp
  next
    case False
    show ?thesis
    proof (cases "v = y")
      case True
      with Cons.prems(1,3) show ?thesis by auto
    next
      case other: False
      with False Cons.prems(2) have v: "v \<in> set (first_by k (insert (k y) seen) ys)" by simp
      with fresh [OF v] Cons.prems(3,4) have "x \<in> set ys" by auto
      with Cons.IH [OF _ v] Cons.prems show ?thesis by simp
    qed
  qed
qed simp

lemma latest_published_picks: "picks_newest d (set (latest_published d))"
proof -
  let ?f = "\<lambda>v. (ver_module_id v, - ver_created_at v)"
  let ?xs = "sort_key ?f (filter (\<lambda>v. ver_status v = ModuleVersionStatus_String ModuleVersionStatusPublished)
    (db_versions d))"
  have latest: "latest_published d = first_by ver_module_id {} ?xs" by (simp add: latest_published_def)
  have members: "set ?xs = {v \<in> set (db_versions d). ver_status v = ''published''}" by auto
  have newest: "newest_published d v" if v: "v \<in> set (latest_published d)" for v
  proof -
    have "v \<in> set ?xs" using v first_by_subset unfolding latest by fast
    moreover have "ver_created_at x \<le> ver_created_at v"
      if "x \<in> set ?xs" "ver_module_id x = ver_module_id v" for x
    proof -
      have "?f v \<le> ?f x"
        by (rule first_by_first [OF _ v [unfolded latest] that]) (rule sorted_sort_key)
      with that(2) show ?thesis by simp
    qed
    ultimately show ?thesis unfolding members by (simp add: newest_published_def)
  qed
  have one: "\<exists>!x. x \<in> set (latest_published d) \<and> ver_module_id x = ver_module_id v"
    if "newest_published d v" for v
  proof -
    have "v \<in> set ?xs" using that unfolding members by (simp add: newest_published_def)
    then have "ver_module_id v \<in> ver_module_id ` set (latest_published d)"
      unfolding latest first_by_keys by blast
    moreover have "inj_on ver_module_id (set (latest_published d))"
      using first_by_distinct [of ver_module_id "{}" ?xs] by (simp add: latest distinct_map)
    ultimately show ?thesis by (auto simp: inj_on_def)
  qed
  show ?thesis unfolding picks_newest_def using newest one by blast
qed

lemma latest_published_newest: "v \<in> set (latest_published d) \<Longrightarrow> newest_published d v"
  using latest_published_picks by (simp add: picks_newest_def)

text \<open>\<open>offers d u dep\<close>: version \<open>u\<close> has the file, respectively the symbol, of the edge.\<close>

definition offers :: "db \<Rightarrow> string \<Rightarrow> ModuleDependency \<Rightarrow> bool" where
  "offers d u dep \<longleftrightarrow>
     (if Dep_Source dep = DependencySourceImport
      then (\<exists>r \<in> set (db_files d). fil_module_version_id r = u \<and> fil_path r = Dep_ImportPath dep)
      else Dep_ReferencedSymbol dep \<in> normalizeSymbol `
        (msg_full_name ` {r \<in> set (db_messages d). msg_module_version_id r = u}
         \<union> enm_full_name ` {r \<in> set (db_enums d). enm_module_version_id r = u}
         \<union> psv_full_name ` {r \<in> set (db_pservices d). psv_module_version_id r = u}))"

lemma latest_published_in:
  "v \<in> set (latest_published d) \<Longrightarrow> v \<in> set (db_versions d) \<and> ver_status v = ''published''"
  using first_by_subset [of ver_module_id "{}"] by (fastforce simp: latest_published_def)

lemma version_ids_read:
  assumes "list_all2 (\<lambda>r x. scanModuleVersion r = Inr x) rows latest"
    and "list_all2 (\<lambda>s u. p_uuid p s = Some u) (map Version_ID (filter P latest)) us"
    and "\<forall>r \<in> set rows. p_uuid p (ver_id r) = Some (ver_id r)" and "uuid_laws p"
  shows "set us \<subseteq> ver_id ` set rows"
proof
  fix u assume "u \<in> set us"
  with assms(2) obtain version where v: "version \<in> set latest" "p_uuid p (Version_ID version) = Some u"
    using list_all2_ex [OF assms(2)] by fastforce
  with assms(1) obtain r where "r \<in> set rows" "scanModuleVersion r = Inr version"
    using list_all2_ex [OF assms(1)] by auto
  moreover from this assms(3,4) have "Version_ID version = ver_id r" "p_uuid p (ver_id r) = Some (ver_id r)"
    using uuid_laws_trim by (auto simp: scanModuleVersion_def bindR_Inr)
  ultimately show "u \<in> ver_id ` set rows" using v by (intro image_eqI [of _ _ r]) auto
qed

lemma uuids_select:
  assumes "bindE (uuids p ss) (\<lambda>us. select (f us)) d = (Inr rows, d')"
  obtains us where "list_all2 (\<lambda>s u. p_uuid p s = Some u) ss us" and "rows = f us d"
proof -
  from assms obtain us d1 where us: "uuids p ss d = (Inr us, d1)" "rows = f us d1"
    by (auto simp: bindE_Inr)
  from uuids_run [OF us(1)] us(2) show ?thesis by (intro that [of us]) simp_all
qed

lemma ListProviderFiles_Inr:
  assumes "ListProviderFiles ids w = (Inr files, w')" and "f \<in> set files"
  obtains us r m v where "list_all2 (\<lambda>s u. p_uuid (w_platform w) s = Some u) ids us"
    and "r \<in> set (db_files (w_db w))" and "fil_module_version_id r = ver_id v" and "ver_id v \<in> set us"
    and "v \<in> set (db_versions (w_db w))" and "PFile_Path f = fil_path r"
    and "PFile_ModuleVersionID f = NewID (ver_id v)" and "PFile_ModuleID f = NewID (ver_module_id v)"
proof (cases "ids = []")
  case True
  with assms show ?thesis by (simp add: ListProviderFiles_def)
next
  case False
  with assms(1) show ?thesis unfolding ListProviderFiles_def
  proof (simp, elim query_rows_Inr)
    fix rows d
    assume sql: "bindE (uuids (w_platform w) ids) (\<lambda>us.
         select (\<lambda>d. sort_key (\<lambda>(path, m, v). (path, mod_name m))
           (with_module fil_module_version_id fil_path us (db_files d) d))) (w_db w) = (Inr rows, d)"
      and scan: "list_all2 (\<lambda>r x. scanProviderFile r = Inr x) rows files"
    from sql obtain us where us: "list_all2 (\<lambda>s u. p_uuid (w_platform w) s = Some u) ids us"
      and rows: "set rows = set (with_module fil_module_version_id fil_path us (db_files (w_db w)) (w_db w))"
      by (rule uuids_select) simp
    from list_all2_ex [OF scan] assms(2) obtain path m v
      where row: "(path, m, v) \<in> set rows" "scanProviderFile (path, m, v) = Inr f" by auto
    from row(1) obtain r where "r \<in> set (db_files (w_db w))" "fil_module_version_id r \<in> set us"
      "path = fil_path r" "v \<in> set (db_versions (w_db w))" "ver_id v = fil_module_version_id r"
      "mod_id m = ver_module_id v"
      unfolding rows with_module_in by blast
    moreover have "PFile_Path f = path" "PFile_ModuleVersionID f = NewID (ver_id v)"
      "PFile_ModuleID f = NewID (mod_id m)"
      using row(2) by (auto simp: scanProviderFile_def bindR_Inr)
    ultimately show ?thesis using us by (intro that [of us r v]) simp_all
  qed
qed

lemma ListProviderSymbols_Inr:
  assumes "ListProviderSymbols ids w = (Inr symbols, w')" and "s \<in> set symbols"
  obtains us v where "list_all2 (\<lambda>s u. p_uuid (w_platform w) s = Some u) ids us"
    and "ver_id v \<in> set us" and "v \<in> set (db_versions (w_db w))"
    and "PSym_ModuleVersionID s = NewID (ver_id v)" and "PSym_ModuleID s = NewID (ver_module_id v)"
    and "PSym_FullName s \<in>
        msg_full_name ` {r \<in> set (db_messages (w_db w)). msg_module_version_id r = ver_id v}
        \<union> enm_full_name ` {r \<in> set (db_enums (w_db w)). enm_module_version_id r = ver_id v}
        \<union> psv_full_name ` {r \<in> set (db_pservices (w_db w)). psv_module_version_id r = ver_id v}"
proof (cases "ids = []")
  case True
  with assms show ?thesis by (simp add: ListProviderSymbols_def)
next
  case False
  let ?rows = "\<lambda>us d. with_module msg_module_version_id (\<lambda>r. (msg_full_name r, msg_package_name r)) us
                (db_messages d) d
              @ with_module enm_module_version_id (\<lambda>r. (enm_full_name r, enm_package_name r)) us
                (db_enums d) d
              @ with_module psv_module_version_id (\<lambda>r. (psv_full_name r, psv_package_name r)) us
                (db_pservices d) d"
  from False assms(1) show ?thesis unfolding ListProviderSymbols_def
  proof (simp, elim query_rows_Inr)
    fix rows d
    assume sql: "bindE (uuids (w_platform w) ids) (\<lambda>us.
         select (\<lambda>d. sort_key (\<lambda>((fullName, packageName), m, v). (fullName, mod_name m)) (?rows us d)))
         (w_db w) = (Inr rows, d)"
      and scan: "list_all2 (\<lambda>r x. scanProviderSymbol r = Inr x) rows symbols"
    from sql obtain us where us: "list_all2 (\<lambda>s u. p_uuid (w_platform w) s = Some u) ids us"
      and rows: "set rows = set (?rows us (w_db w))"
      by (rule uuids_select) simp
    from list_all2_ex [OF scan] assms(2) obtain row
      where "row \<in> set rows" "scanProviderSymbol row = Inr s" by blast
    moreover obtain full package m v where "row = ((full, package), m, v)" by (cases row) auto
    ultimately have row: "((full, package), m, v) \<in> set (?rows us (w_db w))"
        "scanProviderSymbol ((full, package), m, v) = Inr s" using rows by auto
    then have "PSym_FullName s = full" "PSym_ModuleVersionID s = NewID (ver_id v)"
      "PSym_ModuleID s = NewID (mod_id m)"
      by (auto simp: scanProviderSymbol_def bindR_Inr)
    moreover have "ver_id v \<in> set us" "v \<in> set (db_versions (w_db w))" "mod_id m = ver_module_id v"
      "full \<in> msg_full_name ` {r \<in> set (db_messages (w_db w)). msg_module_version_id r = ver_id v}
        \<union> enm_full_name ` {r \<in> set (db_enums (w_db w)). enm_module_version_id r = ver_id v}
        \<union> psv_full_name ` {r \<in> set (db_pservices (w_db w)). psv_module_version_id r = ver_id v}"
      using row(1) unfolding set_append Un_iff with_module_in by auto
    ultimately show ?thesis using us by (intro that [of us v]) simp_all
  qed
qed


lemma buildProviderIndex_Inr:
  assumes run: "buildProviderIndex mid w = (Inr index, w')"
    and db: "canonical_versions (w_platform w) (w_db w)"
  shows "f \<in> set (index_files index path) \<Longrightarrow> PFile_Path f = path
      \<and> (\<exists>lv. newest_published (w_db w) lv \<and> PFile_ModuleVersionID f = ver_id lv
          \<and> PFile_ModuleID f = ver_module_id lv
          \<and> (\<exists>r \<in> set (db_files (w_db w)). fil_module_version_id r = ver_id lv \<and> fil_path r = path))"
    and "s \<in> set (index_symbols index symbol) \<Longrightarrow> normalizeSymbol (PSym_FullName s) = symbol
      \<and> (\<exists>lv. newest_published (w_db w) lv \<and> PSym_ModuleVersionID s = ver_id lv
          \<and> PSym_ModuleID s = ver_module_id lv
          \<and> PSym_FullName s \<in>
              msg_full_name ` {r \<in> set (db_messages (w_db w)). msg_module_version_id r = ver_id lv}
              \<union> enm_full_name ` {r \<in> set (db_enums (w_db w)). enm_module_version_id r = ver_id lv}
              \<union> psv_full_name ` {r \<in> set (db_pservices (w_db w)). psv_module_version_id r = ver_id lv})"
proof -
  let ?p = "w_platform w" and ?d = "w_db w"
  from run obtain latest w1 files w2 symbols where
    latest: "ListLatestPublishedModuleVersions w = (Inr latest, w1)"
    and files: "ListProviderFiles (map Version_ID (filter (\<lambda>version. Version_ModuleID version \<noteq> mid) latest)) w1
        = (Inr files, w2)"
    and symbols: "ListProviderSymbols (map Version_ID (filter (\<lambda>version. Version_ModuleID version \<noteq> mid) latest)) w2
        = (Inr symbols, w')"
    and index: "index_files index path = filter (\<lambda>f. PFile_Path f = path) files"
      "index_symbols index symbol = filter (\<lambda>s. normalizeSymbol (PSym_FullName s) = symbol) symbols"
    unfolding buildProviderIndex_def Let_def
    by (elim bindE_InrE) (auto simp: append_at_filter)
  have w1: "w_db w1 = ?d" "w_platform w1 = ?p"
    using stillD [OF provider_still(1) latest] by (auto simp: same_env_def)
  have w2: "w_db w2 = ?d" "w_platform w2 = ?p"
    using stillD [OF provider_still(2) files] w1 by (auto simp: same_env_def)
  have rows: "list_all2 (\<lambda>r x. scanModuleVersion r = Inr x) (latest_published ?d) latest"
    using latest unfolding ListLatestPublishedModuleVersions_def
    by (rule query_rows_Inr) simp
  have canonical: "p_uuid ?p (ver_id r) = Some (ver_id r)" "NewID (ver_id r) = ver_id r"
    "NewID (ver_module_id r) = ver_module_id r" if "r \<in> set (db_versions ?d)" for r
    using db that uuid_laws_trim [of ?p] unfolding canonical_versions_def by blast+
  have same: "v = lv" if "v \<in> set (db_versions ?d)" "lv \<in> set (latest_published ?d)" "ver_id v = ver_id lv" for v lv
    using db that latest_published_in [OF that(2)] by (auto simp: canonical_versions_def distinct_map inj_on_def)
  have latest_ids: "u \<in> ver_id ` set (latest_published ?d)"
    if "list_all2 (\<lambda>s u. p_uuid ?p s = Some u)
        (map Version_ID (filter (\<lambda>version. Version_ModuleID version \<noteq> mid) latest)) us" "u \<in> set us" for us u
    using version_ids_read [OF rows that(1)] that(2) db canonical latest_published_in
    by (auto simp: canonical_versions_def)
  show "f \<in> set (index_files index path) \<Longrightarrow> PFile_Path f = path
      \<and> (\<exists>lv. newest_published (w_db w) lv \<and> PFile_ModuleVersionID f = ver_id lv
          \<and> PFile_ModuleID f = ver_module_id lv
          \<and> (\<exists>r \<in> set (db_files (w_db w)). fil_module_version_id r = ver_id lv \<and> fil_path r = path))"
  proof -
    assume "f \<in> set (index_files index path)"
    then have f: "f \<in> set files" "PFile_Path f = path" by (auto simp: index)
    from files f(1) show ?thesis
    proof (rule ListProviderFiles_Inr)
      fix us r and m :: module_row and v
      assume us: "list_all2 (\<lambda>s u. p_uuid (w_platform w1) s = Some u)
          (map Version_ID (filter (\<lambda>version. Version_ModuleID version \<noteq> mid) latest)) us"
        and r: "r \<in> set (db_files (w_db w1))" "fil_module_version_id r = ver_id v" "ver_id v \<in> set us"
          "v \<in> set (db_versions (w_db w1))" "PFile_Path f = fil_path r"
          "PFile_ModuleVersionID f = NewID (ver_id v)" "PFile_ModuleID f = NewID (ver_module_id v)"
      from latest_ids us r obtain lv where "lv \<in> set (latest_published ?d)" "ver_id v = ver_id lv"
        by (auto simp: w1)
      with same r(4) w1 have "newest_published ?d v" using latest_published_newest by metis
      with r f canonical(2,3) [of v] show ?thesis by (auto simp: w1 intro!: exI [of _ v])
    qed
  qed
  show "s \<in> set (index_symbols index symbol) \<Longrightarrow> normalizeSymbol (PSym_FullName s) = symbol
      \<and> (\<exists>lv. newest_published (w_db w) lv \<and> PSym_ModuleVersionID s = ver_id lv
          \<and> PSym_ModuleID s = ver_module_id lv
          \<and> PSym_FullName s \<in>
              msg_full_name ` {r \<in> set (db_messages (w_db w)). msg_module_version_id r = ver_id lv}
              \<union> enm_full_name ` {r \<in> set (db_enums (w_db w)). enm_module_version_id r = ver_id lv}
              \<union> psv_full_name ` {r \<in> set (db_pservices (w_db w)). psv_module_version_id r = ver_id lv})"
  proof -
    assume "s \<in> set (index_symbols index symbol)"
    then have s: "s \<in> set symbols" "normalizeSymbol (PSym_FullName s) = symbol" by (auto simp: index)
    from symbols s(1) show ?thesis
    proof (rule ListProviderSymbols_Inr)
      fix us v
      assume us: "list_all2 (\<lambda>s u. p_uuid (w_platform w2) s = Some u)
          (map Version_ID (filter (\<lambda>version. Version_ModuleID version \<noteq> mid) latest)) us"
        and v: "ver_id v \<in> set us" "v \<in> set (db_versions (w_db w2))"
          "PSym_ModuleVersionID s = NewID (ver_id v)" "PSym_ModuleID s = NewID (ver_module_id v)"
        and name: "PSym_FullName s \<in>
              msg_full_name ` {r \<in> set (db_messages (w_db w2)). msg_module_version_id r = ver_id v}
              \<union> enm_full_name ` {r \<in> set (db_enums (w_db w2)). enm_module_version_id r = ver_id v}
              \<union> psv_full_name ` {r \<in> set (db_pservices (w_db w2)). psv_module_version_id r = ver_id v}"
      from latest_ids us v obtain lv where "lv \<in> set (latest_published ?d)" "ver_id v = ver_id lv"
        by (auto simp: w2)
      with same v(2) w2 have "newest_published ?d v" using latest_published_newest by metis
      with v(3,4) name s(2) canonical(2,3) [of v] v(2) show ?thesis
        by (intro conjI exI [of _ v]) (simp_all add: w2)
    qed
  qed
qed


text \<open>The files' own symbols leave the providers as they are.\<close>

lemma addFileSymbols_providers:
  "index_files (fold addFileSymbols metadata index) = index_files index"
  "index_symbols (fold addFileSymbols metadata index) = index_symbols index"
  by (induction metadata arbitrary: index) (simp_all add: addFileSymbols_def Let_def)

lemma message_references_source:
  "SymbolRef source s \<in> set (message_references m) \<Longrightarrow> source = DependencySourceTypeReference"
  by (induction m) auto

lemma references_source: "SymbolRef source s \<in> set (references metadata) \<Longrightarrow> source \<noteq> DependencySourceImport"
  by (auto simp: references_def file_references_def service_references_def
      dest: message_references_source)

lemma reference_edge_cases:
  assumes "e \<in> set (reference_edges mid index metadata)"
  obtains (import_edge) path m where "index_files index path = [m]" "edge_provider e = providerFromFile m"
      "edge_source e = DependencySourceImport" "edge_path e = path"
    | (symbol_edge) s m where "index_symbols index s = [m]" "edge_provider e = providerFromSymbol m"
      "edge_source e \<noteq> DependencySourceImport" "edge_symbol e = s"
proof -
  from assms obtain ref where ref: "ref \<in> set (references metadata)" "e \<in> set (edges_in (outcome_of index ref))"
    by (auto simp: reference_edges_def)
  show ?thesis
  proof (cases ref)
    case (ImportRef path)
    with ref import_edge show ?thesis by (auto split: if_splits list.splits)
  next
    case (SymbolRef source s)
    with ref references_source [of source s metadata] symbol_edge show ?thesis
      by (auto simp: Let_def split: if_splits list.splits)
  qed
qed

definition unique_edge :: "ModuleDependency \<Rightarrow> string \<times> string \<times> DependencySource \<times> string \<times> string" where
  "unique_edge dep = (Dep_ConsumerModuleVersionID dep, Dep_ProviderModuleVersionID dep, Dep_Source dep,
     Dep_ImportPath dep, Dep_ReferencedSymbol dep)"

lemma resolved_edges_sound:
  assumes index: "buildProviderIndex (Module_ID module) w = (Inr index, w1)"
    and db: "canonical_versions (w_platform w) (w_db w)"
    and run: "resolveDependencies module v metadata index w1 = (Inr (deps, holes), w')"
  shows "distinct (map unique_edge deps)"
    and "dep \<in> set deps \<Longrightarrow> Dep_ConsumerModuleID dep = Module_ID module
      \<and> Dep_ConsumerModuleVersionID dep = Version_ID v
      \<and> Dep_ProviderModuleID dep \<noteq> Module_ID module
      \<and> (\<exists>lv. newest_published (w_db w) lv \<and> Dep_ProviderModuleVersionID dep = ver_id lv
           \<and> Dep_ProviderModuleID dep = ver_module_id lv
           \<and> offers (w_db w) (ver_id lv) dep)"
proof -
  let ?now = "w_clock w1 (w_ticks w1)" and ?index = "fold addFileSymbols metadata index"
  let ?es = "first_by (edge_key v) {} (reference_edges (Module_ID module) ?index metadata)"
  from resolveDependencies_Inr [OF run]
  have ent: "entities (dependency_of module v ?now) ?es deps" by blast
  have "map unique_edge deps = map (\<lambda>e. (Version_ID v, Provider_ModuleVersionID (edge_provider e),
      edge_source e, edge_path e, edge_symbol e)) ?es"
    by (rule entities_map [OF ent]) (simp add: unique_edge_def dependency_of_def)
  moreover have "distinct (map (edge_key v) ?es)" by (rule first_by_distinct)
  ultimately show "distinct (map unique_edge deps)"
    by (auto simp: distinct_map inj_on_def edge_key_def)
  assume "dep \<in> set deps"
  with entities_in [OF ent] obtain e i where e: "e \<in> set ?es" "dep = dependency_of module v ?now e (NewID i)"
    by blast
  then have in_ref: "e \<in> set (reference_edges (Module_ID module) ?index metadata)"
    using first_by_subset [of "edge_key v" "{}"] by fast
  then have other: "Provider_ModuleID (edge_provider e) \<noteq> Module_ID module"
    by (simp add: reference_edges_def)
  have "\<exists>lv. newest_published (w_db w) lv \<and> Dep_ProviderModuleVersionID dep = ver_id lv
           \<and> Dep_ProviderModuleID dep = ver_module_id lv
      \<and> offers (w_db w) (ver_id lv) dep"
    using in_ref
  proof (cases rule: reference_edge_cases)
    case (import_edge path m)
    with buildProviderIndex_Inr(1) [OF index db, of m path] e show ?thesis
      by (auto simp: addFileSymbols_providers offers_def dependency_of_def providerFromFile_def)
  next
    case (symbol_edge s m)
    from buildProviderIndex_Inr(2) [OF index db, of m s] symbol_edge(1) obtain lv
      where lv: "newest_published (w_db w) lv" "PSym_ModuleVersionID m = ver_id lv"
        "PSym_ModuleID m = ver_module_id lv"
        and name: "normalizeSymbol (PSym_FullName m) = s"
        and "PSym_FullName m \<in>
              msg_full_name ` {r \<in> set (db_messages (w_db w)). msg_module_version_id r = ver_id lv}
              \<union> enm_full_name ` {r \<in> set (db_enums (w_db w)). enm_module_version_id r = ver_id lv}
              \<union> psv_full_name ` {r \<in> set (db_pservices (w_db w)). psv_module_version_id r = ver_id lv}"
      by (auto simp: addFileSymbols_providers)
    from imageI [OF this(5), of normalizeSymbol] lv symbol_edge e(2) show ?thesis
      by (intro exI [of _ lv]) (simp_all add: name offers_def dependency_of_def providerFromSymbol_def)
  qed
  with other e show "Dep_ConsumerModuleID dep = Module_ID module
      \<and> Dep_ConsumerModuleVersionID dep = Version_ID v
      \<and> Dep_ProviderModuleID dep \<noteq> Module_ID module
      \<and> (\<exists>lv. newest_published (w_db w) lv \<and> Dep_ProviderModuleVersionID dep = ver_id lv
           \<and> Dep_ProviderModuleID dep = ver_module_id lv
           \<and> offers (w_db w) (ver_id lv) dep)"
    by (simp add: dependency_of_def)
qed


section \<open>Rebuilding\<close>

lemma WithinTransaction_ran:
  assumes "WithinTransaction fn w = (Inr x, w')"
  shows "\<exists>wc wd. w_db wc = w_db w \<and> fn wc = (Inr x, wd) \<and> w_db w' = w_db wd"
  using assms
proof (cases rule: WithinTransaction_cases)
  case (commit w0 y w1)
  then show ?thesis by (intro exI [of _ "w0\<lparr>w_tx := True\<rparr>"] exI [of _ w1]) (auto simp: control_Inr)
qed auto

lemma RebuildModuleVersionDependencies_Inr:
  assumes "RebuildModuleVersionDependencies input w = (Inr out, w')"
  obtains metadata index w1 w2 w3 where "still w w1" and "still w w3"
    and "buildProviderIndex (Module_ID (Rebuilt_Module out)) w1 = (Inr index, w2)"
    and "resolveDependencies (Rebuilt_Module out) (Rebuilt_Version out) metadata index w2
      = (Inr (Rebuilt_Dependencies out, Rebuilt_Unresolved out), w3)"
    and "WithinTransaction (storeResolvedDependencies (Rebuilt_Module out) (Rebuilt_Version out)
      (Rebuilt_Dependencies out) (Rebuilt_Unresolved out)) w3 = (Inr (), w')"
  using assms unfolding RebuildModuleVersionDependencies_def
proof (elim bindE_InrE)
  fix m :: Module and v :: ModuleVersion and metadata index pair u wa wb w1 w2 w3 w4
  assume a: "resolveModule input w = (Inr m, wa)"
    and b: "resolveModuleVersion (Module_ID m) input wa = (Inr v, wb)"
    and c: "Metadata_GetByModuleVersion (Version_ID v) wb = (Inr metadata, w1)"
    and index: "buildProviderIndex (Module_ID m) w1 = (Inr index, w2)"
    and resolve: "resolveDependencies m v metadata index w2 = (Inr pair, w3)"
    and rest: "(case pair of (dependencies, unresolved) \<Rightarrow>
        bindE (WithinTransaction (storeResolvedDependencies m v dependencies unresolved))
          (\<lambda>_. ret \<lparr>Rebuilt_Module = m, Rebuilt_Version = v, Rebuilt_Dependencies = dependencies,
            Rebuilt_Unresolved = unresolved\<rparr>)) w3 = (Inr out, w')"
  obtain deps holes where pair: "pair = (deps, holes)" by (cases pair)
  from rest pair have store: "WithinTransaction (storeResolvedDependencies m v deps holes) w3 = (Inr (), w')"
    and out: "out = \<lparr>Rebuilt_Module = m, Rebuilt_Version = v, Rebuilt_Dependencies = deps,
            Rebuilt_Unresolved = holes\<rparr>"
    by (auto simp: bindE_Inr)
  have "still w wa" by (rule stepsD [OF lookup_still(1) a])
  moreover have "still wa wb" by (rule stepsD [OF lookup_still(2) b])
  moreover have "still wb w1" by (rule stepsD [OF metadata_still c])
  moreover have "still w1 w2" by (rule stepsD [OF provider_still(4) index])
  moreover have "still w2 w3" by (rule stepsD [OF resolve_still resolve])
  ultimately have "still w w1" "still w w3" by (meson still.step_trans)+
  with index resolve store show ?thesis by (intro that) (simp_all add: out pair)
qed

text \<open>
  C23: the edges a rebuild returns are sound: each runs from the rebuilt version to a version of the
  provider module it names, which is another module than the rebuilt one; no published version of that module
  was created later; and the version really has the imported file, respectively a message,
  enum or service of the referenced name; and no two edges agree on the columns of the table's
  unique index, so storing them cannot violate it.
\<close>

theorem rebuild_edges_sound:
  assumes "RebuildModuleVersionDependencies input w = (Inr out, w')"
    and "canonical_versions (w_platform w) (w_db w)"
  shows "distinct (map unique_edge (Rebuilt_Dependencies out))
    \<and> (\<forall>dep \<in> set (Rebuilt_Dependencies out).
         Dep_ConsumerModuleID dep = Module_ID (Rebuilt_Module out)
         \<and> Dep_ConsumerModuleVersionID dep = Version_ID (Rebuilt_Version out)
         \<and> Dep_ProviderModuleID dep \<noteq> Module_ID (Rebuilt_Module out)
         \<and> (\<exists>lv. newest_published (w_db w) lv \<and> Dep_ProviderModuleVersionID dep = ver_id lv
           \<and> Dep_ProviderModuleID dep = ver_module_id lv
              \<and> offers (w_db w) (ver_id lv) dep))"
  using assms(1)
proof (rule RebuildModuleVersionDependencies_Inr)
  fix metadata index w1 w2 w3
  assume "still w w1"
    and index: "buildProviderIndex (Module_ID (Rebuilt_Module out)) w1 = (Inr index, w2)"
    and run: "resolveDependencies (Rebuilt_Module out) (Rebuilt_Version out) metadata index w2
      = (Inr (Rebuilt_Dependencies out, Rebuilt_Unresolved out), w3)"
  then have w1: "w_db w1 = w_db w" "w_platform w1 = w_platform w" by (simp_all add: still_def same_env_def)
  with assms(2) have db: "canonical_versions (w_platform w1) (w_db w1)" by simp
  show ?thesis using resolved_edges_sound [OF index db run] by (simp add: w1)
qed

definition dependencies_event :: "RebuildModuleVersionDependenciesOutput \<Rightarrow> time \<Rightarrow> Record" where
  "dependencies_event out =
     NewModuleDependenciesUpdated (Rebuilt_Module out) (Rebuilt_Version out)
       (int (length (Rebuilt_Dependencies out))) (int (length (Rebuilt_Unresolved out)))"

lemma rebuild_stored:
  assumes "RebuildModuleVersionDependencies input w = (Inr out, w')" and "\<not> w_tx w"
  shows "\<exists>u drows hrows oid occurred at.
        p_uuid (w_platform w) (Version_ID (Rebuilt_Version out)) = Some u
        \<and> list_all2 (dependency_stored (w_platform w)) (Rebuilt_Dependencies out) drows
        \<and> list_all2 (unresolved_stored (w_platform w)) (Rebuilt_Unresolved out) hrows
        \<and> w_db w' = db_outbox_update (\<lambda>rows. rows @ [new_outbox_row oid (dependencies_event out occurred) at])
            (db_generated_update Suc (replaced u drows hrows (w_db w)))"
  using assms(1)
proof (rule RebuildModuleVersionDependencies_Inr)
  fix w3 :: world
  assume w3: "still w w3"
    and "WithinTransaction (storeResolvedDependencies (Rebuilt_Module out) (Rebuilt_Version out)
      (Rebuilt_Dependencies out) (Rebuilt_Unresolved out)) w3 = (Inr (), w')"
  moreover from w3 assms(2) have "\<not> w_tx w3" by (simp add: still_def same_env_def)
  ultimately obtain w5 where store: "storeResolvedDependencies (Rebuilt_Module out) (Rebuilt_Version out)
      (Rebuilt_Dependencies out) (Rebuilt_Unresolved out)
      (w3\<lparr>w_calls := Suc (w_calls w3), w_tx := True\<rparr>) = (Inr (), w5)" and w5: "w_db w' = w_db w5"
    by (auto elim: WithinTransaction_success)
  from w3 have w: "w_db w3 = w_db w" "w_platform w3 = w_platform w"
    by (simp_all add: still_def same_env_def)
  from store show ?thesis
  proof (rule store_Inr, goal_cases)
    case (1 u drows hrows oid occurred at)
    then show ?case
      by (intro exI [of _ u] exI [of _ drows] exI [of _ hrows] exI [of _ oid] exI [of _ occurred]
          exI [of _ at] conjI) (simp_all add: w w5 dependencies_event_def)
  qed
qed

text \<open>
  C24: a rebuild is all or nothing: after an error every table is as it was; after success the rows
  of the rebuilt version are exactly the returned edges and unresolved entries, the rows of every
  other version are as before, and the outbox has one event more, with their numbers.
\<close>

theorem rebuild_all_or_nothing:
  assumes "RebuildModuleVersionDependencies input w = (r, w')" and "\<not> w_tx w"
  shows "case r of
      Inl e \<Rightarrow> w_db w' = w_db w
    | Inr out \<Rightarrow> (\<exists>u drows hrows oid occurred at.
        p_uuid (w_platform w) (Version_ID (Rebuilt_Version out)) = Some u
        \<and> list_all2 (dependency_stored (w_platform w)) (Rebuilt_Dependencies out) drows
        \<and> list_all2 (unresolved_stored (w_platform w)) (Rebuilt_Unresolved out) hrows
        \<and> w_db w' = db_outbox_update (\<lambda>rows. rows @ [new_outbox_row oid (dependencies_event out occurred) at])
            (db_generated_update Suc (replaced u drows hrows (w_db w))))"
proof (cases r)
  case (Inl e)
  have "atomic (RebuildModuleVersionDependencies input)"
    unfolding RebuildModuleVersionDependencies_def
    by (intro atomic_after lookup_still metadata_still provider_still resolve_still)
       (auto intro!: atomic_ret atomic_transaction split: prod.splits)
  with assms Inl show ?thesis by (auto dest: atomicD)
next
  case (Inr out)
  with rebuild_stored assms show ?thesis by simp
qed

text \<open>
  C25: a version's dependencies are rebuilt successfully at most once while the outbox keeps a record
  with the deduplication key of that rebuild's event, the record it appended, whether this is still
  pending, claimed or published: the key names the version only, so every later rebuild of the version fails on it, and by
  the previous property changes nothing.
\<close>

theorem rebuild_once:
  assumes "RebuildModuleVersionDependencies input w = (Inr out, w1)" and "\<not> w_tx w"
    and "\<exists>r \<in> set (db_outbox (w_db w2)). obx_dedup_key r = obx_dedup_key (last (db_outbox (w_db w1)))"
    and "RebuildModuleVersionDependencies input' w2 = (Inr out', w3)"
  shows "Module_ID (Rebuilt_Module out') \<noteq> Module_ID (Rebuilt_Module out)
    \<or> Version_Version (Rebuilt_Version out') \<noteq> Version_Version (Rebuilt_Version out)"
proof (rule ccontr)
  define key where "key = ''module:'' @ Module_ID (Rebuilt_Module out) @ '':version:''
    @ Version_Version (Rebuilt_Version out) @ '':dependencies-updated''"
  assume "\<not> ?thesis"
  then have same: "Module_ID (Rebuilt_Module out') = Module_ID (Rebuilt_Module out)"
    "Version_Version (Rebuilt_Version out') = Version_Version (Rebuilt_Version out)" by auto
  have used: "obx_dedup_key (last (db_outbox (w_db w1))) = key"
    using rebuild_stored [OF assms(1,2)]
    by (auto simp: dependencies_event_def NewModuleDependenciesUpdated_def new_record_def key_def)
  from assms(4) show False
  proof (rule RebuildModuleVersionDependencies_Inr)
    fix wb :: world
    assume wb: "still w2 wb"
      and tx: "WithinTransaction (storeResolvedDependencies (Rebuilt_Module out') (Rebuilt_Version out')
        (Rebuilt_Dependencies out') (Rebuilt_Unresolved out')) wb = (Inr (), w3)"
    from tx obtain wc wd where "w_db wc = w_db wb"
      and store: "storeResolvedDependencies (Rebuilt_Module out') (Rebuilt_Version out')
        (Rebuilt_Dependencies out') (Rebuilt_Unresolved out') wc = (Inr (), wd)"
      using WithinTransaction_ran [OF tx] by auto
    moreover from wb have "w_db wb = w_db w2" by (simp add: still_def)
    moreover from store have "\<forall>r \<in> set (db_outbox (w_db wc)). obx_dedup_key r
        \<noteq> ''module:'' @ Module_ID (Rebuilt_Module out') @ '':version:''
            @ Version_Version (Rebuilt_Version out') @ '':dependencies-updated''"
      by (rule store_Inr)
    ultimately have "\<forall>r \<in> set (db_outbox (w_db w2)). obx_dedup_key r \<noteq> key"
      unfolding key_def same by simp
    with used assms(3) show False by metis
  qed
qed


section \<open>Affected modules\<close>

text \<open>
  \<open>affects d L u cm lv r\<close>: edge \<open>r\<close> makes module \<open>cm\<close> with version \<open>lv\<close>, one of \<open>L\<close>, depend on
  module \<open>u\<close>.
\<close>

definition affects :: "db \<Rightarrow> version_row set \<Rightarrow> string \<Rightarrow> module_row \<Rightarrow> version_row \<Rightarrow> dependency_row \<Rightarrow> bool" where
  "affects d L u cm lv r \<longleftrightarrow>
     r \<in> set (db_dependencies d) \<and> dep_provider_module_id r = u
     \<and> lv \<in> L \<and> ver_id lv = dep_consumer_module_version_id r
     \<and> cm \<in> set (db_modules d) \<and> mod_id cm = dep_consumer_module_id r"

text \<open>The edges of one entry of the answer: those of the modules and versions of these names.\<close>

definition entry_edges :: "db \<Rightarrow> version_row set \<Rightarrow> string \<Rightarrow> string \<times> string \<Rightarrow> dependency_row set" where
  "entry_edges d L u key = {r. \<exists>cm lv. affects d L u cm lv r \<and> key = (mod_name cm, ver_version lv)}"

lemma affected_joined_in:
  "(key, r) \<in> set (affected_joined u d) \<longleftrightarrow> r \<in> entry_edges d (set (latest_published d)) u key"
  by (auto simp: affected_joined_def affects_def entry_edges_def by_id_def)

lemma affected_group_set:
  "set (affected_group u d key) = entry_edges d (set (latest_published d)) u key"
proof -
  have "r \<in> set (affected_group u d key) \<longleftrightarrow> (key, r) \<in> set (affected_joined u d)" for r
    by (force simp: affected_group_def)
  then show ?thesis by (auto simp: affected_joined_in)
qed

lemma traverse_inverse:
  assumes "traverse f ss = Inr xs" and "\<And>s x. f s = Inr x \<Longrightarrow> g x = s"
  shows "map g xs = ss"
  using assms(1) by (induction ss arbitrary: xs) (auto simp: bindR_Inr assms(2))

lemma cast_inverse:
  "cast_source s = Inr x \<Longrightarrow> DependencySource_String x = s"
  "cast_reason s = Inr y \<Longrightarrow> DependencyResolutionReason_String y = s"
  by (auto simp: cast_source_def cast_reason_def split: option.splits if_splits)

lemma scanAffectedModule_Inr:
  assumes "scanAffectedModule (name, version, sources, reasons) = Inr m"
  shows "NewModuleName name = Inr (Affected_ModuleName m)" "NewVersion version = Inr (Affected_LatestVersion m)"
    "map DependencySource_String (Affected_DependencySources m) = sources"
    "map DependencyResolutionReason_String (Affected_Reasons m) = reasons"
  using assms traverse_inverse [OF _ cast_inverse(1)] traverse_inverse [OF _ cast_inverse(2)]
  by (auto simp: scanAffectedModule_def bindR_Inr)

text \<open>
  C35: the affected modules of a provider. For some choice of one newest published version for each
  module that has any, the answer has one entry for each module name and version with a stored edge
  from such a version to the provider, by name, and no other; and each entry lists the
  different sources of its edges and their different reasons, in order, without the empty reason.
\<close>

theorem affected_modules_exact:
  assumes "ListAffectedModules mid w = (Inr ms, w')" and "p_uuid (w_platform w) mid = Some u"
  shows "\<exists>L keys. picks_newest (w_db w) L
    \<and> set keys = {key. entry_edges (w_db w) L u key \<noteq> {}} \<and> distinct keys \<and> sorted (map fst keys)
    \<and> list_all2 (\<lambda>key m. NewModuleName (fst key) = Inr (Affected_ModuleName m)
         \<and> NewVersion (snd key) = Inr (Affected_LatestVersion m)
         \<and> map DependencySource_String (Affected_DependencySources m)
             = sorted_list_of_set (dep_source ` entry_edges (w_db w) L u key)
         \<and> map DependencyResolutionReason_String (Affected_Reasons m)
             = sorted_list_of_set (dep_reason ` entry_edges (w_db w) L u key - {''''})) keys ms"
  using assms(1) unfolding ListAffectedModules_def
proof (rule query_rows_Inr)
  fix rows d
  let ?L = "set (latest_published (w_db w))"
    and ?keys = "sort_key fst (remdups (map fst (affected_joined u (w_db w))))"
  assume sql: "bindE (uuid (w_platform w) mid) (\<lambda>u. select (affected_rows u)) (w_db w) = (Inr rows, d)"
    and scan: "list_all2 (\<lambda>r x. scanAffectedModule r = Inr x) rows ms"
  from sql assms(2) have rows: "rows = affected_rows u (w_db w)" by (auto simp: bindE_Inr)
  have "set ?keys = fst ` set (affected_joined u (w_db w))" by simp
  also have "\<dots> = {key. entry_edges (w_db w) ?L u key \<noteq> {}}"
    using affected_joined_in [of _ _ u "w_db w"] by (fastforce simp: image_iff)
  finally have members: "set ?keys = {key. entry_edges (w_db w) ?L u key \<noteq> {}}" .
  have "list_all2 (\<lambda>key m. scanAffectedModule (fst key, snd key,
      sorted_list_of_set (dep_source ` entry_edges (w_db w) ?L u key),
      sorted_list_of_set (dep_reason ` entry_edges (w_db w) ?L u key - {''''})) = Inr m) ?keys ms"
    using scan unfolding rows affected_rows_def list_all2_map1 affected_group_set .
  then have "list_all2 (\<lambda>key m. NewModuleName (fst key) = Inr (Affected_ModuleName m)
         \<and> NewVersion (snd key) = Inr (Affected_LatestVersion m)
         \<and> map DependencySource_String (Affected_DependencySources m)
             = sorted_list_of_set (dep_source ` entry_edges (w_db w) ?L u key)
         \<and> map DependencyResolutionReason_String (Affected_Reasons m)
             = sorted_list_of_set (dep_reason ` entry_edges (w_db w) ?L u key - {''''})) ?keys ms"
    by (rule list_all2_mono) (intro conjI; erule scanAffectedModule_Inr)
  moreover have "distinct ?keys" "sorted (map fst ?keys)" by simp_all
  ultimately show ?thesis
    using latest_published_picks members by blast
qed

section \<open>Loading metadata\<close>

text \<open>
  C36: rebuilding the message tree from the rows of a file always ends when the rows have different
  ids, none of them the empty text that stands for the top level - as the primary key and the uuid
  type of the column ensure - even if the parent ids form cycles.
\<close>

theorem message_tree_ends:
  assumes "distinct (map mrow_id rows)" and "'''' \<notin> mrow_id ` set rows"
  shows "\<exists>messages. buildMessageTree rows = Some messages"
  using assms by (intro buildMessageTree_total) (simp add: keyed_def)

end
