(* ===== verification/Dependency_Witnesses.thy ===== *)
theory Dependency_Witnesses
  imports Dependency_Claims
begin

text \<open>
  The properties of the dependency graph applied to a registry of two modules: \<open>billing\<close>, whose file
  imports and refers to \<open>common\<close>'s, a well-known type and something nobody provides.
\<close>

definition sample_version :: "string \<Rightarrow> string \<Rightarrow> version_row" where
  "sample_version u m = \<lparr>ver_id = u, ver_module_id = m, ver_version = ''v1'', ver_digest = '''',
     ver_status = ''published'', ver_created_at = 5, ver_deprecated_at = None,
     ver_deprecated_by = '''', ver_deprecation_reason = ''''\<rparr>"

definition sample_module :: "string \<Rightarrow> string \<Rightarrow> module_row" where
  "sample_module u name = \<lparr>mod_id = u, mod_name = name, mod_description = '''',
     mod_repository_url = '''', mod_created_at = 1, mod_updated_at = 1\<rparr>"

definition sample_field :: "int \<Rightarrow> string \<Rightarrow> ProtoField" where
  "sample_field n typeName = \<lparr>Field_Name = ''f'', Field_Number = n, Field_Type = ''message'',
     Field_TypeName = typeName, Field_Label = '''', Field_JSONName = '''', Field_OneofName = '''',
     Field_IsRepeated = False, Field_IsMap = False\<rparr>"

definition sample_graph :: db where
  "sample_graph = empty_db\<lparr>
     db_modules := [sample_module ''a-1'' ''billing'', sample_module ''a-2'' ''common''],
     db_versions := [sample_version ''b-1'' ''a-1'', sample_version ''b-2'' ''a-2''],
     db_proto := empty_proto\<lparr>
       pdb_files := [\<lparr>fil_id = ''c-1'', fil_module_version_id = ''b-1'', fil_path = ''billing.proto'',
           fil_package_name = ''billing'', fil_syntax = ''proto3''\<rparr>,
         \<lparr>fil_id = ''c-2'', fil_module_version_id = ''b-2'', fil_path = ''common.proto'',
           fil_package_name = ''common'', fil_syntax = ''proto3''\<rparr>],
       pdb_imports := map (\<lambda>path. \<lparr>imp_proto_file_id = ''c-1'', imp_import_path = path,
           imp_is_public = False, imp_is_weak = False\<rparr>)
         [''common.proto'', ''google/protobuf/any.proto'', ''lost.proto''],
       pdb_messages := [\<lparr>msg_id = ''d-1'', msg_module_version_id = ''b-1'', msg_proto_file_id = ''c-1'',
           msg_parent_message_id = None, msg_package_name = ''billing'', msg_name = ''Bill'',
           msg_full_name = ''billing.Bill''\<rparr>,
         \<lparr>msg_id = ''d-2'', msg_module_version_id = ''b-2'', msg_proto_file_id = ''c-2'',
           msg_parent_message_id = None, msg_package_name = ''common'', msg_name = ''Money'',
           msg_full_name = ''common.Money''\<rparr>],
       pdb_fields := [\<lparr>fld_message_id = ''d-1'', fld_field = sample_field 1 ''.common.Money''\<rparr>,
         \<lparr>fld_message_id = ''d-1'', fld_field = sample_field 2 ''.common.Money''\<rparr>,
         \<lparr>fld_message_id = ''d-1'', fld_field = sample_field 3 ''''\<rparr>]\<rparr>\<rparr>"

definition sample_rebuild :: RebuildModuleVersionDependenciesInput where
  "sample_rebuild = \<lparr>Rebuild_ModuleID = '''', Rebuild_ModuleName = ''billing'',
     Rebuild_ModuleVersionID = '''', Rebuild_Version = ''v1''\<rparr>"

definition rebuild_run :: "(goerr + RebuildModuleVersionDependenciesOutput) \<times> world" where
  "rebuild_run = RebuildModuleVersionDependencies sample_rebuild (sample_world sample_graph)"

definition rebuild_result :: "(goerr + RebuildModuleVersionDependenciesOutput)
    \<Rightarrow> ((string \<times> string) list \<times> string list) option" where
  "rebuild_result r = (case r of Inl e \<Rightarrow> None
     | Inr out \<Rightarrow> Some (map (\<lambda>d. (Dep_ImportPath d, Dep_ReferencedSymbol d)) (Rebuilt_Dependencies out),
         map Unres_ImportPath (Rebuilt_Unresolved out)))"

lemma rebuild_run_value:
  "rebuild_result (fst rebuild_run)
    = Some ([(''common.proto'', ''''), ('''', ''common.Money'')], [''lost.proto''])"
  by code_simp

lemma rebuild_run_eq: "\<exists>out. RebuildModuleVersionDependencies sample_rebuild (sample_world sample_graph)
    = (Inr out, snd rebuild_run) \<and> fst rebuild_run = Inr out"
  using rebuild_run_value
  by (cases "fst rebuild_run") (auto simp: rebuild_result_def rebuild_run_def prod_eq_iff)

lemma sample_graph_canonical: "canonical_versions sample_platform sample_graph"
  unfolding canonical_versions_def
  by (simp add: sample_uuid_laws sample_graph_def sample_version_def sample_uuid_def hex_digits_def)

theorem resolver_reference_witness:
  "\<forall>v metadata index. \<exists>deps holes w'. resolveDependencies \<lparr>Module_ID = ''a-1'', Module_Name = ''billing'',
       Module_Description = '''', Module_RepositoryURL = '''', Module_CreatedAt = 1, Module_UpdatedAt = 1\<rparr>
     v metadata index (sample_world sample_graph) = (Inr (deps, holes), w')"
  using resolver_reference [of "sample_world sample_graph"] by (simp add: sample_world_def) blast

theorem rebuild_edges_sound_witness:
  "\<exists>out. fst rebuild_run = Inr out \<and> Rebuilt_Dependencies out \<noteq> []
     \<and> (\<forall>dep \<in> set (Rebuilt_Dependencies out).
          \<exists>lv. newest_published sample_graph lv \<and> Dep_ProviderModuleID dep = ver_module_id lv
            \<and> offers sample_graph (ver_id lv) dep)"
proof -
  obtain out where out: "RebuildModuleVersionDependencies sample_rebuild (sample_world sample_graph)
    = (Inr out, snd rebuild_run)" "fst rebuild_run = Inr out" using rebuild_run_eq by blast
  have "canonical_versions (w_platform (sample_world sample_graph)) (w_db (sample_world sample_graph))"
    by (simp add: sample_graph_canonical)
  from rebuild_edges_sound [OF out(1) this] have "\<forall>dep \<in> set (Rebuilt_Dependencies out).
      \<exists>lv. newest_published sample_graph lv \<and> Dep_ProviderModuleID dep = ver_module_id lv
        \<and> offers sample_graph (ver_id lv) dep" by auto
  moreover have "Rebuilt_Dependencies out \<noteq> []"
    using rebuild_run_value out(2) by (auto simp: rebuild_result_def)
  ultimately show ?thesis using out(2) by blast
qed

theorem rebuild_all_or_nothing_witness:
  "\<exists>u drows. w_db (snd rebuild_run) \<noteq> sample_graph
     \<and> filter (\<lambda>r. dep_consumer_module_version_id r \<noteq> u) (db_dependencies (w_db (snd rebuild_run)))
        = filter (\<lambda>r. dep_consumer_module_version_id r \<noteq> u) drows"
proof -
  obtain out where out: "RebuildModuleVersionDependencies sample_rebuild (sample_world sample_graph)
    = (Inr out, snd rebuild_run)" using rebuild_run_eq by blast
  from rebuild_all_or_nothing [OF out] obtain u drows hrows oid occurred at
    where db: "w_db (snd rebuild_run) = db_outbox_update (\<lambda>rows. rows @
        [new_outbox_row oid (dependencies_event out occurred) at])
       (db_generated_update Suc (replaced u drows hrows sample_graph))" by auto
  then have "db_outbox (w_db (snd rebuild_run)) \<noteq> []" by simp
  moreover have "db_outbox sample_graph = []" by (simp add: sample_graph_def empty_db_def)
  ultimately have "w_db (snd rebuild_run) \<noteq> sample_graph" by auto
  moreover have "db_dependencies (w_db (snd rebuild_run)) = drows"
    by (simp add: db replaced_def sample_graph_def empty_db_def)
  ultimately show ?thesis by blast
qed

definition twice_run :: "(goerr + RebuildModuleVersionDependenciesOutput) \<times> world" where
  "twice_run = RebuildModuleVersionDependencies sample_rebuild (snd rebuild_run)"

lemma twice_run_value: "fst twice_run = Inl (Domain ErrDuplicate)"
  by code_simp

text \<open>The world after the publisher has delivered the event.\<close>

definition delivered_world :: world where
  "delivered_world = (snd rebuild_run)\<lparr>w_db := db_outbox_update
     (map (\<lambda>r. r\<lparr>obx_status := ''published''\<rparr>)) (w_db (snd rebuild_run))\<rparr>"

theorem rebuild_once_witness:
  "\<not> (\<exists>out' w3. RebuildModuleVersionDependencies sample_rebuild delivered_world = (Inr out', w3)
       \<and> Module_ID (Rebuilt_Module out') = ''a-1'' \<and> Version_Version (Rebuilt_Version out') = ''v1'')
   \<and> (\<exists>out. fst rebuild_run = Inr out \<and> Module_ID (Rebuilt_Module out) = ''a-1'')"
proof -
  obtain out where out: "RebuildModuleVersionDependencies sample_rebuild (sample_world sample_graph)
    = (Inr out, snd rebuild_run)" and res: "fst rebuild_run = Inr out" using rebuild_run_eq by blast
  have ids: "(case fst rebuild_run of Inl e \<Rightarrow> ('''', '''')
      | Inr out \<Rightarrow> (Module_ID (Rebuilt_Module out), Version_Version (Rebuilt_Version out))) = (''a-1'', ''v1'')"
    by code_simp
  from ids res have named: "Module_ID (Rebuilt_Module out) = ''a-1''" "Version_Version (Rebuilt_Version out) = ''v1''"
    by simp_all
  have "db_outbox (w_db (snd rebuild_run)) \<noteq> []" by code_simp
  then have "\<exists>r \<in> set (db_outbox (w_db delivered_world)).
      obx_dedup_key r = obx_dedup_key (last (db_outbox (w_db (snd rebuild_run))))"
    by (auto simp: delivered_world_def)
  from rebuild_once [OF out _ this] named res show ?thesis by auto
qed


definition affected_run :: "(goerr + AffectedModule list) \<times> world" where
  "affected_run = ListAffectedModules ''a2'' (snd rebuild_run)"

theorem affected_modules_exact_witness:
  "\<exists>L key. picks_newest (w_db (snd rebuild_run)) L \<and> entry_edges (w_db (snd rebuild_run)) L ''a-2'' key \<noteq> {}
     \<and> NewModuleName (fst key) = Inr ''billing'' \<and> NewVersion (snd key) = Inr ''v1''
     \<and> sorted_list_of_set (dep_source ` entry_edges (w_db (snd rebuild_run)) L ''a-2'' key)
       = [''import'', ''type_reference'']"
proof -
  have "(case fst affected_run of Inl e \<Rightarrow> []
      | Inr ms \<Rightarrow> map (\<lambda>m. (Affected_ModuleName m, Affected_LatestVersion m,
          map DependencySource_String (Affected_DependencySources m))) ms)
      = [(''billing'', ''v1'', [''import'', ''type_reference''])]"
    by code_simp
  then obtain m where ms: "fst affected_run = Inr [m]" and m: "Affected_ModuleName m = ''billing''"
    "Affected_LatestVersion m = ''v1''"
    "map DependencySource_String (Affected_DependencySources m) = [''import'', ''type_reference'']"
    by (cases "fst affected_run") (auto simp: map_eq_Cons_conv)
  have run: "ListAffectedModules ''a2'' (snd rebuild_run) = (Inr [m], snd affected_run)"
    using ms by (simp add: affected_run_def prod_eq_iff)
  have "p_uuid (w_platform (snd rebuild_run)) ''a2'' = Some ''a-2''" by code_simp
  note found = affected_modules_exact [OF run this]
  show ?thesis
    using found
  proof (elim exE conjE)
    fix L keys
    assume L: "picks_newest (w_db (snd rebuild_run)) L"
      and keys: "set keys = {key. entry_edges (w_db (snd rebuild_run)) L ''a-2'' key \<noteq> {}}"
      and entries: "list_all2 (\<lambda>key m. NewModuleName (fst key) = Inr (Affected_ModuleName m)
         \<and> NewVersion (snd key) = Inr (Affected_LatestVersion m)
         \<and> map DependencySource_String (Affected_DependencySources m)
             = sorted_list_of_set (dep_source ` entry_edges (w_db (snd rebuild_run)) L ''a-2'' key)
         \<and> map DependencyResolutionReason_String (Affected_Reasons m)
             = sorted_list_of_set (dep_reason ` entry_edges (w_db (snd rebuild_run)) L ''a-2'' key - {''''}))
        keys [m]"
    from entries obtain key where key: "keys = [key]" by (auto simp: list_all2_Cons2)
    with keys have "entry_edges (w_db (snd rebuild_run)) L ''a-2'' key \<noteq> {}" by auto
    with L entries key m show ?thesis by (intro exI [of _ L] exI [of _ key]) simp
  qed
qed

text \<open>Two rows that are each other's parents, and one at the top.\<close>

definition cyclic_rows :: "protoMessageRow list" where
  "cyclic_rows = map (\<lambda>(i, parent). \<lparr>mrow_id = i, mrow_parentID = parent,
     mrow_message = ProtoMessage i i [] [] []\<rparr>) [(''1'', ''2''), (''2'', ''1''), (''3'', '''')]"

theorem message_tree_ends_witness: "\<exists>messages. buildMessageTree cyclic_rows = Some messages"
  by (rule message_tree_ends) (simp_all add: cyclic_rows_def)

end
