(* ===== verification/Go_Text.thy ===== *)
theory Go_Text
  imports Breaking_Format
begin

text \<open>
  More of Go's \<^verbatim>\<open>strings\<close> package, and the one form of \<^verbatim>\<open>regexp\<close> replacement the renderers use. A matcher
  takes the text from some position on and answers with the submatch \<^verbatim>\<open>$1\<close> and the length of the
  match at that position, if any; all matches below are non-empty.
\<close>

section \<open>Searching and replacing\<close>

type_synonym matcher = "string \<Rightarrow> (string \<times> nat) option"

text \<open>
  \<^verbatim>\<open>ReplaceAll\<close>: from left to right, each leftmost match gives way to its replacement, and the bytes in
  between are copied; \<open>k\<close> bytes of the match last found are still to be skipped.
\<close>

fun replace_matches :: "matcher \<Rightarrow> (string \<Rightarrow> string) \<Rightarrow> nat \<Rightarrow> string \<Rightarrow> string" where
  "replace_matches m f k [] = []"
| "replace_matches m f (Suc k) (c # cs) = replace_matches m f k cs"
| "replace_matches m f 0 (c # cs) =
     (case m (c # cs) of
        None \<Rightarrow> c # replace_matches m f 0 cs
      | Some (submatch, n) \<Rightarrow> f submatch @ replace_matches m f (n - 1) cs)"

definition literal :: "string \<Rightarrow> matcher" where
  "literal old s = (if HasPrefix s old then Some ('''', length old) else None)"

definition ReplaceAll :: "string \<Rightarrow> string \<Rightarrow> string \<Rightarrow> string" where
  "ReplaceAll s old new = replace_matches (literal old) (\<lambda>_. new) 0 s"

fun Contains :: "string \<Rightarrow> string \<Rightarrow> bool" where
  "Contains [] sub = (sub = [])"
| "Contains (c # cs) sub = (HasPrefix (c # cs) sub \<or> Contains cs sub)"

lemma HasPrefix_iff: "HasPrefix s p \<longleftrightarrow> (\<exists>t. s = p @ t)"
  unfolding HasPrefix_def by (metis append_eq_conv_conj)

lemma Contains_iff: "Contains s sub \<longleftrightarrow> (\<exists>a b. s = a @ sub @ b)"
proof (induction s)
  case (Cons c cs)
  show ?case
  proof
    assume "Contains (c # cs) sub"
    then consider "HasPrefix (c # cs) sub" | "Contains cs sub" by auto
    then show "\<exists>a b. c # cs = a @ sub @ b"
    proof cases
      case 1
      then show ?thesis unfolding HasPrefix_iff by (metis append_Nil)
    next
      case 2
      with Cons.IH obtain a b where "cs = a @ sub @ b" by blast
      then have "c # cs = (c # a) @ sub @ b" by simp
      then show ?thesis by blast
    qed
  next
    assume "\<exists>a b. c # cs = a @ sub @ b"
    then obtain a b where eq: "c # cs = a @ sub @ b" by blast
    show "Contains (c # cs) sub"
    proof (cases a)
      case Nil
      with eq have "HasPrefix (c # cs) sub" by (auto simp: HasPrefix_iff)
      then show ?thesis by simp
    next
      case (Cons x xs)
      with eq Cons.IH show ?thesis by auto
    qed
  qed
qed auto

text \<open>Splitting at single-byte separators: \<^verbatim>\<open>Split\<close>, which keeps empty parts.\<close>

fun Split :: "string \<Rightarrow> char \<Rightarrow> string list" where
  "Split [] sep = ['''']"
| "Split (c # cs) sep =
     (if c = sep then [] # Split cs sep
      else case Split cs sep of [] \<Rightarrow> [c # ''''] | p # ps \<Rightarrow> (c # p) # ps)"

text \<open>
  \<^verbatim>\<open>Fields\<close>: the parts between runs of white space. The first part ends where the first space begins.
\<close>

fun field_end :: "string \<Rightarrow> nat" where
  "field_end [] = 0"
| "field_end (c # cs) = (if space_prefix (c # cs) \<noteq> 0 then 0 else Suc (field_end cs))"

lemma trim_left_length: "length (trim_left s) \<le> length s"
proof (induction s rule: trim_left.induct)
  case (1 s)
  then show ?case by (subst trim_left.simps) (auto intro: le_trans)
qed

function Fields :: "string \<Rightarrow> string list" where
  "Fields s =
     (let t = trim_left s
      in if t = [] then [] else take (Suc (field_end (tl t))) t # Fields (drop (Suc (field_end (tl t))) t))"
  by pat_completeness auto
termination
proof (relation "measure length")
  fix s t assume "t = trim_left s" "t \<noteq> []"
  moreover from this have "0 < length t" "length t \<le> length s" using trim_left_length [of s] by auto
  ultimately have "length t - Suc (field_end (tl t)) < length s" by linarith
  then show "(drop (Suc (field_end (tl t))) t, s) \<in> measure length" by simp
qed simp

declare Fields.simps [simp del]

section \<open>Case\<close>

definition ascii_upper :: "char \<Rightarrow> char" where
  "ascii_upper c = (if CHR ''a'' \<le> c \<and> c \<le> CHR ''z'' then char_of (of_char c - (32 :: nat)) else c)"

text \<open>\<^verbatim>\<open>strings.ToUpper\<close> of a single byte: a byte that is no character becomes U+FFFD.\<close>

definition upper_byte :: "char \<Rightarrow> string" where
  "upper_byte c = (if c < CHR 0x80 then [ascii_upper c] else [CHR 0xEF, CHR 0xBF, CHR 0xBD])"

section \<open>Secrets\<close>

text \<open>
  The three patterns of \<^verbatim>\<open>secretPatterns\<close>. The first is case-insensitive: under \<^verbatim>\<open>(?i)\<close> the letters \<^verbatim>\<open>s\<close> and
  \<^verbatim>\<open>k\<close> also match U+017F and U+212A. White space of \<^verbatim>\<open>regexp\<close> is ASCII without the vertical tab.
\<close>

definition re_space :: "char \<Rightarrow> bool" where
  "re_space c \<longleftrightarrow> c \<in> {CHR 0x09, CHR 0x0A, CHR 0x0C, CHR 0x0D, CHR 0x20}"

definition match_letter :: "char \<Rightarrow> string \<Rightarrow> string option" where
  "match_letter l s =
     (case s of
        [] \<Rightarrow> None
      | c # cs \<Rightarrow>
          if ascii_lower c = l then Some cs
          else if l = CHR ''s'' \<and> HasPrefix s [CHR 0xC5, CHR 0xBF] then Some (drop 2 s)
          else if l = CHR ''k'' \<and> HasPrefix s [CHR 0xE2, CHR 0x84, CHR 0xAA] then Some (drop 3 s)
          else None)"

fun match_word :: "string \<Rightarrow> string \<Rightarrow> string option" where
  "match_word [] s = Some s"
| "match_word (l # ls) s = (case match_letter l s of None \<Rightarrow> None | Some r \<Rightarrow> match_word ls r)"

text \<open>A keyword of one word, or of two with \<^verbatim>\<open>[-_ ]?\<close> between them.\<close>

definition match_keyword :: "string \<times> string option \<Rightarrow> string \<Rightarrow> string option" where
  "match_keyword keyword s =
     (case match_word (fst keyword) s of
        None \<Rightarrow> None
      | Some r \<Rightarrow>
          (case snd keyword of
             None \<Rightarrow> Some r
           | Some second \<Rightarrow>
               (case (if r \<noteq> [] \<and> hd r \<in> {CHR ''-'', CHR ''_'', CHR '' ''} then match_word second (tl r) else None) of
                  Some t \<Rightarrow> Some t
                | None \<Rightarrow> match_word second r)))"

definition secret_keywords :: "(string \<times> string option) list" where
  "secret_keywords =
     [(''private'', Some ''token''), (''access'', Some ''token''), (''protoradar'', Some ''token''),
      (''gitlab'', Some ''token''), (''authorization'', None), (''bearer'', None), (''secret'', None),
      (''password'', None)]"

text \<open>\<^verbatim>\<open>(=|:|\s+)\s*[^\s|]+\<close>: what is left after it.\<close>

definition match_assigned :: "string \<Rightarrow> string option" where
  "match_assigned r =
     (case r of
        [] \<Rightarrow> None
      | c # cs \<Rightarrow>
          if c \<in> {CHR ''='', CHR '':''} \<or> re_space c
          then (let v = dropWhile re_space cs;
                    rest = dropWhile (\<lambda>c. \<not> re_space c \<and> c \<noteq> CHR ''|'') v
                in if length rest < length v then Some rest else None)
          else None)"

fun match_secret :: "(string \<times> string option) list \<Rightarrow> matcher" where
  "match_secret [] s = None"
| "match_secret (keyword # keywords) s =
     (case match_keyword keyword s of
        None \<Rightarrow> match_secret keywords s
      | Some r \<Rightarrow>
          (case match_assigned r of
             None \<Rightarrow> match_secret keywords s
           | Some rest \<Rightarrow> Some (take (length s - length r) s, length s - length rest)))"

definition token_char :: "char \<Rightarrow> bool" where
  "token_char c \<longleftrightarrow>
     CHR ''A'' \<le> c \<and> c \<le> CHR ''Z'' \<or> CHR ''a'' \<le> c \<and> c \<le> CHR ''z''
     \<or> CHR ''0'' \<le> c \<and> c \<le> CHR ''9'' \<or> c = CHR ''_'' \<or> c = CHR ''-''"

definition match_token :: "string \<Rightarrow> matcher" where
  "match_token start s =
     (let body = takeWhile token_char (drop (length start) s)
      in if HasPrefix s start \<and> body \<noteq> [] then Some ('''', length start + length body) else None)"

definition redact :: "matcher \<Rightarrow> string \<Rightarrow> string" where
  "redact m = replace_matches m (\<lambda>submatch. submatch @ ''[redacted]'') 0"

definition redactSecrets :: "string \<Rightarrow> string" where
  "redactSecrets s =
     redact (match_token ''prr_'') (redact (match_token ''glpat-'') (redact (match_secret secret_keywords) s))"

end
