(* ===== verification/Mr_Render.thy ===== *)
theory Mr_Render
  imports Go_Text
begin

text \<open>
  The comment on a merge request, \<^verbatim>\<open>internal/format/gitlabmr/renderer.go\<close>, over the types of
  \<^verbatim>\<open>internal/integration/gitlab/client.go\<close>. The definitions answer with the text they append; \<open>low\<close> is
  the part of \<^verbatim>\<open>strings.ToLower\<close> beyond ASCII.
\<close>

section \<open>Types\<close>

datatype CommitStatusState =
  CommitStatusStatePending | CommitStatusStateRunning | CommitStatusStateSuccess | CommitStatusStateFailed

record MergeRequestNoteAuthor =
  Author_Username :: string
  Author_Name :: string

record MergeRequestNote =
  Note_ID :: int
  Note_Body :: string
  Note_CreatedAt :: time
  Note_UpdatedAt :: time
  Note_Author :: MergeRequestNoteAuthor

record CommitStatus =
  CommitStatus_State :: CommitStatusState
  CommitStatus_Name :: string
  CommitStatus_TargetURL :: string
  CommitStatus_Description :: string

record MrChange =
  MrChange_FilePath :: string
  MrChange_Symbol :: string
  MrChange_RuleID :: string
  MrChange_Message :: string

record MrAffectedModule =
  MrAffected_Module :: string
  MrAffected_LatestVersion :: string
  MrAffected_DependencySources :: "string list"
  MrAffected_Reasons :: "string list"

record MrRuntimeImpact =
  MrImpact_ServiceName :: string
  MrImpact_Environment :: string
  MrImpact_UsedModule :: string
  MrImpact_UsedVersion :: string
  MrImpact_BuildVersion :: string
  MrImpact_GitCommit :: string
  MrImpact_DriftStatus :: string
  MrImpact_DriftReason :: string

record MrRequirement =
  MrRequirement_RequirementType :: string
  MrRequirement_TargetModuleName :: string
  MrRequirement_Status :: string
  MrRequirement_Reason :: string

record MrDecision =
  MrDecision_Decision :: string
  MrDecision_DecidedBy :: string
  MrDecision_Comment :: string

record MrGovernance =
  MrGovernance_Status :: string
  MrGovernance_ApprovalRequestID :: string
  MrGovernance_Requirements :: "MrRequirement list"
  MrGovernance_Decisions :: "MrDecision list"
  MrGovernance_MissingOwnerWarnings :: "string list"

record MrReport =
  MrReport_Module :: string
  MrReport_Against :: string
  MrReport_TargetRef :: string
  MrReport_Status :: string
  MrReport_ChangeCount :: int
  MrReport_Changes :: "MrChange list"
  MrReport_AffectedModules :: "MrAffectedModule list"
  MrReport_RuntimeImpacts :: "MrRuntimeImpact list"
  MrReport_RuntimeImpactUnavailable :: bool
  MrReport_Governance :: "MrGovernance option"
  MrReport_ReportID :: string
  MrReport_TargetURL :: string
  MrReport_CommitSHA :: string

record RenderOptions =
  Render_MaxDisplayedChanges :: int
  Render_MaxDisplayedAffectedModules :: int
  Render_MaxDisplayedRuntimeImpacts :: int

definition DefaultMaxDisplayedChanges :: int where "DefaultMaxDisplayedChanges = 50"
definition DefaultMaxDisplayedAffectedModules :: int where "DefaultMaxDisplayedAffectedModules = 20"
definition DefaultMaxDisplayedRuntimeImpacts :: int where "DefaultMaxDisplayedRuntimeImpacts = 20"

section \<open>The marker, and the note that carries it\<close>

definition markerModuleName :: "string \<Rightarrow> string" where
  "markerModuleName moduleName =
     ReplaceAll (ReplaceAll (ReplaceAll (TrimSpace moduleName) [CHR 0x0D] '''') newline '''') ''-->'' ''''"

definition BuildMarker :: "string \<Rightarrow> string" where
  "BuildMarker moduleName = ''<!-- protoradar:mr-check module='' @ markerModuleName moduleName @ '' -->''"

definition ContainsMarker :: "string \<Rightarrow> string \<Rightarrow> bool" where
  "ContainsMarker body moduleName \<longleftrightarrow> Contains body (BuildMarker moduleName)"

text \<open>
  The variables of the loop of \<^verbatim>\<open>SelectExistingNote\<close>; \<^verbatim>\<open>matched\<close> says that there is a selected note. The zero
  time is \<open>0\<close>.
\<close>

record selection =
  Sel_selected :: "MergeRequestNote option"
  Sel_selectedTime :: time
  Sel_sawTimestamp :: bool

definition selectNote :: "string \<Rightarrow> MergeRequestNote \<Rightarrow> selection \<Rightarrow> selection" where
  "selectNote moduleName note sel =
     (if \<not> ContainsMarker (Note_Body note) moduleName then sel
      else
        let noteTime = (if Note_UpdatedAt note = 0 then Note_CreatedAt note else Note_UpdatedAt note)
        in if noteTime \<noteq> 0
           then if Sel_selected sel = None \<or> \<not> Sel_sawTimestamp sel \<or> \<not> noteTime < Sel_selectedTime sel
             then \<lparr>Sel_selected = Some note, Sel_selectedTime = noteTime, Sel_sawTimestamp = True\<rparr>
             else sel
           else if \<not> Sel_sawTimestamp sel then sel\<lparr>Sel_selected := Some note\<rparr> else sel)"

definition SelectExistingNote :: "MergeRequestNote list \<Rightarrow> string \<Rightarrow> MergeRequestNote option" where
  "SelectExistingNote notes moduleName =
     Sel_selected (fold (selectNote moduleName) notes
       \<lparr>Sel_selected = None, Sel_selectedTime = 0, Sel_sawTimestamp = False\<rparr>)"

section \<open>Cells\<close>

definition defaultIfBlank :: "string \<Rightarrow> string \<Rightarrow> string" where
  "defaultIfBlank value fallback = (if TrimSpace value = '''' then fallback else value)"

definition tableCell :: "string \<Rightarrow> string" where
  "tableCell value =
     (let value = redactSecrets value;
          value = ReplaceAll value [CHR 0x0D, CHR 0x0A] '' '';
          value = ReplaceAll value newline '' '';
          value = ReplaceAll value [CHR 0x0D] '' '';
          value = Join (Fields value) '' '';
          value = ReplaceAll value ''|'' [CHR 0x5C, CHR ''|'']
      in if length value > 500 then take 500 value @ ''...'' else value)"

definition cells :: "string list \<Rightarrow> string" where
  "cells values = ''| '' @ Join values '' | '' @ '' |'' @ newline"

definition writeRow :: "string \<Rightarrow> string \<Rightarrow> string" where
  "writeRow field value = cells [tableCell field, tableCell (defaultIfBlank value ''unspecified'')]"

definition writeChangeRow :: "MrChange \<Rightarrow> string" where
  "writeChangeRow change =
     cells [tableCell (defaultIfBlank (MrChange_FilePath change) ''unknown file''),
       tableCell (defaultIfBlank (MrChange_Symbol change) ''unspecified''),
       tableCell (defaultIfBlank (MrChange_RuleID change) ''unspecified''),
       tableCell (defaultIfBlank (MrChange_Message change) ''unspecified'')]"

definition code_cell :: "string \<Rightarrow> string" where
  "code_cell value = ''`'' @ value @ ''`''"

section \<open>The parts of the comment\<close>

definition reportStatus :: "(string \<Rightarrow> string) \<Rightarrow> string \<Rightarrow> string" where
  "reportStatus low status =
     (let value = ToLower low (TrimSpace status)
      in if value = ''error'' \<or> value = ''failed'' then ''failed'' else value)"

definition check_mark :: string where "check_mark = [CHR 0xE2, CHR 0x9C, CHR 0x85]"
definition cross_mark :: string where "cross_mark = [CHR 0xE2, CHR 0x9D, CHR 0x8C]"
definition warning_sign :: string where
  "warning_sign = [CHR 0xE2, CHR 0x9A, CHR 0xA0, CHR 0xEF, CHR 0xB8, CHR 0x8F]"
definition hourglass :: string where "hourglass = [CHR 0xE2, CHR 0x8F, CHR 0xB3]"

definition headerForStatus :: "(string \<Rightarrow> string) \<Rightarrow> string \<Rightarrow> string" where
  "headerForStatus low status =
     (let s = reportStatus low status
      in ''## '' @ (if s = ''passed'' then check_mark else if s = ''breaking'' then cross_mark else warning_sign)
         @ '' ProtoRadar Breaking Change Report'')"

definition mr_writeSummary :: "MrReport \<Rightarrow> string" where
  "mr_writeSummary report =
     ''### Summary'' @ newline @ newline @ ''| Field | Value |'' @ newline @ ''| --- | --- |'' @ newline
     @ writeRow ''Module'' (MrReport_Module report)
     @ writeRow ''Base version / against'' (MrReport_Against report)
     @ writeRow ''Target commit/ref'' (MrReport_TargetRef report)
     @ writeRow ''Status'' (MrReport_Status report)
     @ writeRow ''Change count'' (show_int (MrReport_ChangeCount report)) @ newline"

text \<open>A table of at most \<open>most\<close> rows with a note on how many are left out; the three long tables have this shape.\<close>

definition limited :: "int \<Rightarrow> 'a list \<Rightarrow> 'a list" where
  "limited most items = (if int (length items) > most then take (nat most) items else items)"

definition left_out :: "int \<Rightarrow> 'a list \<Rightarrow> string \<Rightarrow> string" where
  "left_out most items what =
     (if int (length items) > most
      then ''_And '' @ show_int (int (length items) - most) @ what @ newline @ newline else '''')"

definition mr_writeChanges :: "(string \<Rightarrow> string) \<Rightarrow> MrReport \<Rightarrow> int \<Rightarrow> string" where
  "mr_writeChanges low report maxChanges =
     ''### Breaking Changes'' @ newline @ newline
     @ (if reportStatus low (MrReport_Status report) = ''passed''
        then ''No breaking changes found.'' @ newline @ newline
        else if MrReport_Changes report = [] then ''No change details were provided.'' @ newline @ newline
        else ''| File | Symbol | Rule | Message |'' @ newline @ ''| --- | --- | --- | --- |'' @ newline
          @ concat (map writeChangeRow (limited maxChanges (MrReport_Changes report))) @ newline
          @ left_out maxChanges (MrReport_Changes report) '' more changes. See the full CI artifact for details._'')"

definition affected_row :: "MrAffectedModule \<Rightarrow> string" where
  "affected_row item =
     cells [tableCell (defaultIfBlank (MrAffected_Module item) ''unknown module''),
       tableCell (defaultIfBlank (MrAffected_LatestVersion item) ''unknown''),
       tableCell (defaultIfBlank (Join (MrAffected_DependencySources item) '', '') ''unspecified''),
       tableCell (defaultIfBlank (Join (MrAffected_Reasons item) '', '') ''unspecified'')]"

definition writeAffectedModules :: "MrAffectedModule list \<Rightarrow> int \<Rightarrow> string" where
  "writeAffectedModules affected maxAffectedModules =
     ''### Potentially Affected Modules'' @ newline @ newline
     @ (if affected = []
        then ''No downstream modules are currently known to depend on this module.'' @ newline @ newline
        else ''| Module | Latest version | Dependency sources | Reason |'' @ newline
          @ ''| --- | --- | --- | --- |'' @ newline
          @ concat (map affected_row (limited maxAffectedModules affected)) @ newline
          @ left_out maxAffectedModules affected
              '' more modules. See ProtoRadar UI for the full dependency graph._'')"

definition impact_row :: "MrReport \<Rightarrow> MrRuntimeImpact \<Rightarrow> string" where
  "impact_row report impact =
     (let uses = defaultIfBlank (MrImpact_UsedModule impact) (MrReport_Module report) @ ''@''
            @ defaultIfBlank (MrImpact_UsedVersion impact) (MrReport_Against report)
      in cells [code_cell (tableCell (defaultIfBlank (MrImpact_ServiceName impact) ''unknown service'')),
           code_cell (tableCell (defaultIfBlank (MrImpact_Environment impact) ''unknown environment'')),
           code_cell (tableCell (defaultIfBlank uses ''unknown'')),
           code_cell (tableCell (defaultIfBlank (MrImpact_BuildVersion impact) ''unknown'')),
           code_cell (tableCell (defaultIfBlank (MrImpact_GitCommit impact) ''unknown'')),
           code_cell (tableCell (defaultIfBlank (MrImpact_DriftStatus impact) ''unknown'')),
           tableCell (defaultIfBlank (MrImpact_DriftReason impact) ''none'')])"

definition writeRuntimeImpact :: "MrReport \<Rightarrow> int \<Rightarrow> string" where
  "writeRuntimeImpact report maxRuntimeImpacts =
     ''### Runtime impact'' @ newline @ newline
     @ (if MrReport_RuntimeImpactUnavailable report
        then ''Runtime impact could not be loaded. Check CI logs.'' @ newline @ newline
        else if MrReport_RuntimeImpacts report = []
        then ''No runtime services are currently known to use the affected module version.'' @ newline @ newline
        else ''| Service | Environment | Uses | Build | Commit | Runtime drift | Drift reason |'' @ newline
          @ ''| --- | --- | --- | --- | --- | --- | --- |'' @ newline
          @ concat (map (impact_row report) (limited maxRuntimeImpacts (MrReport_RuntimeImpacts report))) @ newline
          @ left_out maxRuntimeImpacts (MrReport_RuntimeImpacts report)
              '' more runtime usages. See ProtoRadar UI for the full runtime inventory._'')"

definition requirementLabel :: "(string \<Rightarrow> string) \<Rightarrow> string \<Rightarrow> string" where
  "requirementLabel low value =
     (let v = ToLower low (TrimSpace value)
      in if v = ''module_owner_approval'' then ''Module owner approval''
         else if v = ''affected_consumer_approval'' then ''Affected consumer approval''
         else TrimSpace value)"

definition statusLabel :: "(string \<Rightarrow> string) \<Rightarrow> string \<Rightarrow> string" where
  "statusLabel low value =
     (let value = TrimSpace value
      in if value = '''' then ''''
         else Join (map (\<lambda>part. case part of [] \<Rightarrow> [] | c # cs \<Rightarrow> upper_byte c @ ToLower low cs)
                (Split (ReplaceAll value ''_'' '' '') (CHR '' ''))) '' '')"

definition governance_header :: "(string \<Rightarrow> string) \<Rightarrow> string \<Rightarrow> string" where
  "governance_header low status =
     (let s = ToLower low (TrimSpace status)
      in ''Status: ''
         @ (if s = ''approved'' then check_mark @ '' Approved''
            else if s = ''rejected'' then cross_mark @ '' Rejected''
            else if s = ''not_required'' then check_mark @ '' Approval not required''
            else if s = ''pending'' then hourglass @ '' Approval required''
            else warning_sign @ '' Governance status unavailable'') @ newline @ newline)"

definition mr_requirement_row :: "(string \<Rightarrow> string) \<Rightarrow> MrRequirement \<Rightarrow> string" where
  "mr_requirement_row low requirement =
     cells [tableCell (requirementLabel low (MrRequirement_RequirementType requirement)),
       code_cell (tableCell (defaultIfBlank (MrRequirement_TargetModuleName requirement) ''unknown module'')),
       tableCell (defaultIfBlank (statusLabel low (MrRequirement_Status requirement)) ''Unknown''),
       tableCell (defaultIfBlank (MrRequirement_Reason requirement) ''unspecified'')]"

definition mr_decision_row :: "(string \<Rightarrow> string) \<Rightarrow> MrDecision \<Rightarrow> string" where
  "mr_decision_row low decision =
     cells [tableCell (defaultIfBlank (statusLabel low (MrDecision_Decision decision)) ''Unknown''),
       tableCell (defaultIfBlank (MrDecision_DecidedBy decision) ''not returned''),
       tableCell (defaultIfBlank (MrDecision_Comment decision) ''none'')]"

definition writeGovernance :: "(string \<Rightarrow> string) \<Rightarrow> MrGovernance option \<Rightarrow> string" where
  "writeGovernance low governance =
     (case governance of
        None \<Rightarrow> ''''
      | Some g \<Rightarrow>
          ''### Governance'' @ newline @ newline @ governance_header low (MrGovernance_Status g)
          @ concat (map (\<lambda>warning. tableCell warning @ newline @ newline)
              (filter (\<lambda>warning. TrimSpace warning \<noteq> '''') (MrGovernance_MissingOwnerWarnings g)))
          @ (if MrGovernance_Requirements g \<noteq> []
             then ''| Requirement | Target | Status | Reason |'' @ newline @ ''|---|---|---|---|'' @ newline
               @ concat (map (mr_requirement_row low) (MrGovernance_Requirements g)) @ newline else '''')
          @ (if MrGovernance_Decisions g \<noteq> []
             then ''| Decision | Decided by | Comment |'' @ newline @ ''|---|---|---|'' @ newline
               @ concat (map (mr_decision_row low) (MrGovernance_Decisions g)) @ newline else ''''))"

definition writeResult :: "(string \<Rightarrow> string) \<Rightarrow> string \<Rightarrow> string" where
  "writeResult low status =
     (let s = reportStatus low status
      in ''### Result / Next Steps'' @ newline @ newline
         @ (if s = ''passed'' then ''Safe to merge from the protobuf compatibility perspective.''
            else if s = ''breaking''
            then ''Restore compatibility, coordinate a major version, or complete the required governance approval workflow.''
            else ''Check job logs and configuration.'') @ newline @ newline)"

definition writeMetadata :: "MrReport \<Rightarrow> string" where
  "writeMetadata report =
     (let row = (\<lambda>field value. if TrimSpace value \<noteq> '''' then writeRow field value else '''')
      in if TrimSpace (MrReport_ReportID report) = '''' \<and> TrimSpace (MrReport_TargetURL report) = ''''
            \<and> TrimSpace (MrReport_CommitSHA report) = '''' then ''''
         else ''### Metadata'' @ newline @ newline @ ''| Field | Value |'' @ newline @ ''| --- | --- |'' @ newline
           @ row ''Report ID'' (MrReport_ReportID report) @ row ''Target URL'' (MrReport_TargetURL report)
           @ row ''Commit SHA'' (MrReport_CommitSHA report))"

definition RenderReport :: "(string \<Rightarrow> string) \<Rightarrow> MrReport \<Rightarrow> RenderOptions \<Rightarrow> string" where
  "RenderReport low report options =
     (let positive = (\<lambda>v d. if v \<le> 0 then d else (v :: int));
          maxChanges = positive (Render_MaxDisplayedChanges options) DefaultMaxDisplayedChanges;
          maxAffectedModules =
            positive (Render_MaxDisplayedAffectedModules options) DefaultMaxDisplayedAffectedModules;
          maxRuntimeImpacts =
            positive (Render_MaxDisplayedRuntimeImpacts options) DefaultMaxDisplayedRuntimeImpacts
      in BuildMarker (MrReport_Module report) @ newline
         @ headerForStatus low (MrReport_Status report) @ newline @ newline
         @ mr_writeSummary report @ mr_writeChanges low report maxChanges
         @ writeAffectedModules (MrReport_AffectedModules report) maxAffectedModules
         @ writeRuntimeImpact report maxRuntimeImpacts @ writeGovernance low (MrReport_Governance report)
         @ writeResult low (MrReport_Status report) @ writeMetadata report)"

end
