(* ===== verification/Mr_Runner.thy ===== *)
theory Mr_Runner
  imports Mr_Render Go_Effects
begin

text \<open>
  The check of a merge request, \<^verbatim>\<open>internal/usecase/gitlabmr/runner.go\<close>. The ProtoRadar server and GitLab
  are behind interfaces: the clients are functions on a state \<open>'w\<close> the model leaves open. An error is
  its text and whether it is \<^verbatim>\<open>ErrGovernanceNotFound\<close>. \<^verbatim>\<open>Run\<close> and \<^verbatim>\<open>handleError\<close> return a result beside
  their error, so they are commands that always return such a pair.
\<close>

record client_error =
  Err_Text :: string
  Err_GovernanceNotFound :: bool

definition new_error :: "string \<Rightarrow> client_error" where
  "new_error text = \<lparr>Err_Text = text, Err_GovernanceNotFound = False\<rparr>"

text \<open>\<^verbatim>\<open>fmt.Errorf("...: %w", err)\<close>.\<close>

definition wrap_error :: "string \<Rightarrow> client_error \<Rightarrow> client_error" where
  "wrap_error text err = err\<lparr>Err_Text := text @ Err_Text err\<rparr>"

definition sanitizeError :: "client_error \<Rightarrow> client_error" where
  "sanitizeError err = new_error (redactSecrets (Err_Text err))"

section \<open>Inputs, clients, results\<close>

record MrBreakingChange =
  MrBreak_Category :: string
  MrBreak_FilePath :: string
  MrBreak_PackageName :: string
  MrBreak_Symbol :: string
  MrBreak_RuleID :: string
  MrBreak_Message :: string
  MrBreak_Severity :: string

record MrBreakingReport =
  MrBreaking_ID :: string
  MrBreaking_Module :: string
  MrBreaking_Against :: string
  MrBreaking_TargetRef :: string
  MrBreaking_Status :: string
  MrBreaking_ChangeCount :: int
  MrBreaking_Changes :: "MrBreakingChange list"
  MrBreaking_HumanSummary :: string
  MrBreaking_CreatedAt :: time

record GovernanceStatus =
  GovStatus_ID :: string
  GovStatus_Status :: string
  GovStatus_Requirements :: "MrRequirement list"
  GovStatus_Decisions :: "MrDecision list"
  GovStatus_RequiredApprovals :: int
  GovStatus_ReceivedApprovals :: int

record 'w GitLabClient =
  Git_ListMergeRequestNotes :: "int \<Rightarrow> int \<Rightarrow> ('w, client_error, MergeRequestNote list) go"
  Git_CreateMergeRequestNote :: "int \<Rightarrow> int \<Rightarrow> string \<Rightarrow> ('w, client_error, MergeRequestNote) go"
  Git_UpdateMergeRequestNote :: "int \<Rightarrow> int \<Rightarrow> int \<Rightarrow> string \<Rightarrow> ('w, client_error, MergeRequestNote) go"
  Git_SetCommitStatus :: "int \<Rightarrow> string \<Rightarrow> CommitStatus \<Rightarrow> ('w, client_error, unit) go"

record 'w GovernanceClient =
  Gov_GetApprovalStatus :: "string \<Rightarrow> ('w, client_error, GovernanceStatus) go"
  Gov_CreateApprovalRequest :: "string \<Rightarrow> string \<Rightarrow> ('w, client_error, GovernanceStatus) go"

text \<open>The two remaining fields of the affected modules' and the impacts' types are those of the renderer's.\<close>

record 'w Runner =
  Runner_CheckBreaking ::
    "(string \<Rightarrow> string \<Rightarrow> string \<Rightarrow> string \<Rightarrow> string \<Rightarrow> ('w, client_error, MrBreakingReport) go) option"
  Runner_ListAffectedModules :: "(string \<Rightarrow> ('w, client_error, MrAffectedModule list) go) option"
  Runner_ListRuntimeImpact :: "(string \<Rightarrow> ('w, client_error, MrRuntimeImpact list) go) option"
  Runner_Governance :: "'w GovernanceClient option"
  Runner_GitLab :: "'w GitLabClient option"
  Runner_lower :: "string \<Rightarrow> string"

record MrInput =
  Mr_Module :: string
  Mr_Against :: string
  Mr_TargetRef :: string
  Mr_ArtifactName :: string
  Mr_Artifact :: string
  Mr_GitLabProjectID :: int
  Mr_MergeRequestIID :: int
  Mr_CommitSHA :: string
  Mr_StatusEnabled :: bool
  Mr_StatusName :: string
  Mr_StatusTargetURL :: string
  Mr_MaxDisplayedChanges :: int
  Mr_GovernanceEnabled :: bool
  Mr_GovernanceActor :: string

record MrResult =
  MrResult_ExitCode :: int
  MrResult_BreakingStatus :: string
  MrResult_Markdown :: string
  MrResult_NoteID :: int
  MrResult_CommentAction :: string

definition ExitCodePassed :: int where "ExitCodePassed = 0"
definition ExitCodeBreaking :: int where "ExitCodeBreaking = 1"
definition ExitCodeError :: int where "ExitCodeError = 2"
definition DefaultStatusName :: string where "DefaultStatusName = ''protoradar/breaking-check''"

definition only_exit :: "int \<Rightarrow> MrResult" where
  "only_exit code = \<lparr>MrResult_ExitCode = code, MrResult_BreakingStatus = '''', MrResult_Markdown = '''',
     MrResult_NoteID = 0, MrResult_CommentAction = ''''\<rparr>"

section \<open>Validation\<close>

definition mr_validate :: "'w Runner \<Rightarrow> MrInput \<Rightarrow> string option" where
  "mr_validate runner input =
     (if Runner_CheckBreaking runner = None then Some ''gitlab mr runner requires a breaking client''
      else if Runner_GitLab runner = None then Some ''gitlab mr runner requires a gitlab client''
      else if TrimSpace (Mr_Module input) = '''' then Some ''gitlab mr runner requires module''
      else if TrimSpace (Mr_Against input) = '''' then Some ''gitlab mr runner requires against''
      else if Mr_Artifact input = '''' then Some ''gitlab mr runner requires artifact''
      else if Mr_GitLabProjectID input \<le> 0 then Some ''gitlab mr runner requires gitlab project id''
      else if Mr_MergeRequestIID input \<le> 0 then Some ''gitlab mr runner requires merge request iid''
      else if Mr_StatusEnabled input \<and> TrimSpace (Mr_CommitSHA input) = ''''
      then Some ''gitlab mr runner requires commit sha when status is enabled''
      else None)"

section \<open>Calls of GitLab\<close>

definition setStatus ::
  "'w GitLabClient \<Rightarrow> MrInput \<Rightarrow> string \<Rightarrow> CommitStatusState \<Rightarrow> string \<Rightarrow> ('w, client_error, unit) go" where
  "setStatus client input statusName state description =
     Git_SetCommitStatus client (Mr_GitLabProjectID input) (TrimSpace (Mr_CommitSHA input))
       \<lparr>CommitStatus_State = state, CommitStatus_Name = statusName,
        CommitStatus_TargetURL = TrimSpace (Mr_StatusTargetURL input),
        CommitStatus_Description = description\<rparr>"

definition bestEffortSetStatus ::
  "'w GitLabClient \<Rightarrow> MrInput \<Rightarrow> string \<Rightarrow> CommitStatusState \<Rightarrow> string \<Rightarrow> ('w, client_error, unit) go" where
  "bestEffortSetStatus client input statusName state description =
     bindE (attempt (setStatus client input statusName state description)) (\<lambda>_. ret ())"

definition upsertComment ::
  "'w GitLabClient \<Rightarrow> MrInput \<Rightarrow> string \<Rightarrow> ('w, client_error, MergeRequestNote \<times> string) go" where
  "upsertComment client input markdown =
     (let project = Mr_GitLabProjectID input; iid = Mr_MergeRequestIID input in
      bindE (mapErr (\<lambda>err. wrap_error ''list merge request notes: '' (sanitizeError err))
          (Git_ListMergeRequestNotes client project iid)) (\<lambda>notes.
        case SelectExistingNote notes (Mr_Module input) of
          Some existing \<Rightarrow>
            bindE (mapErr (\<lambda>err. wrap_error ''update merge request note: '' (sanitizeError err))
                (Git_UpdateMergeRequestNote client project iid (Note_ID existing) markdown))
              (\<lambda>note. ret (note, ''updated''))
        | None \<Rightarrow>
            bindE (mapErr (\<lambda>err. wrap_error ''create merge request note: '' (sanitizeError err))
                (Git_CreateMergeRequestNote client project iid markdown))
              (\<lambda>note. ret (note, ''created''))))"

section \<open>Calls of the server\<close>

definition bestEffortAffectedModules ::
  "'w Runner \<Rightarrow> MrInput \<Rightarrow> ('w, client_error, MrAffectedModule list) go" where
  "bestEffortAffectedModules runner input =
     (case Runner_ListAffectedModules runner of
        None \<Rightarrow> ret []
      | Some listModules \<Rightarrow>
          bindE (attempt (listModules (TrimSpace (Mr_Module input)))) (\<lambda>result.
            ret (case result of Inl err \<Rightarrow> [] | Inr affected \<Rightarrow> affected)))"

definition fetchRuntimeImpact ::
  "'w Runner \<Rightarrow> MrBreakingReport \<Rightarrow> ('w, client_error, MrRuntimeImpact list \<times> bool) go" where
  "fetchRuntimeImpact runner report =
     (case Runner_ListRuntimeImpact runner of
        None \<Rightarrow> ret ([], False)
      | Some listImpact \<Rightarrow>
          if TrimSpace (MrBreaking_ID report) = '''' then ret ([], False)
          else bindE (attempt (listImpact (TrimSpace (MrBreaking_ID report)))) (\<lambda>result.
            ret (case result of Inl err \<Rightarrow> ([], True) | Inr impacts \<Rightarrow> (impacts, False))))"

definition actor_hint :: string where
  "actor_hint = ''server rejected governance actor override; omit --governance-actor so the server uses '' @
     ''the authenticated ProtoRadar principal, or enable server actor override for migration compatibility: ''"

definition fetchGovernanceStatus ::
  "'w Runner \<Rightarrow> MrInput \<Rightarrow> MrBreakingReport \<Rightarrow> ('w, client_error, GovernanceStatus option) go" where
  "fetchGovernanceStatus runner input report =
     (let reportID = TrimSpace (MrBreaking_ID report);
          actor = TrimSpace (Mr_GovernanceActor input);
          failed = (\<lambda>err. if \<not> Mr_GovernanceEnabled input then ret None
            else if actor \<noteq> '''' then raise (wrap_error actor_hint err) else raise err)
      in case Runner_Governance runner of
           None \<Rightarrow> ret None
         | Some client \<Rightarrow>
             if reportID = '''' then ret None
             else bindE (attempt (Gov_GetApprovalStatus client reportID)) (\<lambda>result.
               case result of
                 Inr status \<Rightarrow> ret (Some status)
               | Inl err \<Rightarrow>
                   if Err_GovernanceNotFound err
                   then if \<not> Mr_GovernanceEnabled input then ret None
                     else bindE (attempt (Gov_CreateApprovalRequest client reportID actor)) (\<lambda>created.
                       case created of Inr status \<Rightarrow> ret (Some status) | Inl err \<Rightarrow> failed err)
                   else failed err))"

section \<open>What is rendered\<close>

definition renderGovernance :: "(string \<Rightarrow> string) \<Rightarrow> GovernanceStatus option \<Rightarrow> MrGovernance option" where
  "renderGovernance low governance =
     map_option (\<lambda>g. \<lparr>MrGovernance_Status = GovStatus_Status g, MrGovernance_ApprovalRequestID = GovStatus_ID g,
        MrGovernance_Requirements = GovStatus_Requirements g, MrGovernance_Decisions = GovStatus_Decisions g,
        MrGovernance_MissingOwnerWarnings =
          map (\<lambda>requirement.
              let target = TrimSpace (MrRequirement_TargetModuleName requirement)
              in ''Approval required, but no owners are configured for `''
                 @ (if target = '''' then ''this module'' else target) @ ''`.'')
            (filter (\<lambda>requirement. Contains (ToLower low (MrRequirement_Reason requirement))
                ''no owners are configured'') (GovStatus_Requirements g))\<rparr>) governance"

definition renderReportFromBreaking ::
  "(string \<Rightarrow> string) \<Rightarrow> MrInput \<Rightarrow> MrBreakingReport \<Rightarrow> MrAffectedModule list \<Rightarrow> MrRuntimeImpact list \<Rightarrow> bool
   \<Rightarrow> GovernanceStatus option \<Rightarrow> MrReport" where
  "renderReportFromBreaking low input report affected runtimeImpacts runtimeImpactUnavailable governance =
     (let or_input = (\<lambda>v d. if TrimSpace v = '''' then d else v) in
      \<lparr>MrReport_Module = or_input (MrBreaking_Module report) (Mr_Module input),
       MrReport_Against = or_input (MrBreaking_Against report) (Mr_Against input),
       MrReport_TargetRef = or_input (MrBreaking_TargetRef report) (Mr_TargetRef input),
       MrReport_Status = MrBreaking_Status report, MrReport_ChangeCount = MrBreaking_ChangeCount report,
       MrReport_Changes = map (\<lambda>change. \<lparr>MrChange_FilePath = MrBreak_FilePath change,
           MrChange_Symbol = MrBreak_Symbol change, MrChange_RuleID = MrBreak_RuleID change,
           MrChange_Message = MrBreak_Message change\<rparr>) (MrBreaking_Changes report),
       MrReport_AffectedModules = affected, MrReport_RuntimeImpacts = runtimeImpacts,
       MrReport_RuntimeImpactUnavailable = runtimeImpactUnavailable,
       MrReport_Governance = renderGovernance low governance, MrReport_ReportID = MrBreaking_ID report,
       MrReport_TargetURL = Mr_StatusTargetURL input, MrReport_CommitSHA = Mr_CommitSHA input\<rparr>)"

definition mr_options :: "MrInput \<Rightarrow> RenderOptions" where
  "mr_options input = \<lparr>Render_MaxDisplayedChanges = Mr_MaxDisplayedChanges input,
     Render_MaxDisplayedAffectedModules = 0, Render_MaxDisplayedRuntimeImpacts = 0\<rparr>"

section \<open>The run\<close>

definition finalState ::
  "(string \<Rightarrow> string) \<Rightarrow> MrInput \<Rightarrow> MrBreakingReport \<Rightarrow> GovernanceStatus option
   \<Rightarrow> CommitStatusState \<times> string \<times> int" where
  "finalState low input report governance =
     (let by_report =
        (if ToLower low (TrimSpace (MrBreaking_Status report)) = ''breaking''
         then (CommitStatusStateFailed, ''ProtoRadar found protobuf breaking changes'', ExitCodeBreaking)
         else (CommitStatusStateSuccess, ''No protobuf breaking changes found'', ExitCodePassed));
        status = (case governance of None \<Rightarrow> '''' | Some g \<Rightarrow> ToLower low (TrimSpace (GovStatus_Status g)))
      in if \<not> Mr_GovernanceEnabled input then by_report
         else if status = ''approved''
         then (CommitStatusStateSuccess, ''ProtoRadar breaking changes approved'', ExitCodePassed)
         else if status = ''pending''
         then (CommitStatusStateFailed, ''ProtoRadar breaking changes require governance approval'', ExitCodeBreaking)
         else if status = ''rejected''
         then (CommitStatusStateFailed, ''ProtoRadar breaking changes were rejected'', ExitCodeBreaking)
         else if status = ''not_required''
         then (CommitStatusStateSuccess, ''Governance approval not required'', ExitCodePassed)
         else by_report)"

text \<open>What stands between the two errors of \<^verbatim>\<open>fmt.Errorf("%w; error report comment failed: %w")\<close>.\<close>

definition comment_failed :: string where "comment_failed = ''; error report comment failed: ''"

definition failureMarkdown :: "'w Runner \<Rightarrow> MrInput \<Rightarrow> client_error \<Rightarrow> string" where
  "failureMarkdown runner input cause =
     RenderReport (Runner_lower runner)
       \<lparr>MrReport_Module = Mr_Module input, MrReport_Against = Mr_Against input,
        MrReport_TargetRef = Mr_TargetRef input, MrReport_Status = ''check failed'',
        MrReport_ChangeCount = 0,
        MrReport_Changes = [\<lparr>MrChange_FilePath = '''', MrChange_Symbol = '''', MrChange_RuleID = '''',
          MrChange_Message = Err_Text cause\<rparr>],
        MrReport_AffectedModules = [], MrReport_RuntimeImpacts = [],
        MrReport_RuntimeImpactUnavailable = False, MrReport_Governance = None,
        MrReport_ReportID = '''', MrReport_TargetURL = Mr_StatusTargetURL input,
        MrReport_CommitSHA = Mr_CommitSHA input\<rparr> (mr_options input)"

definition handleError ::
  "'w Runner \<Rightarrow> 'w GitLabClient \<Rightarrow> MrInput \<Rightarrow> string \<Rightarrow> client_error
   \<Rightarrow> ('w, client_error, MrResult \<times> client_error option) go" where
  "handleError runner client input statusName cause =
     (let markdown = failureMarkdown runner input cause;
          result = \<lparr>MrResult_ExitCode = ExitCodeError, MrResult_BreakingStatus = ''error'',
            MrResult_Markdown = markdown, MrResult_NoteID = 0, MrResult_CommentAction = ''''\<rparr>
      in bindE (attempt (upsertComment client input markdown)) (\<lambda>commented.
         bindE (if Mr_StatusEnabled input
             then bestEffortSetStatus client input statusName CommitStatusStateFailed
               ''ProtoRadar breaking check failed'' else ret ()) (\<lambda>_.
           ret (case commented of
                  Inr (note, action) \<Rightarrow>
                    (result\<lparr>MrResult_NoteID := Note_ID note, MrResult_CommentAction := action\<rparr>, Some cause)
                | Inl noteErr \<Rightarrow>
                    (result, Some (cause\<lparr>Err_Text := Err_Text cause @ comment_failed
                       @ Err_Text (sanitizeError noteErr)\<rparr>))))))"

text \<open>From the comment on, with the report at hand.\<close>

definition publishReport ::
  "'w Runner \<Rightarrow> 'w GitLabClient \<Rightarrow> MrInput \<Rightarrow> string \<Rightarrow> MrBreakingReport \<Rightarrow> GovernanceStatus option \<Rightarrow> string
   \<Rightarrow> ('w, client_error, MrResult \<times> client_error option) go" where
  "publishReport runner client input statusName report governance markdown =
     (let result = \<lparr>MrResult_ExitCode = ExitCodeError, MrResult_BreakingStatus = MrBreaking_Status report,
            MrResult_Markdown = markdown, MrResult_NoteID = 0, MrResult_CommentAction = ''''\<rparr>
      in bindE (attempt (upsertComment client input markdown)) (\<lambda>commented.
        case commented of
          Inl err \<Rightarrow>
            bindE (if Mr_StatusEnabled input
                then bestEffortSetStatus client input statusName CommitStatusStateFailed
                  ''ProtoRadar failed to publish the merge request report'' else ret ()) (\<lambda>_.
              ret (result, Some (sanitizeError err)))
        | Inr (note, action) \<Rightarrow>
            (case finalState (Runner_lower runner) input report governance of (state, description, exitCode) \<Rightarrow>
              let result = result\<lparr>MrResult_NoteID := Note_ID note, MrResult_CommentAction := action\<rparr> in
              bindE (if Mr_StatusEnabled input
                  then attempt (setStatus client input statusName state description) else ret (Inr ()))
                (\<lambda>final. ret (case final of
                    Inl err \<Rightarrow> (result, Some (wrap_error ''set final commit status: '' (sanitizeError err)))
                  | Inr _ \<Rightarrow> (result\<lparr>MrResult_ExitCode := exitCode\<rparr>, None))))))"

definition runCheck ::
  "'w Runner \<Rightarrow> 'w GitLabClient
   \<Rightarrow> (string \<Rightarrow> string \<Rightarrow> string \<Rightarrow> string \<Rightarrow> string \<Rightarrow> ('w, client_error, MrBreakingReport) go)
   \<Rightarrow> MrInput \<Rightarrow> string \<Rightarrow> ('w, client_error, MrResult \<times> client_error option) go" where
  "runCheck runner client check input statusName =
     (let artifactName = (if TrimSpace (Mr_ArtifactName input) = '''' then ''source.tar.gz''
            else Mr_ArtifactName input)
      in bindE (attempt (check (TrimSpace (Mr_Module input)) (TrimSpace (Mr_Against input))
           (TrimSpace (Mr_TargetRef input)) artifactName (Mr_Artifact input))) (\<lambda>checked.
        case checked of
          Inl err \<Rightarrow> handleError runner client input statusName
            (wrap_error ''breaking check failed: '' (sanitizeError err))
        | Inr report \<Rightarrow>
            bindE (bestEffortAffectedModules runner input) (\<lambda>affected.
            bindE (fetchRuntimeImpact runner report) (\<lambda>(impacts, unavailable).
            bindE (attempt (fetchGovernanceStatus runner input report)) (\<lambda>fetched.
              case fetched of
                Inl err \<Rightarrow> handleError runner client input statusName
                  (wrap_error ''governance approval status failed: '' (sanitizeError err))
              | Inr governance \<Rightarrow>
                  publishReport runner client input statusName report governance
                    (RenderReport (Runner_lower runner)
                      (renderReportFromBreaking (Runner_lower runner) input report affected impacts
                        unavailable governance) (mr_options input)))))))"

text \<open>The last case does not arise: the validation has refused a runner without one of the two clients.\<close>

definition Runner_Run :: "'w Runner \<Rightarrow> MrInput \<Rightarrow> ('w, client_error, MrResult \<times> client_error option) go" where
  "Runner_Run runner input =
     (case mr_validate runner input of
        Some msg \<Rightarrow> ret (only_exit ExitCodeError, Some (new_error msg))
      | None \<Rightarrow>
          (case (Runner_CheckBreaking runner, Runner_GitLab runner) of
             (Some check, Some client) \<Rightarrow>
               let statusName = (if TrimSpace (Mr_StatusName input) = '''' then DefaultStatusName
                     else TrimSpace (Mr_StatusName input))
               in bindE (if Mr_StatusEnabled input
                    then attempt (setStatus client input statusName CommitStatusStateRunning
                      ''ProtoRadar breaking check is running'') else ret (Inr ())) (\<lambda>started.
                  case started of
                    Inl err \<Rightarrow> ret (only_exit ExitCodeError,
                      Some (wrap_error ''set running commit status: '' (sanitizeError err)))
                  | Inr _ \<Rightarrow> runCheck runner client check input statusName)
           | _ \<Rightarrow> ret (only_exit ExitCodeError, None)))"

end
