(* ===== verification/Mr_Claims.thy ===== *)
theory Mr_Claims
  imports Mr_Runner "HOL-Library.Sublist"
begin

text \<open>
  The properties of the merge request check: its tables keep their shape whatever the report contains,
  its errors carry no GitLab or ProtoRadar token, its exit code is a gate, and it keeps one comment per
  module.
\<close>

section \<open>Rows\<close>

text \<open>The pipes of a line that are not escaped, given the byte before it.\<close>

fun borders :: "char \<Rightarrow> string \<Rightarrow> nat" where
  "borders prev [] = 0"
| "borders prev (c # cs) = (if c = CHR ''|'' \<and> prev \<noteq> CHR 0x5C then 1 else 0) + borders c cs"

lemma borders_append: "borders p (a @ b) = borders p a + borders (if a = [] then p else last a) b"
  by (induction a arbitrary: p) auto

lemma borders_take: "borders p (take n s) \<le> borders p s"
  by (metis append_take_drop_id borders_append le_add1)

lemma ReplaceAll_char: "ReplaceAll s [c] new = concat (map (\<lambda>x. if x = c then new else [x]) s)"
  by (induction s) (auto simp: ReplaceAll_def literal_def HasPrefix_def)

lemma borders_escaped: "borders p (ReplaceAll s ''|'' [CHR 0x5C, CHR ''|'']) = 0"
  unfolding ReplaceAll_char by (induction s arbitrary: p) auto

lemma Join_set: "set (Join ss sep) \<subseteq> \<Union> (set ` set ss) \<union> set sep"
  by (induction ss sep rule: Join.induct) auto

lemma trim_left_set: "set (trim_left s) \<subseteq> set s"
proof (induction s rule: trim_left.induct)
  case (1 s)
  then show ?case by (subst trim_left.simps) (auto dest: in_set_dropD)
qed

lemma Fields_set: "f \<in> set (Fields s) \<Longrightarrow> set f \<subseteq> set s"
proof (induction s rule: Fields.induct)
  case (1 s)
  from "1.prems" show ?case
    unfolding Fields.simps [of s] Let_def using trim_left_set [of s] "1.IH" [OF refl]
    by (auto split: if_splits dest!: in_set_takeD in_set_dropD)
qed

lemma tableCell_intact: "borders p (tableCell value) = 0" and tableCell_line: "CHR 0x0A \<notin> set (tableCell value)"
proof -
  obtain v where v: "tableCell value =
      (let w = ReplaceAll (Join (Fields (ReplaceAll (ReplaceAll v newline '' '') [CHR 0x0D] '' '')) '' '') ''|''
          [CHR 0x5C, CHR ''|'']
       in if length w > 500 then take 500 w @ ''...'' else w)"
    unfolding tableCell_def Let_def by blast
  let ?u = "ReplaceAll (ReplaceAll v newline '' '') [CHR 0x0D] '' ''"
  let ?w = "ReplaceAll (Join (Fields ?u) '' '') ''|'' [CHR 0x5C, CHR ''|'']"
  have "borders p (take 500 ?w) = 0" using borders_take [of p 500 ?w] by (simp add: borders_escaped)
  then show "borders p (tableCell value) = 0"
    by (simp add: v Let_def borders_escaped borders_append del: take_append)
  have "CHR 0x0A \<notin> set ?u" by (auto simp: ReplaceAll_char newline_def)
  then have "CHR 0x0A \<notin> set (Join (Fields ?u) '' '')"
    using Join_set [of "Fields ?u" "'' ''"] Fields_set [of _ ?u] by auto
  then have "CHR 0x0A \<notin> set ?w" by (auto simp: ReplaceAll_char)
  then show "CHR 0x0A \<notin> set (tableCell value)" by (auto simp: v Let_def dest: in_set_takeD)
qed

text \<open>A text that is part of one cell, alone or as code.\<close>

definition cell_text :: "string \<Rightarrow> bool" where
  "cell_text s \<longleftrightarrow> (\<forall>p. borders p s = 0) \<and> CHR 0x0A \<notin> set s"

lemma cell_texts [simp]: "cell_text (tableCell value)" "cell_text (code_cell (tableCell value))"
  using tableCell_intact tableCell_line by (simp_all add: cell_text_def code_cell_def borders_append)

lemma Join_cells:
  "list_all cell_text vs \<Longrightarrow> vs \<noteq> [] \<Longrightarrow>
     borders p (Join vs '' | '') = length vs - 1 \<and> CHR 0x0A \<notin> set (Join vs '' | '')"
proof (induction vs "'' | ''" arbitrary: p rule: Join.induct)
  case (3 v u us)
  then show ?case by (auto simp: cell_text_def borders_append)
qed (auto simp: cell_text_def)

lemma cells_shape:
  assumes "list_all cell_text vs" and "vs \<noteq> []"
  shows "borders CHR 0x0A (cells vs) = Suc (length vs) \<and> (\<exists>line. cells vs = line @ newline \<and> CHR 0x0A \<notin> set line)"
proof -
  have "cells vs = (''| '' @ Join vs '' | '' @ '' |'') @ newline" by (simp add: cells_def)
  moreover have "CHR 0x0A \<notin> set (''| '' @ Join vs '' | '' @ '' |'')" using Join_cells [OF assms] by auto
  ultimately show ?thesis
    using Join_cells [OF assms, of "CHR '' ''"] assms(2)
    by (auto simp: cells_def borders_append newline_def Suc_diff_le length_greater_0_conv [symmetric]
        simp del: length_greater_0_conv)
qed

text \<open>
  C32: whatever the report contains, a row of the comment's tables is one line with the borders of its
  columns and no other pipe without a backslash before it, so a message, a symbol, a requirement's reason or
  an owner's comment with line breaks or pipes stays in its cell. This covers the rows of every table: the
  summary and the metadata, the changes, the affected modules, the runtime impacts, the requirements and the
  decisions.
\<close>

theorem table_rows_intact:
  "(\<exists>line. writeRow field content = line @ newline \<and> CHR 0x0A \<notin> set line)
   \<and> borders CHR 0x0A (writeRow field content) = 3
   \<and> (\<exists>line. writeChangeRow change = line @ newline \<and> CHR 0x0A \<notin> set line)
   \<and> borders CHR 0x0A (writeChangeRow change) = 5
   \<and> (\<exists>line. affected_row item = line @ newline \<and> CHR 0x0A \<notin> set line)
   \<and> borders CHR 0x0A (affected_row item) = 5
   \<and> (\<exists>line. impact_row report impact = line @ newline \<and> CHR 0x0A \<notin> set line)
   \<and> borders CHR 0x0A (impact_row report impact) = 8
   \<and> (\<exists>line. mr_requirement_row low requirement = line @ newline \<and> CHR 0x0A \<notin> set line)
   \<and> borders CHR 0x0A (mr_requirement_row low requirement) = 5
   \<and> (\<exists>line. mr_decision_row low decision = line @ newline \<and> CHR 0x0A \<notin> set line)
   \<and> borders CHR 0x0A (mr_decision_row low decision) = 4"
  unfolding writeRow_def writeChangeRow_def affected_row_def impact_row_def mr_requirement_row_def
    mr_decision_row_def Let_def
  by (intro conjI; (rule cells_shape [THEN conjunct2] | subst cells_shape [THEN conjunct1])) simp_all

section \<open>Redaction\<close>

text \<open>
  What a replacement by \<^verbatim>\<open>[redacted]\<close> leaves: a word without a bracket at the start of the result was copied
  from the start of the input, and so a word no matcher lets pass is nowhere in the result.
\<close>

definition redacted :: "string \<Rightarrow> string" where
  "redacted submatch = submatch @ ''[redacted]''"

lemma copied_prefix:
  assumes "\<And>t sub n. m t = Some (sub, n) \<Longrightarrow> sub = ''''" and "CHR ''['' \<notin> set u"
  shows "prefix u (replace_matches m redacted 0 s) \<Longrightarrow> prefix u s"
  using assms(2)
proof (induction s arbitrary: u)
  case (Cons c cs)
  show ?case
  proof (cases "m (c # cs)")
    case None
    with Cons.prems(1) have "u = [] \<or> (\<exists>v. u = c # v \<and> prefix v (replace_matches m redacted 0 cs))"
      by (cases u) auto
    with Cons.IH Cons.prems(2) show ?thesis by auto
  next
    case (Some r)
    obtain sub n where r: "r = (sub, n)" by (cases r)
    with Some assms(1) have "sub = ''''" by blast
    with Some r Cons.prems have "u = []" by (cases u) (auto simp: redacted_def)
    then show ?thesis by simp
  qed
qed simp

lemma sublist_skip:
  assumes "sublist u (x @ y)" and "u \<noteq> []" and "hd u \<notin> set x"
  shows "sublist u y"
proof -
  obtain a b where eq: "x @ y = a @ u @ b" using assms(1) by (auto simp: sublist_def)
  have "length x \<le> length a"
  proof (rule ccontr)
    assume "\<not> length x \<le> length a"
    then have "x ! length a = (a @ u @ b) ! length a" by (metis eq not_le_imp_less nth_append)
    then have "hd u = x ! length a" using assms(2) by (simp add: nth_append hd_conv_nth)
    with assms(3) \<open>\<not> length x \<le> length a\<close> show False by simp
  qed
  then obtain a' where "a = x @ a'" using eq by (metis append_eq_append_conv_if append_take_drop_id)
  with eq show ?thesis by (auto simp: sublist_def)
qed

lemma redact_free:
  assumes m: "\<And>t sub n. m t = Some (sub, n) \<Longrightarrow> sub = ''''"
    and u: "u \<noteq> []" "CHR ''['' \<notin> set u" "hd u \<notin> set ''[redacted]''"
    and pass: "\<And>t. suffix t s \<Longrightarrow> m t = None \<Longrightarrow> \<not> prefix u t"
  shows "\<not> sublist u (replace_matches m redacted k s)"
  using pass
proof (induction s arbitrary: k)
  case Nil
  with u(1) show ?case by simp
next
  case (Cons c cs)
  have rest: "\<not> sublist u (replace_matches m redacted k cs)" for k
    using Cons by (simp add: suffix_Cons)
  show ?case
  proof (cases k)
    case (Suc j)
    with rest show ?thesis by simp
  next
    case 0
    show ?thesis
    proof (cases "m (c # cs)")
      case None
      then have "\<not> prefix u (replace_matches m redacted 0 (c # cs))"
        using copied_prefix [of m u "c # cs"] m u(2) Cons.prems [of "c # cs"] by auto
      with rest None 0 show ?thesis by (simp add: sublist_Cons_right)
    next
      case (Some r)
      obtain sub n where r: "r = (sub, n)" by (cases r)
      with Some m have "sub = ''''" by blast
      then have eq: "replace_matches m redacted k (c # cs) = ''[redacted]'' @ replace_matches m redacted (n - 1) cs"
        using Some r 0 by (simp add: redacted_def)
      show ?thesis unfolding eq using sublist_skip [OF _ u(1,3)] rest by blast
    qed
  qed
qed

text \<open>A text without a token of GitLab or of ProtoRadar.\<close>

definition token_start :: "string \<Rightarrow> char \<Rightarrow> string" where
  "token_start start c = start @ [c]"

definition token_free :: "string \<Rightarrow> bool" where
  "token_free s \<longleftrightarrow>
     (\<forall>c. token_char c \<longrightarrow> \<not> sublist (token_start ''glpat-'' c) s \<and> \<not> sublist (token_start ''prr_'' c) s)"

lemma match_token_sub: "match_token start t = Some (sub, n) \<Longrightarrow> sub = ''''"
  by (auto simp: match_token_def Let_def split: if_splits)

lemma match_token_None:
  "match_token start t = None \<Longrightarrow> token_char c \<Longrightarrow> \<not> prefix (token_start start c) t"
  by (auto simp: match_token_def token_start_def HasPrefix_def Let_def prefix_def split: if_splits)

lemma redact_is: "redact m = replace_matches m redacted 0"
  by (simp add: redact_def redacted_def [abs_def])

lemma token_word:
  assumes "token_char c" and "start = ''glpat-'' \<or> start = ''prr_''"
  shows "token_start start c \<noteq> []" "CHR ''['' \<notin> set (token_start start c)" "hd (token_start start c) \<notin> set ''[redacted]''"
  using assms by (auto simp: token_char_def token_start_def)

lemma redactSecrets_free: "token_free (redactSecrets s)"
proof -
  define t where "t = redact (match_secret secret_keywords) s"
  define g where "g = redact (match_token ''glpat-'') t"
  have "\<not> sublist (token_start ''glpat-'' c) g" if c: "token_char c" for c
    unfolding g_def redact_is using token_word [OF c, of "''glpat-''"] match_token_None [OF _ c]
    by (intro redact_free match_token_sub) auto
  then have "\<not> sublist (token_start ''glpat-'' c) (redact (match_token ''prr_'') g)" if c: "token_char c" for c
    unfolding redact_is using token_word [OF c, of "''glpat-''"] c
    by (intro redact_free match_token_sub) (auto simp: suffix_def prefix_def sublist_def)
  moreover have "\<not> sublist (token_start ''prr_'' c) (redact (match_token ''prr_'') g)" if c: "token_char c" for c
    unfolding redact_is using token_word [OF c, of "''prr_''"] match_token_None [OF _ c]
    by (intro redact_free match_token_sub) auto
  moreover have "redactSecrets s = redact (match_token ''prr_'') g"
    by (simp add: redactSecrets_def g_def t_def)
  ultimately show ?thesis by (simp add: token_free_def)
qed

lemma token_free_append:
  assumes "token_free a" and "token_free b"
    and "a = [] \<or> b = [] \<or> \<not> token_char (last a) \<or> \<not> token_char (hd b)"
  shows "token_free (a @ b)"
proof -
  have "\<not> sublist (token_start start c) (a @ b)"
    if c: "token_char c" and start: "start = ''glpat-'' \<or> start = ''prr_''" for c start
  proof
    have chars: "\<forall>x \<in> set (token_start start c). token_char x"
      using c start by (auto simp: token_char_def token_start_def)
    assume "sublist (token_start start c) (a @ b)"
    then consider "sublist (token_start start c) a" | "sublist (token_start start c) b"
      | x y where "token_start start c = x @ y" "suffix x a" "prefix y b"
      unfolding sublist_append by blast
    then show False
    proof cases
      case 3
      show False
      proof (cases "x = [] \<or> y = []")
        case True
        with 3 have "sublist (token_start start c) a \<or> sublist (token_start start c) b"
          by (metis append_Nil append_Nil2 prefix_imp_sublist suffix_imp_sublist)
        with assms(1,2) c start show False by (auto simp: token_free_def)
      next
        case False
        then have "last a = last x" "hd b = hd y" "a \<noteq> []" "b \<noteq> []"
          using 3(2,3) by (auto simp: suffix_def prefix_def)
        moreover have "token_char (last x)" "token_char (hd y)"
          using chars 3(1) False by (metis Un_iff hd_in_set last_in_set set_append)+
        ultimately show False using assms(3) by auto
      qed
    qed (use assms(1,2) c start in \<open>auto simp: token_free_def\<close>)
  qed
  then show ?thesis by (simp add: token_free_def)
qed

lemma token_free_plain:
  assumes "\<not> Contains s ''glpat-''" and "\<not> Contains s ''prr_''"
  shows "token_free s"
  using assms unfolding token_free_def token_start_def Contains_iff sublist_def by (metis append.assoc)

section \<open>The ways a run ends\<close>

text \<open>What a call leaves as it is: \<open>kept f\<close>; the calls of a run besides those for the comment: \<open>quiet_calls\<close>.\<close>

definition kept :: "('w \<Rightarrow> 'n) \<Rightarrow> 'w \<Rightarrow> 'w \<Rightarrow> bool" where
  "kept f w w' \<longleftrightarrow> f w' = f w"

interpretation kept: effect_preorder "kept f" for f
  by unfold_locales (auto simp: kept_def)

definition quiet_calls :: "('w \<Rightarrow> 'n) \<Rightarrow> 'w Runner \<Rightarrow> bool" where
  "quiet_calls f runner \<longleftrightarrow>
     (\<forall>check. Runner_CheckBreaking runner = Some check \<longrightarrow> (\<forall>a b c d e. steps (kept f) (check a b c d e)))
     \<and> (\<forall>call. Runner_ListAffectedModules runner = Some call \<longrightarrow> (\<forall>a. steps (kept f) (call a)))
     \<and> (\<forall>call. Runner_ListRuntimeImpact runner = Some call \<longrightarrow> (\<forall>a. steps (kept f) (call a)))
     \<and> (\<forall>client. Runner_Governance runner = Some client \<longrightarrow>
          (\<forall>a. steps (kept f) (Gov_GetApprovalStatus client a))
          \<and> (\<forall>a b. steps (kept f) (Gov_CreateApprovalRequest client a b)))
     \<and> (\<forall>client. Runner_GitLab runner = Some client \<longrightarrow>
          (\<forall>a b c. steps (kept f) (Git_SetCommitStatus client a b c)))"

lemma quiet_trivial: "quiet_calls (\<lambda>_. ()) runner"
  by (simp add: quiet_calls_def kept_def steps_def)

definition status_name :: "MrInput \<Rightarrow> string" where
  "status_name input = (if TrimSpace (Mr_StatusName input) = '''' then DefaultStatusName
     else TrimSpace (Mr_StatusName input))"

definition artifact_name :: "MrInput \<Rightarrow> string" where
  "artifact_name input = (if TrimSpace (Mr_ArtifactName input) = '''' then ''source.tar.gz'' else Mr_ArtifactName input)"

definition failure_texts :: "string list" where
  "failure_texts = [''breaking check failed: '', ''governance approval status failed: '']"

lemma quiet_steps:
  assumes "quiet_calls f runner"
  shows "Runner_GitLab runner = Some client \<Longrightarrow> steps (kept f) (setStatus client input name state text)"
    and "steps (kept f) (bestEffortAffectedModules runner input)"
    and "steps (kept f) (fetchRuntimeImpact runner report)"
    and "steps (kept f) (fetchGovernanceStatus runner input report)"
proof -
  note q = assms [unfolded quiet_calls_def]
  show "Runner_GitLab runner = Some client \<Longrightarrow> steps (kept f) (setStatus client input name state text)"
    using q by (simp add: setStatus_def)
  show "steps (kept f) (bestEffortAffectedModules runner input)"
    using q unfolding bestEffortAffectedModules_def
    by (auto intro!: kept.steps_ret kept.steps_bindE kept.steps_attempt split: option.splits)
  show "steps (kept f) (fetchRuntimeImpact runner report)"
    using q unfolding fetchRuntimeImpact_def
    by (auto intro!: kept.steps_ret kept.steps_bindE kept.steps_attempt split: option.splits)
  show "steps (kept f) (fetchGovernanceStatus runner input report)"
    using q unfolding fetchGovernanceStatus_def Let_def
    by (auto intro!: kept.steps_ret kept.steps_raise kept.steps_bindE kept.steps_attempt
        split: option.splits sum.splits)
qed

lemma runCheck_cases:
  assumes run: "runCheck runner client check input name w = (Inr (res, err), w')"
    and quiet: "quiet_calls f runner" "Runner_CheckBreaking runner = Some check"
  obtains (failed) e what w1 where "what \<in> set failure_texts" "kept f w w1"
      "handleError runner client input name (wrap_error what (sanitizeError e)) w1 = (Inr (res, err), w')"
  | (checked) report wr affected wf impacts unavailable wa governance wb where
      "check (TrimSpace (Mr_Module input)) (TrimSpace (Mr_Against input)) (TrimSpace (Mr_TargetRef input))
         (artifact_name input) (Mr_Artifact input) w = (Inr report, wr)"
      "bestEffortAffectedModules runner input wr = (Inr affected, wf)"
      "fetchRuntimeImpact runner report wf = (Inr (impacts, unavailable), wa)"
      "fetchGovernanceStatus runner input report wa = (Inr governance, wb)" "kept f w wb"
      "publishReport runner client input name report governance
         (RenderReport (Runner_lower runner) (renderReportFromBreaking (Runner_lower runner) input report affected
            impacts unavailable governance) (mr_options input)) wb = (Inr (res, err), w')"
proof -
  obtain checked wr where c: "check (TrimSpace (Mr_Module input)) (TrimSpace (Mr_Against input))
      (TrimSpace (Mr_TargetRef input)) (artifact_name input) (Mr_Artifact input) w = (checked, wr)"
    by fastforce
  have "steps (kept f) (check a b c d e)" for a b c d e using quiet by (simp add: quiet_calls_def)
  from stepsD [OF this c] have wr: "kept f w wr" .
  show ?thesis
  proof (cases checked)
    case (Inl e)
    with run c wr show ?thesis
      by (intro failed [of "''breaking check failed: ''" wr e])
        (auto simp: runCheck_def bindE_def attempt_def failure_texts_def artifact_name_def Let_def)
  next
    case (Inr report)
    obtain xa wa where a: "bestEffortAffectedModules runner input wr = (xa, wa)" by fastforce
    obtain xi wi where i: "fetchRuntimeImpact runner report wa = (xi, wi)" by fastforce
    obtain xg wg where g: "fetchGovernanceStatus runner input report wi = (xg, wg)" by fastforce
    have wg: "kept f w wg"
      using wr stepsD [OF quiet_steps(2) [OF quiet(1)] a] stepsD [OF quiet_steps(3) [OF quiet(1)] i]
        stepsD [OF quiet_steps(4) [OF quiet(1)] g] by (simp add: kept_def)
    from run c Inr a i g obtain affected impacts unavailable where
        vals: "xa = Inr affected" "xi = Inr (impacts, unavailable)"
      by (cases xa; cases xi) (auto simp: runCheck_def bindE_def attempt_def artifact_name_def Let_def)
    show ?thesis
    proof (cases xg)
      case (Inl e)
      with run c Inr a i g vals wg show ?thesis
        by (intro failed [of "''governance approval status failed: ''" wg e])
          (auto simp: runCheck_def bindE_def attempt_def failure_texts_def artifact_name_def Let_def)
    next
      case (Inr governance)
      with run c \<open>checked = Inr report\<close> a i g vals wg show ?thesis
        by (intro checked [of report wr affected wa impacts unavailable wi governance wg])
          (auto simp: runCheck_def bindE_def attempt_def artifact_name_def Let_def)
    qed
  qed
qed

lemma Run_cases:
  assumes run: "Runner_Run runner input w = (Inr (res, err), w')" and quiet: "quiet_calls f runner"
  obtains (invalid) msg where "mr_validate runner input = Some msg" "res = only_exit ExitCodeError"
      "err = Some (new_error msg)" "w' = w"
  | (unstarted) client e where "Runner_GitLab runner = Some client" "res = only_exit ExitCodeError"
      "err = Some (wrap_error ''set running commit status: '' (sanitizeError e))" "kept f w w'"
  | (started) client check w1 where "Runner_GitLab runner = Some client" "Runner_CheckBreaking runner = Some check"
      "kept f w w1" "runCheck runner client check input (status_name input) w1 = (Inr (res, err), w')"
      "if Mr_StatusEnabled input
       then setStatus client input (status_name input) CommitStatusStateRunning
         ''ProtoRadar breaking check is running'' w = (Inr (), w1)
       else w1 = w"
proof (cases "mr_validate runner input")
  case (Some msg)
  with run show ?thesis by (intro invalid) (auto simp: Runner_Run_def ret_def)
next
  case None
  then obtain client check where c: "Runner_GitLab runner = Some client" "Runner_CheckBreaking runner = Some check"
    by (auto simp: mr_validate_def split: if_splits)
  let ?set = "setStatus client input (status_name input) CommitStatusStateRunning ''ProtoRadar breaking check is running''"
  show ?thesis
  proof (cases "Mr_StatusEnabled input")
    case False
    with run None c show ?thesis
      by (intro started [of client check w])
        (auto simp: Runner_Run_def bindE_def ret_def status_name_def kept_def Let_def)
  next
    case True
    obtain x w1 where s: "?set w = (x, w1)" by fastforce
    have "kept f w w1" by (rule stepsD [OF quiet_steps(1) [OF quiet c(1)] s])
    with run None c True s show ?thesis
      by (cases x)
        (auto simp: Runner_Run_def bindE_def attempt_def ret_def status_name_def Let_def
          intro: unstarted started)
  qed
qed

section \<open>Errors\<close>

lemma sanitized_free: "token_free (Err_Text (sanitizeError e))"
  by (simp add: sanitizeError_def new_error_def redactSecrets_free)

lemma wrapped_free:
  assumes "\<not> Contains txt ''glpat-''" and "\<not> Contains txt ''prr_''" and "txt = '''' \<or> \<not> token_char (last txt)"
  shows "token_free (Err_Text (wrap_error txt (sanitizeError e)))"
proof -
  have "token_free (txt @ Err_Text (sanitizeError e))"
    by (rule token_free_append [OF token_free_plain [OF assms(1,2)] sanitized_free]) (use assms(3) in blast)
  then show ?thesis by (simp add: wrap_error_def)
qed

lemma failure_texts_free: "txt \<in> set failure_texts \<Longrightarrow> token_free (Err_Text (wrap_error txt (sanitizeError e)))"
  by (rule wrapped_free) (auto simp: failure_texts_def HasPrefix_def token_char_def)

lemma handleError_result:
  assumes run: "handleError runner client input name cause w = (Inr (res, err), w')"
  shows "MrResult_ExitCode res = ExitCodeError
    \<and> (\<exists>e. err = Some e \<and> (token_free (Err_Text cause) \<longrightarrow> token_free (Err_Text e)))"
proof -
  have tail: "token_free (comment_failed @ Err_Text (sanitizeError e))" for e
    by (rule token_free_append [OF token_free_plain sanitized_free])
      (simp_all add: comment_failed_def HasPrefix_def token_char_def)
  have "comment_failed \<noteq> []" "\<not> token_char (hd comment_failed)"
    by (simp_all add: comment_failed_def token_char_def)
  then have "token_free (Err_Text cause @ comment_failed @ Err_Text (sanitizeError e))"
    if "token_free (Err_Text cause)" for e
    by (intro token_free_append [OF that tail]) simp
  note appended = this
  obtain x w1 where u: "upsertComment client input (failureMarkdown runner input cause) w = (x, w1)" by fastforce
  show ?thesis
  proof (cases x)
    case (Inl e)
    with run u appended show ?thesis by (auto simp: handleError_def Let_def bindE_Inr attempt_simps)
  next
    case (Inr na)
    with run u show ?thesis by (cases na) (auto simp: handleError_def Let_def bindE_Inr attempt_simps)
  qed
qed

lemma publishReport_result:
  assumes run: "publishReport runner client input name report governance markdown w = (Inr (res, err), w')"
  obtains (passed) state description n w1 where "err = None" "MrResult_BreakingStatus res = MrBreaking_Status report"
      "finalState (Runner_lower runner) input report governance = (state, description, MrResult_ExitCode res)"
      "upsertComment client input markdown w = (Inr (n, MrResult_CommentAction res), w1)"
      "MrResult_Markdown res = markdown"
      "if Mr_StatusEnabled input then setStatus client input name state description w1 = (Inr (), w') else w' = w1"
  | (failed) e where "err = Some e" "token_free (Err_Text e)" "MrResult_ExitCode res = ExitCodeError"
proof -
  obtain x w1 where u: "upsertComment client input markdown w = (x, w1)" by fastforce
  obtain state description code where f: "finalState (Runner_lower runner) input report governance = (state, description, code)"
    by (cases "finalState (Runner_lower runner) input report governance")
  have final: "token_free (Err_Text (wrap_error ''set final commit status: '' (sanitizeError e)))" for e
    by (rule wrapped_free) (simp_all add: HasPrefix_def token_char_def)
  show ?thesis
  proof (cases x)
    case (Inl e)
    with run u show ?thesis
      by (intro failed [of "sanitizeError e"])
        (auto simp: publishReport_def Let_def bindE_Inr attempt_simps sanitized_free)
  next
    case (Inr na)
    obtain n action where na: "na = (n, action)" by (cases na)
    show ?thesis
    proof (cases "Mr_StatusEnabled input")
      case False
      with run u Inr na f show ?thesis
        by (intro passed [of state description n w1])
          (auto simp: publishReport_def Let_def bindE_Inr attempt_simps)
    next
      case True
      obtain y w2 where s: "setStatus client input name state description w1 = (y, w2)" by fastforce
      show ?thesis
      proof (cases y)
        case (Inl e)
        with run u \<open>x = Inr na\<close> na f True s show ?thesis
          by (intro failed [of "wrap_error ''set final commit status: '' (sanitizeError e)"])
            (auto simp: publishReport_def Let_def bindE_Inr attempt_simps final)
      next
        case (Inr v)
        with run u \<open>x = Inr na\<close> na f True s show ?thesis
          by (intro passed [of state description n w1])
            (auto simp: publishReport_def Let_def bindE_Inr attempt_simps)
      qed
    qed
  qed
qed

lemma valid_free: "mr_validate runner input = Some msg \<Longrightarrow> token_free msg"
  by (auto simp: mr_validate_def HasPrefix_def split: if_splits intro!: token_free_plain)

text \<open>
  C31: whatever the clients answer, the error a run returns, which the command prints in the job's log,
  contains no GitLab token (\<^verbatim>\<open>glpat-...\<close>) and no ProtoRadar token (\<^verbatim>\<open>prr_...\<close>).
\<close>

theorem errors_carry_no_token:
  assumes "Runner_Run runner input w = (Inr (res, Some e), w')"
  shows "token_free (Err_Text e)"
  using assms quiet_trivial
proof (cases rule: Run_cases)
  case (invalid msg)
  then have "token_free msg" by (intro valid_free)
  with invalid show ?thesis by (simp add: new_error_def)
next
  case (unstarted client d)
  have "token_free (Err_Text (wrap_error ''set running commit status: '' (sanitizeError d)))"
    by (rule wrapped_free) (simp_all add: HasPrefix_def token_char_def)
  with unstarted show ?thesis by simp
next
  case (started client check w1)
  show ?thesis
    using started(4) quiet_trivial started(2)
  proof (cases rule: runCheck_cases)
    case (failed d what w2)
    from handleError_result [OF failed(3)] failure_texts_free [OF failed(1)] show ?thesis by auto
  next
    case (checked report)
    from checked(6) show ?thesis by (cases rule: publishReport_result) auto
  qed
qed

section \<open>The gate\<close>

definition gate_open :: "(string \<Rightarrow> string) \<Rightarrow> MrInput \<Rightarrow> MrBreakingReport \<Rightarrow> GovernanceStatus option \<Rightarrow> bool" where
  "gate_open low input report governance \<longleftrightarrow>
     (let verdict = (case governance of Some g \<Rightarrow> ToLower low (TrimSpace (GovStatus_Status g)) | None \<Rightarrow> '''');
          unbroken = ToLower low (TrimSpace (MrBreaking_Status report)) \<noteq> ''breaking''
      in if Mr_GovernanceEnabled input \<and> verdict \<in> {''approved'', ''not_required''} then True
         else if Mr_GovernanceEnabled input \<and> verdict \<in> {''pending'', ''rejected''} then False
         else unbroken)"

lemma finalState_gate:
  "finalState low input report governance = (state, description, code) \<Longrightarrow>
     (code = (if gate_open low input report governance then ExitCodePassed else ExitCodeBreaking))
     \<and> (state = (if gate_open low input report governance then CommitStatusStateSuccess else CommitStatusStateFailed))"
  by (auto simp: finalState_def gate_open_def Let_def split: if_splits)

text \<open>
  C30: the exit code is the gate of the pipeline. It is 2 exactly when an error is returned. Otherwise the
  run went through its steps, each from the state the one before left: the running status (if statuses are
  enabled), the server's check, the affected modules, the runtime impact, the governance status, the comment
  and the final status; and the answers of the check and of the governance status decide. With governance
  enabled the verdict decides alone: approved or not required gives 0, pending or rejected gives 1, even for a
  report that is not breaking. Without such a verdict, or with governance disabled, the code is 1 exactly
  for a breaking report. The final commit status is success exactly when the code is 0.
\<close>

theorem exit_code_is_gate:
  assumes "Runner_Run runner input w = (Inr (res, err), w')"
  shows "(MrResult_ExitCode res = ExitCodeError \<longleftrightarrow> err \<noteq> None)
    \<and> (err = None \<longrightarrow> (\<exists>check client w1 report w2 affected w3 impacts w4 governance w5 n w6 description.
         Runner_CheckBreaking runner = Some check \<and> Runner_GitLab runner = Some client
       \<and> (if Mr_StatusEnabled input
          then setStatus client input (status_name input) CommitStatusStateRunning
            ''ProtoRadar breaking check is running'' w = (Inr (), w1)
          else w1 = w)
       \<and> check (TrimSpace (Mr_Module input)) (TrimSpace (Mr_Against input)) (TrimSpace (Mr_TargetRef input))
           (artifact_name input) (Mr_Artifact input) w1 = (Inr report, w2)
       \<and> bestEffortAffectedModules runner input w2 = (Inr affected, w3)
       \<and> fetchRuntimeImpact runner report w3 = (Inr impacts, w4)
       \<and> fetchGovernanceStatus runner input report w4 = (Inr governance, w5)
       \<and> upsertComment client input (MrResult_Markdown res) w5 = (Inr (n, MrResult_CommentAction res), w6)
       \<and> MrResult_ExitCode res =
           (if gate_open (Runner_lower runner) input report governance then ExitCodePassed else ExitCodeBreaking)
       \<and> (if Mr_StatusEnabled input
          then setStatus client input (status_name input)
            (if gate_open (Runner_lower runner) input report governance then CommitStatusStateSuccess
             else CommitStatusStateFailed) description w6 = (Inr (), w')
          else w' = w6)))"
  using assms quiet_trivial
proof (cases rule: Run_cases)
  case (started client check w1)
  show ?thesis
    using started(4) quiet_trivial started(2)
  proof (cases rule: runCheck_cases)
    case (failed d what w2)
    from handleError_result [OF failed(3)] show ?thesis by (elim conjE exE) simp
  next
    case (checked report wr affected wf impacts unavailable wa governance wb)
    from checked(6) show ?thesis
    proof (cases rule: publishReport_result)
      case (passed state description n ws)
      note gate = finalState_gate [OF passed(3)]
      have codes: "ExitCodePassed \<noteq> ExitCodeError" "ExitCodeBreaking \<noteq> ExitCodeError"
        by (simp_all add: ExitCodePassed_def ExitCodeBreaking_def ExitCodeError_def)
      have no_error: "MrResult_ExitCode res \<noteq> ExitCodeError" using gate codes by simp
      have comment: "upsertComment client input (MrResult_Markdown res) wb = (Inr (n, MrResult_CommentAction res), ws)"
        using passed(4,5) by simp
      have final: "if Mr_StatusEnabled input
          then setStatus client input (status_name input)
            (if gate_open (Runner_lower runner) input report governance then CommitStatusStateSuccess
             else CommitStatusStateFailed) description ws = (Inr (), w')
          else w' = ws"
        using passed(6) gate [THEN conjunct2] 
        by (cases "Mr_StatusEnabled input"; cases "gate_open (Runner_lower runner) input report governance") simp_all
      show ?thesis
        using passed(1) no_error
        by (intro conjI impI exI [of _ check] exI [of _ client] exI [of _ w1] exI [of _ report] exI [of _ wr]
            exI [of _ affected] exI [of _ wf] exI [of _ "(impacts, unavailable)"] exI [of _ wa]
            exI [of _ governance] exI [of _ wb] exI [of _ n] exI [of _ ws] exI [of _ description]
            started(1,2,5) checked(1,2,3,4) comment gate [THEN conjunct1] final) simp_all
    qed auto
  qed
qed (auto simp: only_exit_def)

section \<open>One comment\<close>

text \<open>
  What GitLab's interface for notes promises for one merge request, whose notes are \<open>notes w\<close>: listing
  answers with one page of them, creating adds a note with the given body, updating replaces the note with the
  given id, and a call that fails changes none. Which notes are on the page is a parameter: GitLab answers a
  request that names no page with the first one, and the client asks once.
\<close>

definition gitlab_notes ::
  "'w GitLabClient \<Rightarrow> int \<Rightarrow> int \<Rightarrow> ('w \<Rightarrow> MergeRequestNote list)
   \<Rightarrow> (MergeRequestNote list \<Rightarrow> MergeRequestNote list) \<Rightarrow> bool" where
  "gitlab_notes client p i notes page \<longleftrightarrow>
     (\<forall>ns. set (page ns) \<subseteq> set ns)
     \<and> (\<forall>w r w'. Git_ListMergeRequestNotes client p i w = (r, w') \<longrightarrow>
        notes w' = notes w \<and> (\<forall>ns. r = Inr ns \<longrightarrow> ns = page (notes w)))
     \<and> (\<forall>body w r w'. Git_CreateMergeRequestNote client p i body w = (r, w') \<longrightarrow>
        (case r of Inl _ \<Rightarrow> notes w' = notes w
         | Inr n \<Rightarrow> Note_Body n = body \<and> notes w' = notes w @ [n]))
     \<and> (\<forall>k body w r w'. Git_UpdateMergeRequestNote client p i k body w = (r, w') \<longrightarrow>
        (case r of Inl _ \<Rightarrow> notes w' = notes w
         | Inr n \<Rightarrow> Note_Body n = body \<and> notes w' = map (\<lambda>x. if Note_ID x = k then n else x) (notes w)))"

lemma gitlab_notesD:
  assumes "gitlab_notes client p i notes page"
  shows "set (page xs) \<subseteq> set xs"
    and "Git_ListMergeRequestNotes client p i w = (Inr ns, w') \<Longrightarrow> ns = page (notes w) \<and> notes w' = notes w"
    and "Git_CreateMergeRequestNote client p i body w = (Inr n, w') \<Longrightarrow>
      Note_Body n = body \<and> notes w' = notes w @ [n]"
    and "Git_UpdateMergeRequestNote client p i k body w = (Inr n, w') \<Longrightarrow>
      Note_Body n = body \<and> notes w' = map (\<lambda>x. if Note_ID x = k then n else x) (notes w)"
proof -
  note promise = assms [unfolded gitlab_notes_def]
  show "set (page xs) \<subseteq> set xs" using promise by (elim conjE) (erule allE)
  show "Git_ListMergeRequestNotes client p i w = (Inr ns, w') \<Longrightarrow> ns = page (notes w) \<and> notes w' = notes w"
    using promise by (elim conjE) simp
  show "Git_CreateMergeRequestNote client p i body w = (Inr n, w') \<Longrightarrow>
      Note_Body n = body \<and> notes w' = notes w @ [n]"
    by (drule promise [THEN conjunct2, THEN conjunct2, THEN conjunct1, rule_format]) simp
  show "Git_UpdateMergeRequestNote client p i k body w = (Inr n, w') \<Longrightarrow>
      Note_Body n = body \<and> notes w' = map (\<lambda>x. if Note_ID x = k then n else x) (notes w)"
    by (drule promise [THEN conjunct2, THEN conjunct2, THEN conjunct2, rule_format]) simp
qed

lemma select_invariant:
  assumes "\<forall>n. Sel_selected sel = Some n \<longrightarrow> n \<in> A \<and> ContainsMarker (Note_Body n) m" and "set ns \<subseteq> A"
    and "Sel_selected sel = None \<longrightarrow> \<not> Sel_sawTimestamp sel"
  shows "(\<forall>n. Sel_selected (fold (selectNote m) ns sel) = Some n \<longrightarrow> n \<in> A \<and> ContainsMarker (Note_Body n) m)
    \<and> (Sel_selected (fold (selectNote m) ns sel) = None \<longrightarrow>
         Sel_selected sel = None \<and> (\<forall>n \<in> set ns. \<not> ContainsMarker (Note_Body n) m))"
  using assms
proof (induction ns arbitrary: sel)
  case (Cons n ns)
  have "\<forall>x. Sel_selected (selectNote m n sel) = Some x \<longrightarrow> x \<in> A \<and> ContainsMarker (Note_Body x) m"
    "Sel_selected (selectNote m n sel) = None \<longrightarrow> \<not> Sel_sawTimestamp (selectNote m n sel)"
    "Sel_selected (selectNote m n sel) = None \<longrightarrow> Sel_selected sel = None \<and> \<not> ContainsMarker (Note_Body n) m"
    using Cons.prems by (auto simp: selectNote_def Let_def)
  with Cons.IH [of "selectNote m n sel"] Cons.prems(2) show ?case by auto
qed simp

lemma SelectExistingNote_Some:
  "SelectExistingNote ns m = Some n \<Longrightarrow> n \<in> set ns \<and> ContainsMarker (Note_Body n) m"
  and SelectExistingNote_None:
  "SelectExistingNote ns m = None \<Longrightarrow> \<forall>n \<in> set ns. \<not> ContainsMarker (Note_Body n) m"
  unfolding SelectExistingNote_def
  using select_invariant [of "\<lparr>Sel_selected = None, Sel_selectedTime = 0, Sel_sawTimestamp = False\<rparr>" "set ns" m ns]
  by auto

text \<open>
  The notes after a comment with the body \<open>markdown\<close> was published: the latest marked note of the page is
  replaced, or, if the page has none, a note is added.
\<close>

definition upserted ::
  "('w \<Rightarrow> MergeRequestNote list) \<Rightarrow> (MergeRequestNote list \<Rightarrow> MergeRequestNote list)
   \<Rightarrow> string \<Rightarrow> string \<Rightarrow> string \<Rightarrow> 'w \<Rightarrow> 'w \<Rightarrow> bool" where
  "upserted notes page m markdown action w w' \<longleftrightarrow>
     (\<exists>n. Note_Body n = markdown
        \<and> (if \<exists>x \<in> set (page (notes w)). ContainsMarker (Note_Body x) m
           then action = ''updated'' \<and> (\<exists>old \<in> set (page (notes w)). ContainsMarker (Note_Body old) m
                \<and> notes w' = map (\<lambda>x. if Note_ID x = Note_ID old then n else x) (notes w))
           else action = ''created'' \<and> notes w' = notes w @ [n]))"

lemma upsertComment_upserts:
  assumes run: "upsertComment client input markdown w = (Inr (n, action), w')"
    and promise: "gitlab_notes client (Mr_GitLabProjectID input) (Mr_MergeRequestIID input) notes page"
  shows "upserted notes page (Mr_Module input) markdown action w w'"
proof -
  obtain ns w1 where l: "Git_ListMergeRequestNotes client (Mr_GitLabProjectID input) (Mr_MergeRequestIID input) w
      = (Inr ns, w1)"
    and rest: "(case SelectExistingNote ns (Mr_Module input) of
          Some existing \<Rightarrow> Git_UpdateMergeRequestNote client (Mr_GitLabProjectID input) (Mr_MergeRequestIID input)
              (Note_ID existing) markdown w1 = (Inr n, w') \<and> action = ''updated''
        | None \<Rightarrow> Git_CreateMergeRequestNote client (Mr_GitLabProjectID input) (Mr_MergeRequestIID input)
              markdown w1 = (Inr n, w') \<and> action = ''created'')"
    using run by (auto simp: upsertComment_def Let_def bindE_Inr split: option.splits)
  have ns: "ns = page (notes w)" "notes w1 = notes w" using gitlab_notesD(2) [OF promise l] by simp_all
  show ?thesis
  proof (cases "SelectExistingNote ns (Mr_Module input)")
    case None
    with rest have "action = ''created''" "Note_Body n = markdown \<and> notes w' = notes w1 @ [n]"
      by (auto dest: gitlab_notesD(3) [OF promise])
    moreover have "\<not> (\<exists>x \<in> set (page (notes w)). ContainsMarker (Note_Body x) (Mr_Module input))"
      using ns SelectExistingNote_None [OF None] by blast
    ultimately show ?thesis using ns by (simp add: upserted_def)
  next
    case (Some old)
    with rest have "action = ''updated''" "Note_Body n = markdown
        \<and> notes w' = map (\<lambda>x. if Note_ID x = Note_ID old then n else x) (notes w1)"
      by (auto dest: gitlab_notesD(4) [OF promise])
    moreover have "\<exists>x \<in> set (page (notes w)). x = old \<and> ContainsMarker (Note_Body x) (Mr_Module input)"
      using SelectExistingNote_Some [OF Some] ns by blast
    ultimately show ?thesis using ns(2) unfolding upserted_def by (intro exI [of _ n]) auto
  qed
qed

text \<open>The marked notes of a merge request, and that a published comment is one of them.\<close>

definition marked_notes :: "string \<Rightarrow> MergeRequestNote list \<Rightarrow> MergeRequestNote list" where
  "marked_notes m = filter (\<lambda>n. ContainsMarker (Note_Body n) m)"

lemma upserted_marked:
  assumes "upserted notes page m markdown action w w'" and "ContainsMarker markdown m"
    and "\<And>ns. set (page ns) \<subseteq> set ns"
  shows "marked_notes m (notes w') \<noteq> []"
proof -
  obtain n where n: "Note_Body n = markdown" and either: "notes w' = notes w @ [n]
      \<or> (\<exists>old \<in> set (page (notes w)). notes w' = map (\<lambda>x. if Note_ID x = Note_ID old then n else x) (notes w))"
    using assms(1) by (auto simp: upserted_def split: if_splits)
  from either assms(3) have "n \<in> set (notes w')" by force
  with n assms(2) show ?thesis by (auto simp: marked_notes_def filter_empty_conv)
qed

lemma handleError_comment:
  assumes run: "handleError runner client input name cause w = (Inr (res, err), w')"
    and "MrResult_CommentAction res \<noteq> ''''" and quiet: "quiet_calls f runner" "Runner_GitLab runner = Some client"
  shows "\<exists>n w1. upsertComment client input (failureMarkdown runner input cause) w = (Inr (n, MrResult_CommentAction res), w1)
    \<and> kept f w1 w' \<and> MrResult_Markdown res = failureMarkdown runner input cause"
proof -
  obtain x w1 where u: "upsertComment client input (failureMarkdown runner input cause) w = (x, w1)" by fastforce
  have best: "steps (kept f) (bestEffortSetStatus client input name CommitStatusStateFailed t)" for t
    unfolding bestEffortSetStatus_def
    by (intro kept.steps_bindE kept.steps_attempt kept.steps_ret quiet_steps(1) [OF quiet])
  show ?thesis
  proof (cases x)
    case (Inl e)
    with run u assms(2) show ?thesis by (auto simp: handleError_def Let_def bindE_Inr attempt_simps)
  next
    case (Inr na)
    obtain n action where na: "na = (n, action)" by (cases na)
    have "kept f w1 w'"
      using run u Inr na stepsD [OF best]
      by (auto simp: handleError_def Let_def bindE_Inr attempt_simps kept_def split: if_splits)
    with run u Inr na show ?thesis
      by (auto simp: handleError_def Let_def bindE_Inr attempt_simps)
  qed
qed

lemma publishReport_comment:
  assumes run: "publishReport runner client input name report governance markdown w = (Inr (res, err), w')"
    and "MrResult_CommentAction res \<noteq> ''''" and quiet: "quiet_calls f runner" "Runner_GitLab runner = Some client"
  shows "\<exists>n w1. upsertComment client input markdown w = (Inr (n, MrResult_CommentAction res), w1)
    \<and> kept f w1 w' \<and> MrResult_Markdown res = markdown"
proof -
  obtain x w1 where u: "upsertComment client input markdown w = (x, w1)" by fastforce
  obtain state description code where fs: "finalState (Runner_lower runner) input report governance = (state, description, code)"
    by (cases "finalState (Runner_lower runner) input report governance")
  show ?thesis
  proof (cases x)
    case (Inl e)
    with run u assms(2) show ?thesis by (auto simp: publishReport_def Let_def bindE_Inr attempt_simps)
  next
    case (Inr na)
    obtain n action where na: "na = (n, action)" by (cases na)
    have "kept f w1 w'"
      using run u Inr na fs stepsD [OF quiet_steps(1) [OF quiet]]
      by (auto simp: publishReport_def Let_def bindE_Inr attempt_simps kept_def split: if_splits)
    moreover have "MrResult_CommentAction res = action \<and> MrResult_Markdown res = markdown"
    proof -
      let ?set = "if Mr_StatusEnabled input then attempt (setStatus client input name state description)
          else ret (Inr ())"
      obtain z w2 where m: "?set w1 = (z, w2)" by fastforce
      then obtain y where z: "z = Inr y" by (auto simp: attempt_simps ret_def split: if_splits)
      with m have "?set w1 = (Inr y, w2)" by simp
      with run u Inr na fs show ?thesis
        by (cases y) (auto simp: publishReport_def Let_def bindE_def attempt_def [of "upsertComment client input markdown"]
            ret_def)
    qed
    ultimately show ?thesis using u Inr na by auto
  qed
qed

lemma RenderReport_marked:
  assumes "TrimSpace (MrReport_Module report) = TrimSpace m"
  shows "ContainsMarker (RenderReport low report options) m"
proof -
  have "BuildMarker m = BuildMarker (MrReport_Module report)"
    by (simp add: BuildMarker_def markerModuleName_def assms)
  then show ?thesis
    unfolding ContainsMarker_def RenderReport_def Let_def Contains_iff by (metis append_Nil)
qed

text \<open>The server's report names the module that was asked for, or none.\<close>

definition names_module :: "'w Runner \<Rightarrow> bool" where
  "names_module runner \<longleftrightarrow>
     (\<forall>check a b c d e w report w'. Runner_CheckBreaking runner = Some check \<longrightarrow>
        check a b c d e w = (Inr report, w') \<longrightarrow> TrimSpace (MrBreaking_Module report) \<in> {'''', TrimSpace a})"

lemma Run_comments:
  assumes run: "Runner_Run runner input w = (Inr (res, err), w')" and said: "MrResult_CommentAction res \<noteq> ''''"
    and client: "Runner_GitLab runner = Some client"
    and promise: "gitlab_notes client (Mr_GitLabProjectID input) (Mr_MergeRequestIID input) notes page"
    and quiet: "quiet_calls notes runner" and named: "names_module runner"
  shows "upserted notes page (Mr_Module input) (MrResult_Markdown res) (MrResult_CommentAction res) w w'
    \<and> ContainsMarker (MrResult_Markdown res) (Mr_Module input)"
proof -
  have upserts: "upserted notes page (Mr_Module input) (MrResult_Markdown res) (MrResult_CommentAction res) w w'"
    if "upsertComment client input (MrResult_Markdown res) w1 = (Inr (n, MrResult_CommentAction res), w2)"
      "kept notes w w1" "kept notes w2 w'" for n w1 w2
    using upsertComment_upserts [OF that(1) promise] that(2,3) unfolding upserted_def kept_def by (simp only:)
  show ?thesis
    using run quiet
  proof (cases rule: Run_cases)
    case (started client' check w1)
    with client have c: "client' = client" by simp
    show ?thesis
      using started(4) quiet started(2)
    proof (cases rule: runCheck_cases)
      case (failed d what w2)
      obtain n w3 where "upsertComment client input (MrResult_Markdown res) w2 = (Inr (n, MrResult_CommentAction res), w3)"
          "kept notes w3 w'"
          "MrResult_Markdown res = failureMarkdown runner input (wrap_error what (sanitizeError d))"
        using handleError_comment [OF failed(3) said quiet started(1)] c by auto
      moreover have "kept notes w w2" using started(3) failed(2) by (simp add: kept_def)
      moreover have "ContainsMarker (failureMarkdown runner input cause) (Mr_Module input)" for cause
        unfolding failureMarkdown_def by (rule RenderReport_marked) simp
      ultimately show ?thesis using upserts by metis
    next
      case (checked report wr affected wf impacts unavailable wa governance wb)
      let ?rendered = "renderReportFromBreaking (Runner_lower runner) input report affected impacts unavailable governance"
      obtain n w3 where "upsertComment client input (MrResult_Markdown res) wb = (Inr (n, MrResult_CommentAction res), w3)"
          "kept notes w3 w'" "MrResult_Markdown res = RenderReport (Runner_lower runner) ?rendered (mr_options input)"
        using publishReport_comment [OF checked(6) said quiet started(1)] c by auto
      moreover have "kept notes w wb" using started(3) checked(5) by (simp add: kept_def)
      moreover have "TrimSpace (MrBreaking_Module report) \<in> {'''', TrimSpace (Mr_Module input)}"
        using named started(2) checked(1) unfolding names_module_def by (metis TrimSpace_idem)
      then have "TrimSpace (MrReport_Module ?rendered) = TrimSpace (Mr_Module input)"
        by (auto simp: renderReportFromBreaking_def Let_def)
      then have "ContainsMarker (RenderReport (Runner_lower runner) ?rendered (mr_options input)) (Mr_Module input)"
        by (rule RenderReport_marked)
      ultimately show ?thesis using upserts by metis
    qed
  qed (use said in \<open>auto simp: only_exit_def\<close>)
qed

text \<open>
  which comment a run leaves behind. A first run for a module publishes its comment; later, when the
  comments of the merge request are still there, possibly among others, a second run for the module publishes
  its own. If the page of notes that GitLab lists then has a comment of the module, the second run replaces
  such a comment by its own and adds none. If not, because the earlier comment has moved to another page, it
  adds one, and the merge request has two comments of the module. The first run itself created a
  comment only if the page it was given had none of the module.
\<close>

theorem listed_comment_updated:
  assumes "Runner_Run runner input w = (Inr (res, err), w1)" and "MrResult_CommentAction res \<noteq> ''''"
    and "Runner_Run runner input' w2 = (Inr (res', err'), w3)" and "MrResult_CommentAction res' \<noteq> ''''"
    and "Runner_GitLab runner = Some client"
    and "gitlab_notes client (Mr_GitLabProjectID input) (Mr_MergeRequestIID input) notes page"
    and "quiet_calls notes runner" and "names_module runner"
    and "Mr_Module input' = Mr_Module input" and "Mr_GitLabProjectID input' = Mr_GitLabProjectID input"
    and "Mr_MergeRequestIID input' = Mr_MergeRequestIID input"
    and "set (notes w1) \<subseteq> set (notes w2)"
  shows "ContainsMarker (MrResult_Markdown res') (Mr_Module input)
    \<and> (\<exists>n. Note_Body n = MrResult_Markdown res'
      \<and> (if \<exists>x \<in> set (page (notes w2)). ContainsMarker (Note_Body x) (Mr_Module input)
         then MrResult_CommentAction res' = ''updated''
           \<and> (\<exists>old \<in> set (page (notes w2)). ContainsMarker (Note_Body old) (Mr_Module input)
                \<and> notes w3 = map (\<lambda>x. if Note_ID x = Note_ID old then n else x) (notes w2))
         else MrResult_CommentAction res' = ''created'' \<and> notes w3 = notes w2 @ [n]
           \<and> 2 \<le> length (filter (\<lambda>x. ContainsMarker (Note_Body x) (Mr_Module input)) (notes w3))))
    \<and> (MrResult_CommentAction res = ''created'' \<longrightarrow>
        (\<forall>x \<in> set (page (notes w)). \<not> ContainsMarker (Note_Body x) (Mr_Module input)))"
proof -
  let ?m = "Mr_Module input"
  note first = Run_comments [OF assms(1,2,5-8)]
  note second = Run_comments [OF assms(3,4,5) _ assms(7,8), unfolded assms(9-11), OF assms(6)]
  note page = gitlab_notesD(1) [OF assms(6)]
  have "marked_notes ?m (notes w1) \<noteq> []"
    using upserted_marked [OF first [THEN conjunct1] first [THEN conjunct2] page] .
  then have "marked_notes ?m (notes w2) \<noteq> []"
    using assms(12) by (auto simp: marked_notes_def filter_empty_conv)
  then have "Suc 0 \<le> length (filter (\<lambda>x. ContainsMarker (Note_Body x) ?m) (notes w2))"
    by (simp add: marked_notes_def Suc_le_eq)
  moreover have "MrResult_CommentAction res = ''created'' \<longrightarrow>
      (\<forall>x \<in> set (page (notes w)). \<not> ContainsMarker (Note_Body x) ?m)"
    using first by (auto simp: upserted_def split: if_splits)
  ultimately show ?thesis
    using second unfolding upserted_def by (elim conjE exE) (intro conjI exI; (assumption | auto split: if_splits))
qed

end
