(* ===== verification/Mr_Witnesses.thy ===== *)
theory Mr_Witnesses
  imports Mr_Claims
begin

text \<open>
  The properties of the merge request check applied to a GitLab that keeps its notes in a list and lists the
  latest twenty, and a server that finds one breaking change.
\<close>

definition sample_note :: "int \<Rightarrow> string \<Rightarrow> MergeRequestNote" where
  "sample_note k body = \<lparr>Note_ID = k, Note_Body = body, Note_CreatedAt = k, Note_UpdatedAt = 0,
     Note_Author = \<lparr>Author_Username = ''bot'', Author_Name = ''''\<rparr>\<rparr>"

definition sample_gitlab :: "MergeRequestNote list GitLabClient" where
  "sample_gitlab = \<lparr>
     Git_ListMergeRequestNotes = (\<lambda>p i w. (Inr (take 20 (rev w)), w)),
     Git_CreateMergeRequestNote = (\<lambda>p i body w. (let n = sample_note (int (length w) + 1) body in (Inr n, w @ [n]))),
     Git_UpdateMergeRequestNote = (\<lambda>p i k body w. (let n = sample_note k body
       in (Inr n, map (\<lambda>x. if Note_ID x = k then n else x) w))),
     Git_SetCommitStatus = (\<lambda>p sha status w. (Inr (), w))\<rparr>"

definition sample_break :: "string \<Rightarrow> string \<Rightarrow> MrBreakingReport" where
  "sample_break module against = \<lparr>MrBreaking_ID = '''', MrBreaking_Module = module, MrBreaking_Against = against,
     MrBreaking_TargetRef = '''', MrBreaking_Status = ''breaking'', MrBreaking_ChangeCount = 1,
     MrBreaking_Changes = [\<lparr>MrBreak_Category = '''', MrBreak_FilePath = ''a.proto'', MrBreak_PackageName = '''',
       MrBreak_Symbol = '''', MrBreak_RuleID = '''', MrBreak_Message = ''a|b'', MrBreak_Severity = ''''\<rparr>],
     MrBreaking_HumanSummary = '''', MrBreaking_CreatedAt = 0\<rparr>"

definition sample_runner :: "MergeRequestNote list Runner" where
  "sample_runner = \<lparr>Runner_CheckBreaking = Some (\<lambda>module against targetRef name artifact. ret (sample_break module against)),
     Runner_ListAffectedModules = None, Runner_ListRuntimeImpact = None, Runner_Governance = None,
     Runner_GitLab = Some sample_gitlab, Runner_lower = (\<lambda>s. s)\<rparr>"

definition sample_mr :: MrInput where
  "sample_mr = \<lparr>Mr_Module = ''billing'', Mr_Against = ''v1'', Mr_TargetRef = '''', Mr_ArtifactName = '''',
     Mr_Artifact = ''x'', Mr_GitLabProjectID = 1, Mr_MergeRequestIID = 2, Mr_CommitSHA = ''abc'',
     Mr_StatusEnabled = True, Mr_StatusName = '''', Mr_StatusTargetURL = '''', Mr_MaxDisplayedChanges = 0,
     Mr_GovernanceEnabled = False, Mr_GovernanceActor = ''''\<rparr>"

definition first_check :: "(client_error + MrResult \<times> client_error option) \<times> MergeRequestNote list" where
  "first_check = Runner_Run sample_runner sample_mr []"

text \<open>The same check again, at once and after twenty notes of others.\<close>

definition others :: "MergeRequestNote list" where
  "others = map (\<lambda>k. sample_note (int k) ''ok'') [2..<22]"

definition second_check :: "(client_error + MrResult \<times> client_error option) \<times> MergeRequestNote list" where
  "second_check = Runner_Run sample_runner sample_mr (snd first_check)"

definition late_check :: "(client_error + MrResult \<times> client_error option) \<times> MergeRequestNote list" where
  "late_check = Runner_Run sample_runner sample_mr (snd first_check @ others)"

lemma sample_texts:
  "TrimSpace ''billing'' = ''billing''" "TrimSpace ''v1'' = ''v1''" "TrimSpace ''abc'' = ''abc''" "TrimSpace '''' = ''''"
  "ToLower (\<lambda>s. s) (TrimSpace ''breaking'') = ''breaking''"
  by code_simp+

lemma sample_run:
  "\<exists>res. Runner_Run sample_runner sample_mr w = (Inr (res, None), snd (Runner_Run sample_runner sample_mr w))
     \<and> MrResult_CommentAction res \<noteq> '''' \<and> MrResult_ExitCode res = ExitCodeBreaking"
  by (cases "SelectExistingNote (take 20 (rev w)) ''billing''")
    (simp_all add: Runner_Run_def mr_validate_def sample_runner_def sample_mr_def sample_gitlab_def sample_texts
      setStatus_def upsertComment_def runCheck_def bestEffortAffectedModules_def fetchRuntimeImpact_def
      fetchGovernanceStatus_def publishReport_def finalState_def sample_break_def bindE_def attempt_def ret_def
      mapErr_def catchE_def Let_def)

lemma sample_contracts:
  "Runner_GitLab sample_runner = Some sample_gitlab" "gitlab_notes sample_gitlab p i (\<lambda>w. w) (\<lambda>ns. take 20 (rev ns))"
  "quiet_calls (\<lambda>w. w) sample_runner" "names_module sample_runner"
  by (auto dest!: in_set_takeD simp: sample_runner_def sample_gitlab_def gitlab_notes_def quiet_calls_def names_module_def kept_def
      steps_def sample_note_def sample_break_def ret_def Let_def)

lemma others_unmarked: "n \<in> set others \<Longrightarrow> \<not> ContainsMarker (Note_Body n) ''billing''"
proof -
  have "\<not> ContainsMarker ''ok'' ''billing''" by code_simp
  then show "n \<in> set others \<Longrightarrow> \<not> ContainsMarker (Note_Body n) ''billing''" by (auto simp: others_def sample_note_def)
qed

text \<open>
  Run again at once, the check adds no comment; after twenty notes of others it does.
\<close>

theorem listed_comment_updated_witness:
  "length (snd second_check) = length (snd first_check)
   \<and> length (snd late_check) = Suc (length (snd first_check @ others))
   \<and> 2 \<le> length (filter (\<lambda>n. ContainsMarker (Note_Body n) ''billing'') (snd late_check))"
proof -
  obtain res where first: "Runner_Run sample_runner sample_mr [] = (Inr (res, None), snd first_check)"
      "MrResult_CommentAction res \<noteq> ''''"
    using sample_run [of "[]"] unfolding first_check_def by blast
  obtain res' where second: "Runner_Run sample_runner sample_mr (snd first_check) = (Inr (res', None), snd second_check)"
      "MrResult_CommentAction res' \<noteq> ''''"
    using sample_run [of "snd first_check"] unfolding second_check_def by blast
  obtain res'' where late: "Runner_Run sample_runner sample_mr (snd first_check @ others) = (Inr (res'', None), snd late_check)"
      "MrResult_CommentAction res'' \<noteq> ''''"
    using sample_run [of "snd first_check @ others"] unfolding late_check_def by blast
  have name: "Mr_Module sample_mr = ''billing''" by (simp add: sample_mr_def)
  have page: "\<not> (\<exists>x \<in> set (take 20 (rev (snd first_check @ others))). ContainsMarker (Note_Body x) ''billing'')"
    using others_unmarked by (simp add: others_def)
  have "upserted (\<lambda>w. w) (\<lambda>ns. take 20 (rev ns)) ''billing'' (MrResult_Markdown res) (MrResult_CommentAction res)
      [] (snd first_check) \<and> ContainsMarker (MrResult_Markdown res) ''billing''"
    using Run_comments [OF first sample_contracts(1,2,3,4), unfolded name] .
  then obtain n where "snd first_check = [n]" "ContainsMarker (Note_Body n) ''billing''"
    by (auto simp: upserted_def)
  then have shown: "\<exists>x \<in> set (take 20 (rev (snd first_check))). ContainsMarker (Note_Body x) ''billing''" by simp
  have "length (snd second_check) = length (snd first_check)"
    using listed_comment_updated [OF first second sample_contracts(1,2,3,4) refl refl refl, unfolded name] shown
    by auto
  moreover have "length (snd late_check) = Suc (length (snd first_check @ others))
      \<and> 2 \<le> length (filter (\<lambda>n. ContainsMarker (Note_Body n) ''billing'') (snd late_check))"
    using listed_comment_updated [OF first late sample_contracts(1,2,3,4) refl refl refl, unfolded name] page
    by auto
  ultimately show ?thesis by blast
qed

theorem exit_code_is_gate_witness:
  "\<exists>res. fst first_check = Inr (res, None) \<and> MrResult_ExitCode res \<noteq> ExitCodeError"
proof -
  obtain res where first: "Runner_Run sample_runner sample_mr [] = (Inr (res, None), snd first_check)"
    using sample_run [of "[]"] unfolding first_check_def by blast
  then have "fst first_check = Inr (res, None)" unfolding first_check_def by (metis fst_conv)
  moreover have "MrResult_ExitCode res \<noteq> ExitCodeError"
    using conjunct1 [OF exit_code_is_gate [OF first]] by simp
  ultimately show ?thesis by blast
qed

text \<open>A server whose error quotes the token it was given.\<close>

definition leaking_runner :: "MergeRequestNote list Runner" where
  "leaking_runner = sample_runner\<lparr>Runner_CheckBreaking :=
     Some (\<lambda>module against targetRef name artifact. raise (new_error ''401 for glpat-Secret''))\<rparr>"

theorem errors_carry_no_token_witness:
  "\<exists>res e. fst (Runner_Run leaking_runner sample_mr []) = Inr (res, Some e) \<and> token_free (Err_Text e)"
proof -
  let ?run = "Runner_Run leaking_runner sample_mr []"
  have "\<exists>res e. ?run = (Inr (res, Some e), snd ?run)"
    by (simp add: Runner_Run_def mr_validate_def leaking_runner_def sample_runner_def sample_mr_def sample_gitlab_def
        sample_texts setStatus_def bestEffortSetStatus_def upsertComment_def runCheck_def handleError_def
        SelectExistingNote_def bindE_def attempt_def ret_def raise_def mapErr_def catchE_def Let_def)
  then obtain res e where run: "?run = (Inr (res, Some e), snd ?run)" by blast
  have "fst ?run = Inr (res, Some e)" using run by (metis fst_conv)
  with errors_carry_no_token [OF run] show ?thesis by blast
qed

text \<open>A change whose message has a pipe and a line break.\<close>

definition piped_change :: MrChange where
  "piped_change = \<lparr>MrChange_FilePath = ''a.proto'', MrChange_Symbol = '''', MrChange_RuleID = ''R|1'',
     MrChange_Message = ''a|b'' @ newline @ ''| c |''\<rparr>"

theorem table_rows_intact_witness:
  "borders CHR 0x0A (writeChangeRow piped_change) = 5 \<and> count_list (writeChangeRow piped_change) CHR ''|'' = 9
   \<and> (\<exists>line. writeChangeRow piped_change = line @ newline \<and> CHR 0x0A \<notin> set line)"
proof -
  have "count_list (writeChangeRow piped_change) CHR ''|'' = 9" by code_simp
  with table_rows_intact [of _ _ piped_change] show ?thesis by blast
qed

end
