(* ===== verification/Descriptor_Extract.thy ===== *)
theory Descriptor_Extract
  imports Domain_Entities
begin

text \<open>
  What is read off a file descriptor set, \<^verbatim>\<open>internal/infrastructure/bufcli/descriptor.go\<close>. The descriptors are
  those of \<^verbatim>\<open>descriptorpb\<close>, with the fields the code asks for as their getters answer (an absent string is
  empty); the enumerations \<^verbatim>\<open>Type\<close> and \<^verbatim>\<open>Label\<close> are their names. Decoding the bytes is the library's.
\<close>

section \<open>Descriptors\<close>

record FieldDescriptor =
  FieldD_Name :: string
  FieldD_Number :: int
  FieldD_Type :: string
  FieldD_TypeName :: string
  FieldD_Label :: string
  FieldD_JsonName :: string
  FieldD_OneofIndex :: "int option"

record EnumDescriptor =
  EnumD_Name :: string
  EnumD_Value :: "(string \<times> int) list"

datatype Descriptor = Descriptor
  (D_Name: string)
  (D_Field: "FieldDescriptor list")
  (D_NestedType: "Descriptor list")
  (D_EnumType: "EnumDescriptor list")
  (D_OneofDecl: "string list")
  (D_MapEntry: bool)

record MethodDescriptor =
  MethodD_Name :: string
  MethodD_InputType :: string
  MethodD_OutputType :: string
  MethodD_ClientStreaming :: bool
  MethodD_ServerStreaming :: bool

record FileDescriptor =
  FileD_Name :: string
  FileD_Package :: string
  FileD_Syntax :: string
  FileD_Dependency :: "string list"
  FileD_PublicDependency :: "int list"
  FileD_WeakDependency :: "int list"
  FileD_Service :: "(string \<times> MethodDescriptor list) list"
  FileD_MessageType :: "Descriptor list"
  FileD_EnumType :: "EnumDescriptor list"

section \<open>Extraction\<close>

definition joinProtoName :: "string \<Rightarrow> string \<Rightarrow> string" where
  "joinProtoName packageName name = (if packageName = '''' then name else packageName @ ''.'' @ name)"

definition hasProtoNameSuffix :: "string \<Rightarrow> string \<Rightarrow> bool" where
  "hasProtoNameSuffix name ending =
     (if length name < length ending then False else drop (length name - length ending) name = ending)"

text \<open>The indices of dependencies are \<^verbatim>\<open>int32\<close>; a file has fewer than \<open>2 ^ 31\<close> of them.\<close>

definition extractImports :: "FileDescriptor \<Rightarrow> ProtoImport list" where
  "extractImports f =
     map (\<lambda>(index, path). \<lparr>Import_Path = path, Import_Public = int index \<in> set (FileD_PublicDependency f),
         Import_Weak = int index \<in> set (FileD_WeakDependency f)\<rparr>)
       (enumerate 0 (FileD_Dependency f))"

definition extractServices :: "FileDescriptor \<Rightarrow> ProtoService list" where
  "extractServices f =
     map (\<lambda>(name, methods). \<lparr>PService_Name = name, PService_FullName = joinProtoName (FileD_Package f) name,
         PService_Methods = map (\<lambda>method. \<lparr>Method_Name = MethodD_Name method,
             Method_InputType = MethodD_InputType method, Method_OutputType = MethodD_OutputType method,
             Method_ClientStreaming = MethodD_ClientStreaming method,
             Method_ServerStreaming = MethodD_ServerStreaming method\<rparr>) methods\<rparr>)
       (FileD_Service f)"

definition oneofName :: "string list \<Rightarrow> FieldDescriptor \<Rightarrow> string" where
  "oneofName oneofs field =
     (case FieldD_OneofIndex field of
        None \<Rightarrow> ''''
      | Some index \<Rightarrow> if index < 0 \<or> index \<ge> int (length oneofs) then '''' else oneofs ! nat index)"

definition label_repeated :: string where "label_repeated = ''LABEL_REPEATED''"
definition type_message :: string where "type_message = ''TYPE_MESSAGE''"

definition isMapField :: "FieldDescriptor \<Rightarrow> string list \<Rightarrow> bool" where
  "isMapField field mapFields =
     (if FieldD_Label field \<noteq> label_repeated \<or> FieldD_Type field \<noteq> type_message then False
      else list_ex (hasProtoNameSuffix (FieldD_TypeName field)) mapFields)"

definition extractFields :: "Descriptor \<Rightarrow> ProtoField list" where
  "extractFields message =
     (let mapFields = map (\<lambda>nested. ''.'' @ D_Name nested) (filter D_MapEntry (D_NestedType message))
      in map (\<lambda>field. \<lparr>Field_Name = FieldD_Name field, Field_Number = FieldD_Number field,
           Field_Type = FieldD_Type field, Field_TypeName = FieldD_TypeName field,
           Field_Label = FieldD_Label field, Field_JSONName = FieldD_JsonName field,
           Field_OneofName = oneofName (D_OneofDecl message) field,
           Field_IsRepeated = (FieldD_Label field = label_repeated),
           Field_IsMap = isMapField field mapFields\<rparr>) (D_Field message))"

definition extractEnums :: "string \<Rightarrow> string \<Rightarrow> EnumDescriptor list \<Rightarrow> ProtoEnum list" where
  "extractEnums packageName parentFullName descriptors =
     map (\<lambda>enum. \<lparr>Enum_Name = EnumD_Name enum,
         Enum_FullName = (if parentFullName = '''' then joinProtoName packageName (EnumD_Name enum)
           else parentFullName @ ''.'' @ EnumD_Name enum),
         Enum_Values = map (\<lambda>(name, number). \<lparr>EnumValue_Name = name, EnumValue_Number = number\<rparr>)
           (EnumD_Value enum)\<rparr>) descriptors"

fun extractMessage :: "string \<Rightarrow> string \<Rightarrow> Descriptor \<Rightarrow> ProtoMessage" where
  "extractMessage packageName parentFullName (Descriptor name flds nested enums oneofs mapEntry) =
     (let fullName = (if parentFullName = '''' then joinProtoName packageName name
            else parentFullName @ ''.'' @ name)
      in ProtoMessage name fullName (extractFields (Descriptor name flds nested enums oneofs mapEntry))
           (map (extractMessage packageName fullName) nested)
           (extractEnums packageName fullName enums))"

definition extractMessages :: "string \<Rightarrow> string \<Rightarrow> Descriptor list \<Rightarrow> ProtoMessage list" where
  "extractMessages packageName parentFullName descriptors =
     map (extractMessage packageName parentFullName) descriptors"

definition extractFile :: "FileDescriptor \<Rightarrow> ProtoFile" where
  "extractFile f = \<lparr>File_Path = FileD_Name f, File_PackageName = FileD_Package f, File_Syntax = FileD_Syntax f,
     File_Imports = extractImports f, File_Services = extractServices f,
     File_Messages = extractMessages (FileD_Package f) '''' (FileD_MessageType f),
     File_Enums = extractEnums (FileD_Package f) '''' (FileD_EnumType f)\<rparr>"

definition ExtractDescriptorMetadata :: "(string \<Rightarrow> 'e + FileDescriptor list) \<Rightarrow> string \<Rightarrow> 'e + DescriptorMetadata" where
  "ExtractDescriptorMetadata unmarshal body =
     (case unmarshal body of Inl err \<Rightarrow> Inl err | Inr descriptors \<Rightarrow> Inr (map extractFile descriptors))"

section \<open>Names\<close>

text \<open>
  The names a file declares, by the rules of the protobuf language: a message's name within its scope, and then
  those of its nested messages and enumerations in the scope of its full name.
\<close>

definition scoped :: "string \<Rightarrow> string \<Rightarrow> string" where
  "scoped scope name = (if scope = '''' then name else scope @ ''.'' @ name)"

fun declared_names :: "string \<Rightarrow> Descriptor \<Rightarrow> string list" where
  "declared_names scope (Descriptor name flds nested enums oneofs m) =
     scoped scope name # concat (map (declared_names (scoped scope name)) nested)
     @ map (\<lambda>enum. scoped (scoped scope name) (EnumD_Name enum)) enums"

fun message_names :: "ProtoMessage \<Rightarrow> string list" where
  "message_names (ProtoMessage name fullName flds messages enums) =
     fullName # concat (map message_names messages) @ map Enum_FullName enums"

lemma extract_names:
  "message_names (extractMessage package parent d) =
     declared_names (if parent = '''' then package else parent) d"
proof (induction d arbitrary: parent)
  case (Descriptor name flds nested enums oneofs m)
  define scope where "scope = scoped (if parent = '''' then package else parent) name"
  have full: "(if parent = '''' then joinProtoName package name else parent @ ''.'' @ name) = scope"
    by (simp add: scope_def scoped_def joinProtoName_def)
  have within: "(if scope = '''' then package else scope) = scope"
    by (auto simp: scope_def scoped_def)
  have "message_names (extractMessage package scope x) = declared_names scope x" if "x \<in> set nested" for x
    using Descriptor.IH [OF that, of scope] unfolding within .
  then have "map (\<lambda>x. message_names (extractMessage package scope x)) nested = map (declared_names scope) nested"
    by simp
  moreover have "map Enum_FullName (extractEnums package scope enums) = map (\<lambda>enum. scoped scope (EnumD_Name enum)) enums"
    using within by (auto simp: extractEnums_def scoped_def joinProtoName_def)
  ultimately show ?case
    unfolding extractMessage.simps full Let_def message_names.simps declared_names.simps scope_def [symmetric]
    by (simp only: map_map comp_def)
qed

end
