(* ===== verification/Buf_Workflow.thy ===== *)
theory Buf_Workflow
  imports Registry_Service Go_Text Descriptor_Extract
begin

text \<open>
  The workflow over the \<^verbatim>\<open>buf\<close> command, \<^verbatim>\<open>internal/infrastructure/bufcli/workflow.go\<close>: which commands run,
  what their exit codes and output mean, and the temporary file of the baseline. The machine is the
  parameter \<open>buf_host\<close>: its answers may depend on the number of the call and on the files. A command
  writes its output in chunks into the buffers of the workflow and may change files.
\<close>

section \<open>Errors and the machine\<close>

datatype buf_error = DeadlineExceeded | Canceled | Buf_Error string

fun buf_error_text :: "buf_error \<Rightarrow> string" where
  "buf_error_text DeadlineExceeded = ''context deadline exceeded''"
| "buf_error_text Canceled = ''context canceled''"
| "buf_error_text (Buf_Error s) = s"

record commandSpec =
  Spec_path :: string
  Spec_args :: "string list"
  Spec_dir :: string
  Spec_timeout :: duration
  Spec_stdoutLimit :: int
  Spec_stderrLimit :: int

record commandResult =
  Cmd_stdout :: string
  Cmd_stderr :: string
  Cmd_exitCode :: int

text \<open>
  What \<^verbatim>\<open>cmd.Run\<close> of \<^verbatim>\<open>os/exec\<close> answers: an exit code (nonzero ones as an \<^verbatim>\<open>ExitError\<close>), or another error,
  after which the output is dropped.
\<close>

datatype exec_answer = Exited int | ExecFailed buf_error

record execution =
  Exec_out :: "string list"
  Exec_err :: "string list"
  Exec_answer :: exec_answer
  Exec_files :: files

record buf_host =
  Host_TempName :: "nat \<Rightarrow> files \<Rightarrow> buf_error + string"
  Host_WriteErr :: "nat \<Rightarrow> buf_error option"
  Host_CloseErr :: "nat \<Rightarrow> buf_error option"
  Host_ReadErr :: "nat \<Rightarrow> buf_error option"
  Host_Exec :: "nat \<Rightarrow> commandSpec \<Rightarrow> files \<Rightarrow> execution"
  Host_CtxErr :: "nat \<Rightarrow> buf_error option"
  Host_sha256 :: "string \<Rightarrow> string"
  Host_lower :: "string \<Rightarrow> string"
  Host_unmarshal :: "string \<Rightarrow> buf_error + FileDescriptor list"

record buf_state =
  Buf_Files :: files
  Buf_Calls :: nat

type_synonym 'a buf = "(buf_state, buf_error, 'a) go"

definition host_call :: "nat buf" where
  "host_call w = (Inr (Buf_Calls w), w\<lparr>Buf_Calls := Suc (Buf_Calls w)\<rparr>)"

definition host_error :: "(nat \<Rightarrow> buf_error option) \<Rightarrow> unit buf" where
  "host_error f = bindE host_call (\<lambda>n. case f n of None \<Rightarrow> ret () | Some err \<Rightarrow> raise err)"

section \<open>Output buffers and commands\<close>

text \<open>\<^verbatim>\<open>commandBuffer\<close>: the limit and the body.\<close>

definition buffer_Write :: "int \<Rightarrow> string \<Rightarrow> string \<Rightarrow> string" where
  "buffer_Write limit p body =
     (if limit \<le> 0 then body @ p
      else let remaining = limit - int (length body)
           in if remaining > 0
              then if int (length p) > remaining then body @ take (nat remaining) p else body @ p
              else body)"

definition exec_Run :: "buf_host \<Rightarrow> commandSpec \<Rightarrow> commandResult buf" where
  "exec_Run host spec =
     bindE host_call (\<lambda>n w.
       (let e = Host_Exec host n spec (Buf_Files w);
            w1 = w\<lparr>Buf_Files := Exec_files e\<rparr>
        in case Exec_answer e of
             ExecFailed err \<Rightarrow> (Inl err, w1)
           | Exited code \<Rightarrow>
               (Inr \<lparr>Cmd_stdout = fold (buffer_Write (Spec_stdoutLimit spec)) (Exec_out e) '''',
                     Cmd_stderr = fold (buffer_Write (Spec_stderrLimit spec)) (Exec_err e) '''',
                     Cmd_exitCode = code\<rparr>, w1)))"

definition cmd_report :: "commandResult \<Rightarrow> string" where
  "cmd_report result =
     Join (filter (\<lambda>text. text \<noteq> '''') [TrimSpace (Cmd_stdout result), TrimSpace (Cmd_stderr result)]) newline"

definition truncateReport :: "string \<Rightarrow> int \<Rightarrow> string" where
  "truncateReport report limit =
     (if limit \<le> 0 \<or> int (length report) \<le> limit then report else take (nat limit) report)"

definition runCommand :: "buf_host \<Rightarrow> commandSpec \<Rightarrow> commandResult buf" where
  "runCommand host spec =
     bindE (attempt (exec_Run host spec)) (\<lambda>answer.
     bindE host_call (\<lambda>n.
       case (answer, Host_CtxErr host n) of
         (Inl err, Some ctxErr) \<Rightarrow>
           if ctxErr = DeadlineExceeded \<or> ctxErr = Canceled then raise ctxErr else raise err
       | (Inl err, None) \<Rightarrow> raise err
       | (Inr result, Some ctxErr) \<Rightarrow> raise ctxErr
       | (Inr result, None) \<Rightarrow> ret result))"

section \<open>Configuration\<close>

definition BufLintModeWarn :: string where "BufLintModeWarn = ''warn''"
definition BufLintModeEnforce :: string where "BufLintModeEnforce = ''enforce''"

record BufCliConfig =
  Cli_BinaryPath :: string
  Cli_BuildTimeout :: duration
  Cli_LintTimeout :: duration
  Cli_LintMode :: string
  Cli_RequireConfig :: bool
  Cli_MaxReportBytes :: int

definition newWorkflow :: "BufCliConfig \<Rightarrow> BufCliConfig" where
  "newWorkflow cfg =
     \<lparr>Cli_BinaryPath = (if Cli_BinaryPath cfg = '''' then ''buf'' else Cli_BinaryPath cfg),
      Cli_BuildTimeout = (if Cli_BuildTimeout cfg \<le> 0 then 30 * 1000000000 else Cli_BuildTimeout cfg),
      Cli_LintTimeout = (if Cli_LintTimeout cfg \<le> 0 then 30 * 1000000000 else Cli_LintTimeout cfg),
      Cli_LintMode = (if Cli_LintMode cfg = '''' then BufLintModeWarn else Cli_LintMode cfg),
      Cli_RequireConfig = Cli_RequireConfig cfg,
      Cli_MaxReportBytes = (if Cli_MaxReportBytes cfg \<le> 0 then 16 * 1024 else Cli_MaxReportBytes cfg)\<rparr>"

definition filePresenceAndDigest :: "buf_host \<Rightarrow> string \<Rightarrow> (bool \<times> string) buf" where
  "filePresenceAndDigest host path =
     bindE (host_error (Host_ReadErr host)) (\<lambda>_ w.
       case Buf_Files w path of
         None \<Rightarrow> (Inr (False, ''''), w)
       | Some (Regular body) \<Rightarrow> (Inr (True, ''sha256:'' @ Host_sha256 host body), w)
       | Some _ \<Rightarrow> (Inl (Buf_Error (''read '' @ path @ '': not a regular file'')), w))"

definition inspectConfig :: "buf_host \<Rightarrow> string \<Rightarrow> BufConfigInfo buf" where
  "inspectConfig host workdir =
     bindE (filePresenceAndDigest host (Join2 workdir ''buf.yaml'')) (\<lambda>(yaml, yamlDigest).
     bindE (filePresenceAndDigest host (Join2 workdir ''buf.lock'')) (\<lambda>(lock, lockDigest).
       ret \<lparr>Buf_BufYAMLPresent = yaml, Buf_BufLockPresent = lock, Buf_BufYAMLDigest = yamlDigest,
            Buf_BufLockDigest = lockDigest, Buf_ModulePaths = [], Buf_Deps = [], Buf_LintEnabled = False,
            Buf_BreakingConfigPresent = False\<rparr>))"

section \<open>Diagnostics\<close>

text \<open>
  The pattern \<^verbatim>\<open>\b[A-Z][A-Z0-9]+(?:_[A-Z0-9]+)+\b\<close>. All characters it consumes are word characters and it
  begins and ends at a word boundary, so a match is a whole maximal run of word characters of the given form;
  \<^verbatim>\<open>FindString\<close> is the first such run, or empty.
\<close>

definition upper_digit :: "char \<Rightarrow> bool" where
  "upper_digit c \<longleftrightarrow> (CHR ''A'' \<le> c \<and> c \<le> CHR ''Z'') \<or> (CHR ''0'' \<le> c \<and> c \<le> CHR ''9'')"

definition word_char :: "char \<Rightarrow> bool" where
  "word_char c \<longleftrightarrow> upper_digit c \<or> (CHR ''a'' \<le> c \<and> c \<le> CHR ''z'') \<or> c = CHR ''_''"

definition rule_name :: "string \<Rightarrow> bool" where
  "rule_name s =
     (let parts = Split s (CHR ''_'') in
      length parts \<ge> 2 \<and> length (hd parts) \<ge> 2 \<and> \<not> hd parts < ''A''
      \<and> list_all (\<lambda>part. part \<noteq> '''' \<and> list_all upper_digit part) parts)"

function findRule :: "string \<Rightarrow> string" where
  "findRule s =
     (let t = dropWhile (\<lambda>c. \<not> word_char c) s in
      if t = '''' then ''''
      else if rule_name (takeWhile word_char t) then takeWhile word_char t
      else findRule (dropWhile word_char t))"
  by pat_completeness auto
termination
proof (relation "measure length")
  fix s t assume t: "t = dropWhile (\<lambda>c. \<not> word_char c) s" "t \<noteq> ''''"
  then have "word_char (hd t)" using hd_dropWhile [of "\<lambda>c. \<not> word_char c" s] by auto
  then have "length (dropWhile word_char t) < length t"
    using t(2) length_dropWhile_le [of word_char "tl t"] by (cases t) auto
  moreover have "length t \<le> length s" using t(1) by (simp add: length_dropWhile_le)
  ultimately show "(dropWhile word_char t, s) \<in> measure length" by simp
qed simp

declare findRule.simps [simp del]

definition HasSuffix :: "string \<Rightarrow> string \<Rightarrow> bool" where
  "HasSuffix s p \<longleftrightarrow> length p \<le> length s \<and> drop (length s - length p) s = p"

fun Index :: "string \<Rightarrow> string \<Rightarrow> nat option" where
  "Index [] sub = (if sub = [] then Some 0 else None)"
| "Index (c # cs) sub = (if HasPrefix (c # cs) sub then Some 0 else map_option Suc (Index cs sub))"

text \<open>\<^verbatim>\<open>FieldsFunc\<close>, \<^verbatim>\<open>Trim\<close> and \<^verbatim>\<open>TrimLeft\<close> for single-byte characters.\<close>

fun split_on :: "(char \<Rightarrow> bool) \<Rightarrow> string \<Rightarrow> string list" where
  "split_on p [] = ['''']"
| "split_on p (c # cs) =
     (if p c then [] # split_on p cs
      else case split_on p cs of [] \<Rightarrow> [c # ''''] | part # parts \<Rightarrow> (c # part) # parts)"

definition FieldsFunc :: "string \<Rightarrow> (char \<Rightarrow> bool) \<Rightarrow> string list" where
  "FieldsFunc s p = filter (\<lambda>field. field \<noteq> '''') (split_on p s)"

definition TrimLeftChars :: "string \<Rightarrow> string \<Rightarrow> string" where
  "TrimLeftChars s cutset = dropWhile (\<lambda>c. c \<in> set cutset) s"

definition TrimChars :: "string \<Rightarrow> string \<Rightarrow> string" where
  "TrimChars s cutset = rev (TrimLeftChars (rev (TrimLeftChars s cutset)) cutset)"

definition proto_prefix :: "string \<Rightarrow> string option" where
  "proto_prefix field =
     (if HasSuffix field ''.proto'' \<or> Contains field ''.proto/''
      then map_option (\<lambda>index. take (index + length ''.proto'') field) (Index field ''.proto'') else None)"

definition extractProtoPath :: "string \<Rightarrow> string" where
  "extractProtoPath line =
     (case List.map_filter (\<lambda>field. proto_prefix (TrimChars field [CHR 0x22, CHR 0x27, CHR ''('', CHR '')'', CHR '','']))
         (FieldsFunc line (\<lambda>r. r = CHR '':'' \<or> r = CHR '' '' \<or> r = CHR 0x09)) of
        [] \<Rightarrow> '''' | path # _ \<Rightarrow> path)"

definition cleanBreakingMessage :: "string \<Rightarrow> string \<Rightarrow> string \<Rightarrow> string" where
  "cleanBreakingMessage line filePath ruleID =
     (let message = TrimSpace line;
          message = (if filePath = '''' then message
            else TrimLeftChars (TrimSpace (TrimPrefix message filePath)) '': '');
          message = TrimLeftChars (TrimSpace (TrimPrefix message ruleID)) '': '';
          message = (if ruleID = '''' then message
            else ReplaceAll (ReplaceAll message (''('' @ ruleID @ '')'') '''') (''['' @ ruleID @ '']'') '''');
          message = TrimSpace message
      in if message = '''' then line else message)"

definition inferBreakingCategory :: "(string \<Rightarrow> string) \<Rightarrow> string \<Rightarrow> string \<Rightarrow> string" where
  "inferBreakingCategory low ruleID message =
     (let text = ToLower low (ruleID @ '' '' @ message) in
      if Contains text ''field'' then ''field''
      else if Contains text ''rpc'' \<or> Contains text ''method'' then ''method''
      else if Contains text ''service'' then ''service''
      else if Contains text ''message'' then ''message''
      else if Contains text ''enum'' then ''enum''
      else if Contains text ''package'' then ''package''
      else if Contains text ''file'' then ''file'' else '''')"

definition looksLikeBreakingDiagnostic :: "(string \<Rightarrow> string) \<Rightarrow> string \<Rightarrow> bool" where
  "looksLikeBreakingDiagnostic low line \<longleftrightarrow>
     Contains line ''.proto'' \<or> findRule line \<noteq> '''' \<or> Contains (ToLower low line) ''breaking''"

definition parseBreakingDiagnosticLine :: "(string \<Rightarrow> string) \<Rightarrow> string \<Rightarrow> BreakingChange" where
  "parseBreakingDiagnosticLine low line =
     (let filePath = extractProtoPath line; ruleID = findRule line;
          message = cleanBreakingMessage line filePath ruleID
      in \<lparr>Change_ID = '''', Change_ReportID = '''', Change_Category = inferBreakingCategory low ruleID message,
          Change_FilePath = filePath, Change_PackageName = '''', Change_Symbol = '''', Change_RuleID = ruleID,
          Change_Message = message, Change_Severity = ''error'', Change_CreatedAt = 0\<rparr>)"

definition parseBreakingDiagnostics :: "(string \<Rightarrow> string) \<Rightarrow> string \<Rightarrow> BreakingChange list" where
  "parseBreakingDiagnostics low report =
     map (parseBreakingDiagnosticLine low)
       (filter (\<lambda>line. line \<noteq> '''' \<and> looksLikeBreakingDiagnostic low line)
         (map TrimSpace (Split report (CHR 0x0A))))"

definition breakingSummary :: "nat \<Rightarrow> string" where
  "breakingSummary changeCount =
     (if changeCount = 1 then ''1 breaking change found.''
      else show_nat changeCount @ '' breaking changes found.'')"

section \<open>Build and lint\<close>

definition runBuild :: "BufCliConfig \<Rightarrow> buf_host \<Rightarrow> string \<Rightarrow> commandResult buf" where
  "runBuild cfg host workdir =
     bindE (runCommand host \<lparr>Spec_path = Cli_BinaryPath cfg,
         Spec_args = [''build'', ''--as-file-descriptor-set'', ''-o'', ''-''], Spec_dir = workdir,
         Spec_timeout = Cli_BuildTimeout cfg, Spec_stdoutLimit = 0,
         Spec_stderrLimit = Cli_MaxReportBytes cfg\<rparr>) (\<lambda>result.
     bindE (failIf (Cmd_exitCode result \<noteq> 0)
         (Buf_Error (''buf build failed: '' @ truncateReport (cmd_report result) (Cli_MaxReportBytes cfg)))) (\<lambda>_.
     bindE (failIf (Cmd_stdout result = '''') (Buf_Error ''buf build produced empty image'')) (\<lambda>_.
       ret result)))"

text \<open>As \<^verbatim>\<open>Inspect\<close> below, \<^verbatim>\<open>runLint\<close> returns a result beside its error.\<close>

definition no_lint :: BufLintResult where "no_lint = \<lparr>Lint_Status = '''', Lint_Report = ''''\<rparr>"

definition runLint :: "BufCliConfig \<Rightarrow> buf_host \<Rightarrow> string \<Rightarrow> bool \<Rightarrow> (buf_error option \<times> BufLintResult) buf" where
  "runLint cfg host workdir requested =
     (if \<not> requested \<or> Cli_LintMode cfg = BufLintModeDisabled
      then ret (None, no_lint\<lparr>Lint_Status := BufLintStatusNotRun\<rparr>)
      else bindE (attempt (runCommand host \<lparr>Spec_path = Cli_BinaryPath cfg, Spec_args = [''lint''],
             Spec_dir = workdir, Spec_timeout = Cli_LintTimeout cfg,
             Spec_stdoutLimit = Cli_MaxReportBytes cfg, Spec_stderrLimit = Cli_MaxReportBytes cfg\<rparr>)) (\<lambda>answer.
        case answer of
          Inl err \<Rightarrow> ret (Some err, no_lint)
        | Inr result \<Rightarrow>
            let report = truncateReport (cmd_report result) (Cli_MaxReportBytes cfg) in
            ret (if Cmd_exitCode result = 0
                 then (None, \<lparr>Lint_Status = BufLintStatusPassed, Lint_Report = report\<rparr>)
                 else if Cli_LintMode cfg = BufLintModeEnforce
                 then (Some (Buf_Error (''buf lint failed: '' @ report)),
                       \<lparr>Lint_Status = BufLintStatusFailed, Lint_Report = report\<rparr>)
                 else (None, \<lparr>Lint_Status = BufLintStatusWarning, Lint_Report = report\<rparr>))))"

definition workflow_result :: BufWorkflowResult where
  "workflow_result = \<lparr>Workflow_ConfigInfo = zero_config, Workflow_BufImage = '''', Workflow_BufImageDigest = '''',
     Workflow_LintResult = no_lint, Workflow_DescriptorMetadata = []\<rparr>"

definition Buf_Inspect ::
  "BufCliConfig \<Rightarrow> buf_host \<Rightarrow> string \<Rightarrow> bool \<Rightarrow> bool \<Rightarrow> (buf_error option \<times> BufWorkflowResult) buf" where
  "Buf_Inspect cfg host workdir required wantLint =
     bindE (attempt (inspectConfig host workdir)) (\<lambda>inspected.
     case inspected of Inl err \<Rightarrow> ret (Some err, workflow_result) | Inr configInfo \<Rightarrow>
     if (Cli_RequireConfig cfg \<or> required) \<and> \<not> Buf_BufYAMLPresent configInfo
     then ret (Some (Buf_Error ''buf.yaml is required''), workflow_result)
     else bindE (attempt (runBuild cfg host workdir)) (\<lambda>built.
     let r0 = workflow_result\<lparr>Workflow_ConfigInfo := configInfo\<rparr> in
     case built of Inl err \<Rightarrow> ret (Some err, r0) | Inr buildResult \<Rightarrow>
     let image = Cmd_stdout buildResult;
         r1 = r0\<lparr>Workflow_BufImage := image, Workflow_BufImageDigest := ''sha256:'' @ Host_sha256 host image\<rparr>
     in case ExtractDescriptorMetadata (Host_unmarshal host) image of Inl err \<Rightarrow> ret (Some err, r1) | Inr metadata \<Rightarrow>
     bindE (runLint cfg host workdir wantLint) (\<lambda>(lintErr, lintResult).
     let r2 = r1\<lparr>Workflow_LintResult := lintResult, Workflow_DescriptorMetadata := metadata\<rparr>
     in case lintErr of
          Some err \<Rightarrow> ret (Some err, r2)
        | None \<Rightarrow> ret (None, r2\<lparr>Workflow_ConfigInfo :=
            configInfo\<lparr>Buf_LintEnabled := (Lint_Status lintResult \<noteq> BufLintStatusNotRun)\<rparr>\<rparr>))))"

section \<open>The breaking check\<close>

definition failed_check :: "string \<Rightarrow> string \<Rightarrow> BufBreakingCheckResult" where
  "failed_check rawOutput summary = \<lparr>Check_Status = Some BreakingReportStatusFailed, Check_Changes = [],
     Check_RawOutput = rawOutput, Check_HumanSummary = summary\<rparr>"

text \<open>
  From the command's answer to the result. What an exit code other than zero means is read off the text.
\<close>

definition judgeBreaking ::
  "BufCliConfig \<Rightarrow> (string \<Rightarrow> string) \<Rightarrow> buf_error + commandResult \<Rightarrow> buf_error option \<times> BufBreakingCheckResult" where
  "judgeBreaking cfg low answer =
     (case answer of
        Inl err \<Rightarrow> (Some err, failed_check (truncateReport (buf_error_text err) (Cli_MaxReportBytes cfg))
          ''Buf breaking check failed.'')
      | Inr result \<Rightarrow>
          let rawOutput = truncateReport (cmd_report result) (Cli_MaxReportBytes cfg);
              changes = parseBreakingDiagnostics low rawOutput
          in if Cmd_exitCode result = 0
             then (None, \<lparr>Check_Status = Some BreakingReportStatusPassed, Check_Changes = [],
               Check_RawOutput = rawOutput, Check_HumanSummary = ''No breaking changes found.''\<rparr>)
             else if TrimSpace rawOutput = ''''
             then (Some (Buf_Error ''buf breaking failed without diagnostics''),
               failed_check rawOutput ''Buf breaking check failed without diagnostics.'')
             else if changes = []
             then (Some (Buf_Error (''buf breaking failed: '' @ rawOutput)),
               failed_check rawOutput ''Buf breaking check failed.'')
             else (None, \<lparr>Check_Status = Some BreakingReportStatusBreaking, Check_Changes = changes,
               Check_RawOutput = rawOutput, Check_HumanSummary = breakingSummary (length changes)\<rparr>))"

text \<open>
  \<^verbatim>\<open>os.CreateTemp\<close>, a new empty file. A write that fails leaves it as it is (what it wrote is not modelled, the file is
  removed in any case). Removing it is best-effort: it only fails when the file is gone.
\<close>

definition createBaseline :: "buf_host \<Rightarrow> string buf" where
  "createBaseline host =
     bindE host_call (\<lambda>n w.
       case Host_TempName host n (Buf_Files w) of
         Inl err \<Rightarrow> (Inl err, w)
       | Inr path \<Rightarrow> (Inr path, w\<lparr>Buf_Files := (Buf_Files w)(path \<mapsto> Regular '''')\<rparr>))"

definition writeBaseline :: "buf_host \<Rightarrow> string \<Rightarrow> string \<Rightarrow> unit buf" where
  "writeBaseline host path body =
     bindE (catchE (host_error (Host_WriteErr host))
              (\<lambda>err. bindE (attempt (host_error (Host_CloseErr host))) (\<lambda>_. raise err))) (\<lambda>_ w.
       (Inr (), w\<lparr>Buf_Files := (Buf_Files w)(path \<mapsto> Regular body)\<rparr>))"

definition removeBaselineFile :: "string \<Rightarrow> unit buf" where
  "removeBaselineFile path w = (Inr (), w\<lparr>Buf_Files := (Buf_Files w)(path := None)\<rparr>)"

definition Buf_CheckBreaking ::
  "BufCliConfig \<Rightarrow> buf_host \<Rightarrow> string \<Rightarrow> string \<Rightarrow> (buf_error option \<times> BufBreakingCheckResult) buf" where
  "Buf_CheckBreaking cfg host workdir baselineImage =
     (let refused = (\<lambda>err. (Some err, failed_check '''' '''')) in
      if baselineImage = '''' then ret (refused (Buf_Error ''baseline image is required''))
      else bindE (attempt (createBaseline host)) (\<lambda>created.
        case created of Inl err \<Rightarrow> ret (refused err) | Inr baselinePath \<Rightarrow>
        bindE (bindE (attempt (bindE (writeBaseline host baselinePath baselineImage)
                  (\<lambda>_. host_error (Host_CloseErr host)))) (\<lambda>stored.
          case stored of
            Inl err \<Rightarrow> ret (refused err)
          | Inr _ \<Rightarrow>
              bindE (attempt (runCommand host \<lparr>Spec_path = Cli_BinaryPath cfg,
                  Spec_args = [''breaking'', workdir, ''--against'', baselinePath], Spec_dir = workdir,
                  Spec_timeout = Cli_BuildTimeout cfg, Spec_stdoutLimit = Cli_MaxReportBytes cfg,
                  Spec_stderrLimit = Cli_MaxReportBytes cfg\<rparr>)) (\<lambda>answer.
                ret (judgeBreaking cfg (Host_lower host) answer)))) (\<lambda>result.
        bindE (removeBaselineFile baselinePath) (\<lambda>_. ret result))))"

end
