(* ===== verification/Buf_Claims.thy ===== *)
theory Buf_Claims
  imports Buf_Workflow
begin

text \<open>
  What the breaking check and the inspection of the \<^verbatim>\<open>buf\<close> workflow promise: what is compared with what,
  what the answer means, that the temporary file is gone, and what the diagnostics are read as.
\<close>

section \<open>Buffers\<close>

lemma buffer_writes:
  "fold (buffer_Write limit) ps body =
     (if limit \<le> 0 then body @ concat ps
      else body @ take (nat limit - length body) (concat ps))"
proof (induction ps arbitrary: body)
  case (Cons p ps)
  show ?case
  proof (cases "limit \<le> 0")
    case False
    have "buffer_Write limit p body = body @ take (nat limit - length body) p"
      using False by (auto simp: buffer_Write_def Let_def nat_diff_distrib)
    then show ?thesis using False Cons.IH
      by (cases "length p \<le> nat limit - length body") (auto simp: min_def)
  qed (use Cons.IH in \<open>simp add: buffer_Write_def\<close>)
qed simp

lemma exec_Run_files:
  "exec_Run host spec w = (r, w') \<Longrightarrow> Buf_Files w' = Exec_files (Host_Exec host (Buf_Calls w) spec (Buf_Files w))"
  by (auto simp: exec_Run_def bindE_def host_call_def Let_def split: exec_answer.splits)

section \<open>Reading the diagnostics\<close>

lemma findRule_shape: "findRule s = '''' \<or> (rule_name (findRule s) \<and> sublist (findRule s) s)"
proof (induction s rule: findRule.induct)
  case (1 s)
  let ?t = "dropWhile (\<lambda>c. \<not> word_char c) s"
  have sub: "sublist ?t s" by (simp add: suffix_dropWhile suffix_imp_sublist)
  show ?case
  proof (cases "?t = '''' \<or> rule_name (takeWhile word_char ?t)")
    case True
    have "prefix (takeWhile word_char ?t) ?t" by (rule takeWhile_is_prefix)
    then have "sublist (takeWhile word_char ?t) s" using sub prefix_imp_sublist sublist_order.order_trans by blast
    with True show ?thesis by (subst (1 2 3) findRule.simps) (auto simp: Let_def)
  next
    case False
    have "sublist (dropWhile word_char ?t) ?t" by (simp add: suffix_dropWhile suffix_imp_sublist)
    then have "sublist (dropWhile word_char ?t) s" using sub sublist_order.order_trans by blast
    moreover have "findRule s = findRule (dropWhile word_char ?t)"
      using False by (subst findRule.simps) (auto simp: Let_def)
    ultimately show ?thesis using 1 [OF refl] False sublist_order.order_trans by metis
  qed
qed

lemma Index_prefix: "Index s sub = Some i \<Longrightarrow> \<exists>a b. s = a @ sub @ b \<and> length a = i"
proof (induction s arbitrary: i)
  case (Cons c cs)
  show ?case
  proof (cases "HasPrefix (c # cs) sub")
    case True
    with Cons.prems show ?thesis by (auto simp: HasPrefix_iff)
  next
    case False
    with Cons obtain j a b where "cs = a @ sub @ b" "length a = j" "i = Suc j" by auto
    then have "c # cs = (c # a) @ sub @ b" "length (c # a) = i" by auto
    then show ?thesis by blast
  qed
qed (auto split: if_splits)

lemma proto_prefix_shape: "proto_prefix field = Some path \<Longrightarrow> prefix path field \<and> suffix ''.proto'' path"
  by (auto simp: proto_prefix_def prefix_def suffix_def split: if_splits dest!: Index_prefix)

lemma split_on_sublist: "part \<in> set (split_on p s) \<Longrightarrow> sublist part s"
proof (induction s arbitrary: part)
  case (Cons c cs)
  have first: "prefix (hd (split_on p cs)) cs" for cs
    by (induction cs) (auto split: list.splits)
  show ?case
  proof (cases "p c")
    case True
    with Cons show ?thesis by (auto simp: sublist_Cons_right)
  next
    case False
    with Cons first [of cs] show ?thesis
      by (cases "split_on p cs") (auto simp: sublist_Cons_right)
  qed
qed simp

lemma TrimChars_sublist: "sublist (TrimChars s cutset) s"
proof -
  have "sublist (rev (TrimLeftChars (rev t) cutset)) t" for t
    unfolding TrimLeftChars_def by (metis rev_rev_ident sublist_rev suffix_dropWhile suffix_imp_sublist)
  moreover have "sublist (TrimLeftChars s cutset) s"
    by (simp add: TrimLeftChars_def suffix_dropWhile suffix_imp_sublist)
  ultimately show ?thesis unfolding TrimChars_def using sublist_order.order_trans by blast
qed

lemma extractProtoPath_shape:
  "extractProtoPath line = '''' \<or> (sublist (extractProtoPath line) line \<and> suffix ''.proto'' (extractProtoPath line))"
proof (cases "extractProtoPath line = ''''")
  case False
  then obtain field where "field \<in> set (FieldsFunc line (\<lambda>r. r = CHR '':'' \<or> r = CHR '' '' \<or> r = CHR 0x09))"
      "proto_prefix (TrimChars field [CHR 0x22, CHR 0x27, CHR ''('', CHR '')'', CHR '','']) = Some (extractProtoPath line)"
    unfolding extractProtoPath_def
    by (auto simp: List.map_filter_def filter_eq_Cons_iff split: list.splits) metis
  then show ?thesis
    using proto_prefix_shape TrimChars_sublist split_on_sublist unfolding FieldsFunc_def
    by (metis (no_types, lifting) filter_is_subset prefix_imp_sublist sublist_order.order_trans subsetD)
qed simp

text \<open>What one line of the report becomes.\<close>

definition read_off :: "string \<Rightarrow> BreakingChange \<Rightarrow> bool" where
  "read_off line change \<longleftrightarrow>
     Change_Message change \<noteq> '''' \<and> Change_Severity change = ''error''
     \<and> (Change_FilePath change = ''''
        \<or> (sublist (Change_FilePath change) line \<and> suffix ''.proto'' (Change_FilePath change)))
     \<and> (Change_RuleID change = '''' \<or> (sublist (Change_RuleID change) line \<and> rule_name (Change_RuleID change)))"

lemma line_read_off: "line \<noteq> '''' \<Longrightarrow> read_off line (parseBreakingDiagnosticLine low line)"
  using findRule_shape [of line] extractProtoPath_shape [of line]
  by (auto simp: read_off_def parseBreakingDiagnosticLine_def cleanBreakingMessage_def Let_def)

section \<open>The outcome of the check\<close>

lemma buf_calls_simps [simp]:
  "host_call w = (Inr (Buf_Calls w), w\<lparr>Buf_Calls := Suc (Buf_Calls w)\<rparr>)"
  "removeBaselineFile path w = (Inr (), w\<lparr>Buf_Files := (Buf_Files w)(path := None)\<rparr>)"
  by (auto simp: host_call_def removeBaselineFile_def)

lemma host_error_files: "host_error f w = (r, w') \<Longrightarrow> Buf_Files w' = Buf_Files w"
  by (auto simp: host_error_def bindE_def split: option.splits)

definition report_of :: "BufCliConfig \<Rightarrow> commandSpec \<Rightarrow> execution \<Rightarrow> int \<Rightarrow> string" where
  "report_of cfg spec e code =
     truncateReport (cmd_report \<lparr>Cmd_stdout = fold (buffer_Write (Spec_stdoutLimit spec)) (Exec_out e) '''',
         Cmd_stderr = fold (buffer_Write (Spec_stderrLimit spec)) (Exec_err e) '''', Cmd_exitCode = code\<rparr>)
       (Cli_MaxReportBytes cfg)"

definition breaking_spec :: "BufCliConfig \<Rightarrow> string \<Rightarrow> string \<Rightarrow> commandSpec" where
  "breaking_spec cfg workdir path =
     \<lparr>Spec_path = Cli_BinaryPath cfg, Spec_args = [''breaking'', workdir, ''--against'', path],
      Spec_dir = workdir, Spec_timeout = Cli_BuildTimeout cfg,
      Spec_stdoutLimit = Cli_MaxReportBytes cfg, Spec_stderrLimit = Cli_MaxReportBytes cfg\<rparr>"

text \<open>A command that answered: it ran on the files as they are, and exited.\<close>

lemma runCommand_Inr:
  assumes "runCommand host spec w = (Inr result, w')"
  obtains e where "e = Host_Exec host (Buf_Calls w) spec (Buf_Files w)"
    and "Exec_answer e = Exited (Cmd_exitCode result)"
    and "Cmd_stdout result = fold (buffer_Write (Spec_stdoutLimit spec)) (Exec_out e) ''''"
    and "Cmd_stderr result = fold (buffer_Write (Spec_stderrLimit spec)) (Exec_err e) ''''"
    and "Buf_Files w' = Exec_files e"
  using assms
  by (auto simp: runCommand_def exec_Run_def bindE_def attempt_def Let_def
      split: exec_answer.splits option.splits if_splits)

lemma runCommand_files:
  "runCommand host spec w = (r, w') \<Longrightarrow> Buf_Files w' = Exec_files (Host_Exec host (Buf_Calls w) spec (Buf_Files w))"
  by (auto simp: runCommand_def exec_Run_def bindE_def attempt_def Let_def raise_def ret_def
      split: exec_answer.splits option.splits if_splits)

lemma createBaseline_cases:
  assumes "createBaseline host w = (r, w')"
  obtains e where "r = Inl e" "Buf_Files w' = Buf_Files w"
  | path where "r = Inr path" "Host_TempName host (Buf_Calls w) (Buf_Files w) = Inr path"
      "Buf_Files w' = (Buf_Files w)(path \<mapsto> Regular '''')"
proof (cases "Host_TempName host (Buf_Calls w) (Buf_Files w)")
  case (Inl e)
  with assms show ?thesis by (intro that(1) [of e]) (auto simp: createBaseline_def bindE_def)
next
  case (Inr path)
  with assms show ?thesis by (intro that(2) [of path]) (auto simp: createBaseline_def bindE_def)
qed

lemma writeBaseline_cases:
  assumes "writeBaseline host path body w = (r, w')"
  obtains e where "r = Inl e" "Buf_Files w' = Buf_Files w"
  | "r = Inr ()" "Buf_Files w' = (Buf_Files w)(path \<mapsto> Regular body)"
  using assms
  by (auto simp: writeBaseline_def bindE_def catchE_def attempt_def raise_def
      split: sum.splits prod.splits dest!: host_error_files)

lemma Buf_CheckBreaking_cases:
  assumes "Buf_CheckBreaking cfg host workdir baseline w = (r, w')"
  obtains
    (refused) err where "r = Inr (Some err, failed_check '''' '''')" "Buf_Files w' = Buf_Files w"
  | (unwritten) err path n where "r = Inr (Some err, failed_check '''' '''')"
      "Host_TempName host n (Buf_Files w) = Inr path" "Buf_Files w' = (Buf_Files w)(path := None)"
  | (ran) path n w1 answer w2 where "baseline \<noteq> ''''" "Host_TempName host n (Buf_Files w) = Inr path"
      "Buf_Files w1 = (Buf_Files w)(path \<mapsto> Regular baseline)"
      "runCommand host (breaking_spec cfg workdir path) w1 = (answer, w2)"
      "r = Inr (judgeBreaking cfg (Host_lower host) answer)" "Buf_Files w' = (Buf_Files w2)(path := None)"
proof (cases "baseline = ''''")
  case True
  with assms refused show ?thesis by (auto simp: Buf_CheckBreaking_def)
next
  case image: False
  obtain created w1 where created: "createBaseline host w = (created, w1)" by fastforce
  then show ?thesis
  proof (cases rule: createBaseline_cases)
    case (1 e)
    with created assms image refused show ?thesis
      by (auto simp: Buf_CheckBreaking_def bindE_def attempt_def)
  next
    case (2 path)
    let ?store = "bindE (writeBaseline host path baseline) (\<lambda>_. host_error (Host_CloseErr host))"
    obtain stored w2 where stored: "?store w1 = (stored, w2)" by fastforce
    obtain answer w3 where ran: "runCommand host (breaking_spec cfg workdir path) w2 = (answer, w3)" by fastforce
    have run: "Buf_CheckBreaking cfg host workdir baseline w =
        (Inr (case stored of Inl err \<Rightarrow> (Some err, failed_check '''' '''')
            | Inr _ \<Rightarrow> judgeBreaking cfg (Host_lower host) answer),
         (case stored of Inl _ \<Rightarrow> w2 | Inr _ \<Rightarrow> w3)\<lparr>Buf_Files :=
           (Buf_Files (case stored of Inl _ \<Rightarrow> w2 | Inr _ \<Rightarrow> w3))(path := None)\<rparr>)"
      using image created stored ran 2(1)
      by (cases stored)
        (simp_all add: Buf_CheckBreaking_def breaking_spec_def [symmetric] attempt_def Let_def bindE_def [of "attempt _"]
          bindE_def [of "bindE (attempt _) _"] bindE_def [of "removeBaselineFile _"] ret_def)
    obtain written w4 where written: "writeBaseline host path baseline w1 = (written, w4)" by fastforce
    have files: "Buf_Files w2 = (Buf_Files w)(path \<mapsto> Regular (if written = Inr () then baseline else ''''))"
      using written
    proof (cases rule: writeBaseline_cases)
      case (1 e)
      with stored written 2 show ?thesis by (auto simp: bindE_def)
    next
      case _: 2
      with stored written 2 show ?thesis by (auto simp: bindE_def dest!: host_error_files)
    qed
    show ?thesis
    proof (cases stored)
      case (Inl err)
      show ?thesis
        by (rule unwritten [of err _ path]) (use assms run files Inl 2 in \<open>auto split: if_splits\<close>)
    next
      case (Inr u)
      with stored written have "written = Inr ()" by (auto simp: bindE_def split: sum.splits)
      with files have "Buf_Files w2 = (Buf_Files w)(path \<mapsto> Regular baseline)" by simp
      from that(3) [OF image 2(2) this ran] assms run Inr show ?thesis by auto
    qed
  qed
qed

lemma breaking_outcome:
  assumes "Buf_CheckBreaking cfg host workdir baseline w = (Inr (None, res), w')"
  shows "Check_Status res = Some BreakingReportStatusPassed \<and> Check_Changes res = []
    \<or> Check_Status res = Some BreakingReportStatusBreaking \<and> Check_Changes res \<noteq> []
      \<and> Check_Changes res = parseBreakingDiagnostics (Host_lower host) (Check_RawOutput res)"
  using assms
proof (cases rule: Buf_CheckBreaking_cases)
  case (ran path n w1 answer w2)
  then show ?thesis by (auto simp: judgeBreaking_def Let_def split: sum.splits if_splits)
qed simp_all

lemma parsed_changes:
  assumes "change \<in> set (parseBreakingDiagnostics low report)"
  shows "\<exists>line \<in> set (map TrimSpace (Split report (CHR 0x0A))). read_off line change"
  using assms line_read_off by (fastforce simp: parseBreakingDiagnostics_def)

text \<open>
  How a command ends: its exit code counts only when the context has not ended meanwhile.
\<close>

lemma runCommand_ends:
  assumes e: "e = Host_Exec host (Buf_Calls w) spec (Buf_Files w)"
  shows "runCommand host spec w =
    ((case (Exec_answer e, Host_CtxErr host (Suc (Buf_Calls w))) of
        (Exited code, None) \<Rightarrow> Inr \<lparr>Cmd_stdout = fold (buffer_Write (Spec_stdoutLimit spec)) (Exec_out e) '''',
             Cmd_stderr = fold (buffer_Write (Spec_stderrLimit spec)) (Exec_err e) '''', Cmd_exitCode = code\<rparr>
      | (Exited code, Some ctxErr) \<Rightarrow> Inl ctxErr
      | (ExecFailed err, None) \<Rightarrow> Inl err
      | (ExecFailed err, Some ctxErr) \<Rightarrow>
          Inl (if ctxErr = DeadlineExceeded \<or> ctxErr = Canceled then ctxErr else err)),
     w\<lparr>Buf_Files := Exec_files e, Buf_Calls := Suc (Suc (Buf_Calls w))\<rparr>)"
  by (cases w; cases "Exec_answer e"; cases "Host_CtxErr host (Suc (Buf_Calls w))")
    (simp_all add: runCommand_def exec_Run_def bindE_def attempt_def raise_def ret_def Let_def e)

lemma Buf_CheckBreaking_ran:
  assumes "Host_TempName host k fs = Inr path" and "baseline \<noteq> ''''"
    and "Host_WriteErr host (Suc k) = None" and "Host_CloseErr host (Suc (Suc k)) = None"
    and "runCommand host (breaking_spec cfg workdir path)
        \<lparr>Buf_Files = fs(path \<mapsto> Regular baseline), Buf_Calls = Suc (Suc (Suc k))\<rparr> = (answer, w2)"
  shows "Buf_CheckBreaking cfg host workdir baseline \<lparr>Buf_Files = fs, Buf_Calls = k\<rparr>
    = (Inr (judgeBreaking cfg (Host_lower host) answer), w2\<lparr>Buf_Files := (Buf_Files w2)(path := None)\<rparr>)"
  using assms
  by (simp add: Buf_CheckBreaking_def createBaseline_def writeBaseline_def bindE_def attempt_def catchE_def
      host_error_def raise_def ret_def Let_def breaking_spec_def)

lemma judged_ended:
  assumes "judgeBreaking cfg low (Inr result) = (err, res)"
    and "report = truncateReport (cmd_report result) (Cli_MaxReportBytes cfg)"
  shows "Check_RawOutput res = report
    \<and> (if Cmd_exitCode result = 0
       then err = None \<and> Check_Status res = Some BreakingReportStatusPassed \<and> Check_Changes res = []
       else if TrimSpace report = '''' \<or> parseBreakingDiagnostics low report = []
       then err \<noteq> None \<and> Check_Status res = Some BreakingReportStatusFailed \<and> Check_Changes res = []
       else err = None \<and> Check_Status res = Some BreakingReportStatusBreaking
         \<and> Check_Changes res = parseBreakingDiagnostics low report)"
  using assms by (auto simp: judgeBreaking_def failed_check_def Let_def split: if_splits)

text \<open>
  C27: what the check compares and what its answer means, for every behaviour of the machine. It always
  answers. Without a baseline image, a temporary file, or its contents it refuses; otherwise the command runs
  on the files as they are plus the baseline image under the temporary name. When the command
  exits and the context is still alive, exit code 0 is a pass, whatever was printed; with any other
  code the changes are those read off the report, and a report without any is an error. In every
  other case it is an error. The temporary file is gone at the end in every case.
\<close>

theorem breaking_check_outcome:
  assumes "Buf_CheckBreaking cfg host workdir baseline w = (r, w')"
  shows "\<exists>err res. r = Inr (err, res)
    \<and> (err \<noteq> None \<longrightarrow> Check_Status res = Some BreakingReportStatusFailed \<and> Check_Changes res = [])
    \<and> (case Host_TempName host (Buf_Calls w) (Buf_Files w) of
         Inl e \<Rightarrow> err \<noteq> None \<and> Buf_Files w' = Buf_Files w
       | Inr path \<Rightarrow>
           if baseline = '''' then err \<noteq> None \<and> Buf_Files w' = Buf_Files w
           else if Host_WriteErr host (Buf_Calls w + 1) \<noteq> None \<or> Host_CloseErr host (Buf_Calls w + 2) \<noteq> None
           then err \<noteq> None \<and> Buf_Files w' = (Buf_Files w)(path := None)
           else let spec = breaking_spec cfg workdir path;
                    e = Host_Exec host (Buf_Calls w + 3) spec ((Buf_Files w)(path \<mapsto> Regular baseline))
                in Buf_Files w' = (Exec_files e)(path := None)
                 \<and> (case (Exec_answer e, Host_CtxErr host (Buf_Calls w + 4)) of
                      (Exited code, None) \<Rightarrow>
                        Check_RawOutput res = report_of cfg spec e code
                        \<and> (if code = 0
                           then err = None \<and> Check_Status res = Some BreakingReportStatusPassed
                             \<and> Check_Changes res = []
                           else if TrimSpace (report_of cfg spec e code) = ''''
                             \<or> parseBreakingDiagnostics (Host_lower host) (report_of cfg spec e code) = []
                           then err \<noteq> None
                           else err = None \<and> Check_Status res = Some BreakingReportStatusBreaking
                             \<and> Check_Changes res
                               = parseBreakingDiagnostics (Host_lower host) (report_of cfg spec e code))
                    | _ \<Rightarrow> err \<noteq> None))"
proof (cases "Host_TempName host (Buf_Calls w) (Buf_Files w)")
  case (Inl e)
  then show ?thesis using assms
    by (cases "baseline = ''''")
      (auto simp: Buf_CheckBreaking_def createBaseline_def bindE_def attempt_def ret_def failed_check_def Let_def)
next
  case (Inr path)
  let ?n = "Buf_Calls w" and ?spec = "breaking_spec cfg workdir path"
  let ?e = "Host_Exec host (?n + 3) ?spec ((Buf_Files w)(path \<mapsto> Regular baseline))"
  show ?thesis
  proof (cases "baseline = '''' \<or> Host_WriteErr host (?n + 1) \<noteq> None \<or> Host_CloseErr host (?n + 2) \<noteq> None")
    case True
    then show ?thesis using assms Inr
      by (cases "baseline = ''''"; cases "Host_WriteErr host (?n + 1)"; cases "Host_CloseErr host (?n + 2)")
        (simp_all add: Buf_CheckBreaking_def createBaseline_def writeBaseline_def bindE_def attempt_def catchE_def
          host_error_def raise_def ret_def failed_check_def Let_def fun_upd_upd, auto)
  next
    case False
    define world where "world = \<lparr>Buf_Files = (Buf_Files w)(path \<mapsto> Regular baseline), Buf_Calls = Suc (Suc (Suc ?n))\<rparr>"
    define answer where "answer = fst (runCommand host ?spec world)"
    have world: "Buf_Files world = (Buf_Files w)(path \<mapsto> Regular baseline)" "Buf_Calls world = Suc (Suc (Suc ?n))"
      by (simp_all add: world_def)
    have "runCommand host ?spec world = (answer, world\<lparr>Buf_Files := Exec_files ?e, Buf_Calls := ?n + 5\<rparr>)"
      unfolding answer_def by (simp add: runCommand_ends world numeral_eq_Suc)
    from Buf_CheckBreaking_ran [OF Inr _ _ _ this [unfolded world_def]] False
    have out: "r = Inr (judgeBreaking cfg (Host_lower host) answer)" "Buf_Files w' = (Exec_files ?e)(path := None)"
      using assms by (cases w; auto simp: numeral_eq_Suc)+
    obtain err res where judged: "judgeBreaking cfg (Host_lower host) answer = (err, res)" by fastforce
    show ?thesis
    proof (cases answer)
      case failed: (Inl e)
      then have "err \<noteq> None" "Check_Status res = Some BreakingReportStatusFailed" "Check_Changes res = []"
        using judged by (auto simp: judgeBreaking_def failed_check_def)
      moreover have "\<not> (\<exists>code. Exec_answer ?e = Exited code \<and> Host_CtxErr host (?n + 4) = None)"
        using failed unfolding answer_def by (auto simp: runCommand_ends world numeral_eq_Suc)
      ultimately show ?thesis
        using out judged Inr False
        by (auto simp: Let_def split: exec_answer.splits option.splits)
    next
      case answered: (Inr result)
      then obtain code where code: "Exec_answer ?e = Exited code" "Host_CtxErr host (?n + 4) = None"
        and result: "result = \<lparr>Cmd_stdout = fold (buffer_Write (Spec_stdoutLimit ?spec)) (Exec_out ?e) '''',
             Cmd_stderr = fold (buffer_Write (Spec_stderrLimit ?spec)) (Exec_err ?e) '''', Cmd_exitCode = code\<rparr>"
        unfolding answer_def
        by (auto simp: runCommand_ends world numeral_eq_Suc split: exec_answer.splits option.splits)
      have report: "report_of cfg ?spec ?e code = truncateReport (cmd_report result) (Cli_MaxReportBytes cfg)"
        by (simp add: report_of_def result)
      from judged_ended [OF judged [unfolded answered] report] show ?thesis
        using out judged Inr False code result by (auto simp: Let_def split: if_splits)
    qed
  qed
qed

text \<open>A tool that leaves the files alone, and temporary names that were free: nothing is left behind.\<close>

theorem check_leaves_no_file:
  assumes "Buf_CheckBreaking cfg host workdir baseline w = (r, w')"
    and "\<And>n spec fs. Exec_files (Host_Exec host n spec fs) = fs"
    and "\<And>n fs path. Host_TempName host n fs = Inr path \<Longrightarrow> fs path = None"
  shows "Buf_Files w' = Buf_Files w"
  using assms(1)
proof (cases rule: Buf_CheckBreaking_cases)
  case (unwritten e path n)
  then show ?thesis using assms(3) [OF unwritten(2)] by auto
next
  case (ran path n w1 answer w2)
  have "Buf_Files w2 = Buf_Files w1" using runCommand_files [OF ran(4)] assms(2) by simp
  then show ?thesis using ran(3,6) assms(3) [OF ran(2)] by auto
qed

end
