(* ===== verification/Buf_Registry.thy ===== *)
theory Buf_Registry
  imports Buf_Claims Registry_Effects Runtime_Effects
begin

text \<open>
  The registry's breaking check with the \<^verbatim>\<open>buf\<close> workflow behind it: what ends up in the tables. The workflow is
  the registry's checker through the adapter below, which the interface makes: the result is only looked at when
  there is no error.
\<close>

definition buf_checker ::
  "BufCliConfig \<Rightarrow> (nat \<Rightarrow> buf_host) \<Rightarrow> (nat \<Rightarrow> string) \<Rightarrow> nat \<Rightarrow> files \<Rightarrow> string \<Rightarrow> string
   \<Rightarrow> goerr + BufBreakingCheckResult" where
  "buf_checker cfg host workdir n fs baseline targetRef =
     (case fst (Buf_CheckBreaking cfg (host n) (workdir n) baseline \<lparr>Buf_Files = fs, Buf_Calls = 0\<rparr>) of
        Inl err \<Rightarrow> Inl (Infra (buf_error_text err))
      | Inr (Some err, result) \<Rightarrow> Inl (Infra (buf_error_text err))
      | Inr (None, result) \<Rightarrow> Inr result)"

definition buf_inspector ::
  "BufCliConfig \<Rightarrow> (nat \<Rightarrow> buf_host) \<Rightarrow> (nat \<Rightarrow> string) \<Rightarrow> nat \<Rightarrow> files \<Rightarrow> bool \<Rightarrow> bool
   \<Rightarrow> goerr option \<times> BufWorkflowResult" where
  "buf_inspector cfg host workdir n fs required wantLint =
     (case fst (Buf_Inspect cfg (host n) (workdir n) required wantLint \<lparr>Buf_Files = fs, Buf_Calls = 0\<rparr>) of
        Inl err \<Rightarrow> (Some (Infra (buf_error_text err)), workflow_result)
      | Inr (err, result) \<Rightarrow> (map_option (\<lambda>e. Infra (buf_error_text e)) err, result))"

section \<open>Answers of a use case that reads first\<close>

definition answers :: "('a \<Rightarrow> world \<Rightarrow> bool) \<Rightarrow> 'a io \<Rightarrow> world \<Rightarrow> bool" where
  "answers P m w \<longleftrightarrow> (\<forall>x w'. m w = (Inr x, w') \<longrightarrow> P x w')"

lemma answers_bind:
  "steps still m \<Longrightarrow> still start w \<Longrightarrow> (\<And>x w1. m w = (Inr x, w1) \<Longrightarrow> still start w1 \<Longrightarrow> answers P (f x) w1)
   \<Longrightarrow> answers P (bindE m f) w"
  unfolding answers_def using stepsD still.step_trans by (fastforce simp: bindE_Inr)

lemma answers_raise: "answers P (raise e) w"
  by (simp add: answers_def)

lemma answers_option: "(\<And>y. x = Some y \<Longrightarrow> answers P (f y) w) \<Longrightarrow> answers P (case x of None \<Rightarrow> raise e | Some y \<Rightarrow> f y) w"
  by (cases x) (simp_all add: answers_raise)

lemma answers_prod: "(\<And>a b c. x = (a, b, c) \<Longrightarrow> answers P (f a b c) w) \<Longrightarrow> answers P (case x of (a, b, c) \<Rightarrow> f a b c) w"
  by (cases x) simp

section \<open>The stored report\<close>

lemma numbered:
  "numberChange reportID now change w = (Inr y, w') \<Longrightarrow>
     \<exists>i. y = change\<lparr>Change_ID := i, Change_ReportID := reportID,
       Change_Severity := (if TrimSpace (Change_Severity change) = '''' then ''error'' else Change_Severity change),
       Change_CreatedAt := now\<rparr>"
  by (auto simp: numberChange_def bindE_Inr)

lemma checks_still:
  "steps still (resolveBreakingBaseline mid against)" "steps still (readStoredArtifact key)"
  "steps still (requireBufYAML tree)"
proof -
  show "steps still (resolveBreakingBaseline mid against)"
    unfolding resolveBreakingBaseline_def orErr_def Let_def
    by (intro still_rules replaceErr_still registry_get_still)
  have "steps still (object_get key)"
    by (auto simp: steps_def still_def same_env_def object_get_def object_call_def stmt_def bindE_def ret_def
        Let_def raise_def split: option.splits)
  then show "steps still (readStoredArtifact key)"
    unfolding readStoredArtifact_def by (intro still_rules)
  show "steps still (requireBufYAML tree)"
    unfolding requireBufYAML_def by (intro still_rules)
qed

lemma CheckBreaking_reads:
  assumes "Registry_Service.CheckBreaking svc req w = (Inr y, w')"
  obtains module baseline targetRef check n fs body result w1
  where "reg_bufBreaking svc = Some check" and "check n fs body targetRef = Inr result"
    and "checkedStatus result \<noteq> BreakingReportStatusFailed" and "still w w1"
    and "storeReport svc module baseline targetRef (checkedStatus result) result w1 = (Inr y, w')"
proof -
  define Q where "Q = (\<lambda>y w'. \<exists>module baseline targetRef check n fs body result w1.
      reg_bufBreaking svc = Some check \<and> check n fs body targetRef = Inr result
      \<and> checkedStatus result \<noteq> BreakingReportStatusFailed \<and> still w w1
      \<and> storeReport svc module baseline targetRef (checkedStatus result) result w1 = (Inr y, w'))"
  have last: "answers Q (storeReport svc module baseline targetRef (checkedStatus result) result) w1"
    if "reg_bufBreaking svc = Some check" "check n fs body targetRef = Inr result"
      "checkedStatus result \<noteq> BreakingReportStatusFailed" "still w w1"
    for module baseline targetRef check n fs body result w1
    using that unfolding answers_def Q_def by blast
  note bind = answers_bind [where start = w and P = Q]
  have "answers Q (Registry_Service.CheckBreaking svc req) w"
    unfolding Registry_Service.CheckBreaking_def Let_def
    by (assumption | rule bind answers_option answers_prod parseName_still replaceErr_still registry_get_still
        extract_still system_still checks_still still_rules still.step_refl last | simp)+
  with assms that show ?thesis unfolding answers_def Q_def by blast
qed

text \<open>A change as it is stored, and the report over its changes.\<close>

definition change_stored :: "BreakingChange \<Rightarrow> change_row \<Rightarrow> bool" where
  "change_stored change row \<longleftrightarrow>
     chg_category row = Change_Category change \<and> chg_file_path row = Change_FilePath change
     \<and> chg_rule_id row = Change_RuleID change \<and> chg_message row = Change_Message change
     \<and> chg_severity row = Change_Severity change"

definition report_db :: "report_row \<Rightarrow> change_row list \<Rightarrow> outbox_row \<Rightarrow> db \<Rightarrow> db" where
  "report_db row rows event d =
     d\<lparr>db_reports := db_reports d @ [row], db_changes := db_changes d @ rows,
       db_outbox := db_outbox d @ [event], db_generated := Suc (db_generated d)\<rparr>"

lemma createChange_Inr:
  assumes "createChange reportID change w = (Inr u, w')"
  shows "\<exists>row. w_db w' = db_changes_update (\<lambda>rs. rs @ [row]) (w_db w)
    \<and> (p_uuid (w_platform w) reportID = Some (chg_report_id row) \<and> change_stored change row)"
  using assms by (auto simp: createChange_def sql_Inr change_stored_def)

lemma createChange_env: "steps same_env (createChange reportID change)"
  unfolding createChange_def by (intro env_rules)

lemma insertReport_Inr:
  assumes "insertReport report w = (Inr u, w')"
  obtains row where "w_db w' = db_reports_update (\<lambda>rs. rs @ [row]) (w_db w)"
    and "p_uuid (w_platform w) (Report_ID report) = Some (rep_id row)"
    and "rep_status row = BreakingReportStatus_String (Report_Status report)"
    and "rep_change_count row = Report_ChangeCount report" and "rep_raw_output row = Report_RawOutput report"
    and "same_env w w'"
proof -
  from assms obtain u mid vid where ids: "p_uuid (w_platform w) (Report_ID report) = Some u"
      "p_uuid (w_platform w) (Report_ModuleID report) = Some mid"
      "p_uuid (w_platform w) (Report_BaseVersionID report) = Some vid"
    by (auto simp: insertReport_def sql_Inr)
  then show ?thesis
    using assms by (intro that [of "\<lparr>rep_id = u, rep_module_id = mid, rep_base_version_id = vid,
             rep_target_ref = Report_TargetRef report,
             rep_status = BreakingReportStatus_String (Report_Status report),
             rep_change_count = Report_ChangeCount report, rep_raw_output = Report_RawOutput report,
             rep_human_summary = Report_HumanSummary report,
             rep_created_at = Report_CreatedAt report\<rparr>"])
      (auto simp: insertReport_def sql_Inr same_env_def)
qed

lemma storeReport_Inr:
  assumes run: "storeReport svc module baseline targetRef status result w = (Inr y, w')" and "\<not> w_tx w"
  obtains row rows event where "w_db w' = report_db row rows event (w_db w)"
    and "rep_status row = BreakingReportStatus_String status"
    and "rep_change_count row = int (length rows)" and "rep_raw_output row = Check_RawOutput result"
    and "\<forall>r \<in> set rows. chg_report_id r = rep_id row"
    and "list_all2 (\<lambda>change r. change_stored (change\<lparr>Change_Severity :=
            (if TrimSpace (Change_Severity change) = '''' then ''error'' else Change_Severity change)\<rparr>) r)
          (if reg_BreakingMaxChanges svc > 0 then take (nat (reg_BreakingMaxChanges svc)) (Check_Changes result)
           else Check_Changes result) rows"
proof -
  define kept_changes where "kept_changes =
     (if reg_BreakingMaxChanges svc > 0 \<and> int (length (Check_Changes result)) > reg_BreakingMaxChanges svc
      then take (nat (reg_BreakingMaxChanges svc)) (Check_Changes result) else Check_Changes result)"
  obtain now w1 reportID w2 changes w3 report u where
      now: "clock_now w = (Inr now, w1)" and random: "NewRandomID w1 = (Inr reportID, w2)"
      and numbers: "collectE kept_changes (numberChange reportID now) w2 = (Inr changes, w3)"
      and fields: "Report_ID report = reportID" "Report_Status report = status"
        "Report_ChangeCount report = int (length changes)" "Report_RawOutput report = Check_RawOutput result"
      and store: "WithinTransaction (bindE (ReportRepo_Create report changes)
        (\<lambda>_. Outbox_Create (NewBreakingReportCreated report))) w3 = (Inr u, w')"
    using run unfolding storeReport_def kept_changes_def [symmetric] Let_def bindE_Inr
    by (elim exE conjE) (erule that, assumption, assumption, simp_all)
  have still: "still w w3"
  proof -
    have "steps still (numberChange i t c)" for i t c
      unfolding numberChange_def NewRandomID_def by (intro still_rules)
    then have numbering: "steps still (collectE kept_changes (numberChange reportID now))"
      by (intro still.steps_rules)
    have drawing: "steps still NewRandomID" unfolding NewRandomID_def by (intro still_rules)
    have "still w w1" "still w1 w2" "still w2 w3"
      using stepsD [OF still_clock now] stepsD [OF drawing random] stepsD [OF numbering numbers] by blast+
    then show ?thesis by (meson still.step_trans)
  qed
  then have outside: "\<not> w_tx w3" and db3: "w_db w3 = w_db w" using assms(2) by (simp_all add: still_def same_env_def)
  let ?w0 = "w3\<lparr>w_calls := Suc (w_calls w3), w_tx := True\<rparr>"
  obtain u1 w4 w5 where create: "ReportRepo_Create report changes ?w0 = (Inr u1, w4)"
      and event: "Outbox_Create (NewBreakingReportCreated report) w4 = (Inr u, w5)" and db: "w_db w' = w_db w5"
    using WithinTransaction_success [OF store outside] unfolding bindE_Inr by metis
  from create obtain u2 w6 where insert: "insertReport report ?w0 = (Inr u2, w6)"
      and loop: "forE changes (createChange (Report_ID report)) w6 = (Inr u1, w4)"
    unfolding ReportRepo_Create_def by (auto simp: WithinTransaction_nested bindE_Inr)
  from insert obtain row where row: "w_db w6 = db_reports_update (\<lambda>rs. rs @ [row]) (w_db ?w0)"
      "p_uuid (w_platform ?w0) (Report_ID report) = Some (rep_id row)"
      "rep_status row = BreakingReportStatus_String status" "rep_change_count row = int (length changes)"
      "rep_raw_output row = Check_RawOutput result" "same_env ?w0 w6"
    using fields by (elim insertReport_Inr) simp
  obtain rows where rows: "w_db w4 = db_changes_update (\<lambda>rs. rs @ rows) (w_db w6)"
      "list_all2 (\<lambda>change r. p_uuid (w_platform w6) (Report_ID report) = Some (chg_report_id r)
         \<and> change_stored change r) changes rows"
    using forE_appends [OF loop, of db_changes_update
        "\<lambda>p change r. p_uuid p (Report_ID report) = Some (chg_report_id r) \<and> change_stored change r",
        OF createChange_Inr createChange_env] by (auto simp: comp_def)
  have numbered: "list_all2 (\<lambda>change numbered. \<exists>i. numbered = change\<lparr>Change_ID := i, Change_ReportID := reportID,
       Change_Severity := (if TrimSpace (Change_Severity change) = '''' then ''error'' else Change_Severity change),
       Change_CreatedAt := now\<rparr>) kept_changes changes"
    by (rule collectE_all2 [OF numbers]) (rule numbered)
  have "list_all2 (\<lambda>change r. change_stored (change\<lparr>Change_Severity :=
          (if TrimSpace (Change_Severity change) = '''' then ''error'' else Change_Severity change)\<rparr>) r)
        kept_changes rows"
    by (rule list_all2_trans [OF _ numbered rows(2)]) (auto simp: change_stored_def)
  moreover have "kept_changes = (if reg_BreakingMaxChanges svc > 0
      then take (nat (reg_BreakingMaxChanges svc)) (Check_Changes result) else Check_Changes result)"
    by (auto simp: kept_changes_def)
  moreover have "\<forall>r \<in> set rows. chg_report_id r = rep_id row"
    using rows(2) row(2,6) by (auto simp: list_all2_conv_all_nth in_set_conv_nth same_env_def)
  moreover have "length rows = length changes" using list_all2_lengthD [OF rows(2)] by simp
  moreover obtain oid at where "w_db w5 = db_outbox_update
      (\<lambda>r. r @ [new_outbox_row oid (NewBreakingReportCreated report) at]) (db_generated_update Suc (w_db w4))"
    using event by (rule Outbox_Create_Inr)
  then have "w_db w' = report_db row rows (new_outbox_row oid (NewBreakingReportCreated report) at) (w_db w)"
    by (simp add: db rows(1) row(1) db3 report_db_def)
  ultimately show ?thesis using row(3-5) by (intro that) auto
qed

text \<open>
  C26: what the breaking check of a proposed source leaves in the tables, with the \<^verbatim>\<open>buf\<close> workflow behind it:
  one report and its event; the changes are those read off the report's own output, up to the configured number; the report
  is breaking exactly when it has changes, and each has a message.
\<close>

theorem breaking_report_stored:
  assumes "Registry_Service.CheckBreaking svc req w = (Inr y, w')" and "\<not> w_tx w"
    and "reg_bufBreaking svc = Some (buf_checker cfg host workdir)"
  shows "\<exists>row rows event n. w_db w' = report_db row rows event (w_db w)
    \<and> rep_status row = (if rows = [] then ''passed'' else ''breaking'')
    \<and> rep_change_count row = int (length rows)
    \<and> (rows \<noteq> [] \<longrightarrow> list_all2 change_stored
        ((if reg_BreakingMaxChanges svc > 0 then take (nat (reg_BreakingMaxChanges svc)) else (\<lambda>x. x))
          (parseBreakingDiagnostics (Host_lower (host n)) (rep_raw_output row))) rows)
    \<and> (\<forall>r \<in> set rows. chg_report_id r = rep_id row \<and> chg_message r \<noteq> '''' \<and> chg_severity r = ''error'')"
proof -
  obtain module baseline targetRef check n fs body result w1
    where check: "reg_bufBreaking svc = Some check" "check n fs body targetRef = Inr result"
      and good: "checkedStatus result \<noteq> BreakingReportStatusFailed" and "still w w1"
      and store: "storeReport svc module baseline targetRef (checkedStatus result) result w1 = (Inr y, w')"
    using assms(1) by (rule CheckBreaking_reads)
  then have w1: "w_db w1 = w_db w" "\<not> w_tx w1" using assms(2) by (simp_all add: still_def same_env_def)
  from check assms(3) obtain w2 where "Buf_CheckBreaking cfg (host n) (workdir n) body
      \<lparr>Buf_Files = fs, Buf_Calls = 0\<rparr> = (Inr (None, result), w2)"
    by (cases "Buf_CheckBreaking cfg (host n) (workdir n) body \<lparr>Buf_Files = fs, Buf_Calls = 0\<rparr>")
      (auto simp: buf_checker_def split: sum.splits option.splits)
  note outcome = breaking_outcome [OF this]
  obtain row rows event where stored: "w_db w' = report_db row rows event (w_db w1)"
      "rep_status row = BreakingReportStatus_String (checkedStatus result)"
      "rep_change_count row = int (length rows)" "rep_raw_output row = Check_RawOutput result"
      "\<forall>r \<in> set rows. chg_report_id r = rep_id row"
    and rows: "list_all2 (\<lambda>change r. change_stored (change\<lparr>Change_Severity :=
            (if TrimSpace (Change_Severity change) = '''' then ''error'' else Change_Severity change)\<rparr>) r)
          (if reg_BreakingMaxChanges svc > 0 then take (nat (reg_BreakingMaxChanges svc)) (Check_Changes result)
           else Check_Changes result) rows"
    by (rule storeReport_Inr [OF store w1(2)])
  let ?parsed = "parseBreakingDiagnostics (Host_lower (host n)) (Check_RawOutput result)"
  show ?thesis
  proof (cases "Check_Changes result = []")
    case True
    then have "rows = []" using rows by (simp split: if_splits)
    then show ?thesis
      using outcome True good stored w1(1) unfolding checkedStatus_def by (intro exI [of _ row] exI [of _ rows]) auto
  next
    case False
    then have changes: "Check_Status result = Some BreakingReportStatusBreaking" "Check_Changes result = ?parsed"
      using outcome by auto
    let ?kept = "(if reg_BreakingMaxChanges svc > 0 then take (nat (reg_BreakingMaxChanges svc)) else (\<lambda>x. x)) ?parsed"
    have good: "Change_Severity c = ''error'' \<and> Change_Message c \<noteq> ''''" if "c \<in> set ?kept" for c
      using that parsed_changes [of c "Host_lower (host n)" "Check_RawOutput result"]
      by (auto simp: read_off_def split: if_splits dest: in_set_takeD)
    have "list_all2 (\<lambda>change r. change_stored (change\<lparr>Change_Severity :=
            (if TrimSpace (Change_Severity change) = '''' then ''error'' else Change_Severity change)\<rparr>) r) ?kept rows"
      using rows changes(2) by (simp split: if_splits)
    then have all: "list_all2 change_stored ?kept rows"
      by (rule list.rel_mono_strong) (use good in \<open>auto simp: change_stored_def\<close>)
    have "?kept \<noteq> []" using False changes(2) by simp
    then have "rows \<noteq> []" using all by (metis list_all2_Nil2)
    moreover have "chg_message r \<noteq> '''' \<and> chg_severity r = ''error''" if "r \<in> set rows" for r
    proof -
      from all that obtain c where "c \<in> set ?kept" "change_stored c r"
        by (metis (no_types, lifting) in_set_conv_nth list_all2_conv_all_nth)
      with good [of c] show ?thesis by (simp add: change_stored_def)
    qed
    moreover have "rep_status row = ''breaking''" using stored(2) changes(1) by (simp add: checkedStatus_def)
    ultimately show ?thesis
      using stored all w1(1) by (intro exI [of _ row] exI [of _ rows] exI [of _ event] exI [of _ n]) simp
  qed
qed

section \<open>What a publication stores of the image\<close>

text \<open>
  An inspection without an error: the image is what \<^verbatim>\<open>buf build\<close> printed, the digest is of the image, and the metadata is what
  the image's descriptors declare.
\<close>

lemma Buf_Inspect_Inr:
  assumes "Buf_Inspect cfg host workdir required wantLint w = (Inr (None, result), w')"
  obtains descriptors where "Workflow_BufImage result \<noteq> ''''"
    and "Workflow_BufImageDigest result = ''sha256:'' @ Host_sha256 host (Workflow_BufImage result)"
    and "Host_unmarshal host (Workflow_BufImage result) = Inr descriptors"
    and "Workflow_DescriptorMetadata result = map extractFile descriptors"
    and "Lint_Status (Workflow_LintResult result) \<noteq> BufLintStatusFailed"
    and "Cli_RequireConfig cfg \<or> required \<longrightarrow> Buf_BufYAMLPresent (Workflow_ConfigInfo result)"
proof -
  obtain inspected w1 where config: "inspectConfig host workdir w = (inspected, w1)" by fastforce
  obtain built w2 where build: "runBuild cfg host workdir w1 = (built, w2)" by fastforce
  obtain lint w3 where lint: "runLint cfg host workdir wantLint w2 = (lint, w3)" by fastforce
  have "lint = Inr lr \<Longrightarrow> fst lr = None \<Longrightarrow> Lint_Status (snd lr) \<noteq> BufLintStatusFailed" for lr
    using lint by (auto simp: runLint_def bindE_def attempt_def ret_def Let_def no_lint_def
        BufLintStatusNotRun_def BufLintStatusFailed_def BufLintStatusPassed_def BufLintStatusWarning_def
        split: if_splits prod.splits sum.splits)
  moreover have "built = Inr b \<Longrightarrow> Cmd_stdout b \<noteq> ''''" for b
    using build by (auto simp: runBuild_def bindE_Inr)
  ultimately show ?thesis
    using assms config build lint that
    by (auto simp: Buf_Inspect_def bindE_def attempt_def ret_def Let_def workflow_result_def ExtractDescriptorMetadata_def
        split: sum.splits option.splits if_splits prod.splits)
qed

text \<open>
  C28: a source the registry accepts for publication, with the \<^verbatim>\<open>buf\<close> workflow behind it: the digest is that of the
  image, lint was not failed, and the messages, enumerations and services in the metadata have exactly the full names
  that the image's files declare, in their order, the services with their methods and these with their types.
\<close>

theorem inspected_names_declared:
  assumes "inspectSource svc (buf_inspector cfg host workdir) body w = (Inr result, w')"
  shows "\<exists>n descriptors. Host_unmarshal (host n) (Workflow_BufImage result) = Inr descriptors
    \<and> Workflow_BufImage result \<noteq> ''''
    \<and> Workflow_BufImageDigest result = ''sha256:'' @ Host_sha256 (host n) (Workflow_BufImage result)
    \<and> Lint_Status (Workflow_LintResult result) \<noteq> BufLintStatusFailed
    \<and> list_all2 (\<lambda>d f. File_Path f = FileD_Name d \<and> map Import_Path (File_Imports f) = FileD_Dependency d
         \<and> concat (map message_names (File_Messages f)) =
              concat (map (declared_names (FileD_Package d)) (FileD_MessageType d))
         \<and> map (\<lambda>s. (PService_FullName s, map (\<lambda>m. (Method_Name m, Method_InputType m, Method_OutputType m))
               (PService_Methods s))) (File_Services f)
           = map (\<lambda>(name, methods). (scoped (FileD_Package d) name,
               map (\<lambda>m. (MethodD_Name m, MethodD_InputType m, MethodD_OutputType m)) methods)) (FileD_Service d)
         \<and> map Enum_FullName (File_Enums f) = map (\<lambda>e. scoped (FileD_Package d) (EnumD_Name e)) (FileD_EnumType d))
       descriptors (Workflow_DescriptorMetadata result)"
proof -
  let ?inspect = "\<lambda>n fs. buf_inspector cfg host workdir n fs (reg_BufRequireConfig svc)
      (reg_BufLintMode svc \<noteq> BufLintModeDisabled)"
  from assms obtain n fs w2 where step: "(case ?inspect n fs of
        (Some err, r) \<Rightarrow> raise (mapBufWorkflowError err r)
      | (None, r) \<Rightarrow> if Workflow_BufImage r = '''' then raise (Registry RegErrBufBuildFailed) else ret r) w2
      = (Inr result, w')"
    unfolding inspectSource_def bindE_Inr by (elim exE conjE) (rule that)
  obtain e res where pair: "?inspect n fs = (e, res)" by fastforce
  have inspected: "?inspect n fs = (None, result)"
    using step unfolding pair by (cases e) (simp_all split: if_splits)
  obtain r w1 where run: "Buf_Inspect cfg (host n) (workdir n) (reg_BufRequireConfig svc)
      (reg_BufLintMode svc \<noteq> BufLintModeDisabled) \<lparr>Buf_Files = fs, Buf_Calls = 0\<rparr> = (r, w1)" by fastforce
  with inspected have "r = Inr (None, result)"
    by (cases r) (auto simp: buf_inspector_def)
  with run have "Buf_Inspect cfg (host n) (workdir n) (reg_BufRequireConfig svc)
      (reg_BufLintMode svc \<noteq> BufLintModeDisabled) \<lparr>Buf_Files = fs, Buf_Calls = 0\<rparr> = (Inr (None, result), w1)"
    by simp
  then obtain descriptors where result: "Workflow_BufImage result \<noteq> ''''"
      "Workflow_BufImageDigest result = ''sha256:'' @ Host_sha256 (host n) (Workflow_BufImage result)"
      "Host_unmarshal (host n) (Workflow_BufImage result) = Inr descriptors"
      "Workflow_DescriptorMetadata result = map extractFile descriptors"
      "Lint_Status (Workflow_LintResult result) \<noteq> BufLintStatusFailed"
    by (rule Buf_Inspect_Inr)
  have names: "concat (map (message_names \<circ> extractMessage package '''') ds) = concat (map (declared_names package) ds)"
    for ds package
    by (induction ds) (simp_all add: extract_names)
  have paths: "map Import_Path (extractImports d) = FileD_Dependency d" for d
    unfolding extractImports_def map_map comp_def case_prod_unfold by (simp add: map_snd_enumerate [unfolded snd_def])
  have "list_all2 (\<lambda>d f. File_Path f = FileD_Name d \<and> map Import_Path (File_Imports f) = FileD_Dependency d
         \<and> concat (map message_names (File_Messages f)) =
              concat (map (declared_names (FileD_Package d)) (FileD_MessageType d))
         \<and> map (\<lambda>s. (PService_FullName s, map (\<lambda>m. (Method_Name m, Method_InputType m, Method_OutputType m))
               (PService_Methods s))) (File_Services f)
           = map (\<lambda>(name, methods). (scoped (FileD_Package d) name,
               map (\<lambda>m. (MethodD_Name m, MethodD_InputType m, MethodD_OutputType m)) methods)) (FileD_Service d)
         \<and> map Enum_FullName (File_Enums f) = map (\<lambda>e. scoped (FileD_Package d) (EnumD_Name e)) (FileD_EnumType d))
       ds (map extractFile ds)" for ds
    by (auto simp: list_all2_map2 list_all2_same extractFile_def extractMessages_def extractEnums_def
        extractServices_def scoped_def joinProtoName_def names paths)
  with result show ?thesis by (intro exI [of _ n] exI [of _ descriptors]) simp
qed

end
