(* ===== verification/Buf_Witnesses.thy ===== *)
theory Buf_Witnesses
  imports Buf_Registry Registry_Witnesses
begin

text \<open>
  The properties of the \<^verbatim>\<open>buf\<close> workflow applied: a machine whose \<^verbatim>\<open>buf breaking\<close> complains about one field
  with the exit code 100, and whose image has one message with a nested one.
\<close>

definition sample_execution :: "commandSpec \<Rightarrow> files \<Rightarrow> execution" where
  "sample_execution spec fs =
     (let breaking = (hd (Spec_args spec) = ''breaking'') in
      \<lparr>Exec_out = (if breaking then [''a.proto:1:1:Field gone (FIELD_NO_DELETE)'', newline] else [''image'']),
       Exec_err = [], Exec_answer = Exited (if breaking then 100 else 0), Exec_files = fs\<rparr>)"

definition sample_descriptor :: FileDescriptor where
  "sample_descriptor = \<lparr>FileD_Name = ''a.proto'', FileD_Package = ''billing'', FileD_Syntax = ''proto3'',
     FileD_Dependency = [''b.proto''], FileD_PublicDependency = [], FileD_WeakDependency = [], FileD_Service = [(''Payments'', [])],
     FileD_MessageType = [Descriptor ''Invoice'' [] [Descriptor ''Line'' [] [] [] [] False] [] [] False],
     FileD_EnumType = []\<rparr>"

definition sample_host :: buf_host where
  "sample_host = \<lparr>Host_TempName = (\<lambda>n fs. if fs ''/tmp/b'' = None then Inr ''/tmp/b'' else Inl (Buf_Error ''full'')),
     Host_WriteErr = (\<lambda>n. None), Host_CloseErr = (\<lambda>n. None), Host_ReadErr = (\<lambda>n. None),
     Host_Exec = (\<lambda>n. sample_execution), Host_CtxErr = (\<lambda>n. None), Host_sha256 = (\<lambda>s. ''sum''),
     Host_lower = (\<lambda>s. s), Host_unmarshal = (\<lambda>s. Inr [sample_descriptor])\<rparr>"

definition sample_cli :: BufCliConfig where
  "sample_cli = newWorkflow \<lparr>Cli_BinaryPath = '''', Cli_BuildTimeout = 0, Cli_LintTimeout = 0, Cli_LintMode = '''',
     Cli_RequireConfig = True, Cli_MaxReportBytes = 0\<rparr>"

definition sample_check :: "(buf_error + buf_error option \<times> BufBreakingCheckResult) \<times> buf_state" where
  "sample_check = Buf_CheckBreaking sample_cli sample_host ''/w'' ''base''
     \<lparr>Buf_Files = [''/w'' \<mapsto> Directory], Buf_Calls = 0\<rparr>"

lemma sample_check_value:
  "(case fst sample_check of Inr (None, res) \<Rightarrow> map Change_RuleID (Check_Changes res) | _ \<Rightarrow> []) = [''FIELD_NO_DELETE'']"
  by code_simp

lemma sample_check_run:
  obtains res where "sample_check = (Inr (None, res), snd sample_check)"
proof -
  from sample_check_value obtain res where "fst sample_check = Inr (None, res)"
    by (auto split: sum.splits option.splits prod.splits)
  then show ?thesis using that [of res] by (metis prod.collapse)
qed

theorem breaking_check_outcome_witness:
  "\<exists>res. fst sample_check = Inr (None, res) \<and> Check_Status res = Some BreakingReportStatusBreaking
     \<and> Check_Changes res = parseBreakingDiagnostics (\<lambda>s. s) (Check_RawOutput res)"
proof -
  obtain res where run: "sample_check = (Inr (None, res), snd sample_check)" by (rule sample_check_run)
  then have "fst sample_check = Inr (None, res)" by (metis fst_conv)
  moreover from sample_check_value this have "Check_Changes res \<noteq> []" by auto
  ultimately show ?thesis
    using breaking_check_outcome [OF run [unfolded sample_check_def]]
    by (auto simp: sample_host_def sample_execution_def breaking_spec_def Let_def split: if_splits)
qed

theorem check_leaves_no_file_witness: "Buf_Files (snd sample_check) = [''/w'' \<mapsto> Directory]"
proof -
  obtain res where run: "sample_check = (Inr (None, res), snd sample_check)" by (rule sample_check_run)
  have quiet: "Exec_files (Host_Exec sample_host n spec fs) = fs" for n spec fs
    by (simp add: sample_host_def sample_execution_def Let_def)
  have free: "Host_TempName sample_host n fs = Inr path \<Longrightarrow> fs path = None" for n fs path
    by (simp add: sample_host_def split: if_splits)
  show ?thesis
    unfolding sample_check_def
    by (subst check_leaves_no_file [OF run [unfolded sample_check_def]]) (simp_all add: quiet free)
qed

text \<open>The registry checks a proposed source against the version it published.\<close>

definition breaking_service :: RegistryService where
  "breaking_service = sample_service\<lparr>reg_bufBreaking := Some (buf_checker sample_cli (\<lambda>n. sample_host) (\<lambda>n. ''/tmp/w''))\<rparr>"

definition checked_run :: "(goerr + BreakingReport \<times> BreakingChange list) \<times> world" where
  "checked_run = Registry_Service.CheckBreaking breaking_service
     \<lparr>Breaking_ModuleName = ''billing'', Breaking_Against = ''latest'', Breaking_TargetRef = ''main'',
      Breaking_ProposedSourceArchive = Some sample_reader, Breaking_ArchiveSizeBytes = 3\<rparr> (snd published_run)"

lemma checked_run_value: "succeeded checked_run" "\<not> w_tx (snd published_run)"
  by code_simp+

theorem breaking_report_stored_witness:
  "\<exists>row rows event. w_db (snd checked_run) = report_db row rows event (w_db (snd published_run))
     \<and> rep_change_count row = int (length rows)"
proof -
  obtain y where run: "checked_run = (Inr y, snd checked_run)"
    using checked_run_value(1) unfolding checked_run_def by (rule succeededE)
  have checker: "reg_bufBreaking breaking_service =
      Some (buf_checker sample_cli (\<lambda>n. sample_host) (\<lambda>n. ''/tmp/w''))"
    by (simp add: breaking_service_def)
  show ?thesis
    using breaking_report_stored [OF run [unfolded checked_run_def] checked_run_value(2) checker]
    unfolding checked_run_def [symmetric] by blast
qed

definition inspected_run :: "(goerr + BufWorkflowResult) \<times> world" where
  "inspected_run = inspectSource sample_service (buf_inspector sample_cli (\<lambda>n. sample_host) (\<lambda>n. ''/tmp/w'')) ''tar''
     (sample_world sample_registry)"

lemma inspected_run_value: "succeeded inspected_run"
  by code_simp

theorem inspected_names_declared_witness:
  "\<exists>result. fst inspected_run = Inr result \<and> Workflow_BufImageDigest result = ''sha256:sum''
     \<and> map (\<lambda>f. concat (map message_names (File_Messages f))) (Workflow_DescriptorMetadata result)
       = [ [''billing.Invoice'', ''billing.Invoice.Line''] ]
     \<and> map (\<lambda>f. map PService_FullName (File_Services f)) (Workflow_DescriptorMetadata result)
       = [ [''billing.Payments''] ]"
proof -
  obtain result where run: "inspected_run = (Inr result, snd inspected_run)"
    using inspected_run_value unfolding inspected_run_def by (rule succeededE)
  then have "fst inspected_run = Inr result" by (metis fst_conv)
  with inspected_names_declared [OF run [unfolded inspected_run_def]] show ?thesis
    by (auto simp: sample_host_def sample_descriptor_def list_all2_Cons1 scoped_def map_eq_Cons_conv)
qed

end
