(* ===== verification/Spec2Isabelle.thy ===== *)
theory Spec2Isabelle
  imports Archive_Claims Registry_Witnesses Runtime_Witnesses Outbox_Progress Approval_Witnesses
    Policy_Claims Http_Claims Dependency_Witnesses Mr_Witnesses Buf_Witnesses
begin

text \<open>
  A verification development of ProtoRadar, a registry of protobuf modules with breaking-change
  approval, dependency tracking and a runtime inventory (Go, under \<^verbatim>\<open>src/internal\<close>).

  \<^bold>\<open>The program and its model.\<close> HTTP requests are authenticated and dispatched to use cases; a use case
  validates its input, reads through the PostgreSQL repositories, and runs one transaction that writes
  rows, audit rows and one outbox record; a publisher claims outbox records and dispatches them. Artifacts
  go to an object store. The model follows this layering, one group of theories per part:

  \<^item> \<open>Go_Prelude\<close>, \<open>Go_Effects\<close>: Go's strings (bytes) with \<^verbatim>\<open>strings.TrimSpace\<close> and its relatives; functions
    with errors as sums, statement sequences, loops, and \<open>steps R m\<close>, "every run of \<open>m\<close> stays in the
    preorder \<open>R\<close>", whose rules (locale \<open>effect_preorder\<close>) carry most proofs about effects.
  \<^item> \<open>Domain_Model\<close>, \<open>Domain_Entities\<close>: \<^verbatim>\<open>domain/*.go\<close> (identifiers, names, enumerations and their parsers,
    entities and validation).
  \<^item> \<open>Store\<close>: the tables of \<^verbatim>\<open>migrations/*.up.sql\<close>, statements, faults, clock, random source,
    \<^verbatim>\<open>WithinTransaction\<close> of \<^verbatim>\<open>repository/postgres/db.go\<close>; \<open>same_env\<close> and \<open>healthy\<close>.
  \<^item> \<open>Repo_Governance\<close>, \<open>Repo_Registry\<close>, \<open>Repo_Artifacts\<close>, \<open>Repo_Dependencies\<close>, \<open>Repo_Metadata\<close>,
    \<open>Repo_Runtime\<close>, \<open>Outbox_Store\<close>: \<^verbatim>\<open>repository/postgres/*.go\<close>, one definition per operation.
  \<^item> \<open>Audit_Events\<close>: \<^verbatim>\<open>audit/audit.go\<close> and the records of \<^verbatim>\<open>integration/protoradarevents\<close>.
  \<^item> \<open>Policy\<close>, \<open>Approval_Service\<close>, \<open>Owner_Service\<close>: \<^verbatim>\<open>usecase/governance\<close>. \<open>Approval_Effects\<close> says what the
    steps do to the tables, \<open>Approval_Protocol\<close> is the abstract machine (\<open>ledger_step\<close>) with its invariant
    and the refinement by the service, \<open>Approval_Claims\<close>, \<open>Approval_Opening\<close> (a new request, with the policy's
    input read off the tables), \<open>Approval_Race\<close> (two concurrent approvals, and that no later request repairs
    the totals they lost), \<open>Owner_Claims\<close> and \<open>Policy_Claims\<close> hold the properties, \<open>Approval_Witnesses\<close> their
    instances.
  \<^item> \<open>Access\<close>, \<open>Http_Api\<close>, \<open>Http_Claims\<close>: \<^verbatim>\<open>identity\<close>, \<^verbatim>\<open>authorization\<close>, \<^verbatim>\<open>edition\<close> and the governance endpoints of
    \<^verbatim>\<open>transport/http\<close>, from the request to the response.
  \<^item> \<open>Dependency_Resolver\<close>, \<open>Dependency_Effects\<close>, \<open>Dependency_Claims\<close>, \<open>Dependency_Witnesses\<close>:
    \<^verbatim>\<open>usecase/dependencygraph\<close> and \<^verbatim>\<open>usecase/registry/dependencies.go\<close>.
  \<^item> \<open>Breaking_Format\<close>, \<open>Archive\<close>, \<open>Archive_Claims\<close>: \<^verbatim>\<open>format/breaking\<close> and \<^verbatim>\<open>workspace/archive.go\<close>.
  \<^item> \<open>Registry_Service\<close>, \<open>Registry_Reads\<close>, \<open>Registry_Effects\<close>, \<open>Registry_Claims\<close>, \<open>Registry_Links\<close>,
    \<open>Registry_Witnesses\<close>: \<^verbatim>\<open>usecase/registry\<close>.
  \<^item> \<open>Runtime_Service\<close>, \<open>Runtime_Effects\<close>, \<open>Runtime_Claims\<close>, \<open>Runtime_Witnesses\<close>: \<^verbatim>\<open>usecase/runtimeinventory\<close>.
  \<^item> \<open>Outbox_Publisher\<close>, \<open>Outbox_System\<close>: \<^verbatim>\<open>outbox/publisher.go\<close> over any repository with the contract
    \<open>outbox_repository\<close>, and the contract proved of the PostgreSQL one; \<open>Outbox_Progress\<close> shows that the
    publisher's loop gets every due record published.
  \<^item> \<open>Go_Text\<close>, \<open>Mr_Render\<close>, \<open>Mr_Runner\<close>, \<open>Mr_Claims\<close>, \<open>Mr_Witnesses\<close>: the check of a merge request,
    \<^verbatim>\<open>usecase/gitlabmr\<close> with the comment of \<^verbatim>\<open>format/gitlabmr\<close> and its redaction of secrets. The clients of
    the ProtoRadar server and of GitLab are functions on an unspecified state; GitLab's listing of notes is
    one page of them.
  \<^item> \<open>Atomicity\<close>, \<open>Samples\<close>: operations that fail without a trace; the concrete world of the witnesses.

  \<^item> \<open>Descriptor_Extract\<close>, \<open>Buf_Workflow\<close>, \<open>Buf_Claims\<close>, \<open>Buf_Registry\<close>, \<open>Buf_Witnesses\<close>:
    \<^verbatim>\<open>infrastructure/bufcli\<close>, the commands of the \<^verbatim>\<open>buf\<close> tool and what their output means; \<open>Buf_Registry\<close> puts this workflow
    behind the registry's interface.

  A record field \<^verbatim>\<open>F\<close> of a struct \<^verbatim>\<open>T\<close> is \<open>T_F\<close> or has an abbreviated prefix; operations keep their names, with
  the repository's name in front where two packages use the same one.

  \<^bold>\<open>What the lemmas show.\<close> The approval workflow refines a state machine of three tables in which a
  request's status and counters are the tally of its requirements; from it follow the invariants of all
  reachable states. The remaining groups give the functional behaviour of every writing operation with its
  error branches, who may decide, what a failed operation leaves behind, the reference of the policy, the
  resolver and the authentication, the bounds of the backoff and of unpacking (of the bytes written, also
  when it fails), the round trip of publishing and downloading, the comment and exit code of the merge request
  check, and the defects found on the way (the findings of the manifest).

  \<^bold>\<open>Conventions and bounds.\<close> Strings are byte strings and PostgreSQL orders text bytewise (the collation
  \<^verbatim>\<open>C\<close>); rows that compare equal stay in insertion order. A statement is atomic; a commit that fails has not
  happened (a commit in doubt is not modelled); requests are handled one at a time except where a property
  interleaves their halves. Times are integers, without the rounding of a \<^verbatim>\<open>timestamptz\<close> to microseconds. A
  transaction whose statement failed goes on to its end as the code does, which always returns the
  error. A negative \<^verbatim>\<open>LIMIT\<close>, which the handlers exclude, is not modelled. The function that rebuilds a
  message tree may a priori run for ever (it is a partial function into options), and \<open>message_tree_ends\<close>
  proves that it ends; the event loop of the publisher runs over the list of events it receives. Sizes in archives are 64-bit words.

  \<^bold>\<open>Parameters.\<close> The keyed hash of tokens, digests, gzip and tar decoding, the URL parser, JSON encoding, PostgreSQL's
  reading of a uuid and the \<^verbatim>\<open>buf\<close> tool are arguments; \<open>uuid_laws\<close> states that a uuid's canonical text is
  accepted and plain.

  \<^bold>\<open>Not modelled.\<close> Loggers and failure observers, which return nothing; the migration runner and the down
  migrations; disk errors and links in the file system of \<open>Archive\<close>; the HTML user interface, the command line client and the
  GitLab API client (input and output of other programs); the wiring of the server except for the approval service.
\<close>

end
